(* ===== verification/Prelude.thy ===== *)
theory Prelude
  imports Main "HOL-Library.Word"
begin

text \<open>
  Shared vocabulary of the development: JSON values as the Python code sees them after
  \<^verbatim>\<open>json.loads\<close> (or a psycopg JSONB read), the Python string primitives the modelled code
  calls, exceptions as values of a sum type, and tables of rows with an SQL-style
  \<open>UPDATE ... WHERE\<close>.

  Strings are lists of HOL characters; a character stands for the Unicode code point of the same
  number, so the model's texts range over code points below 256 (Latin-1), and the character
  classes below are Python's classes restricted to that range.  JSON numbers are integers: no
  modelled branch looks at the fractional part of a number.
\<close>

named_theorems exn_simps \<open>computation rules for the exception sum\<close>
named_theorems dict_simps \<open>computation rules for reads of Python dictionaries\<close>
named_theorems table_simps \<open>rules for tables and SQL-style updates\<close>

section \<open>Python values and dictionaries\<close>

datatype json =
    JNull
  | JBool bool
  | JInt int
  | JStr string
  | JList "json list"
  | JObj "(string \<times> json) list"
  | JTime int

text \<open>
  \<open>JTime\<close> is a \<^verbatim>\<open>datetime\<close> psycopg read and nothing has made a text of yet (its microseconds since the
  epoch): no JSON text holds one, and \<^verbatim>\<open>json.dumps\<close> raises \<^verbatim>\<open>TypeError\<close> on it.
\<close>

fun json_safe :: "json \<Rightarrow> bool" where
  "json_safe (JTime _) = False"
| "json_safe (JList xs) = list_all json_safe xs"
| "json_safe (JObj d) = list_all (json_safe \<circ> snd) d"
| "json_safe _ = True"

type_synonym dict = "(string \<times> json) list"

text \<open>\<^verbatim>\<open>d.get(key, default)\<close>, \<^verbatim>\<open>d.get(key)\<close>, \<^verbatim>\<open>bool(x)\<close> and \<^verbatim>\<open>x or y\<close>.\<close>

definition get_or :: "dict \<Rightarrow> string \<Rightarrow> json \<Rightarrow> json" where
  "get_or d k x = (case map_of d k of None \<Rightarrow> x | Some v \<Rightarrow> v)"

definition get :: "dict \<Rightarrow> string \<Rightarrow> json" where
  "get d k = get_or d k JNull"

fun truthy :: "json \<Rightarrow> bool" where
  "truthy JNull = False"
| "truthy (JBool b) = b"
| "truthy (JInt n) = (n \<noteq> 0)"
| "truthy (JStr s) = (s \<noteq> [])"
| "truthy (JList xs) = (xs \<noteq> [])"
| "truthy (JObj d) = (d \<noteq> [])"
| "truthy (JTime _) = True"

definition or_else :: "json \<Rightarrow> json \<Rightarrow> json" where
  "or_else x y = (if truthy x then x else y)"

fun is_str :: "json \<Rightarrow> bool" where
  "is_str (JStr _) = True"
| "is_str _ = False"

fun as_str :: "json \<Rightarrow> string option" where
  "as_str (JStr s) = Some s"
| "as_str _ = None"

fun as_obj :: "json \<Rightarrow> dict option" where
  "as_obj (JObj d) = Some d"
| "as_obj _ = None"

definition opt_str :: "string option \<Rightarrow> json" where
  "opt_str s = (case s of None \<Rightarrow> JNull | Some x \<Rightarrow> JStr x)"

text \<open>\<^verbatim>\<open>not s\<close> on an \<^verbatim>\<open>Optional[str]\<close>: both \<^verbatim>\<open>None\<close> and the empty string are falsy.\<close>

definition falsy :: "string option \<Rightarrow> bool" where
  "falsy s = (case s of None \<Rightarrow> True | Some x \<Rightarrow> x = [])"

lemma get_Cons [dict_simps]: "get ((k, v) # d) k' = (if k = k' then v else get d k')"
  by (simp add: get_def get_or_def)

lemma get_Nil [dict_simps]: "get [] k = JNull"
  by (simp add: get_def get_or_def)

lemma get_or_Cons [dict_simps]: "get_or ((k, v) # d) k' x = (if k = k' then v else get_or d k' x)"
  by (simp add: get_or_def)

lemma get_or_Nil [dict_simps]: "get_or [] k x = x"
  by (simp add: get_or_def)

lemma get_append_left [dict_simps]: "k \<in> fst ` set d \<Longrightarrow> get (d @ d') k = get d k"
  by (auto simp: get_def get_or_def map_add_def map_of_append split: option.splits
      dest: weak_map_of_SomeI)

lemma falsy_simps [simp]: "falsy None" "falsy (Some []) " "falsy (Some (c # cs)) = False"
  by (simp_all add: falsy_def)

lemma not_falsy_iff: "\<not> falsy s \<longleftrightarrow> (\<exists>x. s = Some x \<and> x \<noteq> [])"
  by (cases s) (auto simp: falsy_def)

lemma as_str_Some [simp]: "as_str j = Some s \<longleftrightarrow> j = JStr s"
  by (cases j) auto

lemma as_obj_Some [simp]: "as_obj j = Some d \<longleftrightarrow> j = JObj d"
  by (cases j) auto

lemma truthy_opt_str [simp]: "truthy (opt_str s) \<longleftrightarrow> \<not> falsy s"
  by (cases s) (auto simp: opt_str_def falsy_def)

lemma opt_str_inject [simp]: "opt_str a = opt_str b \<longleftrightarrow> a = b"
  by (cases a; cases b) (auto simp: opt_str_def)

section \<open>Python strings\<close>

definition code :: "char \<Rightarrow> nat" where
  "code c = of_char c"

definition py_isspace :: "char \<Rightarrow> bool" where
  "py_isspace c = (let n = code c in
     (9 \<le> n \<and> n \<le> 13) \<or> (28 \<le> n \<and> n \<le> 32) \<or> n = 133 \<or> n = 160)"

definition py_isdigit :: "char \<Rightarrow> bool" where
  "py_isdigit c = (let n = code c in 48 \<le> n \<and> n \<le> 57)"

text \<open>\<^verbatim>\<open>\w\<close> of \<^verbatim>\<open>re\<close> on a \<^verbatim>\<open>str\<close> pattern: alphanumeric or underscore.\<close>

definition py_isword :: "char \<Rightarrow> bool" where
  "py_isword c = (let n = code c in
     (48 \<le> n \<and> n \<le> 57) \<or> (65 \<le> n \<and> n \<le> 90) \<or> n = 95 \<or> (97 \<le> n \<and> n \<le> 122)
     \<or> n \<in> {170, 178, 179, 181, 185, 186, 188, 189, 190}
     \<or> (192 \<le> n \<and> n \<noteq> 215 \<and> n \<noteq> 247))"

definition py_lower_char :: "char \<Rightarrow> char" where
  "py_lower_char c = (let n = code c in
     if (65 \<le> n \<and> n \<le> 90) \<or> (192 \<le> n \<and> n \<le> 222 \<and> n \<noteq> 215) then char_of (n + 32) else c)"

definition py_lower :: "string \<Rightarrow> string" where
  "py_lower s = map py_lower_char s"

definition lstrip_by :: "(char \<Rightarrow> bool) \<Rightarrow> string \<Rightarrow> string" where
  "lstrip_by p s = dropWhile p s"

definition rstrip_by :: "(char \<Rightarrow> bool) \<Rightarrow> string \<Rightarrow> string" where
  "rstrip_by p s = rev (dropWhile p (rev s))"

definition py_strip :: "string \<Rightarrow> string" where
  "py_strip s = rstrip_by py_isspace (lstrip_by py_isspace s)"

text \<open>\<^verbatim>\<open>s.rsplit(sep, 1)[-1]\<close> and \<^verbatim>\<open>s.rsplit(sep, 1)[0]\<close> for a one-character separator.\<close>

definition rsplit_last :: "char \<Rightarrow> string \<Rightarrow> string" where
  "rsplit_last c s = rev (takeWhile (\<lambda>x. x \<noteq> c) (rev s))"

definition rsplit_first :: "char \<Rightarrow> string \<Rightarrow> string" where
  "rsplit_first c s = (if c \<in> set s then rev (tl (dropWhile (\<lambda>x. x \<noteq> c) (rev s))) else s)"

text \<open>\<^verbatim>\<open>s.split(sep)\<close> for a one-character separator.\<close>

fun py_split :: "char \<Rightarrow> string \<Rightarrow> string list" where
  "py_split c [] = [[]]"
| "py_split c (x # xs) =
     (if x = c then [] # py_split c xs
      else (case py_split c xs of [] \<Rightarrow> [[x]] | p # ps \<Rightarrow> (x # p) # ps))"

fun starts_with :: "string \<Rightarrow> string \<Rightarrow> bool" where
  "starts_with s [] = True"
| "starts_with [] (_ # _) = False"
| "starts_with (x # xs) (y # ys) = (x = y \<and> starts_with xs ys)"

text \<open>Decimal rendering of an integer, as an f-string does it.\<close>

fun show_nat :: "nat \<Rightarrow> string" where
  "show_nat n = (if n < 10 then [char_of (48 + n)] else show_nat (n div 10) @ [char_of (48 + n mod 10)])"

declare show_nat.simps [simp del]

definition show_int :: "int \<Rightarrow> string" where
  "show_int i = (if i < 0 then CHR ''-'' # show_nat (nat (- i)) else show_nat (nat i))"

text \<open>
  \<^verbatim>\<open>repr\<close> and \<^verbatim>\<open>str\<close> of a JSON value: \<^verbatim>\<open>repr\<close> quotes a text with single quotes unless that alone
  would need escaping, and escapes the unprintable characters.
\<close>

definition hex_digit :: "nat \<Rightarrow> char" where
  "hex_digit n = (if n < 10 then char_of (48 + n) else char_of (87 + n))"

definition py_isprintable :: "char \<Rightarrow> bool" where
  "py_isprintable c = (let n = code c in (32 \<le> n \<and> n \<le> 126) \<or> (161 \<le> n \<and> n \<noteq> 173))"

definition repr_char :: "char \<Rightarrow> char \<Rightarrow> string" where
  "repr_char q c = (let n = code c; b = char_of (92 :: nat) in
     if c = q \<or> n = 92 then [b, c]
     else if n = 10 then [b, CHR ''n'']
     else if n = 13 then [b, CHR ''r'']
     else if n = 9 then [b, CHR ''t'']
     else if py_isprintable c then [c]
     else [b, CHR ''x'', hex_digit (n div 16), hex_digit (n mod 16)])"

definition repr_str :: "string \<Rightarrow> string" where
  "repr_str s = (let q = (if char_of (39 :: nat) \<in> set s \<and> char_of (34 :: nat) \<notin> set s
                        then char_of (34 :: nat) else char_of (39 :: nat))
                 in q # concat (map (repr_char q) s) @ [q])"

fun join_with :: "string \<Rightarrow> string list \<Rightarrow> string" where
  "join_with sep [] = []"
| "join_with sep [s] = s"
| "join_with sep (s # t # ts) = s @ sep @ join_with sep (t # ts)"

fun py_repr :: "json \<Rightarrow> string" where
  "py_repr JNull = ''None''"
| "py_repr (JBool b) = (if b then ''True'' else ''False'')"
| "py_repr (JInt n) = show_int n"
| "py_repr (JStr s) = repr_str s"
| "py_repr (JList xs) = ''['' @ join_with '', '' (map py_repr xs) @ '']''"
| "py_repr (JObj d) = ''{'' @ join_with '', '' (map (\<lambda>(k, v). repr_str k @ '': '' @ py_repr v) d) @ ''}''"
| "py_repr (JTime t) = ''datetime.datetime('' @ show_int t @ '')''"

definition py_str :: "json \<Rightarrow> string" where
  "py_str j = (case j of JStr s \<Rightarrow> s | _ \<Rightarrow> py_repr j)"

lemma py_str_JStr [simp]: "py_str (JStr s) = s"
  by (simp add: py_str_def)

lemma show_nat_last: "show_nat n = xs @ [c] \<Longrightarrow> c = char_of (48 + n mod 10) \<and>
   (if n < 10 then xs = [] else xs = show_nat (n div 10))"
  by (subst (asm) show_nat.simps) (auto split: if_splits)

lemma show_nat_nonempty [simp]: "show_nat n \<noteq> []"
  by (subst show_nat.simps) simp

lemma show_nat_digits: "c \<in> set (show_nat n) \<Longrightarrow> code c \<in> {48..57}"
proof (induction n rule: show_nat.induct)
  case (1 n)
  show ?case
  proof (cases "n < 10")
    case True
    with 1 show ?thesis by (subst (asm) show_nat.simps) (simp add: code_def)
  next
    case False
    with 1 have "c \<in> set (show_nat (n div 10)) \<or> c = char_of (48 + n mod 10)"
      by (subst (asm) show_nat.simps) auto
    then show ?thesis
    proof
      assume "c \<in> set (show_nat (n div 10))"
      with 1 False show ?thesis by blast
    next
      assume "c = char_of (48 + n mod 10)"
      moreover have "n mod 10 < 10" by simp
      ultimately show ?thesis by (simp add: code_def)
    qed
  qed
qed

lemma char_of_digit_inject: "a < 10 \<Longrightarrow> b < 10 \<Longrightarrow>
   (char_of (48 + a) :: char) = char_of (48 + b) \<longleftrightarrow> a = (b :: nat)"
  by (auto dest: arg_cong [where f = "of_char :: char \<Rightarrow> nat"])

lemma show_nat_inj: "show_nat m = show_nat n \<Longrightarrow> m = n"
proof (induction m arbitrary: n rule: show_nat.induct)
  case (1 m)
  have m: "show_nat m = (if m < 10 then [] else show_nat (m div 10)) @ [char_of (48 + m mod 10)]"
    by (subst show_nat.simps) simp
  have n: "show_nat n = (if n < 10 then [] else show_nat (n div 10)) @ [char_of (48 + n mod 10)]"
    by (subst show_nat.simps) simp
  from 1(2) m n have d: "m mod 10 = n mod 10"
    and p: "(if m < 10 then [] else show_nat (m div 10)) = (if n < 10 then [] else show_nat (n div 10))"
    by (auto simp: char_of_digit_inject)
  show ?case
  proof (cases "m < 10")
    case True
    with p have "n < 10" by (metis show_nat_nonempty)
    with True d show ?thesis by simp
  next
    case False
    with p have n10: "\<not> n < 10" by (metis show_nat_nonempty)
    with p False have "show_nat (m div 10) = show_nat (n div 10)" by simp
    with 1(1) False have "m div 10 = n div 10" by blast
    with d show ?thesis by (metis div_mult_mod_eq)
  qed
qed

lemma show_nat_no_minus: "hd (show_nat n) \<noteq> CHR ''-''"
proof
  assume "hd (show_nat n) = CHR ''-''"
  then have "CHR ''-'' \<in> set (show_nat n)" by (metis hd_in_set show_nat_nonempty)
  then show False by (auto dest: show_nat_digits simp: code_def)
qed

lemma show_int_inject [simp]: "show_int i = show_int j \<longleftrightarrow> i = j"
proof
  assume eq: "show_int i = show_int j"
  show "i = j"
  proof (cases "i < 0")
    case True
    then have i: "show_int i = CHR ''-'' # show_nat (nat (- i))" by (simp add: show_int_def)
    have "j < 0"
    proof (rule ccontr)
      assume "\<not> j < 0"
      then have "show_int j = show_nat (nat j)" by (simp add: show_int_def)
      with eq i show False using show_nat_no_minus [of "nat j"] by (metis list.sel(1))
    qed
    with eq i True have "show_nat (nat (- i)) = show_nat (nat (- j))" by (simp add: show_int_def)
    with True \<open>j < 0\<close> show ?thesis by (auto dest: show_nat_inj)
  next
    case False
    then have i: "show_int i = show_nat (nat i)" by (simp add: show_int_def)
    have "\<not> j < 0"
    proof
      assume "j < 0"
      then have "show_int j = CHR ''-'' # show_nat (nat (- j))" by (simp add: show_int_def)
      with eq i show False using show_nat_no_minus [of "nat i"] by (metis list.sel(1))
    qed
    with eq i False have "show_nat (nat i) = show_nat (nat j)" by (simp add: show_int_def)
    with False \<open>\<not> j < 0\<close> show ?thesis by (auto dest: show_nat_inj)
  qed
qed simp

lemma rsplit_last_notin: "c \<notin> set t \<Longrightarrow> rsplit_last c (s @ c # t) = t"
  by (simp add: rsplit_last_def takeWhile_append)

lemma rsplit_last_free: "c \<notin> set (rsplit_last c s)"
  unfolding rsplit_last_def by (auto dest: set_takeWhileD)

lemma set_rstrip_by: "set (rstrip_by p s) \<subseteq> set s"
  unfolding rstrip_by_def by (metis set_dropWhileD set_rev subsetI)

lemma length_rstrip_by: "length (rstrip_by p s) \<le> length s"
  unfolding rstrip_by_def using length_dropWhile_le [of p "rev s"] by simp

lemma length_rsplit_first: "length (rsplit_first c s) \<le> length s"
  unfolding rsplit_first_def using length_dropWhile_le [of "\<lambda>x. x \<noteq> c" "rev s"]
  by (auto simp del: length_dropWhile_le)

lemma py_strip_idem: "py_strip (py_strip s) = py_strip s"
proof -
  have d: "dropWhile p (dropWhile p xs) = dropWhile p xs" for p :: "char \<Rightarrow> bool" and xs
    by (induction xs) auto
  have l: "dropWhile p (rev (dropWhile p (rev (dropWhile p s)))) = rev (dropWhile p (rev (dropWhile p s)))"
    for p :: "char \<Rightarrow> bool" and s
  proof (cases "dropWhile p (rev (dropWhile p s)) = []")
    case False
    let ?u = "dropWhile p s"
    have "?u \<noteq> []"
    proof
      assume "?u = []"
      with False show False by simp
    qed
    obtain v where v: "?u = rev (dropWhile p (rev ?u)) @ v"
      by (metis rev_append rev_rev_ident takeWhile_dropWhile_id)
    then have "hd (rev (dropWhile p (rev ?u))) = hd ?u" using False by (metis hd_append2 rev_is_Nil_conv)
    moreover have "\<not> p (hd ?u)" using \<open>?u \<noteq> []\<close> by (rule hd_dropWhile)
    ultimately show ?thesis using False by (metis dropWhile_eq_self_iff)
  next
    case True
    then show ?thesis by (metis dropWhile.simps(1) rev.simps(1))
  qed
  show ?thesis
    by (simp add: py_strip_def lstrip_by_def rstrip_by_def d l)
qed

section \<open>Exceptions as values\<close>

text \<open>
  The governed classes of \<^verbatim>\<open>errors.py\<close>, and the exceptions that can leave a modelled function:
  the driver error that carries a class, or any other Python exception with its type name and
  message.
\<close>

datatype error_class =
    Unknown_tool | Unknown_action | Policy_blocked | Not_found | Conflict | Unauthenticated
  | Locked | Auth_expired | Vendor_timeout | Composio_api_error | Configuration_missing
  | Unexpected_error

datatype exn =
    ToolDriverError error_class string
  | PyError string string

definition ebind :: "exn + 'a \<Rightarrow> ('a \<Rightarrow> exn + 'b) \<Rightarrow> exn + 'b" where
  "ebind m f = (case m of Inl e \<Rightarrow> Inl e | Inr x \<Rightarrow> f x)"

definition guard :: "bool \<Rightarrow> exn \<Rightarrow> exn + unit" where
  "guard b e = (if b then Inr () else Inl e)"

lemma ebind_Inl [exn_simps]: "ebind (Inl e) f = Inl e"
  and ebind_Inr [exn_simps]: "ebind (Inr x) f = f x"
  by (simp_all add: ebind_def)

lemma ebind_eq_Inr [exn_simps]: "ebind m f = Inr y \<longleftrightarrow> (\<exists>x. m = Inr x \<and> f x = Inr y)"
  by (cases m) (auto simp: ebind_def)

lemma ebind_eq_Inl [exn_simps]:
  "ebind m f = Inl e \<longleftrightarrow> m = Inl e \<or> (\<exists>x. m = Inr x \<and> f x = Inl e)"
  by (cases m) (auto simp: ebind_def)

lemma guard_eq_Inr [exn_simps]: "guard b e = Inr u \<longleftrightarrow> b"
  by (auto simp: guard_def)

lemma guard_eq_Inl [exn_simps]: "guard b e = Inl e' \<longleftrightarrow> \<not> b \<and> e' = e"
  by (auto simp: guard_def)

text \<open>\<^verbatim>\<open>hmac.compare_digest\<close> on two texts: both must be ASCII.\<close>

definition compare_digest :: "string \<Rightarrow> string \<Rightarrow> exn + bool" where
  "compare_digest a b =
     (if list_all (\<lambda>c. code c < 128) (a @ b) then Inr (a = b)
      else Inl (PyError ''TypeError'' ''comparing strings with non-ASCII characters is not supported''))"

section \<open>Parameters of a handler call\<close>

text \<open>\<^verbatim>\<open>_common.read_string\<close>: the first non-empty string among the keys.\<close>

fun read_string :: "dict \<Rightarrow> string list \<Rightarrow> string option" where
  "read_string params [] = None"
| "read_string params (key # keys) =
     (case get params key of
        JStr value \<Rightarrow> (if value \<noteq> [] then Some value else read_string params keys)
      | _ \<Rightarrow> read_string params keys)"

lemma read_string_nonempty: "read_string params keys = Some s \<Longrightarrow> s \<noteq> []"
  by (induction params keys rule: read_string.induct) (auto split: json.splits if_splits)

lemma read_string_member:
  "read_string params keys = Some s \<Longrightarrow> \<exists>k \<in> set keys. get params k = JStr s"
  by (induction params keys rule: read_string.induct) (auto split: json.splits if_splits)

section \<open>Tables\<close>

definition update_where :: "('r \<Rightarrow> bool) \<Rightarrow> ('r \<Rightarrow> 'r) \<Rightarrow> 'r list \<Rightarrow> 'r list" where
  "update_where P f rows = map (\<lambda>r. if P r then f r else r) rows"

text \<open>An \<open>UPDATE\<close> never changes which keys a table holds when it leaves the key column alone.\<close>

lemma update_where_keys [table_simps]:
  "(\<And>r. key (f r) = key r) \<Longrightarrow> map key (update_where P f rows) = map key rows"
  by (induction rows) (auto simp: update_where_def)

lemma length_update_where [table_simps]: "length (update_where P f rows) = length rows"
  by (simp add: update_where_def)

lemma set_update_where [table_simps]:
  "set (update_where P f rows) = (\<lambda>r. if P r then f r else r) ` set rows"
  by (simp add: update_where_def)

lemma update_where_none: "(\<And>r. r \<in> set rows \<Longrightarrow> \<not> P r) \<Longrightarrow> update_where P f rows = rows"
  by (simp add: update_where_def map_idI)

lemma update_where_Nil [table_simps]: "update_where P f [] = []"
  and update_where_Cons [table_simps]:
    "update_where P f (r # rows) = (if P r then f r else r) # update_where P f rows"
  by (simp_all add: update_where_def)

lemma find_update_where_other:
  "(\<And>r. r \<in> set rows \<Longrightarrow> P r \<Longrightarrow> \<not> Q r \<and> \<not> Q (f r)) \<Longrightarrow>
   List.find Q (update_where P f rows) = List.find Q rows"
  by (induction rows) (auto simp: table_simps)

lemma distinct_map_inj: "distinct (map key rows) \<Longrightarrow> r \<in> set rows \<Longrightarrow> s \<in> set rows \<Longrightarrow>
   key r = key s \<Longrightarrow> r = s"
  by (induction rows) (force simp: rev_image_eqI)+

lemma find_SomeD: "List.find P xs = Some x \<Longrightarrow> x \<in> set xs \<and> P x"
  by (induction xs) (auto split: if_splits)

lemma find_unique_and: "distinct (map key rows) \<Longrightarrow> r \<in> set rows \<Longrightarrow> key r = k \<Longrightarrow> P r \<Longrightarrow>
   List.find (\<lambda>x. key x = k \<and> P x) rows = Some r"
  by (induction rows) auto

lemma find_unique: "distinct (map key rows) \<Longrightarrow> r \<in> set rows \<Longrightarrow> key r = k \<Longrightarrow>
   List.find (\<lambda>x. key x = k) rows = Some r"
  by (induction rows) auto

end
