(* ===== verification/Catalog.thy ===== *)
theory Catalog
  imports Prelude
begin

text \<open>
  The governed tool surface: \<^verbatim>\<open>tool_catalog.py\<close> (the v1 catalog), \<^verbatim>\<open>plugin/profiles.py\<close>
  (the Profile Tool Allowlists), \<^verbatim>\<open>plugin/schemas.py\<close> (one entry per catalog action) and the
  registration loop of \<^verbatim>\<open>plugin/__init__.py\<close>, which decides what a live agent can call.
  Python's frozen sets are lists here; every use of them is a membership test.
\<close>

section \<open>The catalog\<close>

definition TOOL_CATALOG :: "(string \<times> string list) list" where
  "TOOL_CATALOG = [
     (''toee_identity_lookup'',
      [''match_phone'', ''match_email_sender'', ''get_email_link_status'', ''link_identity'']),
     (''toee_knowledge_search'',
      [''search_public_site'', ''search_operational_policy'']),
     (''toee_shopify_read'',
      [''get_order'', ''list_customer_orders'', ''search_products'', ''get_product'']),
     (''toee_qbo_read'',
      [''get_invoice'', ''list_customer_invoices'', ''get_ar_summary'']),
     (''toee_easyroutes_read'',
      [''get_delivery_status'', ''get_route_details'']),
     (''toee_delivery_promise'',
      [''get_order_delivery'', ''get_product_promise'', ''get_delivery_quote'']),
     (''toee_square_payment_link'',
      [''send_payment_link'']),
     (''toee_sms_reply'',
      [''send_message'']),
     (''toee_case'',
      [''create_case'', ''update_case'']),
     (''toee_customer_memory'',
      [''upsert_preference'', ''clear_preference'', ''get_preferences'',
       ''get_my_memory_summary'', ''dismiss_proposal'', ''get_memory_audit'']),
     (''toee_case_manage'',
      [''claim_case'', ''assign_case'', ''update_priority'', ''update_contact_reason'',
       ''resolve_case'', ''send_sms_message'']),
     (''toee_copilot_draft'',
      [''draft_sms'', ''draft_email'', ''draft_internal_note'']),
     (''toee_workbench_read'',
      [''get_case'', ''list_cases'', ''get_audit_log'', ''get_thread'', ''get_thread_by_phone'',
       ''get_thread_by_email'', ''list_auto_handled'', ''get_auto_handled'',
       ''list_sales_outreach'', ''get_sales_outreach'']),
     (''toee_knowledge_ops'',
      [''get_policy_slots'', ''update_policy_slot'', ''submit_for_eval'',
       ''rollback_published_policy'', ''get_corpus_status'', ''enqueue_corpus_reingest'']),
     (''toee_eval_review'',
      [''list_eval_runs'', ''get_eval_run'', ''sign_off_medium_failure'',
       ''promote_pending_policy'']),
     (''toee_workbench_admin'',
      [''list_accounts'', ''create_account'', ''update_account_role'', ''disable_account'',
       ''authenticate'']),
     (''toee_agent_experience'',
      [''propose_experience'', ''list_agent_experience'', ''confirm_experience'',
       ''reject_experience'']),
     (''toee_metrics'',
      [''get_aggregate_metrics'']),
     (''toee_retention'',
      [''trigger_retention_sweep'', ''enqueue_retention_sweep'', ''get_retention_status'']),
     (''toee_job_queue'',
      [''list_dead_letters'', ''replay_job'']),
     (''toee_integrations'',
      [''get_integrations_status'', ''initiate_reconnect'', ''reprobe_now''])]"

definition tool_names :: "string list" where
  "tool_names = map fst TOOL_CATALOG"

definition is_tool_name :: "string \<Rightarrow> bool" where
  "is_tool_name value = (map_of TOOL_CATALOG value \<noteq> None)"

definition is_tool_action :: "string \<Rightarrow> string \<Rightarrow> bool" where
  "is_tool_action tool action =
     (case map_of TOOL_CATALOG tool of None \<Rightarrow> False | Some actions \<Rightarrow> action \<in> set actions)"

section \<open>Profiles\<close>

definition EXTERNAL :: string where
  "EXTERNAL = ''customer_service_external''"

definition INTERNAL :: string where
  "INTERNAL = ''internal_copilot''"

definition SUPERVISOR :: string where
  "SUPERVISOR = ''supervisor_admin''"

definition PROFILES :: "string list" where
  "PROFILES = [EXTERNAL, INTERNAL, SUPERVISOR]"

definition DEFAULT_PROFILE :: string where
  "DEFAULT_PROFILE = EXTERNAL"

definition PROFILE_TOOL_ALLOWLIST :: "(string \<times> string list) list" where
  "PROFILE_TOOL_ALLOWLIST = [
     (EXTERNAL, [
       ''toee_knowledge_search'', ''toee_shopify_read'', ''toee_qbo_read'',
       ''toee_easyroutes_read'', ''toee_delivery_promise'', ''toee_square_payment_link'',
       ''toee_sms_reply'', ''toee_case'', ''toee_identity_lookup'', ''toee_customer_memory'']),
     (INTERNAL, [
       ''toee_knowledge_search'', ''toee_shopify_read'', ''toee_qbo_read'',
       ''toee_easyroutes_read'', ''toee_delivery_promise'', ''toee_identity_lookup'',
       ''toee_case_manage'', ''toee_copilot_draft'', ''toee_workbench_read'',
       ''toee_customer_memory'', ''toee_agent_experience'', ''toee_metrics'', ''toee_retention'']),
     (SUPERVISOR, [
       ''toee_knowledge_ops'', ''toee_eval_review'', ''toee_workbench_admin'',
       ''toee_workbench_read'', ''toee_knowledge_search'', ''toee_job_queue'',
       ''toee_integrations''])]"

definition allowlisted_tools :: "string \<Rightarrow> exn + string list" where
  "allowlisted_tools profile =
     (case map_of PROFILE_TOOL_ALLOWLIST profile of
        Some tools \<Rightarrow> Inr tools
      | None \<Rightarrow> Inl (PyError ''ValueError'' (''Unknown profile '' @ profile)))"

text \<open>
  \<^verbatim>\<open>resolve_profile(ctx)\<close>: \<open>ctx_profile\<close> is \<^verbatim>\<open>getattr(ctx, "profile", None)\<close> and \<open>env\<close> the value
  of \<^verbatim>\<open>TOEE_HERMES_PROFILE\<close>.
\<close>

definition resolve_profile :: "string option \<Rightarrow> string option \<Rightarrow> exn + string" where
  "resolve_profile ctx_profile env =
     (let candidate = (if falsy ctx_profile then env else ctx_profile) in
      if falsy candidate then Inr DEFAULT_PROFILE
      else if map_of PROFILE_TOOL_ALLOWLIST (the candidate) = None
      then Inl (PyError ''ValueError'' (''Unknown profile '' @ the candidate))
      else Inr (the candidate))"

section \<open>Registration: what a live agent can call\<close>

definition AGENT_EXCLUDED_ACTIONS :: "(string \<times> string) list" where
  "AGENT_EXCLUDED_ACTIONS = [
     (''toee_identity_lookup'', ''link_identity''),
     (''toee_customer_memory'', ''get_memory_audit''),
     (''toee_agent_experience'', ''list_agent_experience''),
     (''toee_agent_experience'', ''confirm_experience''),
     (''toee_agent_experience'', ''reject_experience''),
     (''toee_metrics'', ''get_aggregate_metrics''),
     (''toee_retention'', ''trigger_retention_sweep''),
     (''toee_retention'', ''enqueue_retention_sweep''),
     (''toee_retention'', ''get_retention_status''),
     (''toee_knowledge_ops'', ''enqueue_corpus_reingest''),
     (''toee_job_queue'', ''list_dead_letters''),
     (''toee_job_queue'', ''replay_job''),
     (''toee_integrations'', ''get_integrations_status''),
     (''toee_integrations'', ''initiate_reconnect''),
     (''toee_integrations'', ''reprobe_now'')]"

definition hermes_tool_name :: "string \<Rightarrow> string \<Rightarrow> string" where
  "hermes_tool_name tool action = tool @ ''__'' @ action"

record schema_entry =
  se_tool :: string
  se_action :: string
  se_toolset :: string
  se_name :: string

definition build_tool_schemas :: "schema_entry list" where
  "build_tool_schemas =
     concat (map (\<lambda>(tool, actions). map (\<lambda>action.
       \<lparr>se_tool = tool, se_action = action, se_toolset = tool,
        se_name = hermes_tool_name tool action\<rparr>) actions) TOOL_CATALOG)"

text \<open>
  The loop of \<^verbatim>\<open>_register\<close>: the entries for which \<^verbatim>\<open>ctx.register_tool\<close> is called, in order.
\<close>

fun register_loop :: "string list \<Rightarrow> schema_entry list \<Rightarrow> schema_entry list" where
  "register_loop allow [] = []"
| "register_loop allow (entry # entries) =
     (if se_toolset entry \<notin> set allow then register_loop allow entries
      else if (se_tool entry, se_action entry) \<in> set AGENT_EXCLUDED_ACTIONS
      then register_loop allow entries
      else entry # register_loop allow entries)"

definition registered_tools :: "string option \<Rightarrow> string option \<Rightarrow> exn + schema_entry list" where
  "registered_tools ctx_profile env =
     ebind (resolve_profile ctx_profile env) (\<lambda>profile.
     ebind (allowlisted_tools profile) (\<lambda>allow.
     Inr (register_loop allow build_tool_schemas)))"

section \<open>Lemmas\<close>

lemma register_loop_filter:
  "register_loop allow entries =
     filter (\<lambda>e. se_toolset e \<in> set allow \<and> (se_tool e, se_action e) \<notin> set AGENT_EXCLUDED_ACTIONS)
       entries"
  by (induction entries) auto

lemma catalog_distinct: "distinct (map fst TOOL_CATALOG)"
  by (simp add: TOOL_CATALOG_def)

lemma is_tool_action_iff:
  "is_tool_action tool action \<longleftrightarrow> (\<exists>actions. (tool, actions) \<in> set TOOL_CATALOG \<and> action \<in> set actions)"
proof -
  have "is_tool_action tool action \<longleftrightarrow>
      (\<exists>actions. map_of TOOL_CATALOG tool = Some actions \<and> action \<in> set actions)"
    by (auto simp: is_tool_action_def split: option.splits)
  then show ?thesis
    by (simp add: map_of_eq_Some_iff [OF catalog_distinct])
qed

lemma is_tool_action_name: "is_tool_action tool action \<Longrightarrow> is_tool_name tool"
  by (auto simp: is_tool_action_def is_tool_name_def split: option.splits)

lemma set_build_tool_schemas:
  "e \<in> set build_tool_schemas \<longleftrightarrow>
     is_tool_action (se_tool e) (se_action e) \<and> se_toolset e = se_tool e
     \<and> se_name e = hermes_tool_name (se_tool e) (se_action e)"
  by (cases e) (auto simp: build_tool_schemas_def is_tool_action_iff)

lemma resolve_profile_known:
  "resolve_profile c env = Inr p \<Longrightarrow> \<exists>tools. map_of PROFILE_TOOL_ALLOWLIST p = Some tools"
  by (auto simp: resolve_profile_def Let_def DEFAULT_PROFILE_def PROFILE_TOOL_ALLOWLIST_def EXTERNAL_def
      INTERNAL_def SUPERVISOR_def split: if_splits)

lemma resolve_profile_cases:
  "resolve_profile c env = Inr p \<Longrightarrow> p \<in> set PROFILES"
  by (auto dest!: resolve_profile_known map_of_SomeD simp: PROFILES_def PROFILE_TOOL_ALLOWLIST_def)

lemma registered_tools_iff:
  assumes "registered_tools c env = Inr entries"
  obtains p tools where "resolve_profile c env = Inr p" "allowlisted_tools p = Inr tools"
    "entries = filter (\<lambda>e. se_toolset e \<in> set tools
        \<and> (se_tool e, se_action e) \<notin> set AGENT_EXCLUDED_ACTIONS) build_tool_schemas"
  using assms by (auto simp: registered_tools_def exn_simps register_loop_filter)

section \<open>Properties\<close>

lemma catalog_actions_distinct: "list_all (\<lambda>(t, acts). distinct acts) TOOL_CATALOG"
  by (simp add: TOOL_CATALOG_def)

lemma pairs_distinct:
  "distinct (map fst cat) \<Longrightarrow> list_all (\<lambda>(t, acts). distinct acts) cat \<Longrightarrow>
   distinct (concat (map (\<lambda>(t, acts). map (Pair t) acts) cat))"
  by (induction cat) (force simp: distinct_map inj_on_def)+

lemma schemas_distinct: "distinct (map (\<lambda>e. (se_tool e, se_action e)) build_tool_schemas)"
proof -
  have "map (\<lambda>e. (se_tool e, se_action e)) build_tool_schemas = concat (map (\<lambda>(t, acts). map (Pair t) acts) TOOL_CATALOG)"
    unfolding build_tool_schemas_def by (simp add: map_concat comp_def case_prod_beta')
  with pairs_distinct [OF catalog_distinct catalog_actions_distinct] show ?thesis by simp
qed

text \<open>C11.  What a profile's agent is offered: exactly the catalog actions of its allowlisted tools
  that are not on the human-only list, each once, under its own name.  None of the excluded admin
  actions is ever registered, under any profile or configuration.\<close>

theorem registered_exactly:
  assumes "registered_tools c env = Inr entries"
  shows "\<exists>p tools. resolve_profile c env = Inr p \<and> p \<in> set PROFILES \<and> allowlisted_tools p = Inr tools
    \<and> distinct (map (\<lambda>e. (se_tool e, se_action e)) entries)
    \<and> (\<forall>e \<in> set entries. se_name e = hermes_tool_name (se_tool e) (se_action e))
    \<and> (\<lambda>e. (se_tool e, se_action e)) ` set entries =
        {(t, a). is_tool_action t a \<and> t \<in> set tools \<and> (t, a) \<notin> set AGENT_EXCLUDED_ACTIONS}"
proof -
  from assms obtain p tools where p: "resolve_profile c env = Inr p" "allowlisted_tools p = Inr tools"
    and e: "entries = filter (\<lambda>e. se_toolset e \<in> set tools
        \<and> (se_tool e, se_action e) \<notin> set AGENT_EXCLUDED_ACTIONS) build_tool_schemas"
    by (rule registered_tools_iff)
  have "(t, a) \<in> (\<lambda>e. (se_tool e, se_action e)) ` set entries"
    if "is_tool_action t a" "t \<in> set tools" "(t, a) \<notin> set AGENT_EXCLUDED_ACTIONS" for t a
    by (rule image_eqI [of _ _ "\<lparr>se_tool = t, se_action = a, se_toolset = t, se_name = hermes_tool_name t a\<rparr>"])
      (use that in \<open>simp_all add: e set_build_tool_schemas\<close>)
  then have "(\<lambda>e. (se_tool e, se_action e)) ` set entries =
        {(t, a). is_tool_action t a \<and> t \<in> set tools \<and> (t, a) \<notin> set AGENT_EXCLUDED_ACTIONS}"
    by (auto simp: e set_build_tool_schemas)
  moreover have "distinct (map (\<lambda>e. (se_tool e, se_action e)) entries)"
    unfolding e by (rule distinct_map_filter [OF schemas_distinct])
  moreover have "\<forall>e \<in> set entries. se_name e = hermes_tool_name (se_tool e) (se_action e)"
    by (auto simp: e set_build_tool_schemas)
  ultimately show ?thesis using p resolve_profile_cases [OF p(1)] by blast
qed

theorem registered_exactly_witness:
  "\<exists>entries. registered_tools None None = Inr entries
     \<and> (''toee_identity_lookup'', ''link_identity'') \<notin> (\<lambda>e. (se_tool e, se_action e)) ` set entries"
proof -
  have "resolve_profile None None = Inr DEFAULT_PROFILE" by (simp add: resolve_profile_def falsy_def)
  moreover obtain tools where "allowlisted_tools DEFAULT_PROFILE = Inr tools"
    by (simp add: allowlisted_tools_def DEFAULT_PROFILE_def PROFILE_TOOL_ALLOWLIST_def)
  ultimately obtain entries where r: "registered_tools None None = Inr entries"
    by (simp add: registered_tools_def exn_simps)
  from registered_exactly [OF r] obtain tools where "(\<lambda>e. (se_tool e, se_action e)) ` set entries =
      {(t, a). is_tool_action t a \<and> t \<in> set tools \<and> (t, a) \<notin> set AGENT_EXCLUDED_ACTIONS}" by blast
  moreover have "(''toee_identity_lookup'', ''link_identity'') \<in> set AGENT_EXCLUDED_ACTIONS"
    by (simp add: AGENT_EXCLUDED_ACTIONS_def)
  ultimately have "(''toee_identity_lookup'', ''link_identity'') \<notin> (\<lambda>e. (se_tool e, se_action e)) ` set entries"
    by (simp only: mem_Collect_eq prod.case simp_thms)
  with r show ?thesis by blast
qed

end
