(* ===== verification/Dispatch.thy ===== *)
theory Dispatch
  imports Catalog
begin

text \<open>
  Governed dispatch: \<^verbatim>\<open>tool_gate.py\<close>, \<^verbatim>\<open>gates/\<close>, \<^verbatim>\<open>execute.py\<close>, the mock driver's lookup
  (\<^verbatim>\<open>drivers/mock/driver.py\<close>), the driver selection and context binding of
  \<^verbatim>\<open>plugin/__init__.py\<close> and the handler wrapper of \<^verbatim>\<open>plugin/tools.py\<close>.  A driver is a function on
  an explicit backend state; the audit sink is the list of the records emitted to it.
\<close>

section \<open>Requests, contexts and gates\<close>

record request =
  rq_tool :: string
  rq_action :: string
  rq_params :: dict

record ctx =
  profile :: string
  identity :: json
  user_id :: "string option"
  connected_account_id :: "string option"
  ctx_conversation_id :: "string option"
  ctx_sms_session_id :: "string option"

record gate_decision =
  gd_allow :: bool
  gd_error_class :: "error_class option"
  gd_message :: "string option"

type_synonym gate = "request \<Rightarrow> ctx \<Rightarrow> gate_decision"

definition gate_allow :: gate_decision where
  "gate_allow = \<lparr>gd_allow = True, gd_error_class = None, gd_message = None\<rparr>"

definition gate_deny :: "error_class \<Rightarrow> string \<Rightarrow> gate_decision" where
  "gate_deny c m = \<lparr>gd_allow = False, gd_error_class = Some c, gd_message = Some m\<rparr>"

definition allow_all_gate :: gate where
  "allow_all_gate request context = gate_allow"

definition QBO_READ_TOOL :: string where
  "QBO_READ_TOOL = ''toee_qbo_read''"

definition verified_customer_id :: "json \<Rightarrow> string option" where
  "verified_customer_id ident =
     (case ident of
        JObj d \<Rightarrow>
          (if get d ''outcome'' = JStr ''verified_customer''
           then (case get d ''shopify_customer_id'' of
                   JStr customer_id \<Rightarrow> (if customer_id \<noteq> [] then Some customer_id else None)
                 | _ \<Rightarrow> None)
           else None)
      | _ \<Rightarrow> None)"

definition create_external_profile_gate :: "(string \<times> string) list \<Rightarrow> gate" where
  "create_external_profile_gate email_links request context =
     (if rq_tool request \<noteq> QBO_READ_TOOL then gate_allow
      else case verified_customer_id (identity context) of
        None \<Rightarrow> gate_deny Policy_blocked ''QBO read requires a verified customer.''
      | Some customer_id \<Rightarrow>
          (if map_of email_links customer_id \<noteq> Some ''linked''
           then gate_deny Policy_blocked ''QBO read requires a successful customer email link.''
           else gate_allow))"

definition SMS_REPLY_TOOL :: string where
  "SMS_REPLY_TOOL = ''toee_sms_reply''"

definition target_conversation :: "dict \<Rightarrow> json" where
  "target_conversation params = or_else (get params ''conversation_id'') (get params ''conversationId'')"

definition create_turn_binding_gate :: gate where
  "create_turn_binding_gate request context =
     (if rq_tool request \<noteq> SMS_REPLY_TOOL then gate_allow
      else let bound = ctx_conversation_id context in
        if falsy bound then gate_allow
        else if target_conversation (rq_params request) \<noteq> JStr (the bound)
        then gate_deny Policy_blocked ''Outbound reply must target the inbound turn's conversation.''
        else gate_allow)"

section \<open>Execution\<close>

definition TOOL_UNAVAILABLE_MESSAGE :: string where
  "TOOL_UNAVAILABLE_MESSAGE = ''The requested system is temporarily unavailable.''"

record audit_record =
  ar_tool :: string
  ar_action :: string
  ar_driver :: string
  ar_outcome :: string
  ar_error_class :: "error_class option"
  ar_user_id :: "string option"
  ar_connected_account_id :: "string option"

record tool_result =
  tr_ok :: bool
  tr_audit :: audit_record
  tr_data :: json
  tr_error_class :: "error_class option"
  tr_message :: "string option"

record 's driver =
  kind :: string
  exec :: "request \<Rightarrow> ctx \<Rightarrow> 's \<Rightarrow> (exn + json) \<times> 's"

definition tool_fail ::
  "string \<Rightarrow> string \<Rightarrow> string \<Rightarrow> ctx \<Rightarrow> error_class \<Rightarrow> string \<Rightarrow> tool_result" where
  "tool_fail tool action dkind context c message =
     \<lparr>tr_ok = False,
      tr_audit = \<lparr>ar_tool = tool, ar_action = action, ar_driver = dkind,
        ar_outcome = ''unavailable'', ar_error_class = Some c, ar_user_id = user_id context,
        ar_connected_account_id = connected_account_id context\<rparr>,
      tr_data = JNull, tr_error_class = Some c, tr_message = Some message\<rparr>"

text \<open>
  \<^verbatim>\<open>execute_tool\<close>.  The result carries the audit record that was emitted; \<open>sink\<close> is what the
  audit sink has received so far (\<^verbatim>\<open>audit=None\<close> drops the records, which is the same run with
  the returned sink ignored).
\<close>

definition execute_tool ::
  "string \<Rightarrow> string \<Rightarrow> ctx \<Rightarrow> 's driver \<Rightarrow> dict \<Rightarrow> gate option \<Rightarrow> audit_record list \<Rightarrow> 's
     \<Rightarrow> tool_result \<times> audit_record list \<times> 's" where
  "execute_tool tool action context drv params gate_opt sink s =
     (let active_gate = (case gate_opt of None \<Rightarrow> allow_all_gate | Some g \<Rightarrow> g);
          fail = (\<lambda>c m s'. let r = tool_fail tool action (kind drv) context c m
                          in (r, sink @ [tr_audit r], s')) in
      if \<not> is_tool_name tool
      then fail Unknown_tool (''Unknown tool \"'' @ tool @ ''\".'') s
      else if \<not> is_tool_action tool action
      then fail Unknown_action (''Unknown action \"'' @ action @ ''\" for tool \"'' @ tool @ ''\".'') s
      else
        let request = \<lparr>rq_tool = tool, rq_action = action, rq_params = params\<rparr>;
            decision = active_gate request context in
        if \<not> gd_allow decision
        then fail (case gd_error_class decision of None \<Rightarrow> Policy_blocked | Some c \<Rightarrow> c)
               (if falsy (gd_message decision) then ''Tool request blocked by policy.''
                else the (gd_message decision)) s
        else case exec drv request context s of
          (Inl (ToolDriverError c m), s') \<Rightarrow> fail c TOOL_UNAVAILABLE_MESSAGE s'
        | (Inl (PyError n m), s') \<Rightarrow> fail Unexpected_error TOOL_UNAVAILABLE_MESSAGE s'
        | (Inr data, s') \<Rightarrow>
            let record = \<lparr>ar_tool = tool, ar_action = action, ar_driver = kind drv,
                  ar_outcome = ''ok'', ar_error_class = None, ar_user_id = user_id context,
                  ar_connected_account_id = connected_account_id context\<rparr>
            in (\<lparr>tr_ok = True, tr_audit = record, tr_data = data, tr_error_class = None,
                  tr_message = None\<rparr>, sink @ [record], s'))"

section \<open>The mock driver's lookup and the per-tool driver selection\<close>

type_synonym 's handler_registry =
  "(string \<times> (string \<times> (dict \<Rightarrow> ctx \<Rightarrow> 's \<Rightarrow> (exn + json) \<times> 's)) list) list"

text \<open>\<^verbatim>\<open>f"'{s}'"\<close>.\<close>

definition in_quotes :: "string \<Rightarrow> string" where
  "in_quotes s = char_of (39 :: nat) # s @ [char_of (39 :: nat)]"

definition mock_driver_execute ::
  "'s handler_registry \<Rightarrow> request \<Rightarrow> ctx \<Rightarrow> 's \<Rightarrow> (exn + json) \<times> 's" where
  "mock_driver_execute handlers request context s =
     (case map_of handlers (rq_tool request) of
        None \<Rightarrow> (Inl (ToolDriverError Configuration_missing
                   (''No mock handlers registered for tool '' @ in_quotes (rq_tool request) @ ''.'')), s)
      | Some actions \<Rightarrow>
          (case map_of actions (rq_action request) of
             None \<Rightarrow> (Inl (ToolDriverError Configuration_missing
                        (''No mock handler registered for ''
                           @ in_quotes (rq_tool request @ ''.'' @ rq_action request) @ ''.'')), s)
           | Some handler \<Rightarrow> handler (rq_params request) context s))"

definition COMPOSIO_LAYER1_TOOLS :: "string list" where
  "COMPOSIO_LAYER1_TOOLS = [''toee_shopify_read'', ''toee_qbo_read'', ''toee_square_payment_link'']"

datatype backend = Mock | Composio

text \<open>\<^verbatim>\<open>resolve_integration_driver\<close>: \<open>None\<close> is an unset \<^verbatim>\<open>INTEGRATION_DRIVER\<close>.\<close>

definition resolve_integration_driver :: "string option \<Rightarrow> exn + backend" where
  "resolve_integration_driver value =
     (case value of
        None \<Rightarrow> Inr Mock
      | Some v \<Rightarrow>
          (if v = [] then Inr Mock
           else if v = ''mock'' then Inr Mock
           else if v = ''composio'' then Inr Composio
           else Inl (PyError ''ValueError'' (''Unknown INTEGRATION_DRIVER '' @ v))))"

definition build_driver_selector ::
  "'s driver option \<Rightarrow> (string \<times> 's driver) list \<Rightarrow> string option \<Rightarrow> 's driver \<Rightarrow> 's driver
     \<Rightarrow> 's driver \<Rightarrow> 's driver \<Rightarrow> exn + (string \<Rightarrow> 's driver)" where
  "build_driver_selector injected overrides env mock_d composio_d easyroutes_d delivery_d =
     (case injected of
        Some d \<Rightarrow> Inr (\<lambda>_. d)
      | None \<Rightarrow>
          ebind (resolve_integration_driver env) (\<lambda>backend.
          Inr (\<lambda>tool.
            case map_of overrides tool of
              Some d \<Rightarrow> d
            | None \<Rightarrow>
                (if backend = Composio \<and> tool = ''toee_easyroutes_read'' then easyroutes_d
                 else if backend = Composio \<and> tool = ''toee_delivery_promise'' then delivery_d
                 else if backend = Composio \<and> tool \<in> set COMPOSIO_LAYER1_TOOLS then composio_d
                 else mock_d))))"

text \<open>
  \<^verbatim>\<open>_make_context_provider\<close>: the closed-over identity wins over the one in the call's kwargs, and
  the turn binding never comes from the kwargs.
\<close>

definition context_provider ::
  "string \<Rightarrow> json option \<Rightarrow> string option \<Rightarrow> string option \<Rightarrow> dict \<Rightarrow> ctx" where
  "context_provider prof ident conversation_id session_id kwargs =
     \<lparr>profile = prof,
      identity = (case ident of Some i \<Rightarrow> i | None \<Rightarrow> get kwargs ''identity''),
      user_id = as_str (get kwargs ''user_id''),
      connected_account_id = as_str (get kwargs ''connected_account_id''),
      ctx_conversation_id = conversation_id,
      ctx_sms_session_id = session_id\<rparr>"

text \<open>
  \<^verbatim>\<open>make_tool_handler\<close> and \<^verbatim>\<open>serialize_result\<close>, up to the final \<^verbatim>\<open>json.dumps\<close>: the JSON value
  the agent's tool loop receives.
\<close>

definition error_class_name :: "error_class \<Rightarrow> string" where
  "error_class_name c = (case c of
      Unknown_tool \<Rightarrow> ''unknown_tool'' | Unknown_action \<Rightarrow> ''unknown_action''
    | Policy_blocked \<Rightarrow> ''policy_blocked'' | Not_found \<Rightarrow> ''not_found'' | Conflict \<Rightarrow> ''conflict''
    | Unauthenticated \<Rightarrow> ''unauthenticated'' | Locked \<Rightarrow> ''locked''
    | Auth_expired \<Rightarrow> ''auth_expired'' | Vendor_timeout \<Rightarrow> ''vendor_timeout''
    | Composio_api_error \<Rightarrow> ''composio_api_error''
    | Configuration_missing \<Rightarrow> ''configuration_missing''
    | Unexpected_error \<Rightarrow> ''unexpected_error'')"

definition serialize_result :: "tool_result \<Rightarrow> json" where
  "serialize_result r =
     (if tr_ok r then tr_data r
      else JObj [(''error'', opt_str (tr_message r)),
                 (''error_class'', opt_str (map_option error_class_name (tr_error_class r)))])"

definition tool_handler ::
  "string \<Rightarrow> string \<Rightarrow> 's driver \<Rightarrow> (dict \<Rightarrow> ctx) \<Rightarrow> gate option \<Rightarrow> dict \<Rightarrow> dict
     \<Rightarrow> audit_record list \<Rightarrow> 's \<Rightarrow> json \<times> audit_record list \<times> 's" where
  "tool_handler tool action drv provider gate_opt args kwargs sink s =
     (let (r, sink', s') = execute_tool tool action (provider kwargs) drv args gate_opt sink s
      in (serialize_result r, sink', s'))"

section \<open>Lemmas\<close>

lemmas execute_tool_unfold = execute_tool_def Let_def tool_fail_def

definition gate_of :: "gate option \<Rightarrow> gate" where
  "gate_of g = (case g of None \<Rightarrow> allow_all_gate | Some g \<Rightarrow> g)"

definition admitted :: "string \<Rightarrow> string \<Rightarrow> ctx \<Rightarrow> dict \<Rightarrow> gate option \<Rightarrow> bool" where
  "admitted tool action context params g \<longleftrightarrow>
     is_tool_action tool action
     \<and> gd_allow (gate_of g \<lparr>rq_tool = tool, rq_action = action, rq_params = params\<rparr> context)"

lemma execute_tool_not_admitted:
  assumes "\<not> admitted tool action context params g"
  shows "\<exists>c m. execute_tool tool action context drv params g sink s =
     (tool_fail tool action (kind drv) context c m,
      sink @ [tr_audit (tool_fail tool action (kind drv) context c m)], s)"
  using assms
  by (auto simp: execute_tool_def Let_def admitted_def gate_of_def dest: is_tool_action_name)

lemma execute_tool_admitted:
  assumes "admitted tool action context params g"
  shows "execute_tool tool action context drv params g sink s =
     (case exec drv \<lparr>rq_tool = tool, rq_action = action, rq_params = params\<rparr> context s of
        (Inl (ToolDriverError c m), s') \<Rightarrow>
          (let r = tool_fail tool action (kind drv) context c TOOL_UNAVAILABLE_MESSAGE
           in (r, sink @ [tr_audit r], s'))
      | (Inl (PyError n m), s') \<Rightarrow>
          (let r = tool_fail tool action (kind drv) context Unexpected_error TOOL_UNAVAILABLE_MESSAGE
           in (r, sink @ [tr_audit r], s'))
      | (Inr data, s') \<Rightarrow>
          (let record = \<lparr>ar_tool = tool, ar_action = action, ar_driver = kind drv,
                  ar_outcome = ''ok'', ar_error_class = None, ar_user_id = user_id context,
                  ar_connected_account_id = connected_account_id context\<rparr>
           in (\<lparr>tr_ok = True, tr_audit = record, tr_data = data, tr_error_class = None,
                tr_message = None\<rparr>, sink @ [record], s')))"
  using assms is_tool_action_name [of tool action]
  by (simp add: execute_tool_def Let_def admitted_def gate_of_def
      split: prod.split sum.split exn.split)

text \<open>The audit discipline, on every branch: one record, and it is the result's own.\<close>

lemma execute_tool_audit:
  "execute_tool tool action context drv params g sink s = (r, sink', s') \<Longrightarrow> sink' = sink @ [tr_audit r]"
  by (auto simp: execute_tool_def Let_def split: if_splits prod.splits sum.splits exn.splits)

lemma execute_tool_ok:
  assumes "execute_tool tool action context drv params g sink s = (r, sink', s')" and "tr_ok r"
  shows "admitted tool action context params g \<and>
    exec drv \<lparr>rq_tool = tool, rq_action = action, rq_params = params\<rparr> context s = (Inr (tr_data r), s')"
proof (cases "admitted tool action context params g")
  case True
  from assms show ?thesis
    unfolding execute_tool_admitted [OF True]
    by (auto simp: True Let_def tool_fail_def split: prod.splits sum.splits exn.splits)
next
  case False
  from execute_tool_not_admitted [OF this, of drv sink s] assms show ?thesis
    by (auto simp: tool_fail_def)
qed

lemma turn_binding_gate_allow:
  assumes "gd_allow (create_turn_binding_gate request context)"
    and "rq_tool request = SMS_REPLY_TOOL" and "ctx_conversation_id context = Some c" and "c \<noteq> []"
  shows "target_conversation (rq_params request) = JStr c"
  using assms
  by (auto simp: create_turn_binding_gate_def Let_def gate_deny_def falsy_def split: if_splits)

lemma external_gate_allow_iff:
  "gd_allow (create_external_profile_gate links request context) \<longleftrightarrow>
     (rq_tool request = QBO_READ_TOOL \<longrightarrow>
       (\<exists>cid. verified_customer_id (identity context) = Some cid \<and> map_of links cid = Some ''linked''))"
  by (auto simp: create_external_profile_gate_def gate_allow_def gate_deny_def split: option.splits)

section \<open>Properties\<close>

text \<open>C4.  Every call of a tool leaves exactly one audit record, the result's own, on every branch.
  The driver runs only when the action is in the catalog and the gate allowed the request; otherwise
  the backend is untouched.  Data reach the caller only from a successful driver run, and a driver's
  own error text never does.\<close>

theorem governed_execution:
  assumes "execute_tool tool action context drv params g sink s = (r, sink', s')"
  shows "sink' = sink @ [tr_audit r]
    \<and> ar_outcome (tr_audit r) = (if tr_ok r then ''ok'' else ''unavailable'')
    \<and> ar_error_class (tr_audit r) = tr_error_class r
    \<and> (tr_ok r \<longrightarrow> admitted tool action context params g
        \<and> exec drv \<lparr>rq_tool = tool, rq_action = action, rq_params = params\<rparr> context s = (Inr (tr_data r), s'))
    \<and> (\<not> tr_ok r \<longrightarrow> tr_data r = JNull \<and> tr_error_class r \<noteq> None)
    \<and> (\<not> admitted tool action context params g \<longrightarrow> \<not> tr_ok r \<and> s' = s)
    \<and> (admitted tool action context params g \<and> \<not> tr_ok r \<longrightarrow> tr_message r = Some TOOL_UNAVAILABLE_MESSAGE)"
proof (cases "admitted tool action context params g")
  case True
  with execute_tool_ok [OF assms] execute_tool_audit [OF assms] assms show ?thesis
    unfolding execute_tool_admitted [OF True]
    by (auto simp: Let_def tool_fail_def split: prod.splits sum.splits exn.splits)
next
  case False
  with execute_tool_not_admitted [OF False, of drv sink s] assms show ?thesis by (auto simp: tool_fail_def)
qed

theorem governed_execution_witness:
  "\<exists>r. execute_tool ''toee_case'' ''create_case'' (context_provider EXTERNAL None None None [])
       \<lparr>kind = ''mock'', exec = \<lambda>_ _ n :: nat. (Inl (PyError ''KeyError'' ''secret detail''), Suc n)\<rparr> [] None [] 0
       = (r, [tr_audit r], 1)
     \<and> tr_message r = Some TOOL_UNAVAILABLE_MESSAGE \<and> tr_error_class r = Some Unexpected_error"
proof -
  let ?d = "\<lparr>kind = ''mock'', exec = \<lambda>_ _ n :: nat. (Inl (PyError ''KeyError'' ''secret detail''), Suc n)\<rparr>"
  let ?c = "context_provider EXTERNAL None None None []"
  have a: "admitted ''toee_case'' ''create_case'' ?c [] None"
    by (simp add: admitted_def gate_of_def allow_all_gate_def gate_allow_def is_tool_action_def TOOL_CATALOG_def)
  obtain r sink' where x: "execute_tool ''toee_case'' ''create_case'' ?c ?d [] None [] 0 = (r, sink', 1)"
    and r: "\<not> tr_ok r" "tr_error_class r = Some Unexpected_error"
    unfolding execute_tool_admitted [OF a] by (simp add: Let_def tool_fail_def)
  from governed_execution [OF x] a x r show ?thesis by auto
qed

text \<open>C8.  A turn bound to a conversation cannot text any other one, whatever the model passes as
  arguments and whatever the call's keyword arguments claim: the call is refused as blocked by policy
  before the driver runs, and audited.\<close>

theorem reply_bound_to_turn:
  assumes "conv \<noteq> []" and "target_conversation args \<noteq> JStr conv"
    and "tool_handler SMS_REPLY_TOOL ''send_message'' drv (context_provider prof ident (Some conv) sid)
      (Some create_turn_binding_gate) args kwargs sink s = (out, sink', s')"
  shows "s' = s \<and> (\<exists>rec. sink' = sink @ [rec] \<and> ar_error_class rec = Some Policy_blocked)
    \<and> out = JObj [(''error'', JStr ''Outbound reply must target the inbound turn's conversation.''),
                   (''error_class'', JStr ''policy_blocked'')]"
proof -
  have "is_tool_action SMS_REPLY_TOOL ''send_message''"
    by (simp add: is_tool_action_def TOOL_CATALOG_def SMS_REPLY_TOOL_def)
  with assms is_tool_action_name [OF this] show ?thesis
    by (auto simp: tool_handler_def execute_tool_unfold create_turn_binding_gate_def context_provider_def
        falsy_def gate_deny_def serialize_result_def opt_str_def error_class_name_def)
qed

theorem reply_bound_to_turn_witness:
  "snd (snd (tool_handler SMS_REPLY_TOOL ''send_message'' \<lparr>kind = ''mock'', exec = \<lambda>_ _ n :: nat. (Inr JNull, Suc n)\<rparr>
     (context_provider EXTERNAL None (Some ''+14165550101'') None) (Some create_turn_binding_gate)
     [(''conversation_id'', JStr ''+14165550199'')] [(''conversation_id'', JStr ''+14165550199'')] [] 0)) = 0"
proof -
  obtain out sink' s' where t: "tool_handler SMS_REPLY_TOOL ''send_message'' \<lparr>kind = ''mock'', exec = \<lambda>_ _ n :: nat. (Inr JNull, Suc n)\<rparr>
     (context_provider EXTERNAL None (Some ''+14165550101'') None) (Some create_turn_binding_gate)
     [(''conversation_id'', JStr ''+14165550199'')] [(''conversation_id'', JStr ''+14165550199'')] [] 0 = (out, sink', s')"
    by (metis prod_cases3)
  have "s' = 0"
    using reply_bound_to_turn [OF _ _ t] by (simp add: target_conversation_def or_else_def dict_simps)
  with t show ?thesis by simp
qed

text \<open>Under the external profile's gate an invoice read reaches its driver only for a verified
  customer whose email link succeeded; a request without one changes nothing and returns no data.  The gate blocks no other tool.\<close>

theorem qbo_read_gated:
  assumes "execute_tool tool action context drv params (Some (create_external_profile_gate links)) sink s = (r, sink', s')"
    and "tr_ok r \<or> s' \<noteq> s"
  shows "is_tool_action tool action
    \<and> (tool = QBO_READ_TOOL \<longrightarrow>
        (\<exists>cid. verified_customer_id (identity context) = Some cid \<and> map_of links cid = Some ''linked''))
    \<and> (tool \<noteq> QBO_READ_TOOL \<longrightarrow> (\<forall>context' params'.
        admitted tool action context' params' (Some (create_external_profile_gate links))))"
proof -
  have "admitted tool action context params (Some (create_external_profile_gate links))"
  proof (rule ccontr)
    assume "\<not> ?thesis"
    from execute_tool_not_admitted [OF this, of drv sink s] assms show False by (auto simp: tool_fail_def)
  qed
  then show ?thesis by (auto simp: admitted_def gate_of_def external_gate_allow_iff)
qed

theorem qbo_read_gated_witness:
  "\<exists>r sink'. execute_tool QBO_READ_TOOL ''get_invoice'' (context_provider EXTERNAL
        (Some (JObj [(''outcome'', JStr ''verified_customer''), (''shopify_customer_id'', JStr ''c1'')])) None None [])
      \<lparr>kind = ''mock'', exec = \<lambda>_ _ n :: nat. (Inr (JStr ''invoice''), Suc n)\<rparr> []
      (Some (create_external_profile_gate [(''c1'', ''linked'')])) [] 0 = (r, sink', 1)
    \<and> (\<exists>cid. map_of [(''c1'', ''linked'')] cid = Some ''linked'')"
proof -
  let ?c = "context_provider EXTERNAL
        (Some (JObj [(''outcome'', JStr ''verified_customer''), (''shopify_customer_id'', JStr ''c1'')])) None None []"
  have a: "admitted QBO_READ_TOOL ''get_invoice'' ?c [] (Some (create_external_profile_gate [(''c1'', ''linked'')]))"
    by (simp add: admitted_def gate_of_def external_gate_allow_iff is_tool_action_def TOOL_CATALOG_def
        QBO_READ_TOOL_def context_provider_def verified_customer_id_def dict_simps)
  obtain r sink' where x: "execute_tool QBO_READ_TOOL ''get_invoice'' ?c
      \<lparr>kind = ''mock'', exec = \<lambda>_ _ n :: nat. (Inr (JStr ''invoice''), Suc n)\<rparr> []
      (Some (create_external_profile_gate [(''c1'', ''linked'')])) [] 0 = (r, sink', 1)"
    unfolding execute_tool_admitted [OF a] by (simp add: Let_def)
  from qbo_read_gated [OF x] x show ?thesis by auto
qed

end
