(* ===== verification/Normalize.thy ===== *)
theory Normalize
  imports Prelude
begin

text \<open>
  The schema-independent primitives of \<^verbatim>\<open>toee_hermes/gateway/\<close>: \<^verbatim>\<open>normalize.py\<close> (E.164 and email
  canonicalisation, the canonical inbound event), \<^verbatim>\<open>opt_out.py\<close> (the STOP keyword search),
  \<^verbatim>\<open>verify.py\<close> (the webhook token) and \<^verbatim>\<open>rate_limit.py\<close> (the per-sender sliding window).
\<close>

section \<open>Channels and canonical identities\<close>

definition SIMPLETEXTING_SMS :: string where
  "SIMPLETEXTING_SMS = ''simpletexting_sms''"

definition SIMULATED_EMAIL :: string where
  "SIMULATED_EMAIL = ''simulated_email''"

definition is_email_channel :: "string \<Rightarrow> bool" where
  "is_email_channel channel \<longleftrightarrow> channel \<in> {SIMULATED_EMAIL, ''email''}"

record sms_fields =
  fld_event_id :: string
  fld_conversation_id :: string
  fld_from_phone :: string
  fld_body :: string
  fld_received_at :: string
  fld_raw_event_type :: string
  fld_media_urls :: "string list option"

record inbound_event =
  ev_channel :: string
  ev_provider :: string
  ev_event_id :: string
  ev_conversation_id :: string
  ev_from_phone :: string
  ev_body :: string
  ev_received_at :: string
  ev_raw_event_type :: string
  ev_media_urls :: "string list option"

definition normalize_e164 :: "string \<Rightarrow> string" where
  "normalize_e164 input =
     (let trimmed = py_strip input;
          has_plus = starts_with trimmed ''+'';
          digits = filter py_isdigit trimmed in
      if has_plus then ''+'' @ digits
      else if length digits = 10 then ''+1'' @ digits
      else if length digits = 11 \<and> starts_with digits ''1'' then ''+'' @ digits
      else ''+'' @ digits)"

definition canonicalize_email :: "string \<Rightarrow> string" where
  "canonicalize_email input = py_lower (py_strip input)"

definition to_inbound_channel_event :: "sms_fields \<Rightarrow> inbound_event" where
  "to_inbound_channel_event f =
     (let media_urls = (case fld_media_urls f of
            None \<Rightarrow> None | Some urls \<Rightarrow> (if urls = [] then None else Some urls)) in
      \<lparr>ev_channel = SIMPLETEXTING_SMS, ev_provider = ''simpletexting'',
       ev_event_id = fld_event_id f, ev_conversation_id = fld_conversation_id f,
       ev_from_phone = normalize_e164 (fld_from_phone f), ev_body = fld_body f,
       ev_received_at = fld_received_at f, ev_raw_event_type = fld_raw_event_type f,
       ev_media_urls = media_urls\<rparr>)"

definition to_inbound_email_event ::
  "string \<Rightarrow> string \<Rightarrow> string \<Rightarrow> string \<Rightarrow> string \<Rightarrow> string \<Rightarrow> string \<Rightarrow> inbound_event" where
  "to_inbound_email_event event_id conversation_id from_address subject body received_at raw_event_type =
     (let subj = py_strip subject;
          turn_body = (if subj \<noteq> []
             then ''Subject: '' @ subj @ [CHR 0x0A, CHR 0x0A] @ body else body) in
      \<lparr>ev_channel = SIMULATED_EMAIL, ev_provider = SIMULATED_EMAIL,
       ev_event_id = event_id, ev_conversation_id = conversation_id,
       ev_from_phone = canonicalize_email from_address, ev_body = turn_body,
       ev_received_at = received_at, ev_raw_event_type = raw_event_type,
       ev_media_urls = None\<rparr>)"

section \<open>Opt-out keywords\<close>

text \<open>
  \<^verbatim>\<open>\b(?:STOP|UNSUBSCRIBE|ARRET)\b\<close> searched with \<^verbatim>\<open>IGNORECASE\<close>.  The keywords are made of word
  characters, so a boundary before (after) one holds where the neighbouring character is missing
  or is not a word character.
\<close>

definition OPT_OUT_KEYWORDS :: "string list" where
  "OPT_OUT_KEYWORDS = [''STOP'', ''UNSUBSCRIBE'', ''ARRET'']"

definition at_boundary :: "char option \<Rightarrow> bool" where
  "at_boundary c = (case c of None \<Rightarrow> True | Some x \<Rightarrow> \<not> py_isword x)"

definition first_char :: "string \<Rightarrow> char option" where
  "first_char s = (case s of [] \<Rightarrow> None | x # _ \<Rightarrow> Some x)"

definition keyword_here :: "char option \<Rightarrow> string \<Rightarrow> string \<Rightarrow> bool" where
  "keyword_here prev s kw \<longleftrightarrow>
     at_boundary prev \<and> starts_with (py_lower s) (py_lower kw)
     \<and> at_boundary (first_char (drop (length kw) s))"

fun search_opt_out :: "char option \<Rightarrow> string \<Rightarrow> bool" where
  "search_opt_out prev [] = False"
| "search_opt_out prev (c # cs) =
     (list_ex (keyword_here prev (c # cs)) OPT_OUT_KEYWORDS \<or> search_opt_out (Some c) cs)"

definition is_opt_out_keyword :: "string \<Rightarrow> bool" where
  "is_opt_out_keyword body = (if body = [] then False else search_opt_out None body)"

definition SMS_OPT_OUT_CONFIRMATION :: string where
  "SMS_OPT_OUT_CONFIRMATION =
     ''You have been unsubscribed from marketing messages. '' @
     ''You can still text us for account support.''"

section \<open>Webhook token\<close>

text \<open>\<^verbatim>\<open>hmac.compare_digest\<close> on the UTF-8 bytes is equality of the two texts.\<close>

definition verify_webhook_token :: "string option \<Rightarrow> string \<Rightarrow> bool" where
  "verify_webhook_token token secret =
     (if falsy token \<or> secret = [] then False else py_strip (the token) = secret)"

section \<open>Rate limiter\<close>

record rate_decision =
  rd_allowed :: bool
  rd_count :: nat

record limiter =
  lim_limit :: int
  lim_window_ms :: int
  lim_hits :: "string \<Rightarrow> int list"

definition create_inbound_rate_limiter :: "int \<Rightarrow> int \<Rightarrow> limiter" where
  "create_inbound_rate_limiter limit window_ms =
     \<lparr>lim_limit = limit, lim_window_ms = window_ms, lim_hits = (\<lambda>_. [])\<rparr>"

definition default_rate_limiter :: limiter where
  "default_rate_limiter = create_inbound_rate_limiter 10 60000"

text \<open>\<open>now\<close> is \<^verbatim>\<open>at_ms\<close>, or the monotonic clock in milliseconds where the caller gives none.\<close>

definition check_rate :: "limiter \<Rightarrow> string \<Rightarrow> int \<Rightarrow> rate_decision \<times> limiter" where
  "check_rate l from_phone now =
     (let recent = filter (\<lambda>t. now - t < lim_window_ms l) (lim_hits l from_phone) in
      if int (length recent) \<ge> lim_limit l
      then (\<lparr>rd_allowed = False, rd_count = length recent\<rparr>,
            l\<lparr>lim_hits := (lim_hits l)(from_phone := recent)\<rparr>)
      else (\<lparr>rd_allowed = True, rd_count = length (recent @ [now])\<rparr>,
            l\<lparr>lim_hits := (lim_hits l)(from_phone := recent @ [now])\<rparr>))"

text \<open>A run of checks: the allowed \<open>(sender, time)\<close> pairs, in order, and the limiter after it.\<close>

fun run_checks :: "limiter \<Rightarrow> (string \<times> int) list \<Rightarrow> (string \<times> int) list \<times> limiter" where
  "run_checks l [] = ([], l)"
| "run_checks l ((p, t) # rest) =
     (let (d, l') = check_rate l p t; (allowed, l'') = run_checks l' rest
      in (if rd_allowed d then (p, t) # allowed else allowed, l''))"

definition hits_in_window :: "(string \<times> int) list \<Rightarrow> string \<Rightarrow> int \<Rightarrow> int \<Rightarrow> (string \<times> int) list" where
  "hits_in_window allowed p window t =
     filter (\<lambda>(q, x). q = p \<and> t - window < x \<and> x \<le> t) allowed"

section \<open>Lemmas: normalisation\<close>

lemma starts_with_plus: "starts_with s ''+'' \<longleftrightarrow> s \<noteq> [] \<and> hd s = CHR ''+''"
  by (cases s) auto

lemma starts_with_iff: "starts_with s t \<longleftrightarrow> (\<exists>u. s = t @ u)"
  by (induction s t rule: starts_with.induct) auto

lemma normalize_e164_form: "\<exists>ds. normalize_e164 s = CHR ''+'' # ds \<and> list_all py_isdigit ds"
  by (auto simp: normalize_e164_def Let_def list_all_iff) (simp_all add: py_isdigit_def code_def)

lemma plus_digits_strip:
  assumes "list_all py_isdigit ds"
  shows "py_strip (CHR ''+'' # ds) = CHR ''+'' # ds"
proof -
  have nd: "\<not> py_isspace c" if "py_isdigit c" for c
    using that by (auto simp: py_isdigit_def py_isspace_def Let_def)
  have plus: "\<not> py_isspace (CHR ''+'')" by (simp add: py_isspace_def code_def)
  have "dropWhile py_isspace (rev (CHR ''+'' # ds)) = rev (CHR ''+'' # ds)"
  proof (cases "rev ds")
    case Nil
    with plus show ?thesis by simp
  next
    case (Cons a as)
    then have "a \<in> set ds" by (metis list.set_intros(1) set_rev)
    with assms nd have "\<not> py_isspace a" by (auto simp: list_all_iff)
    with Cons show ?thesis by simp
  qed
  with plus show ?thesis by (simp add: py_strip_def lstrip_by_def rstrip_by_def)
qed

lemma normalize_e164_fixed:
  assumes "list_all py_isdigit ds"
  shows "normalize_e164 (CHR ''+'' # ds) = CHR ''+'' # ds"
proof -
  have "filter py_isdigit ds = ds" using assms by (simp add: list_all_iff)
  moreover have "\<not> py_isdigit (CHR ''+'')" by (simp add: py_isdigit_def code_def)
  ultimately show ?thesis
    by (simp add: normalize_e164_def Let_def plus_digits_strip [OF assms])
qed

lemma normalize_e164_idem: "normalize_e164 (normalize_e164 s) = normalize_e164 s"
  using normalize_e164_form [of s] normalize_e164_fixed by force

section \<open>Lemmas: opt-out search\<close>

text \<open>The search finds a keyword exactly where the text splits around one.\<close>

definition last_char :: "char option \<Rightarrow> string \<Rightarrow> char option" where
  "last_char prev pre = (if pre = [] then prev else Some (last pre))"

lemma search_opt_out_iff:
  "search_opt_out prev s \<longleftrightarrow>
     (\<exists>pre rest kw. s = pre @ rest \<and> rest \<noteq> [] \<and> kw \<in> set OPT_OUT_KEYWORDS
        \<and> keyword_here (last_char prev pre) rest kw)"
proof (induction prev s rule: search_opt_out.induct)
  case (1 prev)
  then show ?case by simp
next
  case (2 prev c cs)
  show ?case
  proof
    assume "search_opt_out prev (c # cs)"
    then consider (here) kw where "kw \<in> set OPT_OUT_KEYWORDS" "keyword_here prev (c # cs) kw"
      | (later) "search_opt_out (Some c) cs"
      by (auto simp: list_ex_iff)
    then show "\<exists>pre rest kw. c # cs = pre @ rest \<and> rest \<noteq> [] \<and> kw \<in> set OPT_OUT_KEYWORDS
        \<and> keyword_here (last_char prev pre) rest kw"
    proof cases
      case here
      then show ?thesis
        by (intro exI [of _ "[]"] exI [of _ "c # cs"] exI [of _ kw]) (simp add: last_char_def)
    next
      case later
      with 2 obtain pre rest kw where "cs = pre @ rest" "rest \<noteq> []" "kw \<in> set OPT_OUT_KEYWORDS"
        "keyword_here (last_char (Some c) pre) rest kw" by blast
      then show ?thesis
        by (intro exI [of _ "c # pre"] exI [of _ rest] exI [of _ kw]) (auto simp: last_char_def)
    qed
  next
    assume "\<exists>pre rest kw. c # cs = pre @ rest \<and> rest \<noteq> [] \<and> kw \<in> set OPT_OUT_KEYWORDS
        \<and> keyword_here (last_char prev pre) rest kw"
    then obtain pre rest kw where *: "c # cs = pre @ rest" "rest \<noteq> []" "kw \<in> set OPT_OUT_KEYWORDS"
        "keyword_here (last_char prev pre) rest kw" by blast
    show "search_opt_out prev (c # cs)"
    proof (cases pre)
      case Nil
      with * show ?thesis by (auto simp: list_ex_iff last_char_def)
    next
      case (Cons x pre')
      with * have "cs = pre' @ rest" "keyword_here (last_char (Some c) pre') rest kw"
        by (auto simp: last_char_def split: if_splits)
      with * 2 show ?thesis by (auto simp del: append_eq_append_conv)
    qed
  qed
qed

section \<open>Lemmas: rate limiter\<close>

text \<open>
  What the limiter remembers of a sender: the allowed hits that were inside the window at some
  earlier instant.  \<open>A\<close> is everything allowed so far.
\<close>

definition remembers :: "limiter \<Rightarrow> (string \<times> int) list \<Rightarrow> int \<Rightarrow> bool" where
  "remembers l A now \<longleftrightarrow>
     (\<forall>p. \<exists>T \<le> now. lim_hits l p = filter (\<lambda>x. T - x < lim_window_ms l)
        (map snd (filter (\<lambda>(q, x). q = p) A)))
     \<and> (\<forall>(q, x) \<in> set A. x \<le> now)"

definition window_bounded :: "int \<Rightarrow> int \<Rightarrow> (string \<times> int) list \<Rightarrow> bool" where
  "window_bounded limit window A \<longleftrightarrow>
     (\<forall>p t. int (length (hits_in_window A p window t)) \<le> max 0 limit)"

lemma check_rate_frame:
  "check_rate l p t = (d, l') \<Longrightarrow> lim_limit l' = lim_limit l \<and> lim_window_ms l' = lim_window_ms l"
  by (auto simp: check_rate_def Let_def split: if_splits)

lemma filter_filter_later:
  "(T::int) \<le> t \<Longrightarrow> filter (\<lambda>x. t - x < w) (filter (\<lambda>x. T - x < w) xs) = filter (\<lambda>x. t - x < w) xs"
  by (induction xs) auto

lemma check_rate_recent:
  assumes "remembers l A now" and "now \<le> t"
  shows "filter (\<lambda>x. t - x < lim_window_ms l) (lim_hits l p) =
    filter (\<lambda>x. t - x < lim_window_ms l) (map snd (filter (\<lambda>(q, x). q = p) A))"
proof -
  from assms(1) obtain T where "T \<le> now" "lim_hits l p = filter (\<lambda>x. T - x < lim_window_ms l)
        (map snd (filter (\<lambda>(q, x). q = p) A))" by (auto simp: remembers_def)
  with assms(2) show ?thesis by (simp only:) (rule filter_filter_later, simp)
qed

lemma hits_in_window_map:
  "map snd (hits_in_window A p w t) =
     filter (\<lambda>x. t - w < x \<and> x \<le> t) (map snd (filter (\<lambda>(q, x). q = p) A))"
  by (induction A) (auto simp: hits_in_window_def)

lemma length_hits_recent:
  "t \<le> u \<Longrightarrow> length (hits_in_window A p w u) \<le>
     length (filter (\<lambda>x. t - x < w) (map snd (filter (\<lambda>(q, x). q = p) A)))"
  by (induction A) (auto simp: hits_in_window_def)

lemma check_rate_step:
  assumes r: "remembers l A now" and t: "now \<le> t" and c: "check_rate l p t = (d, l')"
    and b: "window_bounded (lim_limit l) (lim_window_ms l) A"
  defines "A' \<equiv> if rd_allowed d then A @ [(p, t)] else A"
  shows "window_bounded (lim_limit l) (lim_window_ms l) A' \<and>
    (0 < lim_window_ms l \<longrightarrow> remembers l' A' t)"
proof
  let ?w = "lim_window_ms l"
  let ?recent = "filter (\<lambda>x. t - x < ?w) (map snd (filter (\<lambda>(q, x). q = p) A))"
  have rec: "filter (\<lambda>x. t - x < ?w) (lim_hits l p) = ?recent"
    by (rule check_rate_recent [OF r t])
  have d: "rd_allowed d \<longleftrightarrow> int (length ?recent) < lim_limit l"
    using c rec by (auto simp: check_rate_def Let_def split: if_splits)
  show "window_bounded (lim_limit l) ?w A'"
    unfolding window_bounded_def
  proof (intro allI)
    fix q u
    have old: "int (length (hits_in_window A q ?w u)) \<le> max 0 (lim_limit l)"
      using b by (simp add: window_bounded_def)
    show "int (length (hits_in_window A' q ?w u)) \<le> max 0 (lim_limit l)"
    proof (cases "rd_allowed d \<and> q = p \<and> t \<le> u")
      case True
      with d length_hits_recent [of t u A p ?w] show ?thesis
        by (simp add: A'_def hits_in_window_def)
    next
      case False
      then have "hits_in_window A' q ?w u = hits_in_window A q ?w u"
        by (auto simp: A'_def hits_in_window_def)
      with old show ?thesis by simp
    qed
  qed
  show "0 < ?w \<longrightarrow> remembers l' A' t"
  proof
    assume w: "0 < ?w"
    have w': "lim_window_ms l' = ?w" using check_rate_frame [OF c] by simp
    have hits: "lim_hits l' q = (if q = p then (if rd_allowed d then ?recent @ [t] else ?recent)
        else lim_hits l q)" for q
      using c rec d by (auto simp: check_rate_def Let_def split: if_splits)
    show "remembers l' A' t"
      unfolding remembers_def w'
    proof (intro conjI allI)
      fix q
      show "\<exists>T\<le>t. lim_hits l' q = filter (\<lambda>x. T - x < ?w) (map snd (filter (\<lambda>(q', x). q' = q) A'))"
      proof (cases "q = p")
        case True
        with hits w show ?thesis by (intro exI [of _ t]) (simp add: A'_def)
      next
        case False
        from r obtain T where "T \<le> now" "lim_hits l q = filter (\<lambda>x. T - x < ?w)
            (map snd (filter (\<lambda>(q', x). q' = q) A))" by (auto simp: remembers_def)
        with False t hits show ?thesis by (intro exI [of _ T]) (simp add: A'_def)
      qed
    next
      show "\<forall>(q, x)\<in>set A'. x \<le> t"
        using r t by (auto simp: remembers_def A'_def)
    qed
  qed
qed

lemma run_checks_bounded:
  assumes "remembers l A now" and "window_bounded (lim_limit l) (lim_window_ms l) A"
    and "0 < lim_window_ms l" and "sorted (now # map snd es)" and "run_checks l es = (B, l')"
  shows "window_bounded (lim_limit l) (lim_window_ms l) (A @ B)"
  using assms
proof (induction l es arbitrary: A B now l' rule: run_checks.induct)
  case (1 l)
  then show ?case by simp
next
  case (2 l p t rest)
  obtain d l1 where c: "check_rate l p t = (d, l1)" by force
  obtain B' l2 where rr: "run_checks l1 rest = (B', l2)" by force
  let ?A' = "if rd_allowed d then A @ [(p, t)] else A"
  have fr: "lim_limit l1 = lim_limit l" "lim_window_ms l1 = lim_window_ms l"
    using check_rate_frame [OF c] by auto
  have "now \<le> t" using 2(5) by simp
  from check_rate_step [OF 2(2) this c 2(3)] 2(4)
  have st: "window_bounded (lim_limit l1) (lim_window_ms l1) ?A'" "remembers l1 ?A' t"
    by (auto simp: fr)
  have "sorted (t # map snd rest)" using 2(5) by simp
  from 2(1) [OF c [symmetric] refl st(2) st(1) _ this rr] 2(4)
  have "window_bounded (lim_limit l) (lim_window_ms l) (?A' @ B')" by (simp add: fr)
  moreover have "A @ B = ?A' @ B'" using 2(6) c rr by (auto split: if_splits)
  ultimately show ?case by simp
qed

section \<open>Properties\<close>

text \<open>However the arrivals of any number of senders are spaced, a fresh limiter lets at most
  its limit through from one sender in any window.\<close>

theorem rate_limit_bound:
  assumes "0 < window" and "sorted (map snd es)"
    and "run_checks (create_inbound_rate_limiter limit window) es = (allowed, l')"
  shows "int (length (hits_in_window allowed p window t)) \<le> max 0 limit"
proof -
  let ?l = "create_inbound_rate_limiter limit window"
  let ?now = "case es of [] \<Rightarrow> 0 | e # _ \<Rightarrow> snd e"
  have "remembers ?l [] ?now" by (auto simp: remembers_def create_inbound_rate_limiter_def)
  moreover have "window_bounded (lim_limit ?l) (lim_window_ms ?l) []"
    by (simp add: window_bounded_def hits_in_window_def)
  moreover have "sorted (?now # map snd es)" using assms(2) by (cases es) auto
  ultimately have "window_bounded (lim_limit ?l) (lim_window_ms ?l) ([] @ allowed)"
    using assms(1,3) by (intro run_checks_bounded) (auto simp: create_inbound_rate_limiter_def)
  then show ?thesis by (simp add: window_bounded_def create_inbound_rate_limiter_def)
qed

theorem rate_limit_bound_witness:
  "fst (run_checks (create_inbound_rate_limiter 2 100) [(''a'', 0), (''a'', 10), (''b'', 20), (''a'', 30), (''a'', 105)])
     = [(''a'', 0), (''a'', 10), (''b'', 20), (''a'', 105)]
   \<and> int (length (hits_in_window [(''a'', 0), (''a'', 10), (''b'', 20), (''a'', 105)] ''a'' 100 105)) \<le> 2"
proof -
  obtain l' where r: "run_checks (create_inbound_rate_limiter 2 100)
      [(''a'', 0), (''a'', 10), (''b'', 20), (''a'', 30), (''a'', 105)]
     = ([(''a'', 0), (''a'', 10), (''b'', 20), (''a'', 105)], l')"
    by (simp add: create_inbound_rate_limiter_def check_rate_def Let_def)
  have "int (length (hits_in_window [(''a'', 0), (''a'', 10), (''b'', 20), (''a'', 105)] ''a'' 100 105)) \<le> max 0 2"
    by (rule rate_limit_bound [OF _ _ r]) simp_all
  with r show ?thesis by simp
qed

text \<open>A message is an opt-out exactly when one of the keywords stands in it, in any case, as a
  word of its own.\<close>

theorem opt_out_iff:
  "is_opt_out_keyword body \<longleftrightarrow>
     (\<exists>pre word suf kw. body = pre @ word @ suf \<and> kw \<in> set OPT_OUT_KEYWORDS
        \<and> length word = length kw \<and> py_lower word = py_lower kw
        \<and> at_boundary (if pre = [] then None else Some (last pre)) \<and> at_boundary (first_char suf))"
proof -
  have k: "keyword_here prev rest kw \<longleftrightarrow> (\<exists>word suf. rest = word @ suf \<and> length word = length kw
      \<and> py_lower word = py_lower kw \<and> at_boundary prev \<and> at_boundary (first_char suf))" for prev rest kw
  proof
    assume *: "keyword_here prev rest kw"
    then obtain u where u: "map py_lower_char rest = map py_lower_char kw @ u"
      by (auto simp: keyword_here_def starts_with_iff py_lower_def)
    then have "length kw \<le> length rest" by (metis length_append length_map le_add1)
    moreover have "map py_lower_char (take (length kw) rest) = map py_lower_char kw"
      using arg_cong [OF u, of "take (length kw)"] by (simp add: take_map)
    ultimately show "\<exists>word suf. rest = word @ suf \<and> length word = length kw
      \<and> py_lower word = py_lower kw \<and> at_boundary prev \<and> at_boundary (first_char suf)"
      using * by (intro exI [of _ "take (length kw) rest"] exI [of _ "drop (length kw) rest"])
        (simp add: keyword_here_def py_lower_def)
  next
    assume "\<exists>word suf. rest = word @ suf \<and> length word = length kw
      \<and> py_lower word = py_lower kw \<and> at_boundary prev \<and> at_boundary (first_char suf)"
    then show "keyword_here prev rest kw" by (auto simp: keyword_here_def starts_with_iff py_lower_def)
  qed
  have ne: "kw \<noteq> []" if "kw \<in> set OPT_OUT_KEYWORDS" for kw
    using that by (auto simp: OPT_OUT_KEYWORDS_def)
  have "is_opt_out_keyword body \<longleftrightarrow> (\<exists>pre rest kw. body = pre @ rest \<and> kw \<in> set OPT_OUT_KEYWORDS
      \<and> keyword_here (last_char None pre) rest kw)"
    unfolding is_opt_out_keyword_def search_opt_out_iff
    using ne by (auto simp: k split: if_splits) fastforce+
  also have "\<dots> \<longleftrightarrow> (\<exists>pre word suf kw. body = pre @ word @ suf \<and> kw \<in> set OPT_OUT_KEYWORDS
        \<and> length word = length kw \<and> py_lower word = py_lower kw
        \<and> at_boundary (last_char None pre) \<and> at_boundary (first_char suf))"
    (is "?L \<longleftrightarrow> ?R")
  proof
    assume ?L
    then obtain pre rest kw where "body = pre @ rest" "kw \<in> set OPT_OUT_KEYWORDS"
      "keyword_here (last_char None pre) rest kw" by blast
    moreover from this(3) obtain word suf where "rest = word @ suf" "length word = length kw"
      "py_lower word = py_lower kw" "at_boundary (last_char None pre)" "at_boundary (first_char suf)"
      unfolding k by blast
    ultimately show ?R
      by (intro exI [of _ pre] exI [of _ word] exI [of _ suf] exI [of _ kw]) simp
  next
    assume ?R
    then obtain pre word suf kw where "body = pre @ word @ suf" "kw \<in> set OPT_OUT_KEYWORDS"
      "length word = length kw" "py_lower word = py_lower kw" "at_boundary (last_char None pre)"
      "at_boundary (first_char suf)" by blast
    moreover from this have "keyword_here (last_char None pre) (word @ suf) kw" unfolding k by blast
    ultimately show ?L by blast
  qed
  finally show ?thesis by (simp only: last_char_def)
qed

end
