(* ===== verification/Pipeline.thy ===== *)
theory Pipeline
  imports Dispatch Normalize
begin

text \<open>
  The inbound decision: \<^verbatim>\<open>gateway/ingress.py\<close> (the synchronous identity match), \<^verbatim>\<open>gateway/pipeline.py\<close>
  (verify, dedup, opt-out, ingress, rate limit, accept) and \<^verbatim>\<open>gateway/agent_turn.py\<close> (the persisted
  turn context and the job payload).  The identity driver is a parameter with a state of its own;
  exceptions that would leave the Python functions are \<open>Inl\<close> values.
\<close>

section \<open>Session Identity Snapshot\<close>

record snapshot =
  snap_outcome :: string
  snap_resolved_at :: json
  snap_customer_id :: json
  snap_customer_ids :: "json list option"
  snap_display_name :: "string option"

record ingress_result =
  ir_snapshot :: "snapshot option"
  ir_retryable_error :: bool
  ir_error_class :: "error_class option"

text \<open>\<^verbatim>\<open>list(x)\<close> on a JSON value: characters of a text, keys of an object, \<^verbatim>\<open>TypeError\<close> on a scalar.\<close>

fun py_list :: "json \<Rightarrow> exn + json list" where
  "py_list (JList xs) = Inr xs"
| "py_list (JStr s) = Inr (map (\<lambda>c. JStr [c]) s)"
| "py_list (JObj d) = Inr (map (JStr \<circ> fst) d)"
| "py_list _ = Inl (PyError ''TypeError'' ''object is not iterable'')"

definition snapshot_as_identity_dict :: "snapshot \<Rightarrow> json" where
  "snapshot_as_identity_dict s = JObj (
     [(''outcome'', JStr (snap_outcome s)), (''resolved_at'', snap_resolved_at s)]
     @ (if truthy (snap_customer_id s) then [(''shopify_customer_id'', snap_customer_id s)] else [])
     @ (case snap_customer_ids s of
          None \<Rightarrow> []
        | Some ids \<Rightarrow> (if ids = [] then [] else [(''shopify_customer_ids'', JList ids)]))
     @ (if falsy (snap_display_name s) then []
        else [(''company_name'', JStr (the (snap_display_name s)))]))"

definition unmatched_snapshot :: "json \<Rightarrow> snapshot" where
  "unmatched_snapshot at = \<lparr>snap_outcome = ''unmatched_caller'', snap_resolved_at = at,
     snap_customer_id = JNull, snap_customer_ids = None, snap_display_name = None\<rparr>"

definition to_snapshot :: "json \<Rightarrow> string \<Rightarrow> exn + snapshot" where
  "to_snapshot data resolved_at =
     (let record = (case data of JObj d \<Rightarrow> d | _ \<Rightarrow> []);
          outcome = get record ''outcome'';
          at = or_else (get record ''resolved_at'') (JStr resolved_at) in
      if outcome = JStr ''verified_customer'' then
        Inr \<lparr>snap_outcome = ''verified_customer'', snap_resolved_at = at,
             snap_customer_id = get record ''shopify_customer_id'', snap_customer_ids = None,
             snap_display_name = as_str (get record ''company_name'')\<rparr>
      else if outcome = JStr ''ambiguous_phone_match'' then
        ebind (py_list (or_else (get record ''shopify_customer_ids'') (JList []))) (\<lambda>ids.
        Inr \<lparr>snap_outcome = ''ambiguous_phone_match'', snap_resolved_at = at,
             snap_customer_id = JNull, snap_customer_ids = Some ids, snap_display_name = None\<rparr>)
      else Inr (unmatched_snapshot at))"

definition ingress_context :: ctx where
  "ingress_context = \<lparr>profile = EXTERNAL, identity = JNull, user_id = None,
     connected_account_id = None, ctx_conversation_id = None, ctx_sms_session_id = None\<rparr>"

definition ingress_of_result :: "tool_result \<Rightarrow> string \<Rightarrow> exn + ingress_result" where
  "ingress_of_result result resolved_at =
     (if \<not> tr_ok result
      then Inr \<lparr>ir_snapshot = None, ir_retryable_error = True,
                ir_error_class = tr_error_class result\<rparr>
      else ebind (to_snapshot (tr_data result) resolved_at) (\<lambda>snap.
           Inr \<lparr>ir_snapshot = Some snap, ir_retryable_error = False, ir_error_class = None\<rparr>))"

definition match_ingress_phone ::
  "string \<Rightarrow> 's driver \<Rightarrow> string \<Rightarrow> 's \<Rightarrow> (exn + ingress_result) \<times> 's" where
  "match_ingress_phone phone drv resolved_at s =
     (let (result, _, s') = execute_tool ''toee_identity_lookup'' ''match_phone'' ingress_context drv
            [(''phone'', JStr phone), (''resolved_at'', JStr resolved_at)] None [] s
      in (ingress_of_result result resolved_at, s'))"

definition match_ingress_email ::
  "string \<Rightarrow> 's driver \<Rightarrow> string \<Rightarrow> 's \<Rightarrow> (exn + ingress_result) \<times> 's" where
  "match_ingress_email from_address drv resolved_at s =
     (let (result, _, s') = execute_tool ''toee_identity_lookup'' ''match_email_sender''
            ingress_context drv
            [(''from_address'', JStr from_address), (''resolved_at'', JStr resolved_at)] None [] s
      in (ingress_of_result result resolved_at, s'))"

section \<open>The inbound decision\<close>

datatype action = Reject | Duplicate | Opt_out | Rate_limited | Retry | Enqueue

datatype stage = Verify | Idempotency | Opt_out_stage | Rate_limit | Ingress | Accept

record decision =
  dec_status :: nat
  dec_action :: action
  dec_stage :: stage
  dec_retryable :: bool
  dec_error_class :: "error_class option"
  dec_event :: "inbound_event option"
  dec_snapshot :: "snapshot option"
  dec_reply :: "string option"

definition decide :: "nat \<Rightarrow> action \<Rightarrow> stage \<Rightarrow> decision" where
  "decide status act stg = \<lparr>dec_status = status, dec_action = act, dec_stage = stg,
     dec_retryable = False, dec_error_class = None, dec_event = None, dec_snapshot = None,
     dec_reply = None\<rparr>"

definition dec_enqueue :: "decision \<Rightarrow> bool" where
  "dec_enqueue d \<longleftrightarrow> dec_action d = Enqueue"

text \<open>
  \<^verbatim>\<open>process_inbound\<close>: the decision, the limiter after it and the identity driver's state after it.
\<close>

definition process_inbound ::
  "string option \<Rightarrow> string \<Rightarrow> sms_fields option \<Rightarrow> inbound_event option \<Rightarrow> 's driver \<Rightarrow> limiter
     \<Rightarrow> string \<Rightarrow> (string \<Rightarrow> bool) \<Rightarrow> int \<Rightarrow> 's \<Rightarrow> (exn + decision) \<times> limiter \<times> 's" where
  "process_inbound token secret flds event_opt drv lim resolved_at is_duplicate at_ms s =
     (if \<not> verify_webhook_token token secret
      then (Inr (decide 401 Reject Verify), lim, s)
      else case (case event_opt of Some e \<Rightarrow> Some e | None \<Rightarrow> map_option to_inbound_channel_event flds) of
        None \<Rightarrow> (Inl (PyError ''ValueError''
                   ''process_inbound requires exactly one of fields/event.''), lim, s)
      | Some event \<Rightarrow>
        let is_email = is_email_channel (ev_channel event) in
        if is_duplicate (ev_event_id event)
        then (Inr ((decide 200 Duplicate Idempotency)\<lparr>dec_event := Some event\<rparr>), lim, s)
        else if \<not> is_email \<and> is_opt_out_keyword (ev_body event)
        then (Inr ((decide 200 Opt_out Opt_out_stage)\<lparr>dec_event := Some event,
                dec_reply := Some SMS_OPT_OUT_CONFIRMATION\<rparr>), lim, s)
        else
          let (ingress, s') = (if is_email
                then match_ingress_email (ev_from_phone event) drv resolved_at s
                else match_ingress_phone (ev_from_phone event) drv resolved_at s) in
          case ingress of
            Inl e \<Rightarrow> (Inl e, lim, s')
          | Inr ing \<Rightarrow>
            if ir_retryable_error ing
            then (Inr ((decide 500 Retry Ingress)\<lparr>dec_retryable := True,
                    dec_error_class := ir_error_class ing, dec_event := Some event\<rparr>), lim, s')
            else
              let (rd, lim') = check_rate lim (ev_from_phone event) at_ms in
              if \<not> rd_allowed rd
              then (Inr ((decide 200 Rate_limited Rate_limit)\<lparr>dec_event := Some event,
                      dec_snapshot := ir_snapshot ing\<rparr>), lim', s')
              else (Inr ((decide 200 Enqueue Accept)\<lparr>dec_event := Some event,
                      dec_snapshot := ir_snapshot ing\<rparr>), lim', s'))"

section \<open>The turn context and its job payload\<close>

record turn_context =
  tc_event_id :: string
  tc_conversation_id :: string
  tc_sms_session_id :: string
  tc_customer_thread_id :: string
  tc_from_phone :: string
  tc_snapshot :: "snapshot option"
  tc_inbound_body_ref :: string
  tc_channel :: string

record job_payload =
  jp_event_id :: string
  jp_conversation_id :: string

definition build_agent_turn_context ::
  "decision \<Rightarrow> string \<Rightarrow> string \<Rightarrow> string \<Rightarrow> exn + turn_context" where
  "build_agent_turn_context dec sms_session_id customer_thread_id inbound_body_ref =
     (case (if dec_enqueue dec then dec_event dec else None) of
        None \<Rightarrow> Inl (PyError ''ValueError''
          ''AgentTurnContext is only built for an accepted (enqueue) decision'')
      | Some event \<Rightarrow> Inr
          \<lparr>tc_event_id = ev_event_id event, tc_conversation_id = ev_conversation_id event,
           tc_sms_session_id = sms_session_id, tc_customer_thread_id = customer_thread_id,
           tc_from_phone = ev_from_phone event, tc_snapshot = dec_snapshot dec,
           tc_inbound_body_ref = inbound_body_ref, tc_channel = ev_channel event\<rparr>)"

definition to_job_payload :: "turn_context \<Rightarrow> job_payload" where
  "to_job_payload c = \<lparr>jp_event_id = tc_event_id c, jp_conversation_id = tc_conversation_id c\<rparr>"

definition job_payload_matches :: "turn_context \<Rightarrow> job_payload \<Rightarrow> bool" where
  "job_payload_matches c p \<longleftrightarrow>
     tc_event_id c = jp_event_id p \<and> tc_conversation_id c = jp_conversation_id p"

text \<open>\<^verbatim>\<open>dataclasses.asdict\<close> of the payload: the JSONB value stored in the \<^verbatim>\<open>job\<close> row.\<close>

definition payload_json :: "job_payload \<Rightarrow> json" where
  "payload_json p = JObj [(''event_id'', JStr (jp_event_id p)),
     (''conversation_id'', JStr (jp_conversation_id p))]"

section \<open>Lemmas\<close>

lemma to_job_payload_matches [simp]: "job_payload_matches c (to_job_payload c)"
  by (simp add: job_payload_matches_def to_job_payload_def)

lemma payload_json_inject [simp]: "payload_json p = payload_json q \<longleftrightarrow> p = q"
  by (cases p; cases q) (simp add: payload_json_def)

lemma dec_enqueue_decide [simp]:
  "dec_action (decide st a sg) = a" "dec_event (decide st a sg) = None"
  "dec_snapshot (decide st a sg) = None" "dec_status (decide st a sg) = st"
  "dec_reply (decide st a sg) = None" "dec_stage (decide st a sg) = sg"
  "dec_retryable (decide st a sg) = False" "dec_error_class (decide st a sg) = None"
  by (simp_all add: decide_def)

lemma to_snapshot_verified:
  "to_snapshot data at = Inr s \<Longrightarrow> snap_outcome s = ''verified_customer'' \<Longrightarrow>
   \<exists>d. data = JObj d \<and> get d ''outcome'' = JStr ''verified_customer''
       \<and> snap_customer_id s = get d ''shopify_customer_id''"
  by (cases data) (auto simp: to_snapshot_def Let_def unmatched_snapshot_def exn_simps dict_simps
      split: if_splits)

lemma to_snapshot_outcome:
  "to_snapshot data at = Inr s \<Longrightarrow>
     snap_outcome s \<in> {''verified_customer'', ''ambiguous_phone_match'', ''unmatched_caller''}"
  by (auto simp: to_snapshot_def Let_def unmatched_snapshot_def exn_simps split: if_splits)

text \<open>The event the decision is about, whichever of the two forms the caller passed.\<close>

definition inbound_of :: "sms_fields option \<Rightarrow> inbound_event option \<Rightarrow> inbound_event option" where
  "inbound_of flds event_opt =
     (case event_opt of Some e \<Rightarrow> Some e | None \<Rightarrow> map_option to_inbound_channel_event flds)"

lemma process_inbound_enqueue:
  assumes "process_inbound token secret flds event_opt drv lim at dup ms s = (Inr d, lim', s')"
    and "dec_enqueue d"
  shows "\<exists>event snap. verify_webhook_token token secret \<and> inbound_of flds event_opt = Some event
    \<and> dec_event d = Some event \<and> dec_snapshot d = Some snap \<and> dec_status d = 200
    \<and> \<not> dup (ev_event_id event)
    \<and> (is_email_channel (ev_channel event) \<or> \<not> is_opt_out_keyword (ev_body event))
    \<and> rd_allowed (fst (check_rate lim (ev_from_phone event) ms))
    \<and> lim' = snd (check_rate lim (ev_from_phone event) ms)"
  using assms
  by (auto simp: process_inbound_def inbound_of_def Let_def dec_enqueue_def match_ingress_email_def
      match_ingress_phone_def ingress_of_result_def exn_simps
      split: if_splits option.splits sum.splits prod.splits)

end
