(* ===== verification/Outbound.thy ===== *)
theory Outbound
  imports Prelude
begin

text \<open>
  The outbound send record, \<^verbatim>\<open>hermes_runtime/outbound_send.py\<close> over migration
  \<^verbatim>\<open>0012_outbound_send.sql\<close>: the Postgres log, the in-memory log of the database-free callers, and
  \<^verbatim>\<open>deliver_once\<close>, which is written against either.  A log operation can raise, so each returns an
  exception sum and the log's new state.  The locale \<open>send_log_spec\<close> is what \<^verbatim>\<open>deliver_once\<close> relies on;
  both logs interpret it.
\<close>

section \<open>Rows, keys, exceptions\<close>

datatype send_status = Intent | Sent | Send_failed

record send_row =
  s_key :: string
  s_job_id :: "string option"
  s_event_id :: string
  s_conversation_id :: string
  s_channel :: string
  s_status :: send_status
  s_skip_count :: int
  s_last_skipped_at :: "int option"
  s_last_error :: "string option"
  s_created_at :: int
  s_updated_at :: int

definition REPLY_SLOT :: string where
  "REPLY_SLOT = ''reply''"

definition OPT_OUT_SLOT :: string where
  "OPT_OUT_SLOT = ''opt-out''"

definition NO_JOB :: string where
  "NO_JOB = ''no-job''"

definition outbound_idempotency_key :: "string option \<Rightarrow> string \<Rightarrow> string \<Rightarrow> string" where
  "outbound_idempotency_key job_id event_id slot =
     (if falsy job_id then NO_JOB else the job_id) @ '':'' @ event_id @ '':'' @ slot"

text \<open>\<^verbatim>\<open>{status!r}\<close> and \<^verbatim>\<open>{prior_error}\<close> inside the message of \<^verbatim>\<open>OutboundSendBurned\<close>.\<close>

fun status_text :: "send_status \<Rightarrow> string" where
  "status_text Intent = ''intent''"
| "status_text Sent = ''sent''"
| "status_text Send_failed = ''failed''"

definition send_burned :: "string \<Rightarrow> send_status option \<Rightarrow> string option \<Rightarrow> exn" where
  "send_burned event_id status prior_error = PyError ''OutboundSendBurned''
     (''outbound send for event '' @ event_id @ '' is already '' @
      (case status of None \<Rightarrow> ''None'' | Some x \<Rightarrow> repr_str (status_text x)) @ '' ('' @
      (case prior_error of None \<Rightarrow> ''None'' | Some x \<Rightarrow> x) @ ''); the idempotency key is spent'')"

definition mirror_failed :: "string \<Rightarrow> exn" where
  "mirror_failed m = PyError ''OutboundMirrorFailed'' m"

fun is_mirror_failed :: "exn \<Rightarrow> bool" where
  "is_mirror_failed (PyError n m) = (n = ''OutboundMirrorFailed'')"
| "is_mirror_failed _ = False"

text \<open>\<^verbatim>\<open>f"{type(exc).__name__}: {exc}"\<close>\<close>

fun exn_text :: "exn \<Rightarrow> string" where
  "exn_text (PyError n m) = n @ '': '' @ m"
| "exn_text (ToolDriverError c m) = ''ToolDriverError: '' @ m"

section \<open>The two logs\<close>

record 'l send_log =
  lg_begin :: "string \<Rightarrow> string option \<Rightarrow> string \<Rightarrow> string \<Rightarrow> string \<Rightarrow> 'l \<Rightarrow> (exn + bool) \<times> 'l"
  lg_skip :: "string \<Rightarrow> 'l \<Rightarrow> (exn + (send_status option \<times> string option)) \<times> 'l"
  lg_finish :: "string \<Rightarrow> send_status \<Rightarrow> string option \<Rightarrow> 'l \<Rightarrow> (exn + unit) \<times> 'l"

definition new_send_row ::
  "string \<Rightarrow> string option \<Rightarrow> string \<Rightarrow> string \<Rightarrow> string \<Rightarrow> int \<Rightarrow> send_row" where
  "new_send_row key job_id event_id conversation_id channel now =
     \<lparr>s_key = key, s_job_id = job_id, s_event_id = event_id, s_conversation_id = conversation_id,
      s_channel = channel, s_status = Intent, s_skip_count = 0, s_last_skipped_at = None,
      s_last_error = None, s_created_at = now, s_updated_at = now\<rparr>"

text \<open>
  \<^verbatim>\<open>OutboundSendLog.begin\<close>: \<^verbatim>\<open>ON CONFLICT (event_id) DO NOTHING\<close> looks at the event alone; a key
  already taken by another event violates the primary key and raises.
\<close>

definition pg_begin ::
  "int \<Rightarrow> string \<Rightarrow> string option \<Rightarrow> string \<Rightarrow> string \<Rightarrow> string \<Rightarrow> send_row list
     \<Rightarrow> (exn + bool) \<times> send_row list" where
  "pg_begin now key job_id event_id conversation_id channel rows =
     (if event_id \<in> s_event_id ` set rows then (Inr False, rows)
      else if key \<in> s_key ` set rows
      then (Inl (PyError ''UniqueViolation'' ''outbound_send_pkey''), rows)
      else (Inr True, rows @ [new_send_row key job_id event_id conversation_id channel now]))"

definition pg_record_skip ::
  "int \<Rightarrow> string \<Rightarrow> send_row list
     \<Rightarrow> (exn + (send_status option \<times> string option)) \<times> send_row list" where
  "pg_record_skip now event_id rows =
     (Inr (case List.find (\<lambda>r. s_event_id r = event_id) rows of
             None \<Rightarrow> (None, None)
           | Some r \<Rightarrow> (Some (s_status r), s_last_error r)),
      update_where (\<lambda>r. s_event_id r = event_id)
        (\<lambda>r. r\<lparr>s_skip_count := s_skip_count r + 1, s_last_skipped_at := Some now,
               s_updated_at := now\<rparr>) rows)"

definition pg_finish ::
  "int \<Rightarrow> string \<Rightarrow> send_status \<Rightarrow> string option \<Rightarrow> send_row list
     \<Rightarrow> (exn + unit) \<times> send_row list" where
  "pg_finish now key status err rows =
     (Inr (), update_where (\<lambda>r. s_key r = key)
        (\<lambda>r. r\<lparr>s_status := status, s_last_error := err, s_updated_at := now\<rparr>) rows)"

text \<open>The clock readings of one call of \<^verbatim>\<open>deliver_once\<close>: at \<open>begin\<close> (or the skip) and at \<open>finish\<close>.\<close>

definition pg_send_log :: "int \<Rightarrow> int \<Rightarrow> send_row list send_log" where
  "pg_send_log t0 t1 = \<lparr>lg_begin = pg_begin t0, lg_skip = pg_record_skip t0, lg_finish = pg_finish t1\<rparr>"

text \<open>
  \<^verbatim>\<open>InMemoryOutboundSendLog\<close>: the dict \<^verbatim>\<open>rows\<close> keyed by event, in insertion order.  It keeps no
  timestamps (zero here) and never raises; \<open>finish\<close> stops at the first row with the key.
\<close>

definition mem_begin ::
  "string \<Rightarrow> string option \<Rightarrow> string \<Rightarrow> string \<Rightarrow> string \<Rightarrow> send_row list
     \<Rightarrow> (exn + bool) \<times> send_row list" where
  "mem_begin key job_id event_id conversation_id channel rows =
     (if event_id \<in> s_event_id ` set rows then (Inr False, rows)
      else (Inr True, rows @ [new_send_row key job_id event_id conversation_id channel 0]))"

definition mem_record_skip ::
  "string \<Rightarrow> send_row list \<Rightarrow> (exn + (send_status option \<times> string option)) \<times> send_row list" where
  "mem_record_skip event_id rows =
     (case List.find (\<lambda>r. s_event_id r = event_id) rows of
        None \<Rightarrow> (Inr (None, None), rows)
      | Some r \<Rightarrow> (Inr (Some (s_status r), s_last_error r),
          update_where (\<lambda>q. s_event_id q = event_id)
            (\<lambda>q. q\<lparr>s_skip_count := s_skip_count q + 1\<rparr>) rows))"

fun update_first :: "('r \<Rightarrow> bool) \<Rightarrow> ('r \<Rightarrow> 'r) \<Rightarrow> 'r list \<Rightarrow> 'r list" where
  "update_first P f [] = []"
| "update_first P f (r # rs) = (if P r then f r # rs else r # update_first P f rs)"

definition mem_finish ::
  "string \<Rightarrow> send_status \<Rightarrow> string option \<Rightarrow> send_row list \<Rightarrow> (exn + unit) \<times> send_row list" where
  "mem_finish key status err rows =
     (Inr (), update_first (\<lambda>r. s_key r = key) (\<lambda>r. r\<lparr>s_status := status, s_last_error := err\<rparr>) rows)"

definition mem_send_log :: "send_row list send_log" where
  "mem_send_log = \<lparr>lg_begin = mem_begin, lg_skip = mem_record_skip, lg_finish = mem_finish\<rparr>"

section \<open>deliver_once\<close>

text \<open>
  \<open>deliver\<close> acts on a world of its own (what the customer and the Workbench see).  A skip is benign
  or burned; an exception of \<open>deliver\<close> is recorded and raised again, and an exception of that
  bookkeeping is swallowed, as the code does.
\<close>

definition skip_outcome :: "string \<Rightarrow> send_status option \<Rightarrow> string option \<Rightarrow> exn + bool" where
  "skip_outcome event_id status prior_error =
     (if status = Some Send_failed \<or> \<not> falsy prior_error
      then Inl (send_burned event_id status prior_error) else Inr False)"

definition deliver_once ::
  "'l send_log \<Rightarrow> string option \<Rightarrow> string \<Rightarrow> string \<Rightarrow> string \<Rightarrow> string
     \<Rightarrow> ('e \<Rightarrow> (exn + unit) \<times> 'e) \<Rightarrow> 'l \<times> 'e \<Rightarrow> (exn + bool) \<times> 'l \<times> 'e" where
  "deliver_once log job_id event_id conversation_id channel slot deliver st =
     (let (l, e) = st; key = outbound_idempotency_key job_id event_id slot in
      case lg_begin log key job_id event_id conversation_id channel l of
        (Inl x, l1) \<Rightarrow> (Inl x, l1, e)
      | (Inr False, l1) \<Rightarrow>
          (case lg_skip log event_id l1 of
             (Inl x, l2) \<Rightarrow> (Inl x, l2, e)
           | (Inr (status, prior_error), l2) \<Rightarrow> (skip_outcome event_id status prior_error, l2, e))
      | (Inr True, l1) \<Rightarrow>
          (case deliver e of
             (Inl exc, e1) \<Rightarrow>
               (let status = (if is_mirror_failed exc then Sent else Send_failed);
                    (_, l2) = lg_finish log key status (Some (exn_text exc)) l1
                in (Inl exc, l2, e1))
           | (Inr _, e1) \<Rightarrow>
               (case lg_finish log key Sent None l1 of
                  (Inl x, l2) \<Rightarrow> (Inl x, l2, e1)
                | (Inr _, l2) \<Rightarrow> (Inr True, l2, e1))))"

text \<open>
  One attempt at the delivery of an event, by a worker that may die on the way: it completes, dies
  after the intent is committed and before the delivery, or dies after the delivery and before the
  record is closed.  The world is the list of the events whose delivery ran.
\<close>

datatype crash_point = No_crash | Before_delivery | After_delivery

record attempt =
  at_job_id :: "string option"
  at_event_id :: string
  at_conversation_id :: string
  at_channel :: string
  at_slot :: string
  at_outcome :: "exn + unit"
  at_crash :: crash_point

definition traced_delivery :: "attempt \<Rightarrow> string list \<Rightarrow> (exn + unit) \<times> string list" where
  "traced_delivery a trace = (at_outcome a, trace @ [at_event_id a])"

definition run_attempt :: "'l send_log \<Rightarrow> attempt \<Rightarrow> 'l \<times> string list \<Rightarrow> 'l \<times> string list" where
  "run_attempt log a st =
     (case at_crash a of
        No_crash \<Rightarrow> snd (deliver_once log (at_job_id a) (at_event_id a) (at_conversation_id a)
                        (at_channel a) (at_slot a) (traced_delivery a) st)
      | Before_delivery \<Rightarrow>
          (snd (lg_begin log (outbound_idempotency_key (at_job_id a) (at_event_id a) (at_slot a))
             (at_job_id a) (at_event_id a) (at_conversation_id a) (at_channel a) (fst st)), snd st)
      | After_delivery \<Rightarrow>
          (case lg_begin log (outbound_idempotency_key (at_job_id a) (at_event_id a) (at_slot a))
             (at_job_id a) (at_event_id a) (at_conversation_id a) (at_channel a) (fst st) of
             (Inr True, l1) \<Rightarrow> (l1, snd (traced_delivery a (snd st)))
           | (_, l1) \<Rightarrow> (l1, snd st)))"

fun run_attempts :: "(nat \<Rightarrow> 'l send_log) \<Rightarrow> attempt list \<Rightarrow> 'l \<times> string list \<Rightarrow> 'l \<times> string list" where
  "run_attempts logs [] st = st"
| "run_attempts logs (a # as) st = run_attempts (logs \<circ> Suc) as (run_attempt (logs 0) a st)"

section \<open>The interface of a log\<close>

text \<open>
  What \<^verbatim>\<open>deliver_once\<close> needs of a log for at-most-once: \<open>begin\<close> owns an event at most once and no
  operation forgets an event.  \<open>entry l e\<close> is the recorded key, status and error of event \<open>e\<close>.
\<close>

locale send_log_guard =
  fixes log :: "'l send_log"
    and entry :: "'l \<Rightarrow> string \<Rightarrow> (string \<times> send_status \<times> string option) option"
    and ok :: "'l \<Rightarrow> bool"
  assumes begin_owned: "ok l \<Longrightarrow> entry l e \<noteq> None \<Longrightarrow> lg_begin log k j e c ch l = (Inr False, l)"
    and begin_True: "ok l \<Longrightarrow> lg_begin log k j e c ch l = (Inr True, l1) \<Longrightarrow>
      entry l e = None \<and> entry l1 e = Some (k, Intent, None)"
    and begin_other: "ok l \<Longrightarrow> lg_begin log k j e c ch l = (rb, l1) \<Longrightarrow> d \<noteq> e \<Longrightarrow> entry l1 d = entry l d"
    and begin_not_True: "ok l \<Longrightarrow> lg_begin log k j e c ch l = (rb, l1) \<Longrightarrow> rb \<noteq> Inr True \<Longrightarrow>
      entry l1 e = entry l e"
    and skip_keeps: "ok l \<Longrightarrow> lg_skip log e l = (rs, l1) \<Longrightarrow> entry l1 d = entry l d"
    and finish_keeps: "ok l \<Longrightarrow> lg_finish log k s err l = (rf, l1) \<Longrightarrow>
      (entry l1 d = None) = (entry l d = None)"
    and ok_begin: "ok l \<Longrightarrow> ok (snd (lg_begin log k j e c ch l))"
    and ok_skip: "ok l \<Longrightarrow> ok (snd (lg_skip log e l))"
    and ok_finish: "ok l \<Longrightarrow> ok (snd (lg_finish log k s err l))"
begin

lemma run_attempt_step:
  assumes ok: "ok l" and st: "run_attempt log a (l, tr) = (l', tr')"
    and owned: "\<And>e. e \<in> set tr \<Longrightarrow> entry l e \<noteq> None"
  shows "ok l' \<and> (\<forall>e. e \<in> set tr' \<longrightarrow> entry l' e \<noteq> None)
    \<and> (\<forall>e. entry l e \<noteq> None \<longrightarrow> count_list tr' e = count_list tr e)
    \<and> (\<forall>e. count_list tr' e \<le> Suc (count_list tr e))"
proof -
  let ?ev = "at_event_id a"
  let ?k = "outbound_idempotency_key (at_job_id a) ?ev (at_slot a)"
  obtain r l1 where b: "lg_begin log ?k (at_job_id a) ?ev (at_conversation_id a) (at_channel a) l = (r, l1)"
    by force
  have ok1: "ok l1" using ok_begin [OF ok, of ?k "at_job_id a" ?ev "at_conversation_id a" "at_channel a"] b
    by simp
  have keep1: "entry l d \<noteq> None \<Longrightarrow> entry l1 d \<noteq> None" for d
    using begin_other [OF ok b, of d] begin_owned [OF ok, of d] b begin_not_True [OF ok b]
    by (cases "d = ?ev") auto
  have fresh: "r = Inr True \<Longrightarrow> entry l ?ev = None \<and> entry l1 ?ev \<noteq> None"
    using begin_True [OF ok] b by auto
  show ?thesis
  proof (cases "at_crash a")
    case Before_delivery
    with st b have "l' = l1" "tr' = tr" by (auto simp: run_attempt_def)
    with ok1 keep1 owned show ?thesis by auto
  next
    case After_delivery
    show ?thesis
    proof (cases "r = Inr True")
      case True
      with st b After_delivery have "l' = l1" "tr' = tr @ [?ev]"
        by (auto simp: run_attempt_def traced_delivery_def)
      with ok1 keep1 owned fresh [OF True] show ?thesis by auto
    next
      case False
      with st b After_delivery have "l' = l1" "tr' = tr"
        by (auto simp: run_attempt_def split: sum.splits bool.splits)
      with ok1 keep1 owned show ?thesis by auto
    qed
  next
    case No_crash
    note full = st [unfolded run_attempt_def No_crash, simplified]
    show ?thesis
    proof (cases "r = Inr True")
      case True
      obtain res e1 where d: "traced_delivery a tr = (res, e1)" by force
      then have e1: "e1 = tr @ [?ev]" by (simp add: traced_delivery_def)
      have "\<exists>r2 s err. lg_finish log ?k s err l1 = (r2, l') \<and> tr' = e1"
        using full b True d
        by (auto simp: deliver_once_def Let_def split: sum.splits prod.splits)
      then obtain r2 s err where f: "lg_finish log ?k s err l1 = (r2, l')" and tr': "tr' = e1" by blast
      have "ok l'" using ok_finish [OF ok1, of ?k s err] f by simp
      moreover have "entry l1 d \<noteq> None \<Longrightarrow> entry l' d \<noteq> None" for d
        using finish_keeps [OF ok1 f] by simp
      ultimately show ?thesis using tr' e1 keep1 owned fresh [OF True] by auto
    next
      case False
      show ?thesis
      proof (cases r)
        case (Inl x)
        with full b have "l' = l1" "tr' = tr" by (auto simp: deliver_once_def Let_def)
        with ok1 keep1 owned show ?thesis by auto
      next
        case (Inr bl)
        with False have "bl = False" by auto
        with full b Inr have t: "tr' = tr" and sk: "l' = snd (lg_skip log ?ev l1)"
          by (auto simp: deliver_once_def Let_def split: sum.splits prod.splits)
        have "ok l'" using ok_skip [OF ok1] sk by simp
        moreover have "entry l' d = entry l1 d" for d
          using skip_keeps [OF ok1, of ?ev "fst (lg_skip log ?ev l1)" l'] sk by simp
        ultimately show ?thesis using t keep1 owned by auto
      qed
    qed
  qed
qed

end

text \<open>
  What it needs beyond that for the record to tell the truth: a skip reports what was recorded, and
  \<open>finish\<close> records the outcome on the row of the event whose key it is given.  Postgres makes keys
  unique by the primary key; the in-memory log relies on its callers deriving them per event.
\<close>

locale send_log_spec = send_log_guard +
  assumes skip_entry: "ok l \<Longrightarrow> entry l e = Some (k, s, err) \<Longrightarrow>
      \<exists>l1. lg_skip log e l = (Inr (Some s, err), l1)"
    and finish_sets: "ok l \<Longrightarrow> entry l e = Some (k, s0, err0) \<Longrightarrow>
      (\<And>d s' err'. d \<noteq> e \<Longrightarrow> entry l d = Some (k, s', err') \<Longrightarrow> False) \<Longrightarrow>
      lg_finish log k s err l = (rf, l1) \<Longrightarrow> rf = Inr () \<and> entry l1 e = Some (k, s, err)"
begin

definition sole_key :: "'a \<Rightarrow> string \<Rightarrow> bool" where
  "sole_key l k \<longleftrightarrow> (\<forall>d s err. entry l d \<noteq> Some (k, s, err))"

lemma deliver_once_owned:
  assumes "ok l" and "entry l ev = Some (k, s, err)"
  shows "\<exists>l1. deliver_once log j ev c ch slot deliver (l, e) = (skip_outcome ev (Some s) err, l1, e)
     \<and> (\<forall>d. entry l1 d = entry l d)"
proof -
  from skip_entry [OF assms] obtain l1 where l1: "lg_skip log ev l = (Inr (Some s, err), l1)" by blast
  have "lg_begin log (outbound_idempotency_key j ev slot) j ev c ch l = (Inr False, l)"
    using assms begin_owned by simp
  with l1 skip_keeps [OF assms(1) l1] show ?thesis by (simp add: deliver_once_def Let_def)
qed

lemma deliver_once_fresh:
  assumes "ok l" and sole: "sole_key l (outbound_idempotency_key j ev slot)"
    and b: "lg_begin log (outbound_idempotency_key j ev slot) j ev c ch l = (Inr True, l1)"
    and d: "deliver e = (res, e1)"
  shows "\<exists>l2. deliver_once log j ev c ch slot deliver (l, e) =
       (case res of Inl x \<Rightarrow> Inl x | Inr _ \<Rightarrow> Inr True, l2, e1)
     \<and> entry l2 ev = Some (outbound_idempotency_key j ev slot,
         (case res of Inl x \<Rightarrow> (if is_mirror_failed x then Sent else Send_failed) | Inr _ \<Rightarrow> Sent),
         (case res of Inl x \<Rightarrow> Some (exn_text x) | Inr _ \<Rightarrow> None))"
proof -
  let ?k = "outbound_idempotency_key j ev slot"
  have ok1: "ok l1" using ok_begin [OF assms(1), of ?k j ev c ch] b by simp
  have e1: "entry l1 ev = Some (?k, Intent, None)" using begin_True [OF assms(1) b] by simp
  have so: "d \<noteq> ev \<Longrightarrow> entry l1 d = Some (?k, s, err) \<Longrightarrow> False" for d s err
    using sole begin_other [OF assms(1) b, of d] by (auto simp: sole_key_def)
  show ?thesis
  proof (cases res)
    case (Inl x)
    obtain r l2 where f: "lg_finish log ?k (if is_mirror_failed x then Sent else Send_failed)
        (Some (exn_text x)) l1 = (r, l2)" by force
    with finish_sets [OF ok1 e1 so f] Inl b d show ?thesis
      by (simp add: deliver_once_def Let_def)
  next
    case (Inr u)
    obtain r l2 where f: "lg_finish log ?k Sent None l1 = (r, l2)" by force
    with finish_sets [OF ok1 e1 so f] Inr b d show ?thesis
      by (simp add: deliver_once_def Let_def)
  qed
qed

end

lemma run_attempts_bound:
  assumes spec: "\<And>n. send_log_guard (logs n) entry ok"
    and "ok l" and "\<And>e. e \<in> set tr \<Longrightarrow> entry l e \<noteq> None" and "\<And>e. count_list tr e \<le> 1"
    and "run_attempts logs as (l, tr) = (l', tr')"
  shows "count_list tr' e \<le> 1"
  using assms
proof (induction as arbitrary: logs l tr)
  case Nil
  then show ?case by simp
next
  case (Cons a as)
  obtain l1 tr1 where s: "run_attempt (logs 0) a (l, tr) = (l1, tr1)" by force
  from send_log_guard.run_attempt_step [OF Cons.prems(1) Cons.prems(2) s Cons.prems(3)]
  have 1: "ok l1" "\<And>e. e \<in> set tr1 \<Longrightarrow> entry l1 e \<noteq> None"
    "\<And>e. entry l e \<noteq> None \<Longrightarrow> count_list tr1 e = count_list tr e"
    "\<And>e. count_list tr1 e \<le> Suc (count_list tr e)" by auto
  have c: "count_list tr1 e \<le> 1" for e
  proof (cases "entry l e = None")
    case True
    then have "e \<notin> set tr" using Cons.prems(3) by blast
    then have "count_list tr e = 0" by (simp add: count_list_0_iff)
    with 1(4) [of e] show ?thesis by simp
  next
    case False
    with 1(3) Cons.prems(4) show ?thesis by simp
  qed
  from Cons.prems(5) s have "run_attempts (logs \<circ> Suc) as (l1, tr1) = (l', tr')" by simp
  from Cons.IH [OF _ 1(1,2) c this] Cons.prems(1) show ?case by simp
qed

section \<open>Both logs satisfy the interface\<close>

definition send_entry :: "send_row list \<Rightarrow> string \<Rightarrow> (string \<times> send_status \<times> string option) option" where
  "send_entry rows e = map_option (\<lambda>r. (s_key r, s_status r, s_last_error r))
     (List.find (\<lambda>r. s_event_id r = e) rows)"

definition send_ok :: "send_row list \<Rightarrow> bool" where
  "send_ok rows \<longleftrightarrow> distinct (map s_event_id rows)"

lemma send_entry_None: "send_entry rows e = None \<longleftrightarrow> e \<notin> s_event_id ` set rows"
  by (auto simp: send_entry_def find_None_iff)

lemma find_append: "List.find P (xs @ ys) =
   (case List.find P xs of None \<Rightarrow> List.find P ys | Some x \<Rightarrow> Some x)"
  by (induction xs) auto

lemma send_entry_append: "send_entry (rows @ [r]) e =
   (case send_entry rows e of
      None \<Rightarrow> (if s_event_id r = e then Some (s_key r, s_status r, s_last_error r) else None)
    | Some x \<Rightarrow> Some x)"
  by (auto simp: send_entry_def find_append split: option.splits)

lemma find_event_update:
  "(\<And>r. s_event_id (f r) = s_event_id r) \<Longrightarrow>
   List.find (\<lambda>r. s_event_id r = e) (update_where P f rows) =
     map_option (\<lambda>r. if P r then f r else r) (List.find (\<lambda>r. s_event_id r = e) rows)"
  by (induction rows) (auto simp: table_simps)

lemma find_event_update_first:
  "(\<And>r. s_event_id (f r) = s_event_id r) \<Longrightarrow>
   \<forall>q \<in> set rows. P q \<longleftrightarrow> s_event_id q = e \<Longrightarrow>
   List.find (\<lambda>r. s_event_id r = e) (update_first P f rows) =
     map_option f (List.find (\<lambda>r. s_event_id r = e) rows)"
  by (induction rows) simp_all

lemma events_update_first:
  "(\<And>r. s_event_id (f r) = s_event_id r) \<Longrightarrow> map s_event_id (update_first P f rows) = map s_event_id rows"
  by (induction rows) auto

lemma send_ok_update:
  "send_ok rows \<Longrightarrow> (\<And>r. s_event_id (f r) = s_event_id r) \<Longrightarrow>
   send_ok (update_where P f rows)"
  by (simp add: send_ok_def table_simps)

lemma send_entry_None_events: "send_entry rows e = None \<longleftrightarrow> e \<notin> set (map s_event_id rows)"
  by (auto simp: send_entry_None)

lemma pg_begin_ok: "send_ok rows \<Longrightarrow> send_ok (snd (pg_begin now k j e c ch rows))"
  by (simp add: pg_begin_def send_ok_def new_send_row_def)

lemma finish_entry:
  assumes "send_entry rows e = Some (k, s0, err0)"
  shows "send_entry (update_where (\<lambda>r. s_key r = k)
     (\<lambda>r. r\<lparr>s_status := s, s_last_error := err, s_updated_at := u r\<rparr>) rows) e = Some (k, s, err)"
  using assms by (auto simp: send_entry_def find_event_update)

lemma mem_begin_ok: "send_ok rows \<Longrightarrow> send_ok (snd (mem_begin k j e c ch rows))"
  by (simp add: mem_begin_def send_ok_def new_send_row_def)

lemma mem_record_skip_ok: "send_ok rows \<Longrightarrow> send_ok (snd (mem_record_skip e rows))"
  by (simp add: mem_record_skip_def send_ok_update split: option.split)

lemma mem_finish_ok: "send_ok rows \<Longrightarrow> send_ok (snd (mem_finish k s err rows))"
  by (simp add: mem_finish_def send_ok_def events_update_first)

lemma send_entry_same:
  assumes "\<And>r. s_event_id (f r) = s_event_id r" "\<And>r. s_key (f r) = s_key r"
    "\<And>r. s_status (f r) = s_status r" "\<And>r. s_last_error (f r) = s_last_error r"
  shows "send_entry (update_where P f rows) d = send_entry rows d"
  by (cases "List.find (\<lambda>r. s_event_id r = d) rows") (auto simp: send_entry_def find_event_update assms)

lemma send_entry_row:
  "send_ok rows \<Longrightarrow> send_entry rows d = Some (k, s, err) \<longleftrightarrow>
     (\<exists>r \<in> set rows. s_event_id r = d \<and> s_key r = k \<and> s_status r = s \<and> s_last_error r = err)"
proof (induction rows)
  case Nil
  then show ?case by (simp add: send_entry_def)
next
  case (Cons a rows)
  then have ok: "send_ok rows" and new: "s_event_id a \<notin> s_event_id ` set rows"
    by (simp_all add: send_ok_def)
  show ?case
  proof (cases "s_event_id a = d")
    case True
    with new have "r \<in> set rows \<Longrightarrow> s_event_id r \<noteq> d" for r by (metis imageI)
    with True show ?thesis by (auto simp: send_entry_def)
  next
    case False
    then show ?thesis using Cons.IH [OF ok] by (simp add: send_entry_def)
  qed
qed

lemma sole_rows:
  assumes "send_ok rows" and "\<And>d s err. d \<noteq> e \<Longrightarrow> send_entry rows d = Some (k, s, err) \<Longrightarrow> False"
    and "q \<in> set rows" and "s_key q = k"
  shows "s_event_id q = e"
  using assms(2) [of "s_event_id q" "s_status q" "s_last_error q"] assms(3,4)
  by (auto simp: send_entry_row [OF assms(1)])

interpretation pg: send_log_spec "pg_send_log t0 t1" send_entry send_ok
proof unfold_locales
  fix l e k j c ch
  assume "send_entry l e \<noteq> None"
  then show "lg_begin (pg_send_log t0 t1) k j e c ch l = (Inr False, l)"
    by (simp add: pg_send_log_def pg_begin_def send_entry_None)
next
  fix l k j e c ch l1
  assume "lg_begin (pg_send_log t0 t1) k j e c ch l = (Inr True, l1)"
  then have new: "e \<notin> s_event_id ` set l" and l1: "\<exists>t. l1 = l @ [new_send_row k j e c ch t]"
    by (auto simp: pg_send_log_def pg_begin_def split: if_splits)
  from new have "send_entry l e = None" by (simp add: send_entry_None)
  with l1 show "send_entry l e = None \<and> send_entry l1 e = Some (k, Intent, None)"
    by (auto simp: send_entry_append new_send_row_def)
next
  fix l k j e c ch rb l1 d
  assume "lg_begin (pg_send_log t0 t1) k j e c ch l = (rb, l1)" "d \<noteq> e"
  then show "send_entry l1 d = send_entry l d"
    by (auto simp: pg_send_log_def pg_begin_def send_entry_append new_send_row_def
        split: if_splits option.splits)
next
  fix l k j e c ch rb l1
  assume "lg_begin (pg_send_log t0 t1) k j e c ch l = (rb, l1)" "rb \<noteq> Inr True"
  then show "send_entry l1 e = send_entry l e"
    by (auto simp: pg_send_log_def pg_begin_def split: if_splits)
next
  fix l e k s err
  assume "send_entry l e = Some (k, s, err)"
  then show "\<exists>l1. lg_skip (pg_send_log t0 t1) e l = (Inr (Some s, err), l1)"
    by (auto simp: pg_send_log_def pg_record_skip_def send_entry_def)
next
  fix l e rs l1 d
  assume "lg_skip (pg_send_log t0 t1) e l = (rs, l1)"
  then have "l1 = snd (pg_record_skip t0 e l)" by (simp add: pg_send_log_def)
  then show "send_entry l1 d = send_entry l d"
    by (simp add: pg_record_skip_def send_entry_same)
next
  fix l e k s0 err0 s err rf l1
  assume "send_entry l e = Some (k, s0, err0)" "lg_finish (pg_send_log t0 t1) k s err l = (rf, l1)"
  then show "rf = Inr () \<and> send_entry l1 e = Some (k, s, err)"
    by (auto simp: pg_send_log_def pg_finish_def finish_entry)
next
  fix l k s err rf l1 d
  assume "lg_finish (pg_send_log t0 t1) k s err l = (rf, l1)"
  then show "(send_entry l1 d = None) = (send_entry l d = None)"
    by (auto simp: pg_send_log_def pg_finish_def send_entry_def find_event_update)
qed (auto simp: pg_send_log_def pg_begin_ok pg_record_skip_def pg_finish_def send_ok_update)

interpretation mem: send_log_spec mem_send_log send_entry send_ok
proof unfold_locales
  fix l e k j c ch
  assume "send_entry l e \<noteq> None"
  then show "lg_begin mem_send_log k j e c ch l = (Inr False, l)"
    by (simp add: mem_send_log_def mem_begin_def send_entry_None)
next
  fix l k j e c ch l1
  assume "lg_begin mem_send_log k j e c ch l = (Inr True, l1)"
  then have new: "e \<notin> s_event_id ` set l" and l1: "\<exists>t. l1 = l @ [new_send_row k j e c ch t]"
    by (auto simp: mem_send_log_def mem_begin_def split: if_splits)
  from new have "send_entry l e = None" by (simp add: send_entry_None)
  with l1 show "send_entry l e = None \<and> send_entry l1 e = Some (k, Intent, None)"
    by (auto simp: send_entry_append new_send_row_def)
next
  fix l k j e c ch rb l1 d
  assume "lg_begin mem_send_log k j e c ch l = (rb, l1)" "d \<noteq> e"
  then show "send_entry l1 d = send_entry l d"
    by (auto simp: mem_send_log_def mem_begin_def send_entry_append new_send_row_def
        split: if_splits option.splits)
next
  fix l k j e c ch rb l1
  assume "lg_begin mem_send_log k j e c ch l = (rb, l1)" "rb \<noteq> Inr True"
  then show "send_entry l1 e = send_entry l e"
    by (auto simp: mem_send_log_def mem_begin_def split: if_splits)
next
  fix l e k s err
  assume "send_entry l e = Some (k, s, err)"
  then show "\<exists>l1. lg_skip mem_send_log e l = (Inr (Some s, err), l1)"
    by (auto simp: mem_send_log_def mem_record_skip_def send_entry_def)
next
  fix l e rs l1 d
  assume "lg_skip mem_send_log e l = (rs, l1)"
  then have "l1 = snd (mem_record_skip e l)" by (simp add: mem_send_log_def)
  then show "send_entry l1 d = send_entry l d"
    by (simp add: mem_record_skip_def send_entry_same split: option.splits)
next
  fix l e k s0 err0 s err rf l1
  assume "send_ok l" and e: "send_entry l e = Some (k, s0, err0)"
    and so: "\<And>d s' err'. d \<noteq> e \<Longrightarrow> send_entry l d = Some (k, s', err') \<Longrightarrow> False"
    and f: "lg_finish mem_send_log k s err l = (rf, l1)"
  have "r \<in> set l \<Longrightarrow> s_event_id r = e \<Longrightarrow> s_key r = k" for r
    using e send_entry_row [OF \<open>send_ok l\<close>, of e "s_key r" "s_status r" "s_last_error r"] by auto
  moreover have "q \<in> set l \<Longrightarrow> s_key q = k \<Longrightarrow> s_event_id q = e" for q
    by (rule sole_rows [OF \<open>send_ok l\<close>]) (rule so)
  ultimately have "\<forall>q \<in> set l. s_key q = k \<longleftrightarrow> s_event_id q = e" by blast
  then show "rf = Inr () \<and> send_entry l1 e = Some (k, s, err)"
    using e f by (auto simp: mem_send_log_def mem_finish_def send_entry_def find_event_update_first)
next
  fix l k s err rf l1 d
  assume "lg_finish mem_send_log k s err l = (rf, l1)"
  then show "(send_entry l1 d = None) = (send_entry l d = None)"
    by (auto simp: mem_send_log_def mem_finish_def send_entry_None_events events_update_first
        simp del: set_map)
qed (auto simp: mem_send_log_def mem_begin_ok mem_record_skip_ok mem_finish_ok)

section \<open>Properties\<close>

text \<open>C1.  However often the deliveries of events are attempted, by workers that may die
  before or after the delivery, under any clock and with any outcome of the delivery itself, no
  event is delivered twice; on the Postgres log and on the in-memory one.\<close>

theorem delivered_at_most_once:
  "count_list (snd (run_attempts (\<lambda>n. pg_send_log (t0 n) (t1 n)) attempts ([], []))) e \<le> 1
   \<and> count_list (snd (run_attempts (\<lambda>_. mem_send_log) attempts ([], []))) e \<le> 1"
proof
  obtain l tr where r: "run_attempts (\<lambda>n. pg_send_log (t0 n) (t1 n)) attempts ([], []) = (l, tr)" by force
  then show "count_list (snd (run_attempts (\<lambda>n. pg_send_log (t0 n) (t1 n)) attempts ([], []))) e \<le> 1"
    using run_attempts_bound [OF pg.send_log_guard_axioms _ _ _ r] by (simp add: send_ok_def)
next
  obtain l tr where r: "run_attempts (\<lambda>_. mem_send_log) attempts ([], []) = (l, tr)" by force
  then show "count_list (snd (run_attempts (\<lambda>_. mem_send_log) attempts ([], []))) e \<le> 1"
    using run_attempts_bound [OF mem.send_log_guard_axioms _ _ _ r] by (simp add: send_ok_def)
qed

text \<open>On Postgres, the first delivery of an event runs, its result is the caller's, and
  the row closes with what happened: sent, failed with the error, or sent with a failed mirror.\<close>

theorem first_delivery_recorded:
  assumes "send_ok rows" and "ev \<notin> s_event_id ` set rows"
    and "outbound_idempotency_key j ev slot \<notin> s_key ` set rows" and "deliver e = (res, e1)"
  shows "\<exists>rows'. deliver_once (pg_send_log t0 t1) j ev c ch slot deliver (rows, e) =
       (case res of Inl x \<Rightarrow> Inl x | Inr _ \<Rightarrow> Inr True, rows', e1)
     \<and> send_entry rows' ev = Some (outbound_idempotency_key j ev slot,
         (case res of Inl x \<Rightarrow> (if is_mirror_failed x then Sent else Send_failed) | Inr _ \<Rightarrow> Sent),
         (case res of Inl x \<Rightarrow> Some (exn_text x) | Inr _ \<Rightarrow> None))"
proof -
  let ?k = "outbound_idempotency_key j ev slot"
  have "pg.sole_key rows ?k"
    using assms(3) by (force simp: pg.sole_key_def send_entry_row [OF assms(1)])
  moreover obtain l1 where "lg_begin (pg_send_log t0 t1) ?k j ev c ch rows = (Inr True, l1)"
    using assms(2,3) by (auto simp: pg_send_log_def pg_begin_def)
  ultimately show ?thesis by (rule pg.deliver_once_fresh [OF assms(1), where deliver = deliver, OF _ _ assms(4)])
qed

theorem first_delivery_recorded_witness:
  "\<exists>rows'. deliver_once (pg_send_log 1 2) (Some ''job_1'') ''evt_1'' ''+14165550101'' ''simpletexting_sms'' REPLY_SLOT
       (\<lambda>n :: nat. (Inl (PyError ''TimeoutError'' ''timed out''), Suc n)) ([], 0) =
       (Inl (PyError ''TimeoutError'' ''timed out''), rows', 1)
     \<and> send_entry rows' ''evt_1'' = Some (''job_1:evt_1:reply'', Send_failed, Some ''TimeoutError: timed out'')"
  using first_delivery_recorded [where rows = "[]" and ev = "''evt_1''" and j = "Some ''job_1''" and slot = REPLY_SLOT
      and deliver = "\<lambda>n :: nat. (Inl (PyError ''TimeoutError'' ''timed out''), Suc n)" and e = 0
      and res = "Inl (PyError ''TimeoutError'' ''timed out'')" and ?e1.0 = 1 and ?t0.0 = 1 and ?t1.0 = 2
      and c = "''+14165550101''" and ch = "''simpletexting_sms''"]
  by (simp add: send_ok_def outbound_idempotency_key_def REPLY_SLOT_def)

end
