(* ===== verification/PyObjects.thy ===== *)
theory PyObjects
  imports Prelude
begin

text \<open>
  Python operations on values whose shape nobody has checked, as the code that reads vendor payloads
  and model output uses them: attribute access, iteration, the first element, \<^verbatim>\<open>int(text)\<close>; and the
  two edges every vendor client has, an HTTP exchange and a call under a deadline.
\<close>

section \<open>Reading an unchecked value\<close>

text \<open>\<^verbatim>\<open>x.get(..)\<close> on something that is no dict, and \<^verbatim>\<open>name.partition\<close> on no text.\<close>

definition attribute_error :: exn where
  "attribute_error = PyError ''AttributeError'' ''object has no such attribute''"

definition need_obj :: "json \<Rightarrow> exn + dict" where
  "need_obj j = (case j of JObj d \<Rightarrow> Inr d | _ \<Rightarrow> Inl attribute_error)"

definition py_iter :: "json \<Rightarrow> exn + json list" where
  "py_iter j = (case j of
      JList xs \<Rightarrow> Inr xs
    | JStr s \<Rightarrow> Inr (map (\<lambda>c. JStr [c]) s)
    | JObj d \<Rightarrow> Inr (map (JStr \<circ> fst) d)
    | _ \<Rightarrow> Inl (PyError ''TypeError'' ''object is not iterable''))"

text \<open>\<^verbatim>\<open>x[0]\<close>\<close>

definition py_first :: "json \<Rightarrow> exn + json" where
  "py_first j = (case j of
      JList (x # _) \<Rightarrow> Inr x
    | JList [] \<Rightarrow> Inl (PyError ''IndexError'' ''list index out of range'')
    | JStr (c # _) \<Rightarrow> Inr (JStr [c])
    | JStr [] \<Rightarrow> Inl (PyError ''IndexError'' ''string index out of range'')
    | JObj _ \<Rightarrow> Inl (PyError ''KeyError'' ''0'')
    | _ \<Rightarrow> Inl (PyError ''TypeError'' ''object is not subscriptable''))"

text \<open>\<^verbatim>\<open>x.get(key)\<close>, and \<^verbatim>\<open>x[-1]\<close> of a list known not to be empty.\<close>

definition obj_get :: "json \<Rightarrow> string \<Rightarrow> exn + json" where
  "obj_get j k = ebind (need_obj j) (\<lambda>d. Inr (get d k))"

definition is_obj :: "json \<Rightarrow> bool" where
  "is_obj j = (case j of JObj _ \<Rightarrow> True | _ \<Rightarrow> False)"

text \<open>A value kept when it is a non-empty text: \<^verbatim>\<open>v if isinstance(v, str) and v else None\<close>.\<close>

definition text_or_none :: "json \<Rightarrow> string option" where
  "text_or_none j = (case j of JStr s \<Rightarrow> (if s \<noteq> [] then Some s else None) | _ \<Rightarrow> None)"

definition opt_or :: "'a option \<Rightarrow> 'a option \<Rightarrow> 'a option" where
  "opt_or x y = (case x of None \<Rightarrow> y | Some _ \<Rightarrow> x)"

text \<open>\<^verbatim>\<open>str(x) if x is not None else None\<close>\<close>

definition str_or_none :: "json \<Rightarrow> json" where
  "str_or_none j = (if j = JNull then JNull else JStr (py_str j))"

text \<open>\<^verbatim>\<open>pat in s\<close> on two texts.\<close>

fun occurs_in :: "string \<Rightarrow> string \<Rightarrow> bool" where
  "occurs_in pat [] = (pat = [])"
| "occurs_in pat (c # cs) = (starts_with (c # cs) pat \<or> occurs_in pat cs)"

text \<open>\<^verbatim>\<open>{**d, **upd}\<close>\<close>

definition set_keys :: "dict \<Rightarrow> dict \<Rightarrow> dict" where
  "set_keys d upd = map (\<lambda>(k, v). (k, get_or upd k v)) d @ filter (\<lambda>(k, v). k \<notin> fst ` set d) upd"

text \<open>A comprehension whose element expression may raise.\<close>

fun map_exn :: "('a \<Rightarrow> exn + 'b) \<Rightarrow> 'a list \<Rightarrow> exn + 'b list" where
  "map_exn f [] = Inr []"
| "map_exn f (x # xs) = ebind (f x) (\<lambda>y. ebind (map_exn f xs) (\<lambda>ys. Inr (y # ys)))"

text \<open>\<^verbatim>\<open>str(exc)\<close>\<close>

fun exn_message :: "exn \<Rightarrow> string" where
  "exn_message (ToolDriverError c m) = m"
| "exn_message (PyError n m) = m"

fun is_tool_driver_error :: "exn \<Rightarrow> bool" where
  "is_tool_driver_error (ToolDriverError _ _) = True"
| "is_tool_driver_error (PyError _ _) = False"

text \<open>
  \<^verbatim>\<open>except ToolDriverError: raise\<close>, then \<^verbatim>\<open>except Exception as err: raise ToolDriverError(..) from err\<close>.
\<close>

definition governed :: "error_class \<Rightarrow> (string \<Rightarrow> string) \<Rightarrow> exn + 'a \<Rightarrow> exn + 'a" where
  "governed c msg r = (case r of
      Inr x \<Rightarrow> Inr x
    | Inl e \<Rightarrow> Inl (if is_tool_driver_error e then e else ToolDriverError c (msg (exn_message e))))"

section \<open>Integers in texts\<close>

text \<open>
  \<^verbatim>\<open>int(text)\<close> on a stripped text: an optional sign, then decimal digits in which single underscores
  may stand between digits; more than 4300 digits are refused.  \<open>None\<close> is \<^verbatim>\<open>ValueError\<close>.
\<close>

fun int_digits :: "nat \<Rightarrow> bool \<Rightarrow> string \<Rightarrow> nat option" where
  "int_digits acc prev [] = (if prev then Some acc else None)"
| "int_digits acc prev (c # cs) =
     (if py_isdigit c then int_digits (acc * 10 + (code c - 48)) True cs
      else if c = CHR ''_'' \<and> prev then int_digits acc False cs
      else None)"

definition py_int :: "string \<Rightarrow> int option" where
  "py_int s =
     (let (neg, body) = (case s of
            c # cs \<Rightarrow> (if c = CHR ''-'' then (True, cs) else if c = CHR ''+'' then (False, cs) else (False, s))
          | [] \<Rightarrow> (False, s)) in
      if length (filter py_isdigit body) > 4300 then None
      else map_option (\<lambda>n. if neg then - int n else int n) (int_digits 0 False body))"

section \<open>HTTP exchanges and deadlines\<close>

text \<open>What \<^verbatim>\<open>urlopen(req).read()\<close> came to: a 2xx body, \<^verbatim>\<open>HTTPError\<close> or \<^verbatim>\<open>URLError\<close>.\<close>

datatype http_outcome = Http_body string | Http_error nat | Url_error string

record http_request =
  hr_method :: string
  hr_url :: string
  hr_body :: "json option"
  hr_headers :: "(string \<times> string) list"

type_synonym http = "http_request \<Rightarrow> http_outcome"

text \<open>\<^verbatim>\<open>os.environ\<close>\<close>

type_synonym environ = "string \<Rightarrow> string option"

text \<open>
  A call in a worker thread under a wall-clock budget: \<open>None\<close> when the budget expired first.  The
  exceptions of the call become governed ones.
\<close>

definition under_deadline ::
  "string \<Rightarrow> (string \<Rightarrow> string) \<Rightarrow> (exn + 'a) option \<times> 's \<Rightarrow> (exn + 'a) \<times> 's" where
  "under_deadline timeout_message msg p =
     (case p of
        (None, s) \<Rightarrow> (Inl (ToolDriverError Vendor_timeout timeout_message), s)
      | (Some r, s) \<Rightarrow> (governed Configuration_missing msg r, s))"

section \<open>Lemmas\<close>

lemma map_sum_Inr [exn_simps]: "map_sum id f r = Inr y \<longleftrightarrow> (\<exists>x. r = Inr x \<and> y = f x)"
  by (cases r) auto

lemma map_exn_Inr: "map_exn f xs = Inr ys \<longleftrightarrow> list_all2 (\<lambda>x y. f x = Inr y) xs ys"
  by (induction xs arbitrary: ys) (auto simp: exn_simps list_all2_Cons1)

lemma map_exn_total: "(\<And>x. x \<in> set xs \<Longrightarrow> f x = Inr (g x)) \<Longrightarrow> map_exn f xs = Inr (map g xs)"
  by (induction xs) (auto simp: exn_simps)

lemma map_exn_member:
  assumes "map_exn f xs = Inr ys" and "y \<in> set ys"
  shows "\<exists>x \<in> set xs. f x = Inr y"
  using assms by (induction xs arbitrary: ys) (auto simp: exn_simps)

lemma need_obj_Inr [exn_simps]: "need_obj j = Inr d \<longleftrightarrow> j = JObj d"
  by (auto simp: need_obj_def split: json.splits)

lemma text_or_none_Some [simp]: "text_or_none j = Some s \<longleftrightarrow> j = JStr s \<and> s \<noteq> []"
  by (auto simp: text_or_none_def split: json.splits)

lemma governed_Inr [exn_simps]: "governed c msg r = Inr x \<longleftrightarrow> r = Inr x"
  by (auto simp: governed_def split: sum.splits)

lemma governed_Inl: "governed c msg r = Inl e \<Longrightarrow> is_tool_driver_error e"
  by (auto simp: governed_def split: sum.splits if_splits)

lemma under_deadline_Inr [exn_simps]: "under_deadline t msg p = (Inr x, s) \<longleftrightarrow> p = (Some (Inr x), s)"
  by (auto simp: under_deadline_def exn_simps split: prod.splits option.splits)

lemma under_deadline_Inl: "under_deadline t msg p = (Inl e, s) \<Longrightarrow> is_tool_driver_error e"
  by (auto simp: under_deadline_def split: prod.splits option.splits dest: governed_Inl)

end
