(* ===== verification/MemoryPolicy.thy ===== *)
theory MemoryPolicy
  imports Dispatch Normalize "HOL-Library.AList"
begin

text \<open>
  Customer Memory rules of \<^verbatim>\<open>drivers/mock/memory.py\<close>: slots, parameter checks, the binding of an
  identity, the framework-derived source and clear authorization, shared by the Postgres handlers,
  and the mock handlers over their per-binding store.
\<close>

section \<open>Slots, sources, parameters\<close>

definition MEMORY_PREFERENCE_SLOTS :: "string list" where
  "MEMORY_PREFERENCE_SLOTS = [''contact_time_preference'', ''channel_preference'',
     ''delivery_habit_note'', ''communication_style_note'']"

definition MEMORY_SOURCE_CUSTOMER_EXPLICIT :: string where
  "MEMORY_SOURCE_CUSTOMER_EXPLICIT = ''customer_explicit''"

definition MEMORY_SOURCE_EMPLOYEE_CONFIRMED :: string where
  "MEMORY_SOURCE_EMPLOYEE_CONFIRMED = ''employee_confirmed''"

definition MEMORY_SOURCE_COPILOT_AGENT :: string where
  "MEMORY_SOURCE_COPILOT_AGENT = ''copilot_agent''"

definition MEMORY_SOURCE_MERGED_PROVISIONAL :: string where
  "MEMORY_SOURCE_MERGED_PROVISIONAL = ''merged_provisional''"

definition MEMORY_VALUE_MAX_LENGTH :: nat where
  "MEMORY_VALUE_MAX_LENGTH = 200"

definition MEMORY_EVIDENCE_MAX_LENGTH :: nat where
  "MEMORY_EVIDENCE_MAX_LENGTH = 500"

definition is_preference_slot :: "json \<Rightarrow> bool" where
  "is_preference_slot v = (case v of JStr s \<Rightarrow> s \<in> set MEMORY_PREFERENCE_SLOTS | _ \<Rightarrow> False)"

definition require_slot :: "dict \<Rightarrow> exn + string" where
  "require_slot params =
     (let requested = (case get params ''key'' of JNull \<Rightarrow> get params ''slot'' | v \<Rightarrow> v) in
      if \<not> is_preference_slot requested
      then Inl (ToolDriverError Unexpected_error
        (''Customer Memory rejects open-ended preference key \"'' @ py_str requested @ ''\"; '' @
         ''only the four v1 slots are allowed (ADR-0111).''))
      else (case requested of JStr s \<Rightarrow> Inr s | _ \<Rightarrow> Inr []))"

definition require_value :: "dict \<Rightarrow> exn + string" where
  "require_value params =
     (case get params ''value'' of
        JStr v \<Rightarrow>
          (if length v > MEMORY_VALUE_MAX_LENGTH
           then Inl (ToolDriverError Unexpected_error
                  ''Customer Memory rejects a value longer than 200 characters.'')
           else Inr v)
      | _ \<Rightarrow> Inl (ToolDriverError Unexpected_error ''upsert_preference requires a string value.''))"

definition read_evidence :: "dict \<Rightarrow> exn + string option" where
  "read_evidence params =
     (case get params ''evidence'' of
        JNull \<Rightarrow> Inr None
      | JStr e \<Rightarrow>
          (if length e > MEMORY_EVIDENCE_MAX_LENGTH
           then Inl (ToolDriverError Unexpected_error
                  ''Customer Memory rejects evidence longer than 500 characters.'')
           else Inr (Some e))
      | _ \<Rightarrow> Inl (ToolDriverError Unexpected_error
               ''upsert_preference evidence must be a string when provided.''))"

section \<open>Identity binding and authorization\<close>

definition is_verified_customer_identity :: "json \<Rightarrow> bool" where
  "is_verified_customer_identity ident =
     (case ident of JObj d \<Rightarrow> get d ''outcome'' = JStr ''verified_customer'' | _ \<Rightarrow> False)"

definition provisional_key :: "string \<Rightarrow> string \<Rightarrow> string" where
  "provisional_key channel normalized = ''provisional:'' @ channel @ '':'' @ normalized"

definition provisional_binding :: "dict \<Rightarrow> (string \<times> string) option" where
  "provisional_binding d =
     (case (get d ''channel'', get d ''channel_identity'') of
        (JStr channel, JStr channel_identity) \<Rightarrow>
          (if channel = [] then None
           else if is_email_channel channel
           then (let normalized = canonicalize_email channel_identity in
                 if normalized \<noteq> [] then Some (provisional_key channel normalized, ''provisional'')
                 else None)
           else (let normalized = normalize_e164 channel_identity in
                 if normalized \<noteq> ''+'' then Some (provisional_key channel normalized, ''provisional'')
                 else None))
      | _ \<Rightarrow> None)"

definition binding_key_from_identity :: "json \<Rightarrow> (string \<times> string) option" where
  "binding_key_from_identity ident =
     (case ident of
        JObj d \<Rightarrow>
          (case (if is_verified_customer_identity ident then get d ''shopify_customer_id'' else JNull) of
             JStr shopify_customer_id \<Rightarrow>
               (if shopify_customer_id \<noteq> [] then Some (shopify_customer_id, ''verified'')
                else provisional_binding d)
           | _ \<Rightarrow> provisional_binding d)
      | _ \<Rightarrow> None)"

definition resolve_customer_memory_binding :: "ctx \<Rightarrow> dict \<Rightarrow> exn + string \<times> string" where
  "resolve_customer_memory_binding context params =
     (case binding_key_from_identity (identity context) of
        Some b \<Rightarrow> Inr b
      | None \<Rightarrow> Inl (ToolDriverError Policy_blocked
          (''Customer Memory requires a resolvable channel identity; the turn has '' @
           ''none (fail-closed, ADR-0112 / PRD FR-5).'')))"

definition resolve_memory_write_source :: "ctx \<Rightarrow> exn + string" where
  "resolve_memory_write_source context =
     (if profile context = EXTERNAL then Inr MEMORY_SOURCE_CUSTOMER_EXPLICIT
      else if profile context = INTERNAL
      then (if \<not> falsy (user_id context) then Inr MEMORY_SOURCE_EMPLOYEE_CONFIRMED
            else Inr MEMORY_SOURCE_COPILOT_AGENT)
      else Inl (ToolDriverError Policy_blocked
        (''Customer Memory writes are not permitted for profile \"'' @ profile context @ ''\".'')))"

definition resolve_clear_authorization :: "ctx \<Rightarrow> exn + string option \<times> string" where
  "resolve_clear_authorization context =
     (if profile context = EXTERNAL
      then (if is_verified_customer_identity (identity context) then Inr (None, ''customer'')
            else Inl (ToolDriverError Policy_blocked
              ''A governed preference clear requires a verified customer identity.''))
      else if profile context = INTERNAL
      then (if \<not> falsy (user_id context) then Inr (user_id context, ''rep'')
            else Inl (ToolDriverError Policy_blocked
              ''A governed preference clear requires an attributed actor.''))
      else Inl (ToolDriverError Policy_blocked
        (''Customer Memory clears are not permitted for profile \"'' @ profile context @ ''\".'')))"

section \<open>The mock handlers\<close>

text \<open>
  The closures' \<^verbatim>\<open>store\<close> and \<^verbatim>\<open>evidence\<close>: per binding, an insertion-ordered dict of texts.
  \<open>preferences\<close> is the injected baseline; \<open>slots_for\<close> also stores the seeded binding.
\<close>

record mem_mock =
  mm_store :: "(string \<times> (string \<times> string) list) list"
  mm_evidence :: "(string \<times> (string \<times> string) list) list"

definition slots_for ::
  "(string \<times> string) list \<Rightarrow> string \<Rightarrow> mem_mock \<Rightarrow> (string \<times> string) list \<times> mem_mock" where
  "slots_for preferences binding_key s =
     (case map_of (mm_store s) binding_key of
        Some slots \<Rightarrow> (slots, s)
      | None \<Rightarrow> (preferences, s\<lparr>mm_store := AList.update binding_key preferences (mm_store s)\<rparr>))"

definition preferences_json :: "(string \<times> string) list \<Rightarrow> json" where
  "preferences_json slots = JObj (map (\<lambda>(k, v). (k, JStr v)) slots)"

definition mock_upsert_preference ::
  "(string \<times> string) list \<Rightarrow> dict \<Rightarrow> ctx \<Rightarrow> mem_mock \<Rightarrow> (exn + json) \<times> mem_mock" where
  "mock_upsert_preference preferences params context s =
     (case ebind (require_slot params) (\<lambda>slot.
           ebind (require_value params) (\<lambda>v.
           ebind (read_evidence params) (\<lambda>ev.
           ebind (resolve_memory_write_source context) (\<lambda>source.
           ebind (resolve_customer_memory_binding context params) (\<lambda>(binding_key, _).
           Inr (slot, v, ev, source, binding_key)))))) of
        Inl e \<Rightarrow> (Inl e, s)
      | Inr (slot, v, ev, source, binding_key) \<Rightarrow>
          (let (slots, s1) = slots_for preferences binding_key s;
               s2 = s1\<lparr>mm_store := AList.update binding_key (AList.update slot v slots) (mm_store s1)\<rparr>;
               s3 = (case ev of None \<Rightarrow> s2
                     | Some e \<Rightarrow> s2\<lparr>mm_evidence := AList.update binding_key
                          (AList.update slot e
                            (case map_of (mm_evidence s2) binding_key of None \<Rightarrow> [] | Some m \<Rightarrow> m))
                          (mm_evidence s2)\<rparr>) in
           (Inr (JObj [(''binding_key'', JStr binding_key), (''slot'', JStr slot), (''value'', JStr v),
              (''source'', JStr source), (''evidence'', opt_str ev), (''stored'', JBool True)]), s3)))"

definition mock_clear_preference ::
  "(string \<times> string) list \<Rightarrow> dict \<Rightarrow> ctx \<Rightarrow> mem_mock \<Rightarrow> (exn + json) \<times> mem_mock" where
  "mock_clear_preference preferences params context s =
     (case ebind (require_slot params) (\<lambda>slot.
           ebind (resolve_clear_authorization context) (\<lambda>_.
           ebind (resolve_customer_memory_binding context params) (\<lambda>(binding_key, _).
           Inr (slot, binding_key)))) of
        Inl e \<Rightarrow> (Inl e, s)
      | Inr (slot, binding_key) \<Rightarrow>
          (let (slots, s1) = slots_for preferences binding_key s in
           (Inr (JObj [(''binding_key'', JStr binding_key), (''slot'', JStr slot),
                       (''cleared'', JBool True)]),
            s1\<lparr>mm_store := AList.update binding_key (AList.delete slot slots) (mm_store s1)\<rparr>)))"

definition mock_get_preferences ::
  "(string \<times> string) list \<Rightarrow> dict \<Rightarrow> ctx \<Rightarrow> mem_mock \<Rightarrow> (exn + json) \<times> mem_mock" where
  "mock_get_preferences preferences params context s =
     (case resolve_customer_memory_binding context params of
        Inl e \<Rightarrow> (Inl e, s)
      | Inr (binding_key, _) \<Rightarrow>
          (let (slots, s1) = slots_for preferences binding_key s in
           (Inr (JObj [(''binding_key'', JStr binding_key),
                       (''preferences'', preferences_json slots)]), s1)))"

definition self_service_refused :: exn where
  "self_service_refused = ToolDriverError Policy_blocked
     ''Customer Memory self-service requires a verified customer identity.''"

definition mock_get_my_memory_summary ::
  "(string \<times> string) list \<Rightarrow> dict \<Rightarrow> ctx \<Rightarrow> mem_mock \<Rightarrow> (exn + json) \<times> mem_mock" where
  "mock_get_my_memory_summary preferences params context s =
     (if \<not> is_verified_customer_identity (identity context) then (Inl self_service_refused, s)
      else case resolve_customer_memory_binding context params of
        Inl e \<Rightarrow> (Inl e, s)
      | Inr (binding_key, _) \<Rightarrow>
          (let (slots, s1) = slots_for preferences binding_key s in
           (Inr (JObj [(''preferences'', preferences_json slots)]), s1)))"

definition dismissal_refused :: exn where
  "dismissal_refused = ToolDriverError Policy_blocked
     ''A governed proposal dismissal requires an attributed actor.''"

definition mock_dismiss_proposal ::
  "dict \<Rightarrow> ctx \<Rightarrow> mem_mock \<Rightarrow> (exn + json) \<times> mem_mock" where
  "mock_dismiss_proposal params context s =
     (ebind (require_slot params) (\<lambda>slot.
      ebind (require_value params) (\<lambda>_.
      ebind (guard (\<not> falsy (user_id context)) dismissal_refused) (\<lambda>_.
      ebind (resolve_customer_memory_binding context params) (\<lambda>(binding_key, _).
      Inr (JObj [(''binding_key'', JStr binding_key), (''slot'', JStr slot),
                 (''dismissed'', JBool True)]))))), s)"

definition mock_get_memory_audit ::
  "(string \<times> string) list \<Rightarrow> dict \<Rightarrow> ctx \<Rightarrow> mem_mock \<Rightarrow> (exn + json) \<times> mem_mock" where
  "mock_get_memory_audit preferences params context s =
     (case resolve_customer_memory_binding context params of
        Inl e \<Rightarrow> (Inl e, s)
      | Inr (binding_key, _) \<Rightarrow>
          (let (slots, s1) = slots_for preferences binding_key s;
               evs = (case map_of (mm_evidence s1) binding_key of None \<Rightarrow> [] | Some m \<Rightarrow> m) in
           (Inr (JObj [(''binding_key'', JStr binding_key),
              (''slots'', JList (map (\<lambda>(slot, v). JObj
                 [(''slot_name'', JStr slot), (''slot_value'', JStr v), (''source'', JNull),
                  (''actor_account_id'', JNull), (''evidence'', opt_str (map_of evs slot)),
                  (''created_at'', JNull), (''updated_at'', JNull)]) slots)),
              (''audit'', JList [])]), s1)))"

definition memory_mock_handlers :: "(string \<times> string) list \<Rightarrow> mem_mock handler_registry" where
  "memory_mock_handlers preferences = [(''toee_customer_memory'',
     [(''upsert_preference'', mock_upsert_preference preferences),
      (''clear_preference'', mock_clear_preference preferences),
      (''get_preferences'', mock_get_preferences preferences),
      (''get_my_memory_summary'', mock_get_my_memory_summary preferences),
      (''dismiss_proposal'', mock_dismiss_proposal),
      (''get_memory_audit'', mock_get_memory_audit preferences)])]"

section \<open>Lemmas\<close>

lemma require_slot_Inr: "require_slot params = Inr s \<Longrightarrow> s \<in> set MEMORY_PREFERENCE_SLOTS"
  by (auto simp: require_slot_def Let_def is_preference_slot_def split: json.splits if_splits)

lemma require_value_Inr: "require_value params = Inr v \<Longrightarrow>
   get params ''value'' = JStr v \<and> length v \<le> MEMORY_VALUE_MAX_LENGTH"
  by (auto simp: require_value_def split: json.splits if_splits)

lemma read_evidence_Inr: "read_evidence params = Inr e \<Longrightarrow>
   get params ''evidence'' = opt_str e \<and> (\<forall>x. e = Some x \<longrightarrow> length x \<le> MEMORY_EVIDENCE_MAX_LENGTH)"
  by (auto simp: read_evidence_def opt_str_def split: json.splits if_splits)

lemma provisional_bindingD: "provisional_binding d = Some (k, kd) \<Longrightarrow>
   kd = ''provisional'' \<and> (\<exists>channel ident. get d ''channel'' = JStr channel \<and> channel \<noteq> []
     \<and> get d ''channel_identity'' = JStr ident
     \<and> k = provisional_key channel
         (if is_email_channel channel then canonicalize_email ident else normalize_e164 ident))"
  by (auto simp: provisional_binding_def Let_def split: json.splits if_splits)

text \<open>A verified binding is the snapshot's own customer id, and only a verified snapshot gives one.\<close>

lemma binding_verified: "binding_key_from_identity ident = Some (k, ''verified'') \<Longrightarrow>
   \<exists>d. ident = JObj d \<and> get d ''outcome'' = JStr ''verified_customer''
     \<and> get d ''shopify_customer_id'' = JStr k \<and> k \<noteq> []"
  by (auto simp: binding_key_from_identity_def is_verified_customer_identity_def provisional_binding_def
      Let_def split: json.splits if_splits)

lemma binding_nonempty: "binding_key_from_identity ident = Some (k, kd) \<Longrightarrow> k \<noteq> []"
  by (auto simp: binding_key_from_identity_def provisional_binding_def provisional_key_def Let_def
      split: json.splits if_splits)

lemma binding_kind_cases: "binding_key_from_identity ident = Some (k, kd) \<Longrightarrow>
   kd = ''verified'' \<or> kd = ''provisional''"
  by (auto simp: binding_key_from_identity_def provisional_binding_def Let_def
      split: json.splits if_splits)

lemma write_source_closed: "resolve_memory_write_source context = Inr s \<Longrightarrow>
   s \<in> {MEMORY_SOURCE_CUSTOMER_EXPLICIT, MEMORY_SOURCE_EMPLOYEE_CONFIRMED, MEMORY_SOURCE_COPILOT_AGENT}
   \<and> (s = MEMORY_SOURCE_EMPLOYEE_CONFIRMED \<longrightarrow> profile context = INTERNAL \<and> \<not> falsy (user_id context))
   \<and> (s = MEMORY_SOURCE_CUSTOMER_EXPLICIT \<longrightarrow> profile context = EXTERNAL)"
  by (auto simp: resolve_memory_write_source_def MEMORY_SOURCE_EMPLOYEE_CONFIRMED_def
      MEMORY_SOURCE_CUSTOMER_EXPLICIT_def MEMORY_SOURCE_COPILOT_AGENT_def split: if_splits)

lemma map_of_AList_update: "map_of (AList.update k v m) k' = (if k = k' then Some v else map_of m k')"
  by (simp add: update_conv')

section \<open>Properties\<close>

text \<open>A turn's memory binding never comes from its parameters.  It is verified exactly under a
  verified snapshot and then is that snapshot's own customer id; any other binding is provisional and
  names the normalised channel address of the turn; and no binding is blank.\<close>

theorem memory_binding_honest:
  assumes "resolve_customer_memory_binding c params = Inr (k, kd)"
  shows "k \<noteq> [] \<and> resolve_customer_memory_binding c params' = Inr (k, kd)
    \<and> (kd = ''verified'' \<longrightarrow> is_verified_customer_identity (identity c)
        \<and> (\<exists>d. identity c = JObj d \<and> get d ''shopify_customer_id'' = JStr k))
    \<and> (kd \<noteq> ''verified'' \<longrightarrow> kd = ''provisional'' \<and> (\<exists>d channel addr. identity c = JObj d
        \<and> get d ''channel'' = JStr channel \<and> get d ''channel_identity'' = JStr addr
        \<and> k = provisional_key channel
            (if is_email_channel channel then canonicalize_email addr else normalize_e164 addr)))"
proof -
  have b: "binding_key_from_identity (identity c) = Some (k, kd)"
    using assms by (auto simp: resolve_customer_memory_binding_def split: option.splits)
  then obtain d where d: "identity c = JObj d"
    by (auto simp: binding_key_from_identity_def split: json.splits)
  have same: "resolve_customer_memory_binding c params' = Inr (k, kd)"
    using b by (simp add: resolve_customer_memory_binding_def)
  from binding_kind_cases [OF b] show ?thesis
  proof
    assume v: "kd = ''verified''"
    from binding_verified [OF b [unfolded v]] obtain e where
      "identity c = JObj e" "get e ''outcome'' = JStr ''verified_customer''"
      "get e ''shopify_customer_id'' = JStr k" by blast
    with v same binding_nonempty [OF b] show ?thesis by (simp add: is_verified_customer_identity_def)
  next
    assume p: "kd = ''provisional''"
    with b d have "provisional_binding d = Some (k, kd)"
      by (auto simp: binding_key_from_identity_def split: json.splits if_splits)
    from provisional_bindingD [OF this] d have "\<exists>d channel addr. identity c = JObj d
        \<and> get d ''channel'' = JStr channel \<and> get d ''channel_identity'' = JStr addr
        \<and> k = provisional_key channel
            (if is_email_channel channel then canonicalize_email addr else normalize_e164 addr)" by blast
    with p same binding_nonempty [OF b] show ?thesis by simp
  qed
qed

theorem memory_binding_honest_witness:
  "resolve_customer_memory_binding (context_provider EXTERNAL (Some (JObj [(''channel'', JStr ''sms''),
      (''channel_identity'', JStr ''(416) 555-0101'')])) None None []) [(''binding_key'', JStr ''someone else'')]
    = Inr (''provisional:sms:+14165550101'', ''provisional'')"
proof -
  let ?c = "context_provider EXTERNAL (Some (JObj [(''channel'', JStr ''sms''),
      (''channel_identity'', JStr ''(416) 555-0101'')])) None None []"
  have "resolve_customer_memory_binding ?c [] = Inr (''provisional:sms:+14165550101'', ''provisional'')" by code_simp
  from memory_binding_honest [OF this] show ?thesis by blast
qed

end
