(* ===== verification/ExperiencePolicy.thy ===== *)
theory ExperiencePolicy
  imports Dispatch
begin

text \<open>
  The rules of the agent-experience store that its mock and its Postgres handlers share
  (\<^verbatim>\<open>drivers/mock/agent_experience.py\<close>): the write-side scan, the parameter checks and the two
  framework-derived resolvers.  The scan's regular expressions are values of a datatype of regular
  expressions with word boundaries; \<open>rx_search\<close> is \<^verbatim>\<open>pattern.search(text) is not None\<close>.
\<close>

section \<open>Regular expressions\<close>

datatype rx =
    Eps
  | Chars "char \<Rightarrow> bool"
  | Bound
  | Seq rx rx
  | Alt rx rx
  | Star rx

definition is_word_at :: "char option \<Rightarrow> bool" where
  "is_word_at c = (case c of None \<Rightarrow> False | Some x \<Rightarrow> py_isword x)"

definition head_char :: "string \<Rightarrow> char option" where
  "head_char s = (case s of [] \<Rightarrow> None | c # _ \<Rightarrow> Some c)"

text \<open>
  \<open>rx_ends r p s\<close>: where a match of \<open>r\<close> that starts before \<open>s\<close>, with \<open>p\<close> the character in front of
  it, can end.  An iteration of a star that consumes nothing adds no end.
\<close>

type_synonym rx_pos = "char option \<times> string"

fun star_ends :: "(rx_pos \<Rightarrow> rx_pos list) \<Rightarrow> nat \<Rightarrow> rx_pos \<Rightarrow> rx_pos list" where
  "star_ends f 0 q = [q]"
| "star_ends f (Suc n) q = q # concat (map (\<lambda>q'. if length (snd q') < length (snd q)
     then star_ends f n q' else []) (f q))"

fun rx_ends :: "rx \<Rightarrow> rx_pos \<Rightarrow> rx_pos list" where
  "rx_ends Eps q = [q]"
| "rx_ends (Chars P) q = (case snd q of [] \<Rightarrow> [] | c # cs \<Rightarrow> (if P c then [(Some c, cs)] else []))"
| "rx_ends Bound q = (if is_word_at (fst q) \<noteq> is_word_at (head_char (snd q)) then [q] else [])"
| "rx_ends (Seq a b) q = concat (map (rx_ends b) (rx_ends a q))"
| "rx_ends (Alt a b) q = rx_ends a q @ rx_ends b q"
| "rx_ends (Star a) q = star_ends (rx_ends a) (length (snd q)) q"

fun rx_search_from :: "rx \<Rightarrow> char option \<Rightarrow> string \<Rightarrow> bool" where
  "rx_search_from r p [] = (rx_ends r (p, []) \<noteq> [])"
| "rx_search_from r p (c # s) = (rx_ends r (p, c # s) \<noteq> [] \<or> rx_search_from r (Some c) s)"

definition rx_search :: "rx \<Rightarrow> string \<Rightarrow> bool" where
  "rx_search r s = rx_search_from r None s"

text \<open>Building blocks: \<^verbatim>\<open>re.IGNORECASE\<close> literals, \<^verbatim>\<open>\s*\<close>, \<^verbatim>\<open>\s+\<close>, \<^verbatim>\<open>( )?\<close>, \<^verbatim>\<open>{m,n}\<close>, concatenation.\<close>

definition rx_char :: "char \<Rightarrow> rx" where
  "rx_char c = Chars (\<lambda>x. x = c)"

definition rx_ichar :: "char \<Rightarrow> rx" where
  "rx_ichar c = Chars (\<lambda>x. py_lower_char x = py_lower_char c)"

fun rx_seq :: "rx list \<Rightarrow> rx" where
  "rx_seq [] = Eps"
| "rx_seq [r] = r"
| "rx_seq (r # rs) = Seq r (rx_seq rs)"

definition rx_text :: "string \<Rightarrow> rx" where
  "rx_text s = rx_seq (map rx_char s)"

definition rx_itext :: "string \<Rightarrow> rx" where
  "rx_itext s = rx_seq (map rx_ichar s)"

definition rx_opt :: "rx \<Rightarrow> rx" where
  "rx_opt r = Alt r Eps"

definition rx_plus :: "rx \<Rightarrow> rx" where
  "rx_plus r = Seq r (Star r)"

fun rx_repeat :: "rx \<Rightarrow> nat \<Rightarrow> nat \<Rightarrow> rx" where
  "rx_repeat r (Suc m) n = Seq r (rx_repeat r m (n - 1))"
| "rx_repeat r 0 (Suc n) = rx_opt (Seq r (rx_repeat r 0 n))"
| "rx_repeat r 0 0 = Eps"

definition rx_space :: rx where
  "rx_space = Chars py_isspace"

definition rx_digit :: rx where
  "rx_digit = Chars py_isdigit"

section \<open>The patterns of the scan\<close>

definition injection_prefix :: "string \<Rightarrow> rx" where
  "injection_prefix verb = rx_seq
     [rx_itext verb, rx_plus rx_space,
      rx_opt (Alt (Seq (rx_itext ''all'') (rx_plus rx_space)) (Seq (rx_itext ''any'') (rx_plus rx_space))),
      rx_opt (Seq (rx_itext ''the'') (rx_plus rx_space)),
      Alt (rx_itext ''previous'') (rx_itext ''prior''), rx_plus rx_space, rx_itext ''instructions'']"

definition INJECTION_PATTERNS :: "rx list" where
  "INJECTION_PATTERNS =
     [injection_prefix ''ignore'',
      injection_prefix ''disregard'',
      rx_seq [Bound, rx_itext ''system'', Star rx_space, rx_char CHR '':''],
      rx_seq [Bound, rx_itext ''assistant'', Star rx_space, rx_char CHR '':''],
      rx_seq [Bound, rx_itext ''you are now'', Bound],
      rx_seq [rx_char CHR ''<'', Star rx_space, rx_opt (rx_char CHR ''/''), rx_itext ''tool_call''],
      rx_seq [Bound, rx_itext ''new'', rx_plus rx_space, rx_itext ''instructions'', Bound],
      rx_seq [Bound, rx_itext ''override'', rx_plus rx_space,
              Alt (rx_itext ''your'') (rx_itext ''the''), rx_plus rx_space,
              Alt (rx_itext ''instructions'') (rx_itext ''system prompt''), Bound]]"

definition is_alpha :: "char \<Rightarrow> bool" where
  "is_alpha c = (let n = code c in (65 \<le> n \<and> n \<le> 90) \<or> (97 \<le> n \<and> n \<le> 122))"

definition EMAIL_RE :: rx where
  "EMAIL_RE = rx_seq
     [rx_plus (Chars (\<lambda>c. py_isword c \<or> c \<in> {CHR ''.'', CHR ''+'', CHR ''-''})), rx_char CHR ''@'',
      rx_plus (Chars (\<lambda>c. py_isword c \<or> c = CHR ''-'')), rx_char CHR ''.'',
      Chars is_alpha, rx_plus (Chars is_alpha)]"

definition PHONE_RE :: rx where
  "PHONE_RE = rx_seq
     [rx_opt (rx_char CHR ''+''), rx_digit,
      rx_repeat (Chars (\<lambda>c. py_isdigit c \<or> c = CHR ''-'' \<or> py_isspace c)) 6 14, rx_digit]"

definition CUSTOMER_ID_RE :: rx where
  "CUSTOMER_ID_RE = Alt
     (Seq (rx_text ''gid://shopify/Customer/'') (rx_plus rx_digit))
     (rx_seq [Bound, rx_text ''cust_'',
        rx_repeat (Chars (\<lambda>c. is_alpha c \<or> py_isdigit c)) 4 4,
        Star (Chars (\<lambda>c. is_alpha c \<or> py_isdigit c)), Bound])"

text \<open>\<^verbatim>\<open>scan_agent_experience_content\<close>: the first text that offends decides the message.\<close>

fun scan_agent_experience_content :: "string list \<Rightarrow> exn + unit" where
  "scan_agent_experience_content [] = Inr ()"
| "scan_agent_experience_content (text # texts) =
     (if text = [] then scan_agent_experience_content texts
      else if list_ex (\<lambda>p. rx_search p text) INJECTION_PATTERNS
      then Inl (ToolDriverError Policy_blocked
        (''agent_experience write rejected: instruction-injection '' @
         ''pattern detected in proposed content (S22 write-side scan).''))
      else if rx_search EMAIL_RE text \<or> rx_search PHONE_RE text \<or> rx_search CUSTOMER_ID_RE text
      then Inl (ToolDriverError Policy_blocked
        (''agent_experience write rejected: content must be '' @
         ''operational-only, no customer PII (NFR-3).''))
      else scan_agent_experience_content texts)"

section \<open>Parameter checks and resolvers\<close>

definition AGENT_EXPERIENCE_KINDS :: "string list" where
  "AGENT_EXPERIENCE_KINDS = [''note'', ''procedure'']"

definition AGENT_EXPERIENCE_CONTENT_MAX_LENGTH :: nat where
  "AGENT_EXPERIENCE_CONTENT_MAX_LENGTH = 2000"

definition require_kind :: "dict \<Rightarrow> exn + string" where
  "require_kind params =
     (case get params ''kind'' of
        JStr k \<Rightarrow> (if k \<in> set AGENT_EXPERIENCE_KINDS then Inr k
                  else Inl (ToolDriverError Unexpected_error
                    (''agent_experience rejects kind \"'' @ k @ ''\"; only \"note\" or '' @
                     ''\"procedure\" are allowed (FR-23, audit finding 4).'')))
      | v \<Rightarrow> Inl (ToolDriverError Unexpected_error
                    (''agent_experience rejects kind \"'' @ py_str v @ ''\"; only \"note\" or '' @
                     ''\"procedure\" are allowed (FR-23, audit finding 4).'')))"

definition require_content :: "dict \<Rightarrow> exn + string" where
  "require_content params =
     (case get params ''content'' of
        JStr content \<Rightarrow>
          (if py_strip content = []
           then Inl (ToolDriverError Unexpected_error
                  ''propose_experience requires non-empty string content.'')
           else if length content > AGENT_EXPERIENCE_CONTENT_MAX_LENGTH
           then Inl (ToolDriverError Unexpected_error
                  ''agent_experience rejects content longer than 2000 characters.'')
           else Inr content)
      | _ \<Rightarrow> Inl (ToolDriverError Unexpected_error
                  ''propose_experience requires non-empty string content.''))"

definition read_proposer_context :: "dict \<Rightarrow> exn + dict option" where
  "read_proposer_context params =
     (case get params ''proposer_context'' of
        JNull \<Rightarrow> Inr None
      | JObj d \<Rightarrow> Inr (Some d)
      | _ \<Rightarrow> Inl (ToolDriverError Unexpected_error
               ''proposer_context must be an object when provided.''))"

definition context_strings :: "dict option \<Rightarrow> string list" where
  "context_strings c = (case c of None \<Rightarrow> [] | Some d \<Rightarrow> List.map_filter (as_str \<circ> snd) d)"

definition resolve_agent_experience_source :: "ctx \<Rightarrow> exn + string" where
  "resolve_agent_experience_source context =
     (if profile context = INTERNAL then Inr ''copilot_agent''
      else Inl (ToolDriverError Policy_blocked
        (''agent_experience proposals are not permitted for profile \"'' @ profile context @ ''\".'')))"

definition require_id :: "dict \<Rightarrow> exn + string" where
  "require_id params =
     (case get params ''id'' of
        JStr i \<Rightarrow> (if py_strip i = []
                  then Inl (ToolDriverError Unexpected_error
                    ''confirm_experience/reject_experience requires a non-empty string id.'')
                  else Inr i)
      | _ \<Rightarrow> Inl (ToolDriverError Unexpected_error
               ''confirm_experience/reject_experience requires a non-empty string id.''))"

definition resolve_experience_decision_authorization :: "ctx \<Rightarrow> exn + string" where
  "resolve_experience_decision_authorization context =
     (if profile context \<noteq> INTERNAL
      then Inl (ToolDriverError Policy_blocked
        (''agent_experience decisions are not permitted for profile \"'' @ profile context @ ''\".''))
      else if falsy (user_id context)
      then Inl (ToolDriverError Policy_blocked
        ''A governed agent_experience decision requires an attributed actor.'')
      else Inr (the (user_id context)))"

section \<open>What a search finds\<close>

text \<open>The relation the matcher computes: \<open>r\<close> matches the text between two positions.\<close>

inductive rx_match :: "rx \<Rightarrow> rx_pos \<Rightarrow> rx_pos \<Rightarrow> bool" where
  m_eps: "rx_match Eps q q"
| m_chars: "P c \<Longrightarrow> rx_match (Chars P) (p, c # cs) (Some c, cs)"
| m_bound: "is_word_at (fst q) \<noteq> is_word_at (head_char (snd q)) \<Longrightarrow> rx_match Bound q q"
| m_seq: "rx_match a q q1 \<Longrightarrow> rx_match b q1 q2 \<Longrightarrow> rx_match (Seq a b) q q2"
| m_alt1: "rx_match a q q1 \<Longrightarrow> rx_match (Alt a b) q q1"
| m_alt2: "rx_match b q q1 \<Longrightarrow> rx_match (Alt a b) q q1"
| m_star0: "rx_match (Star a) q q"
| m_star: "rx_match a q q1 \<Longrightarrow> rx_match (Star a) q1 q2 \<Longrightarrow> rx_match (Star a) q q2"

inductive_simps rx_match_simps:
  "rx_match Eps q q'" "rx_match (Chars P) q q'" "rx_match Bound q q'" "rx_match (Seq a b) q q'"
  "rx_match (Alt a b) q q'"

lemma rx_match_shrinks: "rx_match r q q' \<Longrightarrow> q' = q \<or> length (snd q') < length (snd q)"
  by (induction rule: rx_match.induct) auto

lemma star_ends_sound:
  "(\<And>q q'. q' \<in> set (f q) \<Longrightarrow> rx_match a q q') \<Longrightarrow> q' \<in> set (star_ends f n q) \<Longrightarrow>
   rx_match (Star a) q q'"
proof (induction n arbitrary: q)
  case (Suc n)
  from Suc.prems(2) consider "q' = q"
    | q1 where "q1 \<in> set (f q)" "q' \<in> set (star_ends f n q1)"
    by (auto split: if_splits)
  then show ?case
  proof cases
    case 2
    with Suc.IH [OF Suc.prems(1)] Suc.prems(1) show ?thesis by (blast intro: m_star)
  qed (simp add: m_star0)
qed (simp add: m_star0)

lemma star_ends_complete:
  assumes "rx_match (Star a) q q'" and "\<And>q q'. rx_match a q q' \<Longrightarrow> q' \<in> set (f q)"
    and "length (snd q) \<le> n"
  shows "q' \<in> set (star_ends f n q)"
  using assms
proof (induction "Star a" q q' arbitrary: n rule: rx_match.induct)
  case (m_star0 q)
  then show ?case by (cases n) auto
next
  case (m_star q q1 q2)
  from rx_match_shrinks [OF m_star.hyps(1)] show ?case
  proof
    assume "q1 = q"
    with m_star show ?thesis by blast
  next
    assume less: "length (snd q1) < length (snd q)"
    with m_star.prems(2) obtain k where k: "n = Suc k" "length (snd q1) \<le> k" by (cases n) auto
    have "q1 \<in> set (f q)" by (rule m_star.prems(1) [OF m_star.hyps(1)])
    moreover have "q2 \<in> set (star_ends f k q1)" using m_star.hyps(4) m_star.prems(1) k(2) by blast
    ultimately show ?thesis using k(1) less by auto
  qed
qed

lemma rx_ends_iff: "q' \<in> set (rx_ends r q) \<longleftrightarrow> rx_match r q q'"
proof (induction r arbitrary: q q')
  case (Chars P)
  then show ?case by (cases q) (auto simp: rx_match_simps split: list.splits)
next
  case (Seq a b)
  then show ?case by (simp add: rx_match_simps Bex_def)
next
  case (Star a)
  then show ?case
    using star_ends_sound [of "rx_ends a" a q' "length (snd q)" q]
      star_ends_complete [of a q q' "rx_ends a" "length (snd q)"] by auto
qed (auto simp: rx_match_simps)

definition last_opt :: "char option \<Rightarrow> string \<Rightarrow> char option" where
  "last_opt p s = (if s = [] then p else Some (last s))"

lemma rx_search_from_iff: "rx_search_from r p s \<longleftrightarrow>
   (\<exists>pre suf q'. s = pre @ suf \<and> rx_match r (last_opt p pre, suf) q')"
proof (induction s arbitrary: p)
  case Nil
  have "rx_ends r (p, []) \<noteq> [] \<longleftrightarrow> (\<exists>q'. rx_match r (p, []) q')"
    unfolding rx_ends_iff [symmetric] by (metis list.set_sel(1) list.set(1) empty_iff)
  then show ?case by (simp add: last_opt_def)
next
  case (Cons c s)
  have e: "rx_ends r (p, c # s) \<noteq> [] \<longleftrightarrow> (\<exists>q'. rx_match r (p, c # s) q')"
    unfolding rx_ends_iff [symmetric] by (metis list.set_sel(1) list.set(1) empty_iff)
  have l: "last_opt p (c # pre) = last_opt (Some c) pre" for pre by (simp add: last_opt_def)
  show ?case
  proof
    assume "rx_search_from r p (c # s)"
    then consider q' where "rx_match r (p, c # s) q'" | "rx_search_from r (Some c) s"
      using e by auto
    then show "\<exists>pre suf q'. c # s = pre @ suf \<and> rx_match r (last_opt p pre, suf) q'"
    proof cases
      case 1
      then have "c # s = [] @ (c # s) \<and> rx_match r (last_opt p [], c # s) q'" by (simp add: last_opt_def)
      then show ?thesis by blast
    next
      case 2
      with Cons.IH [of "Some c"] obtain pre suf q'
        where "s = pre @ suf" "rx_match r (last_opt (Some c) pre, suf) q'" by blast
      then have "c # s = (c # pre) @ suf \<and> rx_match r (last_opt p (c # pre), suf) q'" by (simp add: l)
      then show ?thesis by blast
    qed
  next
    assume "\<exists>pre suf q'. c # s = pre @ suf \<and> rx_match r (last_opt p pre, suf) q'"
    then obtain pre suf q' where m: "c # s = pre @ suf" "rx_match r (last_opt p pre, suf) q'" by blast
    show "rx_search_from r p (c # s)"
    proof (cases pre)
      case Nil
      with m have "rx_match r (p, c # s) q'" by (simp add: last_opt_def)
      with e have "rx_ends r (p, c # s) \<noteq> []" by blast
      then show ?thesis by simp
    next
      case (Cons d pre')
      with m l have "s = pre' @ suf" "rx_match r (last_opt (Some c) pre', suf) q'" by auto
      then have "rx_search_from r (Some c) s" using Cons.IH [of "Some c"] by blast
      then show ?thesis by simp
    qed
  qed
qed

lemma rx_search_iff: "rx_search r s \<longleftrightarrow>
   (\<exists>pre suf q'. s = pre @ suf \<and> rx_match r (last_opt None pre, suf) q')"
  by (simp add: rx_search_def rx_search_from_iff)

lemma scan_agent_experience_content_iff: "scan_agent_experience_content texts = Inr () \<longleftrightarrow>
   (\<forall>t \<in> set texts. t \<noteq> [] \<longrightarrow>
      (\<forall>p \<in> set INJECTION_PATTERNS \<union> {EMAIL_RE, PHONE_RE, CUSTOMER_ID_RE}. \<not> rx_search p t))"
  by (induction texts) (auto simp: list_ex_iff)

section \<open>Properties\<close>

text \<open>The write-side scan admits texts exactly when no forbidden pattern matches anywhere inside one
  of them, for the matching relation of the patterns: the matcher's stars, bounds and search positions
  miss nothing and invent nothing.\<close>

theorem scan_admits_iff:
  "scan_agent_experience_content texts = Inr () \<longleftrightarrow>
     (\<forall>t \<in> set texts. t = [] \<or> (\<forall>p \<in> set INJECTION_PATTERNS \<union> {EMAIL_RE, PHONE_RE, CUSTOMER_ID_RE}.
        \<nexists>pre suf q'. t = pre @ suf \<and> rx_match p (last_opt None pre, suf) q'))"
  unfolding scan_agent_experience_content_iff rx_search_iff by blast

theorem scan_admits_iff_witness:
  "\<nexists>pre suf q'. ''hi'' = pre @ suf \<and> rx_match PHONE_RE (last_opt None pre, suf) q'"
proof -
  have "scan_agent_experience_content [''hi''] = Inr ()" by code_simp
  with scan_admits_iff [of "[''hi'']"] show ?thesis by auto
qed

end
