(* ===== verification/Transcript.thy ===== *)
theory Transcript
  imports PyObjects MemoryPolicy ExperiencePolicy
begin

text \<open>
  \<^verbatim>\<open>eval_runner/transcript.py\<close>: what a captured turn did, read off its OpenAI-style message list.
  The gateway derives the customer-facing reply from it, the copilot its memory and experience
  proposals.  \<open>loads\<close> stands for \<^verbatim>\<open>json.loads\<close>: \<open>None\<close> when it raises \<^verbatim>\<open>ValueError\<close>.
\<close>

type_synonym loads = "string \<Rightarrow> json option"

definition parse_json :: "loads \<Rightarrow> json \<Rightarrow> json" where
  "parse_json loads content =
     (case content of
        JStr s \<Rightarrow> (case loads s of Some v \<Rightarrow> v | None \<Rightarrow> JStr s)
      | v \<Rightarrow> v)"

record parsed_call =
  pc_tool :: string
  pc_action :: string
  pc_args :: dict
  pc_result :: json
  pc_ok :: bool

text \<open>\<^verbatim>\<open>name.partition("__")\<close>, the separator dropped.\<close>

fun partition_dunder :: "string \<Rightarrow> string \<times> string" where
  "partition_dunder [] = ([], [])"
| "partition_dunder [c] = ([c], [])"
| "partition_dunder (c # d # s) =
     (if c = CHR ''_'' \<and> d = CHR ''_'' then ([], s)
      else (let (a, b) = partition_dunder (d # s) in (c # a, b)))"

fun results_by_id :: "loads \<Rightarrow> dict list \<Rightarrow> (string \<times> json) list" where
  "results_by_id loads [] = []"
| "results_by_id loads (msg # msgs) =
     (case get msg ''tool_call_id'' of
        JStr call_id \<Rightarrow>
          (if get msg ''role'' = JStr ''tool''
           then results_by_id loads msgs @ [(call_id, parse_json loads (get msg ''content''))]
           else results_by_id loads msgs)
      | _ \<Rightarrow> results_by_id loads msgs)"

definition parse_call :: "loads \<Rightarrow> (string \<times> json) list \<Rightarrow> json \<Rightarrow> exn + parsed_call" where
  "parse_call loads results call =
     ebind (need_obj call) (\<lambda>tool_call.
     ebind (need_obj (or_else (get tool_call ''function'') (JObj []))) (\<lambda>func.
     case or_else (get func ''name'') (JStr []) of
       JStr name \<Rightarrow>
         (let (tool, action) = partition_dunder name;
              result = (case get tool_call ''id'' of
                          JStr call_id \<Rightarrow> get results call_id | _ \<Rightarrow> JNull);
              args = parse_json loads (get func ''arguments'') in
          Inr \<lparr>pc_tool = tool, pc_action = action,
               pc_args = (case args of JObj d \<Rightarrow> d | _ \<Rightarrow> []),
               pc_result = result,
               pc_ok = (case result of JObj d \<Rightarrow> ''error_class'' \<notin> fst ` set d | _ \<Rightarrow> True)\<rparr>)
     | _ \<Rightarrow> Inl attribute_error))"

fun parse_all :: "loads \<Rightarrow> (string \<times> json) list \<Rightarrow> json list \<Rightarrow> exn + parsed_call list" where
  "parse_all loads results [] = Inr []"
| "parse_all loads results (c # cs) =
     ebind (parse_call loads results c) (\<lambda>p.
     ebind (parse_all loads results cs) (\<lambda>ps. Inr (p # ps)))"

fun calls_of :: "loads \<Rightarrow> (string \<times> json) list \<Rightarrow> dict list \<Rightarrow> exn + parsed_call list" where
  "calls_of loads results [] = Inr []"
| "calls_of loads results (msg # msgs) =
     (if get msg ''role'' \<noteq> JStr ''assistant'' then calls_of loads results msgs
      else ebind (py_iter (or_else (get msg ''tool_calls'') (JList []))) (\<lambda>calls.
           ebind (parse_all loads results calls) (\<lambda>ps.
           ebind (calls_of loads results msgs) (\<lambda>qs. Inr (ps @ qs)))))"

definition parsed_calls :: "loads \<Rightarrow> dict list \<Rightarrow> exn + parsed_call list" where
  "parsed_calls loads messages = calls_of loads (results_by_id loads messages) messages"

definition sms_reply_body :: "parsed_call \<Rightarrow> string option" where
  "sms_reply_body call =
     (if pc_tool call \<noteq> ''toee_sms_reply'' \<or> pc_action call \<noteq> ''send_message'' \<or> \<not> pc_ok call
      then None
      else case get (case pc_result call of JObj d \<Rightarrow> d | _ \<Rightarrow> pc_args call) ''body'' of
             JStr body \<Rightarrow> (if body \<noteq> [] then Some body else None)
           | _ \<Rightarrow> None)"

definition str_field :: "parsed_call \<Rightarrow> string list \<Rightarrow> string option" where
  "str_field call keys =
     (case read_string (case pc_result call of JObj d \<Rightarrow> d | _ \<Rightarrow> []) keys of
        Some v \<Rightarrow> Some v
      | None \<Rightarrow> read_string (pc_args call) keys)"

section \<open>Proposals\<close>

record memory_proposal =
  mp_slot :: string
  mp_value :: string
  mp_evidence_turn :: "string option"

definition memory_proposal_of :: "parsed_call \<Rightarrow> memory_proposal option" where
  "memory_proposal_of call =
     (if pc_tool call \<noteq> ''toee_customer_memory'' \<or> pc_action call \<noteq> ''upsert_preference''
         \<or> \<not> pc_ok call then None
      else
        let result = (case pc_result call of JObj d \<Rightarrow> d | _ \<Rightarrow> []) in
        case (get result ''slot'', get result ''value'') of
          (JStr slot, JStr v) \<Rightarrow>
            (if slot \<in> set MEMORY_PREFERENCE_SLOTS
             then Some \<lparr>mp_slot = slot, mp_value = v,
                        mp_evidence_turn = as_str (get result ''evidence'')\<rparr>
             else None)
        | _ \<Rightarrow> None)"

definition memory_proposals_from_messages :: "loads \<Rightarrow> dict list \<Rightarrow> exn + memory_proposal list" where
  "memory_proposals_from_messages loads messages =
     ebind (parsed_calls loads messages) (\<lambda>calls. Inr (List.map_filter memory_proposal_of calls))"

record experience_proposal =
  xp_kind :: string
  xp_content :: string
  xp_status :: string

definition experience_proposal_of :: "parsed_call \<Rightarrow> experience_proposal option" where
  "experience_proposal_of call =
     (if pc_tool call \<noteq> ''toee_agent_experience'' \<or> pc_action call \<noteq> ''propose_experience''
         \<or> \<not> pc_ok call then None
      else
        let result = (case pc_result call of JObj d \<Rightarrow> d | _ \<Rightarrow> []) in
        case (get result ''kind'', get result ''content'') of
          (JStr k, JStr content) \<Rightarrow>
            (if k \<in> set AGENT_EXPERIENCE_KINDS \<and> content \<noteq> []
             then Some \<lparr>xp_kind = k, xp_content = content,
                        xp_status = (case get result ''status'' of
                           JStr st \<Rightarrow> (if st \<noteq> [] then st else ''proposed'') | _ \<Rightarrow> ''proposed'')\<rparr>
             else None)
        | _ \<Rightarrow> None)"

definition experience_proposals_from_messages ::
  "loads \<Rightarrow> dict list \<Rightarrow> exn + experience_proposal list" where
  "experience_proposals_from_messages loads messages =
     ebind (parsed_calls loads messages) (\<lambda>calls. Inr (List.map_filter experience_proposal_of calls))"

section \<open>The turn's result\<close>

record agent_turn_result =
  at_outbound_text :: string
  at_tool_calls :: "(string \<times> string \<times> bool) list"
  at_case_created :: bool
  at_memory_upserts :: "string list"
  at_contact_reason :: "string option"
  at_case_urgency :: "string option"
  at_alternate_address_not_verified :: bool

fun join_lines :: "string list \<Rightarrow> string" where
  "join_lines [] = []"
| "join_lines [s] = s"
| "join_lines (s # t # ts) = s @ CHR 0x0A # join_lines (t # ts)"

fun last_field :: "string list \<Rightarrow> string option \<Rightarrow> parsed_call list \<Rightarrow> string option" where
  "last_field keys acc [] = acc"
| "last_field keys acc (call # calls) =
     last_field keys
       (if pc_tool call \<in> {''toee_case'', ''toee_case_manage''} \<and> pc_ok call
        then (case str_field call keys of Some v \<Rightarrow> Some v | None \<Rightarrow> acc) else acc) calls"

definition memory_upsert_of :: "parsed_call \<Rightarrow> string option" where
  "memory_upsert_of call =
     (if pc_tool call = ''toee_customer_memory'' \<and> pc_action call = ''upsert_preference'' \<and> pc_ok call
      then str_field call [''slot'', ''key''] else None)"

definition turn_result_of_calls :: "string \<Rightarrow> parsed_call list \<Rightarrow> agent_turn_result" where
  "turn_result_of_calls final_response calls =
     (let bodies = List.map_filter sms_reply_body calls in
      \<lparr>at_outbound_text = (if bodies \<noteq> [] then join_lines bodies else final_response),
       at_tool_calls = map (\<lambda>c. (pc_tool c, pc_action c, pc_ok c)) calls,
       at_case_created = list_ex (\<lambda>c. pc_tool c = ''toee_case'' \<and> pc_action c = ''create_case'' \<and> pc_ok c)
          calls,
       at_memory_upserts = List.map_filter memory_upsert_of calls,
       at_contact_reason = last_field [''contact_reason'', ''contactReason''] None calls,
       at_case_urgency = last_field [''urgency''] None calls,
       at_alternate_address_not_verified =
         (\<not> list_ex (\<lambda>c. pc_tool c = ''toee_square_payment_link''
                         \<and> pc_action c = ''send_payment_link'' \<and> pc_ok c) calls)\<rparr>)"

definition turn_result_from_transcript ::
  "loads \<Rightarrow> string \<Rightarrow> dict list \<Rightarrow> exn + agent_turn_result" where
  "turn_result_from_transcript loads final_response messages =
     ebind (parsed_calls loads messages) (\<lambda>calls. Inr (turn_result_of_calls final_response calls))"

section \<open>Lemmas\<close>

lemma sms_reply_body_ok: "sms_reply_body c = Some b \<Longrightarrow> pc_ok c \<and> pc_tool c = ''toee_sms_reply''
   \<and> pc_action c = ''send_message'' \<and> b \<noteq> []"
  by (auto simp: sms_reply_body_def split: if_splits json.splits)

lemma memory_proposal_ofD: "memory_proposal_of c = Some p \<Longrightarrow>
   pc_ok c \<and> pc_tool c = ''toee_customer_memory'' \<and> pc_action c = ''upsert_preference''
   \<and> mp_slot p \<in> set MEMORY_PREFERENCE_SLOTS
   \<and> (\<exists>d. pc_result c = JObj d \<and> get d ''slot'' = JStr (mp_slot p) \<and> get d ''value'' = JStr (mp_value p))"
  by (auto simp: memory_proposal_of_def Let_def dict_simps split: if_splits json.splits)

lemma map_filter_set: "y \<in> set (List.map_filter f xs) \<longleftrightarrow> (\<exists>x \<in> set xs. f x = Some y)"
  by (induction xs) (auto simp: List.map_filter_simps split: option.splits)

text \<open>A turn whose SMS sends all failed falls back to the agent's own final response.\<close>

lemma outbound_text_fallback:
  assumes "turn_result_from_transcript loads fr msgs = Inr res"
    and "parsed_calls loads msgs = Inr calls"
    and "\<forall>c \<in> set calls. pc_tool c = ''toee_sms_reply'' \<longrightarrow> \<not> pc_ok c"
  shows "at_outbound_text res = fr"
proof -
  have "sms_reply_body c = None" if "c \<in> set calls" for c
    using assms(3) that sms_reply_body_ok by (cases "sms_reply_body c") auto
  then have "List.map_filter sms_reply_body calls = []"
    by (induction calls) (simp_all add: List.map_filter_simps)
  then have "at_outbound_text (turn_result_of_calls fr calls) = fr"
    by (simp add: turn_result_of_calls_def Let_def)
  moreover from assms(1,2) have "res = turn_result_of_calls fr calls"
    by (simp add: turn_result_from_transcript_def exn_simps)
  ultimately show ?thesis by simp
qed

end
