(* ===== verification/TurnRunner.thy ===== *)
theory TurnRunner
  imports Pipeline Outbound Transcript
begin

text \<open>
  The body of an agent-turn job: \<^verbatim>\<open>hermes_runtime/turn_runner.py\<close> (clip, derive the reply, one
  delivery behind \<open>deliver_once\<close>) and \<^verbatim>\<open>hermes_runtime/agent_turn_job.py\<close> (reload, verify the binding,
  run).  The model run, the SMS client, the mirror and the store are arguments that act on a world
  of their own and may raise.
\<close>

section \<open>turn_runner.py\<close>

definition SMS_MAX_CHARS :: nat where
  "SMS_MAX_CHARS = 480"

text \<open>\<open>ellipsis\<close> is the single character U+2026, which the character type does not contain.\<close>

definition clip_sms_reply :: "char \<Rightarrow> nat \<Rightarrow> string \<Rightarrow> string" where
  "clip_sms_reply ellipsis max_chars body =
     (let t = py_strip body in
      if length t \<le> max_chars then t
      else
        let cut = take (max_chars - 1) t;
            head = rsplit_first CHR '' '' cut;
            clipped = (if head = [] then cut else head)
        in rstrip_by (\<lambda>c. c \<in> set ''.,;:! '') clipped @ [ellipsis])"

record captured_turn =
  ct_final_response :: "string option"
  ct_messages :: "dict list"

definition outbound_reply_text :: "loads \<Rightarrow> captured_turn \<Rightarrow> exn + string" where
  "outbound_reply_text loads turn =
     ebind (turn_result_from_transcript loads
              (if falsy (ct_final_response turn) then [] else the (ct_final_response turn))
              (ct_messages turn))
       (\<lambda>res. Inr (at_outbound_text res))"

definition gateway_deliver ::
  "(string \<Rightarrow> string \<Rightarrow> 'e \<Rightarrow> (exn + unit) \<times> 'e)
     \<Rightarrow> (turn_context \<Rightarrow> string \<Rightarrow> 'e \<Rightarrow> (exn + unit) \<times> 'e) option
     \<Rightarrow> turn_context \<Rightarrow> string \<Rightarrow> 'e \<Rightarrow> (exn + unit) \<times> 'e" where
  "gateway_deliver reply_sender on_reply_sent context reply e =
     (let mirror_is_the_reply = is_email_channel (tc_channel context);
          (sent, e1) = (if mirror_is_the_reply then (Inr (), e)
                        else reply_sender (tc_conversation_id context) reply e) in
      case sent of
        Inl x \<Rightarrow> (Inl x, e1)
      | Inr _ \<Rightarrow>
          (case on_reply_sent of
             None \<Rightarrow> (Inr (), e1)
           | Some mirror \<Rightarrow>
               (case mirror context reply e1 of
                  (Inr _, e2) \<Rightarrow> (Inr (), e2)
                | (Inl exc, e2) \<Rightarrow>
                    (if mirror_is_the_reply then (Inl exc, e2)
                     else (Inl (mirror_failed
                       (''reply delivered but the message_turn mirror failed: '' @ exn_text exc)), e2)))))"

definition gateway_turn_runner ::
  "loads \<Rightarrow> char \<Rightarrow> 'l send_log
     \<Rightarrow> (string \<Rightarrow> string \<Rightarrow> 'e \<Rightarrow> (exn + unit) \<times> 'e)
     \<Rightarrow> (turn_context \<Rightarrow> string \<Rightarrow> 'e \<Rightarrow> (exn + captured_turn) \<times> 'e)
     \<Rightarrow> (turn_context \<Rightarrow> string \<Rightarrow> 'e \<Rightarrow> (exn + unit) \<times> 'e) option
     \<Rightarrow> turn_context \<Rightarrow> string \<Rightarrow> string option \<Rightarrow> 'l \<times> 'e \<Rightarrow> (exn + unit) \<times> 'l \<times> 'e" where
  "gateway_turn_runner loads ellipsis log reply_sender run_turn on_reply_sent context inbound_body
     jid st =
     (let (l, e) = st in
      case run_turn context inbound_body e of
        (Inl x, e1) \<Rightarrow> (Inl x, l, e1)
      | (Inr turn, e1) \<Rightarrow>
          (case outbound_reply_text loads turn of
             Inl x \<Rightarrow> (Inl x, l, e1)
           | Inr raw \<Rightarrow>
               let reply = (if is_email_channel (tc_channel context) then raw
                            else clip_sms_reply ellipsis SMS_MAX_CHARS raw);
                   (res, l2, e2) = deliver_once log jid (tc_event_id context)
                     (tc_conversation_id context) (tc_channel context) REPLY_SLOT
                     (gateway_deliver reply_sender on_reply_sent context reply) (l, e1)
               in (case res of Inl x \<Rightarrow> (Inl x, l2, e2) | Inr _ \<Rightarrow> (Inr (), l2, e2))))"

section \<open>agent_turn_job.py\<close>

datatype job_outcome = Context_not_found | Binding_mismatch | Completed

fun job_outcome_value :: "job_outcome \<Rightarrow> string" where
  "job_outcome_value Context_not_found = ''context_not_found''"
| "job_outcome_value Binding_mismatch = ''binding_mismatch''"
| "job_outcome_value Completed = ''completed''"

definition execute_agent_turn_job ::
  "(string \<Rightarrow> 'w \<Rightarrow> (exn + turn_context option) \<times> 'w)
     \<Rightarrow> (string \<Rightarrow> 'w \<Rightarrow> (exn + string option) \<times> 'w)
     \<Rightarrow> (turn_context \<Rightarrow> string \<Rightarrow> string option \<Rightarrow> 'w \<Rightarrow> (exn + unit) \<times> 'w) option
     \<Rightarrow> job_payload \<Rightarrow> string option \<Rightarrow> 'w \<Rightarrow> (exn + job_outcome) \<times> 'w" where
  "execute_agent_turn_job load_context load_inbound_body turn_runner payload jid w =
     (case load_context (jp_event_id payload) w of
        (Inl x, w1) \<Rightarrow> (Inl x, w1)
      | (Inr None, w1) \<Rightarrow> (Inr Context_not_found, w1)
      | (Inr (Some context), w1) \<Rightarrow>
          (if \<not> job_payload_matches context payload then (Inr Binding_mismatch, w1)
           else case load_inbound_body (tc_inbound_body_ref context) w1 of
             (Inl x, w2) \<Rightarrow> (Inl x, w2)
           | (Inr body, w2) \<Rightarrow>
               let inbound_body = (case body of None \<Rightarrow> [] | Some b \<Rightarrow> b) in
               (case turn_runner of
                  None \<Rightarrow> (Inr Completed, w2)
                | Some runner \<Rightarrow>
                    (case runner context inbound_body jid w2 of
                       (Inl x, w3) \<Rightarrow> (Inl x, w3)
                     | (Inr _, w3) \<Rightarrow> (Inr Completed, w3)))))"

section \<open>Lemmas\<close>

lemma clip_sms_reply_length:
  assumes "1 \<le> m"
  shows "length (clip_sms_reply el m body) \<le> m"
proof (cases "length (py_strip body) \<le> m")
  case False
  define cut where "cut = take (m - 1) (py_strip body)"
  define head where "head = rsplit_first CHR '' '' cut"
  have "length head \<le> m - 1" using length_rsplit_first [of "CHR '' ''" cut]
    by (simp add: head_def cut_def)
  then have "length (if head = [] then cut else head) \<le> m - 1" by (simp add: cut_def)
  moreover define x where "x = (if head = [] then cut else head)"
  ultimately have "length x \<le> m - 1" by simp
  with length_rstrip_by have "length (rstrip_by P x) \<le> m - 1" for P by (rule le_trans)
  with assms have "Suc (length (rstrip_by P x)) \<le> m" for P
    by (metis Suc_diff_1 Suc_le_mono less_eq_Suc_le One_nat_def)
  then show ?thesis
    unfolding clip_sms_reply_def Let_def cut_def [symmetric] head_def [symmetric] x_def [symmetric]
    using False by simp
qed (simp add: clip_sms_reply_def)

lemma clip_sms_reply_short: "length (py_strip body) \<le> m \<Longrightarrow> clip_sms_reply el m body = py_strip body"
  by (simp add: clip_sms_reply_def)

text \<open>On the email channel the SMS client is not part of the delivery.\<close>

lemma gateway_deliver_email: "is_email_channel (tc_channel c) \<Longrightarrow>
   gateway_deliver sender mirror c reply e =
     (case mirror of None \<Rightarrow> (Inr (), e) | Some m \<Rightarrow> m c reply e)"
  by (auto simp: gateway_deliver_def split: option.splits prod.splits sum.splits)

text \<open>A turn whose event already has a row in the send log does nothing beyond the model run.\<close>

context send_log_spec
begin

lemma gateway_turn_runner_owned:
  assumes "ok l" and "entry l (tc_event_id c) = Some (k, s, err)"
  shows "snd (snd (gateway_turn_runner loads el log sender run mirror c body jid (l, e)))
    = snd (run c body e)"
proof -
  note own = deliver_once_owned [OF assms]
  obtain res e1 where r: "run c body e = (res, e1)" by force
  show ?thesis
  proof (cases res)
    case (Inl x)
    with r show ?thesis by (simp add: gateway_turn_runner_def)
  next
    case (Inr turn)
    show ?thesis
    proof (cases "outbound_reply_text loads turn")
      case Inl
      with r Inr show ?thesis by (simp add: gateway_turn_runner_def)
    next
      fix raw
      assume raw: "outbound_reply_text loads turn = Inr raw"
      let ?rep = "if is_email_channel (tc_channel c) then raw else clip_sms_reply el SMS_MAX_CHARS raw"
      obtain l1 where "deliver_once log jid (tc_event_id c) (tc_conversation_id c) (tc_channel c)
          REPLY_SLOT (gateway_deliver sender mirror c ?rep) (l, e1)
          = (skip_outcome (tc_event_id c) (Some s) err, l1, e1)"
        using own [of jid "tc_conversation_id c" "tc_channel c" REPLY_SLOT
            "gateway_deliver sender mirror c ?rep" e1] by blast
      with r Inr raw show ?thesis
        by (simp add: gateway_turn_runner_def Let_def split: sum.split)
    qed
  qed
qed

end

lemma execute_agent_turn_job_runs_bound:
  assumes "execute_agent_turn_job lc lb runner p jid w = (Inr Completed, w')"
  shows "\<exists>c w1. lc (jp_event_id p) w = (Inr (Some c), w1) \<and> job_payload_matches c p"
  using assms by (auto simp: execute_agent_turn_job_def Let_def
      split: prod.splits sum.splits option.splits if_splits)

section \<open>Properties\<close>

text \<open>C9.  A turn whose event already owns a row of the send log, whatever happened to that
  delivery and under whichever job the turn runs now, does nothing to the world beyond the model run:
  no second text and no second mirror, on both logs.  A first delivery recorded as failed raises.\<close>

theorem owned_event_not_sent_again:
  assumes "send_ok l" and "send_entry l (tc_event_id c) = Some (k, st, err)"
  shows "snd (snd (gateway_turn_runner loads el (pg_send_log t0 t1) sender run mirror c body jid (l, e))) = snd (run c body e)
    \<and> snd (snd (gateway_turn_runner loads el mem_send_log sender run mirror c body jid (l, e))) = snd (run c body e)"
  by (intro conjI pg.gateway_turn_runner_owned [OF assms] mem.gateway_turn_runner_owned [OF assms])

definition burned_log :: "send_row list" where
  "burned_log = [\<lparr>s_key = ''job_1:evt_1:reply'', s_job_id = Some ''job_1'', s_event_id = ''evt_1'',
     s_conversation_id = ''+14165550101'', s_channel = ''simpletexting_sms'', s_status = Intent, s_skip_count = 0,
     s_last_skipped_at = None, s_last_error = None, s_created_at = 0, s_updated_at = 0\<rparr>]"

definition redelivered_turn :: turn_context where
  "redelivered_turn = \<lparr>tc_event_id = ''evt_1'', tc_conversation_id = ''+14165550101'', tc_sms_session_id = ''s'',
     tc_customer_thread_id = ''t'', tc_from_phone = ''+14165550101'', tc_snapshot = None,
     tc_inbound_body_ref = ''m'', tc_channel = ''simpletexting_sms''\<rparr>"

theorem owned_event_not_sent_again_witness:
  "snd (snd (gateway_turn_runner (\<lambda>_. None) CHR ''.'' (pg_send_log 1 2) (\<lambda>_ _ n. (Inr (), n + 100))
       (\<lambda>_ _ n. (Inr \<lparr>ct_final_response = Some ''hi'', ct_messages = []\<rparr>, n + 1)) None redelivered_turn ''hello''
       (Some ''job_2'') (burned_log, 0 :: nat))) = 1"
  using owned_event_not_sent_again [of burned_log redelivered_turn "''job_1:evt_1:reply''" Intent None "\<lambda>_. None"
      "CHR ''.''" 1 2 "\<lambda>_ _ n. (Inr (), n + 100)"
      "\<lambda>_ _ n. (Inr \<lparr>ct_final_response = Some ''hi'', ct_messages = []\<rparr>, n + 1)" None "''hello''" "Some ''job_2''" "0 :: nat"]
  by (simp add: burned_log_def redelivered_turn_def send_ok_def send_entry_def)

end
