(* ===== verification/JobQueue.thy ===== *)
theory JobQueue
  imports Prelude
begin

text \<open>
  The durable job queue, \<^verbatim>\<open>hermes_runtime/job_queue.py\<close> over the \<^verbatim>\<open>job\<close> table of migration
  \<^verbatim>\<open>0014_job_queue.sql\<close>.  Every method of \<^verbatim>\<open>PostgresJobQueue\<close> is one committed unit of work, so
  each is a function from the table to the table.  \<open>now\<close> is the transaction's \<^verbatim>\<open>now()\<close>; timestamps
  count microseconds.  Row ids (\<^verbatim>\<open>uuid4\<close>) are arguments.
\<close>

section \<open>Constants\<close>

definition DEFAULT_MAX_ATTEMPTS :: int where
  "DEFAULT_MAX_ATTEMPTS = 3"

definition DEFAULT_LEASE_SECONDS :: int where
  "DEFAULT_LEASE_SECONDS = 300"

definition BACKOFF_BASE :: int where
  "BACKOFF_BASE = 2"

definition seconds :: "int \<Rightarrow> int" where
  "seconds n = n * 1000000"

definition AGENT_TURN_JOB_TYPE :: string where
  "AGENT_TURN_JOB_TYPE = ''agent_turn''"

definition L6_REVIEW_JOB_TYPE :: string where
  "L6_REVIEW_JOB_TYPE = ''l6_review''"

definition RETENTION_JOB_TYPE :: string where
  "RETENTION_JOB_TYPE = ''retention''"

definition INGEST_JOB_TYPE :: string where
  "INGEST_JOB_TYPE = ''ingest''"

definition INTEGRATION_PROBE_JOB_TYPE :: string where
  "INTEGRATION_PROBE_JOB_TYPE = ''integration_probe''"

definition HONORED_RATE_JOB_TYPE :: string where
  "HONORED_RATE_JOB_TYPE = ''honored_rate''"

definition REPLAY_BLOCKED_JOB_TYPES :: "(string \<times> string) list" where
  "REPLAY_BLOCKED_JOB_TYPES = [(L6_REVIEW_JOB_TYPE,
     ''Replay is blocked for l6_review: the review fork writes a proposal and '' @
     ''the model is non-deterministic, so a re-run produces a second, different '' @
     ''proposal for one copilot turn. Blocked until proposal dedupe exists.'')]"

definition replay_blocked_reason :: "string \<Rightarrow> string option" where
  "replay_blocked_reason job_type = map_of REPLAY_BLOCKED_JOB_TYPES job_type"

definition NON_CONCURRENT_JOB_TYPES :: "(string \<times> string) list" where
  "NON_CONCURRENT_JOB_TYPES = [(INGEST_JOB_TYPE,
     ''ingest re-reads INGEST_CORPUS_PATH and TRUNCATEs + reloads the whole '' @
     ''corpus at run time; two concurrent runs would TRUNCATE+INSERT the same '' @
     ''corpus.'')]"

section \<open>Rows, claimed jobs, schedules\<close>

datatype job_status = Queued | Running | Succeeded | Failed | Dead

record job_row =
  j_id :: string
  j_type :: string
  j_payload :: json
  j_status :: job_status
  j_attempts :: int
  j_max_attempts :: int
  j_run_at :: int
  j_locked_at :: "int option"
  j_locked_by :: "string option"
  j_last_error :: "string option"
  j_dedupe_key :: "string option"
  j_created_at :: int
  j_updated_at :: int

record job =
  job_id :: string
  job_type :: string
  job_payload :: json
  job_attempts :: int
  job_max_attempts :: int
  job_lease :: int

record schedule =
  sch_job_type :: string
  sch_interval_seconds :: int

section \<open>Operations\<close>

definition as_payload :: "json \<Rightarrow> exn + json" where
  "as_payload payload = (case payload of
      JObj d \<Rightarrow> Inr (JObj d)
    | _ \<Rightarrow> Inl (PyError ''TypeError'' ''Job payload must be a dataclass instance or a mapping''))"

text \<open>\<^verbatim>\<open>insert_job\<close>: the id that owns the work, whether it is new, and the table after it.\<close>

definition insert_job ::
  "string \<Rightarrow> int \<Rightarrow> json \<Rightarrow> string \<Rightarrow> string option \<Rightarrow> int option \<Rightarrow> int \<Rightarrow> job_row list
     \<Rightarrow> exn + (string \<times> bool) \<times> job_row list" where
  "insert_job jid now payload jtype dedupe_key run_at max_attempts jobs =
     ebind (as_payload payload) (\<lambda>body.
     case (case dedupe_key of None \<Rightarrow> None
           | Some k \<Rightarrow> List.find (\<lambda>r. j_dedupe_key r = Some k) jobs) of
       Some r \<Rightarrow> Inr ((j_id r, False), jobs)
     | None \<Rightarrow>
         if jid \<in> j_id ` set jobs
         then Inl (PyError ''UniqueViolation'' ''job_pkey'')
         else Inr ((jid, True), jobs @
           [\<lparr>j_id = jid, j_type = jtype, j_payload = body, j_status = Queued, j_attempts = 0,
             j_max_attempts = max_attempts,
             j_run_at = (case run_at of None \<Rightarrow> now | Some t \<Rightarrow> t),
             j_locked_at = None, j_locked_by = None, j_last_error = None,
             j_dedupe_key = dedupe_key, j_created_at = now, j_updated_at = now\<rparr>]))"

definition replay_dead_job :: "string \<Rightarrow> int \<Rightarrow> job_row list \<Rightarrow> string option \<times> job_row list" where
  "replay_dead_job jid now jobs =
     (let hit = (\<lambda>r. j_id r = jid \<and> j_status r = Dead) in
      (map_option j_type (List.find hit jobs),
       update_where hit (\<lambda>r. r\<lparr>j_status := Queued, j_attempts := 0, j_run_at := now,
          j_last_error := None, j_locked_at := None, j_locked_by := None, j_updated_at := now\<rparr>) jobs))"

definition enqueue ::
  "string \<Rightarrow> int \<Rightarrow> json \<Rightarrow> string \<Rightarrow> string option \<Rightarrow> int option \<Rightarrow> int \<Rightarrow> job_row list
     \<Rightarrow> (exn + string) \<times> job_row list" where
  "enqueue jid now payload jtype dedupe_key run_at max_attempts jobs =
     (case insert_job jid now payload jtype dedupe_key run_at max_attempts jobs of
        Inl e \<Rightarrow> (Inl e, jobs)
      | Inr ((i, _), jobs') \<Rightarrow> (Inr i, jobs'))"

text \<open>
  \<^verbatim>\<open>claim\<close>: the sub-select's \<^verbatim>\<open>WHERE\<close>, its \<^verbatim>\<open>ORDER BY run_at, created_at LIMIT 1\<close> and the update.
  \<open>skip\<close> holds of the rows that \<^verbatim>\<open>SKIP LOCKED\<close> passes over because another transaction has them
  locked; rows that tie in the order are taken in table order.
\<close>

definition claimable :: "job_row \<Rightarrow> bool" where
  "claimable r \<longleftrightarrow> j_status r \<in> {Queued, Failed}"

definition due_for :: "string list option \<Rightarrow> (string \<Rightarrow> bool) \<Rightarrow> int \<Rightarrow> job_row \<Rightarrow> bool" where
  "due_for types skip now r \<longleftrightarrow>
     claimable r \<and> j_run_at r \<le> now
     \<and> (case types of None \<Rightarrow> True | Some ts \<Rightarrow> j_type r \<in> set ts)
     \<and> \<not> skip (j_id r)"

definition runs_before :: "job_row \<Rightarrow> job_row \<Rightarrow> bool" where
  "runs_before r s \<longleftrightarrow>
     j_run_at r < j_run_at s \<or> (j_run_at r = j_run_at s \<and> j_created_at r \<le> j_created_at s)"

fun oldest :: "job_row list \<Rightarrow> job_row option" where
  "oldest [] = None"
| "oldest (r # rs) =
     (case oldest rs of None \<Rightarrow> Some r | Some s \<Rightarrow> (if runs_before r s then Some r else Some s))"

definition claim ::
  "string \<Rightarrow> string list option \<Rightarrow> (string \<Rightarrow> bool) \<Rightarrow> int \<Rightarrow> job_row list
     \<Rightarrow> job option \<times> job_row list" where
  "claim worker types skip now jobs =
     (case oldest (filter (due_for types skip now) jobs) of
        None \<Rightarrow> (None, jobs)
      | Some r \<Rightarrow>
          (Some \<lparr>job_id = j_id r, job_type = j_type r, job_payload = j_payload r,
                 job_attempts = j_attempts r + 1, job_max_attempts = j_max_attempts r,
                 job_lease = now\<rparr>,
           update_where (\<lambda>q. j_id q = j_id r)
             (\<lambda>q. q\<lparr>j_status := Running, j_attempts := j_attempts q + 1, j_locked_at := Some now,
                    j_locked_by := Some worker, j_updated_at := now\<rparr>) jobs))"

definition fence :: "job \<Rightarrow> job_row \<Rightarrow> bool" where
  "fence job r \<longleftrightarrow>
     j_id r = job_id job \<and> j_status r = Running \<and> j_locked_at r = Some (job_lease job)"

definition lease_lost :: exn where
  "lease_lost = PyError ''LeaseLost'' ''the lease is no longer held''"

definition complete :: "job \<Rightarrow> int \<Rightarrow> job_row list \<Rightarrow> (exn + unit) \<times> job_row list" where
  "complete job now jobs =
     (let jobs' = update_where (fence job)
            (\<lambda>r. r\<lparr>j_status := Succeeded, j_locked_at := None, j_locked_by := None,
                   j_last_error := None, j_updated_at := now\<rparr>) jobs;
          held = list_ex (fence job) jobs in
      if \<not> held then (Inl lease_lost, jobs') else (Inr (), jobs'))"

definition release_row :: "int \<Rightarrow> string \<Rightarrow> job_row \<Rightarrow> job_row" where
  "release_row now err r =
     r\<lparr>j_status := (if j_attempts r \<ge> j_max_attempts r then Dead else Failed),
       j_run_at := (if j_attempts r \<ge> j_max_attempts r then j_run_at r
                    else now + seconds (BACKOFF_BASE ^ nat (j_attempts r))),
       j_locked_at := None, j_locked_by := None, j_last_error := Some err, j_updated_at := now\<rparr>"

definition release :: "(job_row \<Rightarrow> bool) \<Rightarrow> string \<Rightarrow> int \<Rightarrow> job_row list
     \<Rightarrow> string list \<times> job_row list" where
  "release clause err now jobs =
     (map j_id (filter clause jobs), update_where clause (release_row now err) jobs)"

definition fail :: "job \<Rightarrow> string \<Rightarrow> int \<Rightarrow> job_row list \<Rightarrow> (exn + unit) \<times> job_row list" where
  "fail job err now jobs =
     (let (released, jobs') = release (fence job) err now jobs in
      if released = [] then (Inl lease_lost, jobs') else (Inr (), jobs'))"

definition lease_expired :: "int \<Rightarrow> int \<Rightarrow> job_row \<Rightarrow> bool" where
  "lease_expired lease_seconds now r \<longleftrightarrow>
     j_status r = Running
     \<and> (case j_locked_at r of None \<Rightarrow> False | Some t \<Rightarrow> t < now - seconds lease_seconds)"

definition reclaim_expired_leases :: "int \<Rightarrow> int \<Rightarrow> job_row list \<Rightarrow> string list \<times> job_row list" where
  "reclaim_expired_leases lease_seconds now jobs =
     release (lease_expired lease_seconds now) ''lease expired'' now jobs"

text \<open>
  \<^verbatim>\<open>tick_schedules\<close>: \<open>moment\<close> is the epoch time in whole seconds (the window is a floor of a floor,
  so dropping the fraction changes nothing), \<open>ids\<close> the ids the successive inserts draw.  Each insert
  commits on its own, so the schedules before a failing one keep their jobs.
\<close>

definition schedule_key :: "string \<Rightarrow> int \<Rightarrow> string" where
  "schedule_key jtype window = ''schedule:'' @ jtype @ '':'' @ show_int window"

fun tick_schedules ::
  "(nat \<Rightarrow> string) \<Rightarrow> int \<Rightarrow> int \<Rightarrow> schedule list \<Rightarrow> job_row list
     \<Rightarrow> (exn + string list) \<times> job_row list" where
  "tick_schedules ids now moment [] jobs = (Inr [], jobs)"
| "tick_schedules ids now moment (s # schedules) jobs =
     (if sch_interval_seconds s = 0
      then (Inl (PyError ''ZeroDivisionError'' ''float floor division by zero''), jobs)
      else
        let window = moment div sch_interval_seconds s in
        case insert_job (ids 0) now
               (JObj [(''schedule_window'', JInt window),
                      (''window_start'', JInt (window * sch_interval_seconds s))])
               (sch_job_type s) (Some (schedule_key (sch_job_type s) window)) None
               DEFAULT_MAX_ATTEMPTS jobs of
          Inl e \<Rightarrow> (Inl e, jobs)
        | Inr ((jid, is_new), jobs') \<Rightarrow>
            (case tick_schedules (ids \<circ> Suc) now moment schedules jobs' of
               (Inl e, jobs'') \<Rightarrow> (Inl e, jobs'')
             | (Inr created, jobs'') \<Rightarrow>
                 (Inr (if is_new then jid # created else created), jobs'')))"

section \<open>Lemmas\<close>

lemma BACKOFF_BASE_pos: "0 < BACKOFF_BASE ^ n"
  by (simp add: BACKOFF_BASE_def)

lemma backoff_at_least: "1 \<le> a \<Longrightarrow> seconds 2 \<le> seconds (BACKOFF_BASE ^ nat a)"
proof -
  assume "1 \<le> a"
  then have "(2::int) ^ 1 \<le> 2 ^ nat a" by (intro power_increasing) auto
  then show ?thesis by (simp add: seconds_def BACKOFF_BASE_def)
qed

lemma oldest_None: "oldest rs = None \<longleftrightarrow> rs = []"
  by (cases rs) (auto split: option.splits if_splits)

lemma runs_before_trans: "runs_before a b \<Longrightarrow> runs_before b c \<Longrightarrow> runs_before a c"
  by (auto simp: runs_before_def)

lemma oldest_Some: "oldest rs = Some r \<Longrightarrow> r \<in> set rs \<and> (\<forall>s \<in> set rs. runs_before r s)"
proof (induction rs arbitrary: r)
  case Nil
  then show ?case by simp
next
  case (Cons a rs)
  show ?case
  proof (cases "oldest rs")
    case None
    with Cons.prems show ?thesis by (simp add: oldest_None runs_before_def)
  next
    case (Some s)
    note s = Cons.IH [OF Some]
    show ?thesis
    proof (cases "runs_before a s")
      case True
      with Some Cons.prems have "r = a" by simp
      with s True show ?thesis by (auto intro: runs_before_trans simp: runs_before_def)
    next
      case False
      with Some Cons.prems have "r = s" by simp
      with s False show ?thesis by (auto simp: runs_before_def)
    qed
  qed
qed

lemma claim_None_iff: "fst (claim w types skip now jobs) = None \<longleftrightarrow>
   (\<forall>r \<in> set jobs. \<not> due_for types skip now r)"
proof (cases "oldest (filter (due_for types skip now) jobs)")
  case None
  then show ?thesis by (simp add: claim_def) (simp add: oldest_None filter_empty_conv)
next
  case (Some r)
  with oldest_Some [OF Some] show ?thesis by (auto simp: claim_def)
qed

text \<open>What a successful claim hands out: the oldest due row, under a lease stamped \<open>now\<close>.\<close>

lemma claim_SomeD:
  assumes "claim w types skip now jobs = (Some job, jobs')"
  shows "\<exists>r \<in> set jobs. due_for types skip now r
    \<and> (\<forall>s \<in> set jobs. due_for types skip now s \<longrightarrow> runs_before r s)
    \<and> job = \<lparr>job_id = j_id r, job_type = j_type r, job_payload = j_payload r,
        job_attempts = j_attempts r + 1, job_max_attempts = j_max_attempts r, job_lease = now\<rparr>
    \<and> jobs' = update_where (\<lambda>q. j_id q = j_id r)
        (\<lambda>q. q\<lparr>j_status := Running, j_attempts := j_attempts q + 1, j_locked_at := Some now,
               j_locked_by := Some w, j_updated_at := now\<rparr>) jobs"
proof -
  from assms obtain r where r: "oldest (filter (due_for types skip now) jobs) = Some r"
    by (cases "oldest (filter (due_for types skip now) jobs)") (simp_all add: claim_def)
  show ?thesis
  proof (rule bexI [of _ r], intro conjI)
    show "due_for types skip now r" "r \<in> set jobs"
      "\<forall>s \<in> set jobs. due_for types skip now s \<longrightarrow> runs_before r s"
      using oldest_Some [OF r] by auto
  qed (use assms r in \<open>simp_all add: claim_def\<close>)
qed

lemma claim_None_table: "claim w types skip now jobs = (None, jobs') \<Longrightarrow> jobs' = jobs"
  by (auto simp: claim_def split: option.splits)

lemma complete_not_held: "\<not> list_ex (fence job) jobs \<Longrightarrow> complete job now jobs = (Inl lease_lost, jobs)"
  by (simp add: complete_def Let_def update_where_none list_ex_iff)

lemma complete_held: "list_ex (fence job) jobs \<Longrightarrow>
   complete job now jobs = (Inr (), update_where (fence job)
     (\<lambda>r. r\<lparr>j_status := Succeeded, j_locked_at := None, j_locked_by := None,
            j_last_error := None, j_updated_at := now\<rparr>) jobs)"
  by (simp add: complete_def Let_def)

lemma fail_not_held: "\<not> list_ex (fence job) jobs \<Longrightarrow> fail job err now jobs = (Inl lease_lost, jobs)"
proof -
  assume a: "\<not> list_ex (fence job) jobs"
  then have "filter (fence job) jobs = []" by (simp add: filter_empty_conv list_ex_iff)
  moreover from a have "update_where (fence job) (release_row now err) jobs = jobs"
    by (intro update_where_none) (simp add: list_ex_iff)
  ultimately show ?thesis by (simp add: fail_def release_def)
qed

lemma fail_held: "list_ex (fence job) jobs \<Longrightarrow>
   fail job err now jobs = (Inr (), update_where (fence job) (release_row now err) jobs)"
  by (auto simp: fail_def release_def list_ex_iff filter_empty_conv)

lemma release_row_fields [simp]:
  "j_id (release_row now err r) = j_id r"
  "j_type (release_row now err r) = j_type r"
  "j_payload (release_row now err r) = j_payload r"
  "j_attempts (release_row now err r) = j_attempts r"
  "j_max_attempts (release_row now err r) = j_max_attempts r"
  "j_dedupe_key (release_row now err r) = j_dedupe_key r"
  "j_locked_at (release_row now err r) = None"
  "j_created_at (release_row now err r) = j_created_at r"
  by (simp_all add: release_row_def)

lemma release_row_status:
  "j_status (release_row now err r) = (if j_attempts r \<ge> j_max_attempts r then Dead else Failed)"
  by (simp add: release_row_def)

lemma insert_job_Inr:
  assumes "insert_job jid now payload jtype dk run_at m jobs = Inr ((i, created), jobs')"
  shows "(created \<and> i = jid \<and> jid \<notin> j_id ` set jobs
      \<and> (\<forall>k. dk = Some k \<longrightarrow> (\<forall>r \<in> set jobs. j_dedupe_key r \<noteq> Some k))
      \<and> (\<exists>d. payload = JObj d)
      \<and> jobs' = jobs @ [\<lparr>j_id = jid, j_type = jtype, j_payload = payload, j_status = Queued,
             j_attempts = 0, j_max_attempts = m,
             j_run_at = (case run_at of None \<Rightarrow> now | Some t \<Rightarrow> t),
             j_locked_at = None, j_locked_by = None, j_last_error = None,
             j_dedupe_key = dk, j_created_at = now, j_updated_at = now\<rparr>])
    \<or> (\<not> created \<and> jobs' = jobs
       \<and> (\<exists>k r. dk = Some k \<and> r \<in> set jobs \<and> j_dedupe_key r = Some k \<and> i = j_id r))"
proof -
  let ?hit = "case dk of None \<Rightarrow> None | Some k \<Rightarrow> List.find (\<lambda>r. j_dedupe_key r = Some k) jobs"
  obtain d where d: "payload = JObj d"
    using assms by (cases payload) (simp_all add: insert_job_def as_payload_def exn_simps)
  show ?thesis
  proof (cases ?hit)
    case (Some r)
    then obtain k where k: "dk = Some k" "List.find (\<lambda>r. j_dedupe_key r = Some k) jobs = Some r"
      by (cases dk) auto
    from assms Some d have "i = j_id r" "\<not> created" "jobs' = jobs"
      by (auto simp: insert_job_def as_payload_def ebind_def)
    with k find_SomeD [OF k(2)] show ?thesis by blast
  next
    case None
    then have n: "\<forall>k. dk = Some k \<longrightarrow> (\<forall>r \<in> set jobs. j_dedupe_key r \<noteq> Some k)"
      by (auto simp: find_None_iff split: option.splits)
    from assms None d show ?thesis
      by (intro disjI1) (use n in \<open>auto simp: insert_job_def as_payload_def ebind_def split: if_splits\<close>)
  qed
qed

lemma insert_job_fresh:
  assumes "jid \<notin> j_id ` set jobs" and "\<And>k r. dk = Some k \<Longrightarrow> r \<in> set jobs \<Longrightarrow> j_dedupe_key r \<noteq> Some k"
  shows "insert_job jid now (JObj d) jtype dk run_at m jobs = Inr ((jid, True), jobs @
     [\<lparr>j_id = jid, j_type = jtype, j_payload = JObj d, j_status = Queued, j_attempts = 0,
       j_max_attempts = m, j_run_at = (case run_at of None \<Rightarrow> now | Some t \<Rightarrow> t),
       j_locked_at = None, j_locked_by = None, j_last_error = None,
       j_dedupe_key = dk, j_created_at = now, j_updated_at = now\<rparr>])"
proof -
  have "(case dk of None \<Rightarrow> None | Some k \<Rightarrow> List.find (\<lambda>r. j_dedupe_key r = Some k) jobs) = None"
    using assms(2) by (auto simp: find_None_iff split: option.splits)
  then show ?thesis using assms(1) by (simp add: insert_job_def as_payload_def exn_simps)
qed

lemma insert_job_dup:
  assumes "r \<in> set jobs" and "j_dedupe_key r = Some k"
  shows "\<exists>i. insert_job jid now (JObj d) jtype (Some k) run_at m jobs = Inr ((i, False), jobs)"
proof -
  from assms obtain q where "List.find (\<lambda>r. j_dedupe_key r = Some k) jobs = Some q"
    by (cases "List.find (\<lambda>r. j_dedupe_key r = Some k) jobs") (auto simp: find_None_iff)
  then show ?thesis by (simp add: insert_job_def as_payload_def exn_simps)
qed

lemma schedule_key_inject: "schedule_key t w = schedule_key t w' \<longleftrightarrow> w = w'"
  by (simp add: schedule_key_def)

text \<open>A schedule is covered once its window's dedupe key is in the table; covered schedules are no-ops.\<close>

definition covered :: "int \<Rightarrow> job_row list \<Rightarrow> schedule \<Rightarrow> bool" where
  "covered moment jobs s \<longleftrightarrow>
     (\<exists>r \<in> set jobs. j_dedupe_key r =
        Some (schedule_key (sch_job_type s) (moment div sch_interval_seconds s)))"

lemma covered_mono: "covered moment jobs s \<Longrightarrow> set jobs \<subseteq> set jobs' \<Longrightarrow> covered moment jobs' s"
  by (auto simp: covered_def)

lemma tick_schedules_mono:
  "tick_schedules ids now moment ss jobs = (res, jobs') \<Longrightarrow> set jobs \<subseteq> set jobs'"
proof (induction ids now moment ss jobs arbitrary: res jobs' rule: tick_schedules.induct)
  case (2 ids now moment s ss jobs)
  from 2(2) show ?case
  proof (cases "sch_interval_seconds s = 0")
    case False
    show ?thesis
    proof (cases "insert_job (ids 0) now
         (JObj [(''schedule_window'', JInt (moment div sch_interval_seconds s)),
                (''window_start'', JInt (moment div sch_interval_seconds s * sch_interval_seconds s))])
         (sch_job_type s) (Some (schedule_key (sch_job_type s) (moment div sch_interval_seconds s)))
         None DEFAULT_MAX_ATTEMPTS jobs")
      case (Inl e)
      with 2(2) False show ?thesis by simp
    next
      case (Inr p)
      obtain i c jobs1 where p: "p = ((i, c), jobs1)" by (metis surj_pair)
      obtain r2 jobs2 where t: "tick_schedules (ids \<circ> Suc) now moment ss jobs1 = (r2, jobs2)"
        by force
      have "set jobs \<subseteq> set jobs1" using insert_job_Inr [OF Inr [unfolded p]] by auto
      moreover have "set jobs1 \<subseteq> set jobs2"
        using 2(1) [OF False refl Inr p [symmetric] refl t] by simp
      moreover have "jobs' = jobs2" using 2(2) False Inr p t by (auto split: sum.splits)
      ultimately show ?thesis by simp
    qed
  qed simp
qed simp

lemma tick_schedules_covers:
  assumes "tick_schedules ids now moment ss jobs = (Inr created, jobs')" and "s \<in> set ss"
  shows "covered moment jobs' s"
  using assms
proof (induction ids now moment ss jobs arbitrary: created jobs' rule: tick_schedules.induct)
  case (2 ids now moment s' ss jobs)
  then have nz: "sch_interval_seconds s' \<noteq> 0" by (auto split: if_splits)
  let ?w = "moment div sch_interval_seconds s'"
  let ?ins = "insert_job (ids 0) now
         (JObj [(''schedule_window'', JInt ?w), (''window_start'', JInt (?w * sch_interval_seconds s'))])
         (sch_job_type s') (Some (schedule_key (sch_job_type s') ?w)) None DEFAULT_MAX_ATTEMPTS jobs"
  from 2(2) nz obtain p where Inr: "?ins = Inr p" by (cases ?ins) auto
  obtain i c jobs1 where p: "p = ((i, c), jobs1)" by (metis surj_pair)
  obtain r2 jobs2 where t: "tick_schedules (ids \<circ> Suc) now moment ss jobs1 = (r2, jobs2)" by force
  from 2(2) nz Inr p t obtain cr where r2: "r2 = Inr cr" and j: "jobs' = jobs2"
    by (auto split: sum.splits)
  have "covered moment jobs1 s'"
    using insert_job_Inr [OF Inr [unfolded p]] by (auto simp: covered_def)
  with tick_schedules_mono [OF t] j have "covered moment jobs' s'" by (blast intro: covered_mono)
  moreover have "s \<in> set ss \<Longrightarrow> covered moment jobs' s"
    using 2(1) [OF nz refl Inr p [symmetric] refl] t r2 j by blast
  ultimately show ?case using 2(3) by auto
qed simp

lemma tick_schedules_covered_noop:
  assumes "\<forall>s \<in> set ss. covered moment jobs s \<and> sch_interval_seconds s \<noteq> 0"
  shows "tick_schedules ids now moment ss jobs = (Inr [], jobs)"
  using assms
proof (induction ids now moment ss jobs rule: tick_schedules.induct)
  case (2 ids now moment s ss jobs)
  then obtain r where r: "r \<in> set jobs"
      "j_dedupe_key r = Some (schedule_key (sch_job_type s) (moment div sch_interval_seconds s))"
    by (auto simp: covered_def)
  from insert_job_dup [OF r, of "ids 0" now] 2 show ?case by (fastforce split: prod.splits)
qed simp

section \<open>Properties\<close>

text \<open>A claim returns nothing exactly when no unlocked row of the asked types is due;
  otherwise it returns a due row that runs before every other due row, one attempt further, leased
  from now, and changes no other row.\<close>

theorem claim_takes_oldest_due:
  "case claim w types skip now jobs of
     (None, jobs') \<Rightarrow> jobs' = jobs \<and> (\<forall>r \<in> set jobs. \<not> due_for types skip now r)
   | (Some job, jobs') \<Rightarrow> (\<exists>r \<in> set jobs. due_for types skip now r
       \<and> (\<forall>s \<in> set jobs. due_for types skip now s \<longrightarrow> runs_before r s)
       \<and> job_id job = j_id r \<and> job_payload job = j_payload r \<and> job_attempts job = j_attempts r + 1
       \<and> job_lease job = now
       \<and> jobs' = map (\<lambda>q. if j_id q = j_id r
            then q\<lparr>j_status := Running, j_attempts := j_attempts q + 1, j_locked_at := Some now,
                   j_locked_by := Some w, j_updated_at := now\<rparr> else q) jobs)"
proof (cases "claim w types skip now jobs")
  case (Pair cl jobs')
  show ?thesis
  proof (cases cl)
    case None
    with Pair claim_None_table [of w types skip now jobs jobs'] claim_None_iff [of w types skip now jobs]
    show ?thesis by simp
  next
    case (Some job)
    from claim_SomeD [OF Pair [unfolded Some]] obtain r where
      r: "r \<in> set jobs" "due_for types skip now r" "\<forall>s \<in> set jobs. due_for types skip now s \<longrightarrow> runs_before r s"
      and j: "job = \<lparr>job_id = j_id r, job_type = j_type r, job_payload = j_payload r,
        job_attempts = j_attempts r + 1, job_max_attempts = j_max_attempts r, job_lease = now\<rparr>"
      and u: "jobs' = update_where (\<lambda>q. j_id q = j_id r)
        (\<lambda>q. q\<lparr>j_status := Running, j_attempts := j_attempts q + 1, j_locked_at := Some now,
               j_locked_by := Some w, j_updated_at := now\<rparr>) jobs" by blast
    show ?thesis unfolding Pair Some prod.case option.case
      by (rule bexI [OF _ r(1)]) (use r(2,3) j in \<open>simp add: u update_where_def\<close>)
  qed
qed

theorem claim_takes_oldest_due_witness:
  "due_for None (\<lambda>_. False) 5 \<lparr>j_id = ''a'', j_type = ''t'', j_payload = JObj [], j_status = Queued, j_attempts = 0,
     j_max_attempts = 3, j_run_at = 5, j_locked_at = None, j_locked_by = None, j_last_error = None,
     j_dedupe_key = None, j_created_at = 0, j_updated_at = 0\<rparr>
   \<and> (case claim ''w'' None (\<lambda>_. False) 5 [\<lparr>j_id = ''a'', j_type = ''t'', j_payload = JObj [], j_status = Queued,
     j_attempts = 0, j_max_attempts = 3, j_run_at = 5, j_locked_at = None, j_locked_by = None,
     j_last_error = None, j_dedupe_key = None, j_created_at = 0, j_updated_at = 0\<rparr>] of
       (Some job, _) \<Rightarrow> job_id job = ''a'' \<and> job_attempts job = 1 | _ \<Rightarrow> False)"
  using claim_takes_oldest_due [where w = "''w''" and types = None and skip = "\<lambda>_. False" and now = 5 and jobs = "[\<lparr>j_id = ''a'', j_type = ''t'', j_payload = JObj [],
     j_status = Queued, j_attempts = 0, j_max_attempts = 3, j_run_at = 5, j_locked_at = None, j_locked_by = None,
     j_last_error = None, j_dedupe_key = None, j_created_at = 0, j_updated_at = 0\<rparr>]"]
  by (simp add: claim_def due_for_def claimable_def)

end
