(* ===== verification/JobLifecycle.thy ===== *)
theory JobLifecycle
  imports JobQueue
begin

text \<open>
  The job table as a state machine.  A system state is the table, the database clock and two ghost
  fields: every lease \<^verbatim>\<open>claim\<close> ever handed out, and how often each job was replayed.  The steps are
  the queue's operations, called by anyone, in any order and with any arguments (a forged or stale
  \<open>job\<close> included).  The invariant relates a row's status, its attempts, its lease and the leases
  handed out before, and gives the fencing and retry-bound properties.
\<close>

section \<open>Steps\<close>

record queue_sys =
  qs_jobs :: "job_row list"
  qs_clock :: int
  qs_issued :: "(string \<times> int) list"
  qs_replays :: "string \<Rightarrow> nat"

definition init_queue :: queue_sys where
  "init_queue = \<lparr>qs_jobs = [], qs_clock = 0, qs_issued = [], qs_replays = (\<lambda>_. 0)\<rparr>"

datatype queue_op =
    Op_enqueue string json string "string option" "int option" int
  | Op_claim string "string list option" "string \<Rightarrow> bool"
  | Op_complete job
  | Op_fail job string
  | Op_reclaim int
  | Op_replay string

fun apply_op :: "queue_op \<Rightarrow> int \<Rightarrow> queue_sys \<Rightarrow> queue_sys" where
  "apply_op (Op_enqueue jid payload jtype dk run_at m) now s =
     s\<lparr>qs_jobs := snd (enqueue jid now payload jtype dk run_at m (qs_jobs s)), qs_clock := now\<rparr>"
| "apply_op (Op_claim w types skip) now s =
     (case claim w types skip now (qs_jobs s) of
        (None, jobs') \<Rightarrow> s\<lparr>qs_jobs := jobs', qs_clock := now\<rparr>
      | (Some job, jobs') \<Rightarrow>
          s\<lparr>qs_jobs := jobs', qs_clock := now,
            qs_issued := (job_id job, job_lease job) # qs_issued s\<rparr>)"
| "apply_op (Op_complete job) now s =
     s\<lparr>qs_jobs := snd (complete job now (qs_jobs s)), qs_clock := now\<rparr>"
| "apply_op (Op_fail job err) now s =
     s\<lparr>qs_jobs := snd (fail job err now (qs_jobs s)), qs_clock := now\<rparr>"
| "apply_op (Op_reclaim secs) now s =
     s\<lparr>qs_jobs := snd (reclaim_expired_leases secs now (qs_jobs s)), qs_clock := now\<rparr>"
| "apply_op (Op_replay jid) now s =
     (case replay_dead_job jid now (qs_jobs s) of
        (None, jobs') \<Rightarrow> s\<lparr>qs_jobs := jobs', qs_clock := now\<rparr>
      | (Some _, jobs') \<Rightarrow>
          s\<lparr>qs_jobs := jobs', qs_clock := now,
            qs_replays := (qs_replays s)(jid := Suc (qs_replays s jid))\<rparr>)"

text \<open>
  The guards of a step.  The database clock does not run backwards; an enqueue grants at least one
  attempt; and a replay happens strictly later than the row's last transition.  The last guard is
  the one thing the code takes for granted: \<^verbatim>\<open>replay_dead_job\<close> makes the row due at once, so with
  equal timestamps the credential of the replayed job's next claim would equal the old one.
\<close>

definition op_guard :: "queue_op \<Rightarrow> int \<Rightarrow> queue_sys \<Rightarrow> bool" where
  "op_guard op now s \<longleftrightarrow> qs_clock s \<le> now \<and>
     (case op of Op_enqueue _ _ _ _ _ m \<Rightarrow> 1 \<le> m | Op_replay _ \<Rightarrow> qs_clock s < now | _ \<Rightarrow> True)"

inductive queue_reachable :: "queue_sys \<Rightarrow> bool" where
  queue_start: "queue_reachable init_queue"
| queue_step: "queue_reachable s \<Longrightarrow> op_guard op now s \<Longrightarrow> queue_reachable (apply_op op now s)"

section \<open>The invariant\<close>

definition row_ok :: "int \<Rightarrow> job_row \<Rightarrow> bool" where
  "row_ok clock r \<longleftrightarrow> 1 \<le> j_max_attempts r \<and>
     (case j_status r of
        Queued \<Rightarrow> j_attempts r = 0 \<and> j_locked_at r = None
      | Running \<Rightarrow> 1 \<le> j_attempts r \<and> j_attempts r \<le> j_max_attempts r
          \<and> (\<exists>t \<le> clock. j_locked_at r = Some t)
      | Failed \<Rightarrow> 1 \<le> j_attempts r \<and> j_attempts r < j_max_attempts r \<and> j_locked_at r = None
      | Dead \<Rightarrow> j_attempts r = j_max_attempts r \<and> j_locked_at r = None
      | Succeeded \<Rightarrow> 1 \<le> j_attempts r \<and> j_attempts r \<le> j_max_attempts r \<and> j_locked_at r = None)"

definition lease_ok :: "(string \<times> int) list \<Rightarrow> job_row \<Rightarrow> bool" where
  "lease_ok issued r \<longleftrightarrow>
     (\<forall>t. (j_id r, t) \<in> set issued \<longrightarrow>
        (case j_status r of
           Running \<Rightarrow> (\<forall>u. j_locked_at r = Some u \<longrightarrow> t \<le> u)
         | Queued \<Rightarrow> t < j_run_at r
         | Failed \<Rightarrow> t < j_run_at r
         | _ \<Rightarrow> True))
     \<and> (\<forall>u. j_locked_at r = Some u \<longrightarrow> (j_id r, u) \<in> set issued)"

definition claims_of :: "string \<Rightarrow> (string \<times> int) list \<Rightarrow> nat" where
  "claims_of jid issued = length (filter (\<lambda>(i, t). i = jid) issued)"

definition claims_ok :: "(string \<times> int) list \<Rightarrow> (string \<Rightarrow> nat) \<Rightarrow> job_row \<Rightarrow> bool" where
  "claims_ok issued replays r \<longleftrightarrow>
     int (claims_of (j_id r) issued) \<le> j_attempts r + int (replays (j_id r)) * j_max_attempts r"

definition row_inv :: "int \<Rightarrow> (string \<times> int) list \<Rightarrow> (string \<Rightarrow> nat) \<Rightarrow> job_row \<Rightarrow> bool" where
  "row_inv clock issued replays r \<longleftrightarrow>
     row_ok clock r \<and> lease_ok issued r \<and> claims_ok issued replays r"

definition dedupe_keys :: "job_row list \<Rightarrow> string option list" where
  "dedupe_keys jobs = filter (\<lambda>k. k \<noteq> None) (map j_dedupe_key jobs)"

definition queue_inv :: "queue_sys \<Rightarrow> bool" where
  "queue_inv s \<longleftrightarrow>
     distinct (map j_id (qs_jobs s)) \<and> distinct (dedupe_keys (qs_jobs s))
     \<and> (\<forall>r \<in> set (qs_jobs s). row_inv (qs_clock s) (qs_issued s) (qs_replays s) r)
     \<and> (\<forall>(i, t) \<in> set (qs_issued s). t \<le> qs_clock s \<and> i \<in> j_id ` set (qs_jobs s))
     \<and> distinct (qs_issued s)"

section \<open>Preservation\<close>

lemma row_inv_clock: "row_inv c iss rep r \<Longrightarrow> c \<le> c' \<Longrightarrow> row_inv c' iss rep r"
  by (auto simp: row_inv_def row_ok_def split: job_status.splits intro: order_trans)

lemma row_inv_other_claim:
  "row_inv c iss rep r \<Longrightarrow> j_id r \<noteq> i \<Longrightarrow> row_inv c ((i, t) # iss) rep r"
  by (auto simp: row_inv_def lease_ok_def claims_ok_def claims_of_def split: job_status.splits)

lemma row_inv_other_replay:
  "row_inv c iss rep r \<Longrightarrow> j_id r \<noteq> i \<Longrightarrow> row_inv c iss (rep(i := n)) r"
  by (auto simp: row_inv_def claims_ok_def)

lemma row_inv_claim:
  assumes "row_inv c iss rep r" and "c \<le> now" and "claimable r" and "j_run_at r \<le> now"
    and "\<forall>(i, t) \<in> set iss. t \<le> c"
  shows "row_inv now ((j_id r, now) # iss) rep
     (r\<lparr>j_status := Running, j_attempts := j_attempts r + 1, j_locked_at := Some now,
        j_locked_by := w, j_updated_at := now\<rparr>)"
  using assms
  by (fastforce simp: row_inv_def row_ok_def lease_ok_def claims_ok_def claims_of_def claimable_def
      split: job_status.splits)

lemma row_inv_release:
  assumes "row_inv c iss rep r" and "c \<le> now" and "j_status r = Running"
    and "\<forall>(i, t) \<in> set iss. t \<le> c"
  shows "row_inv now iss rep (release_row now err r)"
proof -
  from assms(1,3) have a: "1 \<le> j_attempts r" "j_attempts r \<le> j_max_attempts r" "1 \<le> j_max_attempts r"
    by (auto simp: row_inv_def row_ok_def)
  from a(1) backoff_at_least have b: "now < now + seconds (BACKOFF_BASE ^ nat (j_attempts r))"
    by (auto simp: seconds_def BACKOFF_BASE_def)
  have "t < now + seconds (BACKOFF_BASE ^ nat (j_attempts r))" if "(j_id r, t) \<in> set iss" for t
    using that assms(2,4) b by fastforce
  with a assms show ?thesis
    by (auto simp: row_inv_def row_ok_def lease_ok_def claims_ok_def release_row_def)
qed

lemma row_inv_complete:
  assumes "row_inv c iss rep r" and "j_status r = Running"
  shows "row_inv now iss rep (r\<lparr>j_status := Succeeded, j_locked_at := None, j_locked_by := None,
            j_last_error := None, j_updated_at := now\<rparr>)"
  using assms by (auto simp: row_inv_def row_ok_def lease_ok_def claims_ok_def)

lemma row_inv_replay:
  assumes "row_inv c iss rep r" and "j_status r = Dead" and "c < now"
    and "\<forall>(i, t) \<in> set iss. t \<le> c"
  shows "row_inv now iss (rep(j_id r := Suc (rep (j_id r))))
     (r\<lparr>j_status := Queued, j_attempts := 0, j_run_at := now, j_last_error := None,
        j_locked_at := None, j_locked_by := None, j_updated_at := now\<rparr>)"
  using assms
  by (fastforce simp: row_inv_def row_ok_def lease_ok_def claims_ok_def algebra_simps)

lemma row_inv_new:
  assumes "jid \<notin> fst ` set iss" and "1 \<le> m"
  shows "row_inv now iss rep \<lparr>j_id = jid, j_type = t, j_payload = p, j_status = Queued, j_attempts = 0,
     j_max_attempts = m, j_run_at = ra, j_locked_at = None, j_locked_by = None, j_last_error = None,
     j_dedupe_key = dk, j_created_at = now, j_updated_at = now\<rparr>"
proof -
  have "filter (\<lambda>(i, t). i = jid) iss = []" using assms(1) by (force simp: filter_empty_conv)
  moreover have "(jid, t) \<notin> set iss" for t using assms(1) by force
  ultimately show ?thesis
    using assms(2) by (simp add: row_inv_def row_ok_def lease_ok_def claims_ok_def claims_of_def)
qed

text \<open>An update of some rows that keeps ids and dedupe keys keeps the table-wide part.\<close>

lemma queue_inv_update:
  assumes inv: "queue_inv s" and clock: "qs_clock s \<le> now"
    and keys: "\<And>r. j_id (f r) = j_id r" "\<And>r. j_dedupe_key (f r) = j_dedupe_key r"
    and hit: "\<And>r. r \<in> set (qs_jobs s) \<Longrightarrow> P r \<Longrightarrow> row_inv now (qs_issued s) (qs_replays s) (f r)"
  shows "queue_inv (s\<lparr>qs_jobs := update_where P f (qs_jobs s), qs_clock := now\<rparr>)"
proof -
  have ids: "map j_id (update_where P f (qs_jobs s)) = map j_id (qs_jobs s)"
    by (rule update_where_keys) (rule keys)
  have "map j_dedupe_key (update_where P f (qs_jobs s)) = map j_dedupe_key (qs_jobs s)"
    by (rule update_where_keys) (rule keys)
  moreover have "j_id ` set (update_where P f (qs_jobs s)) = j_id ` set (qs_jobs s)"
    using ids by (metis set_map)
  moreover have "row_inv now (qs_issued s) (qs_replays s) r"
    if "r \<in> set (update_where P f (qs_jobs s))" for r
  proof -
    from that obtain q where q: "q \<in> set (qs_jobs s)" "r = (if P q then f q else q)"
      by (auto simp: set_update_where)
    with inv have "row_inv (qs_clock s) (qs_issued s) (qs_replays s) q" by (simp add: queue_inv_def)
    with q hit clock show ?thesis by (auto intro: row_inv_clock)
  qed
  ultimately show ?thesis
    using inv clock ids by (auto simp: queue_inv_def dedupe_keys_def intro: order_trans)
qed

lemma queue_inv_idle: "queue_inv s \<Longrightarrow> qs_clock s \<le> now \<Longrightarrow> queue_inv (s\<lparr>qs_clock := now\<rparr>)"
  by (auto simp: queue_inv_def intro: row_inv_clock)

lemma queue_inv_enqueue:
  assumes inv: "queue_inv s" and "qs_clock s \<le> now" and "1 \<le> m"
  shows "queue_inv (apply_op (Op_enqueue jid payload jtype dk run_at m) now s)"
proof (cases "insert_job jid now payload jtype dk run_at m (qs_jobs s)")
  case (Inl e)
  with assms queue_inv_idle show ?thesis by (simp add: enqueue_def)
next
  case (Inr p)
  obtain i c jobs' where p: "p = ((i, c), jobs')" by (metis surj_pair)
  from insert_job_Inr [OF Inr [unfolded p]] show ?thesis
  proof (elim disjE conjE exE)
    assume "jobs' = qs_jobs s"
    with Inr p assms queue_inv_idle show ?thesis by (simp add: enqueue_def)
  next
    fix d
    let ?r = "\<lparr>j_id = jid, j_type = jtype, j_payload = payload, j_status = Queued,
             j_attempts = 0, j_max_attempts = m,
             j_run_at = (case run_at of None \<Rightarrow> now | Some t \<Rightarrow> t),
             j_locked_at = None, j_locked_by = None, j_last_error = None,
             j_dedupe_key = dk, j_created_at = now, j_updated_at = now\<rparr>"
    assume new: "jobs' = qs_jobs s @ [?r]" and jid: "jid \<notin> j_id ` set (qs_jobs s)"
      and dk: "\<forall>k. dk = Some k \<longrightarrow> (\<forall>r \<in> set (qs_jobs s). j_dedupe_key r \<noteq> Some k)"
    have "jid \<notin> fst ` set (qs_issued s)" using inv jid by (force simp: queue_inv_def)
    then have "row_inv now (qs_issued s) (qs_replays s) ?r" using assms(3) by (rule row_inv_new)
    moreover have "distinct (dedupe_keys (qs_jobs s @ [?r]))"
      using inv dk by (fastforce simp: queue_inv_def dedupe_keys_def)
    ultimately show ?thesis
      using inv assms(2) jid Inr p new
      by (auto simp: queue_inv_def enqueue_def intro: row_inv_clock)
  qed
qed

lemma queue_inv_claim:
  assumes inv: "queue_inv s" and clock: "qs_clock s \<le> now"
  shows "queue_inv (apply_op (Op_claim w types skip) now s)"
proof (cases "claim w types skip now (qs_jobs s)")
  case (Pair jo jobs')
  show ?thesis
  proof (cases jo)
    case None
    with Pair have "jobs' = qs_jobs s" by (auto dest: claim_None_table)
    with Pair None assms queue_inv_idle show ?thesis by simp
  next
    case (Some job)
    let ?f = "\<lambda>q. q\<lparr>j_status := Running, j_attempts := j_attempts q + 1, j_locked_at := Some now,
               j_locked_by := Some w, j_updated_at := now\<rparr>"
    from claim_SomeD [OF Pair [unfolded Some]] obtain r where r: "r \<in> set (qs_jobs s)"
      and due: "due_for types skip now r" and job: "job_id job = j_id r" "job_lease job = now"
      and jobs': "jobs' = update_where (\<lambda>q. j_id q = j_id r) ?f (qs_jobs s)" by force
    let ?iss = "(j_id r, now) # qs_issued s"
    have le: "\<forall>(i, t) \<in> set (qs_issued s). t \<le> qs_clock s" using inv by (auto simp: queue_inv_def)
    have "(j_id r, now) \<notin> set (qs_issued s)"
    proof
      assume "(j_id r, now) \<in> set (qs_issued s)"
      moreover have "row_inv (qs_clock s) (qs_issued s) (qs_replays s) r"
        using inv r by (simp add: queue_inv_def)
      ultimately have "now < j_run_at r"
        using due by (auto simp: row_inv_def lease_ok_def due_for_def claimable_def)
      with due show False by (simp add: due_for_def)
    qed
    moreover have "row_inv now ?iss (qs_replays s) q'"
      if "q' \<in> set jobs'" for q'
    proof -
      from that jobs' obtain q where q: "q \<in> set (qs_jobs s)" "q' = (if j_id q = j_id r then ?f q else q)"
        by (auto simp: set_update_where)
      have qi: "row_inv (qs_clock s) (qs_issued s) (qs_replays s) q"
        using inv q by (simp add: queue_inv_def)
      show ?thesis
      proof (cases "j_id q = j_id r")
        case True
        with inv q r have "q = r" by (auto simp: queue_inv_def intro: distinct_map_inj)
        with q qi due le clock show ?thesis
          by (auto simp: due_for_def intro!: row_inv_claim)
      next
        case False
        with q qi clock show ?thesis by (auto intro: row_inv_other_claim row_inv_clock)
      qed
    qed
    moreover have ids: "map j_id jobs' = map j_id (qs_jobs s)"
      unfolding jobs' by (rule update_where_keys) simp
    moreover have "map j_dedupe_key jobs' = map j_dedupe_key (qs_jobs s)"
      unfolding jobs' by (rule update_where_keys) simp
    moreover have "j_id ` set jobs' = j_id ` set (qs_jobs s)"
      using ids by (metis set_map)
    ultimately show ?thesis
      using inv clock r Pair Some job
      by (auto simp: queue_inv_def dedupe_keys_def)
  qed
qed

lemma queue_inv_complete:
  assumes inv: "queue_inv s" and clock: "qs_clock s \<le> now"
  shows "queue_inv (apply_op (Op_complete job) now s)"
proof -
  let ?f = "\<lambda>r. r\<lparr>j_status := Succeeded, j_locked_at := None, j_locked_by := None,
            j_last_error := None, j_updated_at := now\<rparr>"
  have "queue_inv (s\<lparr>qs_jobs := update_where (fence job) ?f (qs_jobs s), qs_clock := now\<rparr>)"
  proof (rule queue_inv_update [OF inv clock])
    fix r assume "r \<in> set (qs_jobs s)" "fence job r"
    with inv show "row_inv now (qs_issued s) (qs_replays s) (?f r)"
      by (auto simp: fence_def queue_inv_def intro: row_inv_complete)
  qed simp_all
  then show ?thesis by (simp add: complete_def Let_def)
qed

lemma queue_inv_release:
  assumes inv: "queue_inv s" and clock: "qs_clock s \<le> now"
    and run: "\<And>r. P r \<Longrightarrow> j_status r = Running"
  shows "queue_inv (s\<lparr>qs_jobs := update_where P (release_row now err) (qs_jobs s), qs_clock := now\<rparr>)"
proof (rule queue_inv_update [OF inv clock])
  fix r assume "r \<in> set (qs_jobs s)" "P r"
  with inv run show "row_inv now (qs_issued s) (qs_replays s) (release_row now err r)"
    using clock by (intro row_inv_release [of "qs_clock s"]) (auto simp: queue_inv_def)
qed simp_all

lemma queue_inv_replay:
  assumes inv: "queue_inv s" and clock: "qs_clock s < now"
  shows "queue_inv (apply_op (Op_replay jid) now s)"
proof -
  let ?hit = "\<lambda>r. j_id r = jid \<and> j_status r = Dead"
  let ?f = "\<lambda>r. r\<lparr>j_status := Queued, j_attempts := 0, j_run_at := now,
          j_last_error := None, j_locked_at := None, j_locked_by := None, j_updated_at := now\<rparr>"
  show ?thesis
  proof (cases "List.find ?hit (qs_jobs s)")
    case None
    then have "update_where ?hit ?f (qs_jobs s) = qs_jobs s"
      by (intro update_where_none) (simp add: find_None_iff)
    with None inv clock queue_inv_idle show ?thesis by (simp add: replay_dead_job_def Let_def)
  next
    case (Some d)
    let ?rep = "(qs_replays s)(jid := Suc (qs_replays s jid))"
    from find_SomeD [OF Some] have d: "d \<in> set (qs_jobs s)" "j_id d = jid" "j_status d = Dead" by auto
    have "row_inv now (qs_issued s) ?rep (if ?hit r then ?f r else r)" if r: "r \<in> set (qs_jobs s)" for r
    proof -
      have ri: "row_inv (qs_clock s) (qs_issued s) (qs_replays s) r"
        using inv r by (simp add: queue_inv_def)
      show ?thesis
      proof (cases "j_id r = jid")
        case True
        with inv r d have "r = d" by (auto simp: queue_inv_def intro: distinct_map_inj)
        have "\<forall>(i, t) \<in> set (qs_issued s). t \<le> qs_clock s"
          using inv by (auto simp: queue_inv_def)
        from row_inv_replay [OF ri _ clock this] d \<open>r = d\<close> show ?thesis by simp
      next
        case False
        with ri clock show ?thesis by (auto intro: row_inv_other_replay row_inv_clock)
      qed
    qed
    moreover have ids: "map j_id (update_where ?hit ?f (qs_jobs s)) = map j_id (qs_jobs s)"
      by (rule update_where_keys) simp
    moreover have "map j_dedupe_key (update_where ?hit ?f (qs_jobs s)) = map j_dedupe_key (qs_jobs s)"
      by (rule update_where_keys) simp
    moreover have "j_id ` set (update_where ?hit ?f (qs_jobs s)) = j_id ` set (qs_jobs s)"
      using ids by (metis set_map)
    ultimately show ?thesis
      using inv clock Some
      by (force simp: queue_inv_def dedupe_keys_def replay_dead_job_def Let_def set_update_where)
  qed
qed

lemma apply_op_inv:
  assumes "queue_inv s" and "op_guard op now s"
  shows "queue_inv (apply_op op now s)"
proof (cases op)
  case (Op_fail job err)
  have "snd (fail job err now (qs_jobs s)) = update_where (fence job) (release_row now err) (qs_jobs s)"
    by (simp add: fail_def release_def)
  moreover have "qs_clock s \<le> now" using assms by (simp add: op_guard_def)
  ultimately show ?thesis
    using queue_inv_release [OF assms(1), of now "fence job" err] Op_fail by (simp add: fence_def)
next
  case (Op_reclaim secs)
  moreover have "qs_clock s \<le> now" using assms by (simp add: op_guard_def)
  ultimately show ?thesis
    using queue_inv_release [OF assms(1), of now "lease_expired secs now" "''lease expired''"]
    by (simp add: reclaim_expired_leases_def release_def lease_expired_def)
qed (use assms in \<open>simp_all add: op_guard_def queue_inv_enqueue queue_inv_claim queue_inv_complete
      queue_inv_replay del: apply_op.simps\<close>)

lemma queue_reachable_inv: "queue_reachable s \<Longrightarrow> queue_inv s"
proof (induction rule: queue_reachable.induct)
  case queue_start
  show ?case by (simp add: queue_inv_def init_queue_def dedupe_keys_def)
next
  case (queue_step s op now)
  then show ?case by (simp add: apply_op_inv)
qed

section \<open>Consequences\<close>

lemma queue_inv_row: "queue_inv s \<Longrightarrow> r \<in> set (qs_jobs s) \<Longrightarrow>
   row_inv (qs_clock s) (qs_issued s) (qs_replays s) r"
  by (simp add: queue_inv_def)

lemma superseded_lease_not_held:
  assumes "queue_inv s" and "(job_id job, u) \<in> set (qs_issued s)" and "job_lease job < u"
  shows "\<not> list_ex (fence job) (qs_jobs s)"
proof
  assume "list_ex (fence job) (qs_jobs s)"
  then obtain r where r: "r \<in> set (qs_jobs s)" "fence job r" by (auto simp: list_ex_iff)
  from queue_inv_row [OF assms(1) r(1)] r(2) assms(2) have "u \<le> job_lease job"
    by (auto simp: row_inv_def lease_ok_def fence_def)
  with assms(3) show False by simp
qed

lemma released_lease_not_held:
  assumes "queue_inv s" and "\<forall>r \<in> set (qs_jobs s). j_id r = job_id job \<longrightarrow> j_status r \<noteq> Running"
  shows "\<not> list_ex (fence job) (qs_jobs s)"
  using assms(2) by (auto simp: list_ex_iff fence_def)

section \<open>Properties\<close>

text \<open>An enqueued job claimed at 0, its lease expired and swept 301 s later, and claimed again at 304 s.\<close>

definition reclaimed_queue :: queue_sys where
  "reclaimed_queue = apply_op (Op_claim ''worker_b'' None (\<lambda>_. False)) (seconds 304)
     (apply_op (Op_reclaim DEFAULT_LEASE_SECONDS) (seconds 301)
       (apply_op (Op_claim ''worker_a'' None (\<lambda>_. False)) 0
         (apply_op (Op_enqueue ''job_1'' (JObj []) AGENT_TURN_JOB_TYPE None None 3) 0 init_queue)))"

definition stale_job :: job where
  "stale_job = \<lparr>job_id = ''job_1'', job_type = AGENT_TURN_JOB_TYPE, job_payload = JObj [],
     job_attempts = 1, job_max_attempts = 3, job_lease = 0\<rparr>"

lemma reclaimed_queue_reachable: "queue_reachable reclaimed_queue"
  unfolding reclaimed_queue_def
  by (intro queue_step queue_start)
     (simp_all add: op_guard_def init_queue_def enqueue_def insert_job_def as_payload_def exn_simps claim_def
       due_for_def claimable_def reclaim_expired_leases_def release_def seconds_def split: option.splits prod.splits)

text \<open>C2.  In every state the queue's operations can reach, a worker whose job was claimed
  again after it can neither complete nor fail it: both raise \<^verbatim>\<open>LeaseLost\<close> and change no row.\<close>

theorem superseded_worker_fenced_off:
  assumes "queue_reachable s" and "(job_id job, u) \<in> set (qs_issued s)" and "job_lease job < u"
  shows "complete job now (qs_jobs s) = (Inl lease_lost, qs_jobs s)
    \<and> fail job err now (qs_jobs s) = (Inl lease_lost, qs_jobs s)"
  using superseded_lease_not_held [OF queue_reachable_inv [OF assms(1)] assms(2,3)]
  by (simp add: complete_not_held fail_not_held)

theorem superseded_worker_fenced_off_witness:
  "complete stale_job (seconds 305) (qs_jobs reclaimed_queue) = (Inl lease_lost, qs_jobs reclaimed_queue)
   \<and> fail stale_job ''late'' (seconds 305) (qs_jobs reclaimed_queue) = (Inl lease_lost, qs_jobs reclaimed_queue)
   \<and> qs_jobs reclaimed_queue \<noteq> []"
proof -
  have "(job_id stale_job, seconds 304) \<in> set (qs_issued reclaimed_queue)" "job_lease stale_job < seconds 304"
    "qs_jobs reclaimed_queue \<noteq> []"
    by (simp_all add: reclaimed_queue_def stale_job_def init_queue_def enqueue_def insert_job_def as_payload_def
        exn_simps claim_def due_for_def claimable_def reclaim_expired_leases_def release_def seconds_def
        lease_expired_def DEFAULT_LEASE_SECONDS_def update_where_def release_row_def BACKOFF_BASE_def)
  with superseded_worker_fenced_off [OF reclaimed_queue_reachable, of stale_job "seconds 304" "seconds 305" "''late''"]
  show ?thesis by simp
qed

text \<open>C7.  In every reachable state the job ids are unique, no two rows share a dedupe key, and
  every row is in a state its lifecycle allows: queued rows were never tried, running rows hold a
  lease of the past, failed rows have attempts left, dead rows have none, and none of the last three
  holds a lease.\<close>

theorem queue_stays_consistent:
  assumes "queue_reachable s"
  shows "distinct (map j_id (qs_jobs s)) \<and> distinct (dedupe_keys (qs_jobs s))
    \<and> (\<forall>r \<in> set (qs_jobs s). row_ok (qs_clock s) r)"
  using queue_reachable_inv [OF assms] by (auto simp: queue_inv_def row_inv_def)

theorem queue_stays_consistent_witness:
  "distinct (map j_id (qs_jobs reclaimed_queue)) \<and> list_all (row_ok (qs_clock reclaimed_queue)) (qs_jobs reclaimed_queue)"
  using queue_stays_consistent [OF reclaimed_queue_reachable] by (simp add: list_all_iff)

text \<open>C6.  A job is never claimed more often than its attempts allow: \<open>max_attempts\<close> times, and as
  often again per governed replay.\<close>

theorem claims_bounded:
  assumes "queue_reachable s" and "r \<in> set (qs_jobs s)"
  shows "int (claims_of (j_id r) (qs_issued s)) \<le> j_max_attempts r * (1 + int (qs_replays s (j_id r)))"
proof -
  from queue_inv_row [OF queue_reachable_inv [OF assms(1)] assms(2)]
  have "int (claims_of (j_id r) (qs_issued s)) \<le> j_attempts r + int (qs_replays s (j_id r)) * j_max_attempts r"
    and "j_attempts r \<le> j_max_attempts r"
    by (auto simp: row_inv_def claims_ok_def row_ok_def split: job_status.splits)
  then show ?thesis by (simp add: algebra_simps)
qed

theorem claims_bounded_witness:
  "\<exists>r \<in> set (qs_jobs reclaimed_queue). int (claims_of (j_id r) (qs_issued reclaimed_queue))
     \<le> j_max_attempts r * (1 + int (qs_replays reclaimed_queue (j_id r)))"
proof -
  have "qs_jobs reclaimed_queue \<noteq> []"
    by (simp add: reclaimed_queue_def init_queue_def enqueue_def insert_job_def as_payload_def exn_simps claim_def
        due_for_def claimable_def reclaim_expired_leases_def release_def seconds_def lease_expired_def
        DEFAULT_LEASE_SECONDS_def update_where_def release_row_def BACKOFF_BASE_def)
  then have "hd (qs_jobs reclaimed_queue) \<in> set (qs_jobs reclaimed_queue)" by simp
  from claims_bounded [OF reclaimed_queue_reachable this] this show ?thesis by blast
qed

end
