(* ===== verification/Worker.thy ===== *)
theory Worker
  imports TurnRunner JobLifecycle
begin

text \<open>
  The two queue consumers: \<^verbatim>\<open>hermes_runtime/turn_worker.py\<close> and
  \<^verbatim>\<open>hermes_runtime/background_worker.py\<close>.  One poll (\<^verbatim>\<open>run_once\<close>) is written against the queue object
  it is given; a call of a queue operation acts on the world and may raise (a Postgres outage).  The
  locale \<open>leased_queue\<close> is what the workers rely on, and the Postgres queue interprets it.
\<close>

section \<open>The queue object\<close>

record 'w queue_api =
  q_reclaim :: "int \<Rightarrow> 'w \<Rightarrow> (exn + string list) \<times> 'w"
  q_claim :: "string \<Rightarrow> string list option \<Rightarrow> 'w \<Rightarrow> (exn + job option) \<times> 'w"
  q_complete :: "job \<Rightarrow> 'w \<Rightarrow> (exn + unit) \<times> 'w"
  q_fail :: "job \<Rightarrow> string \<Rightarrow> 'w \<Rightarrow> (exn + unit) \<times> 'w"
  q_tick :: "schedule list \<Rightarrow> 'w \<Rightarrow> (exn + string list) \<times> 'w"

fun is_lease_lost :: "exn \<Rightarrow> bool" where
  "is_lease_lost (PyError n m) = (n = ''LeaseLost'')"
| "is_lease_lost _ = False"

section \<open>turn_worker.py\<close>

text \<open>
  \<^verbatim>\<open>_run_turn\<close>: the two payload keys, then the shared job body.  A payload value that is no text
  reaches a query that compares it with a \<^verbatim>\<open>TEXT\<close> column, which Postgres refuses.
\<close>

definition payload_text :: "dict \<Rightarrow> string \<Rightarrow> exn + string" where
  "payload_text d key =
     (case map_of d key of
        None \<Rightarrow> Inl (PyError ''KeyError'' (repr_str key))
      | Some (JStr s) \<Rightarrow> Inr s
      | Some _ \<Rightarrow> Inl (PyError ''UndefinedFunction'' ''operator does not exist''))"

definition run_turn_job ::
  "(string \<Rightarrow> 'w \<Rightarrow> (exn + turn_context option) \<times> 'w)
     \<Rightarrow> (string \<Rightarrow> 'w \<Rightarrow> (exn + string option) \<times> 'w)
     \<Rightarrow> (turn_context \<Rightarrow> string \<Rightarrow> string option \<Rightarrow> 'w \<Rightarrow> (exn + unit) \<times> 'w) option
     \<Rightarrow> job \<Rightarrow> 'w \<Rightarrow> (exn + job_outcome) \<times> 'w" where
  "run_turn_job load_context load_inbound_body turn_runner job w =
     (let d = (case job_payload job of JObj d \<Rightarrow> d | _ \<Rightarrow> []) in
      case ebind (payload_text d ''event_id'') (\<lambda>ev.
           ebind (payload_text d ''conversation_id'') (\<lambda>c.
           Inr \<lparr>jp_event_id = ev, jp_conversation_id = c\<rparr>)) of
        Inl x \<Rightarrow> (Inl x, w)
      | Inr payload \<Rightarrow>
          execute_agent_turn_job load_context load_inbound_body turn_runner payload
            (Some (job_id job)) w)"

text \<open>\<^verbatim>\<open>_fail\<close> and the guarded \<^verbatim>\<open>queue.complete\<close>: only \<^verbatim>\<open>LeaseLost\<close> is swallowed.\<close>

definition swallow_lease_lost :: "(exn + unit) \<times> 'w \<Rightarrow> (exn + unit) \<times> 'w" where
  "swallow_lease_lost p =
     (case p of
        (Inl x, w) \<Rightarrow> (if is_lease_lost x then Inr () else Inl x, w)
      | (Inr u, w) \<Rightarrow> (Inr u, w))"

definition settle :: "'w queue_api \<Rightarrow> job \<Rightarrow> string option \<Rightarrow> 'w \<Rightarrow> (exn + job option) \<times> 'w" where
  "settle queue job err w =
     (case swallow_lease_lost (case err of None \<Rightarrow> q_complete queue job w
                               | Some e \<Rightarrow> q_fail queue job e w) of
        (Inl x, w1) \<Rightarrow> (Inl x, w1)
      | (Inr _, w1) \<Rightarrow> (Inr (Some job), w1))"

text \<open>\<^verbatim>\<open>run_once\<close> of the turn worker; \<open>body\<close> is \<^verbatim>\<open>_run_turn\<close> with its store and turn runner.\<close>

definition turn_run_once ::
  "'w queue_api \<Rightarrow> (job \<Rightarrow> 'w \<Rightarrow> (exn + job_outcome) \<times> 'w) \<Rightarrow> string \<Rightarrow> int \<Rightarrow> 'w
     \<Rightarrow> (exn + job option) \<times> 'w" where
  "turn_run_once queue body worker lease_seconds w =
     (case q_reclaim queue lease_seconds w of
        (Inl x, w1) \<Rightarrow> (Inl x, w1)
      | (Inr _, w1) \<Rightarrow>
          (case q_claim queue worker (Some [AGENT_TURN_JOB_TYPE]) w1 of
             (Inl x, w2) \<Rightarrow> (Inl x, w2)
           | (Inr None, w2) \<Rightarrow> (Inr None, w2)
           | (Inr (Some job), w2) \<Rightarrow>
               (case body job w2 of
                  (Inl exc, w3) \<Rightarrow> settle queue job (Some (exn_text exc)) w3
                | (Inr outcome, w3) \<Rightarrow>
                    (if outcome \<noteq> Completed
                     then settle queue job (Some (job_outcome_value outcome)) w3
                     else settle queue job None w3))))"

text \<open>
  The poll loop, in milliseconds.  \<^verbatim>\<open>POLL_SECONDS * 2**n\<close> multiplies a float by an int, and the
  conversion of \<^verbatim>\<open>2**1024\<close> to a float raises.
\<close>

definition TURN_POLL_MS :: int where
  "TURN_POLL_MS = 250"

definition TURN_MAX_ERROR_BACKOFF_MS :: int where
  "TURN_MAX_ERROR_BACKOFF_MS = 30000"

definition error_backoff_ms :: "int \<Rightarrow> int \<Rightarrow> nat \<Rightarrow> exn + int" where
  "error_backoff_ms poll cap consecutive_failures =
     (if consecutive_failures \<ge> 1024
      then Inl (PyError ''OverflowError'' ''int too large to convert to float'')
      else Inr (min (poll * 2 ^ consecutive_failures) cap))"

text \<open>
  \<^verbatim>\<open>poll_forever\<close>: \<open>stop i\<close> is \<^verbatim>\<open>should_stop()\<close> before poll \<open>i\<close>, \<open>once i\<close> the poll, the list the sleeps.
  \<open>None\<close> means the fuel ran out before the loop ended.
\<close>

fun poll_loop ::
  "int \<Rightarrow> int \<Rightarrow> (nat \<Rightarrow> bool) \<Rightarrow> (nat \<Rightarrow> 'w \<Rightarrow> (exn + job option) \<times> 'w) \<Rightarrow> nat \<Rightarrow> nat \<Rightarrow> nat \<Rightarrow> 'w
     \<Rightarrow> ((exn + unit) \<times> int list \<times> 'w) option" where
  "poll_loop poll cap stop once 0 i failures w = None"
| "poll_loop poll cap stop once (Suc fuel) i failures w =
     (if stop i then Some (Inr (), [], w)
      else case once i w of
        (Inl _, w1) \<Rightarrow>
          (case error_backoff_ms poll cap (failures + 1) of
             Inl x \<Rightarrow> Some (Inl x, [], w1)
           | Inr delay \<Rightarrow>
               map_option (\<lambda>(r, ss, v). (r, delay # ss, v))
                 (poll_loop poll cap stop once fuel (Suc i) (failures + 1) w1))
      | (Inr None, w1) \<Rightarrow>
          map_option (\<lambda>(r, ss, v). (r, poll # ss, v)) (poll_loop poll cap stop once fuel (Suc i) 0 w1)
      | (Inr (Some _), w1) \<Rightarrow> poll_loop poll cap stop once fuel (Suc i) 0 w1)"

definition turn_poll_forever ::
  "(nat \<Rightarrow> bool) \<Rightarrow> (nat \<Rightarrow> 'w \<Rightarrow> (exn + job option) \<times> 'w) \<Rightarrow> nat \<Rightarrow> 'w
     \<Rightarrow> ((exn + unit) \<times> int list \<times> 'w) option" where
  "turn_poll_forever stop once fuel w =
     poll_loop TURN_POLL_MS TURN_MAX_ERROR_BACKOFF_MS stop once fuel 0 0 w"

section \<open>background_worker.py\<close>

definition BACKGROUND_JOB_TYPES :: "string list" where
  "BACKGROUND_JOB_TYPES = [L6_REVIEW_JOB_TYPE, RETENTION_JOB_TYPE, INGEST_JOB_TYPE,
     INTEGRATION_PROBE_JOB_TYPE, HONORED_RATE_JOB_TYPE]"

definition BACKGROUND_POLL_MS :: int where
  "BACKGROUND_POLL_MS = 5000"

definition BACKGROUND_MAX_ERROR_BACKOFF_MS :: int where
  "BACKGROUND_MAX_ERROR_BACKOFF_MS = 60000"

definition RETENTION_INTERVAL_SECONDS :: int where
  "RETENTION_INTERVAL_SECONDS = 24 * 60 * 60"

definition INTEGRATION_PROBE_INTERVAL_SECONDS :: int where
  "INTEGRATION_PROBE_INTERVAL_SECONDS = 15 * 60"

definition HONORED_RATE_INTERVAL_SECONDS :: int where
  "HONORED_RATE_INTERVAL_SECONDS = 24 * 60 * 60"

definition SCHEDULES :: "schedule list" where
  "SCHEDULES =
     [\<lparr>sch_job_type = RETENTION_JOB_TYPE, sch_interval_seconds = RETENTION_INTERVAL_SECONDS\<rparr>,
      \<lparr>sch_job_type = INTEGRATION_PROBE_JOB_TYPE,
       sch_interval_seconds = INTEGRATION_PROBE_INTERVAL_SECONDS\<rparr>,
      \<lparr>sch_job_type = HONORED_RATE_JOB_TYPE, sch_interval_seconds = HONORED_RATE_INTERVAL_SECONDS\<rparr>]"

text \<open>
  \<^verbatim>\<open>_require_l6_writable\<close>: the flag as this process reads it, and what resolving the review
  model's configuration gives (the message of its \<^verbatim>\<open>ValueError\<close>).
\<close>

definition require_l6_writable :: "bool \<Rightarrow> string option \<Rightarrow> exn + unit" where
  "require_l6_writable experience_enabled openrouter_error =
     (if \<not> experience_enabled
      then Inl (PyError ''L6ReviewMisconfigured''
        (''AGENT_EXPERIENCE_LEARNING is off on this worker but an l6_review job '' @
         ''was enqueued; the fork would write nothing''))
      else case openrouter_error of
        None \<Rightarrow> Inr ()
      | Some m \<Rightarrow> Inl (PyError ''L6ReviewMisconfigured''
          (''the l6_review fork has no review model on this worker: '' @ m)))"

definition run_ingest ::
  "json \<Rightarrow> (json \<Rightarrow> 'w \<Rightarrow> (exn + unit) \<times> 'w) \<Rightarrow> dict \<Rightarrow> 'w \<Rightarrow> (exn + unit) \<times> 'w" where
  "run_ingest corpus_env ingest payload w =
     (let corpus_path = or_else (get payload ''corpus_path'') corpus_env in
      if \<not> truthy corpus_path
      then (Inl (PyError ''RuntimeError''
             (''no corpus artifact to ingest: set INGEST_CORPUS_PATH on the '' @
              ''background worker (see hermes_runtime.knowledge.ingest)'')), w)
      else ingest corpus_path w)"

type_synonym 'w job_body = "dict \<Rightarrow> 'w \<Rightarrow> (exn + unit) \<times> 'w"

definition job_bodies ::
  "bool \<Rightarrow> string option \<Rightarrow> json \<Rightarrow> 'w job_body \<Rightarrow> 'w job_body \<Rightarrow> (json \<Rightarrow> 'w \<Rightarrow> (exn + unit) \<times> 'w)
     \<Rightarrow> 'w job_body \<Rightarrow> 'w job_body \<Rightarrow> (string \<times> 'w job_body) list" where
  "job_bodies experience_enabled openrouter_error corpus_env l6_review retention ingest probe honored =
     [(L6_REVIEW_JOB_TYPE, \<lambda>payload w.
         case require_l6_writable experience_enabled openrouter_error of
           Inl x \<Rightarrow> (Inl x, w) | Inr _ \<Rightarrow> l6_review payload w),
      (RETENTION_JOB_TYPE, retention),
      (INGEST_JOB_TYPE, run_ingest corpus_env ingest),
      (INTEGRATION_PROBE_JOB_TYPE, probe),
      (HONORED_RATE_JOB_TYPE, honored)]"

definition background_run_once ::
  "'w queue_api \<Rightarrow> (string \<times> 'w job_body) list \<Rightarrow> string \<Rightarrow> schedule list \<Rightarrow> int \<Rightarrow> 'w
     \<Rightarrow> (exn + job option) \<times> 'w" where
  "background_run_once queue bodies worker schedules lease_seconds w =
     (case q_reclaim queue lease_seconds w of
        (Inl x, w1) \<Rightarrow> (Inl x, w1)
      | (Inr _, w1) \<Rightarrow>
          (case q_tick queue schedules w1 of
             (Inl x, w2) \<Rightarrow> (Inl x, w2)
           | (Inr _, w2) \<Rightarrow>
               (case q_claim queue worker (Some BACKGROUND_JOB_TYPES) w2 of
                  (Inl x, w3) \<Rightarrow> (Inl x, w3)
                | (Inr None, w3) \<Rightarrow> (Inr None, w3)
                | (Inr (Some job), w3) \<Rightarrow>
                    (case map_of bodies (job_type job) of
                       None \<Rightarrow> settle queue job
                                 (Some (''no handler for job type '' @ job_type job)) w3
                     | Some body \<Rightarrow>
                         (case body (case job_payload job of JObj d \<Rightarrow> d | _ \<Rightarrow> []) w3 of
                            (Inl exc, w4) \<Rightarrow> settle queue job (Some (exn_text exc)) w4
                          | (Inr _, w4) \<Rightarrow> settle queue job None w4)))))"

definition background_poll_forever ::
  "(nat \<Rightarrow> bool) \<Rightarrow> (nat \<Rightarrow> 'w \<Rightarrow> (exn + job option) \<times> 'w) \<Rightarrow> nat \<Rightarrow> 'w
     \<Rightarrow> ((exn + unit) \<times> int list \<times> 'w) option" where
  "background_poll_forever stop once fuel w =
     poll_loop BACKGROUND_POLL_MS BACKGROUND_MAX_ERROR_BACKOFF_MS stop once fuel 0 0 w"

section \<open>What the workers rely on\<close>

text \<open>
  \<open>holds w job\<close>: the job's row is running under the lease the job was claimed with.
\<close>

locale leased_queue =
  fixes queue :: "'w queue_api"
    and holds :: "'w \<Rightarrow> job \<Rightarrow> bool"
  assumes claim_some: "q_claim queue wk (Some ts) w = (Inr (Some jb), w') \<Longrightarrow>
      job_type jb \<in> set ts \<and> holds w' jb"
    and complete_ok: "q_complete queue jb w = (Inr u, w') \<Longrightarrow> \<not> holds w' jb"
    and complete_lost: "q_complete queue jb w = (Inl x, w') \<Longrightarrow> is_lease_lost x \<Longrightarrow>
      w' = w \<and> \<not> holds w jb"
    and fail_ok: "q_fail queue jb err w = (Inr u, w') \<Longrightarrow> \<not> holds w' jb"
    and fail_lost: "q_fail queue jb err w = (Inl x, w') \<Longrightarrow> is_lease_lost x \<Longrightarrow>
      w' = w \<and> \<not> holds w jb"
begin

lemma settle_releases:
  assumes "settle queue jb err w = (Inr res, w')"
  shows "res = Some jb \<and> \<not> holds w' jb"
proof (cases err)
  case None
  obtain r1 w1 where c: "q_complete queue jb w = (r1, w1)" by force
  with None assms show ?thesis
    using complete_ok [of jb w _ w1] complete_lost [of jb w _ w1]
    by (cases r1) (auto simp: settle_def swallow_lease_lost_def split: if_splits)
next
  case (Some e)
  obtain r1 w1 where c: "q_fail queue jb e w = (r1, w1)" by force
  with Some assms show ?thesis
    using fail_ok [of jb e w _ w1] fail_lost [of jb e w _ w1]
    by (cases r1) (auto simp: settle_def swallow_lease_lost_def split: if_splits)
qed

lemma turn_run_once_releases:
  assumes "turn_run_once queue body worker ls w = (Inr (Some jb), w')"
  shows "job_type jb = AGENT_TURN_JOB_TYPE \<and> \<not> holds w' jb"
proof -
  obtain r0 w1 where 0: "q_reclaim queue ls w = (r0, w1)" by force
  obtain r1 w2 where 1: "q_claim queue worker (Some [AGENT_TURN_JOB_TYPE]) w1 = (r1, w2)" by force
  from assms 0 1 obtain j where j: "r1 = Inr (Some j)"
    by (cases r0; cases r1) (auto simp: turn_run_once_def split: option.splits)
  obtain r2 w3 where 2: "body j w2 = (r2, w3)" by force
  from assms 0 1 2 j have "\<exists>err. settle queue j err w3 = (Inr (Some jb), w')"
    by (cases r0; cases r2) (auto simp: turn_run_once_def split: if_splits)
  then obtain err where "settle queue j err w3 = (Inr (Some jb), w')" by blast
  from settle_releases [OF this] claim_some [OF 1 [unfolded j]] show ?thesis by auto
qed

lemma background_run_once_releases:
  assumes "background_run_once queue bodies worker schedules ls w = (Inr (Some jb), w')"
  shows "job_type jb \<in> set BACKGROUND_JOB_TYPES \<and> \<not> holds w' jb"
proof -
  obtain r0 w1 where 0: "q_reclaim queue ls w = (r0, w1)" by force
  obtain rt w2 where t: "q_tick queue schedules w1 = (rt, w2)" by force
  obtain r1 w3 where 1: "q_claim queue worker (Some BACKGROUND_JOB_TYPES) w2 = (r1, w3)" by force
  from assms 0 t 1 obtain j where j: "r1 = Inr (Some j)"
    by (cases r0; cases rt; cases r1) (auto simp: background_run_once_def split: option.splits)
  from assms 0 t 1 j have "\<exists>err w4. settle queue j err w4 = (Inr (Some jb), w')"
    by (cases r0; cases rt) (auto simp: background_run_once_def split: option.splits sum.splits prod.splits)
  then obtain err w4 where "settle queue j err w4 = (Inr (Some jb), w')" by blast
  from settle_releases [OF this] claim_some [OF 1 [unfolded j]] show ?thesis by auto
qed

end

section \<open>The Postgres queue\<close>

text \<open>
  The world is the \<^verbatim>\<open>job\<close> table and everything else.  One poll reads the clock four times: at the
  sweep, the tick, the claim and the settlement.
\<close>

record 'e world =
  w_jobs :: "job_row list"
  w_env :: 'e

record poll_clock =
  pk_sweep :: int
  pk_tick :: int
  pk_moment :: int
  pk_claim :: int
  pk_settle :: int

definition pg_queue ::
  "poll_clock \<Rightarrow> (nat \<Rightarrow> string) \<Rightarrow> (string \<Rightarrow> bool) \<Rightarrow> 'e world queue_api" where
  "pg_queue clock ids skip =
     \<lparr>q_reclaim = (\<lambda>lease_seconds w.
        (case reclaim_expired_leases lease_seconds (pk_sweep clock) (w_jobs w) of
           (released, jobs) \<Rightarrow> (Inr released, w\<lparr>w_jobs := jobs\<rparr>))),
      q_claim = (\<lambda>worker types w.
        (case claim worker types skip (pk_claim clock) (w_jobs w) of
           (job, jobs) \<Rightarrow> (Inr job, w\<lparr>w_jobs := jobs\<rparr>))),
      q_complete = (\<lambda>job w.
        (case complete job (pk_settle clock) (w_jobs w) of (res, jobs) \<Rightarrow> (res, w\<lparr>w_jobs := jobs\<rparr>))),
      q_fail = (\<lambda>job err w.
        (case fail job err (pk_settle clock) (w_jobs w) of (res, jobs) \<Rightarrow> (res, w\<lparr>w_jobs := jobs\<rparr>))),
      q_tick = (\<lambda>schedules w.
        (case tick_schedules ids (pk_tick clock) (pk_moment clock) schedules (w_jobs w) of
           (res, jobs) \<Rightarrow> (res, w\<lparr>w_jobs := jobs\<rparr>)))\<rparr>"

definition lease_held :: "'e world \<Rightarrow> job \<Rightarrow> bool" where
  "lease_held w jb \<longleftrightarrow> list_ex (fence jb) (w_jobs w)"

lemma fence_cleared:
  "(\<And>r. fence jb r \<Longrightarrow> j_locked_at (f r) = None) \<Longrightarrow> \<not> list_ex (fence jb) (update_where (fence jb) f jobs)"
  by (auto simp: list_ex_iff set_update_where fence_def)

lemma claim_holds:
  assumes "claim wk ts skip now jobs = (Some jb, jobs')"
  shows "list_ex (fence jb) jobs'"
proof -
  from claim_SomeD [OF assms] obtain r where r: "r \<in> set jobs" and j: "job_id jb = j_id r" "job_lease jb = now"
    and u: "jobs' = update_where (\<lambda>q. j_id q = j_id r)
        (\<lambda>q. q\<lparr>j_status := Running, j_attempts := j_attempts q + 1, j_locked_at := Some now,
               j_locked_by := Some wk, j_updated_at := now\<rparr>) jobs" by auto
  have "r\<lparr>j_status := Running, j_attempts := j_attempts r + 1, j_locked_at := Some now,
          j_locked_by := Some wk, j_updated_at := now\<rparr> \<in> set jobs'"
    unfolding u set_update_where using r by auto
  then show ?thesis unfolding list_ex_iff by (rule bexI [rotated]) (use j in \<open>simp add: fence_def\<close>)
qed

lemma claim_type: "claim wk (Some ts) skip now jobs = (Some jb, jobs') \<Longrightarrow> job_type jb \<in> set ts"
  by (drule claim_SomeD) (auto simp: due_for_def)

lemma world_same [simp]: "w\<lparr>w_jobs := w_jobs w\<rparr> = w"
  by simp

interpretation pgq: leased_queue "pg_queue clock ids skip" lease_held
proof unfold_locales
  fix wk ts w jb w'
  assume "q_claim (pg_queue clock ids skip) wk (Some ts) w = (Inr (Some jb), w')"
  then obtain jobs where "claim wk (Some ts) skip (pk_claim clock) (w_jobs w) = (Some jb, jobs)"
      "w' = w\<lparr>w_jobs := jobs\<rparr>" by (auto simp: pg_queue_def split: prod.splits)
  with claim_holds claim_type show "job_type jb \<in> set ts \<and> lease_held w' jb"
    by (auto simp: lease_held_def)
next
  fix jb w u w'
  assume c: "q_complete (pg_queue clock ids skip) jb w = (Inr u, w')"
  then have "list_ex (fence jb) (w_jobs w)"
    using complete_not_held [of jb "w_jobs w" "pk_settle clock"]
    by (cases "list_ex (fence jb) (w_jobs w)") (auto simp: pg_queue_def)
  with c show "\<not> lease_held w' jb"
    by (auto simp: pg_queue_def complete_held lease_held_def fence_cleared)
next
  fix jb w x w'
  assume c: "q_complete (pg_queue clock ids skip) jb w = (Inl x, w')"
  then have "\<not> list_ex (fence jb) (w_jobs w)"
    using complete_held [of jb "w_jobs w" "pk_settle clock"]
    by (cases "list_ex (fence jb) (w_jobs w)") (auto simp: pg_queue_def)
  with c show "w' = w \<and> \<not> lease_held w jb"
    by (auto simp: pg_queue_def complete_not_held lease_held_def)
next
  fix jb err w u w'
  assume c: "q_fail (pg_queue clock ids skip) jb err w = (Inr u, w')"
  then have "list_ex (fence jb) (w_jobs w)"
    using fail_not_held [of jb "w_jobs w" err "pk_settle clock"]
    by (cases "list_ex (fence jb) (w_jobs w)") (auto simp: pg_queue_def)
  with c show "\<not> lease_held w' jb"
    by (auto simp: pg_queue_def fail_held lease_held_def fence_cleared)
next
  fix jb err w x w'
  assume c: "q_fail (pg_queue clock ids skip) jb err w = (Inl x, w')"
  then have "\<not> list_ex (fence jb) (w_jobs w)"
    using fail_held [of jb "w_jobs w" err "pk_settle clock"]
    by (cases "list_ex (fence jb) (w_jobs w)") (auto simp: pg_queue_def)
  with c show "w' = w \<and> \<not> lease_held w jb"
    by (auto simp: pg_queue_def fail_not_held lease_held_def)
qed

section \<open>What a poll leaves behind\<close>

text \<open>
  The row of a job held under its lease, after the worker has settled it: succeeded, or released
  with a backoff, or dead once the attempts are spent.
\<close>

definition settled_row :: "int \<Rightarrow> string option \<Rightarrow> job_row \<Rightarrow> job_row" where
  "settled_row now err r =
     (case err of
        None \<Rightarrow> r\<lparr>j_status := Succeeded, j_locked_at := None, j_locked_by := None,
                  j_last_error := None, j_updated_at := now\<rparr>
      | Some e \<Rightarrow> release_row now e r)"

lemma settle_pg:
  "settle (pg_queue clock ids skip) jb err w =
     (Inr (Some jb), w\<lparr>w_jobs := update_where (fence jb) (settled_row (pk_settle clock) err) (w_jobs w)\<rparr>)"
proof (cases "list_ex (fence jb) (w_jobs w)")
  case True
  then show ?thesis
    by (cases err) (simp_all add: settle_def swallow_lease_lost_def pg_queue_def complete_held fail_held
        settled_row_def [abs_def])
next
  case False
  moreover from False have "update_where (fence jb) (settled_row (pk_settle clock) err) (w_jobs w) = w_jobs w"
    by (intro update_where_none) (auto simp: list_ex_iff)
  ultimately show ?thesis
    by (cases err) (simp_all add: settle_def swallow_lease_lost_def pg_queue_def complete_not_held
        fail_not_held lease_lost_def)
qed

text \<open>How the turn worker reads the result of the job body.\<close>

fun turn_error :: "exn + job_outcome \<Rightarrow> string option" where
  "turn_error (Inl exc) = Some (exn_text exc)"
| "turn_error (Inr outcome) = (if outcome \<noteq> Completed then Some (job_outcome_value outcome) else None)"

text \<open>
  One poll of the turn worker on Postgres is a sweep, a claim, the body and one fenced update; no
  exception of the body leaves it.
\<close>

lemma turn_run_once_pg:
  "turn_run_once (pg_queue clock ids skip) body worker ls w =
     (let jobs1 = snd (reclaim_expired_leases ls (pk_sweep clock) (w_jobs w));
          (claimed, jobs2) = claim worker (Some [AGENT_TURN_JOB_TYPE]) skip (pk_claim clock) jobs1 in
      case claimed of
        None \<Rightarrow> (Inr None, w\<lparr>w_jobs := jobs2\<rparr>)
      | Some jb \<Rightarrow>
          (let (res, w3) = body jb (w\<lparr>w_jobs := jobs2\<rparr>) in
           (Inr (Some jb), w3\<lparr>w_jobs := update_where (fence jb)
              (settled_row (pk_settle clock) (turn_error res)) (w_jobs w3)\<rparr>)))"
proof -
  obtain rel jobs1 where 1: "reclaim_expired_leases ls (pk_sweep clock) (w_jobs w) = (rel, jobs1)"
    by force
  obtain cl jobs2 where 2: "claim worker (Some [AGENT_TURN_JOB_TYPE]) skip (pk_claim clock) jobs1
      = (cl, jobs2)" by force
  have q: "q_reclaim (pg_queue clock ids skip) ls w = (Inr rel, w\<lparr>w_jobs := jobs1\<rparr>)"
    "q_claim (pg_queue clock ids skip) worker (Some [AGENT_TURN_JOB_TYPE]) (w\<lparr>w_jobs := jobs1\<rparr>)
      = (Inr cl, w\<lparr>w_jobs := jobs2\<rparr>)"
    using 1 2 by (simp_all add: pg_queue_def)
  show ?thesis
  proof (cases cl)
    case None
    with q 1 2 show ?thesis by (simp add: turn_run_once_def)
  next
    case (Some jb)
    obtain res w3 where b: "body jb (w\<lparr>w_jobs := jobs2\<rparr>) = (res, w3)" by force
    show ?thesis
      by (cases res) (simp_all add: turn_run_once_def q Some 1 2 b settle_pg)
  qed
qed

lemma turn_run_once_row:
  assumes run: "turn_run_once (pg_queue clock ids skip) body worker ls w = (Inr (Some jb), w')"
    and own: "\<And>j v. w_jobs (snd (body j v)) = w_jobs v"
    and "r' \<in> set (w_jobs w')" "j_id r' = job_id jb" "distinct (map j_id (w_jobs w))"
  shows "\<exists>v. lease_held v jb
      \<and> j_status r' = (case turn_error (fst (body jb v)) of None \<Rightarrow> Succeeded
             | Some _ \<Rightarrow> (if job_attempts jb \<ge> job_max_attempts jb then Dead else Failed))
      \<and> j_last_error r' = turn_error (fst (body jb v))
      \<and> j_locked_at r' = None
      \<and> (j_status r' = Failed \<longrightarrow>
           j_run_at r' = pk_settle clock + seconds (BACKOFF_BASE ^ nat (job_attempts jb)))"
proof -
  define jobs1 where "jobs1 = snd (reclaim_expired_leases ls (pk_sweep clock) (w_jobs w))"
  have d1: "map j_id jobs1 = map j_id (w_jobs w)"
    by (simp add: jobs1_def reclaim_expired_leases_def release_def update_where_keys)
  obtain cl jobs2 where c: "claim worker (Some [AGENT_TURN_JOB_TYPE]) skip (pk_claim clock) jobs1
      = (cl, jobs2)" by force
  from run c have cl: "cl = Some jb"
    by (cases cl) (simp_all add: turn_run_once_pg Let_def jobs1_def [symmetric] split: prod.splits)
  let ?v = "w\<lparr>w_jobs := jobs2\<rparr>"
  have h: "lease_held ?v jb" using claim_holds [OF c [unfolded cl]] by (simp add: lease_held_def)
  obtain res w3 where b: "body jb ?v = (res, w3)" by force
  have j3: "w_jobs w3 = jobs2" using own [of jb ?v] b by simp
  from run c cl b have w': "w_jobs w' = update_where (fence jb)
      (settled_row (pk_settle clock) (turn_error res)) jobs2"
    by (auto simp: turn_run_once_pg Let_def jobs1_def [symmetric] j3 [symmetric])
  from claim_SomeD [OF c [unfolded cl]] obtain r where r: "r \<in> set jobs1"
    and jb: "jb = \<lparr>job_id = j_id r, job_type = j_type r, job_payload = j_payload r,
        job_attempts = j_attempts r + 1, job_max_attempts = j_max_attempts r, job_lease = pk_claim clock\<rparr>"
    and j2: "jobs2 = update_where (\<lambda>q. j_id q = j_id r)
        (\<lambda>q. q\<lparr>j_status := Running, j_attempts := j_attempts q + 1, j_locked_at := Some (pk_claim clock),
               j_locked_by := Some worker, j_updated_at := pk_claim clock\<rparr>) jobs1" by blast
  from assms(3) w' obtain q where q: "q \<in> set jobs2"
    and r': "r' = (if fence jb q then settled_row (pk_settle clock) (turn_error res) q else q)"
    by (auto simp: set_update_where)
  have sid: "j_id (settled_row n e x) = j_id x" for n e x
    by (cases e) (simp_all add: settled_row_def)
  from r' assms(4) have qid: "j_id q = j_id r" by (simp add: sid jb split: if_splits)
  from q j2 obtain p where p: "p \<in> set jobs1"
    and qp: "q = (if j_id p = j_id r then p\<lparr>j_status := Running, j_attempts := j_attempts p + 1,
       j_locked_at := Some (pk_claim clock), j_locked_by := Some worker,
       j_updated_at := pk_claim clock\<rparr> else p)"
    by (auto simp: set_update_where)
  have pid: "j_id p = j_id r" using qp qid by (simp split: if_splits)
  have "p = r" using distinct_map_inj [of j_id jobs1 p r] assms(5) d1 p r pid by simp
  with qp have f: "fence jb q" and at: "j_attempts q = job_attempts jb" "j_max_attempts q = job_max_attempts jb"
    by (simp_all add: fence_def jb)
  from r' f have r'': "r' = settled_row (pk_settle clock) (turn_error res) q" by simp
  show ?thesis
    by (rule exI [of _ ?v])
      (use r'' at b h in \<open>cases "turn_error res"; simp add: settled_row_def release_row_def\<close>)
qed

section \<open>The poll loop\<close>

lemma error_backoff_ms_Inr: "error_backoff_ms p c n = Inr d \<Longrightarrow> n < 1024 \<and> d \<le> c"
  by (auto simp: error_backoff_ms_def split: if_splits)

text \<open>Fewer than 1024 polls before the stop: the loop ends normally, whatever fails.\<close>

lemma poll_loop_survives:
  assumes "stop (i + n)" and "k + n < 1024"
  shows "\<exists>ss v. poll_loop p c stop once (Suc n) i k w = Some (Inr (), ss, v)"
  using assms
proof (induction n arbitrary: i k w)
  case 0
  then show ?case by simp
next
  case (Suc n)
  show ?case
  proof (cases "stop i")
    case True
    then show ?thesis by simp
  next
    case False
    obtain res w1 where o: "once i w = (res, w1)" by force
    have IH: "\<exists>ss v. poll_loop p c stop once (Suc n) (Suc i) k' w1 = Some (Inr (), ss, v)"
      if "k' \<le> Suc k" for k'
      using Suc.prems that by (intro Suc.IH) auto
    have b: "error_backoff_ms p c (k + 1) = Inr (min (p * 2 ^ (k + 1)) c)"
      using Suc.prems by (simp add: error_backoff_ms_def)
    show ?thesis
    proof (cases res)
      case (Inl x)
      from IH [of "k + 1"] obtain ss v
        where "poll_loop p c stop once (Suc n) (Suc i) (k + 1) w1 = Some (Inr (), ss, v)" by auto
      with False o Inl b show ?thesis by (subst poll_loop.simps(2)) simp
    next
      case (Inr jo)
      from IH [of 0] obtain ss v
        where "poll_loop p c stop once (Suc n) (Suc i) 0 w1 = Some (Inr (), ss, v)" by auto
      with False o Inr show ?thesis
        by (subst poll_loop.simps(2)) (simp split: option.split)
    qed
  qed
qed

text \<open>An outage of 1024 polls in a row ends the loop with the overflow of its own backoff.\<close>

lemma poll_loop_dies:
  assumes "\<And>j. \<not> stop j" and "\<And>j v. \<exists>x v'. once j v = (Inl x, v')" and "n + k = 1023"
  shows "\<exists>ss v. poll_loop p c stop once (Suc n) i k w =
    Some (Inl (PyError ''OverflowError'' ''int too large to convert to float''), ss, v) \<and> length ss = n"
  using assms(3)
proof (induction n arbitrary: i k w)
  case 0
  obtain x w1 where "once i w = (Inl x, w1)" using assms(2) by blast
  with 0 assms(1) show ?case by (simp add: error_backoff_ms_def)
next
  case (Suc n)
  obtain x w1 where o: "once i w = (Inl x, w1)" using assms(2) by blast
  have b: "error_backoff_ms p c (k + 1) = Inr (min (p * 2 ^ (k + 1)) c)"
    using Suc.prems by (simp add: error_backoff_ms_def)
  from Suc.IH [of "k + 1" "Suc i" w1] Suc.prems obtain ss v
    where "poll_loop p c stop once (Suc n) (Suc i) (k + 1) w1 =
      Some (Inl (PyError ''OverflowError'' ''int too large to convert to float''), ss, v)" "length ss = n"
    by auto
  with o b assms(1) show ?case by (subst poll_loop.simps(2)) simp
qed

lemma poll_loop_sleeps:
  assumes "poll_loop p c stop once fuel i k w = Some (r, ss, v)" and "0 \<le> p" and "p \<le> c"
  shows "\<forall>d \<in> set ss. d \<le> c"
  using assms
proof (induction fuel arbitrary: i k w r ss v)
  case (Suc fuel)
  obtain res w1 where o: "once i w = (res, w1)" by force
  show ?case
  proof (cases "stop i")
    case False
    show ?thesis
    proof (cases res)
      case (Inl x)
      show ?thesis
      proof (cases "error_backoff_ms p c (k + 1)")
        case (Inr d)
        from Suc.prems False o Inl Inr obtain ss1
          where "poll_loop p c stop once fuel (Suc i) (k + 1) w1 = Some (r, ss1, v)" "ss = d # ss1"
          by auto
        with Suc.IH [of "Suc i" "k + 1" w1 r ss1 v] Suc.prems error_backoff_ms_Inr [OF Inr]
        show ?thesis by auto
      qed (use Suc.prems False o Inl in auto)
    next
      case (Inr jo)
      with Suc.prems False o obtain ss1 where
        "poll_loop p c stop once fuel (Suc i) 0 w1 = Some (r, ss1, v)" "ss = ss1 \<or> ss = p # ss1"
        by (cases jo) auto
      with Suc.IH [of "Suc i" 0 w1 r ss1 v] Suc.prems show ?thesis by auto
    qed
  qed (use Suc.prems in auto)
qed simp

section \<open>The schedules\<close>

lemma schedules_positive: "s \<in> set SCHEDULES \<Longrightarrow> 0 < sch_interval_seconds s"
  by (auto simp: SCHEDULES_def RETENTION_INTERVAL_SECONDS_def INTEGRATION_PROBE_INTERVAL_SECONDS_def
      HONORED_RATE_INTERVAL_SECONDS_def)

lemma background_types_exclude_turns: "AGENT_TURN_JOB_TYPE \<notin> set BACKGROUND_JOB_TYPES"
  by (simp add: BACKGROUND_JOB_TYPES_def AGENT_TURN_JOB_TYPE_def L6_REVIEW_JOB_TYPE_def
      RETENTION_JOB_TYPE_def INGEST_JOB_TYPE_def INTEGRATION_PROBE_JOB_TYPE_def HONORED_RATE_JOB_TYPE_def)

section \<open>Properties\<close>

text \<open>Ticking the schedules enqueues each of them at most once per window: a second tick in
  the same windows, by whichever worker, creates nothing.\<close>

theorem tick_once_per_window:
  assumes "tick_schedules ids now moment SCHEDULES jobs = (Inr created, jobs')"
    and "\<forall>s \<in> set SCHEDULES. moment2 div sch_interval_seconds s = moment div sch_interval_seconds s"
  shows "tick_schedules ids2 now2 moment2 SCHEDULES jobs' = (Inr [], jobs')"
proof (rule tick_schedules_covered_noop, rule ballI)
  fix s assume s: "s \<in> set SCHEDULES"
  from tick_schedules_covers [OF assms(1) s] assms(2) s schedules_positive [OF s]
  show "covered moment2 jobs' s \<and> sch_interval_seconds s \<noteq> 0" by (simp add: covered_def)
qed

theorem tick_once_per_window_witness:
  "\<exists>jobs'. tick_schedules (\<lambda>n. replicate (n + 1) CHR ''a'') 7 100 SCHEDULES [] = (Inr [''a'', ''aa'', ''aaa''], jobs')
     \<and> tick_schedules (\<lambda>n. replicate (n + 1) CHR ''b'') 9 200 SCHEDULES jobs' = (Inr [], jobs')"
proof -
  obtain jobs' where t: "tick_schedules (\<lambda>n. replicate (n + 1) CHR ''a'') 7 100 SCHEDULES []
      = (Inr [''a'', ''aa'', ''aaa''], jobs')"
    by (simp add: SCHEDULES_def insert_job_def as_payload_def exn_simps schedule_key_def
        RETENTION_INTERVAL_SECONDS_def INTEGRATION_PROBE_INTERVAL_SECONDS_def HONORED_RATE_INTERVAL_SECONDS_def
        RETENTION_JOB_TYPE_def INTEGRATION_PROBE_JOB_TYPE_def HONORED_RATE_JOB_TYPE_def)
  show ?thesis
    by (intro exI conjI, rule t, rule tick_once_per_window [OF t])
      (simp add: SCHEDULES_def RETENTION_INTERVAL_SECONDS_def INTEGRATION_PROBE_INTERVAL_SECONDS_def
        HONORED_RATE_INTERVAL_SECONDS_def)
qed

text \<open>When a worker's poll on the Postgres queue returns a job, the job is of the worker's own
  types (the turn worker's never a background job, nor the reverse), and the worker no longer holds
  its lease, whatever the body did.\<close>

theorem workers_release_and_stay_apart:
  "(case turn_run_once (pg_queue clock ids skip) body worker ls w of
      (Inr (Some jb), w') \<Rightarrow> job_type jb = AGENT_TURN_JOB_TYPE \<and> job_type jb \<notin> set BACKGROUND_JOB_TYPES
        \<and> \<not> lease_held w' jb
    | _ \<Rightarrow> True)
   \<and> (case background_run_once (pg_queue clock ids skip) bodies worker schedules ls w of
      (Inr (Some jb), w') \<Rightarrow> job_type jb \<in> set BACKGROUND_JOB_TYPES \<and> job_type jb \<noteq> AGENT_TURN_JOB_TYPE
        \<and> \<not> lease_held w' jb
    | _ \<Rightarrow> True)"
proof
  show "case turn_run_once (pg_queue clock ids skip) body worker ls w of
      (Inr (Some jb), w') \<Rightarrow> job_type jb = AGENT_TURN_JOB_TYPE \<and> job_type jb \<notin> set BACKGROUND_JOB_TYPES
        \<and> \<not> lease_held w' jb
    | _ \<Rightarrow> True"
    using pgq.turn_run_once_releases [of clock ids skip body worker ls w] background_types_exclude_turns
    by (auto split: prod.splits sum.splits option.splits)
next
  show "case background_run_once (pg_queue clock ids skip) bodies worker schedules ls w of
      (Inr (Some jb), w') \<Rightarrow> job_type jb \<in> set BACKGROUND_JOB_TYPES \<and> job_type jb \<noteq> AGENT_TURN_JOB_TYPE
        \<and> \<not> lease_held w' jb
    | _ \<Rightarrow> True"
    using pgq.background_run_once_releases [of clock ids skip bodies worker schedules ls w]
      background_types_exclude_turns
    by (auto split: prod.splits sum.splits option.splits)
qed


text \<open>After a poll of the turn worker that returned a job, the job's row says what the turn,
  run while the lease was held, came to: succeeded when it completed; otherwise the error or the outcome, and the row is dead when
  the attempts are spent and else due again after the exponential backoff.\<close>

theorem turn_settles_its_row:
  assumes "turn_run_once (pg_queue clock ids skip) body worker ls w = (Inr (Some jb), w')"
    and "\<And>j v. w_jobs (snd (body j v)) = w_jobs v"
    and "r' \<in> set (w_jobs w')" and "j_id r' = job_id jb" and "distinct (map j_id (w_jobs w))"
  shows "\<exists>v. lease_held v jb
      \<and> j_status r' = (case turn_error (fst (body jb v)) of None \<Rightarrow> Succeeded
             | Some _ \<Rightarrow> (if job_attempts jb \<ge> job_max_attempts jb then Dead else Failed))
      \<and> j_last_error r' = turn_error (fst (body jb v))
      \<and> j_locked_at r' = None
      \<and> (j_status r' = Failed \<longrightarrow>
           j_run_at r' = pk_settle clock + seconds (BACKOFF_BASE ^ nat (job_attempts jb)))"
  by (rule turn_run_once_row [OF assms])

text \<open>A queued agent turn whose context is missing.\<close>

definition queued_turn :: "unit world" where
  "queued_turn = \<lparr>w_jobs = [\<lparr>j_id = ''job_1'', j_type = AGENT_TURN_JOB_TYPE, j_payload = JObj [], j_status = Queued,
     j_attempts = 0, j_max_attempts = 3, j_run_at = 0, j_locked_at = None, j_locked_by = None,
     j_last_error = None, j_dedupe_key = None, j_created_at = 0, j_updated_at = 0\<rparr>], w_env = ()\<rparr>"

theorem turn_settles_its_row_witness:
  "\<exists>jb w'. turn_run_once (pg_queue \<lparr>pk_sweep = 1, pk_tick = 1, pk_moment = 1, pk_claim = 2, pk_settle = 3\<rparr> (\<lambda>_. '''') (\<lambda>_. False))
       (\<lambda>j v. (Inr Context_not_found, v)) ''w'' 300 queued_turn = (Inr (Some jb), w')
     \<and> j_status (hd (w_jobs w')) = Failed \<and> j_last_error (hd (w_jobs w')) = Some ''context_not_found''
     \<and> j_run_at (hd (w_jobs w')) = 3 + seconds 2"
proof -
  let ?q = "pg_queue \<lparr>pk_sweep = 1, pk_tick = 1, pk_moment = 1, pk_claim = 2, pk_settle = 3\<rparr> (\<lambda>_. '''') (\<lambda>_. False)"
  let ?b = "\<lambda>(j :: job) (v :: unit world). (Inr Context_not_found, v)"
  let ?j = "\<lparr>job_id = ''job_1'', job_type = AGENT_TURN_JOB_TYPE, job_payload = JObj [], job_attempts = 1,
    job_max_attempts = 3, job_lease = 2\<rparr>"
  obtain w' where t: "turn_run_once ?q ?b ''w'' 300 queued_turn = (Inr (Some ?j), w')"
    and r: "hd (w_jobs w') \<in> set (w_jobs w')" "j_id (hd (w_jobs w')) = job_id ?j"
    by (simp add: turn_run_once_pg queued_turn_def reclaim_expired_leases_def release_def claim_def due_for_def
        claimable_def update_where_def lease_expired_def fence_def settled_row_def release_row_def)
  have d: "distinct (map j_id (w_jobs queued_turn))" by (simp add: queued_turn_def)
  from turn_settles_its_row [OF t _ r d]
  have "j_status (hd (w_jobs w')) = Failed \<and> j_last_error (hd (w_jobs w')) = Some ''context_not_found''
     \<and> j_run_at (hd (w_jobs w')) = 3 + seconds 2"
    by (auto simp: BACKOFF_BASE_def)
  with t show ?thesis by blast
qed

text \<open>C26.  A poll loop that is asked to stop within its first 1024 polls returns normally, whatever the
  polls raise; but when 1024 polls in a row fail the loop ends with the \<^verbatim>\<open>OverflowError\<close> of its own
  backoff after 1023 sleeps.  For both workers.\<close>

theorem outage_bound:
  "(n < 1024 \<and> stop n \<longrightarrow>
      (\<exists>ss v. turn_poll_forever stop once (Suc n) w = Some (Inr (), ss, v))
      \<and> (\<exists>ss v. background_poll_forever stop once (Suc n) w = Some (Inr (), ss, v)))
   \<and> ((\<forall>j. \<not> stop j) \<and> (\<forall>j v. \<exists>x v'. once j v = (Inl x, v')) \<longrightarrow>
      (\<exists>ss v. turn_poll_forever stop once 1024 w =
          Some (Inl (PyError ''OverflowError'' ''int too large to convert to float''), ss, v) \<and> length ss = 1023)
      \<and> (\<exists>ss v. background_poll_forever stop once 1024 w =
          Some (Inl (PyError ''OverflowError'' ''int too large to convert to float''), ss, v) \<and> length ss = 1023))"
proof (intro conjI impI)
  assume "n < 1024 \<and> stop n"
  then show "\<exists>ss v. turn_poll_forever stop once (Suc n) w = Some (Inr (), ss, v)"
    and "\<exists>ss v. background_poll_forever stop once (Suc n) w = Some (Inr (), ss, v)"
    unfolding turn_poll_forever_def background_poll_forever_def by (intro poll_loop_survives; simp)+
next
  have n: "Suc 1023 = 1024" by simp
  assume "(\<forall>j. \<not> stop j) \<and> (\<forall>j v. \<exists>x v'. once j v = (Inl x, v'))"
  then show "\<exists>ss v. turn_poll_forever stop once 1024 w =
          Some (Inl (PyError ''OverflowError'' ''int too large to convert to float''), ss, v) \<and> length ss = 1023"
    and "\<exists>ss v. background_poll_forever stop once 1024 w =
          Some (Inl (PyError ''OverflowError'' ''int too large to convert to float''), ss, v) \<and> length ss = 1023"
    unfolding turn_poll_forever_def background_poll_forever_def n [symmetric] by (intro poll_loop_dies; simp)+
qed

theorem outage_bound_witness:
  "(\<exists>ss v. turn_poll_forever (\<lambda>_. False) (\<lambda>_ n. (Inl (PyError ''OperationalError'' ''down''), Suc n)) 1024 0 =
      Some (Inl (PyError ''OverflowError'' ''int too large to convert to float''), ss, v) \<and> length ss = 1023)
   \<and> (\<exists>ss v. turn_poll_forever (\<lambda>n. n = 3) (\<lambda>_ n. (Inl (PyError ''OperationalError'' ''down''), Suc n)) 4 0 =
      Some (Inr (), ss, v))"
  using outage_bound [of 0 "\<lambda>_. False" "\<lambda>_ n. (Inl (PyError ''OperationalError'' ''down''), Suc n)" 0]
    outage_bound [of 3 "\<lambda>n. n = 3" "\<lambda>_ n. (Inl (PyError ''OperationalError'' ''down''), Suc n)" 0]
  by (simp del: poll_loop.simps)

end
