(* ===== verification/Datastore.thy ===== *)
theory Datastore
  imports JobQueue Outbound Dispatch
begin

text \<open>
  The Toee Business Datastore: the tables of \<^verbatim>\<open>hermes-runtime/migrations\<close> that the modelled code reads
  or writes, a connection with its uncommitted work, \<^verbatim>\<open>PostgresDriver\<close> (\<^verbatim>\<open>datastore/driver.py\<close>) and
  the helpers of \<^verbatim>\<open>datastore/handlers/_common.py\<close>.  Timestamps are microseconds since the epoch and
  the session's time zone is UTC; \<^verbatim>\<open>now()\<close> and the \<^verbatim>\<open>uuid4\<close> draws of a call are its environment.
\<close>

section \<open>ISO 8601 rendering\<close>

definition civil_of_days :: "int \<Rightarrow> int \<times> int \<times> int" where
  "civil_of_days days =
     (let z = days + 719468; era = z div 146097; doe = z mod 146097;
          yoe = (doe - doe div 1460 + doe div 36524 - doe div 146096) div 365;
          doy = doe - (365 * yoe + yoe div 4 - yoe div 100);
          mp = (5 * doy + 2) div 153;
          d = doy - (153 * mp + 2) div 5 + 1;
          m = (if mp < 10 then mp + 3 else mp - 9)
      in (yoe + era * 400 + (if m \<le> 2 then 1 else 0), m, d))"

definition pad :: "nat \<Rightarrow> int \<Rightarrow> string" where
  "pad width n = (let s = show_int n in replicate (width - length s) CHR ''0'' @ s)"

definition isoformat :: "int \<Rightarrow> string" where
  "isoformat t =
     (let us = t mod 1000000; secs = t div 1000000; day = secs div 86400; r = secs mod 86400;
          (y, m, d) = civil_of_days day in
      pad 4 y @ ''-'' @ pad 2 m @ ''-'' @ pad 2 d @ ''T'' @ pad 2 (r div 3600) @ '':''
      @ pad 2 (r mod 3600 div 60) @ '':'' @ pad 2 (r mod 60)
      @ (if us = 0 then [] else ''.'' @ pad 6 us) @ ''+00:00'')"

definition time_json :: "int \<Rightarrow> json" where
  "time_json t = JStr (isoformat t)"

definition opt_time :: "int option \<Rightarrow> json" where
  "opt_time t = (case t of None \<Rightarrow> JNull | Some x \<Rightarrow> time_json x)"

section \<open>Tables\<close>

record thread_row =
  t_id :: string
  t_channel :: string
  t_channel_identity :: string
  t_shopify_customer_id :: "string option"
  t_created_at :: int
  t_updated_at :: int
  t_last_interaction_at :: int

record session_row =
  ss_id :: string
  ss_customer_thread_id :: string
  ss_opened_at :: int
  ss_expires_at :: int
  ss_created_at :: int

record turn_row =
  m_id :: string
  m_sms_session_id :: string
  m_customer_thread_id :: string
  m_direction :: string
  m_author :: string
  m_body :: string
  m_auto_handled :: bool
  m_created_at :: int

record context_row =
  x_id :: string
  x_event_id :: string
  x_customer_thread_id :: string
  x_sms_session_id :: string
  x_inbound_message_turn_id :: string
  x_created_at :: int

record snapshot_row =
  n_id :: string
  n_event_id :: string
  n_channel :: string
  n_channel_identity :: string
  n_match_result :: json
  n_captured_at :: int

record slot_row =
  p_id :: string
  p_binding_key :: string
  p_binding_kind :: string
  p_slot_name :: string
  p_slot_value :: string
  p_source :: string
  p_evidence :: "string option"
  p_actor_account_id :: "string option"
  p_created_at :: int
  p_updated_at :: int
  p_last_interaction_at :: int

record merge_row =
  g_id :: string
  g_provisional_key :: string
  g_verified_key :: string
  g_details :: json
  g_created_at :: int

record case_row =
  c_id :: string
  c_channel :: string
  c_customer_thread_id :: "string option"
  c_sms_session_id :: "string option"
  c_contact_reason :: "string option"
  c_urgency :: "string option"
  c_status :: string
  c_summary :: "string option"
  c_assignee_account_id :: "string option"
  c_resolved_by_account_id :: "string option"
  c_tool_failure :: bool
  c_opened_at :: int
  c_last_activity_at :: int
  c_resolved_at :: "int option"
  c_created_at :: int

record audit_row =
  a_id :: string
  a_account_id :: "string option"
  a_profile :: string
  a_action :: string
  a_target_type :: "string option"
  a_target_id :: "string option"
  a_details :: json
  a_created_at :: int

record account_row =
  ac_id :: string
  ac_username :: string
  ac_password_hash :: string
  ac_role :: string
  ac_status :: string
  ac_created_at :: int
  ac_updated_at :: int
  ac_last_login_at :: "int option"
  ac_failed_attempts :: int
  ac_locked_until :: "int option"

record experience_row =
  e_id :: string
  e_kind :: string
  e_status :: string
  e_content :: string
  e_source :: string
  e_proposer_context :: json
  e_decider_account_id :: "string option"
  e_decided_at :: "int option"
  e_created_at :: int
  e_updated_at :: int

record metric_row =
  me_id :: string
  me_metric :: string
  me_flag :: bool
  me_created_at :: int

record link_row =
  l_id :: string
  l_channel :: string
  l_channel_identity :: string
  l_shopify_customer_id :: "string option"
  l_match_status :: string

record eval_run_row =
  v_id :: string
  v_report :: dict
  v_signed_off :: bool
  v_promoted :: bool
  v_slot_key :: "string option"

record policy_slot_row =
  y_slot_id :: string
  y_title :: string
  y_status :: string
  y_draft_text :: "string option"
  y_published_text :: "string option"
  y_owner :: "string option"
  y_review_date :: "string option"
  y_has_gap_prompt :: bool
  y_sort_order :: int
  y_updated_at :: int

record policy_history_row =
  h_id :: string
  h_slot_id :: string
  h_published_text :: string
  h_archived_at :: int

record probe_row =
  q_integration_key :: string
  q_status :: string
  q_reason :: "string option"
  q_checked_at :: int

record honored_row =
  o_honored_count :: int
  o_sample_size :: int
  o_undetermined_count :: int
  o_candidate_total :: int
  o_window_seconds :: int
  o_computed_at :: int

record db =
  db_threads :: "thread_row list"
  db_sessions :: "session_row list"
  db_turns :: "turn_row list"
  db_contexts :: "context_row list"
  db_snapshots :: "snapshot_row list"
  db_claims :: "string list"
  db_slots :: "slot_row list"
  db_merges :: "merge_row list"
  db_cases :: "case_row list"
  db_audit :: "audit_row list"
  db_accounts :: "account_row list"
  db_experience :: "experience_row list"
  db_metrics :: "metric_row list"
  db_links :: "link_row list"
  db_jobs :: "job_row list"
  db_sends :: "send_row list"
  db_eval_runs :: "eval_run_row list"
  db_policy_slots :: "policy_slot_row list"
  db_policy_history :: "policy_history_row list"
  db_probes :: "probe_row list"
  db_honored :: "honored_row list"

definition empty_db :: db where
  "empty_db = \<lparr>db_threads = [], db_sessions = [], db_turns = [], db_contexts = [], db_snapshots = [],
     db_claims = [], db_slots = [], db_merges = [], db_cases = [], db_audit = [], db_accounts = [],
     db_experience = [], db_metrics = [], db_links = [], db_jobs = [], db_sends = [],
     db_eval_runs = [], db_policy_slots = [], db_policy_history = [], db_probes = [], db_honored = []\<rparr>"

section \<open>Connections and the driver\<close>

text \<open>What the connection has committed, and that with its open transaction applied.\<close>

record conn =
  cn_committed :: db
  cn_work :: db

definition commit :: "conn \<Rightarrow> conn" where
  "commit c = c\<lparr>cn_committed := cn_work c\<rparr>"

definition rollback :: "conn \<Rightarrow> conn" where
  "rollback c = c\<lparr>cn_work := cn_committed c\<rparr>"

text \<open>\<open>ee_hex i\<close> is the \<open>i\<close>-th \<^verbatim>\<open>uuid4().hex\<close> of the call, \<open>ee_now\<close> its transaction's \<^verbatim>\<open>now()\<close>.\<close>

record exec_env =
  ee_now :: int
  ee_hex :: "nat \<Rightarrow> string"

type_synonym db_handler = "exec_env \<Rightarrow> dict \<Rightarrow> ctx \<Rightarrow> conn \<Rightarrow> (exn + json) \<times> conn"

type_synonym datastore_registry = "(string \<times> (string \<times> db_handler) list) list"

text \<open>A handler that leaves committing to the driver is a function on the open transaction.\<close>

definition on_work :: "(exec_env \<Rightarrow> dict \<Rightarrow> ctx \<Rightarrow> db \<Rightarrow> (exn + json) \<times> db) \<Rightarrow> db_handler" where
  "on_work h ex params context c =
     (let (res, w) = h ex params context (cn_work c) in (res, c\<lparr>cn_work := w\<rparr>))"

definition postgres_execute ::
  "datastore_registry \<Rightarrow> exec_env \<Rightarrow> request \<Rightarrow> ctx \<Rightarrow> db \<Rightarrow> (exn + json) \<times> db" where
  "postgres_execute registry ex request context d =
     (case map_of registry (rq_tool request) of
        None \<Rightarrow> (Inl (ToolDriverError Configuration_missing
                   (''No datastore handler registered for tool '' @ char_of (39 :: nat) # rq_tool request
                      @ [char_of (39 :: nat), CHR ''.''])), d)
      | Some actions \<Rightarrow>
          (case map_of actions (rq_action request) of
             None \<Rightarrow> (Inl (ToolDriverError Configuration_missing
                        (''No datastore handler for '' @ char_of (39 :: nat) # rq_tool request @ ''.''
                           @ rq_action request @ [char_of (39 :: nat), CHR ''.''])), d)
           | Some handler \<Rightarrow>
               (case handler ex (rq_params request) context \<lparr>cn_committed = d, cn_work = d\<rparr> of
                  (Inr result, c) \<Rightarrow> (Inr result, cn_committed (commit c))
                | (Inl e, c) \<Rightarrow> (Inl e, cn_work (rollback c)))))"

definition postgres_driver :: "datastore_registry \<Rightarrow> exec_env \<Rightarrow> db driver" where
  "postgres_driver registry ex = \<lparr>kind = ''datastore'', exec = postgres_execute registry ex\<rparr>"

text \<open>A handler's outcome, with its work kept only for a result.\<close>

definition as_handler :: "db \<Rightarrow> exn + json \<times> db \<Rightarrow> (exn + json) \<times> db" where
  "as_handler d r = (case r of Inl e \<Rightarrow> (Inl e, d) | Inr (j, d') \<Rightarrow> (Inr j, d'))"

section \<open>Shared helpers\<close>

definition new_id :: "string \<Rightarrow> exec_env \<Rightarrow> nat \<Rightarrow> string" where
  "new_id prefix ex i = prefix @ ''_'' @ ee_hex ex i"

text \<open>An \<^verbatim>\<open>INSERT\<close> without \<^verbatim>\<open>ON CONFLICT\<close>: a taken primary key raises.\<close>

definition pk_insert :: "('r \<Rightarrow> string) \<Rightarrow> 'r \<Rightarrow> 'r list \<Rightarrow> exn + 'r list" where
  "pk_insert key r rows =
     (if key r \<in> key ` set rows
      then Inl (PyError ''UniqueViolation'' ''duplicate key value violates unique constraint'')
      else Inr (rows @ [r]))"

definition METRIC_SELF_SERVICE_USAGE :: string where
  "METRIC_SELF_SERVICE_USAGE = ''self_service_usage''"

definition METRIC_L6_CONFIRMED :: string where
  "METRIC_L6_CONFIRMED = ''l6_confirmed_entries''"

definition insert_metric_event :: "exec_env \<Rightarrow> nat \<Rightarrow> string \<Rightarrow> bool \<Rightarrow> db \<Rightarrow> exn + db" where
  "insert_metric_event ex i metric flag d =
     ebind (pk_insert me_id \<lparr>me_id = new_id ''metric'' ex i, me_metric = metric, me_flag = flag,
              me_created_at = ee_now ex\<rparr> (db_metrics d)) (\<lambda>rows.
     Inr (d\<lparr>db_metrics := rows\<rparr>))"

definition insert_audit ::
  "exec_env \<Rightarrow> nat \<Rightarrow> string \<Rightarrow> string option \<Rightarrow> string \<Rightarrow> string option \<Rightarrow> string option \<Rightarrow> dict
     \<Rightarrow> db \<Rightarrow> exn + db" where
  "insert_audit ex i prof account_id act target_type target_id details d =
     ebind (pk_insert a_id \<lparr>a_id = new_id ''audit'' ex i, a_account_id = account_id,
              a_profile = prof, a_action = act, a_target_type = target_type,
              a_target_id = target_id, a_details = JObj details, a_created_at = ee_now ex\<rparr>
              (db_audit d)) (\<lambda>rows.
     Inr (d\<lparr>db_audit := rows\<rparr>))"

text \<open>A job that carries the profile and the actor of the click, and the audit row of the click.\<close>

definition queue_with_audit ::
  "exec_env \<Rightarrow> ctx \<Rightarrow> string \<Rightarrow> int \<Rightarrow> string \<Rightarrow> string \<Rightarrow> db \<Rightarrow> exn + json \<times> db" where
  "queue_with_audit ex context jtype max_attempts act target d =
     ebind (insert_job (new_id ''job'' ex 0) (ee_now ex)
       (JObj [(''profile'', JStr (profile context)), (''actor_account_id'', opt_str (user_id context))])
       jtype None None max_attempts (db_jobs d)) (\<lambda>((job_id, created), jobs).
     ebind (insert_audit ex 1 (profile context) (user_id context) act (Some target) (Some job_id)
       [(''job_id'', JStr job_id)] (d\<lparr>db_jobs := jobs\<rparr>)) (\<lambda>d'.
     Inr (JObj [(''job_id'', JStr job_id), (''status'', JStr ''queued'')], d')))"

text \<open>\<^verbatim>\<open>PostgresDriver.record_audit\<close>: one row in a unit of work of its own.\<close>

definition record_audit ::
  "exec_env \<Rightarrow> string \<Rightarrow> string option \<Rightarrow> string \<Rightarrow> string option \<Rightarrow> string option \<Rightarrow> dict
     \<Rightarrow> db \<Rightarrow> (exn + string) \<times> db" where
  "record_audit ex prof account_id act target_type target_id details d =
     (case insert_audit ex 0 prof account_id act target_type target_id details d of
        Inl e \<Rightarrow> (Inl e, d)
      | Inr d' \<Rightarrow> (Inr (new_id ''audit'' ex 0), d'))"

definition EMAIL_CHANNELS :: "string list" where
  "EMAIL_CHANNELS = [''email'', ''simulated_email'']"

definition customer_thread_id :: "string \<Rightarrow> string \<Rightarrow> string" where
  "customer_thread_id channel from_identity =
     ''customer_thread:'' @ (if channel \<in> set EMAIL_CHANNELS then ''email'' else ''sms'')
       @ '':'' @ from_identity"

text \<open>The JSON-safe form of a row: \<^verbatim>\<open>SELECT *\<close> through \<^verbatim>\<open>dict_row\<close> and \<^verbatim>\<open>serialize_row\<close>.\<close>

definition case_json :: "case_row \<Rightarrow> dict" where
  "case_json r = [(''id'', JStr (c_id r)), (''channel'', JStr (c_channel r)),
     (''customer_thread_id'', opt_str (c_customer_thread_id r)),
     (''sms_session_id'', opt_str (c_sms_session_id r)),
     (''contact_reason'', opt_str (c_contact_reason r)), (''urgency'', opt_str (c_urgency r)),
     (''status'', JStr (c_status r)), (''summary'', opt_str (c_summary r)),
     (''assignee_account_id'', opt_str (c_assignee_account_id r)),
     (''resolved_by_account_id'', opt_str (c_resolved_by_account_id r)),
     (''tool_failure'', JBool (c_tool_failure r)), (''opened_at'', time_json (c_opened_at r)),
     (''last_activity_at'', time_json (c_last_activity_at r)),
     (''resolved_at'', opt_time (c_resolved_at r)), (''created_at'', time_json (c_created_at r))]"

definition audit_json :: "audit_row \<Rightarrow> dict" where
  "audit_json r = [(''id'', JStr (a_id r)), (''account_id'', opt_str (a_account_id r)),
     (''profile'', JStr (a_profile r)), (''action'', JStr (a_action r)),
     (''target_type'', opt_str (a_target_type r)), (''target_id'', opt_str (a_target_id r)),
     (''details'', a_details r), (''created_at'', time_json (a_created_at r))]"

text \<open>\<^verbatim>\<open>LEFT JOIN workbench_account acct ON acct.id = a.account_id\<close>, column \<^verbatim>\<open>acct.username\<close>.\<close>

definition actor_username :: "account_row list \<Rightarrow> string option \<Rightarrow> json" where
  "actor_username accounts account_id =
     (case account_id of
        None \<Rightarrow> JNull
      | Some i \<Rightarrow> opt_str (map_option ac_username (List.find (\<lambda>r. ac_id r = i) accounts)))"

text \<open>\<^verbatim>\<open>ORDER BY k ASC\<close> and \<^verbatim>\<open>ORDER BY k DESC\<close>, ties in table order.\<close>

fun insort_desc :: "('r \<Rightarrow> int) \<Rightarrow> 'r \<Rightarrow> 'r list \<Rightarrow> 'r list" where
  "insort_desc k x [] = [x]"
| "insort_desc k x (y # ys) = (if k x \<ge> k y then x # y # ys else y # insort_desc k x ys)"

definition order_desc :: "('r \<Rightarrow> int) \<Rightarrow> 'r list \<Rightarrow> 'r list" where
  "order_desc k rows = foldr (insort_desc k) rows []"

definition order_asc :: "('r \<Rightarrow> int) \<Rightarrow> 'r list \<Rightarrow> 'r list" where
  "order_asc k rows = sort_key k rows"

section \<open>Lemmas\<close>

lemma set_insort_desc [simp]: "set (insort_desc k x ys) = insert x (set ys)"
  by (induction ys) auto

lemma set_order_desc [simp]: "set (order_desc k rows) = set rows"
  by (induction rows) (auto simp: order_desc_def)

lemma insort_desc_sorted:
  "sorted_wrt (\<lambda>a b. k a \<ge> k b) ys \<Longrightarrow> sorted_wrt (\<lambda>a b. k a \<ge> k b) (insort_desc k x ys)"
  by (induction ys) auto

lemma order_desc_sorted: "sorted_wrt (\<lambda>a b. k a \<ge> k b) (order_desc k rows)"
  by (induction rows) (auto simp: order_desc_def insort_desc_sorted)

lemma order_desc_hd: "order_desc k rows = r # rest \<Longrightarrow> r \<in> set rows \<and> (\<forall>s \<in> set rows. k s \<le> k r)"
  using order_desc_sorted [of k rows] set_order_desc [of k rows] by auto

lemma as_handler_Inr: "as_handler d r = (Inr j, d') \<longleftrightarrow> r = Inr (j, d')"
  by (auto simp: as_handler_def split: sum.splits)

lemma as_handler_Inl: "as_handler d r = (Inl e, d') \<longleftrightarrow> r = Inl e \<and> d' = d"
  by (auto simp: as_handler_def split: sum.splits)

lemma pk_insert_Inr: "pk_insert key r rows = Inr rows' \<longleftrightarrow> key r \<notin> key ` set rows \<and> rows' = rows @ [r]"
  by (auto simp: pk_insert_def)

lemma insert_audit_Inr: "insert_audit ex i prof acc act tt ti details d = Inr d' \<longleftrightarrow>
   new_id ''audit'' ex i \<notin> a_id ` set (db_audit d)
   \<and> d' = d\<lparr>db_audit := db_audit d @ [\<lparr>a_id = new_id ''audit'' ex i, a_account_id = acc,
       a_profile = prof, a_action = act, a_target_type = tt, a_target_id = ti,
       a_details = JObj details, a_created_at = ee_now ex\<rparr>]\<rparr>"
  by (auto simp: insert_audit_def exn_simps pk_insert_Inr)

lemma insert_metric_event_Inr: "insert_metric_event ex i m f d = Inr d' \<longleftrightarrow>
   new_id ''metric'' ex i \<notin> me_id ` set (db_metrics d)
   \<and> d' = d\<lparr>db_metrics := db_metrics d @ [\<lparr>me_id = new_id ''metric'' ex i, me_metric = m, me_flag = f,
       me_created_at = ee_now ex\<rparr>]\<rparr>"
  by (auto simp: insert_metric_event_def exn_simps pk_insert_Inr)

text \<open>A handler that leaves committing to the driver is atomic: an exception leaves the database as it was.\<close>

definition handler_of :: "datastore_registry \<Rightarrow> request \<Rightarrow> db_handler option" where
  "handler_of registry request =
     (case map_of registry (rq_tool request) of None \<Rightarrow> None
      | Some actions \<Rightarrow> map_of actions (rq_action request))"

lemma postgres_execute_on_work:
  assumes "handler_of registry request = Some (on_work h)"
  shows "postgres_execute registry ex request context d =
    (case h ex (rq_params request) context d of
       (Inr result, w) \<Rightarrow> (Inr result, w) | (Inl e, w) \<Rightarrow> (Inl e, d))"
  using assms
  by (auto simp: postgres_execute_def handler_of_def on_work_def commit_def rollback_def
      split: option.splits sum.splits prod.splits)

lemma postgres_execute_missing:
  "handler_of registry request = None \<Longrightarrow>
   \<exists>m. postgres_execute registry ex request context d = (Inl (ToolDriverError Configuration_missing m), d)"
  by (auto simp: postgres_execute_def handler_of_def split: option.splits)

end
