(* ===== verification/Accounts.thy ===== *)
theory Accounts
  imports Datastore
begin

text \<open>
  Workbench accounts, \<^verbatim>\<open>datastore/handlers/accounts.py\<close>: the governed admin writes and the pre-auth login
  with its lockout ladder, whose failed attempt is committed before the rejection is raised.
  \<open>scrypt password salt n\<close> stands for \<^verbatim>\<open>hashlib.scrypt\<close> with the module's cost parameters and a
  derived key of \<open>n\<close> bytes (\<open>None\<close> when it raises); bytes are natural numbers.
\<close>

type_synonym bytes = "nat list"
type_synonym scrypt = "bytes \<Rightarrow> bytes \<Rightarrow> nat \<Rightarrow> bytes option"

definition MAX_FAILED_ATTEMPTS :: int where
  "MAX_FAILED_ATTEMPTS = 5"

definition LOCKOUT_MINUTES :: int where
  "LOCKOUT_MINUTES = 15"

section \<open>Handlers\<close>

definition require_admin_actor :: "ctx \<Rightarrow> exn + string" where
  "require_admin_actor context =
     (if falsy (user_id context)
      then Inl (ToolDriverError Policy_blocked ''A governed admin write requires an attributed actor.'')
      else Inr (the (user_id context)))"

definition public_account :: "account_row \<Rightarrow> json" where
  "public_account r = JObj [(''id'', JStr (ac_id r)), (''username'', JStr (ac_username r)),
     (''role'', JStr (ac_role r)), (''status'', JStr (ac_status r)),
     (''created_at'', time_json (ac_created_at r)), (''updated_at'', time_json (ac_updated_at r)),
     (''last_login_at'', opt_time (ac_last_login_at r)), (''account_id'', JStr (ac_id r))]"

definition account_row_json :: "string \<Rightarrow> db \<Rightarrow> json" where
  "account_row_json account_id d =
     (case List.find (\<lambda>r. ac_id r = account_id) (db_accounts d) of
        None \<Rightarrow> JNull | Some r \<Rightarrow> public_account r)"

definition ensure_account :: "string \<Rightarrow> db \<Rightarrow> exn + unit" where
  "ensure_account account_id d =
     guard (account_id \<in> ac_id ` set (db_accounts d))
       (ToolDriverError Not_found (''account '' @ account_id @ '' not found.''))"

text \<open>The result and the work of a handler, from a computation that may raise.\<close>

definition finish_handler :: "db \<Rightarrow> exn + json \<times> db \<Rightarrow> (exn + json) \<times> db" where
  "finish_handler d m = (case m of Inl e \<Rightarrow> (Inl e, d) | Inr (j, d') \<Rightarrow> (Inr j, d'))"

definition create_account :: "exec_env \<Rightarrow> dict \<Rightarrow> ctx \<Rightarrow> db \<Rightarrow> (exn + json) \<times> db" where
  "create_account ex params context d = finish_handler d (
     ebind (require_admin_actor context) (\<lambda>actor.
     case (read_string params [''username''], read_string params [''password_hash'', ''passwordHash''],
           read_string params [''role'']) of
       (Some username, Some password_hash, Some role) \<Rightarrow>
         let account_id = new_id ''acct'' ex 0 in
         if username \<in> ac_username ` set (db_accounts d)
         then Inl (ToolDriverError Conflict (''username '' @ username @ '' already exists.''))
         else
           ebind (pk_insert ac_id
             \<lparr>ac_id = account_id, ac_username = username, ac_password_hash = password_hash,
              ac_role = role, ac_status = ''active'', ac_created_at = ee_now ex,
              ac_updated_at = ee_now ex, ac_last_login_at = None, ac_failed_attempts = 0,
              ac_locked_until = None\<rparr> (db_accounts d)) (\<lambda>accounts.
           ebind (insert_audit ex 1 (profile context) (Some actor) ''create_account'' (Some ''account'')
                    (Some account_id) [(''username'', JStr username), (''role'', JStr role)]
                    (d\<lparr>db_accounts := accounts\<rparr>)) (\<lambda>d'.
           Inr (JObj [(''account_id'', JStr account_id), (''created'', JBool True),
                      (''account'', account_row_json account_id d')], d')))
     | _ \<Rightarrow> Inl (ToolDriverError Unexpected_error ''username, password_hash, and role are required.'')))"

definition list_accounts :: "exec_env \<Rightarrow> dict \<Rightarrow> ctx \<Rightarrow> db \<Rightarrow> (exn + json) \<times> db" where
  "list_accounts ex params context d =
     (Inr (JObj [(''accounts'', JList (map public_account (order_asc ac_created_at (db_accounts d))))]), d)"

definition update_account_role :: "exec_env \<Rightarrow> dict \<Rightarrow> ctx \<Rightarrow> db \<Rightarrow> (exn + json) \<times> db" where
  "update_account_role ex params context d = finish_handler d (
     ebind (require_admin_actor context) (\<lambda>actor.
     case (read_string params [''account_id'', ''accountId''], read_string params [''role'']) of
       (Some account_id, Some role) \<Rightarrow>
         ebind (ensure_account account_id d) (\<lambda>_.
         ebind (insert_audit ex 0 (profile context) (Some actor) ''update_account_role'' (Some ''account'')
                  (Some account_id) [(''role'', JStr role)]
                  (d\<lparr>db_accounts := update_where (\<lambda>r. ac_id r = account_id)
                      (\<lambda>r. r\<lparr>ac_role := role, ac_updated_at := ee_now ex\<rparr>) (db_accounts d)\<rparr>)) (\<lambda>d'.
         Inr (JObj [(''account_id'', JStr account_id), (''role'', JStr role), (''updated'', JBool True),
                    (''account'', account_row_json account_id d')], d')))
     | _ \<Rightarrow> Inl (ToolDriverError Unexpected_error ''account_id and role are required.'')))"

definition disable_account :: "exec_env \<Rightarrow> dict \<Rightarrow> ctx \<Rightarrow> db \<Rightarrow> (exn + json) \<times> db" where
  "disable_account ex params context d = finish_handler d (
     ebind (require_admin_actor context) (\<lambda>actor.
     case read_string params [''account_id'', ''accountId''] of
       Some account_id \<Rightarrow>
         ebind (ensure_account account_id d) (\<lambda>_.
         ebind (insert_audit ex 0 (profile context) (Some actor) ''disable_account'' (Some ''account'')
                  (Some account_id) []
                  (d\<lparr>db_accounts := update_where (\<lambda>r. ac_id r = account_id)
                      (\<lambda>r. r\<lparr>ac_status := ''disabled'', ac_updated_at := ee_now ex\<rparr>) (db_accounts d)\<rparr>))
           (\<lambda>d'.
         Inr (JObj [(''account_id'', JStr account_id), (''disabled'', JBool True),
                    (''account'', account_row_json account_id d')], d')))
     | None \<Rightarrow> Inl (ToolDriverError Unexpected_error ''account_id is required.'')))"

section \<open>Passwords\<close>

definition hex_value :: "char \<Rightarrow> nat option" where
  "hex_value c = (let n = code c in
     if 48 \<le> n \<and> n \<le> 57 then Some (n - 48)
     else if 65 \<le> n \<and> n \<le> 70 then Some (n - 55)
     else if 97 \<le> n \<and> n \<le> 102 then Some (n - 87) else None)"

definition ascii_space :: "char \<Rightarrow> bool" where
  "ascii_space c = (let n = code c in (9 \<le> n \<and> n \<le> 13) \<or> n = 32)"

text \<open>\<^verbatim>\<open>bytes.fromhex\<close>: pairs of digits, ASCII white space between the pairs skipped.\<close>

fun bytes_fromhex :: "string \<Rightarrow> bytes option" where
  "bytes_fromhex [] = Some []"
| "bytes_fromhex [c] = (if ascii_space c then Some [] else None)"
| "bytes_fromhex (c # d # s) =
     (if ascii_space c then bytes_fromhex (d # s)
      else case (hex_value c, hex_value d) of
        (Some h, Some l) \<Rightarrow> map_option (\<lambda>bs. (16 * h + l) # bs) (bytes_fromhex s)
      | _ \<Rightarrow> None)"

definition utf8 :: "string \<Rightarrow> bytes" where
  "utf8 s = concat (map (\<lambda>c. let n = code c in
     if n < 128 then [n] else [192 + n div 64, 128 + n mod 64]) s)"

definition verify_password :: "scrypt \<Rightarrow> string \<Rightarrow> string \<Rightarrow> bool" where
  "verify_password scrypt plain stored =
     (case py_split CHR ''$'' stored of
        [scheme, salt_hex, hash_hex] \<Rightarrow>
          (if scheme \<noteq> ''scrypt'' \<or> salt_hex = [] \<or> hash_hex = [] then False
           else case (bytes_fromhex salt_hex, bytes_fromhex hash_hex) of
             (Some salt, Some expected) \<Rightarrow>
               (if salt = [] \<or> expected = [] then False
                else case scrypt (utf8 plain) salt (length expected) of
                  None \<Rightarrow> False | Some actual \<Rightarrow> actual = expected)
           | _ \<Rightarrow> False)
      | _ \<Rightarrow> False)"

section \<open>Login\<close>

definition invalid_credentials :: exn where
  "invalid_credentials = ToolDriverError Unauthenticated ''invalid credentials.''"

definition failed_login_row :: "int \<Rightarrow> account_row \<Rightarrow> account_row" where
  "failed_login_row now r =
     r\<lparr>ac_failed_attempts := (if ac_failed_attempts r + 1 \<ge> MAX_FAILED_ATTEMPTS then 0
                              else ac_failed_attempts r + 1),
       ac_locked_until := (if ac_failed_attempts r + 1 \<ge> MAX_FAILED_ATTEMPTS
                           then Some (now + seconds (LOCKOUT_MINUTES * 60)) else ac_locked_until r)\<rparr>"

definition record_failed_login :: "exec_env \<Rightarrow> string \<Rightarrow> conn \<Rightarrow> conn" where
  "record_failed_login ex account_id c =
     commit (c\<lparr>cn_work := (cn_work c)\<lparr>db_accounts := update_where (\<lambda>r. ac_id r = account_id)
       (failed_login_row (ee_now ex)) (db_accounts (cn_work c))\<rparr>\<rparr>)"

definition is_locked :: "int \<Rightarrow> account_row \<Rightarrow> bool" where
  "is_locked now r = (case ac_locked_until r of None \<Rightarrow> False | Some t \<Rightarrow> t > now)"

definition logged_in_row :: "int \<Rightarrow> account_row \<Rightarrow> account_row" where
  "logged_in_row now r =
     r\<lparr>ac_last_login_at := Some now, ac_failed_attempts := 0, ac_locked_until := None\<rparr>"

definition authenticate :: "scrypt \<Rightarrow> db_handler" where
  "authenticate scrypt ex params context c =
     (case (read_string params [''username''], get params ''password'') of
        (Some username, JStr password) \<Rightarrow>
          (if password = [] then (Inl invalid_credentials, c)
           else case List.find (\<lambda>r. ac_username r = username) (db_accounts (cn_work c)) of
             None \<Rightarrow> (Inl invalid_credentials, c)
           | Some row \<Rightarrow>
               if ac_status row = ''disabled''
               then (Inl (ToolDriverError Policy_blocked ''account disabled.''), c)
               else if is_locked (ee_now ex) row
               then (Inl (ToolDriverError Locked ''account temporarily locked.''), c)
               else if \<not> verify_password scrypt password (ac_password_hash row)
               then (Inl invalid_credentials, record_failed_login ex (ac_id row) c)
               else
                 let w = (cn_work c)\<lparr>db_accounts := update_where (\<lambda>r. ac_id r = ac_id row)
                           (logged_in_row (ee_now ex)) (db_accounts (cn_work c))\<rparr>
                 in (Inr (JObj [(''account'', account_row_json (ac_id row) w)]), c\<lparr>cn_work := w\<rparr>))
      | _ \<Rightarrow> (Inl invalid_credentials, c))"

definition account_handlers :: "scrypt \<Rightarrow> datastore_registry" where
  "account_handlers scrypt = [(''toee_workbench_admin'',
     [(''list_accounts'', on_work list_accounts),
      (''create_account'', on_work create_account),
      (''update_account_role'', on_work update_account_role),
      (''disable_account'', on_work disable_account),
      (''authenticate'', authenticate scrypt)])]"

section \<open>The lockout ladder\<close>

definition accounts_ok :: "db \<Rightarrow> bool" where
  "accounts_ok d \<longleftrightarrow> distinct (map ac_id (db_accounts d)) \<and> distinct (map ac_username (db_accounts d))"

definition account_named :: "string \<Rightarrow> db \<Rightarrow> account_row option" where
  "account_named u d = List.find (\<lambda>r. ac_username r = u) (db_accounts d)"

text \<open>One login as it arrives: through the governed driver, so with its commit or rollback.\<close>

definition login :: "scrypt \<Rightarrow> exec_env \<Rightarrow> ctx \<Rightarrow> string \<Rightarrow> string \<Rightarrow> db \<Rightarrow> (exn + json) \<times> db" where
  "login scrypt ex context u password d =
     postgres_execute (account_handlers scrypt) ex
       \<lparr>rq_tool = ''toee_workbench_admin'', rq_action = ''authenticate'',
        rq_params = [(''username'', JStr u), (''password'', JStr password)]\<rparr> context d"

lemma login_handler: "login scrypt ex context u password d =
   (case authenticate scrypt ex [(''username'', JStr u), (''password'', JStr password)] context
           \<lparr>cn_committed = d, cn_work = d\<rparr> of
      (Inr result, c) \<Rightarrow> (Inr result, cn_work c) | (Inl e, c) \<Rightarrow> (Inl e, cn_committed c))"
  by (simp add: login_def postgres_execute_def account_handlers_def commit_def rollback_def
      split: prod.split sum.split)

lemma update_account_named:
  assumes "accounts_ok d" and "account_named u d = Some r"
    and "\<And>q. ac_username (f q) = ac_username q" and "\<And>q. ac_id (f q) = ac_id q"
    and "d' = d\<lparr>db_accounts := update_where (\<lambda>q. ac_id q = ac_id r) f (db_accounts d)\<rparr>"
  shows "accounts_ok d' \<and> account_named u d' = Some (f r)"
proof -
  have r: "r \<in> set (db_accounts d)" "ac_username r = u"
    using find_SomeD assms(2) by (fastforce simp: account_named_def)+
  have ok': "accounts_ok d'" using assms(1) by (simp add: assms(5) accounts_ok_def update_where_keys assms(3,4))
  have "f r \<in> set (db_accounts d')" using r(1) by (auto simp: assms(5) set_update_where)
  moreover have "ac_username (f r) = u" using r(2) assms(3) by simp
  ultimately show ?thesis using ok' find_unique [of ac_username "db_accounts d'" "f r" u]
    by (simp add: account_named_def accounts_ok_def)
qed

lemma login_wrong:
  assumes "accounts_ok d" "account_named u d = Some r" "ac_status r \<noteq> ''disabled''"
    "\<not> is_locked (ee_now ex) r" "password \<noteq> []" "u \<noteq> []"
    "\<not> verify_password scrypt password (ac_password_hash r)"
  shows "\<exists>d'. login scrypt ex context u password d = (Inl invalid_credentials, d')
    \<and> accounts_ok d' \<and> account_named u d' = Some (failed_login_row (ee_now ex) r)"
proof -
  let ?d' = "d\<lparr>db_accounts := update_where (\<lambda>q. ac_id q = ac_id r) (failed_login_row (ee_now ex)) (db_accounts d)\<rparr>"
  have "login scrypt ex context u password d = (Inl invalid_credentials, ?d')"
    using assms by (simp add: login_handler authenticate_def dict_simps account_named_def
        record_failed_login_def commit_def)
  moreover have "accounts_ok ?d' \<and> account_named u ?d' = Some (failed_login_row (ee_now ex) r)"
    by (rule update_account_named [OF assms(1,2) _ _ refl]) (simp_all add: failed_login_row_def)
  ultimately show ?thesis by blast
qed

lemma login_locked:
  assumes "account_named u d = Some r" "ac_status r \<noteq> ''disabled''" "is_locked (ee_now ex) r"
    "password \<noteq> []" "u \<noteq> []"
  shows "login scrypt ex context u password d = (Inl (ToolDriverError Locked ''account temporarily locked.''), d)"
  using assms by (simp add: login_handler authenticate_def dict_simps account_named_def)

lemma login_right:
  assumes "accounts_ok d" "account_named u d = Some r" "ac_status r \<noteq> ''disabled''"
    "\<not> is_locked (ee_now ex) r" "password \<noteq> []" "u \<noteq> []"
    "verify_password scrypt password (ac_password_hash r)"
  shows "\<exists>d'. login scrypt ex context u password d
      = (Inr (JObj [(''account'', public_account (logged_in_row (ee_now ex) r))]), d')
    \<and> accounts_ok d' \<and> account_named u d' = Some (logged_in_row (ee_now ex) r)"
proof -
  let ?f = "logged_in_row (ee_now ex)"
  let ?d' = "d\<lparr>db_accounts := update_where (\<lambda>q. ac_id q = ac_id r) ?f (db_accounts d)\<rparr>"
  have 1: "accounts_ok ?d' \<and> account_named u ?d' = Some (?f r)"
    by (rule update_account_named [OF assms(1,2) _ _ refl]) (simp_all add: logged_in_row_def)
  then have "?f r \<in> set (db_accounts ?d')" using find_SomeD by (fastforce simp: account_named_def)
  then have "List.find (\<lambda>q. ac_id q = ac_id r) (db_accounts ?d') = Some (?f r)"
    using 1 find_unique [of ac_id "db_accounts ?d'" "?f r" "ac_id r"]
    by (simp add: accounts_ok_def logged_in_row_def)
  then have "login scrypt ex context u password d
      = (Inr (JObj [(''account'', public_account (?f r))]), ?d')"
    using assms by (simp add: login_handler authenticate_def dict_simps account_named_def
        account_row_json_def Let_def)
  with 1 show ?thesis by blast
qed

fun run_logins :: "scrypt \<Rightarrow> ctx \<Rightarrow> string \<Rightarrow> (exec_env \<times> string) list \<Rightarrow> db \<Rightarrow> (exn + json) list \<times> db" where
  "run_logins scrypt context u [] d = ([], d)"
| "run_logins scrypt context u ((ex, password) # as) d =
     (let (res, d1) = login scrypt ex context u password d;
          (results, d2) = run_logins scrypt context u as d1 in (res # results, d2))"

text \<open>Guesses while the account is locked change nothing, whatever the password.\<close>

lemma run_logins_locked:
  assumes "account_named u d = Some r" "ac_status r \<noteq> ''disabled''" "u \<noteq> []"
    "\<forall>(ex, password) \<in> set as. is_locked (ee_now ex) r \<and> password \<noteq> []"
  shows "run_logins scrypt context u as d
    = (replicate (length as) (Inl (ToolDriverError Locked ''account temporarily locked.'')), d)"
  using assms by (induction as) (auto simp: login_locked)

lemma run_logins_climb:
  assumes "accounts_ok d" "account_named u d = Some r" "ac_status r \<noteq> ''disabled''" "u \<noteq> []"
    "\<forall>(ex, password) \<in> set as. \<not> is_locked (ee_now ex) r \<and> password \<noteq> []
       \<and> \<not> verify_password scrypt password (ac_password_hash r)"
    "0 \<le> ac_failed_attempts r" "ac_failed_attempts r + int (length as) < MAX_FAILED_ATTEMPTS"
  shows "\<exists>d'. run_logins scrypt context u as d = (replicate (length as) (Inl invalid_credentials), d')
    \<and> accounts_ok d' \<and> account_named u d' = Some (r\<lparr>ac_failed_attempts := ac_failed_attempts r + int (length as)\<rparr>)"
  using assms
proof (induction as arbitrary: d r)
  case Nil
  then show ?case by simp
next
  case (Cons a as)
  obtain ex password where a: "a = (ex, password)" by force
  let ?r1 = "r\<lparr>ac_failed_attempts := ac_failed_attempts r + 1\<rparr>"
  from Cons.prems a have "failed_login_row (ee_now ex) r = ?r1" by (simp add: failed_login_row_def)
  with login_wrong [OF Cons.prems(1-3), of ex password scrypt "context"] Cons.prems a obtain d1 where
    l: "login scrypt ex context u password d = (Inl invalid_credentials, d1)" "accounts_ok d1"
      "account_named u d1 = Some ?r1" by auto
  have "\<exists>d'. run_logins scrypt context u as d1 = (replicate (length as) (Inl invalid_credentials), d')
    \<and> accounts_ok d' \<and> account_named u d' = Some (?r1\<lparr>ac_failed_attempts := ac_failed_attempts ?r1 + int (length as)\<rparr>)"
    using Cons.prems by (intro Cons.IH l(2,3)) (auto simp: is_locked_def)
  with l a show ?case by (auto simp: add.assoc)
qed

lemma run_logins_append: "run_logins scrypt context u (as @ bs) d =
   (let (rs1, d1) = run_logins scrypt context u as d; (rs2, d2) = run_logins scrypt context u bs d1
    in (rs1 @ rs2, d2))"
  by (induction as arbitrary: d) (auto simp: Let_def split: prod.splits)

section \<open>Properties\<close>

text \<open>Five wrong passwords in a row lock an account: until fifteen minutes after the fifth, every
  attempt is answered as locked, the right password's too, and changes nothing; after that the right password logs in.
  The failures are counted although each of them is answered with an error.\<close>

theorem lockout_ladder:
  assumes acc: "accounts_ok d" "account_named u d = Some r" "ac_status r \<noteq> ''disabled''" "u \<noteq> []"
    and fresh: "ac_failed_attempts r = 0" "ac_locked_until r = None"
    and four: "length wrong = 4" and w: "\<forall>(ex, p) \<in> set (wrong @ [(ex5, p5)]). p \<noteq> [] \<and> \<not> verify_password scrypt p (ac_password_hash r)"
    and early: "\<forall>(ex, p) \<in> set later. p \<noteq> [] \<and> ee_now ex < ee_now ex5 + seconds (15 * 60)"
    and right: "verify_password scrypt p (ac_password_hash r)" "p \<noteq> []" and late: "ee_now ex \<ge> ee_now ex5 + seconds (15 * 60)"
  shows "\<exists>d'. run_logins scrypt context u (wrong @ (ex5, p5) # later) d =
      (replicate 5 (Inl invalid_credentials)
         @ replicate (length later) (Inl (ToolDriverError Locked ''account temporarily locked.'')), d')
    \<and> isl (fst (login scrypt ex context u p d')) = False"
proof -
  have "\<forall>(ex, q) \<in> set wrong. \<not> is_locked (ee_now ex) r \<and> q \<noteq> [] \<and> \<not> verify_password scrypt q (ac_password_hash r)"
    using w fresh(2) by (auto simp: is_locked_def)
  from run_logins_climb [OF acc this] obtain d4 where
    d4: "run_logins scrypt context u wrong d = (replicate 4 (Inl invalid_credentials), d4)" "accounts_ok d4"
      "account_named u d4 = Some (r\<lparr>ac_failed_attempts := 4\<rparr>)"
    using fresh(1) four by (auto simp: MAX_FAILED_ATTEMPTS_def)
  let ?r4 = "r\<lparr>ac_failed_attempts := 4\<rparr>"
  let ?r5 = "failed_login_row (ee_now ex5) ?r4"
  from login_wrong [OF d4(2,3), of ex5 p5 scrypt "context"] obtain d5 where
    d5: "login scrypt ex5 context u p5 d4 = (Inl invalid_credentials, d5)" "accounts_ok d5" "account_named u d5 = Some ?r5"
    using acc(3,4) fresh(2) w by (auto simp: is_locked_def)
  have r5: "ac_locked_until ?r5 = Some (ee_now ex5 + seconds (15 * 60))" "ac_status ?r5 = ac_status r"
    "ac_password_hash ?r5 = ac_password_hash r"
    by (simp_all add: failed_login_row_def MAX_FAILED_ATTEMPTS_def LOCKOUT_MINUTES_def)
  have "\<forall>(ex, q) \<in> set later. is_locked (ee_now ex) ?r5 \<and> q \<noteq> []"
    using early r5 by (auto simp: is_locked_def)
  from run_logins_locked [OF d5(3) _ acc(4) this] r5 acc(3)
  have l: "run_logins scrypt context u later d5 =
      (replicate (length later) (Inl (ToolDriverError Locked ''account temporarily locked.'')), d5)" by simp
  have "\<exists>out d6. login scrypt ex context u p d5 = (Inr out, d6)"
    using login_right [OF d5(2,3), of ex p scrypt "context"] acc(3,4) r5 right late by (auto simp: is_locked_def)
  moreover have "run_logins scrypt context u (wrong @ (ex5, p5) # later) d =
      (replicate 5 (Inl invalid_credentials)
         @ replicate (length later) (Inl (ToolDriverError Locked ''account temporarily locked.'')), d5)"
    by (simp add: run_logins_append d4 d5 l eval_nat_numeral)
  ultimately show ?thesis by auto
qed

theorem lockout_ladder_witness:
  "\<exists>d'. run_logins (\<lambda>p _ _. Some p) (context_provider SUPERVISOR None None None []) ''ann''
      (replicate 4 (\<lparr>ee_now = 0, ee_hex = \<lambda>_. []\<rparr>, ''B'')
        @ (\<lparr>ee_now = 1, ee_hex = \<lambda>_. []\<rparr>, ''B'') # [(\<lparr>ee_now = 2, ee_hex = \<lambda>_. []\<rparr>, ''A'')])
      (empty_db\<lparr>db_accounts := [\<lparr>ac_id = ''a1'', ac_username = ''ann'', ac_password_hash = ''scrypt$00$41'',
         ac_role = ''admin'', ac_status = ''active'', ac_created_at = 0, ac_updated_at = 0,
         ac_last_login_at = None, ac_failed_attempts = 0, ac_locked_until = None\<rparr>]\<rparr>)
    = (replicate 5 (Inl invalid_credentials) @ [Inl (ToolDriverError Locked ''account temporarily locked.'')], d')"
proof -
  let ?r = "\<lparr>ac_id = ''a1'', ac_username = ''ann'', ac_password_hash = ''scrypt$00$41'',
         ac_role = ''admin'', ac_status = ''active'', ac_created_at = 0, ac_updated_at = 0,
         ac_last_login_at = None, ac_failed_attempts = 0, ac_locked_until = None\<rparr>"
  have v: "verify_password (\<lambda>p _ _. Some p) ''A'' ''scrypt$00$41''" "\<not> verify_password (\<lambda>p _ _. Some p) ''B'' ''scrypt$00$41''"
    by code_simp+
  show ?thesis
    using lockout_ladder [of "empty_db\<lparr>db_accounts := [?r]\<rparr>" "''ann''" ?r "replicate 4 (\<lparr>ee_now = 0, ee_hex = \<lambda>_. []\<rparr>, ''B'')"
        "\<lparr>ee_now = 1, ee_hex = \<lambda>_. []\<rparr>" "''B''" "\<lambda>p _ _. Some p" "[(\<lparr>ee_now = 2, ee_hex = \<lambda>_. []\<rparr>, ''A'')]"
        "''A''" "\<lparr>ee_now = 1000000000000, ee_hex = \<lambda>_. []\<rparr>" "context_provider SUPERVISOR None None None []"] v
    by (simp add: accounts_ok_def account_named_def seconds_def) blast
qed

end
