(* ===== verification/DeadLetter.thy ===== *)
theory DeadLetter
  imports Datastore JobLifecycle
begin

text \<open>
  The dead-letter view and the governed replay, \<^verbatim>\<open>datastore/handlers/dead_letter.py\<close>.  \<open>ellipsis\<close> is
  the character U+2026 that a truncated summary ends with.
\<close>

definition DEAD_LETTER_LIST_LIMIT :: nat where
  "DEAD_LETTER_LIST_LIMIT = 100"

definition STALE_INTENT_SECONDS :: int where
  "STALE_INTENT_SECONDS = 900"

definition SUMMARY_CHARS :: nat where
  "SUMMARY_CHARS = 160"

definition REPLAY_LOG_LIMIT :: nat where
  "REPLAY_LOG_LIMIT = 20"

definition REPLAY_LOG_ACTIONS :: "string list" where
  "REPLAY_LOG_ACTIONS = [''job_replayed'']"

section \<open>The list\<close>

definition summarize_value :: "char \<Rightarrow> json \<Rightarrow> json" where
  "summarize_value ellipsis v =
     (case v of
        JStr s \<Rightarrow> (if length s > SUMMARY_CHARS then JStr (take SUMMARY_CHARS s @ [ellipsis]) else v)
      | JObj d \<Rightarrow> JStr (''<dict of '' @ show_int (int (length d)) @ ''>'')
      | JList xs \<Rightarrow> JStr (''<list of '' @ show_int (int (length xs)) @ ''>'')
      | _ \<Rightarrow> v)"

definition summarize :: "char \<Rightarrow> json \<Rightarrow> json" where
  "summarize ellipsis payload =
     (case payload of JObj d \<Rightarrow> JObj (map (\<lambda>(k, v). (k, summarize_value ellipsis v)) d) | _ \<Rightarrow> JObj [])"

definition running_type_reason :: "string \<Rightarrow> string" where
  "running_type_reason jtype = ''A '' @ jtype @ '' job is running right now, so replay would put a second ''
     @ ''copy of the same work alongside a live one. Refresh once it finishes.''"

text \<open>\<^verbatim>\<open>FROM job j LEFT JOIN outbound_send o ON o.job_id = j.id\<close>.\<close>

definition join_sends :: "send_row list \<Rightarrow> job_row \<Rightarrow> (job_row \<times> send_row option) list" where
  "join_sends sends j =
     (case filter (\<lambda>o'. s_job_id o' = Some (j_id j)) sends of
        [] \<Rightarrow> [(j, None)] | os \<Rightarrow> map (\<lambda>o'. (j, Some o')) os)"

definition dead_rows :: "db \<Rightarrow> (job_row \<times> send_row option) list" where
  "dead_rows d = take DEAD_LETTER_LIST_LIMIT (order_desc (j_updated_at \<circ> fst)
     (concat (map (join_sends (db_sends d)) (filter (\<lambda>r. j_status r = Dead) (db_jobs d)))))"

definition stuck_sends :: "int \<Rightarrow> db \<Rightarrow> send_row list" where
  "stuck_sends now d = take DEAD_LETTER_LIST_LIMIT (order_desc s_updated_at
     (filter (\<lambda>r. s_status r = Send_failed
                \<or> (s_status r = Sent \<and> s_last_error r \<noteq> None)
                \<or> (s_status r = Intent \<and> s_updated_at r < now - seconds STALE_INTENT_SECONDS))
       (db_sends d)))"

definition running_types :: "db \<Rightarrow> string list" where
  "running_types d = remdups (map j_type (filter (\<lambda>r. j_status r = Running
     \<and> j_type r \<in> fst ` set NON_CONCURRENT_JOB_TYPES) (db_jobs d)))"

definition bucket :: "send_row \<Rightarrow> string" where
  "bucket r = (case s_status r of
      Send_failed \<Rightarrow> ''send_failed'' | Sent \<Rightarrow> ''mirror_missing'' | Intent \<Rightarrow> ''stale_intent'')"

definition blocked_reason :: "db \<Rightarrow> string \<Rightarrow> string option" where
  "blocked_reason d jtype =
     (case replay_blocked_reason jtype of
        Some m \<Rightarrow> Some m
      | None \<Rightarrow> (if jtype \<in> set (running_types d) then Some (running_type_reason jtype) else None))"

definition dead_job_json :: "char \<Rightarrow> db \<Rightarrow> job_row \<times> send_row option \<Rightarrow> json" where
  "dead_job_json ellipsis d p =
     (let (r, o') = p; blocked = blocked_reason d (j_type r) in
      JObj [(''job_id'', JStr (j_id r)), (''type'', JStr (j_type r)),
        (''payload_summary'', summarize ellipsis (j_payload r)),
        (''attempts'', JInt (j_attempts r)), (''max_attempts'', JInt (j_max_attempts r)),
        (''last_error'', opt_str (j_last_error r)), (''run_at'', time_json (j_run_at r)),
        (''created_at'', time_json (j_created_at r)), (''updated_at'', time_json (j_updated_at r)),
        (''replayable'', JBool (blocked = None)), (''replay_blocked_reason'', opt_str blocked),
        (''outbound'', case o' of
            None \<Rightarrow> JNull
          | Some s \<Rightarrow> JObj [(''status'', JStr (status_text (s_status s))),
              (''skip_count'', JInt (s_skip_count s)), (''last_error'', opt_str (s_last_error s))])])"

definition stuck_send_json :: "send_row \<Rightarrow> json" where
  "stuck_send_json r =
     JObj [(''idempotency_key'', JStr (s_key r)), (''job_id'', opt_str (s_job_id r)),
       (''event_id'', JStr (s_event_id r)), (''conversation_id'', JStr (s_conversation_id r)),
       (''channel'', JStr (s_channel r)), (''status'', JStr (status_text (s_status r))),
       (''skip_count'', JInt (s_skip_count r)), (''last_error'', opt_str (s_last_error r)),
       (''created_at'', time_json (s_created_at r)), (''updated_at'', time_json (s_updated_at r)),
       (''slot'', JStr (rsplit_last CHR '':'' (s_key r))), (''bucket'', JStr (bucket r))]"

definition replay_json :: "db \<Rightarrow> audit_row \<Rightarrow> json" where
  "replay_json d a =
     JObj [(''job_id'', opt_str (a_target_id a)),
       (''type'', case a_details a of JObj x \<Rightarrow> get x ''type'' | _ \<Rightarrow> JNull),
       (''account_id'', opt_str (a_account_id a)),
       (''actor_username'', actor_username (db_accounts d) (a_account_id a)),
       (''created_at'', time_json (a_created_at a))]"

definition list_dead_letters :: "char \<Rightarrow> exec_env \<Rightarrow> dict \<Rightarrow> ctx \<Rightarrow> db \<Rightarrow> (exn + json) \<times> db" where
  "list_dead_letters ellipsis ex params context d =
     (Inr (JObj [(''jobs'', JList (map (dead_job_json ellipsis d) (dead_rows d))),
        (''outbound'', JList (map stuck_send_json (stuck_sends (ee_now ex) d))),
        (''recent_replays'', JList (map (replay_json d) (take REPLAY_LOG_LIMIT
           (order_desc a_created_at (filter (\<lambda>a. a_action a \<in> set REPLAY_LOG_ACTIONS) (db_audit d))))))]), d)"

section \<open>The governed replay\<close>

definition require_replay_actor :: "ctx \<Rightarrow> exn + string" where
  "require_replay_actor context =
     (if falsy (user_id context)
      then Inl (ToolDriverError Policy_blocked ''A governed job replay requires an attributed actor.'')
      else Inr (the (user_id context)))"

definition replay_job :: "exec_env \<Rightarrow> dict \<Rightarrow> ctx \<Rightarrow> db \<Rightarrow> (exn + json) \<times> db" where
  "replay_job ex params context d =
     (case read_string params [''job_id'', ''jobId''] of
        None \<Rightarrow> (Inl (ToolDriverError Unexpected_error ''job_id is required.''), d)
      | Some jid \<Rightarrow>
          (case require_replay_actor context of
             Inl e \<Rightarrow> (Inl e, d)
           | Inr actor \<Rightarrow>
               (case List.find (\<lambda>r. j_id r = jid \<and> j_status r = Dead) (db_jobs d) of
                  None \<Rightarrow> (Inl (ToolDriverError Not_found (''no dead job '' @ jid @ ''.'')), d)
                | Some row \<Rightarrow>
                    (case replay_blocked_reason (j_type row) of
                       Some m \<Rightarrow> (Inl (ToolDriverError Policy_blocked m), d)
                     | None \<Rightarrow>
                         if j_type row \<in> fst ` set NON_CONCURRENT_JOB_TYPES
                            \<and> list_ex (\<lambda>r. j_type r = j_type row \<and> j_status r = Running) (db_jobs d)
                         then (Inl (ToolDriverError Policy_blocked (running_type_reason (j_type row))), d)
                         else
                           (case replay_dead_job jid (ee_now ex) (db_jobs d) of
                              (None, jobs) \<Rightarrow>
                                (Inl (ToolDriverError Not_found (''no dead job '' @ jid @ ''.'')),
                                 d\<lparr>db_jobs := jobs\<rparr>)
                            | (Some _, jobs) \<Rightarrow>
                                (case insert_audit ex 0 (profile context) (Some actor) ''job_replayed''
                                        (Some ''job'') (Some jid)
                                        [(''type'', JStr (j_type row)),
                                         (''attempts_before'', JInt (j_attempts row))]
                                        (d\<lparr>db_jobs := jobs\<rparr>) of
                                   Inl e \<Rightarrow> (Inl e, d\<lparr>db_jobs := jobs\<rparr>)
                                 | Inr d' \<Rightarrow> (Inr (JObj [(''job_id'', JStr jid),
                                     (''type'', JStr (j_type row)), (''status'', JStr ''queued'')]), d')))))))"

definition dead_letter_handlers :: "char \<Rightarrow> datastore_registry" where
  "dead_letter_handlers ellipsis = [(''toee_job_queue'',
     [(''list_dead_letters'', on_work (list_dead_letters ellipsis)),
      (''replay_job'', on_work replay_job)])]"

section \<open>Lemmas\<close>

text \<open>The view's \<^verbatim>\<open>replayable\<close> flag is the handler's own guard.\<close>

lemma running_types_iff: "t \<in> set (running_types d) \<longleftrightarrow>
   t \<in> fst ` set NON_CONCURRENT_JOB_TYPES \<and> list_ex (\<lambda>r. j_type r = t \<and> j_status r = Running) (db_jobs d)"
  by (auto simp: running_types_def list_ex_iff)

lemma blocked_reason_None: "blocked_reason d t = None \<longleftrightarrow>
   replay_blocked_reason t = None
   \<and> \<not> (t \<in> fst ` set NON_CONCURRENT_JOB_TYPES
        \<and> list_ex (\<lambda>r. j_type r = t \<and> j_status r = Running) (db_jobs d))"
  by (auto simp: blocked_reason_def running_types_iff split: option.split)

text \<open>
  The replay goes through exactly for an attributed actor on a dead, replayable job, and then it
  resets that row alone and writes one audit row.
\<close>

lemma replay_job_Inr:
  assumes "replay_job ex params context d = (Inr out, d')"
  shows "\<exists>jid actor row. read_string params [''job_id'', ''jobId''] = Some jid
    \<and> user_id context = Some actor \<and> actor \<noteq> []
    \<and> row \<in> set (db_jobs d) \<and> j_id row = jid \<and> j_status row = Dead \<and> blocked_reason d (j_type row) = None
    \<and> db_jobs d' = snd (replay_dead_job jid (ee_now ex) (db_jobs d))
    \<and> (\<exists>a. db_audit d' = db_audit d @ [a] \<and> a_account_id a = Some actor \<and> a_action a = ''job_replayed''
         \<and> a_target_id a = Some jid)"
proof -
  from assms obtain jid where jid: "read_string params [''job_id'', ''jobId''] = Some jid"
    by (cases "read_string params [''job_id'', ''jobId'']") (simp_all add: replay_job_def)
  from assms jid obtain actor where actor: "require_replay_actor context = Inr actor"
    by (cases "require_replay_actor context") (simp_all add: replay_job_def)
  from assms jid actor obtain row where
    row: "List.find (\<lambda>r. j_id r = jid \<and> j_status r = Dead) (db_jobs d) = Some row"
    by (cases "List.find (\<lambda>r. j_id r = jid \<and> j_status r = Dead) (db_jobs d)") (simp_all add: replay_job_def)
  from assms jid actor row have nb: "replay_blocked_reason (j_type row) = None"
    and nr: "\<not> (j_type row \<in> fst ` set NON_CONCURRENT_JOB_TYPES
        \<and> list_ex (\<lambda>r. j_type r = j_type row \<and> j_status r = Running) (db_jobs d))"
    by (auto simp: replay_job_def split: option.splits if_splits)
  obtain res jobs where rp: "replay_dead_job jid (ee_now ex) (db_jobs d) = (res, jobs)" by force
  from assms jid actor row nb nr rp have
    au: "insert_audit ex 0 (profile context) (Some actor) ''job_replayed''
            (Some ''job'') (Some jid)
            [(''type'', JStr (j_type row)), (''attempts_before'', JInt (j_attempts row))]
            (d\<lparr>db_jobs := jobs\<rparr>) = Inr d'"
    unfolding replay_job_def jid actor row option.case sum.case nb rp
    by (simp only: nr if_False prod.case) (simp split: option.splits sum.splits)
  have "user_id context = Some actor \<and> actor \<noteq> []"
    using actor by (cases "user_id context") (auto simp: require_replay_actor_def falsy_def split: if_splits)
  with jid find_SomeD [OF row] nb nr rp au show ?thesis
    by (intro exI [of _ jid] exI [of _ actor] exI [of _ row])
      (auto simp: insert_audit_Inr blocked_reason_None)
qed

lemma replay_job_possible:
  assumes "read_string params [''job_id'', ''jobId''] = Some (j_id row)" "row \<in> set (db_jobs d)"
    "j_status row = Dead" "distinct (map j_id (db_jobs d))" "blocked_reason d (j_type row) = None"
    "user_id context = Some actor" "actor \<noteq> []" "new_id ''audit'' ex 0 \<notin> a_id ` set (db_audit d)"
  shows "\<exists>out d'. replay_job ex params context d = (Inr out, d')"
proof -
  have f: "List.find (\<lambda>r. j_id r = j_id row \<and> j_status r = Dead) (db_jobs d) = Some row"
    by (rule find_unique_and) (use assms(2-4) in auto)
  from assms(5) have nb: "replay_blocked_reason (j_type row) = None"
    and nr: "(j_type row \<in> fst ` set NON_CONCURRENT_JOB_TYPES
        \<and> list_ex (\<lambda>r. j_type r = j_type row \<and> j_status r = Running) (db_jobs d)) = False"
    by (auto simp: blocked_reason_None)
  have a: "require_replay_actor context = Inr actor"
    using assms(6,7) by (cases actor) (simp_all add: require_replay_actor_def)
  obtain d' where "insert_audit ex 0 (profile context) (Some actor) ''job_replayed''
            (Some ''job'') (Some (j_id row))
            [(''type'', JStr (j_type row)), (''attempts_before'', JInt (j_attempts row))]
            (d\<lparr>db_jobs := snd (replay_dead_job (j_id row) (ee_now ex) (db_jobs d))\<rparr>) = Inr d'"
    using assms(8) by (simp add: insert_audit_Inr)
  then show ?thesis
    unfolding replay_job_def assms(1) a f option.case sum.case nb nr
    by (simp add: replay_dead_job_def Let_def f)
qed

section \<open>Properties\<close>

text \<open>A governed replay goes through exactly when an attributed actor names a dead job of a type that may be replayed and
  is not running: the same rows the dead-letter view marks replayable.  It then re-queues that row
  alone, with its attempts reset, and writes one audit row naming the actor and the job; a refused
  replay changes nothing.\<close>

theorem replay_job_iff:
  assumes "distinct (map j_id (db_jobs d))" and "new_id ''audit'' ex 0 \<notin> a_id ` set (db_audit d)"
  shows "((\<exists>out d'. replay_job ex params context d = (Inr out, d')) \<longleftrightarrow>
      (\<exists>jid row. read_string params [''job_id'', ''jobId''] = Some jid \<and> \<not> falsy (user_id context)
        \<and> row \<in> set (db_jobs d) \<and> j_id row = jid \<and> j_status row = Dead \<and> blocked_reason d (j_type row) = None))
    \<and> (\<forall>out d'. replay_job ex params context d = (Inr out, d') \<longrightarrow>
      (\<exists>jid actor a. read_string params [''job_id'', ''jobId''] = Some jid \<and> user_id context = Some actor
        \<and> db_jobs d' = snd (replay_dead_job jid (ee_now ex) (db_jobs d)) \<and> db_audit d' = db_audit d @ [a]
        \<and> a_account_id a = Some actor \<and> a_action a = ''job_replayed'' \<and> a_target_id a = Some jid))"
    (is "(?ok \<longleftrightarrow> ?can) \<and> ?effect")
proof (intro conjI iffI)
  assume ?ok
  then obtain out d' where "replay_job ex params context d = (Inr out, d')" by blast
  from replay_job_Inr [OF this] show ?can by (auto simp: falsy_def)
next
  assume ?can
  then obtain row actor where "read_string params [''job_id'', ''jobId''] = Some (j_id row)"
    "user_id context = Some actor" "actor \<noteq> []"
    "row \<in> set (db_jobs d)" "j_status row = Dead" "blocked_reason d (j_type row) = None"
    by (cases "user_id context") (auto simp: falsy_def)
  with replay_job_possible [of params row d "context" actor ex] assms show ?ok by blast
next
  show ?effect
  proof (intro allI impI)
    fix out d'
    assume "replay_job ex params context d = (Inr out, d')"
    from replay_job_Inr [OF this]
    show "\<exists>jid actor a. read_string params [''job_id'', ''jobId''] = Some jid \<and> user_id context = Some actor
        \<and> db_jobs d' = snd (replay_dead_job jid (ee_now ex) (db_jobs d)) \<and> db_audit d' = db_audit d @ [a]
        \<and> a_account_id a = Some actor \<and> a_action a = ''job_replayed'' \<and> a_target_id a = Some jid" by blast
  qed
qed

definition dead_turn :: job_row where
  "dead_turn = \<lparr>j_id = ''job_1'', j_type = RETENTION_JOB_TYPE, j_payload = JObj [], j_status = Dead,
     j_attempts = 3, j_max_attempts = 3, j_run_at = 0, j_locked_at = None, j_locked_by = None,
     j_last_error = Some ''boom'', j_dedupe_key = None, j_created_at = 0, j_updated_at = 0\<rparr>"

theorem replay_job_iff_witness:
  "\<exists>out d'. replay_job \<lparr>ee_now = 9, ee_hex = \<lambda>_. ''0''\<rparr> [(''job_id'', JStr ''job_1'')]
      (context_provider SUPERVISOR None None None [(''user_id'', JStr ''admin_1'')]) (empty_db\<lparr>db_jobs := [dead_turn]\<rparr>)
     = (Inr out, d')"
proof -
  let ?d = "empty_db\<lparr>db_jobs := [dead_turn]\<rparr>"
  let ?c = "context_provider SUPERVISOR None None None [(''user_id'', JStr ''admin_1'')]"
  have "distinct (map j_id (db_jobs ?d))" "new_id ''audit'' \<lparr>ee_now = 9, ee_hex = \<lambda>_. ''0''\<rparr> 0 \<notin> a_id ` set (db_audit ?d)"
    by (simp_all add: empty_db_def)
  from replay_job_iff [OF this, of "[(''job_id'', JStr ''job_1'')]" ?c]
  have "(\<exists>out d'. replay_job \<lparr>ee_now = 9, ee_hex = \<lambda>_. ''0''\<rparr> [(''job_id'', JStr ''job_1'')] ?c ?d = (Inr out, d')) \<longleftrightarrow>
      (\<exists>jid row. read_string [(''job_id'', JStr ''job_1'')] [''job_id'', ''jobId''] = Some jid \<and> \<not> falsy (user_id ?c)
        \<and> row \<in> set (db_jobs ?d) \<and> j_id row = jid \<and> j_status row = Dead \<and> blocked_reason ?d (j_type row) = None)" by blast
  moreover have "read_string [(''job_id'', JStr ''job_1'')] [''job_id'', ''jobId''] = Some ''job_1''" by code_simp
  moreover have "\<not> falsy (user_id ?c)" by (simp add: context_provider_def dict_simps falsy_def)
  moreover have "blocked_reason ?d (j_type dead_turn) = None"
    by (simp add: blocked_reason_None dead_turn_def empty_db_def replay_blocked_reason_def
        REPLAY_BLOCKED_JOB_TYPES_def RETENTION_JOB_TYPE_def L6_REVIEW_JOB_TYPE_def NON_CONCURRENT_JOB_TYPES_def)
  ultimately show ?thesis by (auto simp: dead_turn_def)
qed

end
