(* ===== verification/MemoryHandlers.thy ===== *)
theory MemoryHandlers
  imports Datastore MemoryPolicy "HOL-Library.List_Lexorder" "HOL-Library.Char_ord"
begin

text \<open>
  Customer Memory in Postgres, \<^verbatim>\<open>datastore/handlers/memory.py\<close>.  The locale \<open>memory_store\<close> says what a
  memory backend promises (each binding key owns a map from slots to values); the Postgres handlers
  and the mock handlers of \<^verbatim>\<open>drivers/mock/memory.py\<close> both interpret it.
\<close>

section \<open>Handlers\<close>

definition upsert_slot ::
  "exec_env \<Rightarrow> string \<Rightarrow> string \<Rightarrow> string \<Rightarrow> string \<Rightarrow> string \<Rightarrow> string option \<Rightarrow> string option
     \<Rightarrow> slot_row list \<Rightarrow> exn + slot_row list" where
  "upsert_slot ex key kd slot v source ev actor slots =
     (if list_ex (\<lambda>r. p_binding_key r = key \<and> p_slot_name r = slot) slots
      then Inr (update_where (\<lambda>r. p_binding_key r = key \<and> p_slot_name r = slot)
        (\<lambda>r. r\<lparr>p_slot_value := v, p_source := source, p_evidence := ev, p_binding_kind := kd,
               p_actor_account_id := actor, p_updated_at := ee_now ex,
               p_last_interaction_at := ee_now ex\<rparr>) slots)
      else pk_insert p_id
        \<lparr>p_id = new_id ''mem'' ex 0, p_binding_key = key, p_binding_kind = kd, p_slot_name = slot,
         p_slot_value = v, p_source = source, p_evidence = ev, p_actor_account_id = actor,
         p_created_at = ee_now ex, p_updated_at = ee_now ex, p_last_interaction_at = ee_now ex\<rparr> slots)"

definition upsert_preference :: "exec_env \<Rightarrow> dict \<Rightarrow> ctx \<Rightarrow> db \<Rightarrow> (exn + json) \<times> db" where
  "upsert_preference ex params context d =
     (case ebind (require_slot params) (\<lambda>slot.
           ebind (require_value params) (\<lambda>v.
           ebind (read_evidence params) (\<lambda>ev.
           ebind (resolve_memory_write_source context) (\<lambda>source.
           ebind (resolve_customer_memory_binding context params) (\<lambda>(key, kd).
           ebind (upsert_slot ex key kd slot v source ev (user_id context) (db_slots d)) (\<lambda>slots.
           Inr (JObj [(''binding_key'', JStr key), (''slot'', JStr slot), (''value'', JStr v),
              (''source'', JStr source), (''evidence'', opt_str ev), (''stored'', JBool True)],
              d\<lparr>db_slots := slots\<rparr>))))))) of
        Inl e \<Rightarrow> (Inl e, d) | Inr (j, d') \<Rightarrow> (Inr j, d'))"

definition clear_preference :: "exec_env \<Rightarrow> dict \<Rightarrow> ctx \<Rightarrow> db \<Rightarrow> (exn + json) \<times> db" where
  "clear_preference ex params context d =
     (case ebind (require_slot params) (\<lambda>slot.
           ebind (resolve_clear_authorization context) (\<lambda>(account_id, initiator).
           ebind (resolve_customer_memory_binding context params) (\<lambda>(key, _).
           let hit = (\<lambda>r. p_binding_key r = key \<and> p_slot_name r = slot);
               deleted = length (filter hit (db_slots d));
               d1 = d\<lparr>db_slots := filter (\<lambda>r. \<not> hit r) (db_slots d)\<rparr> in
           ebind (insert_audit ex 0 (profile context) account_id ''preference_cleared''
                    (Some ''customer_memory_slot'') (Some slot)
                    [(''slot'', JStr slot), (''binding_key'', JStr key), (''initiator'', JStr initiator)] d1)
             (\<lambda>d2.
           ebind (if initiator = ''customer'' \<and> deleted \<noteq> 0
                  then insert_metric_event ex 1 METRIC_SELF_SERVICE_USAGE True d2 else Inr d2) (\<lambda>d3.
           Inr (JObj [(''binding_key'', JStr key), (''slot'', JStr slot), (''cleared'', JBool True)],
                d3)))))) of
        Inl e \<Rightarrow> (Inl e, d) | Inr (j, d') \<Rightarrow> (Inr j, d'))"

definition slots_of :: "string \<Rightarrow> db \<Rightarrow> (string \<times> string) list" where
  "slots_of key d =
     map (\<lambda>r. (p_slot_name r, p_slot_value r)) (filter (\<lambda>r. p_binding_key r = key) (db_slots d))"

definition get_preferences :: "exec_env \<Rightarrow> dict \<Rightarrow> ctx \<Rightarrow> db \<Rightarrow> (exn + json) \<times> db" where
  "get_preferences ex params context d =
     (ebind (resolve_customer_memory_binding context params) (\<lambda>(key, _).
      Inr (JObj [(''binding_key'', JStr key), (''preferences'', preferences_json (slots_of key d))])), d)"

definition get_my_memory_summary :: "exec_env \<Rightarrow> dict \<Rightarrow> ctx \<Rightarrow> db \<Rightarrow> (exn + json) \<times> db" where
  "get_my_memory_summary ex params context d =
     (ebind (guard (is_verified_customer_identity (identity context)) self_service_refused) (\<lambda>_.
      ebind (resolve_customer_memory_binding context params) (\<lambda>(key, _).
      Inr (JObj [(''preferences'', preferences_json (slots_of key d))]))), d)"

definition dismiss_proposal :: "exec_env \<Rightarrow> dict \<Rightarrow> ctx \<Rightarrow> db \<Rightarrow> (exn + json) \<times> db" where
  "dismiss_proposal ex params context d =
     (case ebind (require_slot params) (\<lambda>slot.
           ebind (require_value params) (\<lambda>v.
           ebind (read_evidence params) (\<lambda>ev.
           ebind (guard (\<not> falsy (user_id context)) dismissal_refused) (\<lambda>_.
           ebind (resolve_customer_memory_binding context params) (\<lambda>(key, _).
           ebind (insert_audit ex 0 (profile context) (user_id context) ''proposal_dismissed''
                    (Some ''customer_memory_slot'') (Some slot)
                    [(''slot'', JStr slot), (''value'', JStr v), (''evidence'', opt_str ev),
                     (''binding_key'', JStr key)] d) (\<lambda>d'.
           Inr (JObj [(''binding_key'', JStr key), (''slot'', JStr slot), (''dismissed'', JBool True)],
                d'))))))) of
        Inl e \<Rightarrow> (Inl e, d) | Inr (j, d') \<Rightarrow> (Inr j, d'))"

definition memory_slot_json :: "slot_row \<Rightarrow> json" where
  "memory_slot_json r =
     JObj [(''slot_name'', JStr (p_slot_name r)), (''slot_value'', JStr (p_slot_value r)),
       (''source'', JStr (p_source r)), (''actor_account_id'', opt_str (p_actor_account_id r)),
       (''evidence'', opt_str (p_evidence r)), (''created_at'', time_json (p_created_at r)),
       (''updated_at'', time_json (p_updated_at r))]"

definition get_memory_audit :: "exec_env \<Rightarrow> dict \<Rightarrow> ctx \<Rightarrow> db \<Rightarrow> (exn + json) \<times> db" where
  "get_memory_audit ex params context d =
     (ebind (resolve_customer_memory_binding context params) (\<lambda>(key, _).
      Inr (JObj [(''binding_key'', JStr key),
        (''slots'', JList (map memory_slot_json
           (sort_key p_slot_name (filter (\<lambda>r. p_binding_key r = key) (db_slots d))))),
        (''audit'', JList (map (\<lambda>a. JObj (audit_json a
              @ [(''actor_username'', actor_username (db_accounts d) (a_account_id a))]))
           (order_desc a_created_at (filter (\<lambda>a. a_target_type a = Some ''customer_memory_slot''
              \<and> (case a_details a of JObj x \<Rightarrow> get x ''binding_key'' = JStr key | _ \<Rightarrow> False))
              (db_audit d)))))])), d)"

definition memory_handlers :: datastore_registry where
  "memory_handlers = [(''toee_customer_memory'',
     [(''upsert_preference'', on_work upsert_preference),
      (''clear_preference'', on_work clear_preference),
      (''get_preferences'', on_work get_preferences),
      (''get_my_memory_summary'', on_work get_my_memory_summary),
      (''dismiss_proposal'', on_work dismiss_proposal),
      (''get_memory_audit'', on_work get_memory_audit)])]"

section \<open>The interface of a memory backend\<close>

record 'w memory_ops =
  mo_upsert :: "dict \<Rightarrow> ctx \<Rightarrow> 'w \<Rightarrow> (exn + json) \<times> 'w"
  mo_clear :: "dict \<Rightarrow> ctx \<Rightarrow> 'w \<Rightarrow> (exn + json) \<times> 'w"
  mo_get :: "dict \<Rightarrow> ctx \<Rightarrow> 'w \<Rightarrow> (exn + json) \<times> 'w"

text \<open>\<open>prefs w key\<close>: the preferences the backend remembers for a binding key.\<close>

locale memory_store =
  fixes ops :: "'w memory_ops"
    and prefs :: "'w \<Rightarrow> string \<Rightarrow> string \<Rightarrow> string option"
  assumes upsert_ok: "mo_upsert ops params c w = (Inr j, w') \<Longrightarrow>
      \<exists>slot v key kd src. require_slot params = Inr slot \<and> require_value params = Inr v
        \<and> resolve_memory_write_source c = Inr src
        \<and> binding_key_from_identity (identity c) = Some (key, kd)
        \<and> prefs w' = (prefs w)(key := (prefs w key)(slot \<mapsto> v))"
    and upsert_error: "mo_upsert ops params c w = (Inl e, w') \<Longrightarrow> prefs w' = prefs w"
    and clear_ok: "mo_clear ops params c w = (Inr j, w') \<Longrightarrow>
      \<exists>slot key kd au. require_slot params = Inr slot \<and> resolve_clear_authorization c = Inr au
        \<and> binding_key_from_identity (identity c) = Some (key, kd)
        \<and> prefs w' = (prefs w)(key := (prefs w key)(slot := None))"
    and clear_error: "mo_clear ops params c w = (Inl e, w') \<Longrightarrow> prefs w' = prefs w"
    and get_ok: "binding_key_from_identity (identity c) = Some (key, kd) \<Longrightarrow>
      \<exists>slots w'. mo_get ops params c w
          = (Inr (JObj [(''binding_key'', JStr key), (''preferences'', preferences_json slots)]), w')
        \<and> map_of slots = prefs w key \<and> prefs w' = prefs w"
    and get_error: "binding_key_from_identity (identity c) = None \<Longrightarrow>
      \<exists>e. mo_get ops params c w = (Inl e, w)"
begin

text \<open>What was written for an identity is what that identity reads, and no other identity sees it.\<close>

lemma read_your_write:
  assumes "mo_upsert ops params c w = (Inr j, w')" and "identity c2 = identity c"
  shows "\<exists>slot v key slots w''. require_slot params = Inr slot \<and> require_value params = Inr v
    \<and> mo_get ops params2 c2 w'
        = (Inr (JObj [(''binding_key'', JStr key), (''preferences'', preferences_json slots)]), w'')
    \<and> map_of slots slot = Some v"
proof -
  from upsert_ok [OF assms(1)] obtain slot v key kd where
    u: "require_slot params = Inr slot" "require_value params = Inr v"
      "binding_key_from_identity (identity c2) = Some (key, kd)"
      "prefs w' = (prefs w)(key := (prefs w key)(slot \<mapsto> v))" using assms(2) by auto
  from get_ok [OF u(3), of params2 w'] obtain slots w'' where
    g: "mo_get ops params2 c2 w'
        = (Inr (JObj [(''binding_key'', JStr key), (''preferences'', preferences_json slots)]), w'')"
      "map_of slots = prefs w' key" by blast
  then have "map_of slots slot = Some v" using u(4) by simp
  with u(1,2) g(1) show ?thesis by blast
qed

lemma write_isolated:
  assumes "mo_upsert ops params c w = (res, w')"
    and "binding_key_from_identity (identity c) \<noteq> None"
    and "fst (the (binding_key_from_identity (identity c))) \<noteq> key"
  shows "prefs w' key = prefs w key"
proof (cases res)
  case (Inl e)
  with upsert_error assms(1) show ?thesis by metis
next
  case (Inr j)
  from upsert_ok [OF assms(1) [unfolded Inr]] assms(3) show ?thesis by auto
qed

lemma cleared_is_gone:
  assumes "mo_clear ops params c w = (Inr j, w')" and "identity c2 = identity c"
  shows "\<exists>slot key slots w''. require_slot params = Inr slot
    \<and> mo_get ops params2 c2 w'
        = (Inr (JObj [(''binding_key'', JStr key), (''preferences'', preferences_json slots)]), w'')
    \<and> map_of slots slot = None"
proof -
  from clear_ok [OF assms(1)] obtain slot key kd where
    u: "require_slot params = Inr slot" "binding_key_from_identity (identity c2) = Some (key, kd)"
      "prefs w' = (prefs w)(key := (prefs w key)(slot := None))" using assms(2) by auto
  from get_ok [OF u(2), of params2 w'] obtain slots w'' where
    g: "mo_get ops params2 c2 w'
        = (Inr (JObj [(''binding_key'', JStr key), (''preferences'', preferences_json slots)]), w'')"
      "map_of slots = prefs w' key" by blast
  then have "map_of slots slot = None" using u(3) by simp
  with u(1) g(1) show ?thesis by blast
qed

end

section \<open>Both backends satisfy it\<close>

definition pg_memory_request :: "string \<Rightarrow> dict \<Rightarrow> request" where
  "pg_memory_request act params =
     \<lparr>rq_tool = ''toee_customer_memory'', rq_action = act, rq_params = params\<rparr>"

definition pg_memory_ops :: "exec_env \<Rightarrow> db memory_ops" where
  "pg_memory_ops ex =
     \<lparr>mo_upsert = (\<lambda>params. postgres_execute memory_handlers ex (pg_memory_request ''upsert_preference'' params)),
      mo_clear = (\<lambda>params. postgres_execute memory_handlers ex (pg_memory_request ''clear_preference'' params)),
      mo_get = (\<lambda>params. postgres_execute memory_handlers ex (pg_memory_request ''get_preferences'' params))\<rparr>"

definition pg_prefs :: "db \<Rightarrow> string \<Rightarrow> string \<Rightarrow> string option" where
  "pg_prefs d key = map_of (slots_of key d)"

definition mock_memory_ops :: "(string \<times> string) list \<Rightarrow> mem_mock memory_ops" where
  "mock_memory_ops preferences = \<lparr>mo_upsert = mock_upsert_preference preferences,
     mo_clear = mock_clear_preference preferences, mo_get = mock_get_preferences preferences\<rparr>"

definition mock_prefs :: "(string \<times> string) list \<Rightarrow> mem_mock \<Rightarrow> string \<Rightarrow> string \<Rightarrow> string option" where
  "mock_prefs preferences s key =
     (case map_of (mm_store s) key of Some slots \<Rightarrow> map_of slots | None \<Rightarrow> map_of preferences)"

lemma pg_memory_ops_handlers:
  "mo_upsert (pg_memory_ops ex) params c d = (case upsert_preference ex params c d of
     (Inr r, w) \<Rightarrow> (Inr r, w) | (Inl e, w) \<Rightarrow> (Inl e, d))"
  "mo_clear (pg_memory_ops ex) params c d = (case clear_preference ex params c d of
     (Inr r, w) \<Rightarrow> (Inr r, w) | (Inl e, w) \<Rightarrow> (Inl e, d))"
  "mo_get (pg_memory_ops ex) params c d = (case get_preferences ex params c d of
     (Inr r, w) \<Rightarrow> (Inr r, w) | (Inl e, w) \<Rightarrow> (Inl e, d))"
  by (simp_all add: pg_memory_ops_def postgres_execute_on_work handler_of_def memory_handlers_def
      pg_memory_request_def)

text \<open>\<open>slot_map slots k\<close>: the map a list of rows gives a binding key, row by row.\<close>

definition slot_map :: "slot_row list \<Rightarrow> string \<Rightarrow> string \<Rightarrow> string option" where
  "slot_map slots k = map_of (map (\<lambda>r. (p_slot_name r, p_slot_value r)) (filter (\<lambda>r. p_binding_key r = k) slots))"

lemma slot_map_Nil: "slot_map [] k s = None"
  and slot_map_Cons: "slot_map (a # xs) k s =
    (if p_binding_key a = k \<and> p_slot_name a = s then Some (p_slot_value a) else slot_map xs k s)"
  by (simp_all add: slot_map_def)

lemma slot_map_append: "slot_map (xs @ [a]) k s = (case slot_map xs k s of Some v \<Rightarrow> Some v
   | None \<Rightarrow> (if p_binding_key a = k \<and> p_slot_name a = s then Some (p_slot_value a) else None))"
  by (induction xs) (simp_all add: slot_map_Nil slot_map_Cons)

lemma slot_map_None: "slot_map xs k s = None \<longleftrightarrow> \<not> list_ex (\<lambda>r. p_binding_key r = k \<and> p_slot_name r = s) xs"
  by (induction xs) (simp_all add: slot_map_Nil slot_map_Cons)

lemma slot_map_update:
  assumes "\<And>r. p_binding_key (f r) = p_binding_key r" "\<And>r. p_slot_name (f r) = p_slot_name r"
    "\<And>r. p_slot_value (f r) = v"
  shows "slot_map (update_where (\<lambda>r. p_binding_key r = key \<and> p_slot_name r = slot) f xs) k s =
    (if (k = key \<and> s = slot) \<and> list_ex (\<lambda>r. p_binding_key r = key \<and> p_slot_name r = slot) xs
     then Some v else slot_map xs k s)"
proof (induction xs)
  case (Cons a xs)
  show ?case
  proof (cases "p_binding_key a = key \<and> p_slot_name a = slot")
    case True
    then have "(p_binding_key a = k \<and> p_slot_name a = s) = (k = key \<and> s = slot)" by auto
    with True Cons show ?thesis by (simp add: table_simps slot_map_Cons assms)
  next
    case False
    then have h: "(p_binding_key a = key \<and> p_slot_name a = slot) = False" by blast
    show ?thesis
    proof (cases "k = key \<and> s = slot")
      case True
      with Cons show ?thesis
        by (simp only: table_simps slot_map_Cons list_ex_Cons_iff h if_False simp_thms)
    next
      case False
      then have "(k = key \<and> s = slot) = False" by blast
      with Cons h show ?thesis by (simp only: table_simps slot_map_Cons if_False simp_thms)
    qed
  qed
qed (simp add: table_simps slot_map_Nil)

lemma slot_map_delete: "slot_map (filter (\<lambda>r. \<not> (p_binding_key r = key \<and> p_slot_name r = slot)) xs) k s =
   (if k = key \<and> s = slot then None else slot_map xs k s)"
proof (induction xs)
  case (Cons a xs)
  show ?case
  proof (cases "p_binding_key a = key \<and> p_slot_name a = slot")
    case True
    then have "(p_binding_key a = k \<and> p_slot_name a = s) = (k = key \<and> s = slot)" by auto
    with True Cons show ?thesis by (simp add: slot_map_Cons)
  next
    case False
    then have h: "(p_binding_key a = key \<and> p_slot_name a = slot) = False" by blast
    show ?thesis
    proof (cases "k = key \<and> s = slot")
      case True
      with Cons show ?thesis by (simp only: filter.simps slot_map_Cons h if_True if_False simp_thms)
    next
      case False
      then have "(k = key \<and> s = slot) = False" by blast
      with Cons h show ?thesis by (simp only: filter.simps slot_map_Cons if_True if_False simp_thms)
    qed
  qed
qed (simp add: slot_map_Nil)

lemma upsert_slot_map:
  assumes "upsert_slot ex key kd slot v source ev actor slots = Inr slots'"
  shows "slot_map slots' = (slot_map slots)(key := (slot_map slots key)(slot \<mapsto> v))"
proof (intro ext)
  fix k s
  show "slot_map slots' k s = ((slot_map slots)(key := (slot_map slots key)(slot \<mapsto> v))) k s"
  proof (cases "list_ex (\<lambda>r. p_binding_key r = key \<and> p_slot_name r = slot) slots")
    case True
    with assms show ?thesis by (auto simp: upsert_slot_def slot_map_update)
  next
    case False
    from False assms obtain r0 where "slots' = slots @ [r0]" "p_binding_key r0 = key" "p_slot_name r0 = slot"
      "p_slot_value r0 = v" by (auto simp: upsert_slot_def pk_insert_Inr)
    moreover have "slot_map slots key slot = None" using False by (simp add: slot_map_None)
    ultimately show ?thesis by (auto simp: slot_map_append split: option.split)
  qed
qed

lemma pg_prefs_slots: "pg_prefs d = slot_map (db_slots d)"
  by (simp add: pg_prefs_def slots_of_def slot_map_def fun_eq_iff)

lemma binding_Inr: "resolve_customer_memory_binding c params = Inr b \<longleftrightarrow> binding_key_from_identity (identity c) = Some b"
  by (simp add: resolve_customer_memory_binding_def split: option.split)

lemma upsert_preference_Inr:
  assumes "upsert_preference ex params c d = (Inr j, d')"
  shows "\<exists>slot v key kd src ev. require_slot params = Inr slot \<and> require_value params = Inr v
        \<and> resolve_memory_write_source c = Inr src \<and> read_evidence params = Inr ev
        \<and> binding_key_from_identity (identity c) = Some (key, kd)
        \<and> upsert_slot ex key kd slot v src ev (user_id c) (db_slots d) = Inr (db_slots d')
        \<and> d' = d\<lparr>db_slots := db_slots d'\<rparr>"
  using assms
  by (auto simp: upsert_preference_def exn_simps binding_Inr split: sum.splits prod.splits)

lemma clear_preference_Inr:
  assumes "clear_preference ex params c d = (Inr j, d')"
  shows "\<exists>slot key kd acc ini. require_slot params = Inr slot
        \<and> resolve_clear_authorization c = Inr (acc, ini)
        \<and> binding_key_from_identity (identity c) = Some (key, kd)
        \<and> db_slots d' = filter (\<lambda>r. \<not> (p_binding_key r = key \<and> p_slot_name r = slot)) (db_slots d)
        \<and> (\<exists>a. db_audit d' = db_audit d @ [a] \<and> a_action a = ''preference_cleared'' \<and> a_account_id a = acc
             \<and> a_target_id a = Some slot)
        \<and> length (db_metrics d') = length (db_metrics d)
            + (if ini = ''customer'' \<and> list_ex (\<lambda>r. p_binding_key r = key \<and> p_slot_name r = slot) (db_slots d)
               then 1 else 0)"
proof -
  from assms obtain slot acc ini key kd d2 where
    r: "require_slot params = Inr slot" "resolve_clear_authorization c = Inr (acc, ini)"
      "binding_key_from_identity (identity c) = Some (key, kd)"
    and au: "insert_audit ex 0 (profile c) acc ''preference_cleared'' (Some ''customer_memory_slot'') (Some slot)
        [(''slot'', JStr slot), (''binding_key'', JStr key), (''initiator'', JStr ini)]
        (d\<lparr>db_slots := filter (\<lambda>r. \<not> (p_binding_key r = key \<and> p_slot_name r = slot)) (db_slots d)\<rparr>) = Inr d2"
    and me: "(if ini = ''customer'' \<and> length (filter (\<lambda>r. p_binding_key r = key \<and> p_slot_name r = slot) (db_slots d)) \<noteq> 0
        then insert_metric_event ex 1 METRIC_SELF_SERVICE_USAGE True d2 else Inr d2) = Inr d'"
    by (auto simp: clear_preference_def exn_simps binding_Inr Let_def split: sum.splits)
  have l: "length (filter (\<lambda>r. p_binding_key r = key \<and> p_slot_name r = slot) (db_slots d)) \<noteq> 0
    \<longleftrightarrow> list_ex (\<lambda>r. p_binding_key r = key \<and> p_slot_name r = slot) (db_slots d)"
    by (simp add: filter_empty_conv list_ex_iff)
  have m: "db_slots d' = db_slots d2" "db_audit d' = db_audit d2" "length (db_metrics d') = length (db_metrics d2)
      + (if ini = ''customer'' \<and> list_ex (\<lambda>r. p_binding_key r = key \<and> p_slot_name r = slot) (db_slots d)
         then 1 else 0)"
    using me unfolding l by (auto simp: insert_metric_event_Inr split: if_splits)
  have "db_slots d' = filter (\<lambda>r. \<not> (p_binding_key r = key \<and> p_slot_name r = slot)) (db_slots d)"
    "length (db_metrics d2) = length (db_metrics d)"
    using au unfolding insert_audit_Inr m(1) by (elim conjE; simp)+
  moreover have "\<exists>a. db_audit d' = db_audit d @ [a] \<and> a_action a = ''preference_cleared''
      \<and> a_account_id a = acc \<and> a_target_id a = Some slot"
    using au unfolding insert_audit_Inr m(2) by (elim conjE) simp
  ultimately show ?thesis using r m(3) by (metis (no_types, lifting))
qed

section \<open>The interpretations\<close>

lemma postgres_result:
  "(case x of (Inr r, w) \<Rightarrow> (Inr r, w) | (Inl e, w) \<Rightarrow> (Inl e, d)) = (Inr j, d') \<longleftrightarrow> x = (Inr j, d')"
  "(case x of (Inr r, w) \<Rightarrow> (Inr r, w) | (Inl e, w) \<Rightarrow> (Inl e, d)) = (Inl e', d') \<Longrightarrow> d' = d"
  by (auto split: prod.splits sum.splits)

lemma slot_map_clear: "slot_map (filter (\<lambda>r. \<not> (p_binding_key r = key \<and> p_slot_name r = slot)) xs)
   = (slot_map xs)(key := (slot_map xs key)(slot := None))"
  by (intro ext) (simp only: slot_map_delete fun_upd_apply, simp)

interpretation pgm: memory_store "pg_memory_ops ex" pg_prefs
proof (unfold_locales, goal_cases)
  case (1 params c d j d')
  then have "upsert_preference ex params c d = (Inr j, d')"
    by (simp only: pg_memory_ops_handlers postgres_result)
  from upsert_preference_Inr [OF this] obtain slot v key kd src ev where
    r: "require_slot params = Inr slot" "require_value params = Inr v"
      "resolve_memory_write_source c = Inr src" "binding_key_from_identity (identity c) = Some (key, kd)"
    and s: "upsert_slot ex key kd slot v src ev (user_id c) (db_slots d) = Inr (db_slots d')"
    by (elim exE conjE) (rule that)
  have "pg_prefs d' = (pg_prefs d)(key := (pg_prefs d key)(slot \<mapsto> v))"
    unfolding pg_prefs_slots using s by (rule upsert_slot_map)
  then show ?case by (intro exI conjI) (rule r)+
next
  case (2 params c d e d')
  from 2 [unfolded pg_memory_ops_handlers] have "d' = d" by (rule postgres_result(2))
  then show ?case by simp
next
  case (3 params c d j d')
  then have "clear_preference ex params c d = (Inr j, d')"
    by (simp only: pg_memory_ops_handlers postgres_result)
  from clear_preference_Inr [OF this] obtain slot key kd acc ini where
    r: "require_slot params = Inr slot" "resolve_clear_authorization c = Inr (acc, ini)"
      "binding_key_from_identity (identity c) = Some (key, kd)"
    and s: "db_slots d' = filter (\<lambda>r. \<not> (p_binding_key r = key \<and> p_slot_name r = slot)) (db_slots d)"
    by (elim exE conjE) (rule that)
  have "pg_prefs d' = (pg_prefs d)(key := (pg_prefs d key)(slot := None))"
    unfolding pg_prefs_slots s by (rule slot_map_clear)
  then show ?case by (intro exI conjI) (rule r)+
next
  case (4 params c d e d')
  from 4 [unfolded pg_memory_ops_handlers] have "d' = d" by (rule postgres_result(2))
  then show ?case by simp
next
  case (5 c key kd params d)
  then show ?case
    by (auto simp: pg_memory_ops_handlers get_preferences_def exn_simps resolve_customer_memory_binding_def pg_prefs_def)
next
  case (6 c params d)
  then show ?case
    by (simp add: pg_memory_ops_handlers get_preferences_def exn_simps resolve_customer_memory_binding_def)
qed

lemma slots_for_prefs: "slots_for prefs key s = (slots, s1) \<Longrightarrow>
   mock_prefs prefs s1 = mock_prefs prefs s \<and> mock_prefs prefs s key = map_of slots"
  by (auto simp: slots_for_def mock_prefs_def fun_eq_iff map_of_AList_update split: option.splits if_splits)

lemma mock_prefs_write: "mock_prefs prefs (s\<lparr>mm_store := AList.update key slots (mm_store s)\<rparr>)
   = (mock_prefs prefs s)(key := map_of slots)"
  by (simp add: mock_prefs_def fun_eq_iff map_of_AList_update)

lemma mock_prefs_evidence: "mock_prefs prefs (s\<lparr>mm_evidence := x\<rparr>) = mock_prefs prefs s"
  by (simp add: mock_prefs_def fun_eq_iff)

lemma mock_upsert_ok:
  assumes "mock_upsert_preference prefs params c w = (Inr j, w')"
  shows "\<exists>slot v key kd src. require_slot params = Inr slot \<and> require_value params = Inr v
        \<and> resolve_memory_write_source c = Inr src
        \<and> binding_key_from_identity (identity c) = Some (key, kd)
        \<and> mock_prefs prefs w' = (mock_prefs prefs w)(key := (mock_prefs prefs w key)(slot \<mapsto> v))"
proof -
  from assms obtain slot v key kd src ev where
    r: "require_slot params = Inr slot" "require_value params = Inr v" "read_evidence params = Inr ev"
      "resolve_memory_write_source c = Inr src" "binding_key_from_identity (identity c) = Some (key, kd)"
    by (auto simp: mock_upsert_preference_def exn_simps binding_Inr split: sum.splits)
  obtain slots s1 where s1: "slots_for prefs key w = (slots, s1)" by fastforce
  have b: "resolve_customer_memory_binding c params = Inr (key, kd)" using r(5) by (simp add: binding_Inr)
  from assms r(1-4) b s1 have "mock_prefs prefs w'
      = mock_prefs prefs (s1\<lparr>mm_store := AList.update key (AList.update slot v slots) (mm_store s1)\<rparr>)"
    by (cases ev) (auto simp: mock_upsert_preference_def exn_simps Let_def mock_prefs_def fun_eq_iff)
  also have "\<dots> = (mock_prefs prefs s1)(key := map_of (AList.update slot v slots))"
    by (rule mock_prefs_write)
  also have "\<dots> = (mock_prefs prefs w)(key := (mock_prefs prefs w key)(slot \<mapsto> v))"
    using slots_for_prefs [OF s1] by (simp add: update_conv')
  finally show ?thesis using r by blast
qed

lemma mock_clear_ok:
  assumes "mock_clear_preference prefs params c w = (Inr j, w')"
  shows "\<exists>slot key kd au. require_slot params = Inr slot \<and> resolve_clear_authorization c = Inr au
        \<and> binding_key_from_identity (identity c) = Some (key, kd)
        \<and> mock_prefs prefs w' = (mock_prefs prefs w)(key := (mock_prefs prefs w key)(slot := None))"
proof -
  from assms obtain slot key kd au where
    r: "require_slot params = Inr slot" "resolve_clear_authorization c = Inr au"
      "binding_key_from_identity (identity c) = Some (key, kd)"
    by (auto simp: mock_clear_preference_def exn_simps binding_Inr split: sum.splits)
  obtain slots s1 where s1: "slots_for prefs key w = (slots, s1)" by fastforce
  have b: "resolve_customer_memory_binding c params = Inr (key, kd)" using r(3) by (simp add: binding_Inr)
  from assms r(1-2) b s1 have "mock_prefs prefs w' = (mock_prefs prefs s1)(key := map_of (AList.delete slot slots))"
    by (simp add: mock_clear_preference_def exn_simps Let_def flip: mock_prefs_write)
  also have "\<dots> = (mock_prefs prefs w)(key := (mock_prefs prefs w key)(slot := None))"
    using slots_for_prefs [OF s1] by (simp add: delete_conv')
  finally show ?thesis using r by blast
qed

interpretation mockm: memory_store "mock_memory_ops prefs" "mock_prefs prefs"
proof (unfold_locales, goal_cases)
  case (1 params c w j w')
  then show ?case using mock_upsert_ok by (simp add: mock_memory_ops_def)
next
  case (2 params c w e w')
  then show ?case
    by (auto simp: mock_memory_ops_def mock_upsert_preference_def Let_def split: sum.splits prod.splits)
next
  case (3 params c w j w')
  then show ?case using mock_clear_ok by (simp add: mock_memory_ops_def)
next
  case (4 params c w e w')
  then show ?case
    by (auto simp: mock_memory_ops_def mock_clear_preference_def Let_def split: sum.splits prod.splits)
next
  case (5 c key kd params w)
  obtain slots s1 where s1: "slots_for prefs key w = (slots, s1)" by fastforce
  with 5 slots_for_prefs [OF s1] show ?case
    by (auto simp: mock_memory_ops_def mock_get_preferences_def resolve_customer_memory_binding_def)
next
  case (6 c params w)
  then show ?case by (simp add: mock_memory_ops_def mock_get_preferences_def resolve_customer_memory_binding_def)
qed

section \<open>Properties\<close>

text \<open>The slot a call names, by \<^verbatim>\<open>key\<close> or, without one, by \<^verbatim>\<open>slot\<close>.\<close>

definition names_slot :: "dict \<Rightarrow> string \<Rightarrow> bool" where
  "names_slot params slot \<longleftrightarrow>
     get params ''key'' = JStr slot \<or> get params ''key'' = JNull \<and> get params ''slot'' = JStr slot"

lemma require_slot_names: "require_slot params = Inr slot \<Longrightarrow> names_slot params slot"
  by (auto simp: require_slot_def names_slot_def is_preference_slot_def Let_def split: json.splits if_splits)

lemma require_value_given: "require_value params = Inr v \<Longrightarrow> get params ''value'' = JStr v"
  by (auto simp: require_value_def split: json.splits if_splits)

text \<open>C22.  A preference that was stored for an identity is what the next read for that identity
  returns, and one that was cleared is gone from it; on Postgres and on the mock alike.\<close>

theorem memory_read_your_write:
  assumes "identity c2 = identity c"
  shows "(mo_upsert (pg_memory_ops ex) params c d = (Inr j, d') \<longrightarrow>
      (\<exists>slot v key slots d''. names_slot params slot \<and> get params ''value'' = JStr v
        \<and> mo_get (pg_memory_ops ex2) params2 c2 d'
            = (Inr (JObj [(''binding_key'', JStr key), (''preferences'', preferences_json slots)]), d'')
        \<and> map_of slots slot = Some v))
    \<and> (mo_upsert (mock_memory_ops seed) params c m = (Inr j, m') \<longrightarrow>
      (\<exists>slot v key slots m''. names_slot params slot \<and> get params ''value'' = JStr v
        \<and> mo_get (mock_memory_ops seed) params2 c2 m'
            = (Inr (JObj [(''binding_key'', JStr key), (''preferences'', preferences_json slots)]), m'')
        \<and> map_of slots slot = Some v))
    \<and> (mo_clear (pg_memory_ops ex) params c d = (Inr j, d') \<longrightarrow>
      (\<exists>slot key slots d''. names_slot params slot
        \<and> mo_get (pg_memory_ops ex2) params2 c2 d'
            = (Inr (JObj [(''binding_key'', JStr key), (''preferences'', preferences_json slots)]), d'')
        \<and> map_of slots slot = None))
    \<and> (mo_clear (mock_memory_ops seed) params c m = (Inr j, m') \<longrightarrow>
      (\<exists>slot key slots m''. names_slot params slot
        \<and> mo_get (mock_memory_ops seed) params2 c2 m'
            = (Inr (JObj [(''binding_key'', JStr key), (''preferences'', preferences_json slots)]), m'')
        \<and> map_of slots slot = None))"
proof (intro conjI impI)
  have ex: "mo_get (pg_memory_ops ex2) = mo_get (pg_memory_ops ex)"
    by (simp add: pg_memory_ops_handlers fun_eq_iff get_preferences_def)
  show "mo_upsert (pg_memory_ops ex) params c d = (Inr j, d') \<Longrightarrow>
      \<exists>slot v key slots d''. names_slot params slot \<and> get params ''value'' = JStr v
        \<and> mo_get (pg_memory_ops ex2) params2 c2 d'
            = (Inr (JObj [(''binding_key'', JStr key), (''preferences'', preferences_json slots)]), d'')
        \<and> map_of slots slot = Some v"
    unfolding ex using pgm.read_your_write [OF _ assms] require_slot_names require_value_given by meson
  show "mo_upsert (mock_memory_ops seed) params c m = (Inr j, m') \<Longrightarrow>
      \<exists>slot v key slots m''. names_slot params slot \<and> get params ''value'' = JStr v
        \<and> mo_get (mock_memory_ops seed) params2 c2 m'
            = (Inr (JObj [(''binding_key'', JStr key), (''preferences'', preferences_json slots)]), m'')
        \<and> map_of slots slot = Some v"
    using mockm.read_your_write [OF _ assms] require_slot_names require_value_given by meson
  show "mo_clear (pg_memory_ops ex) params c d = (Inr j, d') \<Longrightarrow>
      \<exists>slot key slots d''. names_slot params slot
        \<and> mo_get (pg_memory_ops ex2) params2 c2 d'
            = (Inr (JObj [(''binding_key'', JStr key), (''preferences'', preferences_json slots)]), d'')
        \<and> map_of slots slot = None"
    unfolding ex using pgm.cleared_is_gone [OF _ assms] require_slot_names by meson
  show "mo_clear (mock_memory_ops seed) params c m = (Inr j, m') \<Longrightarrow>
      \<exists>slot key slots m''. names_slot params slot
        \<and> mo_get (mock_memory_ops seed) params2 c2 m'
            = (Inr (JObj [(''binding_key'', JStr key), (''preferences'', preferences_json slots)]), m'')
        \<and> map_of slots slot = None"
    using mockm.cleared_is_gone [OF _ assms] require_slot_names by meson
qed

definition sample_ctx :: "string \<Rightarrow> ctx" where
  "sample_ctx customer = context_provider EXTERNAL (Some (JObj [(''outcome'', JStr ''verified_customer''),
     (''shopify_customer_id'', JStr customer)])) None None []"

definition tone_params :: dict where
  "tone_params = [(''key'', JStr (hd MEMORY_PREFERENCE_SLOTS)), (''value'', JStr ''warm'')]"

lemma tone_stored: "\<exists>j d'. mo_upsert (pg_memory_ops \<lparr>ee_now = 0, ee_hex = \<lambda>n. replicate n CHR ''0''\<rparr>) tone_params
   (sample_ctx ''gid'') empty_db = (Inr j, d')"
  by (simp add: pg_memory_ops_handlers upsert_preference_def tone_params_def sample_ctx_def context_provider_def
      require_slot_def require_value_def read_evidence_def is_preference_slot_def MEMORY_PREFERENCE_SLOTS_def
      dict_simps exn_simps Let_def resolve_memory_write_source_def resolve_customer_memory_binding_def
      binding_key_from_identity_def is_verified_customer_identity_def upsert_slot_def pk_insert_def empty_db_def
      MEMORY_VALUE_MAX_LENGTH_def)

theorem memory_read_your_write_witness:
  "\<exists>d' slot key slots d''. mo_get (pg_memory_ops \<lparr>ee_now = 5, ee_hex = \<lambda>n. []\<rparr>) [] (sample_ctx ''gid'') d'
     = (Inr (JObj [(''binding_key'', JStr key), (''preferences'', preferences_json slots)]), d'')
     \<and> map_of slots slot = Some ''warm''"
proof -
  obtain j d' where u: "mo_upsert (pg_memory_ops \<lparr>ee_now = 0, ee_hex = \<lambda>n. replicate n CHR ''0''\<rparr>) tone_params
   (sample_ctx ''gid'') empty_db = (Inr j, d')" using tone_stored by blast
  have v: "get tone_params ''value'' = JStr ''warm''" by (simp add: tone_params_def dict_simps)
  from memory_read_your_write [OF refl, of "\<lparr>ee_now = 0, ee_hex = \<lambda>n. replicate n CHR ''0''\<rparr>" tone_params "sample_ctx ''gid''"]
    u v show ?thesis by fastforce
qed

text \<open>Storing a preference, successfully or not, leaves every other customer's preferences as
  they were, on both backends.\<close>

theorem memory_write_isolated:
  assumes "binding_key_from_identity (identity c) = Some (own, kd)" and "key \<noteq> own"
  shows "pg_prefs (snd (mo_upsert (pg_memory_ops ex) params c d)) key = pg_prefs d key
    \<and> mock_prefs seed (snd (mo_upsert (mock_memory_ops seed) params c m)) key = mock_prefs seed m key"
proof
  obtain r d' where "mo_upsert (pg_memory_ops ex) params c d = (r, d')" by force
  with pgm.write_isolated [OF this, of key] assms
  show "pg_prefs (snd (mo_upsert (pg_memory_ops ex) params c d)) key = pg_prefs d key" by simp
next
  obtain r m' where "mo_upsert (mock_memory_ops seed) params c m = (r, m')" by force
  with mockm.write_isolated [OF this, of key] assms
  show "mock_prefs seed (snd (mo_upsert (mock_memory_ops seed) params c m)) key = mock_prefs seed m key" by simp
qed

theorem memory_write_isolated_witness:
  "pg_prefs (snd (mo_upsert (pg_memory_ops \<lparr>ee_now = 0, ee_hex = \<lambda>n. []\<rparr>) tone_params (sample_ctx ''gid'') empty_db)) ''other''
     = pg_prefs empty_db ''other''"
proof -
  have "binding_key_from_identity (identity (sample_ctx ''gid'')) = Some (''gid'', ''verified'')" by code_simp
  from memory_write_isolated [OF this, of "''other''"] show ?thesis by simp
qed

end
