(* ===== verification/ExperienceHandlers.thy ===== *)
theory ExperienceHandlers
  imports Datastore ExperiencePolicy
begin

text \<open>
  The L6 agent-experience store: the Postgres handlers (\<^verbatim>\<open>datastore/handlers/agent_experience.py\<close>) and
  their in-memory twin (\<^verbatim>\<open>drivers/mock/agent_experience.py\<close>).  The locale \<open>experience_store\<close> is the
  review discipline both promise: an entry appears only as a scanned proposal, and moves once, by an
  attributed decision.
\<close>

section \<open>The Postgres handlers\<close>

definition experience_json :: "experience_row \<Rightarrow> json" where
  "experience_json r =
     JObj [(''id'', JStr (e_id r)), (''kind'', JStr (e_kind r)), (''status'', JStr (e_status r)),
       (''content'', JStr (e_content r)), (''source'', JStr (e_source r)),
       (''proposer_context'', e_proposer_context r),
       (''decider_account_id'', opt_str (e_decider_account_id r)),
       (''decided_at'', opt_time (e_decided_at r)), (''created_at'', time_json (e_created_at r)),
       (''updated_at'', time_json (e_updated_at r))]"

definition propose_experience :: "exec_env \<Rightarrow> dict \<Rightarrow> ctx \<Rightarrow> db \<Rightarrow> (exn + json) \<times> db" where
  "propose_experience ex params context d =
     (case ebind (require_kind params) (\<lambda>ekind.
           ebind (require_content params) (\<lambda>content.
           ebind (read_proposer_context params) (\<lambda>pc.
           ebind (scan_agent_experience_content (content # context_strings pc)) (\<lambda>_.
           ebind (resolve_agent_experience_source context) (\<lambda>source.
           let entry_id = new_id ''aexp'' ex 0 in
           ebind (pk_insert e_id \<lparr>e_id = entry_id, e_kind = ekind, e_status = ''proposed'',
                    e_content = content, e_source = source,
                    e_proposer_context = JObj (case pc of None \<Rightarrow> [] | Some x \<Rightarrow> x),
                    e_decider_account_id = None, e_decided_at = None,
                    e_created_at = ee_now ex, e_updated_at = ee_now ex\<rparr> (db_experience d)) (\<lambda>rows.
           ebind (insert_audit ex 1 (profile context) (user_id context) ''agent_experience_proposed''
                    (Some ''agent_experience'') (Some entry_id)
                    [(''kind'', JStr ekind), (''source'', JStr source)] (d\<lparr>db_experience := rows\<rparr>)) (\<lambda>d'.
           Inr (JObj [(''id'', JStr entry_id), (''kind'', JStr ekind), (''status'', JStr ''proposed''),
              (''content'', JStr content), (''source'', JStr source), (''proposed'', JBool True)],
              d')))))))) of
        Inl e \<Rightarrow> (Inl e, d) | Inr (j, d') \<Rightarrow> (Inr j, d'))"

definition list_agent_experience :: "exec_env \<Rightarrow> dict \<Rightarrow> ctx \<Rightarrow> db \<Rightarrow> (exn + json) \<times> db" where
  "list_agent_experience ex params context d =
     (Inr (JObj [(''entries'', JList (map experience_json (order_desc e_created_at (db_experience d))))]), d)"

definition entry_not_found :: "string \<Rightarrow> exn" where
  "entry_not_found entry_id = ToolDriverError Not_found
     (''agent_experience entry \"'' @ entry_id @ ''\" not found.'')"

definition decided_row :: "exec_env \<Rightarrow> string \<Rightarrow> string \<Rightarrow> experience_row \<Rightarrow> experience_row" where
  "decided_row ex new_status decider r =
     r\<lparr>e_status := new_status, e_decider_account_id := Some decider, e_decided_at := Some (ee_now ex),
       e_updated_at := ee_now ex\<rparr>"

definition decide_experience ::
  "string \<Rightarrow> string \<Rightarrow> exec_env \<Rightarrow> dict \<Rightarrow> ctx \<Rightarrow> db \<Rightarrow> (exn + json) \<times> db" where
  "decide_experience new_status audit_action ex params context d =
     (case ebind (require_id params) (\<lambda>entry_id.
           ebind (resolve_experience_decision_authorization context) (\<lambda>decider.
           let hit = (\<lambda>r. e_id r = entry_id \<and> e_status r = ''proposed'') in
           case List.find hit (db_experience d) of
             None \<Rightarrow>
               (case List.find (\<lambda>r. e_id r = entry_id) (db_experience d) of
                  None \<Rightarrow> Inl (entry_not_found entry_id)
                | Some existing \<Rightarrow> Inr (experience_json existing, d))
           | Some row \<Rightarrow>
               ebind (insert_audit ex 0 (profile context) (Some decider) audit_action
                        (Some ''agent_experience'') (Some entry_id) [(''status'', JStr new_status)]
                        (d\<lparr>db_experience := update_where hit (decided_row ex new_status decider)
                             (db_experience d)\<rparr>)) (\<lambda>d2.
               ebind (if new_status = ''confirmed'' then insert_metric_event ex 1 METRIC_L6_CONFIRMED True d2
                      else Inr d2) (\<lambda>d3.
               Inr (experience_json (decided_row ex new_status decider row), d3))))) of
        Inl e \<Rightarrow> (Inl e, d) | Inr (j, d') \<Rightarrow> (Inr j, d'))"

definition confirm_experience :: "exec_env \<Rightarrow> dict \<Rightarrow> ctx \<Rightarrow> db \<Rightarrow> (exn + json) \<times> db" where
  "confirm_experience = decide_experience ''confirmed'' ''agent_experience_confirmed''"

definition reject_experience :: "exec_env \<Rightarrow> dict \<Rightarrow> ctx \<Rightarrow> db \<Rightarrow> (exn + json) \<times> db" where
  "reject_experience = decide_experience ''rejected'' ''agent_experience_rejected''"

definition agent_experience_handlers :: datastore_registry where
  "agent_experience_handlers = [(''toee_agent_experience'',
     [(''propose_experience'', on_work propose_experience),
      (''list_agent_experience'', on_work list_agent_experience),
      (''confirm_experience'', on_work confirm_experience),
      (''reject_experience'', on_work reject_experience)])]"

section \<open>The mock handlers\<close>

record mock_experience =
  mx_id :: string
  mx_kind :: string
  mx_status :: string
  mx_content :: string
  mx_source :: string
  mx_proposer_context :: "dict option"
  mx_decider_account_id :: "string option"
  mx_decided_at :: "string option"

definition mock_experience_dict :: "mock_experience \<Rightarrow> dict" where
  "mock_experience_dict r =
     [(''id'', JStr (mx_id r)), (''kind'', JStr (mx_kind r)), (''status'', JStr (mx_status r)),
      (''content'', JStr (mx_content r)), (''source'', JStr (mx_source r)),
      (''proposer_context'', case mx_proposer_context r of None \<Rightarrow> JNull | Some x \<Rightarrow> JObj x),
      (''decider_account_id'', opt_str (mx_decider_account_id r)),
      (''decided_at'', opt_str (mx_decided_at r))]"

definition mock_propose_experience ::
  "exec_env \<Rightarrow> dict \<Rightarrow> ctx \<Rightarrow> mock_experience list \<Rightarrow> (exn + json) \<times> mock_experience list" where
  "mock_propose_experience ex params context store =
     (case ebind (require_kind params) (\<lambda>ekind.
           ebind (require_content params) (\<lambda>content.
           ebind (read_proposer_context params) (\<lambda>pc.
           ebind (scan_agent_experience_content (content # context_strings pc)) (\<lambda>_.
           ebind (resolve_agent_experience_source context) (\<lambda>source.
           Inr \<lparr>mx_id = ''aexp_'' @ show_int (int (length store) + 1), mx_kind = ekind,
                mx_status = ''proposed'', mx_content = content, mx_source = source,
                mx_proposer_context = pc, mx_decider_account_id = None, mx_decided_at = None\<rparr>))))) of
        Inl e \<Rightarrow> (Inl e, store)
      | Inr entry \<Rightarrow> (Inr (JObj (mock_experience_dict entry @ [(''proposed'', JBool True)])), store @ [entry]))"

fun mock_decide_loop ::
  "exec_env \<Rightarrow> string \<Rightarrow> string \<Rightarrow> string \<Rightarrow> mock_experience list
     \<Rightarrow> (exn + json) \<times> mock_experience list" where
  "mock_decide_loop ex entry_id decider new_status [] = (Inl (entry_not_found entry_id), [])"
| "mock_decide_loop ex entry_id decider new_status (entry # rest) =
     (if mx_id entry = entry_id
      then let entry' = (if mx_status entry = ''proposed''
             then entry\<lparr>mx_status := new_status, mx_decider_account_id := Some decider,
                        mx_decided_at := Some (isoformat (ee_now ex))\<rparr> else entry)
           in (Inr (JObj (mock_experience_dict entry')), entry' # rest)
      else let (res, rest') = mock_decide_loop ex entry_id decider new_status rest
           in (res, entry # rest'))"

definition mock_decide ::
  "string \<Rightarrow> exec_env \<Rightarrow> dict \<Rightarrow> ctx \<Rightarrow> mock_experience list
     \<Rightarrow> (exn + json) \<times> mock_experience list" where
  "mock_decide new_status ex params context store =
     (case ebind (require_id params) (\<lambda>entry_id.
           ebind (resolve_experience_decision_authorization context) (\<lambda>decider.
           Inr (entry_id, decider))) of
        Inl e \<Rightarrow> (Inl e, store)
      | Inr (entry_id, decider) \<Rightarrow> mock_decide_loop ex entry_id decider new_status store)"

definition mock_list_agent_experience ::
  "exec_env \<Rightarrow> dict \<Rightarrow> ctx \<Rightarrow> mock_experience list \<Rightarrow> (exn + json) \<times> mock_experience list" where
  "mock_list_agent_experience ex params context store =
     (Inr (JObj [(''entries'', JList (map (JObj \<circ> mock_experience_dict) store))]), store)"

definition mock_experience_actions ::
  "(string \<times> (exec_env \<Rightarrow> dict \<Rightarrow> ctx \<Rightarrow> mock_experience list \<Rightarrow> (exn + json) \<times> mock_experience list)) list" where
  "mock_experience_actions =
     [(''propose_experience'', mock_propose_experience),
      (''list_agent_experience'', mock_list_agent_experience),
      (''confirm_experience'', mock_decide ''confirmed''),
      (''reject_experience'', mock_decide ''rejected'')]"

definition mock_experience_handlers :: "exec_env \<Rightarrow> mock_experience list handler_registry" where
  "mock_experience_handlers ex = [(''toee_agent_experience'',
     map (\<lambda>(a, h). (a, h ex)) mock_experience_actions)]"

section \<open>The review discipline\<close>

type_synonym 'w experience_driver = "exec_env \<Rightarrow> string \<Rightarrow> dict \<Rightarrow> ctx \<Rightarrow> 'w \<Rightarrow> (exn + json) \<times> 'w"

type_synonym experience_call = "exec_env \<times> string \<times> dict \<times> ctx"

definition experience_request :: "string \<Rightarrow> dict \<Rightarrow> request" where
  "experience_request act params =
     \<lparr>rq_tool = ''toee_agent_experience'', rq_action = act, rq_params = params\<rparr>"

definition pg_experience :: "db experience_driver" where
  "pg_experience ex act params c d =
     postgres_execute agent_experience_handlers ex (experience_request act params) c d"

definition mock_experience_call :: "mock_experience list experience_driver" where
  "mock_experience_call ex act params c s =
     mock_driver_execute (mock_experience_handlers ex) (experience_request act params) c s"

text \<open>Status, decider and content of an entry.\<close>

type_synonym review = "string \<times> string option \<times> string"

definition pg_entry :: "db \<Rightarrow> string \<Rightarrow> review option" where
  "pg_entry d i = map_option (\<lambda>r. (e_status r, e_decider_account_id r, e_content r))
     (List.find (\<lambda>r. e_id r = i) (db_experience d))"

definition mock_entry :: "mock_experience list \<Rightarrow> string \<Rightarrow> review option" where
  "mock_entry s i = map_option (\<lambda>r. (mx_status r, mx_decider_account_id r, mx_content r))
     (List.find (\<lambda>r. mx_id r = i) s)"

definition decision_status :: "string \<Rightarrow> string option" where
  "decision_status act = (if act = ''confirm_experience'' then Some ''confirmed''
     else if act = ''reject_experience'' then Some ''rejected'' else None)"

fun run_experience :: "'w experience_driver \<Rightarrow> experience_call list \<Rightarrow> 'w \<Rightarrow> 'w" where
  "run_experience call [] w = w"
| "run_experience call ((ex, act, params, c) # xs) w = run_experience call xs (snd (call ex act params c w))"

definition decides :: "ctx \<Rightarrow> dict \<Rightarrow> string \<Rightarrow> string \<Rightarrow> bool" where
  "decides c params i decider \<longleftrightarrow> profile c = ''internal_copilot'' \<and> user_id c = Some decider \<and> decider \<noteq> []
     \<and> get params ''id'' = JStr i \<and> py_strip i \<noteq> []"

lemma decides_iff: "decides c params i decider \<longleftrightarrow>
    require_id params = Inr i \<and> resolve_experience_decision_authorization c = Inr decider"
  by (auto simp: decides_def require_id_def resolve_experience_decision_authorization_def INTERNAL_def falsy_def
      split: json.splits option.splits if_splits)

locale experience_store =
  fixes call :: "'w experience_driver"
    and entry :: "'w \<Rightarrow> string \<Rightarrow> review option"
    and fresh :: "exec_env \<Rightarrow> 'w \<Rightarrow> bool"
  assumes steps: "entry (snd (call ex act params c w)) i = entry w i
      \<or> (entry w i = None \<and> act = ''propose_experience''
         \<and> (\<exists>content. entry (snd (call ex act params c w)) i = Some (''proposed'', None, content)
              \<and> scan_agent_experience_content [content] = Inr ()))
      \<or> (\<exists>dec content st decider. entry w i = Some (''proposed'', dec, content)
           \<and> decision_status act = Some st \<and> decides c params i decider
           \<and> entry (snd (call ex act params c w)) i = Some (st, Some decider, content))"
    and decision: "entry w i = Some (''proposed'', dec, content) \<Longrightarrow> decision_status act = Some st \<Longrightarrow>
      decides c params i decider \<Longrightarrow> fresh ex w \<Longrightarrow>
      \<exists>j w'. call ex act params c w = (Inr j, w') \<and> entry w' i = Some (st, Some decider, content)"
begin

lemma decided_forever:
  assumes "entry w i = Some (st, dec, content)" and "st \<noteq> ''proposed''"
  shows "entry (run_experience call xs w) i = Some (st, dec, content)"
  using assms(1)
proof (induction xs arbitrary: w)
  case (Cons x xs)
  obtain ex act params c where x: "x = (ex, act, params, c)" by (cases x)
  have "entry (snd (call ex act params c w)) i = Some (st, dec, content)"
    using steps [of ex act params c w i] Cons.prems assms(2) by auto
  with Cons.IH show ?case by (simp add: x)
qed simp

definition reviewed :: "experience_call list \<Rightarrow> 'w \<Rightarrow> bool" where
  "reviewed xs w \<longleftrightarrow> (\<forall>i st dec content. entry w i = Some (st, dec, content) \<longrightarrow>
     scan_agent_experience_content [content] = Inr ()
     \<and> (st = ''proposed'' \<and> dec = None
        \<or> (\<exists>(ex, act, params, c) \<in> set xs. \<exists>decider. decision_status act = Some st
              \<and> decides c params i decider \<and> dec = Some decider)))"

lemma reviewed_run: "reviewed ys w \<Longrightarrow> reviewed (ys @ xs) (run_experience call xs w)"
proof (induction xs arbitrary: ys w)
  case (Cons x xs)
  obtain ex act params c where x: "x = (ex, act, params, c)" by (cases x)
  have "reviewed (ys @ [x]) (snd (call ex act params c w))"
    unfolding reviewed_def
  proof (intro allI impI)
    fix i st dec content
    assume e: "entry (snd (call ex act params c w)) i = Some (st, dec, content)"
    consider "entry w i = Some (st, dec, content)"
      | "st = ''proposed''" "dec = None" "scan_agent_experience_content [content] = Inr ()"
      | dec0 decider where "entry w i = Some (''proposed'', dec0, content)" "decision_status act = Some st"
          "decides c params i decider" "dec = Some decider"
      using steps [of ex act params c w i] e by auto
    then show "scan_agent_experience_content [content] = Inr ()
      \<and> (st = ''proposed'' \<and> dec = None
         \<or> (\<exists>(ex, act, params, c) \<in> set (ys @ [x]). \<exists>decider. decision_status act = Some st
               \<and> decides c params i decider \<and> dec = Some decider))"
    proof cases
      case 1
      with Cons.prems show ?thesis by (fastforce simp: reviewed_def)
    next
      case 2
      then show ?thesis by blast
    next
      case 3
      then have "scan_agent_experience_content [content] = Inr ()"
        using Cons.prems by (auto simp: reviewed_def)
      moreover have "\<exists>(ex, act, params, c) \<in> set (ys @ [x]). \<exists>decider. decision_status act = Some st
               \<and> decides c params i decider \<and> dec = Some decider"
        using 3 by (auto simp: x)
      ultimately show ?thesis by blast
    qed
  qed
  from Cons.IH [OF this] show ?case by (simp add: x)
qed simp

lemma only_reviewed_entries:
  assumes "\<And>i. entry w i = None" and "entry (run_experience call xs w) i = Some (st, dec, content)"
  shows "scan_agent_experience_content [content] = Inr ()
    \<and> (st = ''proposed'' \<and> dec = None
       \<or> (\<exists>(ex, act, params, c) \<in> set xs. \<exists>decider. decision_status act = Some st
             \<and> decides c params i decider \<and> dec = Some decider))"
proof -
  have "reviewed [] w" using assms(1) by (simp add: reviewed_def)
  from reviewed_run [OF this, of xs] have "reviewed xs (run_experience call xs w)" by simp
  then show ?thesis using assms(2) unfolding reviewed_def by blast
qed

end

section \<open>Both backends keep it\<close>

lemma scan_Cons_Inr: "scan_agent_experience_content (t # ts) = Inr () \<Longrightarrow> scan_agent_experience_content [t] = Inr ()"
  unfolding scan_agent_experience_content_iff by auto

lemma propose_experience_Inr:
  assumes "propose_experience ex params c d = (Inr j, d')"
  shows "\<exists>row. db_experience d' = db_experience d @ [row] \<and> e_id row \<notin> e_id ` set (db_experience d)
     \<and> e_status row = ''proposed'' \<and> e_decider_account_id row = None
     \<and> scan_agent_experience_content [e_content row] = Inr ()"
proof -
  from assms obtain ekind content pc source rows where
    s: "scan_agent_experience_content (content # context_strings pc) = Inr ()"
    and p: "pk_insert e_id \<lparr>e_id = new_id ''aexp'' ex 0, e_kind = ekind, e_status = ''proposed'',
       e_content = content, e_source = source,
       e_proposer_context = JObj (case pc of None \<Rightarrow> [] | Some x \<Rightarrow> x), e_decider_account_id = None,
       e_decided_at = None, e_created_at = ee_now ex, e_updated_at = ee_now ex\<rparr> (db_experience d) = Inr rows"
    and a: "insert_audit ex 1 (profile c) (user_id c) ''agent_experience_proposed''
                    (Some ''agent_experience'') (Some (new_id ''aexp'' ex 0))
                    [(''kind'', JStr ekind), (''source'', JStr source)] (d\<lparr>db_experience := rows\<rparr>) = Inr d'"
    by (auto simp: propose_experience_def exn_simps Let_def split: sum.splits prod.splits)
  from a have "db_experience d' = rows" unfolding insert_audit_Inr by simp
  with p scan_Cons_Inr [OF s] show ?thesis
    unfolding pk_insert_Inr by (simp del: scan_agent_experience_content.simps)
qed

lemma decide_experience_Inr:
  assumes "decide_experience st act ex params c d = (Inr j, d')"
  shows "\<exists>i decider. decides c params i decider
     \<and> (db_experience d' = db_experience d
        \<or> db_experience d' = update_where (\<lambda>r. e_id r = i \<and> e_status r = ''proposed'')
             (decided_row ex st decider) (db_experience d))"
proof -
  from assms obtain i decider where d: "decides c params i decider"
    by (auto simp: decide_experience_def decides_iff exn_simps split: sum.splits)
  then have r: "require_id params = Inr i" "resolve_experience_decision_authorization c = Inr decider"
    by (simp_all add: decides_iff)
  show ?thesis
  proof (cases "List.find (\<lambda>r. e_id r = i \<and> e_status r = ''proposed'') (db_experience d)")
    case None
    with assms r have "d' = d" by (auto simp: decide_experience_def exn_simps split: option.splits)
    with d show ?thesis by blast
  next
    case (Some row)
    let ?d1 = "d\<lparr>db_experience := update_where (\<lambda>r. e_id r = i \<and> e_status r = ''proposed'')
             (decided_row ex st decider) (db_experience d)\<rparr>"
    from Some assms r obtain d2 where
      a: "insert_audit ex 0 (profile c) (Some decider) act (Some ''agent_experience'') (Some i)
        [(''status'', JStr st)] ?d1 = Inr d2"
      and m: "(if st = ''confirmed'' then insert_metric_event ex 1 METRIC_L6_CONFIRMED True d2 else Inr d2) = Inr d'"
      by (auto simp: decide_experience_def exn_simps split: sum.splits)
    from a have "db_experience d2 = db_experience ?d1" unfolding insert_audit_Inr by simp
    moreover from m have "db_experience d' = db_experience d2"
      by (auto simp: insert_metric_event_Inr split: if_splits)
    ultimately show ?thesis using d by auto
  qed
qed

lemma pg_experience_calls:
  "pg_experience ex ''propose_experience'' params c d = (case propose_experience ex params c d of
     (Inr r, w) \<Rightarrow> (Inr r, w) | (Inl e, w) \<Rightarrow> (Inl e, d))"
  "decision_status act = Some st \<Longrightarrow> pg_experience ex act params c d
     = (case decide_experience st (if st = ''confirmed'' then ''agent_experience_confirmed''
               else ''agent_experience_rejected'') ex params c d of
     (Inr r, w) \<Rightarrow> (Inr r, w) | (Inl e, w) \<Rightarrow> (Inl e, d))"
  "decision_status act = None \<Longrightarrow> act \<noteq> ''propose_experience'' \<Longrightarrow> snd (pg_experience ex act params c d) = d"
  by (simp_all add: pg_experience_def experience_request_def agent_experience_handlers_def decision_status_def
      postgres_execute_on_work handler_of_def confirm_experience_def reject_experience_def split: if_splits)
   (simp add: postgres_execute_def list_agent_experience_def on_work_def commit_def)

lemma pg_entry_append: "db_experience d' = db_experience d @ [row] \<Longrightarrow>
   pg_entry d' i = (case pg_entry d i of Some x \<Rightarrow> Some x
     | None \<Rightarrow> (if e_id row = i then Some (e_status row, e_decider_account_id row, e_content row) else None))"
  by (simp add: pg_entry_def find_append split: option.split)

lemma pg_entry_decided:
  assumes "db_experience d' = update_where (\<lambda>r. e_id r = k \<and> e_status r = ''proposed'')
             (decided_row ex st decider) (db_experience d)"
  shows "pg_entry d' i = (case pg_entry d i of None \<Rightarrow> None
     | Some (st0, dec, content) \<Rightarrow> (if i = k \<and> st0 = ''proposed'' then Some (st, Some decider, content)
                                else Some (st0, dec, content)))"
proof -
  have "map_option (\<lambda>r. (e_status r, e_decider_account_id r, e_content r))
      (List.find (\<lambda>r. e_id r = i) (update_where (\<lambda>r. e_id r = k \<and> e_status r = ''proposed'')
             (decided_row ex st decider) rows))
    = (case map_option (\<lambda>r. (e_status r, e_decider_account_id r, e_content r))
         (List.find (\<lambda>r. e_id r = i) rows) of None \<Rightarrow> None
     | Some (st0, dec, content) \<Rightarrow> (if i = k \<and> st0 = ''proposed'' then Some (st, Some decider, content)
                                else Some (st0, dec, content)))" for rows
  proof (induction rows)
    case (Cons r rows)
    show ?case
    proof (cases "e_id r = i")
      case True
      then show ?thesis by (cases "i = k"; cases "e_status r = ''proposed''")
        (simp_all add: table_simps decided_row_def)
    next
      case False
      then have e: "(e_id (if e_id r = k \<and> e_status r = ''proposed'' then decided_row ex st decider r else r) = i)
        = False" by (auto simp: decided_row_def)
      from Cons False show ?thesis by (simp only: table_simps find.simps e if_False)
    qed
  qed (simp add: table_simps)
  then show ?thesis by (simp add: pg_entry_def assms)
qed

lemma pg_entry_same: "db_experience d' = db_experience d \<Longrightarrow> pg_entry d' i = pg_entry d i"
  by (simp add: pg_entry_def)

lemma decision_status_propose: "decision_status ''propose_experience'' = None"
  by (simp add: decision_status_def)

lemma pg_propose_step:
  "pg_entry (snd (pg_experience ex ''propose_experience'' params c d)) i = pg_entry d i
    \<or> pg_entry d i = None
      \<and> (\<exists>content. pg_entry (snd (pg_experience ex ''propose_experience'' params c d)) i
             = Some (''proposed'', None, content) \<and> scan_agent_experience_content [content] = Inr ())"
proof (cases "propose_experience ex params c d")
  case (Pair res d')
  show ?thesis
  proof (cases res)
    case (Inl e)
    with Pair show ?thesis by (simp add: pg_experience_calls)
  next
    case (Inr j)
    from propose_experience_Inr [OF Pair [unfolded Inr]] obtain row where
      r: "db_experience d' = db_experience d @ [row]" "e_status row = ''proposed''"
        "e_decider_account_id row = None" "scan_agent_experience_content [e_content row] = Inr ()"
      by (elim exE conjE) (rule that)
    have "pg_entry d' i = pg_entry d i \<or> pg_entry d i = None
      \<and> pg_entry d' i = Some (''proposed'', None, e_content row)"
      using pg_entry_append [OF r(1), of i] r(2,3) by (cases "pg_entry d i") auto
    with r(4) show ?thesis using Pair Inr by (auto simp: pg_experience_calls simp del: scan_agent_experience_content.simps)
  qed
qed

lemma pg_decide_step:
  assumes "decision_status act = Some st"
  shows "pg_entry (snd (pg_experience ex act params c d)) i = pg_entry d i
    \<or> (\<exists>dec content decider. pg_entry d i = Some (''proposed'', dec, content)
         \<and> decides c params i decider
         \<and> pg_entry (snd (pg_experience ex act params c d)) i = Some (st, Some decider, content))"
proof -
  let ?h = "decide_experience st (if st = ''confirmed'' then ''agent_experience_confirmed''
               else ''agent_experience_rejected'') ex params c d"
  obtain res d' where h: "?h = (res, d')" by (cases ?h)
  show ?thesis
  proof (cases res)
    case (Inl e)
    with h show ?thesis by (simp add: pg_experience_calls(2) [OF assms])
  next
    case (Inr j)
    then have s: "snd (pg_experience ex act params c d) = d'"
      using h by (simp add: pg_experience_calls(2) [OF assms])
    from decide_experience_Inr [OF h [unfolded Inr]] obtain k decider where
      k: "decides c params k decider"
      and d': "db_experience d' = db_experience d
        \<or> db_experience d' = update_where (\<lambda>r. e_id r = k \<and> e_status r = ''proposed'')
             (decided_row ex st decider) (db_experience d)" by blast
    from d' show ?thesis
    proof
      assume "db_experience d' = db_experience d"
      then show ?thesis using s pg_entry_same by metis
    next
      assume u: "db_experience d' = update_where (\<lambda>r. e_id r = k \<and> e_status r = ''proposed'')
             (decided_row ex st decider) (db_experience d)"
      show ?thesis using pg_entry_decided [OF u, of i] k unfolding s
        by (cases "i = k"; cases "pg_entry d i") (auto split: if_splits)
    qed
  qed
qed

definition pg_fresh :: "exec_env \<Rightarrow> db \<Rightarrow> bool" where
  "pg_fresh ex d \<longleftrightarrow> new_id ''audit'' ex 0 \<notin> a_id ` set (db_audit d)
     \<and> new_id ''metric'' ex 1 \<notin> me_id ` set (db_metrics d)"

lemma pg_decision:
  assumes "pg_entry d i = Some (''proposed'', dec, content)" and "decision_status act = Some st"
    and "decides c params i decider" and "pg_fresh ex d"
  shows "\<exists>j d'. pg_experience ex act params c d = (Inr j, d') \<and> pg_entry d' i = Some (st, Some decider, content)"
proof -
  let ?hit = "\<lambda>r. e_id r = i \<and> e_status r = ''proposed''"
  let ?act = "if st = ''confirmed'' then ''agent_experience_confirmed'' else ''agent_experience_rejected''"
  have r: "require_id params = Inr i" "resolve_experience_decision_authorization c = Inr decider"
    using assms(3) by (simp_all add: decides_iff)
  from assms(1) obtain r0 where r0: "List.find (\<lambda>r. e_id r = i) (db_experience d) = Some r0"
    "e_status r0 = ''proposed''" by (auto simp: pg_entry_def)
  then have "r0 \<in> set (db_experience d) \<and> ?hit r0" using find_SomeD [OF r0(1)] by simp
  then obtain row where row: "List.find ?hit (db_experience d) = Some row"
    by (cases "List.find ?hit (db_experience d)") (auto simp: find_None_iff)
  let ?d1 = "d\<lparr>db_experience := update_where ?hit (decided_row ex st decider) (db_experience d)\<rparr>"
  obtain d2 where a: "insert_audit ex 0 (profile c) (Some decider) ?act (Some ''agent_experience'') (Some i)
        [(''status'', JStr st)] ?d1 = Inr d2" "db_experience d2 = db_experience ?d1" "db_metrics d2 = db_metrics d"
    using assms(4) by (auto simp: pg_fresh_def insert_audit_Inr)
  obtain d3 where m: "(if st = ''confirmed'' then insert_metric_event ex 1 METRIC_L6_CONFIRMED True d2
        else Inr d2) = Inr d3" "db_experience d3 = db_experience d2"
    using assms(4) a(3)
    by (cases "st = ''confirmed''") (auto simp: pg_fresh_def insert_metric_event_def pk_insert_def exn_simps)
  have "decide_experience st ?act ex params c d = (Inr (experience_json (decided_row ex st decider row)), d3)"
    using a(1) m(1) row by (simp add: decide_experience_def exn_simps r)
  moreover have "pg_entry d3 i = Some (st, Some decider, content)"
    using pg_entry_decided [of d3 i ex st decider d i] a(2) m(2) assms(1) by simp
  ultimately show ?thesis by (simp add: pg_experience_calls(2) [OF assms(2)])
qed

interpretation pgx: experience_store pg_experience pg_entry pg_fresh
proof (unfold_locales, goal_cases)
  case (1 ex act params c w i)
  show ?case
  proof (cases "act = ''propose_experience''")
    case True
    with pg_propose_step [of ex params c w i] show ?thesis by blast
  next
    case False
    then show ?thesis using pg_decide_step [of act _ ex params c w i] pg_experience_calls(3) [of act ex params c w]
      by (cases "decision_status act") auto
  qed
next
  case (2 w i dec content act st c params decider ex)
  then show ?case by (rule pg_decision)
qed

section \<open>The mock interpretation\<close>

lemma mock_entry_append: "mock_entry (s @ [row]) i = (case mock_entry s i of Some x \<Rightarrow> Some x
   | None \<Rightarrow> (if mx_id row = i then Some (mx_status row, mx_decider_account_id row, mx_content row) else None))"
  by (simp add: mock_entry_def find_append split: option.split)

lemma mock_decide_loop_entry:
  "mock_entry (snd (mock_decide_loop ex k decider st s)) i = (case mock_entry s i of None \<Rightarrow> None
     | Some (st0, dec, content) \<Rightarrow> (if i = k \<and> st0 = ''proposed'' then Some (st, Some decider, content)
                                else Some (st0, dec, content)))"
  by (induction s)
     (auto simp: mock_entry_def Let_def split: prod.splits option.splits)

lemma mock_decide_loop_ok: "mock_entry s k \<noteq> None \<Longrightarrow> \<exists>j. fst (mock_decide_loop ex k decider st s) = Inr j"
  by (induction s) (auto simp: mock_entry_def Let_def split: prod.splits if_splits)

lemma mock_experience_calls:
  "mock_experience_call ex ''propose_experience'' params c s = mock_propose_experience ex params c s"
  "decision_status act = Some st \<Longrightarrow> mock_experience_call ex act params c s = mock_decide st ex params c s"
  "decision_status act = None \<Longrightarrow> act \<noteq> ''propose_experience'' \<Longrightarrow> snd (mock_experience_call ex act params c s) = s"
  by (auto simp: mock_experience_call_def mock_driver_execute_def experience_request_def
      mock_experience_handlers_def mock_experience_actions_def decision_status_def
      mock_list_agent_experience_def split: if_splits)

interpretation mockx: experience_store mock_experience_call mock_entry "\<lambda>_ _. True"
proof (unfold_locales, goal_cases)
  case (1 ex act params c w i)
  show ?case
  proof (cases "act = ''propose_experience''")
    case True
    show ?thesis
    proof (cases "fst (mock_propose_experience ex params c w)")
      case (Inl e)
      then have "snd (mock_propose_experience ex params c w) = w"
        by (simp add: mock_propose_experience_def split: sum.splits)
      then show ?thesis by (simp add: True mock_experience_calls)
    next
      case (Inr j)
      then obtain row where r: "snd (mock_propose_experience ex params c w) = w @ [row]"
        "mx_status row = ''proposed''" "mx_decider_account_id row = None"
        "\<exists>ts. scan_agent_experience_content (mx_content row # ts) = Inr ()"
        by (fastforce simp: mock_propose_experience_def exn_simps
            simp del: scan_agent_experience_content.simps split: sum.splits)
      then have "scan_agent_experience_content [mx_content row] = Inr ()" using scan_Cons_Inr by blast
      with r(1-3) show ?thesis
        by (cases "mock_entry w i")
           (auto simp: True mock_experience_calls mock_entry_append simp del: scan_agent_experience_content.simps)
    qed
  next
    case False
    show ?thesis
    proof (cases "decision_status act")
      case None
      with False show ?thesis by (simp add: mock_experience_calls)
    next
      case (Some st)
      then show ?thesis using mock_decide_loop_entry [of ex _ _ st w i]
        by (cases "mock_entry w i")
           (auto simp: mock_experience_calls mock_decide_def exn_simps decides_iff split: sum.splits)
    qed
  qed
next
  case (2 w i dec content act st c params decider ex)
  then have "mock_experience_call ex act params c w = mock_decide_loop ex i decider st w"
    by (simp add: mock_experience_calls mock_decide_def exn_simps decides_iff)
  with 2 mock_decide_loop_ok [of w i ex decider st] mock_decide_loop_entry [of ex i decider st w i]
  show ?case by (cases "mock_decide_loop ex i decider st w") auto
qed

section \<open>Properties\<close>

text \<open>Content in which no injection pattern, email address, phone number or customer id occurs anywhere.\<close>

definition nothing_forbidden_in :: "string \<Rightarrow> bool" where
  "nothing_forbidden_in content \<longleftrightarrow> content = []
     \<or> (\<forall>p \<in> set INJECTION_PATTERNS \<union> {EMAIL_RE, PHONE_RE, CUSTOMER_ID_RE}.
          \<nexists>pre suf q'. content = pre @ suf \<and> rx_match p (last_opt None pre, suf) q')"

lemma nothing_forbidden_iff: "nothing_forbidden_in content \<longleftrightarrow> scan_agent_experience_content [content] = Inr ()"
  unfolding nothing_forbidden_in_def scan_agent_experience_content_iff rx_search_iff by auto


text \<open>A proposal, its confirmation by an administrator, and a later rejection.\<close>

definition review_ctx :: "string \<Rightarrow> ctx" where
  "review_ctx user = context_provider INTERNAL None None None [(''user_id'', JStr user)]"

definition sample_review :: "string \<Rightarrow> experience_call list" where
  "sample_review i = [(\<lparr>ee_now = 0, ee_hex = \<lambda>k. ''0'' @ replicate k CHR ''0''\<rparr>, ''propose_experience'',
       [(''kind'', JStr ''note''), (''content'', JStr ''hi'')], review_ctx ''rep''),
     (\<lparr>ee_now = 1, ee_hex = \<lambda>k. ''1'' @ replicate k CHR ''0''\<rparr>, ''confirm_experience'', [(''id'', JStr i)], review_ctx ''admin'')]"

lemma sample_reviewed:
  "pg_entry (run_experience pg_experience (sample_review ''aexp_0'') empty_db) ''aexp_0''
     = Some (''confirmed'', Some ''admin'', ''hi'')"
  "mock_entry (run_experience mock_experience_call (sample_review ''aexp_1'') []) ''aexp_1''
     = Some (''confirmed'', Some ''admin'', ''hi'')"
proof -
  have hi: "scan_agent_experience_content [''hi''] = Inr ()" by code_simp
  note d = sample_review_def review_ctx_def context_provider_def require_kind_def AGENT_EXPERIENCE_KINDS_def
    require_content_def AGENT_EXPERIENCE_CONTENT_MAX_LENGTH_def read_proposer_context_def context_strings_def
    resolve_agent_experience_source_def require_id_def resolve_experience_decision_authorization_def dict_simps
    exn_simps hi Let_def
  have st: "decision_status ''confirm_experience'' = Some ''confirmed''" by (simp add: decision_status_def)
  have ne: "py_strip ''hi'' \<noteq> []" "py_strip ''aexp_0'' \<noteq> []" "py_strip ''aexp_1'' \<noteq> []" "show_int 1 = ''1''" by code_simp+
  show "pg_entry (run_experience pg_experience (sample_review ''aexp_0'') empty_db) ''aexp_0''
     = Some (''confirmed'', Some ''admin'', ''hi'')"
    by (simp add: d ne pg_experience_calls(1) pg_experience_calls(2) [OF st] propose_experience_def decide_experience_def
        pk_insert_def insert_audit_def insert_metric_event_def new_id_def empty_db_def pg_entry_def decided_row_def
        update_where_def del: scan_agent_experience_content.simps)
  show "mock_entry (run_experience mock_experience_call (sample_review ''aexp_1'') []) ''aexp_1''
     = Some (''confirmed'', Some ''admin'', ''hi'')"
    by (simp add: d ne mock_experience_calls(1) mock_experience_calls(2) [OF st] mock_propose_experience_def
        mock_decide_def mock_entry_def del: scan_agent_experience_content.simps)
qed


end
