(* ===== verification/IdentitySummary.thy ===== *)
theory IdentitySummary
  imports Normalize
begin

text \<open>
  How the Workbench names a customer (\<^verbatim>\<open>identity/summary.py\<close>, with \<^verbatim>\<open>shopify_customer_gid\<close> of
  \<^verbatim>\<open>identity/shopify_phone.py\<close>), and the deterministic message ids of the captured SMS reply
  (\<^verbatim>\<open>drivers/mock/sms_reply.py\<close>), whose 32-bit FNV-1a hash is kept at its width.
\<close>

section \<open>Customer ids and display names\<close>

text \<open>\<^verbatim>\<open>str.isdigit\<close>: wider than \<^verbatim>\<open>\d\<close>, superscripts are digits too.\<close>

definition str_isdigit :: "string \<Rightarrow> bool" where
  "str_isdigit s \<longleftrightarrow> s \<noteq> [] \<and> list_all (\<lambda>c. py_isdigit c \<or> code c \<in> {178, 179, 185}) s"

definition GID_PREFIX :: string where
  "GID_PREFIX = ''gid://shopify/Customer/''"

definition shopify_customer_gid :: "json \<Rightarrow> string option" where
  "shopify_customer_gid raw_id =
     (if raw_id = JNull then None
      else let t = py_str raw_id in
        if starts_with t GID_PREFIX then Some t
        else if str_isdigit t then Some (GID_PREFIX @ t)
        else None)"

definition is_shopify_customer_gid :: "string \<Rightarrow> bool" where
  "is_shopify_customer_gid v \<longleftrightarrow> shopify_customer_gid (JStr v) \<noteq> None"

text \<open>\<^verbatim>\<open>normalize_e164\<close> raises nothing, so the \<^verbatim>\<open>except\<close> branch of \<^verbatim>\<open>format_phone_display\<close> is never taken.\<close>

definition format_phone_display :: "string \<Rightarrow> string" where
  "format_phone_display phone =
     (let trimmed = py_strip phone in
      if trimmed = [] then []
      else let e164 = normalize_e164 trimmed in
        if starts_with e164 ''+1'' \<and> length e164 = 12
        then let digits = drop 2 e164 in
          ''+1 ('' @ take 3 digits @ '') '' @ take 3 (drop 3 digits) @ ''-'' @ drop 6 digits
        else e164)"

fun first_stripped :: "dict \<Rightarrow> string list \<Rightarrow> string option" where
  "first_stripped d [] = None"
| "first_stripped d (k # ks) =
     (case get d k of
        JStr v \<Rightarrow> (if py_strip v \<noteq> [] then Some (py_strip v) else first_stripped d ks)
      | _ \<Rightarrow> first_stripped d ks)"

definition display_name_from_match_result :: "json \<Rightarrow> string option" where
  "display_name_from_match_result match_result =
     (case match_result of
        JObj d \<Rightarrow> first_stripped d [''company_name'', ''display_name'']
      | _ \<Rightarrow> None)"

definition strip_or_empty :: "string option \<Rightarrow> string" where
  "strip_or_empty s = py_strip (case s of None \<Rightarrow> [] | Some x \<Rightarrow> x)"

definition format_identity_summary :: "string \<Rightarrow> string option \<Rightarrow> string option \<Rightarrow> string" where
  "format_identity_summary channel_identity shopify_customer_id display_name =
     (let phone = format_phone_display channel_identity;
          gid0 = strip_or_empty shopify_customer_id;
          label0 = strip_or_empty display_name;
          seeded = label0 = [] \<and> gid0 \<noteq> [] \<and> \<not> is_shopify_customer_gid gid0;
          label = (if seeded then gid0 else label0);
          gid = (if seeded then [] else gid0) in
      if label \<noteq> [] \<or> gid \<noteq> []
      then (if label \<noteq> [] \<and> phone \<noteq> []
            then ''Verified: '' @ label @ [CHR '' '', char_of (183 :: nat), CHR '' ''] @ phone
            else if label \<noteq> [] then ''Verified: '' @ label
            else if phone \<noteq> [] then ''Verified: '' @ phone
            else ''Verified: '' @ rsplit_last CHR ''/'' gid)
      else phone)"

section \<open>Deterministic message ids\<close>

text \<open>The loop on Python's unbounded integers, masked to 32 bits after each multiplication.\<close>

fun fnv_loop :: "int \<Rightarrow> string \<Rightarrow> int" where
  "fnv_loop h [] = h"
| "fnv_loop h (c # cs) = fnv_loop (and (xor h (int (code c)) * 0x01000193) 0xFFFFFFFF) cs"

definition hex8 :: "int \<Rightarrow> string" where
  "hex8 n = map (\<lambda>i. hex_digit (nat ((n div 16 ^ i) mod 16))) [7, 6, 5, 4, 3, 2, 1, 0]"

definition deterministic_id :: "string \<Rightarrow> string option list \<Rightarrow> string" where
  "deterministic_id prefix parts =
     prefix @ ''_'' @ hex8 (fnv_loop 0x811C9DC5
       (join_with ''|'' (map (\<lambda>p. case p of None \<Rightarrow> [] | Some x \<Rightarrow> x) parts)))"

text \<open>\<^verbatim>\<open>_send_message\<close>: the captured message, and the outbox with it appended.\<close>

definition or_empty :: "string option \<Rightarrow> string" where
  "or_empty s = (case s of None \<Rightarrow> [] | Some x \<Rightarrow> x)"

definition send_message :: "string \<Rightarrow> dict \<Rightarrow> json list \<Rightarrow> json \<times> json list" where
  "send_message prefix params outbox =
     (let conversation_id = or_empty (read_string params [''conversation_id'', ''conversationId'']);
          body = or_empty (read_string params [''body'']);
          media_url = read_string params [''media_url'', ''mediaUrl''];
          message = JObj ([(''message_id'', JStr (deterministic_id prefix
                               [Some conversation_id, Some body, media_url])),
                           (''conversation_id'', JStr conversation_id), (''body'', JStr body)]
                          @ (case media_url of None \<Rightarrow> [] | Some u \<Rightarrow> [(''media_url'', JStr u)]))
      in (message, outbox @ [message]))"

section \<open>The masked loop is 32-bit FNV-1a\<close>

fun fnv1a :: "32 word \<Rightarrow> string \<Rightarrow> 32 word" where
  "fnv1a h [] = h"
| "fnv1a h (c # cs) = fnv1a (xor h (of_nat (code c)) * 0x01000193) cs"

lemma code_less: "code c < 256"
proof -
  have "(of_char c :: nat) \<in> {0::nat..<256}" using range_nat_of_char by blast
  then show ?thesis by (simp add: code_def)
qed

lemma fnv_step: "uint (xor w (of_nat (code c)) * (0x01000193 :: 32 word))
   = and (xor (uint w) (int (code c)) * 0x01000193) 0xFFFFFFFF"
proof -
  have "uint (of_nat (code c) :: 32 word) = take_bit 32 (int (code c))"
    by (simp add: unsigned_of_nat of_nat_take_bit)
  also have "\<dots> = int (code c)" using code_less [of c] by (intro take_bit_int_eq_self) simp_all
  finally have c: "uint (of_nat (code c) :: 32 word) = int (code c)" .
  have m: "(0xFFFFFFFF :: int) = mask 32" by (simp add: mask_eq_exp_minus_1)
  have "uint (xor w (of_nat (code c)) * (0x01000193 :: 32 word))
      = take_bit 32 (uint (xor w (of_nat (code c))) * uint (0x01000193 :: 32 word))"
    by (simp add: uint_word_arith_bintrs)
  also have "uint (xor w (of_nat (code c))) = xor (uint w) (int (code c))"
    by (simp add: unsigned_xor_eq c)
  finally show ?thesis by (simp add: m flip: take_bit_eq_mask)
qed

lemma fnv_loop_word: "fnv_loop (uint h) s = uint (fnv1a h s)"
  by (induction s arbitrary: h) (simp_all only: fnv_loop.simps fnv1a.simps fnv_step [symmetric])

section \<open>Properties\<close>

text \<open>The id of a captured reply, computed on unbounded integers with a mask, is the 32-bit
  FNV-1a hash of its joined parts, with wrap-around, in eight hexadecimal digits.\<close>

theorem message_id_is_fnv1a:
  "deterministic_id prefix parts =
     prefix @ ''_'' @ hex8 (uint (fnv1a 0x811C9DC5 (join_with ''|'' (map or_empty parts))))
   \<and> length (deterministic_id prefix parts) = length prefix + 9"
proof -
  have "fnv_loop (uint (0x811C9DC5 :: 32 word)) s = uint (fnv1a 0x811C9DC5 s)" for s by (rule fnv_loop_word)
  then have "fnv_loop 0x811C9DC5 s = uint (fnv1a 0x811C9DC5 s)" for s by simp
  then show ?thesis by (simp add: deterministic_id_def or_empty_def [abs_def] hex8_def)
qed

text \<open>The Workbench's name for an email customer whose address has no digit is a bare plus
  sign, alone or after the customer's name: the address goes through the phone normaliser, which
  raises nothing and keeps only digits.\<close>

theorem email_summary_is_plus:
  assumes "filter py_isdigit address = []" and "py_strip address \<noteq> []"
  shows "format_identity_summary address None None = ''+''
    \<and> (py_strip name \<noteq> [] \<longrightarrow> format_identity_summary address None (Some name) =
         ''Verified: '' @ py_strip name @ [CHR '' '', char_of (183 :: nat), CHR '' ''] @ ''+'')"
proof -
  have t: "filter py_isdigit (py_strip xs) = []" if "filter py_isdigit xs = []" for xs
  proof -
    have "set (dropWhile py_isspace (rev (dropWhile py_isspace xs))) \<subseteq> set xs"
      by (auto dest!: set_dropWhileD)
    with that show ?thesis by (auto simp: filter_empty_conv py_strip_def lstrip_by_def rstrip_by_def)
  qed
  have "format_phone_display address = ''+''"
    using assms t [OF t [OF assms(1)]] by (simp add: format_phone_display_def normalize_e164_def Let_def)
  then show ?thesis by (simp add: format_identity_summary_def Let_def strip_or_empty_def
        py_strip_def lstrip_by_def rstrip_by_def)
qed

theorem email_summary_is_plus_witness:
  "format_identity_summary ''ann@example.com'' None None = ''+''"
  using email_summary_is_plus [of "''ann@example.com''" "[]"] by code_simp

end
