(* ===== verification/Cases.thy ===== *)
theory Cases
  imports Datastore IdentitySummary "HOL-Library.Product_Lexorder" "HOL-Library.Multiset"
begin

text \<open>
  The case queue: \<^verbatim>\<open>datastore/handlers/cases.py\<close> (\<^verbatim>\<open>toee_case\<close>, \<^verbatim>\<open>toee_case_manage\<close>,
  \<^verbatim>\<open>toee_workbench_read\<close>).  The live SMS vendor of \<^verbatim>\<open>send_sms_message\<close> is the parameter
  \<open>live conversation body\<close>: the exception class and text the sender raises, or success.
\<close>

section \<open>Guards\<close>

definition require_case_id :: "dict \<Rightarrow> exn + string" where
  "require_case_id params =
     (case read_string params [''case_id'', ''caseId''] of
        None \<Rightarrow> Inl (ToolDriverError Unexpected_error ''case_id is required.'')
      | Some case_id \<Rightarrow> Inr case_id)"

definition require_actor :: "ctx \<Rightarrow> exn + string" where
  "require_actor context =
     (if falsy (user_id context)
      then Inl (ToolDriverError Policy_blocked ''A governed case write requires an attributed actor.'')
      else Inr (the (user_id context)))"

definition find_case :: "string \<Rightarrow> db \<Rightarrow> case_row option" where
  "find_case case_id d = List.find (\<lambda>r. c_id r = case_id) (db_cases d)"

definition ensure_exists :: "string \<Rightarrow> db \<Rightarrow> exn + unit" where
  "ensure_exists case_id d =
     guard (find_case case_id d \<noteq> None)
       (ToolDriverError Unexpected_error (''case '' @ case_id @ '' not found.''))"

definition case_status :: "string \<Rightarrow> db \<Rightarrow> string option" where
  "case_status case_id d = map_option c_status (find_case case_id d)"

section \<open>The read model\<close>

definition URGENT_URGENCIES :: "string list" where
  "URGENT_URGENCIES = [''urgent'', ''high'']"

text \<open>\<^verbatim>\<open>match_result->>'outcome'\<close>: \<open>None\<close> on anything but an object with a text there.\<close>

definition outcome_text :: "json \<Rightarrow> string option" where
  "outcome_text j = (case j of JObj m \<Rightarrow> as_str (get m ''outcome'') | _ \<Rightarrow> None)"

definition thread_display_name :: "string \<Rightarrow> string \<Rightarrow> db \<Rightarrow> string option" where
  "thread_display_name channel channel_identity d =
     (case order_desc n_captured_at (filter (\<lambda>r. n_channel r = channel
           \<and> n_channel_identity r = channel_identity
           \<and> outcome_text (n_match_result r) = Some ''verified_customer'') (db_snapshots d)) of
        [] \<Rightarrow> None
      | row # _ \<Rightarrow> display_name_from_match_result (n_match_result row))"

definition thread_identity_summary :: "string option \<Rightarrow> db \<Rightarrow> string" where
  "thread_identity_summary thread_id d =
     (if falsy thread_id then []
      else case List.find (\<lambda>r. t_id r = the thread_id) (db_threads d) of
        None \<Rightarrow> []
      | Some row \<Rightarrow> format_identity_summary (t_channel_identity row) (t_shopify_customer_id row)
          (thread_display_name (if t_channel row = [] then ''sms'' else t_channel row)
             (t_channel_identity row) d))"

definition thread_turns :: "string option \<Rightarrow> db \<Rightarrow> turn_row list" where
  "thread_turns thread_id d = filter (\<lambda>r. Some (m_customer_thread_id r) = thread_id) (db_turns d)"

definition thread_last_preview :: "string option \<Rightarrow> db \<Rightarrow> string" where
  "thread_last_preview thread_id d =
     (if falsy thread_id then []
      else case order_desc m_created_at (thread_turns thread_id d) of
        [] \<Rightarrow> [] | row # _ \<Rightarrow> m_body row)"

definition live_sessions :: "int \<Rightarrow> string option \<Rightarrow> db \<Rightarrow> session_row list" where
  "live_sessions now thread_id d =
     filter (\<lambda>r. Some (ss_customer_thread_id r) = thread_id \<and> ss_expires_at r > now) (db_sessions d)"

definition thread_sms_active :: "int \<Rightarrow> string option \<Rightarrow> db \<Rightarrow> bool" where
  "thread_sms_active now thread_id d \<longleftrightarrow> \<not> falsy thread_id \<and> live_sessions now thread_id d \<noteq> []"

definition message_json :: "string \<Rightarrow> turn_row \<Rightarrow> json" where
  "message_json channel r =
     JObj [(''id'', JStr (m_id r)), (''customer_thread_id'', JStr (m_customer_thread_id r)),
       (''author'', JStr (m_author r)), (''body'', JStr (m_body r)),
       (''auto_handled'', JBool (m_auto_handled r)), (''created_at'', time_json (m_created_at r)),
       (''channel'', JStr channel), (''active_case_segment'', JBool (\<not> m_auto_handled r))]"

definition thread_messages :: "string option \<Rightarrow> string \<Rightarrow> db \<Rightarrow> json list" where
  "thread_messages thread_id channel d =
     (if falsy thread_id then []
      else map (message_json channel) (order_asc m_created_at (thread_turns thread_id d)))"

definition read_model :: "int \<Rightarrow> db \<Rightarrow> case_row \<Rightarrow> dict" where
  "read_model now d r = case_json r @
     [(''case_id'', JStr (c_id r)),
      (''thread_id'', JStr (or_empty (c_customer_thread_id r))),
      (''urgent'', JBool (or_empty (c_urgency r) \<in> set URGENT_URGENCIES)),
      (''identity_summary'', JStr (thread_identity_summary (c_customer_thread_id r) d)),
      (''last_message_preview'', JStr (thread_last_preview (c_customer_thread_id r) d)),
      (''sms_session_active'', JBool (thread_sms_active now (c_customer_thread_id r) d))]"

definition read_case :: "int \<Rightarrow> string \<Rightarrow> db \<Rightarrow> json" where
  "read_case now case_id d =
     (case find_case case_id d of None \<Rightarrow> JNull | Some r \<Rightarrow> JObj (read_model now d r))"

section \<open>Creating and updating a case\<close>

text \<open>A handler's unit of work: an exception leaves the transaction to the driver's rollback.\<close>

definition unit_of_work :: "db \<Rightarrow> (exn + json \<times> db) \<Rightarrow> (exn + json) \<times> db" where
  "unit_of_work d res = (case res of Inl e \<Rightarrow> (Inl e, d) | Inr (j, d') \<Rightarrow> (Inr j, d'))"

definition opt_field :: "string \<Rightarrow> string option \<Rightarrow> dict" where
  "opt_field k v = (case v of None \<Rightarrow> [] | Some x \<Rightarrow> [(k, JStr x)])"

definition create_case :: "exec_env \<Rightarrow> dict \<Rightarrow> ctx \<Rightarrow> db \<Rightarrow> (exn + json) \<times> db" where
  "create_case ex params context d =
     (let contact_reason = read_string params [''contact_reason'', ''contactReason''];
          urgency = read_string params [''urgency''];
          summary = read_string params [''summary''];
          channel = (case read_string params [''channel''] of None \<Rightarrow> ''sms'' | Some x \<Rightarrow> x);
          case_id = new_id ''case'' ex 0 in
      unit_of_work d
        (ebind (pk_insert c_id \<lparr>c_id = case_id, c_channel = channel, c_customer_thread_id = None,
            c_sms_session_id = None, c_contact_reason = contact_reason, c_urgency = urgency,
            c_status = ''open'', c_summary = summary, c_assignee_account_id = None,
            c_resolved_by_account_id = None, c_tool_failure = False, c_opened_at = ee_now ex,
            c_last_activity_at = ee_now ex, c_resolved_at = None, c_created_at = ee_now ex\<rparr>
            (db_cases d)) (\<lambda>rows.
         Inr (JObj ([(''case_id'', JStr case_id), (''status'', JStr ''open''), (''channel'', JStr channel)]
              @ opt_field ''contact_reason'' contact_reason @ opt_field ''urgency'' urgency
              @ opt_field ''summary'' summary),
              d\<lparr>db_cases := rows\<rparr>))))"

definition coalesce :: "'a option \<Rightarrow> 'a option \<Rightarrow> 'a option" where
  "coalesce a b = (case a of None \<Rightarrow> b | Some x \<Rightarrow> Some x)"

text \<open>\<^verbatim>\<open>UPDATE cases SET \<dots>, last_activity_at = now() WHERE id = case_id\<close>.\<close>

definition set_case :: "exec_env \<Rightarrow> string \<Rightarrow> (case_row \<Rightarrow> case_row) \<Rightarrow> db \<Rightarrow> db" where
  "set_case ex case_id f d =
     d\<lparr>db_cases := update_where (\<lambda>r. c_id r = case_id) (\<lambda>r. (f r)\<lparr>c_last_activity_at := ee_now ex\<rparr>)
        (db_cases d)\<rparr>"

definition update_case :: "exec_env \<Rightarrow> dict \<Rightarrow> ctx \<Rightarrow> db \<Rightarrow> (exn + json) \<times> db" where
  "update_case ex params context d =
     unit_of_work d
       (ebind (require_case_id params) (\<lambda>case_id.
        ebind (ensure_exists case_id d) (\<lambda>_.
        let contact_reason = read_string params [''contact_reason'', ''contactReason''];
            urgency = read_string params [''urgency''];
            d' = set_case ex case_id (\<lambda>r. r\<lparr>c_contact_reason := coalesce contact_reason (c_contact_reason r),
                   c_urgency := coalesce urgency (c_urgency r)\<rparr>) d
        in Inr (JObj ([(''case_id'', JStr case_id), (''status'', opt_str (case_status case_id d'))]
                 @ opt_field ''contact_reason'' contact_reason @ opt_field ''urgency'' urgency), d'))))"

section \<open>Governed case management\<close>

definition audit_case :: "exec_env \<Rightarrow> nat \<Rightarrow> ctx \<Rightarrow> string option \<Rightarrow> string \<Rightarrow> string \<Rightarrow> dict \<Rightarrow> db \<Rightarrow> exn + db" where
  "audit_case ex i context account_id act case_id details d =
     insert_audit ex i (profile context) account_id act (Some ''case'') (Some case_id) details d"

definition in_progress :: "case_row \<Rightarrow> case_row" where
  "in_progress r = r\<lparr>c_status := (if c_status r = ''open'' then ''in_progress'' else c_status r)\<rparr>"

definition case_claimable :: "string \<Rightarrow> string \<Rightarrow> case_row \<Rightarrow> bool" where
  "case_claimable case_id account_id r \<longleftrightarrow> c_id r = case_id
     \<and> (c_assignee_account_id r = None \<or> c_assignee_account_id r = Some account_id)"

definition claimed_row :: "exec_env \<Rightarrow> string \<Rightarrow> case_row \<Rightarrow> case_row" where
  "claimed_row ex account_id r =
     (in_progress r)\<lparr>c_assignee_account_id := Some account_id, c_last_activity_at := ee_now ex\<rparr>"

definition claim_case :: "exec_env \<Rightarrow> dict \<Rightarrow> ctx \<Rightarrow> db \<Rightarrow> (exn + json) \<times> db" where
  "claim_case ex params context d =
     unit_of_work d
       (ebind (require_case_id params) (\<lambda>case_id.
        ebind (require_actor context) (\<lambda>account_id.
        let claimed = (length (filter (case_claimable case_id account_id) (db_cases d)) = 1);
            d1 = d\<lparr>db_cases := update_where (case_claimable case_id account_id) (claimed_row ex account_id)
                   (db_cases d)\<rparr> in
        ebind (if claimed then Inr ()
               else if case_status case_id d1 = None
               then Inl (ToolDriverError Not_found (''case '' @ case_id @ '' not found.''))
               else Inl (ToolDriverError Conflict
                      (''case '' @ case_id @ '' is already held by another account.''))) (\<lambda>_.
        ebind (audit_case ex 0 context (Some account_id) ''claim_case'' case_id
                 [(''assignee_account_id'', JStr account_id)] d1) (\<lambda>d2.
        Inr (JObj [(''case_id'', JStr case_id), (''claimed'', JBool True),
               (''case'', read_case (ee_now ex) case_id d2)], d2))))))"

definition assign_case :: "exec_env \<Rightarrow> dict \<Rightarrow> ctx \<Rightarrow> db \<Rightarrow> (exn + json) \<times> db" where
  "assign_case ex params context d =
     unit_of_work d
       (ebind (require_case_id params) (\<lambda>case_id.
        ebind (require_actor context) (\<lambda>_.
        ebind (ensure_exists case_id d) (\<lambda>_.
        ebind (case read_string params [''assignee_id'', ''assigneeId''] of
                 None \<Rightarrow> Inl (ToolDriverError Unexpected_error ''assignee_id is required.'')
               | Some a \<Rightarrow> Inr a) (\<lambda>assignee_id.
        ebind (audit_case ex 0 context (user_id context) ''assign_case'' case_id
                 [(''assignee_account_id'', JStr assignee_id)]
                 (set_case ex case_id (\<lambda>r. (in_progress r)\<lparr>c_assignee_account_id := Some assignee_id\<rparr>) d)) (\<lambda>d2.
        Inr (JObj [(''case_id'', JStr case_id), (''assignee_id'', JStr assignee_id),
               (''assigned'', JBool True), (''case'', read_case (ee_now ex) case_id d2)], d2)))))))"

definition update_priority :: "exec_env \<Rightarrow> dict \<Rightarrow> ctx \<Rightarrow> db \<Rightarrow> (exn + json) \<times> db" where
  "update_priority ex params context d =
     unit_of_work d
       (ebind (require_case_id params) (\<lambda>case_id.
        ebind (require_actor context) (\<lambda>_.
        ebind (ensure_exists case_id d) (\<lambda>_.
        let priority = (case read_string params [''priority''] of None \<Rightarrow> ''normal'' | Some p \<Rightarrow> p) in
        ebind (audit_case ex 0 context (user_id context) ''update_priority'' case_id
                 [(''priority'', JStr priority)]
                 (set_case ex case_id (\<lambda>r. r\<lparr>c_urgency := Some priority\<rparr>) d)) (\<lambda>d2.
        Inr (JObj [(''case_id'', JStr case_id), (''priority'', JStr priority),
               (''updated'', JBool True), (''case'', read_case (ee_now ex) case_id d2)], d2))))))"

definition update_contact_reason :: "exec_env \<Rightarrow> dict \<Rightarrow> ctx \<Rightarrow> db \<Rightarrow> (exn + json) \<times> db" where
  "update_contact_reason ex params context d =
     unit_of_work d
       (ebind (require_case_id params) (\<lambda>case_id.
        ebind (require_actor context) (\<lambda>_.
        ebind (ensure_exists case_id d) (\<lambda>_.
        let contact_reason = (case read_string params [''contact_reason'', ''contactReason''] of
              None \<Rightarrow> ''general'' | Some p \<Rightarrow> p) in
        ebind (audit_case ex 0 context (user_id context) ''update_contact_reason'' case_id
                 [(''contact_reason'', JStr contact_reason)]
                 (set_case ex case_id (\<lambda>r. r\<lparr>c_contact_reason := Some contact_reason\<rparr>) d)) (\<lambda>d2.
        Inr (JObj [(''case_id'', JStr case_id), (''contact_reason'', JStr contact_reason),
               (''updated'', JBool True), (''case'', read_case (ee_now ex) case_id d2)], d2))))))"

definition resolve_case :: "exec_env \<Rightarrow> dict \<Rightarrow> ctx \<Rightarrow> db \<Rightarrow> (exn + json) \<times> db" where
  "resolve_case ex params context d =
     unit_of_work d
       (ebind (require_case_id params) (\<lambda>case_id.
        ebind (require_actor context) (\<lambda>_.
        ebind (ensure_exists case_id d) (\<lambda>_.
        ebind (audit_case ex 0 context (user_id context) ''resolve_case'' case_id []
                 (set_case ex case_id (\<lambda>r. r\<lparr>c_status := ''resolved'', c_resolved_at := Some (ee_now ex),
                    c_resolved_by_account_id := user_id context\<rparr>) d)) (\<lambda>d2.
        Inr (JObj [(''case_id'', JStr case_id), (''status'', JStr ''resolved''),
               (''case'', read_case (ee_now ex) case_id d2)], d2))))))"

section \<open>The governed SMS send\<close>

text \<open>
  \<open>token\<close> is \<^verbatim>\<open>SIMPLETEXTING_API_TOKEN\<close>, \<open>live\<close> the vendor sender built from the environment.  The
  result comes with the calls made to the live sender.
\<close>

type_synonym sms_sender = "string \<Rightarrow> string \<Rightarrow> exn + unit"

definition capture_sms_send ::
  "string option \<Rightarrow> sms_sender \<Rightarrow> string \<Rightarrow> string \<Rightarrow> string option
     \<Rightarrow> (exn + json) \<times> (string \<times> string) list" where
  "capture_sms_send token live conversation_id body media_url =
     (let captured = fst (send_message ''msg'' ([(''conversation_id'', JStr conversation_id),
                       (''body'', JStr body), (''media_url'', opt_str media_url)]) []) in
      if strip_or_empty token = [] then (Inr captured, [])
      else (case live conversation_id body of
              Inl (PyError cls m) \<Rightarrow>
                (Inl (if cls = ''ValueError'' then ToolDriverError Configuration_missing m
                      else if cls = ''SimpleTextingSendError'' then ToolDriverError Vendor_timeout m
                      else PyError cls m), [(conversation_id, body)])
            | Inl e \<Rightarrow> (Inl e, [(conversation_id, body)])
            | Inr _ \<Rightarrow> (Inr captured, [(conversation_id, body)])))"

definition active_sms_session_id :: "int \<Rightarrow> string option \<Rightarrow> db \<Rightarrow> string option" where
  "active_sms_session_id now thread_id d =
     (if falsy thread_id then None
      else case order_desc ss_created_at (live_sessions now thread_id d) of
        [] \<Rightarrow> None | row # _ \<Rightarrow> Some (ss_id row))"

definition sms_conversation_id :: "string \<Rightarrow> string" where
  "sms_conversation_id sms_session_id = rsplit_last CHR '':'' sms_session_id"

definition resolve_sms_session_id :: "int \<Rightarrow> string option \<Rightarrow> string option \<Rightarrow> db \<Rightarrow> string option" where
  "resolve_sms_session_id now thread_id case_session_id d =
     (if \<not> falsy case_session_id
         \<and> list_ex (\<lambda>r. Some (ss_id r) = case_session_id \<and> ss_expires_at r > now) (db_sessions d)
      then case_session_id else active_sms_session_id now thread_id d)"

definition sms_send_blocked :: exn where
  "sms_send_blocked = ToolDriverError Policy_blocked ''case not eligible for SMS send''"

definition sms_eligible :: "int \<Rightarrow> string \<Rightarrow> db \<Rightarrow> case_row \<Rightarrow> bool" where
  "sms_eligible now actor d row \<longleftrightarrow> c_channel row = ''sms'' \<and> c_assignee_account_id row = Some actor
     \<and> thread_sms_active now (c_customer_thread_id row) d"

text \<open>Everything \<^verbatim>\<open>_send_sms_message\<close> decides before it sends: the case, its session and the body.\<close>

definition sms_send_plan ::
  "int \<Rightarrow> dict \<Rightarrow> ctx \<Rightarrow> db \<Rightarrow> exn + (string \<times> string \<times> string \<times> string option \<times> case_row \<times> string)" where
  "sms_send_plan now params context d =
     ebind (require_case_id params) (\<lambda>case_id.
     ebind (require_actor context) (\<lambda>actor.
     ebind (case read_string params [''body''] of
              None \<Rightarrow> Inl (ToolDriverError Unexpected_error ''body is required.'')
            | Some b \<Rightarrow> Inr b) (\<lambda>body.
     let media_url = read_string params [''media_url'', ''mediaUrl''] in
     ebind (case find_case case_id d of
              None \<Rightarrow> Inl (ToolDriverError Not_found (''case '' @ case_id @ '' not found.''))
            | Some row \<Rightarrow> Inr row) (\<lambda>row.
     ebind (guard (sms_eligible now actor d row) sms_send_blocked) (\<lambda>_.
     ebind (case resolve_sms_session_id now (c_customer_thread_id row) (c_sms_session_id row) d of
              None \<Rightarrow> Inl sms_send_blocked
            | Some s \<Rightarrow> Inr s) (\<lambda>session_id.
     Inr (case_id, actor, body, media_url, row, session_id)))))))"

definition send_sms_message_io ::
  "string option \<Rightarrow> sms_sender \<Rightarrow> exec_env \<Rightarrow> dict \<Rightarrow> ctx \<Rightarrow> db
     \<Rightarrow> ((exn + json) \<times> db) \<times> (string \<times> string) list" where
  "send_sms_message_io token live ex params context d =
     (case sms_send_plan (ee_now ex) params context d of
        Inl e \<Rightarrow> ((Inl e, d), [])
      | Inr (case_id, actor, body, media_url, row, session_id) \<Rightarrow>
          (let (res, sends) = capture_sms_send token live (sms_conversation_id session_id) body media_url in
           (unit_of_work d
             (ebind res (\<lambda>sent.
              ebind (pk_insert m_id \<lparr>m_id = new_id ''mt'' ex 0, m_sms_session_id = session_id,
                  m_customer_thread_id = or_empty (c_customer_thread_id row), m_direction = ''outbound'',
                  m_author = ''workbench'', m_body = body, m_auto_handled = False,
                  m_created_at = ee_now ex\<rparr> (db_turns d)) (\<lambda>turns.
              ebind (audit_case ex 1 context (Some actor) ''sms_send'' case_id [(''detail'', JStr body)]
                       (set_case ex case_id (\<lambda>r. r) (d\<lparr>db_turns := turns\<rparr>))) (\<lambda>d2.
              Inr (JObj [(''message'', sent)], d2))))), sends)))"

definition send_sms_message ::
  "string option \<Rightarrow> sms_sender \<Rightarrow> exec_env \<Rightarrow> dict \<Rightarrow> ctx \<Rightarrow> db \<Rightarrow> (exn + json) \<times> db" where
  "send_sms_message token live ex params context d =
     fst (send_sms_message_io token live ex params context d)"

section \<open>Auto-handled threads and sales outreach\<close>

definition auto_handled_outcome :: "string \<Rightarrow> db \<Rightarrow> string \<times> bool \<times> string" where
  "auto_handled_outcome thread_id d =
     (case order_desc c_opened_at (filter (\<lambda>r. c_customer_thread_id r = Some thread_id
             \<and> c_contact_reason r \<noteq> Some ''sales_outreach'') (db_cases d)) of
        [] \<Rightarrow> (''auto_resolved'', False, [])
      | row # _ \<Rightarrow>
          (let summary = strip_or_empty (c_summary row) in
           (''escalated_to_case'', c_tool_failure row,
            if summary \<noteq> [] then summary else if c_tool_failure row then ''tool_failure'' else [])))"

text \<open>\<^verbatim>\<open>bool_and(auto_handled)\<close> is null on a thread without turns.\<close>

definition all_auto :: "string \<Rightarrow> db \<Rightarrow> bool" where
  "all_auto thread_id d \<longleftrightarrow>
     thread_turns (Some thread_id) d \<noteq> [] \<and> list_all m_auto_handled (thread_turns (Some thread_id) d)"

definition build_auto_handled_record :: "string \<Rightarrow> bool \<Rightarrow> db \<Rightarrow> json option" where
  "build_auto_handled_record thread_id include_timeline d =
     (case List.find (\<lambda>r. t_id r = thread_id) (db_threads d) of
        None \<Rightarrow> None
      | Some thread \<Rightarrow>
          (if \<not> all_auto thread_id d then None
           else let channel = (if t_channel thread = [] then ''sms'' else t_channel thread);
                    (outcome, tool_failure, tool_summary) = auto_handled_outcome thread_id d in
             Some (JObj [(''record_id'', JStr thread_id), (''channel'', JStr channel),
               (''identity_summary'', JStr (thread_identity_summary (Some thread_id) d)),
               (''last_message_preview'', JStr (thread_last_preview (Some thread_id) d)),
               (''last_activity_at'', JTime (t_last_interaction_at thread)),
               (''outcome'', JStr outcome), (''tool_summary'', JStr tool_summary),
               (''tool_failure'', JBool tool_failure),
               (''timeline'', JList (if include_timeline
                   then thread_messages (Some thread_id) channel d else [])),
               (''tool_calls'', JList [])])))"

definition auto_handled_threads :: "db \<Rightarrow> string list" where
  "auto_handled_threads d = map t_id (order_desc t_last_interaction_at (filter (\<lambda>ct.
     all_auto (t_id ct) d
     \<and> \<not> list_ex (\<lambda>r. c_customer_thread_id r = Some (t_id ct)
           \<and> c_contact_reason r = Some ''sales_outreach'') (db_cases d)) (db_threads d)))"

definition list_auto_handled :: "exec_env \<Rightarrow> dict \<Rightarrow> ctx \<Rightarrow> db \<Rightarrow> (exn + json) \<times> db" where
  "list_auto_handled ex params context d =
     (Inr (JObj [(''records'', JList (List.map_filter
        (\<lambda>tid. build_auto_handled_record tid False d) (auto_handled_threads d)))]), d)"

definition get_auto_handled :: "exec_env \<Rightarrow> dict \<Rightarrow> ctx \<Rightarrow> db \<Rightarrow> (exn + json) \<times> db" where
  "get_auto_handled ex params context d =
     unit_of_work d
       (case read_string params [''record_id'', ''recordId''] of
          None \<Rightarrow> Inl (ToolDriverError Unexpected_error ''record_id is required.'')
        | Some record_id \<Rightarrow>
            (case build_auto_handled_record record_id True d of
               None \<Rightarrow> Inr (JObj [(''record'', JNull)], d)
             | Some record \<Rightarrow>
                 ebind (insert_audit ex 0 (profile context) (user_id context) ''audit_view''
                          (Some ''auto_handled'') (Some record_id) [(''record_id'', JStr record_id)] d) (\<lambda>d'.
                 Inr (JObj [(''record'', record)], d'))))"

definition list_sales_outreach :: "exec_env \<Rightarrow> dict \<Rightarrow> ctx \<Rightarrow> db \<Rightarrow> (exn + json) \<times> db" where
  "list_sales_outreach ex params context d =
     (Inr (JObj [(''cases'', JList (map (JObj \<circ> read_model (ee_now ex) d)
        (order_desc c_last_activity_at (filter (\<lambda>r. c_contact_reason r = Some ''sales_outreach'')
           (db_cases d)))))]), d)"

definition get_sales_outreach :: "exec_env \<Rightarrow> dict \<Rightarrow> ctx \<Rightarrow> db \<Rightarrow> (exn + json) \<times> db" where
  "get_sales_outreach ex params context d =
     unit_of_work d
       (ebind (require_case_id params) (\<lambda>case_id.
        case List.find (\<lambda>r. c_id r = case_id \<and> c_contact_reason r = Some ''sales_outreach'') (db_cases d) of
          None \<Rightarrow> Inr (JObj [(''case'', JNull)], d)
        | Some row \<Rightarrow>
            ebind (audit_case ex 0 context (user_id context) ''audit_view'' case_id
                     [(''case_id'', JStr case_id)] d) (\<lambda>d'.
            Inr (JObj [(''case'', JObj (read_model (ee_now ex) d' row))], d'))))"

section \<open>Reads\<close>

definition get_case :: "exec_env \<Rightarrow> dict \<Rightarrow> ctx \<Rightarrow> db \<Rightarrow> (exn + json) \<times> db" where
  "get_case ex params context d =
     (ebind (require_case_id params) (\<lambda>case_id.
      Inr (JObj [(''case'', read_case (ee_now ex) case_id d)])), d)"

definition get_thread :: "exec_env \<Rightarrow> dict \<Rightarrow> ctx \<Rightarrow> db \<Rightarrow> (exn + json) \<times> db" where
  "get_thread ex params context d =
     unit_of_work d
       (ebind (require_case_id params) (\<lambda>case_id.
        case find_case case_id d of
          None \<Rightarrow> Inr (JObj [(''case'', JNull), (''messages'', JList [])], d)
        | Some row \<Rightarrow>
            (let thread_id = c_customer_thread_id row;
                 messages = thread_messages thread_id
                   (if c_channel row = [] then ''sms'' else c_channel row) d in
             ebind (audit_case ex 0 context (user_id context) ''case_view'' case_id
                      (if falsy thread_id then []
                       else [(''customer_thread_id'', JStr (or_empty thread_id))]) d) (\<lambda>d'.
             Inr (JObj [(''case'', JObj (read_model (ee_now ex) d row)),
                        (''messages'', JList messages)], d')))))"

definition sms_thread_id :: "string \<Rightarrow> string" where
  "sms_thread_id from_phone = customer_thread_id ''sms'' (normalize_e164 from_phone)"

definition email_thread_id :: "string \<Rightarrow> string" where
  "email_thread_id from_address = customer_thread_id ''email'' (canonicalize_email from_address)"

definition latest_case_id_for_thread :: "string \<Rightarrow> db \<Rightarrow> string option" where
  "latest_case_id_for_thread thread_id d =
     (case order_desc c_opened_at (filter (\<lambda>r. c_customer_thread_id r = Some thread_id) (db_cases d)) of
        [] \<Rightarrow> None | row # _ \<Rightarrow> Some (c_id row))"

definition get_thread_of :: "string \<Rightarrow> exec_env \<Rightarrow> ctx \<Rightarrow> db \<Rightarrow> (exn + json) \<times> db" where
  "get_thread_of thread_id ex context d =
     (case latest_case_id_for_thread thread_id d of
        None \<Rightarrow> (Inr (JObj [(''case'', JNull), (''messages'', JList [])]), d)
      | Some case_id \<Rightarrow> get_thread ex [(''case_id'', JStr case_id)] context d)"

definition get_thread_by_phone :: "exec_env \<Rightarrow> dict \<Rightarrow> ctx \<Rightarrow> db \<Rightarrow> (exn + json) \<times> db" where
  "get_thread_by_phone ex params context d =
     (case read_string params [''from_phone'', ''fromPhone''] of
        None \<Rightarrow> (Inl (ToolDriverError Unexpected_error ''from_phone is required.''), d)
      | Some from_phone \<Rightarrow> get_thread_of (sms_thread_id from_phone) ex context d)"

definition get_thread_by_email :: "exec_env \<Rightarrow> dict \<Rightarrow> ctx \<Rightarrow> db \<Rightarrow> (exn + json) \<times> db" where
  "get_thread_by_email ex params context d =
     (case read_string params [''from_address'', ''fromAddress''] of
        None \<Rightarrow> (Inl (ToolDriverError Unexpected_error ''from_address is required.''), d)
      | Some from_address \<Rightarrow> get_thread_of (email_thread_id from_address) ex context d)"

definition DEFAULT_STATUSES :: "string list" where
  "DEFAULT_STATUSES = [''open'', ''in_progress'']"

definition requested_statuses :: "dict \<Rightarrow> string list" where
  "requested_statuses params =
     (let statuses = (case get params ''statuses'' of
            JList xs \<Rightarrow> filter (\<lambda>s. s \<noteq> []) (List.map_filter as_str xs) | _ \<Rightarrow> [])
      in if statuses = [] then DEFAULT_STATUSES else statuses)"

definition assignee_filter :: "dict \<Rightarrow> case_row \<Rightarrow> bool" where
  "assignee_filter params r =
     (let assignee = (case get params ''assignee'' of JObj a \<Rightarrow> a | _ \<Rightarrow> []);
          mode = read_string assignee [''mode''];
          account_id = read_string assignee [''account_id'', ''accountId''];
          mine = (account_id \<noteq> None \<and> c_assignee_account_id r = account_id) in
      if mode = Some ''mine'' then mine
      else if mode = Some ''unassigned'' then c_assignee_account_id r = None
      else if mode = Some ''mine_or_unassigned'' then c_assignee_account_id r = None \<or> mine
      else True)"

definition is_urgent :: "case_row \<Rightarrow> bool" where
  "is_urgent r \<longleftrightarrow> or_empty (c_urgency r) \<in> set URGENT_URGENCIES"

definition queue_key :: "case_row \<Rightarrow> bool \<times> bool \<times> int" where
  "queue_key r = (\<not> is_urgent r, c_assignee_account_id r \<noteq> None, c_opened_at r)"

definition queue_rows :: "dict \<Rightarrow> db \<Rightarrow> case_row list" where
  "queue_rows params d = sort_key queue_key (filter (\<lambda>r. c_contact_reason r \<noteq> Some ''sales_outreach''
     \<and> c_status r \<in> set (requested_statuses params) \<and> assignee_filter params r) (db_cases d))"

definition list_cases :: "exec_env \<Rightarrow> dict \<Rightarrow> ctx \<Rightarrow> db \<Rightarrow> (exn + json) \<times> db" where
  "list_cases ex params context d =
     (Inr (JObj [(''cases'', JList (map (JObj \<circ> read_model (ee_now ex) d) (queue_rows params d)))]), d)"

definition get_audit_log :: "exec_env \<Rightarrow> dict \<Rightarrow> ctx \<Rightarrow> db \<Rightarrow> (exn + json) \<times> db" where
  "get_audit_log ex params context d =
     (ebind (require_case_id params) (\<lambda>case_id.
      Inr (JObj [(''case_id'', JStr case_id),
        (''entries'', JList (map (\<lambda>a. JObj (audit_json a
             @ [(''actor_username'', actor_username (db_accounts d) (a_account_id a))]))
           (order_asc a_created_at (filter (\<lambda>a. a_target_type a = Some ''case''
              \<and> a_target_id a = Some case_id) (db_audit d)))))])), d)"

definition case_manage_handlers ::
  "string option \<Rightarrow> sms_sender \<Rightarrow> (string \<times> (exec_env \<Rightarrow> dict \<Rightarrow> ctx \<Rightarrow> db \<Rightarrow> (exn + json) \<times> db)) list" where
  "case_manage_handlers token live =
     [(''claim_case'', claim_case), (''assign_case'', assign_case),
      (''update_priority'', update_priority), (''update_contact_reason'', update_contact_reason),
      (''resolve_case'', resolve_case), (''send_sms_message'', send_sms_message token live)]"

definition case_handlers :: "string option \<Rightarrow> sms_sender \<Rightarrow> datastore_registry" where
  "case_handlers token live =
     [(''toee_case'', [(''create_case'', on_work create_case), (''update_case'', on_work update_case)]),
      (''toee_case_manage'', map (\<lambda>(a, h). (a, on_work h)) (case_manage_handlers token live)),
      (''toee_workbench_read'',
        [(''get_case'', on_work get_case), (''list_cases'', on_work list_cases),
         (''get_audit_log'', on_work get_audit_log), (''get_thread'', on_work get_thread),
         (''get_thread_by_phone'', on_work get_thread_by_phone),
         (''get_thread_by_email'', on_work get_thread_by_email),
         (''list_auto_handled'', on_work list_auto_handled),
         (''get_auto_handled'', on_work get_auto_handled),
         (''list_sales_outreach'', on_work list_sales_outreach),
         (''get_sales_outreach'', on_work get_sales_outreach)])]"

section \<open>The contract of a governed write\<close>

text \<open>
  A success changes one existing case and appends one audit row that names the actor; an error
  changes nothing.
\<close>

definition audited :: "string \<Rightarrow> exec_env \<Rightarrow> ctx \<Rightarrow> string \<Rightarrow> audit_row \<Rightarrow> bool" where
  "audited act ex c case_id a \<longleftrightarrow> a_action a = act \<and> a_account_id a = user_id c \<and> a_profile a = profile c
     \<and> a_target_type a = Some ''case'' \<and> a_target_id a = Some case_id \<and> a_created_at a = ee_now ex"

locale governed_write =
  fixes h :: "exec_env \<Rightarrow> dict \<Rightarrow> ctx \<Rightarrow> db \<Rightarrow> (exn + json) \<times> db" and act :: string
  assumes writes: "h ex params c d = (Inr j, d') \<Longrightarrow>
      \<exists>case_id f a. require_case_id params = Inr case_id \<and> \<not> falsy (user_id c)
        \<and> find_case case_id d \<noteq> None \<and> (\<forall>r. c_id (f r) = c_id r)
        \<and> db_cases d' = update_where (\<lambda>r. c_id r = case_id) f (db_cases d)
        \<and> db_audit d' = db_audit d @ [a] \<and> audited act ex c case_id a"
    and fails: "h ex params c d = (Inl e, d') \<Longrightarrow> d' = d"
begin

lemma unattributed_refused:
  assumes "falsy (user_id c)"
  shows "\<exists>e. h ex params c d = (Inl e, d)"
proof (cases "h ex params c d")
  case (Pair res d')
  show ?thesis
  proof (cases res)
    case (Inl e)
    with Pair fails show ?thesis by blast
  next
    case (Inr j)
    with Pair writes assms show ?thesis by blast
  qed
qed

lemma other_cases_untouched:
  assumes "require_case_id params = Inr case_id" and "k \<noteq> case_id"
  shows "find_case k (snd (h ex params c d)) = find_case k d"
proof (cases "h ex params c d")
  case (Pair res d')
  show ?thesis
  proof (cases res)
    case (Inl e)
    from fails [OF Pair [unfolded Inl]] Pair Inl show ?thesis by simp
  next
    case (Inr j)
    from writes [OF Pair [unfolded Inr]] assms(1) obtain f where
      f: "\<And>r. c_id (f r) = c_id r" "db_cases d' = update_where (\<lambda>r. c_id r = case_id) f (db_cases d)" by auto
    have "find_case k d' = find_case k d"
      unfolding find_case_def f(2) using f(1) assms(2) by (intro find_update_where_other) auto
    with Pair show ?thesis by simp
  qed
qed

lemma accountable:
  "db_audit (snd (h ex params c d)) = db_audit d @ (case fst (h ex params c d) of
     Inl _ \<Rightarrow> [] | Inr _ \<Rightarrow> [last (db_audit (snd (h ex params c d)))])"
proof (cases "h ex params c d")
  case (Pair res d')
  show ?thesis
  proof (cases res)
    case (Inl e)
    from fails [OF Pair [unfolded Inl]] Pair Inl show ?thesis by simp
  next
    case (Inr j)
    with Pair writes [OF Pair [unfolded Inr]] show ?thesis by auto
  qed
qed

end

section \<open>Every management action is one\<close>

lemma unit_of_work_Inr: "unit_of_work d res = (Inr j, d') \<longleftrightarrow> res = Inr (j, d')"
  and unit_of_work_Inl: "unit_of_work d res = (Inl e, d') \<longleftrightarrow> res = Inl e \<and> d' = d"
  by (auto simp: unit_of_work_def split: sum.splits prod.splits)

lemma require_actor_Inr: "require_actor c = Inr a \<longleftrightarrow> user_id c = Some a \<and> a \<noteq> []"
  by (cases "user_id c") (auto simp: require_actor_def falsy_def)

lemma ensure_exists_Inr: "ensure_exists case_id d = Inr u \<longleftrightarrow> find_case case_id d \<noteq> None"
  by (simp add: ensure_exists_def exn_simps)

lemma audit_case_Inr: "audit_case ex i c acc act case_id det d = Inr d' \<Longrightarrow> acc = user_id c \<Longrightarrow>
   db_cases d' = db_cases d \<and> (\<exists>a. db_audit d' = db_audit d @ [a] \<and> audited act ex c case_id a)"
  unfolding audit_case_def insert_audit_Inr by (auto simp: audited_def)

lemma set_case_writes:
  assumes "audit_case ex i c (user_id c) act case_id det (set_case ex case_id f d) = Inr d'"
    and "\<And>r. c_id (f r) = c_id r" "find_case case_id d \<noteq> None" "require_case_id params = Inr case_id"
      "user_id c = Some actor" "actor \<noteq> []"
  shows "\<exists>case_id f a. require_case_id params = Inr case_id \<and> \<not> falsy (user_id c)
        \<and> find_case case_id d \<noteq> None \<and> (\<forall>r. c_id (f r) = c_id r)
        \<and> db_cases d' = update_where (\<lambda>r. c_id r = case_id) f (db_cases d)
        \<and> db_audit d' = db_audit d @ [a] \<and> audited act ex c case_id a"
proof -
  from audit_case_Inr [OF assms(1) refl] obtain a where
    a: "db_cases d' = update_where (\<lambda>r. c_id r = case_id) (\<lambda>r. (f r)\<lparr>c_last_activity_at := ee_now ex\<rparr>) (db_cases d)"
      "db_audit d' = db_audit d @ [a]" "audited act ex c case_id a" by (auto simp: set_case_def)
  have "\<forall>r. c_id ((f r)\<lparr>c_last_activity_at := ee_now ex\<rparr>) = c_id r" using assms(2) by simp
  moreover have "\<not> falsy (user_id c)" using assms(5,6) by (simp add: falsy_def)
  ultimately show ?thesis using a assms(3,4)
    by (intro exI [of _ case_id] exI [of _ "\<lambda>r. (f r)\<lparr>c_last_activity_at := ee_now ex\<rparr>"] exI [of _ a] conjI)
qed

lemma unit_of_work_rolls_back: "unit_of_work d res = (Inl e, d') \<Longrightarrow> d' = d"
  by (simp add: unit_of_work_Inl)

text \<open>The simple writes: guards, one \<open>set_case\<close>, one audit row.\<close>

interpretation assign: governed_write assign_case "''assign_case''"
proof (unfold_locales, goal_cases)
  case (1 ex params c d j d')
  then obtain case_id actor assignee where r:
    "audit_case ex 0 c (user_id c) ''assign_case'' case_id [(''assignee_account_id'', JStr assignee)]
       (set_case ex case_id (\<lambda>r. (in_progress r)\<lparr>c_assignee_account_id := Some assignee\<rparr>) d) = Inr d'"
    "find_case case_id d \<noteq> None" "require_case_id params = Inr case_id" "user_id c = Some actor" "actor \<noteq> []"
    by (auto simp: assign_case_def unit_of_work_Inr exn_simps require_actor_Inr ensure_exists_Inr)
  show ?case by (rule set_case_writes [OF r(1) _ r(2-5)]) (simp add: in_progress_def)
next
  case (2 ex params c d e d')
  then show ?case unfolding assign_case_def by (rule unit_of_work_rolls_back)
qed

interpretation priority: governed_write update_priority "''update_priority''"
proof (unfold_locales, goal_cases)
  case (1 ex params c d j d')
  then obtain case_id actor p where r:
    "audit_case ex 0 c (user_id c) ''update_priority'' case_id [(''priority'', JStr p)]
       (set_case ex case_id (\<lambda>r. r\<lparr>c_urgency := Some p\<rparr>) d) = Inr d'"
    "find_case case_id d \<noteq> None" "require_case_id params = Inr case_id" "user_id c = Some actor" "actor \<noteq> []"
    by (auto simp: update_priority_def unit_of_work_Inr exn_simps require_actor_Inr ensure_exists_Inr Let_def)
  show ?case by (rule set_case_writes [OF r(1) _ r(2-5)]) simp
next
  case (2 ex params c d e d')
  then show ?case unfolding update_priority_def by (rule unit_of_work_rolls_back)
qed

interpretation contact_reason: governed_write update_contact_reason "''update_contact_reason''"
proof (unfold_locales, goal_cases)
  case (1 ex params c d j d')
  then obtain case_id actor p where r:
    "audit_case ex 0 c (user_id c) ''update_contact_reason'' case_id [(''contact_reason'', JStr p)]
       (set_case ex case_id (\<lambda>r. r\<lparr>c_contact_reason := Some p\<rparr>) d) = Inr d'"
    "find_case case_id d \<noteq> None" "require_case_id params = Inr case_id" "user_id c = Some actor" "actor \<noteq> []"
    by (auto simp: update_contact_reason_def unit_of_work_Inr exn_simps require_actor_Inr ensure_exists_Inr Let_def)
  show ?case by (rule set_case_writes [OF r(1) _ r(2-5)]) simp
next
  case (2 ex params c d e d')
  then show ?case unfolding update_contact_reason_def by (rule unit_of_work_rolls_back)
qed

interpretation resolve: governed_write resolve_case "''resolve_case''"
proof (unfold_locales, goal_cases)
  case (1 ex params c d j d')
  then obtain case_id actor where r:
    "audit_case ex 0 c (user_id c) ''resolve_case'' case_id []
       (set_case ex case_id (\<lambda>r. r\<lparr>c_status := ''resolved'', c_resolved_at := Some (ee_now ex),
                    c_resolved_by_account_id := user_id c\<rparr>) d) = Inr d'"
    "find_case case_id d \<noteq> None" "require_case_id params = Inr case_id" "user_id c = Some actor" "actor \<noteq> []"
    by (auto simp: resolve_case_def unit_of_work_Inr exn_simps require_actor_Inr ensure_exists_Inr)
  show ?case by (rule set_case_writes [OF r(1) _ r(2-5)]) simp
next
  case (2 ex params c d e d')
  then show ?case unfolding resolve_case_def by (rule unit_of_work_rolls_back)
qed

text \<open>The claim and the governed SMS.\<close>

lemma claim_case_Inr:
  assumes "claim_case ex params c d = (Inr j, d')"
  shows "\<exists>case_id actor a. require_case_id params = Inr case_id \<and> user_id c = Some actor \<and> actor \<noteq> []
    \<and> (\<exists>r. filter (case_claimable case_id actor) (db_cases d) = [r])
    \<and> db_cases d' = update_where (case_claimable case_id actor) (claimed_row ex actor) (db_cases d)
    \<and> db_audit d' = db_audit d @ [a] \<and> audited ''claim_case'' ex c case_id a"
proof -
  from assms obtain case_id actor where
    r: "require_case_id params = Inr case_id" "user_id c = Some actor" "actor \<noteq> []"
      "length (filter (case_claimable case_id actor) (db_cases d)) = 1"
    and a: "audit_case ex 0 c (Some actor) ''claim_case'' case_id [(''assignee_account_id'', JStr actor)]
      (d\<lparr>db_cases := update_where (case_claimable case_id actor) (claimed_row ex actor) (db_cases d)\<rparr>) = Inr d'"
    by (auto simp: claim_case_def unit_of_work_Inr exn_simps require_actor_Inr Let_def split: if_splits)
  have "\<exists>q. filter (case_claimable case_id actor) (db_cases d) = [q]"
    using r(4) by (simp add: length_Suc_conv)
  with audit_case_Inr [OF a] r show ?thesis by simp
qed

interpretation claim_write: governed_write claim_case "''claim_case''"
proof (unfold_locales, goal_cases)
  case (1 ex params c d j d')
  from claim_case_Inr [OF this] obtain case_id actor a q where
    r: "require_case_id params = Inr case_id" "user_id c = Some actor" "actor \<noteq> []"
      "filter (case_claimable case_id actor) (db_cases d) = [q]"
      "db_cases d' = update_where (case_claimable case_id actor) (claimed_row ex actor) (db_cases d)"
      "db_audit d' = db_audit d @ [a]" "audited ''claim_case'' ex c case_id a" by blast
  let ?f = "\<lambda>r. if case_claimable case_id actor r then claimed_row ex actor r else r"
  have "q \<in> set (db_cases d)" "c_id q = case_id"
    using r(4) by (metis filter_eq_ConsD case_claimable_def in_set_conv_decomp)+
  then have "find_case case_id d \<noteq> None" by (auto simp: find_case_def find_None_iff)
  moreover have "\<forall>r. c_id (?f r) = c_id r" by (simp add: claimed_row_def in_progress_def)
  moreover have "db_cases d' = update_where (\<lambda>r. c_id r = case_id) ?f (db_cases d)"
    unfolding r(5) by (simp add: update_where_def case_claimable_def)
  moreover have "\<not> falsy (user_id c)" using r(2,3) by (simp add: falsy_def)
  ultimately show ?case using r(1,6,7)
    by (intro exI [of _ case_id] exI [of _ ?f] exI [of _ a] conjI)
next
  case (2 ex params c d e d')
  then show ?case unfolding claim_case_def by (rule unit_of_work_rolls_back)
qed

lemma sms_send_plan_Inr:
  assumes "sms_send_plan now params c d = Inr (case_id, actor, body, media_url, row, session_id)"
  shows "require_case_id params = Inr case_id \<and> user_id c = Some actor \<and> actor \<noteq> []
    \<and> read_string params [''body''] = Some body \<and> find_case case_id d = Some row
    \<and> sms_eligible now actor d row
    \<and> resolve_sms_session_id now (c_customer_thread_id row) (c_sms_session_id row) d = Some session_id"
  using assms
  by (auto simp: sms_send_plan_def exn_simps require_actor_Inr Let_def split: option.splits)

lemma send_sms_message_io_Inr:
  assumes "send_sms_message_io token live ex params c d = ((Inr j, d'), sends)"
  shows "\<exists>case_id actor body media_url row session_id turns a.
    sms_send_plan (ee_now ex) params c d = Inr (case_id, actor, body, media_url, row, session_id)
    \<and> db_turns d' = db_turns d @ [turns] \<and> m_body turns = body \<and> m_sms_session_id turns = session_id
    \<and> db_cases d' = update_where (\<lambda>r. c_id r = case_id) (\<lambda>r. r\<lparr>c_last_activity_at := ee_now ex\<rparr>) (db_cases d)
    \<and> db_audit d' = db_audit d @ [a] \<and> audited ''sms_send'' ex c case_id a"
proof (cases "sms_send_plan (ee_now ex) params c d")
  case (Inl e)
  with assms show ?thesis by (simp add: send_sms_message_io_def)
next
  case (Inr x)
  obtain case_id actor body media_url row session_id where
    x: "x = (case_id, actor, body, media_url, row, session_id)" by (cases x)
  from Inr assms x obtain sent where
    u: "unit_of_work d (ebind sent (\<lambda>sent.
              ebind (pk_insert m_id \<lparr>m_id = new_id ''mt'' ex 0, m_sms_session_id = session_id,
                  m_customer_thread_id = or_empty (c_customer_thread_id row), m_direction = ''outbound'',
                  m_author = ''workbench'', m_body = body, m_auto_handled = False,
                  m_created_at = ee_now ex\<rparr> (db_turns d)) (\<lambda>turns.
              ebind (audit_case ex 1 c (Some actor) ''sms_send'' case_id [(''detail'', JStr body)]
                       (set_case ex case_id (\<lambda>r. r) (d\<lparr>db_turns := turns\<rparr>))) (\<lambda>d2.
              Inr (JObj [(''message'', sent)], d2))))) = (Inr j, d')"
    by (auto simp: send_sms_message_io_def split: prod.splits)
  then obtain turns where
    t: "pk_insert m_id \<lparr>m_id = new_id ''mt'' ex 0, m_sms_session_id = session_id,
          m_customer_thread_id = or_empty (c_customer_thread_id row), m_direction = ''outbound'',
          m_author = ''workbench'', m_body = body, m_auto_handled = False,
          m_created_at = ee_now ex\<rparr> (db_turns d) = Inr turns"
    and au: "audit_case ex 1 c (Some actor) ''sms_send'' case_id [(''detail'', JStr body)]
       (set_case ex case_id (\<lambda>r. r) (d\<lparr>db_turns := turns\<rparr>)) = Inr d'"
    by (auto simp: unit_of_work_Inr exn_simps)
  have actor: "Some actor = user_id c" using sms_send_plan_Inr Inr x by metis
  have "db_turns d' = turns" using au unfolding audit_case_def insert_audit_Inr by (simp add: set_case_def)
  moreover from audit_case_Inr [OF au actor] obtain a where
    "db_cases d' = update_where (\<lambda>r. c_id r = case_id) (\<lambda>r. r\<lparr>c_last_activity_at := ee_now ex\<rparr>) (db_cases d)"
    "db_audit d' = db_audit d @ [a]" "audited ''sms_send'' ex c case_id a" by (auto simp: set_case_def)
  ultimately show ?thesis using Inr x t unfolding pk_insert_Inr by auto
qed

lemma send_sms_message_io_Inl: "send_sms_message_io token live ex params c d = ((Inl e, d'), sends) \<Longrightarrow> d' = d"
  by (auto simp: send_sms_message_io_def unit_of_work_Inl split: sum.splits prod.splits)

text \<open>Nothing reaches the vendor before every check has passed, and then one message at most.\<close>

lemma send_sms_message_io_sends:
  assumes "send_sms_message_io token live ex params c d = (res, sends)"
  shows "sends = [] \<or> (\<exists>case_id actor body media_url row session_id.
    sms_send_plan (ee_now ex) params c d = Inr (case_id, actor, body, media_url, row, session_id)
    \<and> strip_or_empty token \<noteq> [] \<and> sends = [(sms_conversation_id session_id, body)])"
  using assms
  by (auto simp: send_sms_message_io_def capture_sms_send_def Let_def
      split: sum.splits prod.splits exn.splits if_splits)

interpretation sms_write: governed_write "send_sms_message token live" "''sms_send''"
proof (unfold_locales, goal_cases)
  case (1 ex params c d j d')
  then obtain sends where "send_sms_message_io token live ex params c d = ((Inr j, d'), sends)"
    by (metis send_sms_message_def prod.collapse)
  from send_sms_message_io_Inr [OF this] obtain case_id actor body media_url row session_id a where
    p: "sms_send_plan (ee_now ex) params c d = Inr (case_id, actor, body, media_url, row, session_id)"
    and w: "db_cases d' = update_where (\<lambda>r. c_id r = case_id) (\<lambda>r. r\<lparr>c_last_activity_at := ee_now ex\<rparr>) (db_cases d)"
      "db_audit d' = db_audit d @ [a]" "audited ''sms_send'' ex c case_id a"
    by (elim exE conjE) (rule that)
  have "require_case_id params = Inr case_id" "\<not> falsy (user_id c)" "find_case case_id d \<noteq> None"
    using sms_send_plan_Inr [OF p] by (simp_all add: falsy_def)
  moreover have "\<forall>r. c_id (r\<lparr>c_last_activity_at := ee_now ex\<rparr>) = c_id r" by simp
  ultimately show ?case using w
    by (intro exI [of _ case_id] exI [of _ "\<lambda>r. r\<lparr>c_last_activity_at := ee_now ex\<rparr>"] exI [of _ a] conjI)
next
  case (2 ex params c d e d')
  then obtain sends where "send_sms_message_io token live ex params c d = ((Inl e, d'), sends)"
    by (metis send_sms_message_def prod.collapse)
  then show ?case by (rule send_sms_message_io_Inl)
qed

text \<open>The audit action of each management action.\<close>

definition audit_name :: "string \<Rightarrow> string" where
  "audit_name act = (if act = ''send_sms_message'' then ''sms_send'' else act)"

lemma managed_governed: "(act, h) \<in> set (case_manage_handlers token live) \<Longrightarrow> governed_write h (audit_name act)"
  using claim_write.governed_write_axioms assign.governed_write_axioms priority.governed_write_axioms
    contact_reason.governed_write_axioms resolve.governed_write_axioms sms_write.governed_write_axioms
  by (auto simp: case_manage_handlers_def audit_name_def)

section \<open>Claims\<close>

lemma find_case_unique: "distinct (map c_id (db_cases d)) \<Longrightarrow> r \<in> set (db_cases d) \<Longrightarrow>
   find_case (c_id r) d = Some r"
  unfolding find_case_def by (rule find_unique) simp_all

lemma find_case_update: "find_case k d = Some r \<Longrightarrow> (\<And>r. c_id (f r) = c_id r) \<Longrightarrow>
   List.find (\<lambda>q. c_id q = k) (update_where P f (db_cases d)) = Some (if P r then f r else r)"
proof -
  assume f: "\<And>r. c_id (f r) = c_id r"
  have "List.find (\<lambda>q. c_id q = k) rows = Some r \<Longrightarrow>
     List.find (\<lambda>q. c_id q = k) (update_where P f rows) = Some (if P r then f r else r)" for rows
    by (induction rows) (auto simp: table_simps f split: if_splits)
  then show "find_case k d = Some r \<Longrightarrow> ?thesis" by (simp add: find_case_def)
qed

lemma claimed_row_fields [simp]: "c_id (claimed_row ex a r) = c_id r"
  "c_assignee_account_id (claimed_row ex a r) = Some a"
  by (simp_all add: claimed_row_def in_progress_def)

lemma distinct_singleton:
  assumes "set xs = {x}" and "distinct xs"
  shows "xs = [x]"
proof -
  have "length xs = Suc 0" using distinct_card [OF assms(2)] assms(1) by simp
  then obtain a where "xs = [a]" by (auto simp: length_Suc_conv)
  with assms(1) show ?thesis by simp
qed

lemma claim_filter:
  assumes "distinct (map c_id (db_cases d))" and "find_case case_id d = Some r"
  shows "filter (case_claimable case_id actor) (db_cases d) = (if case_claimable case_id actor r then [r] else [])"
proof -
  have r: "r \<in> set (db_cases d)" "c_id r = case_id" using assms(2) by (auto simp: find_case_def dest: find_SomeD)
  have u: "q = r" if "q \<in> set (db_cases d)" "case_claimable case_id actor q" for q
    using distinct_map_inj [OF assms(1) that(1) r(1)] that(2) r(2) by (simp add: case_claimable_def)
  show ?thesis
  proof (cases "case_claimable case_id actor r")
    case True
    have "set (filter (case_claimable case_id actor) (db_cases d)) = {r}"
    proof (rule set_eqI)
      fix q
      show "q \<in> set (filter (case_claimable case_id actor) (db_cases d)) \<longleftrightarrow> q \<in> {r}"
        using u [of q] r(1) True by (cases "q = r") (simp_all, blast)
    qed
    moreover have "distinct (filter (case_claimable case_id actor) (db_cases d))"
      using assms(1) by (simp add: distinct_map)
    ultimately have "filter (case_claimable case_id actor) (db_cases d) = [r]" by (rule distinct_singleton)
    with True show ?thesis by simp
  next
    case False
    have "filter (case_claimable case_id actor) (db_cases d) = []"
      unfolding filter_empty_conv
    proof
      fix q
      assume "q \<in> set (db_cases d)"
      with u [of q] False show "\<not> case_claimable case_id actor q" by (cases "q = r") (simp_all, blast)
    qed
    with False show ?thesis by simp
  qed
qed

lemma claim_conflict:
  assumes "distinct (map c_id (db_cases d))" and "find_case case_id d = Some r"
    and "c_assignee_account_id r = Some other" and "other \<noteq> actor" and "actor \<noteq> []"
    and "require_case_id params = Inr case_id" and "user_id c = Some actor"
  shows "claim_case ex params c d = (Inl (ToolDriverError Conflict
     (''case '' @ case_id @ '' is already held by another account.'')), d)"
proof -
  have n: "\<not> case_claimable case_id actor r" using assms(3,4) by (simp add: case_claimable_def)
  then have f: "filter (case_claimable case_id actor) (db_cases d) = []"
    using claim_filter [OF assms(1,2), of actor] by simp
  then have "update_where (case_claimable case_id actor) g (db_cases d) = db_cases d" for g
    by (intro update_where_none) (auto simp: filter_empty_conv)
  moreover have "case_status case_id d = Some (c_status r)" using assms(2) by (simp add: case_status_def)
  ultimately show ?thesis using assms(5-7) f
    by (simp add: claim_case_def exn_simps require_actor_def falsy_def unit_of_work_def Let_def
        flip: case_status_def)
qed

text \<open>A held case stays held: no claim by anyone changes its assignee.\<close>

lemma claim_keeps_assignee:
  assumes "find_case k d = Some r" and "c_assignee_account_id r = Some owner"
  shows "\<exists>r'. find_case k (snd (claim_case ex params c d)) = Some r' \<and> c_assignee_account_id r' = Some owner"
proof (cases "claim_case ex params c d")
  case (Pair res d')
  show ?thesis
  proof (cases res)
    case (Inl e)
    from claim_write.fails [OF Pair [unfolded Inl]] Pair assms show ?thesis by simp
  next
    case (Inr j)
    from claim_case_Inr [OF Pair [unfolded Inr]] obtain case_id actor where
      u: "db_cases d' = update_where (case_claimable case_id actor) (claimed_row ex actor) (db_cases d)" by blast
    have "find_case k d' = Some (if case_claimable case_id actor r then claimed_row ex actor r else r)"
      using find_case_update [OF assms(1), of "claimed_row ex actor"] by (simp add: find_case_def u)
    moreover have "case_claimable case_id actor r \<Longrightarrow> actor = owner" using assms(2) by (simp add: case_claimable_def)
    ultimately show ?thesis using Pair assms(2) by auto
  qed
qed

fun run_claims :: "(exec_env \<times> dict \<times> ctx) list \<Rightarrow> db \<Rightarrow> db" where
  "run_claims [] d = d"
| "run_claims ((ex, params, c) # xs) d = run_claims xs (snd (claim_case ex params c d))"

lemma run_claims_keep_assignee:
  "find_case k d = Some r \<Longrightarrow> c_assignee_account_id r = Some owner \<Longrightarrow>
   \<exists>r'. find_case k (run_claims xs d) = Some r' \<and> c_assignee_account_id r' = Some owner"
proof (induction xs arbitrary: d r)
  case (Cons x xs)
  obtain ex params c where x: "x = (ex, params, c)" by (cases x)
  from claim_keeps_assignee [OF Cons.prems, of ex params c] Cons.IH show ?case by (auto simp: x)
qed simp

section \<open>Properties\<close>

text \<open>C25.  Each of the six case-management actions either changes nothing, or was asked for by
  an attributed actor, changes the one case it names, and appends exactly one audit row with the
  actor, the profile, the action, the case and the time.\<close>

theorem managed_write_accountable:
  assumes "(act, h) \<in> set (case_manage_handlers token live)" and "h ex params c d = (res, d')"
  shows "(\<exists>e. res = Inl e) \<and> d' = d
    \<or> (\<exists>case_id a. require_case_id params = Inr case_id \<and> \<not> falsy (user_id c) \<and> find_case case_id d \<noteq> None
        \<and> (\<forall>k. k \<noteq> case_id \<longrightarrow> find_case k d' = find_case k d)
        \<and> db_audit d' = db_audit d @ [a] \<and> audited (audit_name act) ex c case_id a)"
proof (cases res)
  case (Inl e)
  with governed_write.fails [OF managed_governed [OF assms(1)]] assms(2) show ?thesis by blast
next
  case (Inr j)
  from governed_write.writes [OF managed_governed [OF assms(1)] assms(2) [unfolded Inr]] obtain case_id a where
    w: "require_case_id params = Inr case_id" "\<not> falsy (user_id c)" "find_case case_id d \<noteq> None"
      "db_audit d' = db_audit d @ [a]" "audited (audit_name act) ex c case_id a" by blast
  have "\<forall>k. k \<noteq> case_id \<longrightarrow> find_case k d' = find_case k d"
    using governed_write.other_cases_untouched [OF managed_governed [OF assms(1)] w(1), of _ ex c d] assms(2) by simp
  with w show ?thesis by blast
qed

definition held_case :: "string option \<Rightarrow> case_row" where
  "held_case holder = \<lparr>c_id = ''case_1'', c_channel = ''sms'', c_customer_thread_id = Some ''t1'',
     c_sms_session_id = Some ''sms_session:t1:+14165550101'', c_contact_reason = None, c_urgency = Some ''normal'',
     c_status = ''open'', c_summary = None, c_assignee_account_id = holder, c_resolved_by_account_id = None,
     c_tool_failure = False, c_opened_at = 0, c_last_activity_at = 0, c_resolved_at = None, c_created_at = 0\<rparr>"

definition rep_ctx :: "string \<Rightarrow> ctx" where
  "rep_ctx user = context_provider INTERNAL None None None [(''user_id'', JStr user)]"

definition case_env :: exec_env where
  "case_env = \<lparr>ee_now = 5, ee_hex = \<lambda>n. replicate n CHR ''0''\<rparr>"

lemma case_1_id: "require_case_id [(''case_id'', JStr ''case_1'')] = Inr ''case_1''"
  by code_simp

lemma rep_ctx_user [simp]: "user_id (rep_ctx u) = Some u"
  by (simp add: rep_ctx_def context_provider_def dict_simps)

theorem managed_write_accountable_witness:
  "\<exists>j d' a. claim_case case_env [(''case_id'', JStr ''case_1'')] (rep_ctx ''acct_1'')
      (empty_db\<lparr>db_cases := [held_case None]\<rparr>) = (Inr j, d')
    \<and> db_audit d' = [a] \<and> a_account_id a = Some ''acct_1''"
proof -
  obtain j d' where c: "claim_case case_env [(''case_id'', JStr ''case_1'')] (rep_ctx ''acct_1'')
      (empty_db\<lparr>db_cases := [held_case None]\<rparr>) = (Inr j, d')"
    by (simp add: claim_case_def case_1_id require_actor_def exn_simps unit_of_work_def Let_def audit_case_def
        insert_audit_def pk_insert_def empty_db_def held_case_def case_claimable_def falsy_def)
  have "(''claim_case'', claim_case) \<in> set (case_manage_handlers None (\<lambda>_ _. Inr ()))"
    by (simp add: case_manage_handlers_def)
  from managed_write_accountable [OF this c] c show ?thesis
    by (auto simp: audited_def empty_db_def)
qed

text \<open>A case held by someone stays theirs under any sequence of claims by anyone, and a claim
  by another account is answered with a conflict that changes nothing.\<close>

theorem held_case_not_stolen:
  assumes "find_case k d = Some r" and "c_assignee_account_id r = Some owner"
  shows "(\<exists>r'. find_case k (run_claims xs d) = Some r' \<and> c_assignee_account_id r' = Some owner)
    \<and> (distinct (map c_id (db_cases d)) \<and> require_case_id params = Inr k \<and> user_id c = Some actor
        \<and> actor \<noteq> [] \<and> actor \<noteq> owner \<longrightarrow>
       claim_case ex params c d = (Inl (ToolDriverError Conflict
         (''case '' @ k @ '' is already held by another account.'')), d))"
  using run_claims_keep_assignee [OF assms] claim_conflict [OF _ assms, of actor params c ex] by blast

theorem held_case_not_stolen_witness:
  "claim_case case_env [(''case_id'', JStr ''case_1'')] (rep_ctx ''acct_2'')
      (empty_db\<lparr>db_cases := [held_case (Some ''acct_1'')]\<rparr>)
     = (Inl (ToolDriverError Conflict ''case case_1 is already held by another account.''),
        empty_db\<lparr>db_cases := [held_case (Some ''acct_1'')]\<rparr>)"
  using held_case_not_stolen [of "''case_1''" "empty_db\<lparr>db_cases := [held_case (Some ''acct_1'')]\<rparr>"
      "held_case (Some ''acct_1'')" "''acct_1''" "[]" "[(''case_id'', JStr ''case_1'')]" "rep_ctx ''acct_2''" "''acct_2''" case_env]
  by (simp add: find_case_def held_case_def case_1_id)

text \<open>The Workbench's text reaches the vendor at most once per call, and only for an attributed
  actor who holds the case, on an SMS case whose thread has a live session; it is the requested body,
  to the conversation of a session of that thread or the case's own live one.\<close>

theorem sms_send_gated:
  assumes "send_sms_message_io token live ex params c d = (res, sends)"
  shows "sends = [] \<or> (\<exists>case_id actor body row session_id. sends = [(sms_conversation_id session_id, body)]
    \<and> require_case_id params = Inr case_id \<and> user_id c = Some actor \<and> actor \<noteq> []
    \<and> find_case case_id d = Some row \<and> c_channel row = ''sms'' \<and> c_assignee_account_id row = Some actor
    \<and> thread_sms_active (ee_now ex) (c_customer_thread_id row) d
    \<and> read_string params [''body''] = Some body
    \<and> resolve_sms_session_id (ee_now ex) (c_customer_thread_id row) (c_sms_session_id row) d = Some session_id)"
  using send_sms_message_io_sends [OF assms] sms_send_plan_Inr by (fastforce simp: sms_eligible_def)

theorem sms_send_gated_witness:
  "snd (send_sms_message_io (Some ''token'') (\<lambda>_ _. Inr ()) case_env
     [(''case_id'', JStr ''case_1''), (''body'', JStr ''hi'')] (rep_ctx ''acct_2'')
     (empty_db\<lparr>db_cases := [held_case (Some ''acct_1'')]\<rparr>)) = []"
proof -
  let ?d = "empty_db\<lparr>db_cases := [held_case (Some ''acct_1'')]\<rparr>"
  let ?p = "[(''case_id'', JStr ''case_1''), (''body'', JStr ''hi'')]"
  obtain res sends where s: "send_sms_message_io (Some ''token'') (\<lambda>_ _. Inr ()) case_env ?p (rep_ctx ''acct_2'') ?d
     = (res, sends)" by (rule prod.exhaust)
  have i: "require_case_id ?p = Inr ''case_1''" by code_simp
  from sms_send_gated [OF s] have "sends = []"
    by (auto simp: i find_case_def held_case_def)
  with s show ?thesis by simp
qed

text \<open>The work queue lists exactly the requested cases that are not sales outreach, each as often as
  it is stored, the urgent ones first, among equally urgent ones the unassigned first, and then by age.\<close>

theorem queue_in_order:
  "mset (queue_rows params d) = filter_mset (\<lambda>r. c_contact_reason r \<noteq> Some ''sales_outreach''
      \<and> c_status r \<in> set (requested_statuses params) \<and> assignee_filter params r) (mset (db_cases d))
   \<and> sorted_wrt (\<lambda>a b. (is_urgent b \<longrightarrow> is_urgent a)
      \<and> (is_urgent a = is_urgent b \<and> c_assignee_account_id b = None \<longrightarrow> c_assignee_account_id a = None)
      \<and> (is_urgent a = is_urgent b \<and> (c_assignee_account_id a = None) = (c_assignee_account_id b = None)
           \<longrightarrow> c_opened_at a \<le> c_opened_at b)) (queue_rows params d)"
proof
  show "sorted_wrt (\<lambda>a b. (is_urgent b \<longrightarrow> is_urgent a)
      \<and> (is_urgent a = is_urgent b \<and> c_assignee_account_id b = None \<longrightarrow> c_assignee_account_id a = None)
      \<and> (is_urgent a = is_urgent b \<and> (c_assignee_account_id a = None) = (c_assignee_account_id b = None)
           \<longrightarrow> c_opened_at a \<le> c_opened_at b)) (queue_rows params d)"
  proof (rule sorted_wrt_mono_rel)
    show "sorted_wrt (\<lambda>a b. queue_key a \<le> queue_key b) (queue_rows params d)"
      using sorted_sort_key [of queue_key] by (simp add: queue_rows_def sorted_wrt_map)
  qed (auto simp: queue_key_def less_eq_prod_def)
qed (simp add: queue_rows_def)

theorem queue_in_order_witness:
  "map c_id (queue_rows [] (empty_db\<lparr>db_cases := [held_case (Some ''a''), held_case None\<lparr>c_id := ''case_2''\<rparr>]\<rparr>))
     = [''case_2'', ''case_1'']
   \<and> sorted_wrt (\<lambda>a b. is_urgent b \<longrightarrow> is_urgent a)
      (queue_rows [] (empty_db\<lparr>db_cases := [held_case (Some ''a''), held_case None\<lparr>c_id := ''case_2''\<rparr>]\<rparr>))"
proof
  show "map c_id (queue_rows [] (empty_db\<lparr>db_cases := [held_case (Some ''a''), held_case None\<lparr>c_id := ''case_2''\<rparr>]\<rparr>))
     = [''case_2'', ''case_1'']"
    by (simp add: queue_rows_def held_case_def queue_key_def is_urgent_def URGENT_URGENCIES_def or_empty_def
        requested_statuses_def DEFAULT_STATUSES_def assignee_filter_def dict_simps Let_def insort_key_def less_eq_prod_def)
  show "sorted_wrt (\<lambda>a b. is_urgent b \<longrightarrow> is_urgent a)
      (queue_rows [] (empty_db\<lparr>db_cases := [held_case (Some ''a''), held_case None\<lparr>c_id := ''case_2''\<rparr>]\<rparr>))"
    using queue_in_order by (rule sorted_wrt_mono_rel [rotated, OF conjunct2]) blast
qed

end
