(* ===== verification/Store.thy ===== *)
theory Store
  imports Datastore Pipeline MemoryPolicy "HOL-Library.List_Lexorder" "HOL-Library.Char_ord"
begin

text \<open>
  The gateway store behind the webhooks and the turn worker: \<^verbatim>\<open>PostgresGatewayStore\<close>
  (\<^verbatim>\<open>postgres_gateway_store.py\<close>) over the datastore and \<^verbatim>\<open>InMemoryGatewayStore\<close> (\<^verbatim>\<open>gateway_store.py\<close>).
  Both are values of the record \<open>gateway_store\<close>, the seam the callers use, and both interpret the
  locale \<open>accepting_store\<close>.
\<close>

section \<open>The seam\<close>

record 'w gateway_store =
  gs_persist :: "decision \<Rightarrow> 'w \<Rightarrow> (exn + turn_context \<times> bool) \<times> 'w"
  gs_load_context :: "string \<Rightarrow> 'w \<Rightarrow> turn_context option"
  gs_load_inbound_body :: "string \<Rightarrow> 'w \<Rightarrow> string option"
  gs_claim_event :: "string \<Rightarrow> 'w \<Rightarrow> bool \<times> 'w"
  gs_is_duplicate :: "string \<Rightarrow> 'w \<Rightarrow> bool"
  gs_persist_agent_outbound :: "turn_context \<Rightarrow> string \<Rightarrow> 'w \<Rightarrow> (exn + unit) \<times> 'w"

section \<open>Keys and snapshots of the Postgres store\<close>

definition channel_column :: "string \<Rightarrow> string" where
  "channel_column channel = (if is_email_channel channel then ''email'' else ''sms'')"

definition session_key :: "string \<Rightarrow> string \<Rightarrow> string" where
  "session_key thread_id conversation_id = ''sms_session:'' @ thread_id @ '':'' @ conversation_id"

definition turn_key :: "string \<Rightarrow> string \<Rightarrow> string" where
  "turn_key session_id event_id = ''message_turn:'' @ session_id @ '':'' @ event_id"

definition SESSION_TTL :: int where
  "SESSION_TTL = seconds (24 * 60 * 60)"

definition CONFIRMED_EXPERIENCE_LIMIT :: nat where
  "CONFIRMED_EXPERIENCE_LIMIT = 20"

definition snapshot_to_json :: "snapshot \<Rightarrow> dict" where
  "snapshot_to_json s =
     [(''outcome'', JStr (snap_outcome s)), (''resolved_at'', snap_resolved_at s)]
     @ (if truthy (snap_customer_id s) then [(''shopify_customer_id'', snap_customer_id s)] else [])
     @ (case snap_customer_ids s of
          None \<Rightarrow> []
        | Some ids \<Rightarrow> (if ids = [] then [] else [(''shopify_customer_ids'', JList ids)]))
     @ (if falsy (snap_display_name s) then []
        else [(''company_name'', JStr (the (snap_display_name s)))])"

definition snapshot_from_json :: "json \<Rightarrow> string \<Rightarrow> snapshot option" where
  "snapshot_from_json data fallback_at =
     (case data of
        JObj d \<Rightarrow>
          (case get d ''outcome'' of
             JStr outcome \<Rightarrow>
               (let at = (case get d ''resolved_at'' of JStr a \<Rightarrow> JStr a | _ \<Rightarrow> JStr fallback_at) in
                if outcome = ''verified_customer'' then
                  (let display = (case get d ''company_name'' of
                                    JStr n \<Rightarrow> JStr n | _ \<Rightarrow> get d ''display_name'') in
                   Some \<lparr>snap_outcome = outcome, snap_resolved_at = at,
                     snap_customer_id = (case get d ''shopify_customer_id'' of
                        JStr i \<Rightarrow> JStr i | _ \<Rightarrow> JNull),
                     snap_customer_ids = None, snap_display_name = as_str display\<rparr>)
                else if outcome = ''ambiguous_phone_match'' then
                  Some \<lparr>snap_outcome = outcome, snap_resolved_at = at, snap_customer_id = JNull,
                    snap_customer_ids = (case get d ''shopify_customer_ids'' of
                       JList ids \<Rightarrow> Some ids | _ \<Rightarrow> None),
                    snap_display_name = None\<rparr>
                else Some (unmatched_snapshot at))
           | _ \<Rightarrow> None)
      | _ \<Rightarrow> None)"

section \<open>The Postgres store\<close>

definition claim_event :: "string \<Rightarrow> db \<Rightarrow> bool \<times> db" where
  "claim_event event_id d =
     (if event_id \<in> set (db_claims d) then (False, d)
      else (True, d\<lparr>db_claims := db_claims d @ [event_id]\<rparr>))"

definition is_duplicate :: "string \<Rightarrow> db \<Rightarrow> bool" where
  "is_duplicate event_id d \<longleftrightarrow>
     event_id \<in> x_event_id ` set (db_contexts d) \<or> event_id \<in> set (db_claims d)"

text \<open>
  The statements of \<^verbatim>\<open>persist_accepted_inbound\<close>, one function each.  A customer id is a text or null
  in every snapshot the identity drivers produce; another JSON value is not adaptable here.
\<close>

definition text_or_null :: "json \<Rightarrow> exn + string option" where
  "text_or_null v = (case v of
      JNull \<Rightarrow> Inr None
    | JStr c \<Rightarrow> Inr (Some c)
    | _ \<Rightarrow> Inl (PyError ''ProgrammingError'' ''cannot adapt the value to a text column''))"

definition upsert_thread ::
  "int \<Rightarrow> string \<Rightarrow> string \<Rightarrow> string \<Rightarrow> json \<Rightarrow> thread_row list \<Rightarrow> exn + string \<times> thread_row list" where
  "upsert_thread now thread_id channel ident customer rows =
     ebind (text_or_null customer) (\<lambda>cust.
       case List.find (\<lambda>r. t_channel r = channel \<and> t_channel_identity r = ident) rows of
         Some r \<Rightarrow> Inr (t_id r,
           update_where (\<lambda>q. t_channel q = channel \<and> t_channel_identity q = ident)
             (\<lambda>q. q\<lparr>t_shopify_customer_id := (case cust of Some c \<Rightarrow> Some c | None \<Rightarrow> t_shopify_customer_id q),
                    t_last_interaction_at := now, t_updated_at := now\<rparr>) rows)
       | None \<Rightarrow>
           ebind (pk_insert t_id \<lparr>t_id = thread_id, t_channel = channel, t_channel_identity = ident,
                    t_shopify_customer_id = cust, t_created_at = now, t_updated_at = now,
                    t_last_interaction_at = now\<rparr> rows) (\<lambda>rows'.
           Inr (thread_id, rows')))"

definition upsert_session :: "int \<Rightarrow> string \<Rightarrow> string \<Rightarrow> session_row list \<Rightarrow> session_row list" where
  "upsert_session now session_id thread_id rows =
     (if session_id \<in> ss_id ` set rows
      then update_where (\<lambda>q. ss_id q = session_id)
             (\<lambda>q. q\<lparr>ss_expires_at := max (ss_expires_at q) (now + SESSION_TTL)\<rparr>) rows
      else rows @ [\<lparr>ss_id = session_id, ss_customer_thread_id = thread_id, ss_opened_at = now,
                    ss_expires_at = now + SESSION_TTL, ss_created_at = now\<rparr>])"

definition insert_or_ignore :: "('r \<Rightarrow> string) \<Rightarrow> 'r \<Rightarrow> 'r list \<Rightarrow> 'r list" where
  "insert_or_ignore key r rows = (if key r \<in> key ` set rows then rows else rows @ [r])"

definition case_is_open :: "case_row \<Rightarrow> bool" where
  "case_is_open r \<longleftrightarrow> c_status r \<in> {''open'', ''in_progress''}"

definition ensure_open_case ::
  "exec_env \<Rightarrow> nat \<Rightarrow> string \<Rightarrow> string \<Rightarrow> string \<Rightarrow> string \<Rightarrow> db \<Rightarrow> exn + db" where
  "ensure_open_case ex i thread_id session_id preview channel d =
     (case List.find (\<lambda>r. c_customer_thread_id r = Some thread_id \<and> case_is_open r) (db_cases d) of
        Some row \<Rightarrow>
          Inr (d\<lparr>db_cases := update_where (\<lambda>q. c_id q = c_id row)
             (\<lambda>q. q\<lparr>c_last_activity_at := ee_now ex, c_sms_session_id := Some session_id\<rparr>)
             (db_cases d)\<rparr>)
      | None \<Rightarrow>
          ebind (pk_insert c_id
             \<lparr>c_id = new_id ''case'' ex i, c_channel = channel, c_customer_thread_id = Some thread_id,
              c_sms_session_id = Some session_id, c_contact_reason = None, c_urgency = Some ''normal'',
              c_status = ''open'',
              c_summary = (if preview = [] then None else Some (take 200 preview)),
              c_assignee_account_id = None, c_resolved_by_account_id = None, c_tool_failure = False,
              c_opened_at = ee_now ex, c_last_activity_at = ee_now ex, c_resolved_at = None,
              c_created_at = ee_now ex\<rparr> (db_cases d)) (\<lambda>rows.
          Inr (d\<lparr>db_cases := rows\<rparr>)))"

text \<open>The \<^verbatim>\<open>agent_turn_context\<close> row and, when it is new, the outbox write of its job.\<close>

definition insert_context_and_job ::
  "exec_env \<Rightarrow> inbound_event \<Rightarrow> string \<Rightarrow> string \<Rightarrow> string \<Rightarrow> db \<Rightarrow> exn + bool \<times> db" where
  "insert_context_and_job ex event thread_id session_id turn_id d =
     (if ev_event_id event \<in> x_event_id ` set (db_contexts d) then Inr (False, d)
      else
        ebind (pk_insert x_id
          \<lparr>x_id = new_id ''agent_ctx'' ex 0, x_event_id = ev_event_id event,
           x_customer_thread_id = thread_id, x_sms_session_id = session_id,
           x_inbound_message_turn_id = turn_id, x_created_at = ee_now ex\<rparr> (db_contexts d))
          (\<lambda>contexts.
        ebind (insert_job (new_id ''job'' ex 1) (ee_now ex)
                 (payload_json \<lparr>jp_event_id = ev_event_id event,
                    jp_conversation_id = ev_conversation_id event\<rparr>)
                 AGENT_TURN_JOB_TYPE None None DEFAULT_MAX_ATTEMPTS (db_jobs d))
          (\<lambda>(_, jobs).
        Inr (True, d\<lparr>db_contexts := contexts, db_jobs := jobs\<rparr>))))"

text \<open>
  The transaction up to its commit: the thread, session and turn ids it used and whether the
  context row is new.  A uuid is drawn for the context (0), the job (1) and the case (2).
\<close>

definition persist_inbound_rows ::
  "exec_env \<Rightarrow> inbound_event \<Rightarrow> snapshot option \<Rightarrow> db \<Rightarrow> exn + (string \<times> string \<times> string \<times> bool) \<times> db" where
  "persist_inbound_rows ex event snap d =
     (let now = ee_now ex;
          channel_col = channel_column (ev_channel event);
          thread0 = customer_thread_id (ev_channel event) (ev_from_phone event);
          session_id = session_key thread0 (ev_conversation_id event);
          turn_id = turn_key session_id (ev_event_id event);
          customer = (case snap of
              Some s \<Rightarrow> (if snap_outcome s = ''verified_customer'' then snap_customer_id s else JNull)
            | None \<Rightarrow> JNull) in
      ebind (upsert_thread now thread0 channel_col (ev_from_phone event) customer (db_threads d))
        (\<lambda>(thread_id, threads).
      let d1 = d\<lparr>db_threads := threads,
            db_sessions := upsert_session now session_id thread_id (db_sessions d),
            db_turns := insert_or_ignore m_id
              \<lparr>m_id = turn_id, m_sms_session_id = session_id, m_customer_thread_id = thread_id,
               m_direction = ''inbound'', m_author = ''customer'', m_body = ev_body event,
               m_auto_handled = False, m_created_at = now\<rparr> (db_turns d),
            db_snapshots := (case snap of
                None \<Rightarrow> db_snapshots d
              | Some s \<Rightarrow> insert_or_ignore n_id
                  \<lparr>n_id = ''snap:'' @ ev_event_id event, n_event_id = ev_event_id event,
                   n_channel = channel_col, n_channel_identity = ev_from_phone event,
                   n_match_result = JObj (snapshot_to_json s), n_captured_at = now\<rparr>
                  (db_snapshots d))\<rparr> in
      ebind (insert_context_and_job ex event thread_id session_id turn_id d1)
        (\<lambda>(created, d2).
      ebind (ensure_open_case ex 2 thread_id session_id (ev_body event) channel_col d2) (\<lambda>d3.
      Inr ((thread_id, session_id, turn_id, created), d3)))))"

definition load_context :: "string \<Rightarrow> db \<Rightarrow> turn_context option" where
  "load_context event_id d =
     (case List.find (\<lambda>c. x_event_id c = event_id) (db_contexts d) of
        None \<Rightarrow> None
      | Some c \<Rightarrow>
          (case List.find (\<lambda>t. t_id t = x_customer_thread_id c) (db_threads d) of
             None \<Rightarrow> None
           | Some t \<Rightarrow>
               let snap = List.find (\<lambda>s. n_event_id s = event_id) (db_snapshots d) in
               Some \<lparr>tc_event_id = x_event_id c,
                 tc_conversation_id = rsplit_last CHR '':'' (x_sms_session_id c),
                 tc_sms_session_id = x_sms_session_id c,
                 tc_customer_thread_id = x_customer_thread_id c,
                 tc_from_phone = t_channel_identity t,
                 tc_snapshot = (case snap of
                     None \<Rightarrow> None
                   | Some s \<Rightarrow> snapshot_from_json (n_match_result s) (isoformat (n_captured_at s))),
                 tc_inbound_body_ref = x_inbound_message_turn_id c,
                 tc_channel = t_channel t\<rparr>))"

definition not_accepted :: exn where
  "not_accepted = PyError ''ValueError''
     ''persist_accepted_inbound requires an accepted (enqueue) decision''"

definition persist_accepted_inbound ::
  "exec_env \<Rightarrow> decision \<Rightarrow> db \<Rightarrow> (exn + turn_context \<times> bool) \<times> db" where
  "persist_accepted_inbound ex dec d =
     (case (if dec_enqueue dec then dec_event dec else None) of
        None \<Rightarrow> (Inl not_accepted, d)
      | Some event \<Rightarrow>
          (case persist_inbound_rows ex event (dec_snapshot dec) d of
             Inl e \<Rightarrow> (Inl e, d)
           | Inr ((thread_id, session_id, turn_id, created), d') \<Rightarrow>
               (if created
                then (case build_agent_turn_context dec session_id thread_id turn_id of
                        Inl e \<Rightarrow> (Inl e, d') | Inr c \<Rightarrow> (Inr (c, True), d'))
                else case load_context (ev_event_id event) d' of
                  Some c \<Rightarrow> (Inr (c, False), d')
                | None \<Rightarrow> (Inl (PyError ''RuntimeError''
                    (''agent_turn_context conflict for '' @ repr_str (ev_event_id event)
                      @ '' but row missing'')), d'))))"

definition load_inbound_body :: "string \<Rightarrow> db \<Rightarrow> string option" where
  "load_inbound_body ref d = map_option m_body (List.find (\<lambda>m. m_id m = ref) (db_turns d))"

definition load_case_identity :: "string \<Rightarrow> db \<Rightarrow> json option" where
  "load_case_identity case_id d =
     (case List.find (\<lambda>c. c_id c = case_id) (db_cases d) of
        None \<Rightarrow> None
      | Some c \<Rightarrow>
          (case List.find (\<lambda>t. c_customer_thread_id c = Some (t_id t)) (db_threads d) of
             None \<Rightarrow> None
           | Some t \<Rightarrow> Some (JObj
               (if \<not> falsy (t_shopify_customer_id t)
                then [(''outcome'', JStr ''verified_customer''),
                      (''shopify_customer_id'', opt_str (t_shopify_customer_id t)),
                      (''channel'', JStr (t_channel t)),
                      (''channel_identity'', JStr (t_channel_identity t))]
                else [(''outcome'', JStr ''unmatched_caller''),
                      (''channel'', JStr (t_channel t)),
                      (''channel_identity'', JStr (t_channel_identity t))]))))"

definition load_customer_memory :: "string \<Rightarrow> db \<Rightarrow> (string \<times> string) list" where
  "load_customer_memory binding_key d =
     map (\<lambda>r. (p_slot_name r, p_slot_value r)) (filter (\<lambda>r. p_binding_key r = binding_key) (db_slots d))"

text \<open>\<^verbatim>\<open>ORDER BY decided_at DESC NULLS LAST, created_at DESC LIMIT 20\<close>.\<close>

definition load_confirmed_experience :: "db \<Rightarrow> (string \<times> string) list" where
  "load_confirmed_experience d =
     (let confirmed = order_desc e_created_at (filter (\<lambda>r. e_status r = ''confirmed'') (db_experience d));
          dated = order_desc (the \<circ> e_decided_at) (filter (\<lambda>r. e_decided_at r \<noteq> None) confirmed);
          undated = filter (\<lambda>r. e_decided_at r = None) confirmed in
      map (\<lambda>r. (e_content r, e_kind r)) (take CONFIRMED_EXPERIENCE_LIMIT (dated @ undated)))"

definition list_channel_identities_for_customer :: "string \<Rightarrow> db \<Rightarrow> (string \<times> string) list" where
  "list_channel_identities_for_customer customer d =
     map (\<lambda>k. (k ! 0, k ! 1)) (sort (remdups (map (\<lambda>r. [l_channel r, l_channel_identity r])
       (filter (\<lambda>r. l_shopify_customer_id r = Some customer) (db_links d)))))"

text \<open>
  \<^verbatim>\<open>merge_provisional_memory\<close>: the loop over the locked provisional rows, then the delete and the
  audit row.
\<close>

fun merge_rows ::
  "exec_env \<Rightarrow> nat \<Rightarrow> string \<Rightarrow> slot_row list \<Rightarrow> slot_row list
     \<Rightarrow> exn + string list \<times> (string \<times> string) list \<times> slot_row list" where
  "merge_rows ex i verified_key [] slots = Inr ([], [], slots)"
| "merge_rows ex i verified_key (r # rs) slots =
     (if (verified_key, p_slot_name r) \<in> (\<lambda>q. (p_binding_key q, p_slot_name q)) ` set slots
      then ebind (merge_rows ex (Suc i) verified_key rs slots) (\<lambda>(moved, overridden, slots').
           Inr (moved, (p_slot_name r, p_slot_value r) # overridden, slots'))
      else
        ebind (pk_insert p_id
          \<lparr>p_id = new_id ''mem'' ex i, p_binding_key = verified_key, p_binding_kind = ''verified'',
           p_slot_name = p_slot_name r, p_slot_value = p_slot_value r,
           p_source = MEMORY_SOURCE_MERGED_PROVISIONAL, p_evidence = p_evidence r,
           p_actor_account_id = None, p_created_at = ee_now ex, p_updated_at = ee_now ex,
           p_last_interaction_at = ee_now ex\<rparr> slots) (\<lambda>slots1.
        ebind (merge_rows ex (Suc i) verified_key rs slots1) (\<lambda>(moved, overridden, slots').
        Inr (p_slot_name r # moved, overridden, slots'))))"

definition merge_provisional_memory ::
  "exec_env \<Rightarrow> string \<Rightarrow> string \<Rightarrow> db
     \<Rightarrow> (exn + (string list \<times> (string \<times> string) list) option) \<times> db" where
  "merge_provisional_memory ex source_key verified_key d =
     (let rows = sort_key p_slot_name (filter (\<lambda>r. p_binding_key r = source_key) (db_slots d)) in
      if rows = [] then (Inr None, d)
      else case merge_rows ex 0 verified_key rows (db_slots d) of
        Inl e \<Rightarrow> (Inl e, d)
      | Inr (moved, overridden, slots) \<Rightarrow>
          (case pk_insert g_id
             \<lparr>g_id = new_id ''merge'' ex (length rows), g_provisional_key = source_key,
              g_verified_key = verified_key,
              g_details = JObj [(''moved'', JList (map JStr moved)),
                (''overridden'', JObj (map (\<lambda>(k, v). (k, JStr v)) overridden))],
              g_created_at = ee_now ex\<rparr> (db_merges d) of
             Inl e \<Rightarrow> (Inl e, d)
           | Inr merges \<Rightarrow> (Inr (Some (moved, overridden)),
               d\<lparr>db_slots := filter (\<lambda>r. p_binding_key r \<noteq> source_key) slots,
                 db_merges := merges\<rparr>)))"

definition outbound_turn_key :: "turn_context \<Rightarrow> string" where
  "outbound_turn_key c = tc_sms_session_id c @ '':'' @ tc_event_id c @ '':out''"

definition persist_agent_outbound :: "int \<Rightarrow> turn_context \<Rightarrow> string \<Rightarrow> db \<Rightarrow> (exn + unit) \<times> db" where
  "persist_agent_outbound now c body d =
     (if py_strip body = [] then (Inr (), d)
      else if tc_sms_session_id c = [] \<or> tc_customer_thread_id c = [] then (Inr (), d)
      else if outbound_turn_key c \<notin> m_id ` set (db_turns d)
              \<and> (tc_sms_session_id c \<notin> ss_id ` set (db_sessions d)
                 \<or> tc_customer_thread_id c \<notin> t_id ` set (db_threads d))
      then (Inl (PyError ''ForeignKeyViolation'' ''insert violates a foreign key constraint''), d)
      else (Inr (), d\<lparr>db_turns := insert_or_ignore m_id
             \<lparr>m_id = outbound_turn_key c, m_sms_session_id = tc_sms_session_id c,
              m_customer_thread_id = tc_customer_thread_id c, m_direction = ''outbound'',
              m_author = ''hermes'', m_body = body, m_auto_handled = False, m_created_at = now\<rparr>
             (db_turns d),
           db_cases := update_where
             (\<lambda>r. c_customer_thread_id r = Some (tc_customer_thread_id c) \<and> case_is_open r)
             (\<lambda>r. r\<lparr>c_last_activity_at := now\<rparr>) (db_cases d)\<rparr>))"

definition pg_gateway_store :: "exec_env \<Rightarrow> db gateway_store" where
  "pg_gateway_store ex = \<lparr>gs_persist = persist_accepted_inbound ex, gs_load_context = load_context,
     gs_load_inbound_body = load_inbound_body, gs_claim_event = claim_event,
     gs_is_duplicate = is_duplicate,
     gs_persist_agent_outbound = persist_agent_outbound (ee_now ex)\<rparr>"

section \<open>The in-memory store\<close>

record mem_store =
  ms_contexts :: "(string \<times> turn_context) list"
  ms_turns :: "(string \<times> string) list"
  ms_claimed :: "string list"
  ms_payloads :: "job_payload list"

definition empty_mem_store :: mem_store where
  "empty_mem_store = \<lparr>ms_contexts = [], ms_turns = [], ms_claimed = [], ms_payloads = []\<rparr>"

definition mem_persist_accepted_inbound ::
  "decision \<Rightarrow> mem_store \<Rightarrow> (exn + turn_context \<times> bool) \<times> mem_store" where
  "mem_persist_accepted_inbound dec s =
     (case (if dec_enqueue dec then dec_event dec else None) of
        None \<Rightarrow> (Inl not_accepted, s)
      | Some event \<Rightarrow>
          let created = (map_of (ms_contexts s) (ev_event_id event) = None);
              thread_id = customer_thread_id (ev_channel event) (ev_from_phone event);
              session_id = session_key thread_id (ev_conversation_id event);
              body_ref = turn_key session_id (ev_event_id event);
              s1 = s\<lparr>ms_turns := AList.update body_ref (ev_body event) (ms_turns s)\<rparr> in
          (case build_agent_turn_context dec session_id thread_id body_ref of
             Inl e \<Rightarrow> (Inl e, s1)
           | Inr c \<Rightarrow>
               let s2 = s1\<lparr>ms_contexts := AList.update (tc_event_id c) c (ms_contexts s1)\<rparr>;
                   s3 = (if created then s2\<lparr>ms_payloads := ms_payloads s2 @ [to_job_payload c]\<rparr> else s2)
               in (Inr (c, created), s3)))"

definition mem_persist_agent_outbound ::
  "turn_context \<Rightarrow> string \<Rightarrow> mem_store \<Rightarrow> (exn + unit) \<times> mem_store" where
  "mem_persist_agent_outbound c body s =
     (Inr (), s\<lparr>ms_turns := AList.update
        (turn_key (tc_sms_session_id c) (tc_event_id c) @ '':out'') body (ms_turns s)\<rparr>)"

definition mem_claim_event :: "string \<Rightarrow> mem_store \<Rightarrow> bool \<times> mem_store" where
  "mem_claim_event event_id s =
     (if event_id \<in> set (ms_claimed s) \<or> map_of (ms_contexts s) event_id \<noteq> None then (False, s)
      else (True, s\<lparr>ms_claimed := ms_claimed s @ [event_id]\<rparr>))"

definition mem_is_duplicate :: "string \<Rightarrow> mem_store \<Rightarrow> bool" where
  "mem_is_duplicate event_id s \<longleftrightarrow>
     map_of (ms_contexts s) event_id \<noteq> None \<or> event_id \<in> set (ms_claimed s)"

definition mem_gateway_store :: "mem_store gateway_store" where
  "mem_gateway_store = \<lparr>gs_persist = mem_persist_accepted_inbound,
     gs_load_context = (\<lambda>e s. map_of (ms_contexts s) e),
     gs_load_inbound_body = (\<lambda>ref s. map_of (ms_turns s) ref),
     gs_claim_event = mem_claim_event, gs_is_duplicate = mem_is_duplicate,
     gs_persist_agent_outbound = mem_persist_agent_outbound\<rparr>"

end
