(* ===== verification/DispatchApp.thy ===== *)
theory DispatchApp
  imports Cases Store
begin

text \<open>
  The per-profile HTTP surface of the Workbench: the deterministic \<^verbatim>\<open>tools:dispatch\<close> route
  (\<^verbatim>\<open>tool_dispatch_app.py\<close>) and the \<^verbatim>\<open>agent:turn\<close> draft route (\<^verbatim>\<open>agent_turn_app.py\<close>).  \<open>body\<close> is what
  \<^verbatim>\<open>request.json()\<close> gave, \<open>None\<close> when it raised.  A route's exception is a 500.
\<close>

section \<open>Responses\<close>

record http =
  hp_status :: nat
  hp_body :: json

text \<open>\<^verbatim>\<open>JSONResponse\<close> encodes its content with \<^verbatim>\<open>json.dumps\<close>, which knows no \<^verbatim>\<open>datetime\<close>.\<close>

definition json_response :: "nat \<Rightarrow> json \<Rightarrow> exn + http" where
  "json_response status content =
     (if json_safe content then Inr \<lparr>hp_status = status, hp_body = content\<rparr>
      else Inl (PyError ''TypeError'' ''Object of type datetime is not JSON serializable''))"

definition empty_response :: "nat \<Rightarrow> exn + http" where
  "empty_response status = Inr \<lparr>hp_status = status, hp_body = JNull\<rparr>"

section \<open>tools:dispatch\<close>

definition bearer_token :: "string option \<Rightarrow> string" where
  "bearer_token header =
     (let h = or_empty header in if starts_with h ''Bearer '' then drop 7 h else [])"

definition bearer_authorized :: "string option \<Rightarrow> string \<Rightarrow> exn + bool" where
  "bearer_authorized header api_token =
     (let t = bearer_token header in
      if api_token = [] \<or> t = [] then Inr False else compare_digest t api_token)"

definition profile_allowlist_gate :: "string \<Rightarrow> exn + gate" where
  "profile_allowlist_gate prof =
     ebind (allowlisted_tools prof) (\<lambda>allowed. Inr (\<lambda>request context.
       if rq_tool request \<in> set allowed then gate_allow
       else gate_deny Policy_blocked
         (''Tool \"'' @ rq_tool request @ ''\" is not in the \"'' @ prof @ ''\" allowlist.'')))"

definition CASE_IDENTITY_TOOL :: string where
  "CASE_IDENTITY_TOOL = ''toee_customer_memory''"

text \<open>\<open>lookup\<close> is the store's \<^verbatim>\<open>load_case_identity\<close>; whatever it raises means no identity.\<close>

definition resolve_case_identity ::
  "bool \<Rightarrow> (string \<Rightarrow> exn + json option) \<Rightarrow> string \<Rightarrow> dict option \<Rightarrow> json" where
  "resolve_case_identity memory_on lookup tool params =
     (if tool \<noteq> CASE_IDENTITY_TOOL \<or> \<not> memory_on then JNull
      else case get (case params of None \<Rightarrow> [] | Some p \<Rightarrow> p) ''case_id'' of
        JStr case_id \<Rightarrow>
          (if case_id = [] then JNull
           else case lookup case_id of Inr (Some ident) \<Rightarrow> ident | _ \<Rightarrow> JNull)
      | _ \<Rightarrow> JNull)"

definition optional_text :: "json \<Rightarrow> string option" where
  "optional_text j = (case j of JStr s \<Rightarrow> (if s = [] then None else Some s) | _ \<Rightarrow> None)"

definition dispatch_context :: "string \<Rightarrow> string option \<Rightarrow> json \<Rightarrow> ctx" where
  "dispatch_context prof actor ident =
     \<lparr>profile = prof, identity = ident, user_id = actor, connected_account_id = None,
      ctx_conversation_id = None, ctx_sms_session_id = None\<rparr>"

definition error_json :: "tool_result \<Rightarrow> json" where
  "error_json r = JObj [(''ok'', JBool False), (''error'', JObj
     [(''class'', opt_str (map_option error_class_name (tr_error_class r))),
      (''message'', opt_str (tr_message r))])]"

text \<open>
  The route: \<open>drv tool\<close> is the driver for a tool (\<^verbatim>\<open>knowledge_overrides.get(tool, active_driver)\<close>).
  The result carries the records of the audit sink, which this route does not keep.
\<close>

definition dispatch_route ::
  "string \<Rightarrow> string \<Rightarrow> gate \<Rightarrow> (string \<Rightarrow> 's driver) \<Rightarrow> bool \<Rightarrow> ('s \<Rightarrow> string \<Rightarrow> exn + json option)
     \<Rightarrow> string option \<Rightarrow> json option \<Rightarrow> 's \<Rightarrow> (exn + http) \<times> 's" where
  "dispatch_route api_token prof gate drv memory_on lookup header body s =
     (case bearer_authorized header api_token of
        Inl e \<Rightarrow> (Inl e, s)
      | Inr False \<Rightarrow> (empty_response 401, s)
      | Inr True \<Rightarrow>
          (let b = (case body of Some (JObj d) \<Rightarrow> d | _ \<Rightarrow> []) in
           case (get b ''tool'', get b ''action'') of
             (JStr tool, JStr action) \<Rightarrow>
               (case (case get b ''params'' of JNull \<Rightarrow> Some None | JObj p \<Rightarrow> Some (Some p) | _ \<Rightarrow> None) of
                  None \<Rightarrow> (json_response 400 (JObj [(''error'', JStr ''params must be an object'')]), s)
                | Some params \<Rightarrow>
                    (let actor = optional_text (get b ''actor_account_id'');
                         ident = resolve_case_identity memory_on (lookup s) tool params;
                         (r, _, s') = execute_tool tool action (dispatch_context prof actor ident) (drv tool)
                           (case params of None \<Rightarrow> [] | Some p \<Rightarrow> p) (Some gate) [] s in
                     if tr_ok r
                     then (json_response 200 (JObj [(''ok'', JBool True), (''data'', tr_data r)]), s')
                     else (json_response 200 (error_json r), s')))
           | _ \<Rightarrow> (json_response 400 (JObj [(''error'', JStr ''tool and action are required strings'')]), s)))"

section \<open>agent:turn\<close>

definition VALID_CHANNELS :: "string list" where
  "VALID_CHANNELS = [''sms'', ''email'', ''internal_note'', ''chat'']"

text \<open>\<^verbatim>\<open>d[k]\<close>.\<close>

definition item :: "dict \<Rightarrow> string \<Rightarrow> exn + json" where
  "item d k = (case map_of d k of Some v \<Rightarrow> Inr v | None \<Rightarrow> Inl (PyError ''KeyError'' (repr_str k)))"

definition draft_envelope :: "string \<Rightarrow> dict \<Rightarrow> exn + dict" where
  "draft_envelope channel result =
     ebind (item result ''draft'') (\<lambda>draft.
     ebind (if channel = ''chat'' then Inr [(''reply'', draft)]
            else if channel = ''internal_note''
            then Inr [(''kind'', JStr ''internal_note''), (''draft'', draft)]
            else if channel = ''email''
            then ebind (item result ''subject'') (\<lambda>subj.
                 Inr [(''channel'', JStr ''email''), (''subject'', subj), (''draft'', draft)])
            else Inr [(''channel'', JStr ''sms''), (''draft'', draft)]) (\<lambda>base.
     ebind (item result ''model'') (\<lambda>model.
     ebind (item result ''profile'') (\<lambda>prof.
     Inr (base
       @ (if channel \<noteq> ''chat'' \<and> truthy (get result ''proposals'')
          then [(''proposals'', get result ''proposals'')] else [])
       @ [(''provenance'', JObj [(''model'', model), (''profile'', prof)])])))))"

text \<open>The draft audit is \<open>record_audit\<close> when the driver has one.\<close>

definition record_draft_generated ::
  "bool \<Rightarrow> exec_env \<Rightarrow> string \<Rightarrow> string \<Rightarrow> string option \<Rightarrow> db \<Rightarrow> (exn + unit) \<times> db" where
  "record_draft_generated has_recorder ex case_id channel actor d =
     (if \<not> has_recorder then (Inr (), d)
      else case record_audit ex INTERNAL actor ''draft_generated'' (Some ''case'') (Some case_id)
             [(''detail'', JStr (''draft_'' @ channel))] d of
        (Inl e, d') \<Rightarrow> (Inl e, d') | (Inr _, d') \<Rightarrow> (Inr (), d'))"

definition agent_turn_route ::
  "string \<Rightarrow> (string \<Rightarrow> string \<Rightarrow> string option \<Rightarrow> db \<Rightarrow> (exn + dict) \<times> db) \<Rightarrow> bool \<Rightarrow> exec_env
     \<Rightarrow> string option \<Rightarrow> json option \<Rightarrow> db \<Rightarrow> (exn + http) \<times> db" where
  "agent_turn_route api_token runner has_recorder ex header body d =
     (case bearer_authorized header api_token of
        Inl e \<Rightarrow> (Inl e, d)
      | Inr False \<Rightarrow> (empty_response 401, d)
      | Inr True \<Rightarrow>
          (let b = (case body of Some (JObj x) \<Rightarrow> x | _ \<Rightarrow> []) in
           case as_str (get b ''channel'') of
             None \<Rightarrow> (json_response 400 (JObj [(''error'',
                       JStr ''channel must be one of sms, email, internal_note, chat'')]), d)
           | Some channel \<Rightarrow>
               (if channel \<notin> set VALID_CHANNELS
                then (json_response 400 (JObj [(''error'',
                       JStr ''channel must be one of sms, email, internal_note, chat'')]), d)
                else case optional_text (get b ''case_id'') of
                  None \<Rightarrow> (json_response 400 (JObj [(''error'', JStr ''case_id is required'')]), d)
                | Some case_id \<Rightarrow>
                    (case runner channel case_id (optional_text (get b ''prompt'')) d of
                       (Inl e, d1) \<Rightarrow> (Inl e, d1)
                     | (Inr result, d1) \<Rightarrow>
                         (case draft_envelope channel result of
                            Inl e \<Rightarrow> (Inl e, d1)
                          | Inr data \<Rightarrow>
                              (case (if channel = ''chat'' then (Inr (), d1)
                                     else record_draft_generated has_recorder ex case_id channel
                                            (optional_text (get b ''actor_account_id'')) d1) of
                                 (Inl e, d2) \<Rightarrow> (Inl e, d2)
                               | (Inr _, d2) \<Rightarrow>
                                   (json_response 200 (JObj [(''ok'', JBool True),
                                      (''data'', JObj data)]), d2)))))))"

section \<open>Lemmas\<close>

lemma dispatch_unauthorized:
  assumes "bearer_authorized header api_token \<noteq> Inr True"
  shows "snd (dispatch_route api_token prof gate drv memory_on lookup header body s) = s"
  using assms by (auto simp: dispatch_route_def split: sum.split bool.split)

lemma bearer_authorized_True: "bearer_authorized header t = Inr True \<longleftrightarrow>
   t \<noteq> [] \<and> (\<exists>h. header = Some h \<and> starts_with h ''Bearer '' \<and> drop 7 h = t) \<and> list_all (\<lambda>c. code c < 128) t"
  by (cases header) (auto simp: bearer_authorized_def bearer_token_def compare_digest_def Let_def or_empty_def)

section \<open>What a route can encode\<close>

lemma json_safe_opt_str [simp]: "json_safe (opt_str s)"
  by (cases s) (simp_all add: opt_str_def)

lemma json_safe_time [simp]: "json_safe (time_json t)" "json_safe (opt_time t')"
  by (simp_all add: time_json_def opt_time_def split: option.split)

lemma read_model_safe [simp]: "list_all (json_safe \<circ> snd) (read_model now d r)"
  by (simp add: read_model_def case_json_def)

lemma message_json_safe [simp]: "json_safe (message_json channel r)"
  by (simp add: message_json_def)

lemma safe_rows [simp]: "(\<And>r. json_safe (f r)) \<Longrightarrow> list_all json_safe (map f rows)"
  by (simp add: list_all_iff)

lemma list_cases_safe: "list_cases ex params c d = (Inr j, d') \<Longrightarrow> json_safe j"
  by (auto simp: list_cases_def simp del: list.pred_map)

lemma thread_messages_safe [simp]: "list_all json_safe (thread_messages thread_id channel d)"
  by (simp add: thread_messages_def list_all_iff)

lemma get_thread_safe: "get_thread ex params c d = (Inr j, d') \<Longrightarrow> json_safe j"
  by (auto simp: get_thread_def unit_of_work_Inr exn_simps Let_def split: option.splits)

lemma build_auto_handled_record_unsafe: "build_auto_handled_record tid timeline d = Some j \<Longrightarrow> \<not> json_safe j"
  by (auto simp: build_auto_handled_record_def Let_def split: option.splits if_splits prod.splits)

lemma list_auto_handled_safe: "list_auto_handled ex params c d = (Inr j, d') \<Longrightarrow>
   json_safe j \<longleftrightarrow> List.map_filter (\<lambda>tid. build_auto_handled_record tid False d) (auto_handled_threads d) = []"
proof -
  assume "list_auto_handled ex params c d = (Inr j, d')"
  then have j: "j = JObj [(''records'', JList (List.map_filter
      (\<lambda>tid. build_auto_handled_record tid False d) (auto_handled_threads d)))]"
    by (auto simp: list_auto_handled_def)
  have u: "\<not> json_safe x" if "x \<in> set (List.map_filter (\<lambda>tid. build_auto_handled_record tid False d) tids)"
    for x tids using that by (auto simp: List.map_filter_def dest: build_auto_handled_record_unsafe)
  show ?thesis
  proof (cases "List.map_filter (\<lambda>tid. build_auto_handled_record tid False d) (auto_handled_threads d)")
    case (Cons x xs)
    with u [of x "auto_handled_threads d"] show ?thesis unfolding j by simp
  qed (simp add: j)
qed

section \<open>Properties\<close>

text \<open>Opening an auto-handled conversation in the Workbench always fails, although the read
  succeeded: the record holds a raw timestamp, the route's JSON encoding raises, and by then the audit
  row that says it was viewed is committed.\<close>

theorem auto_handled_view_fails:
  assumes "bearer_authorized header api_token = Inr True"
    and "get b ''tool'' = JStr ''toee_workbench_read''" and "get b ''action'' = JStr ''get_auto_handled''"
    and "get b ''params'' = JObj p" and "read_string p [''record_id'', ''recordId''] = Some record_id"
    and "build_auto_handled_record record_id True d = Some record"
    and "new_id ''audit'' ex 0 \<notin> a_id ` set (db_audit d)"
    and "profile_allowlist_gate INTERNAL = Inr gate"
  shows "\<exists>d' a. dispatch_route api_token INTERNAL gate (\<lambda>_. postgres_driver (case_handlers token live) ex) memory_on
      lookup header (Some (JObj b)) d
    = (Inl (PyError ''TypeError'' ''Object of type datetime is not JSON serializable''), d')
    \<and> db_audit d' = db_audit d @ [a] \<and> a_action a = ''audit_view'' \<and> a_target_id a = Some record_id"
proof -
  let ?c = "dispatch_context INTERNAL (optional_text (get b ''actor_account_id''))
     (resolve_case_identity memory_on (lookup d) ''toee_workbench_read'' (Some p))"
  obtain d' a where g: "get_auto_handled ex p ?c d = (Inr (JObj [(''record'', record)]), d')"
    and a: "db_audit d' = db_audit d @ [a]" "a_action a = ''audit_view''" "a_target_id a = Some record_id"
    using assms(5-7)
    by (auto simp: get_auto_handled_def unit_of_work_Inr exn_simps insert_audit_Inr)
  have x: "exec (postgres_driver (case_handlers token live) ex) \<lparr>rq_tool = ''toee_workbench_read'',
      rq_action = ''get_auto_handled'', rq_params = p\<rparr> ?c d = (Inr (JObj [(''record'', record)]), d')"
    using g by (simp add: postgres_driver_def postgres_execute_on_work handler_of_def case_handlers_def)
  have "admitted ''toee_workbench_read'' ''get_auto_handled'' ?c p (Some gate)"
    using assms(8)
    by (auto simp: admitted_def gate_of_def is_tool_action_def TOOL_CATALOG_def profile_allowlist_gate_def exn_simps
        allowlisted_tools_def PROFILE_TOOL_ALLOWLIST_def INTERNAL_def EXTERNAL_def gate_allow_def)
  from execute_tool_admitted [OF this, of "postgres_driver (case_handlers token live) ex" "[]" d] x
  obtain r s where "execute_tool ''toee_workbench_read'' ''get_auto_handled'' ?c
      (postgres_driver (case_handlers token live) ex) p (Some gate) [] d = (r, s, d')"
    "tr_ok r" "tr_data r = JObj [(''record'', record)]" by (simp add: Let_def)
  moreover have "\<not> json_safe record" by (rule build_auto_handled_record_unsafe [OF assms(6)])
  ultimately have "dispatch_route api_token INTERNAL gate (\<lambda>_. postgres_driver (case_handlers token live) ex) memory_on
      lookup header (Some (JObj b)) d
    = (Inl (PyError ''TypeError'' ''Object of type datetime is not JSON serializable''), d')"
    using assms(1-4) by (simp add: dispatch_route_def json_response_def)
  with a show ?thesis by blast
qed

definition auto_handled_db :: db where
  "auto_handled_db = empty_db\<lparr>
     db_threads := [\<lparr>t_id = ''t1'', t_channel = ''sms'', t_channel_identity = ''+14165550101'',
       t_shopify_customer_id = None, t_created_at = 0, t_updated_at = 0, t_last_interaction_at = 0\<rparr>],
     db_turns := [\<lparr>m_id = ''m1'', m_sms_session_id = ''s1'', m_customer_thread_id = ''t1'', m_direction = ''inbound'',
       m_author = ''customer'', m_body = ''hi'', m_auto_handled = True, m_created_at = 0\<rparr>]\<rparr>"

definition workbench_gate :: gate where
  "workbench_gate = (case profile_allowlist_gate INTERNAL of Inr g \<Rightarrow> g | Inl _ \<Rightarrow> allow_all_gate)"

theorem auto_handled_view_fails_witness:
  "\<exists>d' a. dispatch_route ''tok'' INTERNAL workbench_gate
      (\<lambda>_. postgres_driver (case_handlers None (\<lambda>_ _. Inr ())) case_env) False (\<lambda>_ _. Inr None) (Some ''Bearer tok'')
      (Some (JObj [(''tool'', JStr ''toee_workbench_read''), (''action'', JStr ''get_auto_handled''),
         (''params'', JObj [(''record_id'', JStr ''t1'')])])) auto_handled_db
    = (Inl (PyError ''TypeError'' ''Object of type datetime is not JSON serializable''), d')
    \<and> db_audit d' = [a] \<and> a_action a = ''audit_view''"
proof -
  have h: "bearer_authorized (Some ''Bearer tok'') ''tok'' = Inr True"
    "read_string [(''record_id'', JStr ''t1'')] [''record_id'', ''recordId''] = Some ''t1''" by code_simp+
  have "all_auto ''t1'' auto_handled_db" "List.find (\<lambda>r. t_id r = ''t1'') (db_threads auto_handled_db) \<noteq> None"
    by (simp_all add: auto_handled_db_def all_auto_def thread_turns_def)
  then have "build_auto_handled_record ''t1'' True auto_handled_db \<noteq> None"
    by (auto simp: build_auto_handled_record_def Let_def split: prod.splits)
  then obtain rcd where r: "build_auto_handled_record ''t1'' True auto_handled_db = Some rcd" by blast
  have g: "profile_allowlist_gate INTERNAL = Inr workbench_gate"
    by (simp add: workbench_gate_def profile_allowlist_gate_def allowlisted_tools_def PROFILE_TOOL_ALLOWLIST_def INTERNAL_def EXTERNAL_def exn_simps)
  have n: "new_id ''audit'' case_env 0 \<notin> a_id ` set (db_audit auto_handled_db)" "db_audit auto_handled_db = []"
    by (simp_all add: auto_handled_db_def empty_db_def)
  let ?b = "[(''tool'', JStr ''toee_workbench_read''), (''action'', JStr ''get_auto_handled''),
         (''params'', JObj [(''record_id'', JStr ''t1'')])]"
  have b: "get ?b ''tool'' = JStr ''toee_workbench_read''" "get ?b ''action'' = JStr ''get_auto_handled''"
    "get ?b ''params'' = JObj [(''record_id'', JStr ''t1'')]" by (simp_all add: dict_simps)
  from auto_handled_view_fails [OF h(1) b h(2) r n(1) g, of None "\<lambda>_ _. Inr ()" False "\<lambda>_ _. Inr None"] n(2)
  show ?thesis by (elim exE conjE) (intro exI conjI, assumption, simp, assumption)
qed

end
