(* ===== verification/StoreLaws.thy ===== *)
theory StoreLaws
  imports Store
begin

text \<open>
  What the gateway stores promise: the transactional outbox (a context row and exactly one turn
  job, together), at most one open case per thread, the round trip of a persisted turn, and the
  merge of provisional memory.
\<close>

section \<open>The transaction, statement by statement\<close>

lemma upsert_thread_cases:
  assumes "upsert_thread now tid ch ident cust rows = Inr (tid', rows')"
  obtains (upd) r where "r \<in> set rows" "t_channel r = ch" "t_channel_identity r = ident" "tid' = t_id r"
      "map t_id rows' = map t_id rows" "map t_channel rows' = map t_channel rows"
      "map t_channel_identity rows' = map t_channel_identity rows"
    | (ins) r where "tid' = tid" "tid \<notin> t_id ` set rows" "rows' = rows @ [r]" "t_id r = tid"
      "t_channel r = ch" "t_channel_identity r = ident"
      "\<forall>q \<in> set rows. \<not> (t_channel q = ch \<and> t_channel_identity q = ident)"
proof -
  from assms obtain c where c: "text_or_null cust = Inr c" by (auto simp: upsert_thread_def exn_simps)
  show ?thesis
  proof (cases "List.find (\<lambda>r. t_channel r = ch \<and> t_channel_identity r = ident) rows")
    case None
    with assms c that(2) show ?thesis
      by (auto simp: upsert_thread_def exn_simps pk_insert_Inr find_None_iff)
  next
    case (Some r)
    from find_SomeD [OF Some] assms c Some that(1) [of r] show ?thesis
      by (auto simp: upsert_thread_def exn_simps update_where_keys)
  qed
qed

definition created_context ::
  "exec_env \<Rightarrow> inbound_event \<Rightarrow> string \<Rightarrow> string \<Rightarrow> string \<Rightarrow> context_row" where
  "created_context ex event tid sid turn =
     \<lparr>x_id = new_id ''agent_ctx'' ex 0, x_event_id = ev_event_id event, x_customer_thread_id = tid,
      x_sms_session_id = sid, x_inbound_message_turn_id = turn, x_created_at = ee_now ex\<rparr>"

definition created_job :: "exec_env \<Rightarrow> inbound_event \<Rightarrow> job_row" where
  "created_job ex event =
     \<lparr>j_id = new_id ''job'' ex 1, j_type = AGENT_TURN_JOB_TYPE,
      j_payload = payload_json \<lparr>jp_event_id = ev_event_id event,
        jp_conversation_id = ev_conversation_id event\<rparr>,
      j_status = Queued, j_attempts = 0, j_max_attempts = DEFAULT_MAX_ATTEMPTS, j_run_at = ee_now ex,
      j_locked_at = None, j_locked_by = None, j_last_error = None, j_dedupe_key = None,
      j_created_at = ee_now ex, j_updated_at = ee_now ex\<rparr>"

lemma ensure_open_case_frame:
  assumes "ensure_open_case ex i tid sid p ch d = Inr d'"
  shows "\<exists>cases. d' = d\<lparr>db_cases := cases\<rparr>"
  using assms by (auto simp: ensure_open_case_def exn_simps split: option.splits)

lemma insert_context_and_jobD:
  assumes "insert_context_and_job ex event tid sid turn d = Inr (created, d')"
  shows "created = (ev_event_id event \<notin> x_event_id ` set (db_contexts d))
    \<and> d' = (if created then d\<lparr>db_contexts := db_contexts d @ [created_context ex event tid sid turn],
                              db_jobs := db_jobs d @ [created_job ex event]\<rparr> else d)"
  using assms
  by (auto simp: insert_context_and_job_def exn_simps pk_insert_Inr created_context_def
      created_job_def payload_json_def insert_job_def as_payload_def split: if_splits)

lemma persist_inbound_rowsD:
  assumes "persist_inbound_rows ex event snap d = Inr ((tid, sid, turn, created), d')"
  shows "\<exists>cust threads d2.
      upsert_thread (ee_now ex) (customer_thread_id (ev_channel event) (ev_from_phone event))
        (channel_column (ev_channel event)) (ev_from_phone event) cust (db_threads d) = Inr (tid, threads)
    \<and> sid = session_key (customer_thread_id (ev_channel event) (ev_from_phone event))
        (ev_conversation_id event)
    \<and> turn = turn_key sid (ev_event_id event)
    \<and> created = (ev_event_id event \<notin> x_event_id ` set (db_contexts d))
    \<and> db_threads d' = threads
    \<and> db_contexts d' = (if created then db_contexts d @ [created_context ex event tid sid turn]
        else db_contexts d)
    \<and> db_jobs d' = (if created then db_jobs d @ [created_job ex event] else db_jobs d)
    \<and> db_claims d' = db_claims d
    \<and> db_snapshots d' = (case snap of None \<Rightarrow> db_snapshots d
        | Some s \<Rightarrow> insert_or_ignore n_id
            \<lparr>n_id = ''snap:'' @ ev_event_id event, n_event_id = ev_event_id event,
             n_channel = channel_column (ev_channel event), n_channel_identity = ev_from_phone event,
             n_match_result = JObj (snapshot_to_json s), n_captured_at = ee_now ex\<rparr> (db_snapshots d))
    \<and> db_cases d2 = db_cases d
    \<and> ensure_open_case ex 2 tid sid (ev_body event) (channel_column (ev_channel event)) d2 = Inr d'"
proof -
  define cust where "cust = (case snap of Some s \<Rightarrow> (if snap_outcome s = ''verified_customer''
      then snap_customer_id s else JNull) | None \<Rightarrow> JNull)"
  let ?up = "upsert_thread (ee_now ex) (customer_thread_id (ev_channel event) (ev_from_phone event))
        (channel_column (ev_channel event)) (ev_from_phone event) cust (db_threads d)"
  from assms obtain t threads where up: "?up = Inr (t, threads)"
    by (cases ?up) (auto simp: persist_inbound_rows_def Let_def exn_simps cust_def)
  from assms up obtain d1 d2 where
      i: "insert_context_and_job ex event t sid turn d1 = Inr (created, d2)"
    and en: "ensure_open_case ex 2 tid sid (ev_body event) (channel_column (ev_channel event)) d2 = Inr d'"
    and k: "tid = t" "sid = session_key (customer_thread_id (ev_channel event) (ev_from_phone event))
          (ev_conversation_id event)" "turn = turn_key sid (ev_event_id event)"
    and f: "db_cases d1 = db_cases d" "db_contexts d1 = db_contexts d" "db_jobs d1 = db_jobs d"
        "db_claims d1 = db_claims d" "db_threads d1 = threads"
        "db_snapshots d1 = (case snap of None \<Rightarrow> db_snapshots d
        | Some s \<Rightarrow> insert_or_ignore n_id
            \<lparr>n_id = ''snap:'' @ ev_event_id event, n_event_id = ev_event_id event,
             n_channel = channel_column (ev_channel event), n_channel_identity = ev_from_phone event,
             n_match_result = JObj (snapshot_to_json s), n_captured_at = ee_now ex\<rparr> (db_snapshots d))"
    unfolding persist_inbound_rows_def Let_def cust_def [symmetric] up
    by (auto simp: exn_simps)
  note c = insert_context_and_jobD [OF i]
  from ensure_open_case_frame [OF en] obtain cases where d': "d' = d2\<lparr>db_cases := cases\<rparr>" by blast
  show ?thesis
    by (intro exI [of _ cust] exI [of _ threads] exI [of _ d2] conjI)
      (use up en k f c d' in simp_all)
qed

section \<open>The transactional outbox\<close>

text \<open>
  \<open>known w e\<close>: event \<open>e\<close> has a persisted turn context; \<open>jobs_for w e\<close>: how many turn jobs were
  enqueued for it.
\<close>

locale accepting_store =
  fixes store :: "'w gateway_store"
    and known :: "'w \<Rightarrow> string \<Rightarrow> bool"
    and jobs_for :: "'w \<Rightarrow> string \<Rightarrow> nat"
  assumes persist_needs: "gs_persist store dc w = (Inr res, w') \<Longrightarrow> dec_enqueue dc \<and> dec_event dc \<noteq> None"
    and persist_ok: "gs_persist store dc w = (Inr (c, created), w') \<Longrightarrow> dec_event dc = Some ev \<Longrightarrow>
      tc_event_id c = ev_event_id ev \<and> created = (\<not> known w (ev_event_id ev))
      \<and> known w' (ev_event_id ev)
      \<and> jobs_for w' (ev_event_id ev)
        = (if created then Suc (jobs_for w (ev_event_id ev)) else jobs_for w (ev_event_id ev))"
    and persist_other: "gs_persist store dc w = (Inr res, w') \<Longrightarrow> dec_event dc = Some ev \<Longrightarrow>
      x \<noteq> ev_event_id ev \<Longrightarrow> known w' x = known w x \<and> jobs_for w' x = jobs_for w x"
    and persist_error: "gs_persist store dc w = (Inl exc, w') \<Longrightarrow>
      known w' x = known w x \<and> jobs_for w' x = jobs_for w x"
    and known_duplicate: "known w x \<Longrightarrow> gs_is_duplicate store x w"
begin

lemma persist_outbox:
  assumes "gs_persist store dc w = (res, w')" and "\<forall>x. jobs_for w x = (if known w x then 1 else 0)"
  shows "\<forall>x. jobs_for w' x = (if known w' x then 1 else 0)"
proof (cases res)
  case (Inl exc)
  with assms persist_error show ?thesis by metis
next
  case (Inr p)
  obtain c created where p: "p = (c, created)" by (cases p)
  from persist_needs assms(1) Inr obtain ev where ev: "dec_event dc = Some ev" by blast
  show ?thesis
  proof
    fix x
    show "jobs_for w' x = (if known w' x then 1 else 0)"
    proof (cases "x = ev_event_id ev")
      case True
      with persist_ok [OF assms(1) [unfolded Inr p] ev] assms(2) show ?thesis by auto
    next
      case False
      with persist_other [OF assms(1) [unfolded Inr] ev False] assms(2) show ?thesis by simp
    qed
  qed
qed

lemma persist_again:
  assumes "gs_persist store dc w = (Inr (c, created), w')" and "dec_event dc = Some ev"
    and "gs_persist store dc2 w' = (Inr (c2, created2), w'')" and "dec_event dc2 = Some ev2"
    and "ev_event_id ev2 = ev_event_id ev"
  shows "\<not> created2 \<and> jobs_for w'' (ev_event_id ev) = jobs_for w' (ev_event_id ev)"
  using persist_ok [OF assms(1,2)] persist_ok [OF assms(3,4)] assms(5) by auto

end

fun run_persists :: "(nat \<Rightarrow> 'w gateway_store) \<Rightarrow> decision list \<Rightarrow> 'w \<Rightarrow> 'w" where
  "run_persists stores [] w = w"
| "run_persists stores (dc # dcs) w =
     run_persists (stores \<circ> Suc) dcs (snd (gs_persist (stores 0) dc w))"

lemma run_persists_outbox:
  assumes "\<And>n. accepting_store (stores n) known jobs_for"
    and "\<forall>x. jobs_for w x = (if known w x then 1 else 0)"
  shows "\<forall>x. jobs_for (run_persists stores dcs w) x = (if known (run_persists stores dcs w) x then 1 else 0)"
  using assms
proof (induction dcs arbitrary: stores w)
  case (Cons dc dcs)
  obtain res w' where p: "gs_persist (stores 0) dc w = (res, w')" by force
  from accepting_store.persist_outbox [OF Cons.prems(1) p Cons.prems(2)]
  have 1: "\<forall>x. jobs_for w' x = (if known w' x then 1 else 0)" .
  show ?case
    unfolding run_persists.simps p snd_conv
    by (rule Cons.IH [OF _ 1]) (simp add: Cons.prems(1))
qed simp

definition payload_event :: "job_row \<Rightarrow> string option" where
  "payload_event r = (case j_payload r of JObj d \<Rightarrow> as_str (get d ''event_id'') | _ \<Rightarrow> None)"

definition pg_known :: "db \<Rightarrow> string \<Rightarrow> bool" where
  "pg_known d e \<longleftrightarrow> e \<in> x_event_id ` set (db_contexts d)"

definition pg_jobs_for :: "db \<Rightarrow> string \<Rightarrow> nat" where
  "pg_jobs_for d e =
     length (filter (\<lambda>r. j_type r = AGENT_TURN_JOB_TYPE \<and> payload_event r = Some e) (db_jobs d))"

definition mem_known :: "mem_store \<Rightarrow> string \<Rightarrow> bool" where
  "mem_known s e \<longleftrightarrow> map_of (ms_contexts s) e \<noteq> None"

definition mem_jobs_for :: "mem_store \<Rightarrow> string \<Rightarrow> nat" where
  "mem_jobs_for s e = length (filter (\<lambda>p. jp_event_id p = e) (ms_payloads s))"

lemma payload_event_created [simp]: "payload_event (created_job ex ev) = Some (ev_event_id ev)"
  by (simp add: payload_event_def created_job_def payload_json_def dict_simps)

lemma build_context_ok: "dec_enqueue dc \<Longrightarrow> dec_event dc = Some ev \<Longrightarrow>
   build_agent_turn_context dc sid tid turn = Inr
     \<lparr>tc_event_id = ev_event_id ev, tc_conversation_id = ev_conversation_id ev,
      tc_sms_session_id = sid, tc_customer_thread_id = tid, tc_from_phone = ev_from_phone ev,
      tc_snapshot = dec_snapshot dc, tc_inbound_body_ref = turn, tc_channel = ev_channel ev\<rparr>"
  by (simp add: build_agent_turn_context_def)

text \<open>The ways a call of the Postgres \<^verbatim>\<open>persist_accepted_inbound\<close> can end.\<close>

lemma persist_accepted_inbound_cases:
  assumes "persist_accepted_inbound ex dc d = (res, d')"
  obtains (refused) e where "res = Inl e" "d' = d"
    | (stored) ev tid sid turn created d3 where "dec_enqueue dc" "dec_event dc = Some ev"
        "persist_inbound_rows ex ev (dec_snapshot dc) d = Inr ((tid, sid, turn, created), d3)" "d' = d3"
        "created \<Longrightarrow> res = Inr (\<lparr>tc_event_id = ev_event_id ev, tc_conversation_id = ev_conversation_id ev,
           tc_sms_session_id = sid, tc_customer_thread_id = tid, tc_from_phone = ev_from_phone ev,
           tc_snapshot = dec_snapshot dc, tc_inbound_body_ref = turn, tc_channel = ev_channel ev\<rparr>, True)"
        "\<not> created \<Longrightarrow> (case load_context (ev_event_id ev) d3 of Some c \<Rightarrow> res = Inr (c, False)
           | None \<Rightarrow> \<exists>x. res = Inl x)"
proof (cases "dec_enqueue dc \<and> dec_event dc \<noteq> None")
  case False
  with assms that(1) show ?thesis by (auto simp: persist_accepted_inbound_def split: if_splits)
next
  case True
  then obtain ev where ev: "dec_enqueue dc" "dec_event dc = Some ev" by auto
  show ?thesis
  proof (cases "persist_inbound_rows ex ev (dec_snapshot dc) d")
    case (Inl e)
    with assms ev that(1) show ?thesis by (auto simp: persist_accepted_inbound_def)
  next
    case (Inr p)
    obtain tid sid turn created d3 where p: "p = ((tid, sid, turn, created), d3)" by (metis surj_pair)
    show ?thesis
      using assms by (intro that(2) [OF ev Inr [unfolded p]]; cases created)
        (auto simp: persist_accepted_inbound_def ev Inr p build_context_ok split: option.splits)
  qed
qed

lemma load_context_event: "load_context e d = Some c \<Longrightarrow> tc_event_id c = e"
  by (auto simp: load_context_def Let_def split: option.splits dest: find_SomeD)

lemma pg_persist_effect:
  assumes "persist_inbound_rows ex ev snap d = Inr ((tid, sid, turn, created), d')"
  shows "created = (\<not> pg_known d (ev_event_id ev))"
    and "pg_known d' x \<longleftrightarrow> pg_known d x \<or> x = ev_event_id ev"
    and "pg_jobs_for d' x = pg_jobs_for d x + (if created \<and> x = ev_event_id ev then 1 else 0)"
proof -
  from persist_inbound_rowsD [OF assms] have c: "created = (ev_event_id ev \<notin> x_event_id ` set (db_contexts d))"
    and x: "db_contexts d' = (if created then db_contexts d @ [created_context ex ev tid sid turn]
        else db_contexts d)"
    and j: "db_jobs d' = (if created then db_jobs d @ [created_job ex ev] else db_jobs d)" by blast+
  from c show "created = (\<not> pg_known d (ev_event_id ev))" by (simp add: pg_known_def)
  have "x_event_id (created_context ex ev tid sid turn) = ev_event_id ev" by (simp add: created_context_def)
  with x c show "pg_known d' x \<longleftrightarrow> pg_known d x \<or> x = ev_event_id ev" by (auto simp: pg_known_def)
  have "j_type (created_job ex ev) = AGENT_TURN_JOB_TYPE" by (simp add: created_job_def)
  with j show "pg_jobs_for d' x = pg_jobs_for d x + (if created \<and> x = ev_event_id ev then 1 else 0)"
    by (auto simp: pg_jobs_for_def)
qed

interpretation pgs: accepting_store "pg_gateway_store ex" pg_known pg_jobs_for
proof unfold_locales
  fix dc d res d'
  assume "gs_persist (pg_gateway_store ex) dc d = (Inr res, d')"
  then have "persist_accepted_inbound ex dc d = (Inr res, d')" by (simp add: pg_gateway_store_def)
  then show "dec_enqueue dc \<and> dec_event dc \<noteq> None" by (cases rule: persist_accepted_inbound_cases) auto
next
  fix dc d c created d' ev
  assume "gs_persist (pg_gateway_store ex) dc d = (Inr (c, created), d')" and ev: "dec_event dc = Some ev"
  then have "persist_accepted_inbound ex dc d = (Inr (c, created), d')" by (simp add: pg_gateway_store_def)
  then show "tc_event_id c = ev_event_id ev \<and> created = (\<not> pg_known d (ev_event_id ev))
      \<and> pg_known d' (ev_event_id ev)
      \<and> pg_jobs_for d' (ev_event_id ev)
        = (if created then Suc (pg_jobs_for d (ev_event_id ev)) else pg_jobs_for d (ev_event_id ev))"
  proof (cases rule: persist_accepted_inbound_cases)
    case (stored ev' tid sid turn cr d3)
    then have "ev' = ev" using ev by simp
    with stored pg_persist_effect [OF stored(3)] load_context_event [of "ev_event_id ev" d3] show ?thesis
      by (cases cr) (auto split: option.splits)
  qed auto
next
  fix dc d res d' ev x
  assume "gs_persist (pg_gateway_store ex) dc d = (Inr res, d')" and ev: "dec_event dc = Some ev"
    and x: "x \<noteq> ev_event_id ev"
  then have "persist_accepted_inbound ex dc d = (Inr res, d')" by (simp add: pg_gateway_store_def)
  then show "pg_known d' x = pg_known d x \<and> pg_jobs_for d' x = pg_jobs_for d x"
  proof (cases rule: persist_accepted_inbound_cases)
    case (stored ev' tid sid turn cr d3)
    then have "ev' = ev" using ev by simp
    with stored x pg_persist_effect [OF stored(3)] show ?thesis by auto
  qed auto
next
  fix dc d exc d' x
  assume "gs_persist (pg_gateway_store ex) dc d = (Inl exc, d')"
  then have "persist_accepted_inbound ex dc d = (Inl exc, d')" by (simp add: pg_gateway_store_def)
  then show "pg_known d' x = pg_known d x \<and> pg_jobs_for d' x = pg_jobs_for d x"
  proof (cases rule: persist_accepted_inbound_cases)
    case (stored ev tid sid turn cr d3)
    then have "\<not> cr" by auto
    with stored pg_persist_effect [OF stored(3)] show ?thesis by auto
  qed auto
next
  fix d x
  assume "pg_known d x"
  then show "gs_is_duplicate (pg_gateway_store ex) x d"
    by (simp add: pg_gateway_store_def is_duplicate_def pg_known_def)
qed

lemma mem_persist_effect:
  assumes "dec_enqueue dc" "dec_event dc = Some ev"
  obtains c s' where "mem_persist_accepted_inbound dc s = (Inr (c, \<not> mem_known s (ev_event_id ev)), s')"
    "tc_event_id c = ev_event_id ev"
    "\<And>x. mem_known s' x \<longleftrightarrow> mem_known s x \<or> x = ev_event_id ev"
    "\<And>x. mem_jobs_for s' x = mem_jobs_for s x
       + (if \<not> mem_known s (ev_event_id ev) \<and> x = ev_event_id ev then 1 else 0)"
proof -
  have "\<exists>c s'. mem_persist_accepted_inbound dc s = (Inr (c, \<not> mem_known s (ev_event_id ev)), s')
    \<and> tc_event_id c = ev_event_id ev
    \<and> (\<forall>x. mem_known s' x \<longleftrightarrow> mem_known s x \<or> x = ev_event_id ev)
    \<and> (\<forall>x. mem_jobs_for s' x = mem_jobs_for s x
       + (if \<not> mem_known s (ev_event_id ev) \<and> x = ev_event_id ev then 1 else 0))"
    using assms
    by (cases "mem_known s (ev_event_id ev)")
      (simp_all add: mem_persist_accepted_inbound_def build_context_ok Let_def mem_known_def mem_jobs_for_def
        map_of_AList_update to_job_payload_def)
  with that show thesis by blast
qed

interpretation mems: accepting_store mem_gateway_store mem_known mem_jobs_for
proof unfold_locales
  fix dc s res s'
  assume "gs_persist mem_gateway_store dc s = (Inr res, s')"
  then show "dec_enqueue dc \<and> dec_event dc \<noteq> None"
    by (auto simp: mem_gateway_store_def mem_persist_accepted_inbound_def split: if_splits option.splits)
next
  fix dc s c created s' ev
  assume p: "gs_persist mem_gateway_store dc s = (Inr (c, created), s')" and ev: "dec_event dc = Some ev"
  then have enq: "dec_enqueue dc"
    by (auto simp: mem_gateway_store_def mem_persist_accepted_inbound_def split: if_splits option.splits)
  obtain c1 s1
    where "mem_persist_accepted_inbound dc s = (Inr (c1, \<not> mem_known s (ev_event_id ev)), s1)"
      "tc_event_id c1 = ev_event_id ev" "\<And>x. mem_known s1 x \<longleftrightarrow> mem_known s x \<or> x = ev_event_id ev"
      "\<And>x. mem_jobs_for s1 x = mem_jobs_for s x
         + (if \<not> mem_known s (ev_event_id ev) \<and> x = ev_event_id ev then 1 else 0)"
    by (rule mem_persist_effect [OF enq ev, of s]) blast
  moreover from this(1) p have "s' = s1" "c = c1" "created = (\<not> mem_known s (ev_event_id ev))"
    by (simp_all add: mem_gateway_store_def)
  ultimately show "tc_event_id c = ev_event_id ev \<and> created = (\<not> mem_known s (ev_event_id ev))
      \<and> mem_known s' (ev_event_id ev)
      \<and> mem_jobs_for s' (ev_event_id ev)
        = (if created then Suc (mem_jobs_for s (ev_event_id ev)) else mem_jobs_for s (ev_event_id ev))"
    by (auto simp: mem_gateway_store_def)
next
  fix dc s res s' ev x
  assume p: "gs_persist mem_gateway_store dc s = (Inr res, s')" and ev: "dec_event dc = Some ev"
    and x: "x \<noteq> ev_event_id ev"
  then have enq: "dec_enqueue dc"
    by (auto simp: mem_gateway_store_def mem_persist_accepted_inbound_def split: if_splits option.splits)
  obtain c1 s1
    where "mem_persist_accepted_inbound dc s = (Inr (c1, \<not> mem_known s (ev_event_id ev)), s1)"
      "tc_event_id c1 = ev_event_id ev" "\<And>x. mem_known s1 x \<longleftrightarrow> mem_known s x \<or> x = ev_event_id ev"
      "\<And>x. mem_jobs_for s1 x = mem_jobs_for s x
         + (if \<not> mem_known s (ev_event_id ev) \<and> x = ev_event_id ev then 1 else 0)"
    by (rule mem_persist_effect [OF enq ev, of s]) blast
  moreover from this(1) p have "s' = s1" by (simp add: mem_gateway_store_def)
  ultimately show "mem_known s' x = mem_known s x \<and> mem_jobs_for s' x = mem_jobs_for s x"
    using x by simp
next
  fix dc s exc s' x
  assume p: "gs_persist mem_gateway_store dc s = (Inl exc, s')"
  show "mem_known s' x = mem_known s x \<and> mem_jobs_for s' x = mem_jobs_for s x"
  proof (cases "dec_enqueue dc \<and> dec_event dc \<noteq> None")
    case True
    then obtain ev where "dec_enqueue dc" "dec_event dc = Some ev" by auto
    from mem_persist_effect [OF this, of s] p show ?thesis by (auto simp: mem_gateway_store_def)
  next
    case False
    with p show ?thesis
      by (auto simp: mem_gateway_store_def mem_persist_accepted_inbound_def split: if_splits option.splits)
  qed
next
  fix s x
  assume "mem_known s x"
  then show "gs_is_duplicate mem_gateway_store x s"
    by (simp add: mem_gateway_store_def mem_is_duplicate_def mem_known_def)
qed

section \<open>Threads, cases and contexts stay consistent\<close>

definition open_cases :: "db \<Rightarrow> string \<Rightarrow> nat" where
  "open_cases d th = length (filter (\<lambda>r. c_customer_thread_id r = Some th \<and> case_is_open r) (db_cases d))"

definition store_inv :: "db \<Rightarrow> bool" where
  "store_inv d \<longleftrightarrow>
     distinct (map t_id (db_threads d))
     \<and> distinct (map x_event_id (db_contexts d))
     \<and> (\<forall>c \<in> set (db_contexts d). x_customer_thread_id c \<in> t_id ` set (db_threads d))
     \<and> (\<forall>s \<in> set (db_snapshots d). n_id s = ''snap:'' @ n_event_id s
          \<and> n_event_id s \<in> x_event_id ` set (db_contexts d))
     \<and> (\<forall>th. open_cases d th \<le> 1)"

lemma store_inv_empty: "store_inv empty_db"
  by (simp add: store_inv_def empty_db_def open_cases_def)

lemma filter_update_where_length:
  "(\<And>r. Q (f r) = Q r) \<Longrightarrow> length (filter Q (update_where P f rows)) = length (filter Q rows)"
  by (induction rows) (auto simp: table_simps)

lemma ensure_open_case_counts:
  assumes "ensure_open_case ex i tid sid p ch d = Inr d'"
  shows "open_cases d' th = (if th = tid then max 1 (open_cases d th) else open_cases d th)"
proof (cases "List.find (\<lambda>r. c_customer_thread_id r = Some tid \<and> case_is_open r) (db_cases d)")
  case None
  then have "filter (\<lambda>r. c_customer_thread_id r = Some tid \<and> case_is_open r) (db_cases d) = []"
    by (auto simp: find_None_iff filter_empty_conv)
  with assms None show ?thesis
    by (auto simp: ensure_open_case_def exn_simps pk_insert_Inr open_cases_def case_is_open_def)
next
  case (Some row)
  from find_SomeD [OF Some] have "row \<in> set (filter (\<lambda>r. c_customer_thread_id r = Some tid \<and> case_is_open r) (db_cases d))"
    by simp
  then have "1 \<le> open_cases d tid" unfolding open_cases_def by (cases "filter (\<lambda>r. c_customer_thread_id r = Some tid \<and> case_is_open r) (db_cases d)") auto
  moreover have "open_cases d' th = open_cases d th" for th
    using assms Some
    by (auto simp: ensure_open_case_def open_cases_def case_is_open_def intro!: filter_update_where_length)
  ultimately show ?thesis by auto
qed

lemma persist_open_cases:
  assumes "persist_inbound_rows ex ev snap d = Inr ((tid, sid, turn, created), d')"
  shows "open_cases d' th = (if th = tid then max 1 (open_cases d th) else open_cases d th)"
proof -
  from persist_inbound_rowsD [OF assms] obtain d2 where "db_cases d2 = db_cases d"
    and en: "ensure_open_case ex 2 tid sid (ev_body ev) (channel_column (ev_channel ev)) d2 = Inr d'" by blast
  then have "open_cases d2 = open_cases d" by (simp add: open_cases_def fun_eq_iff)
  with ensure_open_case_counts [OF en] show ?thesis by simp
qed

lemma upsert_thread_row:
  assumes up: "upsert_thread now tid0 ch ident cust rows = Inr (tid, rows')"
    and "distinct (map t_id rows)"
  shows "distinct (map t_id rows')" and "t_id ` set rows \<subseteq> t_id ` set rows'"
    and "\<exists>t. List.find (\<lambda>t. t_id t = tid) rows' = Some t \<and> t_channel t = ch \<and> t_channel_identity t = ident"
proof -
  have "distinct (map t_id rows') \<and> t_id ` set rows \<subseteq> t_id ` set rows'
    \<and> (\<exists>t \<in> set rows'. t_id t = tid \<and> t_channel t = ch \<and> t_channel_identity t = ident)"
    using up
  proof (cases rule: upsert_thread_cases)
    case (upd r)
    then obtain i where i: "i < length rows" "rows ! i = r" by (auto simp: in_set_conv_nth)
    have l: "length rows' = length rows" using upd(5) by (metis length_map)
    have "t_id (rows' ! i) = t_id r" "t_channel (rows' ! i) = ch" "t_channel_identity (rows' ! i) = ident"
      using upd(2,3,5-7) i l by (metis nth_map)+
    moreover have "rows' ! i \<in> set rows'" using i l by simp
    moreover have "t_id ` set rows' = t_id ` set rows" using upd(5) by (metis set_map)
    ultimately show ?thesis using upd(4,5) assms(2) by auto
  next
    case (ins r)
    with assms(2) show ?thesis by auto
  qed
  then obtain t where "distinct (map t_id rows')" "t_id ` set rows \<subseteq> t_id ` set rows'"
    and t: "t \<in> set rows'" "t_id t = tid" "t_channel t = ch" "t_channel_identity t = ident" by blast
  then show "distinct (map t_id rows')" "t_id ` set rows \<subseteq> t_id ` set rows'" by auto
  have "List.find (\<lambda>t. t_id t = tid) rows' = Some t"
    using t \<open>distinct (map t_id rows')\<close> find_unique [of t_id rows' t] by simp
  with t show "\<exists>t. List.find (\<lambda>t. t_id t = tid) rows' = Some t \<and> t_channel t = ch \<and> t_channel_identity t = ident"
    by blast
qed

lemma set_insert_or_ignore: "set (insert_or_ignore k r rows) \<subseteq> insert r (set rows)"
  by (auto simp: insert_or_ignore_def)

lemma persist_rows_inv:
  assumes "persist_inbound_rows ex ev snap d = Inr ((tid, sid, turn, created), d')" and inv: "store_inv d"
  shows "store_inv d'"
proof -
  from persist_inbound_rowsD [OF assms(1)] obtain cust threads where
      up: "upsert_thread (ee_now ex) (customer_thread_id (ev_channel ev) (ev_from_phone ev))
        (channel_column (ev_channel ev)) (ev_from_phone ev) cust (db_threads d) = Inr (tid, threads)"
    and c: "created = (ev_event_id ev \<notin> x_event_id ` set (db_contexts d))"
    and t: "db_threads d' = threads"
    and x: "db_contexts d' = (if created then db_contexts d @ [created_context ex ev tid sid turn]
        else db_contexts d)"
    and s: "db_snapshots d' = (case snap of None \<Rightarrow> db_snapshots d
        | Some s \<Rightarrow> insert_or_ignore n_id
            \<lparr>n_id = ''snap:'' @ ev_event_id ev, n_event_id = ev_event_id ev,
             n_channel = channel_column (ev_channel ev), n_channel_identity = ev_from_phone ev,
             n_match_result = JObj (snapshot_to_json s), n_captured_at = ee_now ex\<rparr> (db_snapshots d))"
    by blast
  have d: "distinct (map t_id (db_threads d))" using inv by (simp add: store_inv_def)
  note row = upsert_thread_row [OF up d]
  have tid: "tid \<in> t_id ` set threads" using row(3) by (auto dest!: find_SomeD)
  have k: "x_event_id (created_context ex ev tid sid turn) = ev_event_id ev"
    "x_customer_thread_id (created_context ex ev tid sid turn) = tid"
    by (simp_all add: created_context_def)
  have ev: "x_event_id ` set (db_contexts d') = insert (ev_event_id ev) (x_event_id ` set (db_contexts d))"
    using x c k by auto
  have "distinct (map x_event_id (db_contexts d'))"
    using inv x c k by (simp add: store_inv_def)
  moreover have "\<forall>c \<in> set (db_contexts d'). x_customer_thread_id c \<in> t_id ` set (db_threads d')"
    using inv x k row(2) t tid by (auto simp: store_inv_def)
  moreover have "n_id s = ''snap:'' @ n_event_id s \<and> n_event_id s \<in> x_event_id ` set (db_contexts d')"
    if "s \<in> set (db_snapshots d')" for s
  proof (cases "s \<in> set (db_snapshots d)")
    case True
    with inv ev show ?thesis by (auto simp: store_inv_def)
  next
    case False
    with that s ev show ?thesis
      using set_insert_or_ignore by (auto split: option.splits dest!: subsetD [OF set_insert_or_ignore])
  qed
  moreover have "open_cases d' th \<le> 1" for th
    using persist_open_cases [OF assms(1), of th] inv by (auto simp: store_inv_def)
  ultimately show ?thesis using row(1) t by (simp add: store_inv_def)
qed

lemma persist_inv:
  assumes "persist_accepted_inbound ex dc d = (res, d')" and "store_inv d"
  shows "store_inv d'"
  using assms(1)
proof (cases rule: persist_accepted_inbound_cases)
  case (refused e)
  with assms show ?thesis by simp
next
  case (stored ev tid sid turn created d3)
  with persist_rows_inv [OF stored(3) assms(2)] show ?thesis by simp
qed

section \<open>Round trips\<close>

definition snapshot_wf :: "snapshot \<Rightarrow> bool" where
  "snapshot_wf s \<longleftrightarrow> is_str (snap_resolved_at s) \<and>
     (if snap_outcome s = ''verified_customer''
      then (snap_customer_id s = JNull \<or> (is_str (snap_customer_id s) \<and> truthy (snap_customer_id s)))
           \<and> snap_customer_ids s = None \<and> snap_display_name s \<noteq> Some []
      else if snap_outcome s = ''ambiguous_phone_match''
      then snap_customer_id s = JNull \<and> snap_display_name s = None
           \<and> snap_customer_ids s \<noteq> None \<and> snap_customer_ids s \<noteq> Some []
      else s = unmatched_snapshot (snap_resolved_at s))"

lemma is_strE: "is_str j \<Longrightarrow> (\<And>s. j = JStr s \<Longrightarrow> P) \<Longrightarrow> P"
  by (cases j) auto

lemma snapshot_round_trip:
  assumes "snapshot_wf s"
  shows "snapshot_from_json (JObj (snapshot_to_json s)) at = Some s"
proof -
  from assms obtain a where a: "snap_resolved_at s = JStr a" by (auto simp: snapshot_wf_def elim: is_strE)
  consider (v) "snap_outcome s = ''verified_customer''" | (m) "snap_outcome s = ''ambiguous_phone_match''"
    | (u) "snap_outcome s \<noteq> ''verified_customer''" "snap_outcome s \<noteq> ''ambiguous_phone_match''" by blast
  then show ?thesis
  proof cases
    case v
    with assms have i: "snap_customer_id s = JNull \<or> (\<exists>c. snap_customer_id s = JStr c \<and> c \<noteq> [])"
      and "snap_customer_ids s = None" "snap_display_name s \<noteq> Some []"
      by (auto simp: snapshot_wf_def elim: is_strE)
    note f = this
    obtain c where c: "snap_customer_id s = c" "c = JNull \<or> (\<exists>x. c = JStr x \<and> x \<noteq> [])" using i by simp
    show ?thesis
    proof (cases "snap_display_name s")
      case None
      have s: "s = \<lparr>snap_outcome = ''verified_customer'', snap_resolved_at = JStr a, snap_customer_id = c,
          snap_customer_ids = None, snap_display_name = None\<rparr>" using v a f None c(1) by simp
      show ?thesis using c(2) unfolding s
        by (elim disjE exE conjE) (simp_all add: snapshot_from_json_def snapshot_to_json_def dict_simps)
    next
      case (Some n)
      have s: "s = \<lparr>snap_outcome = ''verified_customer'', snap_resolved_at = JStr a, snap_customer_id = c,
          snap_customer_ids = None, snap_display_name = Some n\<rparr>" using v a f Some c(1) by simp
      have n: "n \<noteq> []" using f Some by simp
      show ?thesis using c(2) n unfolding s
        by (elim disjE exE conjE)
          (simp_all add: snapshot_from_json_def snapshot_to_json_def dict_simps falsy_def)
    qed
  next
    case m
    with assms obtain i ids where "snap_customer_ids s = Some (i # ids)" "snap_customer_id s = JNull"
      "snap_display_name s = None"
      by (cases "snap_customer_ids s"; cases "the (snap_customer_ids s)") (auto simp: snapshot_wf_def)
    then show ?thesis using m a
      by (auto simp: snapshot_from_json_def snapshot_to_json_def dict_simps)
  next
    case u
    with assms have "s = unmatched_snapshot (JStr a)" by (simp add: snapshot_wf_def a)
    then show ?thesis
      by (simp add: snapshot_from_json_def snapshot_to_json_def dict_simps unmatched_snapshot_def)
  qed
qed

lemma takeWhile_other: "c \<notin> set xs \<Longrightarrow> takeWhile (\<lambda>x. x \<noteq> c) xs = xs"
  by (induction xs) auto

lemma rsplit_last_append: "rsplit_last c (s @ c # t) = rsplit_last c t"
proof (cases "c \<in> set t")
  case True
  then have "takeWhile (\<lambda>x. x \<noteq> c) (rev t @ c # rev s) = takeWhile (\<lambda>x. x \<noteq> c) (rev t)"
    by (intro takeWhile_append1 [where x = c]) auto
  then show ?thesis by (simp add: rsplit_last_def)
next
  case False
  then show ?thesis by (simp add: rsplit_last_notin) (simp add: rsplit_last_def takeWhile_other)
qed

lemma rsplit_last_self: "rsplit_last c t = t \<longleftrightarrow> c \<notin> set t"
proof
  assume "rsplit_last c t = t"
  then show "c \<notin> set t" using rsplit_last_free [of c t] by simp
qed (simp add: rsplit_last_def takeWhile_other)

lemma rsplit_last_session_key: "rsplit_last CHR '':'' (session_key th conv) = rsplit_last CHR '':'' conv"
  using rsplit_last_append [of "CHR '':''" "''sms_session:'' @ th" conv]
  by (simp add: session_key_def)

text \<open>
  The context that a job reloads is the one that was persisted, but for the channel vocabulary and
  the conversation id, which is cut at its last colon.
\<close>

lemma load_after_persist:
  assumes p: "persist_accepted_inbound ex dc d = (Inr (c, True), d')" and inv: "store_inv d"
    and ev: "dec_event dc = Some ev" and wf: "\<forall>s. dec_snapshot dc = Some s \<longrightarrow> snapshot_wf s"
  shows "load_context (ev_event_id ev) d' = Some (c\<lparr>tc_conversation_id := rsplit_last CHR '':'' (tc_conversation_id c),
     tc_channel := channel_column (tc_channel c)\<rparr>)"
  using p
proof (cases rule: persist_accepted_inbound_cases)
  case (stored ev' tid sid turn created d3)
  with ev have e: "ev' = ev" and cr: "created"
    using p by (cases created; auto split: option.splits)+
  from stored(5) cr have c: "c = \<lparr>tc_event_id = ev_event_id ev, tc_conversation_id = ev_conversation_id ev,
      tc_sms_session_id = sid, tc_customer_thread_id = tid, tc_from_phone = ev_from_phone ev,
      tc_snapshot = dec_snapshot dc, tc_inbound_body_ref = turn, tc_channel = ev_channel ev\<rparr>"
    unfolding e by simp
  from persist_inbound_rowsD [OF stored(3)] obtain cust threads where
      up: "upsert_thread (ee_now ex) (customer_thread_id (ev_channel ev) (ev_from_phone ev))
        (channel_column (ev_channel ev)) (ev_from_phone ev) cust (db_threads d) = Inr (tid, threads)"
    and sid: "sid = session_key (customer_thread_id (ev_channel ev) (ev_from_phone ev)) (ev_conversation_id ev)"
    and new: "ev_event_id ev \<notin> x_event_id ` set (db_contexts d)"
    and t: "db_threads d' = threads"
    and x: "db_contexts d' = db_contexts d @ [created_context ex ev tid sid turn]"
    and s: "db_snapshots d' = (case dec_snapshot dc of None \<Rightarrow> db_snapshots d
        | Some s \<Rightarrow> insert_or_ignore n_id
            \<lparr>n_id = ''snap:'' @ ev_event_id ev, n_event_id = ev_event_id ev,
             n_channel = channel_column (ev_channel ev), n_channel_identity = ev_from_phone ev,
             n_match_result = JObj (snapshot_to_json s), n_captured_at = ee_now ex\<rparr> (db_snapshots d))"
    unfolding e using cr stored(4) by auto
  have d: "distinct (map t_id (db_threads d))" using inv by (simp add: store_inv_def)
  from upsert_thread_row(3) [OF up d] t obtain tr where
    tr: "List.find (\<lambda>t. t_id t = tid) (db_threads d') = Some tr" "t_channel tr = channel_column (ev_channel ev)"
      "t_channel_identity tr = ev_from_phone ev" by auto
  have cx: "List.find (\<lambda>c. x_event_id c = ev_event_id ev) (db_contexts d') = Some (created_context ex ev tid sid turn)"
  proof -
    from new have "List.find (\<lambda>c. x_event_id c = ev_event_id ev) (db_contexts d) = None"
      by (force simp: find_None_iff image_iff)
    then show ?thesis by (simp add: x find_append created_context_def)
  qed
  have fresh: "List.find (\<lambda>s. n_event_id s = ev_event_id ev) (db_snapshots d) = None"
    using inv new by (force simp: find_None_iff store_inv_def)
  have nid: "''snap:'' @ ev_event_id ev \<notin> n_id ` set (db_snapshots d)"
    using inv new by (force simp: store_inv_def)
  have snap: "(case List.find (\<lambda>s. n_event_id s = ev_event_id ev) (db_snapshots d') of
       None \<Rightarrow> None | Some s \<Rightarrow> snapshot_from_json (n_match_result s) (isoformat (n_captured_at s)))
     = dec_snapshot dc"
  proof (cases "dec_snapshot dc")
    case None
    with s fresh show ?thesis by simp
  next
    case (Some sn)
    with s fresh nid wf show ?thesis by (simp add: insert_or_ignore_def find_append snapshot_round_trip)
  qed
  show ?thesis
    by (simp add: load_context_def Let_def cx tr snap c)
      (simp add: created_context_def tr snap sid rsplit_last_session_key)
qed simp

lemma persist_created_context:
  assumes "persist_accepted_inbound ex dc d = (Inr (c, True), d')" and ev: "dec_event dc = Some ev"
  shows "tc_event_id c = ev_event_id ev \<and> tc_conversation_id c = ev_conversation_id ev
    \<and> tc_channel c = ev_channel ev \<and> tc_from_phone c = ev_from_phone ev \<and> tc_snapshot c = dec_snapshot dc"
  using assms(1)
proof (cases rule: persist_accepted_inbound_cases)
  case (stored ev' tid sid turn created d3)
  have e: "ev' = ev" using stored(2) ev by simp
  have "created"
  proof (rule ccontr)
    assume "\<not> created"
    from stored(6) [OF this] show False by (simp split: option.splits)
  qed
  from stored(5) [OF this] e show ?thesis by simp
qed simp

lemma reloaded_payload_matches:
  assumes "persist_accepted_inbound ex dc d = (Inr (c, True), d')" and "store_inv d"
    and ev: "dec_event dc = Some ev" and "\<forall>s. dec_snapshot dc = Some s \<longrightarrow> snapshot_wf s"
  shows "\<exists>c'. load_context (ev_event_id ev) d' = Some c'
    \<and> (job_payload_matches c' \<lparr>jp_event_id = ev_event_id ev, jp_conversation_id = ev_conversation_id ev\<rparr>
       \<longleftrightarrow> CHR '':'' \<notin> set (ev_conversation_id ev))"
proof -
  have "tc_event_id c = ev_event_id ev" "tc_conversation_id c = ev_conversation_id ev"
    using persist_created_context [OF assms(1) ev] by simp_all
  with load_after_persist [OF assms] show ?thesis
    by (simp add: job_payload_matches_def rsplit_last_self)
qed

section \<open>Merging provisional memory\<close>

definition slots_unique :: "slot_row list \<Rightarrow> bool" where
  "slots_unique slots \<longleftrightarrow> distinct (map (\<lambda>r. (p_binding_key r, p_slot_name r)) slots)"

lemma merge_rowsD:
  assumes "merge_rows ex i vk rs slots = Inr (moved, overridden, slots')"
  shows "\<exists>new. slots' = slots @ new \<and> map p_slot_name new = moved
    \<and> (\<forall>q \<in> set new. p_binding_key q = vk \<and> p_binding_kind q = ''verified''
         \<and> p_source q = MEMORY_SOURCE_MERGED_PROVISIONAL
         \<and> (\<exists>r \<in> set rs. p_slot_name q = p_slot_name r \<and> p_slot_value q = p_slot_value r
              \<and> p_evidence q = p_evidence r))
    \<and> set moved \<union> fst ` set overridden = p_slot_name ` set rs
    \<and> (\<forall>q \<in> set new. (vk, p_slot_name q) \<notin> (\<lambda>q. (p_binding_key q, p_slot_name q)) ` set slots)
    \<and> set overridden \<subseteq> (\<lambda>r. (p_slot_name r, p_slot_value r)) ` set rs
    \<and> (slots_unique slots \<longrightarrow> slots_unique slots')"
  using assms
proof (induction rs arbitrary: i slots moved overridden slots')
  case Nil
  then show ?case by simp
next
  case (Cons r rs)
  show ?case
  proof (cases "(vk, p_slot_name r) \<in> (\<lambda>q. (p_binding_key q, p_slot_name q)) ` set slots")
    case True
    with Cons.prems obtain ov where m: "merge_rows ex (Suc i) vk rs slots = Inr (moved, ov, slots')"
      and ov: "overridden = (p_slot_name r, p_slot_value r) # ov" by (auto simp: exn_simps)
    from Cons.IH [OF m] obtain new where "slots' = slots @ new" "map p_slot_name new = moved"
      "\<forall>q \<in> set new. p_binding_key q = vk \<and> p_binding_kind q = ''verified''
         \<and> p_source q = MEMORY_SOURCE_MERGED_PROVISIONAL
         \<and> (\<exists>r \<in> set rs. p_slot_name q = p_slot_name r \<and> p_slot_value q = p_slot_value r
              \<and> p_evidence q = p_evidence r)"
      "set moved \<union> fst ` set ov = p_slot_name ` set rs"
      "\<forall>q \<in> set new. (vk, p_slot_name q) \<notin> (\<lambda>q. (p_binding_key q, p_slot_name q)) ` set slots"
      "set ov \<subseteq> (\<lambda>r. (p_slot_name r, p_slot_value r)) ` set rs"
      "slots_unique slots \<longrightarrow> slots_unique slots'" by blast
    then show ?thesis by (intro exI [of _ new]) (simp add: ov; blast)
  next
    case False
    define q0 where "q0 = \<lparr>p_id = new_id ''mem'' ex i, p_binding_key = vk, p_binding_kind = ''verified'',
           p_slot_name = p_slot_name r, p_slot_value = p_slot_value r,
           p_source = MEMORY_SOURCE_MERGED_PROVISIONAL, p_evidence = p_evidence r,
           p_actor_account_id = None, p_created_at = ee_now ex, p_updated_at = ee_now ex,
           p_last_interaction_at = ee_now ex\<rparr>"
    from Cons.prems False obtain mv where m: "merge_rows ex (Suc i) vk rs (slots @ [q0]) = Inr (mv, overridden, slots')"
      and mv: "moved = p_slot_name r # mv" by (auto simp: exn_simps pk_insert_Inr q0_def)
    have q0: "p_binding_key q0 = vk" "p_slot_name q0 = p_slot_name r" "p_slot_value q0 = p_slot_value r"
      "p_evidence q0 = p_evidence r" "p_binding_kind q0 = ''verified''"
      "p_source q0 = MEMORY_SOURCE_MERGED_PROVISIONAL" by (simp_all add: q0_def)
    from Cons.IH [OF m] obtain new where n: "slots' = (slots @ [q0]) @ new" "map p_slot_name new = mv"
      "\<forall>q \<in> set new. p_binding_key q = vk \<and> p_binding_kind q = ''verified''
         \<and> p_source q = MEMORY_SOURCE_MERGED_PROVISIONAL
         \<and> (\<exists>r \<in> set rs. p_slot_name q = p_slot_name r \<and> p_slot_value q = p_slot_value r
              \<and> p_evidence q = p_evidence r)"
      "set mv \<union> fst ` set overridden = p_slot_name ` set rs"
      "\<forall>q \<in> set new. (vk, p_slot_name q) \<notin> (\<lambda>q. (p_binding_key q, p_slot_name q)) ` set (slots @ [q0])"
      "set overridden \<subseteq> (\<lambda>r. (p_slot_name r, p_slot_value r)) ` set rs"
      "slots_unique (slots @ [q0]) \<longrightarrow> slots_unique slots'" by blast
    have u: "slots_unique slots \<Longrightarrow> slots_unique (slots @ [q0])"
      using False q0 by (auto simp: slots_unique_def)
    show ?thesis
    proof (rule exI [of _ "q0 # new"], intro conjI)
      show "slots' = slots @ q0 # new" using n(1) by simp
      show "map p_slot_name (q0 # new) = moved" using n(2) mv q0 by simp
      show "\<forall>q \<in> set (q0 # new). p_binding_key q = vk \<and> p_binding_kind q = ''verified''
         \<and> p_source q = MEMORY_SOURCE_MERGED_PROVISIONAL
         \<and> (\<exists>r \<in> set (r # rs). p_slot_name q = p_slot_name r \<and> p_slot_value q = p_slot_value r
              \<and> p_evidence q = p_evidence r)"
        using n(3) q0 by auto
      show "set moved \<union> fst ` set overridden = p_slot_name ` set (r # rs)" using n(4) mv by auto
      show "\<forall>q \<in> set (q0 # new). (vk, p_slot_name q) \<notin> (\<lambda>q. (p_binding_key q, p_slot_name q)) ` set slots"
        using n(5) False q0 by auto
      show "set overridden \<subseteq> (\<lambda>r. (p_slot_name r, p_slot_value r)) ` set (r # rs)" using n(6) by auto
      show "slots_unique slots \<longrightarrow> slots_unique slots'" using n(7) u by blast
    qed
  qed
qed

text \<open>
  A merge keeps every row of the verified key as it was, moves or reports every provisional slot,
  and leaves nothing under the provisional key.
\<close>

lemma merge_provisional_memoryD:
  assumes "merge_provisional_memory ex pk vk d = (Inr (Some (moved, overridden)), d')" and "pk \<noteq> vk"
  shows "filter (\<lambda>r. p_binding_key r = pk) (db_slots d') = []"
    and "\<exists>new. filter (\<lambda>r. p_binding_key r = vk) (db_slots d') = filter (\<lambda>r. p_binding_key r = vk) (db_slots d) @ new
           \<and> map p_slot_name new = moved
           \<and> (\<forall>q \<in> set new. p_source q = MEMORY_SOURCE_MERGED_PROVISIONAL
               \<and> (\<exists>r \<in> set (db_slots d). p_binding_key r = pk \<and> p_slot_name q = p_slot_name r
                    \<and> p_slot_value q = p_slot_value r \<and> p_evidence q = p_evidence r))"
    and "\<And>k. k \<noteq> pk \<Longrightarrow> k \<noteq> vk \<Longrightarrow>
           filter (\<lambda>r. p_binding_key r = k) (db_slots d') = filter (\<lambda>r. p_binding_key r = k) (db_slots d)"
    and "set moved \<union> fst ` set overridden = p_slot_name ` {r \<in> set (db_slots d). p_binding_key r = pk}"
    and "merge_provisional_memory ex2 pk vk d' = (Inr None, d')"
    and "slots_unique (db_slots d) \<Longrightarrow> slots_unique (db_slots d')"
    and "length (db_merges d') = Suc (length (db_merges d))"
proof -
  define rows where "rows = sort_key p_slot_name (filter (\<lambda>r. p_binding_key r = pk) (db_slots d))"
  from assms(1) obtain slots merges where m: "merge_rows ex 0 vk rows (db_slots d) = Inr (moved, overridden, slots)"
    and d': "d' = d\<lparr>db_slots := filter (\<lambda>r. p_binding_key r \<noteq> pk) slots, db_merges := merges\<rparr>"
    and g: "length merges = Suc (length (db_merges d))"
    unfolding merge_provisional_memory_def Let_def rows_def [symmetric]
    by (auto simp: pk_insert_Inr split: if_splits sum.splits prod.splits)
  have rset: "set rows = {r \<in> set (db_slots d). p_binding_key r = pk}" by (simp add: rows_def)
  from merge_rowsD [OF m] obtain new where n: "slots = db_slots d @ new" "map p_slot_name new = moved"
      "\<forall>q \<in> set new. p_binding_key q = vk \<and> p_binding_kind q = ''verified''
         \<and> p_source q = MEMORY_SOURCE_MERGED_PROVISIONAL
         \<and> (\<exists>r \<in> set rows. p_slot_name q = p_slot_name r \<and> p_slot_value q = p_slot_value r
              \<and> p_evidence q = p_evidence r)"
      "set moved \<union> fst ` set overridden = p_slot_name ` set rows"
      "slots_unique (db_slots d) \<longrightarrow> slots_unique slots" by blast
  have nv: "filter (\<lambda>r. p_binding_key r = vk) new = new" "filter (\<lambda>r. p_binding_key r \<noteq> pk) new = new"
    using n(3) assms(2) by (auto intro!: filter_True)
  have ff: "filter (\<lambda>r. p_binding_key r = k) (filter (\<lambda>r. p_binding_key r \<noteq> pk) xs)
      = filter (\<lambda>r. p_binding_key r = k) xs" if "k \<noteq> pk" for k and xs :: "slot_row list"
    using that by (induction xs) auto
  show "filter (\<lambda>r. p_binding_key r = pk) (db_slots d') = []" by (simp add: d')
  then show "merge_provisional_memory ex2 pk vk d' = (Inr None, d')"
    by (simp add: merge_provisional_memory_def)
  show "\<exists>new. filter (\<lambda>r. p_binding_key r = vk) (db_slots d') = filter (\<lambda>r. p_binding_key r = vk) (db_slots d) @ new
           \<and> map p_slot_name new = moved
           \<and> (\<forall>q \<in> set new. p_source q = MEMORY_SOURCE_MERGED_PROVISIONAL
               \<and> (\<exists>r \<in> set (db_slots d). p_binding_key r = pk \<and> p_slot_name q = p_slot_name r
                    \<and> p_slot_value q = p_slot_value r \<and> p_evidence q = p_evidence r))"
  proof (rule exI [of _ new], intro conjI ballI)
    show "filter (\<lambda>r. p_binding_key r = vk) (db_slots d') = filter (\<lambda>r. p_binding_key r = vk) (db_slots d) @ new"
      using assms(2) nv ff [of vk "db_slots d"] by (simp add: d' n(1))
    show "map p_slot_name new = moved" by (rule n(2))
  next
    fix q assume "q \<in> set new"
    with n(3) rset show "p_source q = MEMORY_SOURCE_MERGED_PROVISIONAL"
      "\<exists>r \<in> set (db_slots d). p_binding_key r = pk \<and> p_slot_name q = p_slot_name r
                    \<and> p_slot_value q = p_slot_value r \<and> p_evidence q = p_evidence r" by auto
  qed
  show "filter (\<lambda>r. p_binding_key r = k) (db_slots d') = filter (\<lambda>r. p_binding_key r = k) (db_slots d)"
    if k: "k \<noteq> pk" "k \<noteq> vk" for k
  proof -
    have "filter (\<lambda>r. p_binding_key r = k) new = []" using n(3) k by (auto simp: filter_empty_conv)
    then show ?thesis using ff [OF k(1), of "db_slots d"] nv by (simp add: d' n(1))
  qed
  show "set moved \<union> fst ` set overridden = p_slot_name ` {r \<in> set (db_slots d). p_binding_key r = pk}"
    using n(4) rset by simp
  show "slots_unique (db_slots d) \<Longrightarrow> slots_unique (db_slots d')"
    using n(5) by (simp add: d' slots_unique_def distinct_map_filter)
  show "length (db_merges d') = Suc (length (db_merges d))" using g by (simp add: d')
qed

section \<open>Properties\<close>

text \<open>C3.  Starting empty, after any sequence of persist calls, failed or not, repeated or
  not, an event has exactly one turn job when its context is stored and none otherwise: the context
  and its job are written together.  On Postgres and on the in-memory store.\<close>

theorem one_job_per_accepted_event:
  "pg_jobs_for (run_persists (\<lambda>n. pg_gateway_store (ex n)) dcs empty_db) e =
      (if pg_known (run_persists (\<lambda>n. pg_gateway_store (ex n)) dcs empty_db) e then 1 else 0)
   \<and> mem_jobs_for (run_persists (\<lambda>_. mem_gateway_store) dcs empty_mem_store) e =
      (if mem_known (run_persists (\<lambda>_. mem_gateway_store) dcs empty_mem_store) e then 1 else 0)"
proof
  have "\<forall>x. pg_jobs_for empty_db x = (if pg_known empty_db x then 1 else 0)"
    by (simp add: pg_jobs_for_def pg_known_def empty_db_def)
  from run_persists_outbox [OF pgs.accepting_store_axioms this]
  show "pg_jobs_for (run_persists (\<lambda>n. pg_gateway_store (ex n)) dcs empty_db) e =
      (if pg_known (run_persists (\<lambda>n. pg_gateway_store (ex n)) dcs empty_db) e then 1 else 0)" by blast
next
  have "\<forall>x. mem_jobs_for empty_mem_store x = (if mem_known empty_mem_store x then 1 else 0)"
    by (simp add: mem_jobs_for_def mem_known_def empty_mem_store_def)
  from run_persists_outbox [OF mems.accepting_store_axioms this]
  show "mem_jobs_for (run_persists (\<lambda>_. mem_gateway_store) dcs empty_mem_store) e =
      (if mem_known (run_persists (\<lambda>_. mem_gateway_store) dcs empty_mem_store) e then 1 else 0)" by blast
qed

lemma run_persists_inv: "store_inv d \<Longrightarrow> store_inv (run_persists (\<lambda>n. pg_gateway_store (ex n)) dcs d)"
proof (induction dcs arbitrary: ex d)
  case (Cons dc dcs)
  obtain res d' where p: "persist_accepted_inbound (ex 0) dc d = (res, d')" by force
  from Cons.IH [OF persist_inv [OF p Cons.prems], of "ex \<circ> Suc"] p show ?case
    by (simp add: pg_gateway_store_def comp_def)
qed simp

text \<open>An accepted SMS of a conversation, and the environment of one call.\<close>

definition sample_event :: "string \<Rightarrow> inbound_event" where
  "sample_event conv = \<lparr>ev_channel = ''simpletexting_sms'', ev_provider = ''simpletexting'', ev_event_id = ''evt_1'',
     ev_conversation_id = conv, ev_from_phone = ''+14165550101'', ev_body = ''hello'', ev_received_at = ''now'',
     ev_raw_event_type = ''INCOMING_MESSAGE'', ev_media_urls = None\<rparr>"

definition sample_decision :: "string \<Rightarrow> decision" where
  "sample_decision conv = (decide 200 Enqueue Accept)\<lparr>dec_event := Some (sample_event conv),
     dec_snapshot := Some (unmatched_snapshot (JStr ''now''))\<rparr>"

definition sample_env :: exec_env where
  "sample_env = \<lparr>ee_now = 0, ee_hex = \<lambda>n. replicate n CHR ''0''\<rparr>"

lemma sample_persisted:
  "\<exists>c d'. persist_accepted_inbound sample_env (sample_decision conv) empty_db = (Inr (c, True), d')"
  by (simp add: persist_accepted_inbound_def sample_decision_def dec_enqueue_def persist_inbound_rows_def Let_def
      upsert_thread_def text_or_null_def unmatched_snapshot_def exn_simps empty_db_def pk_insert_def
      insert_context_and_job_def insert_job_def as_payload_def payload_json_def ensure_open_case_def
      build_agent_turn_context_def)

lemma sample_event_fields: "dec_event (sample_decision conv) = Some (sample_event conv)"
  "ev_event_id (sample_event conv) = ''evt_1''" "ev_conversation_id (sample_event conv) = conv"
  by (simp_all add: sample_decision_def sample_event_def)

lemma sample_snapshot_wf: "\<forall>s. dec_snapshot (sample_decision conv) = Some s \<longrightarrow> snapshot_wf s"
  by (simp add: sample_decision_def snapshot_wf_def unmatched_snapshot_def)

text \<open>C21.  In every database the gateway's writes can reach, a thread has at most one open case,
  an event one context, every context its thread; and accepting a new message leaves its thread with
  exactly one open case.\<close>

theorem one_open_case_per_thread:
  assumes "d = run_persists (\<lambda>n. pg_gateway_store (ex n)) dcs empty_db"
    and "persist_inbound_rows ex' ev snap d = Inr ((tid, sid, turn, created), d')"
  shows "open_cases d th \<le> 1 \<and> distinct (map x_event_id (db_contexts d)) \<and> distinct (map t_id (db_threads d))
    \<and> (\<forall>c \<in> set (db_contexts d). x_customer_thread_id c \<in> t_id ` set (db_threads d))
    \<and> open_cases d' tid = 1 \<and> (th \<noteq> tid \<longrightarrow> open_cases d' th = open_cases d th)"
proof -
  have "store_inv d" unfolding assms(1) by (rule run_persists_inv [OF store_inv_empty])
  with persist_open_cases [OF assms(2), of tid] persist_open_cases [OF assms(2), of th] show ?thesis
    by (simp add: store_inv_def)
qed

theorem one_open_case_per_thread_witness:
  "\<exists>tid sid turn created d'. persist_inbound_rows sample_env (sample_event ''c'') None empty_db
       = Inr ((tid, sid, turn, created), d') \<and> open_cases d' tid = 1"
proof -
  obtain tid sid turn created d' where p: "persist_inbound_rows sample_env (sample_event ''c'') None empty_db
       = Inr ((tid, sid, turn, created), d')"
    by (simp add: persist_inbound_rows_def Let_def
      upsert_thread_def text_or_null_def exn_simps empty_db_def pk_insert_def
      insert_context_and_job_def insert_job_def as_payload_def payload_json_def ensure_open_case_def)
  from one_open_case_per_thread [of empty_db "\<lambda>_. sample_env" "[]", OF _ p] p show ?thesis by auto
qed

text \<open>C27.  After an accepted message is stored, the worker's reload of its context matches the
  queued payload exactly when the conversation id has no colon: the id is recovered from the session
  key by cutting at the last one, so the turn of a conversation id with a colon can only end in a
  binding mismatch.\<close>

theorem reload_matches_iff_no_colon:
  assumes "persist_accepted_inbound ex dc d = (Inr (c, True), d')" and "store_inv d"
    and "dec_event dc = Some ev" and "\<forall>s. dec_snapshot dc = Some s \<longrightarrow> snapshot_wf s"
  shows "\<exists>c'. load_context (ev_event_id ev) d' = Some c'
    \<and> (job_payload_matches c' \<lparr>jp_event_id = ev_event_id ev, jp_conversation_id = ev_conversation_id ev\<rparr>
       \<longleftrightarrow> CHR '':'' \<notin> set (ev_conversation_id ev))"
  by (rule reloaded_payload_matches [OF assms])

theorem reload_matches_iff_no_colon_witness:
  "\<exists>c' d'. load_context ''evt_1'' d' = Some c' \<and> pg_jobs_for d' ''evt_1'' \<le> 1
    \<and> \<not> job_payload_matches c' \<lparr>jp_event_id = ''evt_1'', jp_conversation_id = ''user:7''\<rparr>"
proof -
  obtain c d' where p: "persist_accepted_inbound sample_env (sample_decision ''user:7'') empty_db = (Inr (c, True), d')"
    using sample_persisted by blast
  from reload_matches_iff_no_colon [OF p store_inv_empty sample_event_fields(1) sample_snapshot_wf]
  obtain c' where "load_context ''evt_1'' d' = Some c'"
    "\<not> job_payload_matches c' \<lparr>jp_event_id = ''evt_1'', jp_conversation_id = ''user:7''\<rparr>"
    by (auto simp: sample_event_fields)
  moreover have "pg_jobs_for d' ''evt_1'' \<le> 1"
  proof -
    have "gs_persist (pg_gateway_store sample_env) (sample_decision ''user:7'') empty_db = (Inr (c, True), d')"
      using p by (simp add: pg_gateway_store_def)
    from pgs.persist_ok [OF this sample_event_fields(1)] show ?thesis
      by (simp add: sample_event_fields pg_jobs_for_def empty_db_def)
  qed
  ultimately show ?thesis by blast
qed

text \<open>A session identity snapshot of any outcome survives its storage as JSON.\<close>

theorem snapshot_survives_storage:
  assumes "snapshot_wf s"
  shows "snapshot_from_json (JObj (snapshot_to_json s)) fallback_at = Some s"
  by (rule snapshot_round_trip [OF assms])

theorem snapshot_survives_storage_witness:
  "snapshot_from_json (JObj (snapshot_to_json \<lparr>snap_outcome = ''verified_customer'', snap_resolved_at = JStr ''t'',
       snap_customer_id = JStr ''gid'', snap_customer_ids = None, snap_display_name = Some ''Acme''\<rparr>)) ''x''
     = Some \<lparr>snap_outcome = ''verified_customer'', snap_resolved_at = JStr ''t'',
       snap_customer_id = JStr ''gid'', snap_customer_ids = None, snap_display_name = Some ''Acme''\<rparr>"
  by (rule snapshot_survives_storage) (simp add: snapshot_wf_def)

text \<open>Merging a provisional customer's memory into a verified one leaves every slot the
  verified key already had as it was, moves each other slot with its value and evidence, reports the
  ones it did not move, empties the provisional key, touches no third customer, and a second merge does nothing.\<close>

theorem merge_keeps_verified_memory:
  assumes "merge_provisional_memory ex pk vk d = (Inr (Some (moved, overridden)), d')" and "pk \<noteq> vk"
  shows "filter (\<lambda>r. p_binding_key r = pk) (db_slots d') = []
    \<and> (\<exists>new. filter (\<lambda>r. p_binding_key r = vk) (db_slots d') = filter (\<lambda>r. p_binding_key r = vk) (db_slots d) @ new
           \<and> map p_slot_name new = moved
           \<and> (\<forall>q \<in> set new. p_source q = MEMORY_SOURCE_MERGED_PROVISIONAL
               \<and> (\<exists>r \<in> set (db_slots d). p_binding_key r = pk \<and> p_slot_name q = p_slot_name r
                    \<and> p_slot_value q = p_slot_value r \<and> p_evidence q = p_evidence r)))
    \<and> (k \<noteq> pk \<and> k \<noteq> vk \<longrightarrow>
           filter (\<lambda>r. p_binding_key r = k) (db_slots d') = filter (\<lambda>r. p_binding_key r = k) (db_slots d))
    \<and> set moved \<union> fst ` set overridden = p_slot_name ` {r \<in> set (db_slots d). p_binding_key r = pk}
    \<and> merge_provisional_memory ex2 pk vk d' = (Inr None, d')
    \<and> (slots_unique (db_slots d) \<longrightarrow> slots_unique (db_slots d'))
    \<and> length (db_merges d') = Suc (length (db_merges d))"
  using merge_provisional_memoryD [OF assms] by blast

definition sample_slot :: "string \<Rightarrow> string \<Rightarrow> string \<Rightarrow> string \<Rightarrow> slot_row" where
  "sample_slot i key name val = \<lparr>p_id = i, p_binding_key = key, p_binding_kind = ''verified'', p_slot_name = name,
     p_slot_value = val, p_source = ''agent'', p_evidence = None, p_actor_account_id = None,
     p_created_at = 0, p_updated_at = 0, p_last_interaction_at = 0\<rparr>"

theorem merge_keeps_verified_memory_witness:
  "\<exists>d'. merge_provisional_memory sample_env ''phone'' ''gid'' (empty_db\<lparr>db_slots :=
       [sample_slot ''a'' ''phone'' ''tone'' ''warm'', sample_slot ''b'' ''gid'' ''tone'' ''brief'',
        sample_slot ''c'' ''phone'' ''language'' ''fr'']\<rparr>)
     = (Inr (Some ([''language''], [(''tone'', ''warm'')])), d')
     \<and> filter (\<lambda>r. p_binding_key r = ''phone'') (db_slots d') = []
     \<and> filter (\<lambda>r. p_binding_key r = ''other'') (db_slots d') = []"
proof -
  let ?d = "empty_db\<lparr>db_slots := [sample_slot ''a'' ''phone'' ''tone'' ''warm'',
     sample_slot ''b'' ''gid'' ''tone'' ''brief'', sample_slot ''c'' ''phone'' ''language'' ''fr'']\<rparr>"
  obtain d' where m: "merge_provisional_memory sample_env ''phone'' ''gid'' ?d
     = (Inr (Some ([''language''], [(''tone'', ''warm'')])), d')"
    by (simp add: merge_provisional_memory_def sample_slot_def pk_insert_def exn_simps empty_db_def
        sample_env_def new_id_def less_list_code Let_def less_eq_list_code)
  from merge_keeps_verified_memory [OF m, where k = "''other''"] m show ?thesis
    by (simp add: sample_slot_def)
qed

end
