(* ===== verification/GatewayApp.thy ===== *)
theory GatewayApp
  imports StoreLaws TurnRunner
begin

text \<open>
  The gateway's HTTP surface, \<^verbatim>\<open>gateway_app.py\<close>.  A route is a function from the request to the status
  of its response, or the exception that leaves it (a 500), and the gateway's state.  \<open>loads\<close> is
  \<^verbatim>\<open>json.loads(raw.decode("utf-8"))\<close>: the value, or the exception the text raises.
\<close>

section \<open>Bodies and fields\<close>

definition decode_error :: "exn \<Rightarrow> bool" where
  "decode_error e = (case e of
     PyError cls _ \<Rightarrow> cls \<in> {''UnicodeDecodeError'', ''JSONDecodeError''} | _ \<Rightarrow> False)"

definition obj_or_empty :: "json \<Rightarrow> dict" where
  "obj_or_empty j = (case j of JObj d \<Rightarrow> d | _ \<Rightarrow> [])"

definition webhook_payload :: "(string \<Rightarrow> exn + json) \<Rightarrow> string \<Rightarrow> exn + dict" where
  "webhook_payload loads raw =
     (if raw = [] then Inr []
      else case loads raw of
        Inr j \<Rightarrow> Inr (obj_or_empty j)
      | Inl e \<Rightarrow> (if decode_error e then Inr [] else Inl e))"

definition is_ignored_simpletexting_webhook :: "dict \<Rightarrow> bool" where
  "is_ignored_simpletexting_webhook payload \<longleftrightarrow> get payload ''type'' \<noteq> JStr ''INCOMING_MESSAGE''"

definition parse_simpletexting_fields :: "dict \<Rightarrow> sms_fields" where
  "parse_simpletexting_fields payload =
     (let vals = (case get payload ''values'' of JObj v \<Rightarrow> v | _ \<Rightarrow> []);
          contact_phone = py_str (get_or vals ''contactPhone'' (JStr []));
          media_urls = (case get vals ''mediaItems'' of
             JList items \<Rightarrow> (let urls = map py_str (filter truthy items) in if urls = [] then None else Some urls)
           | _ \<Rightarrow> None) in
      \<lparr>fld_event_id = py_str (or_else (or_else (get vals ''messageId'') (get payload ''reportId'')) (JStr [])),
       fld_conversation_id = (if contact_phone \<noteq> [] then normalize_e164 contact_phone else []),
       fld_from_phone = contact_phone, fld_body = py_str (get_or vals ''text'' (JStr [])),
       fld_received_at = py_str (get_or vals ''timestamp'' (JStr [])),
       fld_raw_event_type = py_str (get_or payload ''type'' (JStr [])), fld_media_urls = media_urls\<rparr>)"

definition parse_simulated_email_event :: "dict \<Rightarrow> inbound_event" where
  "parse_simulated_email_event payload =
     to_inbound_email_event
       (py_str (get_or payload ''id'' (JStr [])))
       (py_str (or_else (or_else (get payload ''conversation_id'') (get payload ''id'')) (JStr [])))
       (py_str (get_or payload ''from'' (JStr [])))
       (py_str (get_or payload ''subject'' (JStr [])))
       (py_str (get_or payload ''body'' (JStr [])))
       (py_str (get_or payload ''received_at'' (JStr [])))
       (py_str (get_or payload ''type'' (JStr ''email.received'')))"

section \<open>The application\<close>

text \<open>The state behind the closures of \<^verbatim>\<open>create_app\<close>.\<close>

record ('w, 'l, 's, 'e) gateway =
  gw_store :: 'w
  gw_limiter :: limiter
  gw_log :: 'l
  gw_driver :: 's
  gw_world :: 'e

record ('w, 'l, 's, 'e) collaborators =
  co_webhook_secret :: string
  co_driver :: "'s driver"
  co_reply_sender :: "(string \<Rightarrow> string \<Rightarrow> 'e \<Rightarrow> (exn + unit) \<times> 'e) option"
  co_is_duplicate :: "string \<Rightarrow> 'w \<Rightarrow> bool"
  co_store :: "'w gateway_store"
  co_internal_job_secret :: "string option"
  co_turn_runner :: "(turn_context \<Rightarrow> string \<Rightarrow> string option \<Rightarrow> ('w, 'l, 's, 'e) gateway
      \<Rightarrow> (exn + unit) \<times> ('w, 'l, 's, 'e) gateway) option"
  co_log :: "'l send_log"

definition is_send_burned :: "exn \<Rightarrow> bool" where
  "is_send_burned e = (case e of PyError cls _ \<Rightarrow> cls = ''OutboundSendBurned'' | _ \<Rightarrow> False)"

text \<open>The confirmation of an opt-out decision, when there is a sender and the event is claimed.\<close>

definition confirm_opt_out ::
  "('w, 'l, 's, 'e) collaborators \<Rightarrow> decision \<Rightarrow> ('w, 'l, 's, 'e) gateway
     \<Rightarrow> (exn + unit) \<times> ('w, 'l, 's, 'e) gateway" where
  "confirm_opt_out co dec g =
     (case (if dec_action dec = Opt_out then (co_reply_sender co, dec_event dec, dec_reply dec)
            else (None, None, None)) of
        (Some sender, Some event, Some confirmation) \<Rightarrow>
          (let (claimed, w) = gs_claim_event (co_store co) (ev_event_id event) (gw_store g);
               g1 = g\<lparr>gw_store := w\<rparr> in
           if \<not> claimed then (Inr (), g1)
           else (let (res, l, e) = deliver_once (co_log co) None (ev_event_id event)
                       (ev_conversation_id event) (ev_channel event) OPT_OUT_SLOT
                       (sender (ev_conversation_id event) confirmation) (gw_log g1, gw_world g1);
                     g2 = g1\<lparr>gw_log := l, gw_world := e\<rparr> in
                 (case res of
                    Inr _ \<Rightarrow> (Inr (), g2)
                  | Inl x \<Rightarrow> (if is_send_burned x then (Inr (), g2) else (Inl x, g2)))))
      | _ \<Rightarrow> (Inr (), g))"

definition dispatch_decision ::
  "('w, 'l, 's, 'e) collaborators \<Rightarrow> decision \<Rightarrow> ('w, 'l, 's, 'e) gateway
     \<Rightarrow> (exn + nat) \<times> ('w, 'l, 's, 'e) gateway" where
  "dispatch_decision co dec g =
     (case confirm_opt_out co dec g of
        (Inl x, g1) \<Rightarrow> (Inl x, g1)
      | (Inr _, g1) \<Rightarrow>
          (if dec_action dec = Enqueue
           then (case gs_persist (co_store co) dec (gw_store g1) of
                   (Inl x, w) \<Rightarrow> (Inl x, g1\<lparr>gw_store := w\<rparr>)
                 | (Inr _, w) \<Rightarrow> (Inr (dec_status dec), g1\<lparr>gw_store := w\<rparr>))
           else (Inr (dec_status dec), g1)))"

text \<open>\<open>at\<close> is \<^verbatim>\<open>clock()\<close>, \<open>ms\<close> the rate limiter's clock.\<close>

definition decide_inbound ::
  "('w, 'l, 's, 'e) collaborators \<Rightarrow> string \<Rightarrow> int \<Rightarrow> string option \<Rightarrow> sms_fields option
     \<Rightarrow> inbound_event option \<Rightarrow> ('w, 'l, 's, 'e) gateway
     \<Rightarrow> (exn + decision) \<times> ('w, 'l, 's, 'e) gateway" where
  "decide_inbound co at ms token flds event g =
     (let (res, lim, s) = process_inbound token (co_webhook_secret co) flds event (co_driver co)
            (gw_limiter g) at (\<lambda>ev. co_is_duplicate co ev (gw_store g)) ms (gw_driver g)
      in (res, g\<lparr>gw_limiter := lim, gw_driver := s\<rparr>))"

definition accept_inbound ::
  "('w, 'l, 's, 'e) collaborators \<Rightarrow> string \<Rightarrow> int \<Rightarrow> string option \<Rightarrow> sms_fields option
     \<Rightarrow> inbound_event option \<Rightarrow> ('w, 'l, 's, 'e) gateway
     \<Rightarrow> (exn + nat) \<times> ('w, 'l, 's, 'e) gateway" where
  "accept_inbound co at ms token flds event g =
     (case decide_inbound co at ms token flds event g of
        (Inl x, g1) \<Rightarrow> (Inl x, g1)
      | (Inr dec, g1) \<Rightarrow> dispatch_decision co dec g1)"

definition simpletexting_webhook ::
  "('w, 'l, 's, 'e) collaborators \<Rightarrow> (string \<Rightarrow> exn + json) \<Rightarrow> string \<Rightarrow> int \<Rightarrow> string option \<Rightarrow> string
     \<Rightarrow> ('w, 'l, 's, 'e) gateway \<Rightarrow> (exn + nat) \<times> ('w, 'l, 's, 'e) gateway" where
  "simpletexting_webhook co loads at ms token raw g =
     (case webhook_payload loads raw of
        Inl e \<Rightarrow> (Inl e, g)
      | Inr payload \<Rightarrow>
          (if \<not> verify_webhook_token token (co_webhook_secret co) then (Inr 401, g)
           else if is_ignored_simpletexting_webhook payload then (Inr 200, g)
           else let flds = parse_simpletexting_fields payload in
             if fld_event_id flds = [] then (Inr 401, g)
             else accept_inbound co at ms token (Some flds) None g))"

definition simulated_email_webhook ::
  "('w, 'l, 's, 'e) collaborators \<Rightarrow> (string \<Rightarrow> exn + json) \<Rightarrow> string \<Rightarrow> int \<Rightarrow> string option \<Rightarrow> string
     \<Rightarrow> ('w, 'l, 's, 'e) gateway \<Rightarrow> (exn + nat) \<times> ('w, 'l, 's, 'e) gateway" where
  "simulated_email_webhook co loads at ms token raw g =
     (case webhook_payload loads raw of
        Inl e \<Rightarrow> (Inl e, g)
      | Inr payload \<Rightarrow>
          (if \<not> verify_webhook_token token (co_webhook_secret co) then (Inr 401, g)
           else let event = parse_simulated_email_event payload in
             if ev_event_id event = [] then (Inr 401, g)
             else accept_inbound co at ms token None (Some event) g))"

definition internal_job_body :: "(string \<Rightarrow> exn + json) \<Rightarrow> string \<Rightarrow> exn + dict" where
  "internal_job_body loads raw =
     (if raw = [] then Inr []
      else case loads raw of
        Inr j \<Rightarrow> Inr (obj_or_empty j)
      | Inl (PyError cls m) \<Rightarrow> (if cls = ''JSONDecodeError'' then Inr [] else Inl (PyError cls m))
      | Inl e \<Rightarrow> Inl e)"

definition internal_agent_turn ::
  "('w, 'l, 's, 'e) collaborators \<Rightarrow> (string \<Rightarrow> exn + json) \<Rightarrow> string option \<Rightarrow> string
     \<Rightarrow> ('w, 'l, 's, 'e) gateway \<Rightarrow> (exn + nat) \<times> ('w, 'l, 's, 'e) gateway" where
  "internal_agent_turn co loads supplied raw g =
     (if falsy (co_internal_job_secret co) \<or> falsy supplied then (Inr 401, g)
      else case compare_digest (the supplied) (the (co_internal_job_secret co)) of
        Inl e \<Rightarrow> (Inl e, g)
      | Inr False \<Rightarrow> (Inr 401, g)
      | Inr True \<Rightarrow>
          (case internal_job_body loads raw of
             Inl e \<Rightarrow> (Inl e, g)
           | Inr body \<Rightarrow>
               (case execute_agent_turn_job
                   (\<lambda>ev g. (Inr (gs_load_context (co_store co) ev (gw_store g)), g))
                   (\<lambda>r g. (Inr (gs_load_inbound_body (co_store co) r (gw_store g)), g))
                   (co_turn_runner co)
                   \<lparr>jp_event_id = py_str (get_or body ''event_id'' (JStr [])),
                    jp_conversation_id = py_str (get_or body ''conversation_id'' (JStr []))\<rparr> None g of
                  (Inl e, g1) \<Rightarrow> (Inl e, g1)
                | (Inr Context_not_found, g1) \<Rightarrow> (Inr 404, g1)
                | (Inr Binding_mismatch, g1) \<Rightarrow> (Inr 409, g1)
                | (Inr Completed, g1) \<Rightarrow> (Inr 200, g1))))"

section \<open>Lemmas\<close>

lemma simpletexting_webhook_unauthentic:
  "\<not> verify_webhook_token token (co_webhook_secret co) \<Longrightarrow> webhook_payload loads raw = Inr p \<Longrightarrow>
   simpletexting_webhook co loads at ms token raw g = (Inr 401, g)"
  by (simp add: simpletexting_webhook_def)

lemma webhook_payload_total: "(\<And>e. loads raw = Inl e \<Longrightarrow> decode_error e) \<Longrightarrow> \<exists>p. webhook_payload loads raw = Inr p"
  by (auto simp: webhook_payload_def split: sum.splits)

lemma confirm_opt_out_other: "dec_action dec \<noteq> Opt_out \<Longrightarrow> confirm_opt_out co dec g = (Inr (), g)"
  by (simp add: confirm_opt_out_def)

lemma decide_inbound_store: "decide_inbound co at ms token flds event g = (res, g1) \<Longrightarrow>
   gw_store g1 = gw_store g \<and> gw_log g1 = gw_log g \<and> gw_world g1 = gw_world g"
  by (auto simp: decide_inbound_def split: prod.splits)

lemma decide_inbound_enqueue:
  assumes "decide_inbound co at ms token flds event g = (Inr dec, g1)" and "dec_action dec = Enqueue"
  shows "dec_status dec = 200 \<and> dec_event dec = inbound_of flds event"
proof -
  obtain lim s where "process_inbound token (co_webhook_secret co) flds event (co_driver co) (gw_limiter g) at
      (\<lambda>ev. co_is_duplicate co ev (gw_store g)) ms (gw_driver g) = (Inr dec, lim, s)"
    using assms(1) by (auto simp: decide_inbound_def split: prod.splits)
  from process_inbound_enqueue [OF this] assms(2) show ?thesis by (auto simp: dec_enqueue_def)
qed

text \<open>An acknowledged message is stored, and has its one turn job: the persist happens before the 200.\<close>

definition accepted_event :: "('w, 'l, 's, 'e) collaborators \<Rightarrow> string \<Rightarrow> int \<Rightarrow> string option
   \<Rightarrow> sms_fields option \<Rightarrow> inbound_event option \<Rightarrow> ('w, 'l, 's, 'e) gateway \<Rightarrow> bool" where
  "accepted_event co at ms token flds event g =
     (case fst (decide_inbound co at ms token flds event g) of
        Inr dec \<Rightarrow> dec_action dec = Enqueue | Inl _ \<Rightarrow> False)"

context accepting_store
begin

lemma acked_is_stored:
  assumes "co_store co = store" and "accepted_event co at ms token flds event g"
    and "accept_inbound co at ms token flds event g = (Inr st, g')" and "inbound_of flds event = Some ev"
  shows "st = 200 \<and> known (gw_store g') (ev_event_id ev)
    \<and> jobs_for (gw_store g') (ev_event_id ev) = (if known (gw_store g) (ev_event_id ev)
        then jobs_for (gw_store g) (ev_event_id ev) else Suc (jobs_for (gw_store g) (ev_event_id ev)))"
proof -
  obtain dec g1 where d: "decide_inbound co at ms token flds event g = (Inr dec, g1)"
    and enq: "dec_action dec = Enqueue"
    using assms(2) by (cases "decide_inbound co at ms token flds event g")
      (auto simp: accepted_event_def split: sum.splits)
  have st: "dec_status dec = 200" "dec_event dec = Some ev"
    using decide_inbound_enqueue [OF d enq] assms(4) by simp_all
  from assms(3) d enq obtain c created w where
    p: "gs_persist store dec (gw_store g1) = (Inr (c, created), w)" "g' = g1\<lparr>gw_store := w\<rparr>" "st = 200"
    using st(1) assms(1)
    by (auto simp: accept_inbound_def dispatch_decision_def confirm_opt_out_other
        split: prod.splits sum.splits)
  from persist_ok [OF p(1) st(2)] p(2,3) decide_inbound_store [OF d] show ?thesis by simp
qed

lemma refused_is_not_stored:
  assumes "co_store co = store" and "accept_inbound co at ms token flds event g = (Inr st, g')"
    and "\<And>x w. known (snd (gs_claim_event store x w)) = known w"
    and "known (gw_store g') x" and "\<not> known (gw_store g) x"
  shows "st = 200 \<and> accepted_event co at ms token flds event g"
proof -
  obtain res g1 where d: "decide_inbound co at ms token flds event g = (res, g1)" by force
  from assms(2) d obtain dec where res: "res = Inr dec" by (cases res) (auto simp: accept_inbound_def)
  show ?thesis
  proof (cases "dec_action dec = Enqueue")
    case True
    then have "dec_status dec = 200"
      using decide_inbound_enqueue [OF d [unfolded res]] by simp
    with assms(2) d res True show ?thesis
      by (auto simp: accept_inbound_def dispatch_decision_def confirm_opt_out_other accepted_event_def
          split: prod.splits sum.splits)
  next
    case False
    have "known (gw_store (snd (confirm_opt_out co dec g1))) = known (gw_store g1)"
      using assms(1,3)
      by (auto simp: confirm_opt_out_def Let_def split: prod.splits sum.splits option.splits if_splits)
         (metis snd_conv)+
    moreover have "g' = snd (confirm_opt_out co dec g1)"
      using assms(2) d res False
      by (auto simp: accept_inbound_def dispatch_decision_def split: prod.splits sum.splits)
    ultimately show ?thesis using assms(4,5) decide_inbound_store [OF d] by simp
  qed
qed

end

text \<open>An opt-out event that already owns a row of the send log is not texted again.\<close>

context send_log_spec
begin

lemma confirm_opt_out_owned:
  assumes "co_log co = log" and "ok (gw_log g)" and "dec_event dec = Some ev"
    and "entry (gw_log g) (ev_event_id ev) \<noteq> None"
  shows "gw_world (snd (confirm_opt_out co dec g)) = gw_world g
    \<and> fst (confirm_opt_out co dec g) = Inr ()"
proof -
  from assms(4) obtain k s err where e: "entry (gw_log g) (ev_event_id ev) = Some (k, s, err)" by auto
  have burned: "skip_outcome (ev_event_id ev) (Some s) err = Inl x \<Longrightarrow> is_send_burned x" for x
    by (auto simp: skip_outcome_def is_send_burned_def send_burned_def split: if_splits)
  obtain claimed w where c: "gs_claim_event (co_store co) (ev_event_id ev) (gw_store g) = (claimed, w)"
    by fastforce
  show ?thesis
  proof (cases "dec_action dec = Opt_out \<and> co_reply_sender co \<noteq> None \<and> dec_reply dec \<noteq> None \<and> claimed")
    case False
    then show ?thesis using assms(3) c by (auto simp: confirm_opt_out_def split: option.splits)
  next
    case True
    then obtain sender conf where s: "co_reply_sender co = Some sender" "dec_reply dec = Some conf" by auto
    obtain l1 where "deliver_once log None (ev_event_id ev) (ev_conversation_id ev) (ev_channel ev)
       OPT_OUT_SLOT (sender (ev_conversation_id ev) conf) (gw_log g, gw_world g)
       = (skip_outcome (ev_event_id ev) (Some s) err, l1, gw_world g)"
      using deliver_once_owned [OF assms(2) e, of None "ev_conversation_id ev" "ev_channel ev" OPT_OUT_SLOT
          "sender (ev_conversation_id ev) conf" "gw_world g"] by blast
    with True s c assms(1,3) burned show ?thesis
      by (cases "skip_outcome (ev_event_id ev) (Some s) err") (auto simp: confirm_opt_out_def Let_def)
  qed
qed

end

text \<open>A null id in a simulated email is the text \<^verbatim>\<open>None\<close>, not a blank one.\<close>

lemma null_email_id: "map_of payload ''id'' = Some JNull \<Longrightarrow>
   ev_event_id (parse_simulated_email_event payload) = ''None''"
  by (simp add: parse_simulated_email_event_def to_inbound_email_event_def get_or_def py_str_def Let_def)

section \<open>Properties\<close>

text \<open>A gateway over an empty Postgres store, an identity driver that matches nobody, and a sender that counts its texts.\<close>

definition sample_co :: "(db, send_row list, unit, nat) collaborators" where
  "sample_co = \<lparr>co_webhook_secret = ''s3cret'', co_driver = \<lparr>kind = ''mock'', exec = \<lambda>_ _ s. (Inr JNull, s)\<rparr>,
     co_reply_sender = Some (\<lambda>_ _ n. (Inr (), Suc n)), co_is_duplicate = is_duplicate,
     co_store = pg_gateway_store sample_env, co_internal_job_secret = None, co_turn_runner = None,
     co_log = pg_send_log 1 2\<rparr>"

definition sample_gateway :: "(db, send_row list, unit, nat) gateway" where
  "sample_gateway = \<lparr>gw_store = empty_db, gw_limiter = default_rate_limiter, gw_log = [], gw_driver = (), gw_world = 0\<rparr>"

lemma claim_event_known: "pg_known (snd (gs_claim_event (pg_gateway_store ex) x d)) = pg_known d"
  by (simp add: pg_gateway_store_def claim_event_def pg_known_def fun_eq_iff)

lemma sample_decided:
  "\<exists>g1. decide_inbound sample_co ''now'' 0 (Some ''s3cret'') None (Some (sample_event ''c'')) sample_gateway
     = (Inr (sample_decision ''c''), g1) \<and> gw_store g1 = empty_db"
proof -
  have no: "\<not> is_opt_out_keyword (ev_body (sample_event ''c''))" "\<not> is_email_channel (ev_channel (sample_event ''c''))"
    and ok: "verify_webhook_token (Some ''s3cret'') ''s3cret''" by code_simp+
  obtain r lim where rd: "check_rate default_rate_limiter (ev_from_phone (sample_event ''c'')) 0 = (r, lim)" "rd_allowed r"
    by (simp add: check_rate_def default_rate_limiter_def create_inbound_rate_limiter_def)
  have a: "admitted ''toee_identity_lookup'' ''match_phone'' ingress_context params None" for params
    by (simp add: admitted_def gate_of_def allow_all_gate_def gate_allow_def is_tool_action_def TOOL_CATALOG_def)
  have m: "match_ingress_phone p (co_driver sample_co) at s = (Inr \<lparr>ir_snapshot = Some (unmatched_snapshot (JStr at)),
      ir_retryable_error = False, ir_error_class = None\<rparr>, s)" for p at s
    by (simp add: match_ingress_phone_def execute_tool_admitted [OF a] sample_co_def Let_def ingress_of_result_def
        to_snapshot_def exn_simps dict_simps or_else_def)
  have co: "co_webhook_secret sample_co = ''s3cret''" "co_is_duplicate sample_co = is_duplicate"
    "gw_store sample_gateway = empty_db" "gw_limiter sample_gateway = default_rate_limiter"
    by (simp_all add: sample_co_def sample_gateway_def)
  show ?thesis
    using no ok rd
    by (simp add: decide_inbound_def process_inbound_def m co is_duplicate_def empty_db_def Let_def
        sample_decision_def)
qed

lemma sample_accepted:
  "\<exists>g'. accept_inbound sample_co ''now'' 0 (Some ''s3cret'') None (Some (sample_event ''c'')) sample_gateway = (Inr 200, g')"
proof -
  obtain g1 where d: "decide_inbound sample_co ''now'' 0 (Some ''s3cret'') None (Some (sample_event ''c'')) sample_gateway
     = (Inr (sample_decision ''c''), g1)" "gw_store g1 = empty_db" using sample_decided by blast
  obtain c d' where "persist_accepted_inbound sample_env (sample_decision ''c'') empty_db = (Inr (c, True), d')"
    using sample_persisted by blast
  then have "gs_persist (co_store sample_co) (sample_decision ''c'') (gw_store g1) = (Inr (c, True), d')"
    by (simp add: sample_co_def pg_gateway_store_def d)
  moreover have "dec_action (sample_decision ''c'') = Enqueue" "dec_status (sample_decision ''c'') = 200"
    by (simp_all add: sample_decision_def)
  ultimately show ?thesis
    by (simp add: accept_inbound_def d dispatch_decision_def confirm_opt_out_other)
qed

text \<open>C5.  When the gateway accepts a message and returns, the answer is 200, the message
  is stored with its one turn job (none is added for an event already stored), and nothing becomes
  stored in any other way: an event that a webhook call made known was accepted and acknowledged.\<close>

theorem acknowledged_message_is_stored:
  assumes "co_store co = pg_gateway_store ex"
    and "accept_inbound co at ms token flds event g = (Inr st, g')" and "inbound_of flds event = Some ev"
  shows "(accepted_event co at ms token flds event g \<longrightarrow> st = 200 \<and> pg_known (gw_store g') (ev_event_id ev)
      \<and> pg_jobs_for (gw_store g') (ev_event_id ev) = (if pg_known (gw_store g) (ev_event_id ev)
          then pg_jobs_for (gw_store g) (ev_event_id ev) else Suc (pg_jobs_for (gw_store g) (ev_event_id ev))))
    \<and> (pg_known (gw_store g') x \<and> \<not> pg_known (gw_store g) x \<longrightarrow>
        st = 200 \<and> accepted_event co at ms token flds event g)"
  using pgs.acked_is_stored [OF assms(1) _ assms(2,3)]
    pgs.refused_is_not_stored [OF assms(1,2) claim_event_known] by blast

theorem acknowledged_message_is_stored_witness:
  "\<exists>g'. accept_inbound sample_co ''now'' 0 (Some ''s3cret'') None (Some (sample_event ''c'')) sample_gateway = (Inr 200, g')
     \<and> pg_known (gw_store g') ''evt_1'' \<and> pg_jobs_for (gw_store g') ''evt_1'' = 1"
proof -
  obtain g' where a: "accept_inbound sample_co ''now'' 0 (Some ''s3cret'') None (Some (sample_event ''c'')) sample_gateway
      = (Inr 200, g')" using sample_accepted by blast
  have co: "co_store sample_co = pg_gateway_store sample_env" by (simp add: sample_co_def)
  have acc: "accepted_event sample_co ''now'' 0 (Some ''s3cret'') None (Some (sample_event ''c'')) sample_gateway"
    using sample_decided by (auto simp: accepted_event_def sample_decision_def)
  from acknowledged_message_is_stored [OF co a, of "sample_event ''c''"] acc a show ?thesis
    by (simp add: sample_event_fields inbound_of_def sample_gateway_def pg_known_def pg_jobs_for_def empty_db_def)
qed


text \<open>An opt-out event that already owns a row of the send log is not texted its
  confirmation again, on a redelivery or a retry, whatever the claim table says; and the webhook does
  not fail on it.\<close>

theorem opt_out_not_confirmed_twice:
  assumes "co_log co = pg_send_log t0 t1" and "send_ok (gw_log g)" and "dec_event dec = Some ev"
    and "send_entry (gw_log g) (ev_event_id ev) \<noteq> None"
  shows "gw_world (snd (confirm_opt_out co dec g)) = gw_world g \<and> fst (confirm_opt_out co dec g) = Inr ()"
  by (rule pg.confirm_opt_out_owned [OF assms])

theorem opt_out_not_confirmed_twice_witness:
  "gw_world (snd (confirm_opt_out sample_co ((decide 200 Opt_out Opt_out_stage)\<lparr>dec_event := Some (sample_event ''c''),
      dec_reply := Some SMS_OPT_OUT_CONFIRMATION\<rparr>) (sample_gateway\<lparr>gw_log := burned_log\<rparr>))) = 0"
  using opt_out_not_confirmed_twice [of sample_co 1 2 "sample_gateway\<lparr>gw_log := burned_log\<rparr>"
      "(decide 200 Opt_out Opt_out_stage)\<lparr>dec_event := Some (sample_event ''c''), dec_reply := Some SMS_OPT_OUT_CONFIRMATION\<rparr>"
      "sample_event ''c''"]
  by (simp add: sample_co_def sample_gateway_def sample_event_fields burned_log_def send_ok_def send_entry_def)

text \<open>Two simulated emails whose id is JSON \<^verbatim>\<open>null\<close> are one event to the gateway: the
  second is answered as a duplicate of the first, though their senders and texts differ.\<close>

theorem null_email_ids_collide:
  assumes "map_of p1 ''id'' = Some JNull" and "map_of p2 ''id'' = Some JNull"
    and "verify_webhook_token token (co_webhook_secret co)"
    and "co_is_duplicate co (ev_event_id (parse_simulated_email_event p1)) (gw_store g)"
    and "loads raw = Inr (JObj p2)" and "raw \<noteq> []"
  shows "simulated_email_webhook co loads at ms token raw g = (Inr 200, g)"
proof -
  have "ev_event_id (parse_simulated_email_event p2) = ''None''" by (rule null_email_id [OF assms(2)])
  moreover have "ev_event_id (parse_simulated_email_event p1) = ''None''" by (rule null_email_id [OF assms(1)])
  moreover have "ev_channel (parse_simulated_email_event p2) = SIMULATED_EMAIL"
    by (simp add: parse_simulated_email_event_def to_inbound_email_event_def Let_def)
  ultimately show ?thesis
    using assms(3-6)
    by (simp add: simulated_email_webhook_def webhook_payload_def obj_or_empty_def accept_inbound_def
        decide_inbound_def process_inbound_def dispatch_decision_def confirm_opt_out_other)
qed

theorem null_email_ids_collide_witness:
  "\<exists>g. pg_known (gw_store g) ''None'' \<and>
     simulated_email_webhook sample_co (\<lambda>_. Inr (JObj [(''id'', JNull), (''body'', JStr ''second'')])) ''now'' 0
       (Some ''s3cret'') ''raw'' g = (Inr 200, g)"
proof -
  let ?g = "sample_gateway\<lparr>gw_store := empty_db\<lparr>db_contexts := [\<lparr>x_id = ''c'', x_event_id = ''None'',
    x_customer_thread_id = ''t'', x_sms_session_id = ''s'', x_inbound_message_turn_id = ''m'', x_created_at = 0\<rparr>]\<rparr>\<rparr>"
  have "ev_event_id (parse_simulated_email_event [(''id'', JNull), (''body'', JStr ''first'')]) = ''None''"
    by (rule null_email_id) simp
  moreover have "verify_webhook_token (Some ''s3cret'') ''s3cret''" by code_simp
  ultimately have "simulated_email_webhook sample_co (\<lambda>_. Inr (JObj [(''id'', JNull), (''body'', JStr ''second'')])) ''now'' 0
       (Some ''s3cret'') ''raw'' ?g = (Inr 200, ?g)"
    by (intro null_email_ids_collide [of "[(''id'', JNull), (''body'', JStr ''first'')]"
          "[(''id'', JNull), (''body'', JStr ''second'')]"])
      (simp_all add: sample_co_def is_duplicate_def)
  moreover have "pg_known (gw_store ?g) ''None''" by (simp add: pg_known_def)
  ultimately show ?thesis by blast
qed

end
