(* ===== verification/Attribution.thy ===== *)
theory Attribution
  imports PyObjects Dispatch
begin

text \<open>
  Which QuickBooks customer a verified Shopify customer is: \<^verbatim>\<open>drivers/gadget.py\<close>, the join the live
  invoice reads rest on, and \<^verbatim>\<open>drivers/qbo_ar.py\<close>, the receivables summary over the invoices the join
  lets through.  The owner's mapping endpoint is a parameter: one call with a Shopify id gives the
  forward rows and, per QuickBooks id, the rows that share it, or an error, or no answer in time.
\<close>

section \<open>Ids in canonical form\<close>

type_synonym mapping_response = "json list \<times> (string \<times> json) list"

definition TRUSTED_STATUSES :: "string list" where
  "TRUSTED_STATUSES = [''CONFIRMED'', ''AUTO_MATCHED'']"

text \<open>\<^verbatim>\<open>_clean\<close>: a \<^verbatim>\<open>bool\<close> is an \<^verbatim>\<open>int\<close> to \<^verbatim>\<open>isinstance\<close>.\<close>

definition clean :: "json \<Rightarrow> string option" where
  "clean v =
     (let strip = (\<lambda>s. let t = py_strip s in if t = [] then None else Some t) in
      case v of
        JStr s \<Rightarrow> strip s
      | JInt n \<Rightarrow> strip (show_int n)
      | JBool b \<Rightarrow> strip (py_repr (JBool b))
      | _ \<Rightarrow> None)"

definition canonical_qbo_id :: "json \<Rightarrow> string option" where
  "canonical_qbo_id v =
     (case v of
        JBool _ \<Rightarrow> None
      | JInt n \<Rightarrow> Some (show_int n)
      | _ \<Rightarrow> (case clean v of
          None \<Rightarrow> None
        | Some t \<Rightarrow> Some (case py_int t of Some n \<Rightarrow> show_int n | None \<Rightarrow> t)))"

definition normalize_gid :: "json \<Rightarrow> string option" where
  "normalize_gid v =
     (case clean v of
        None \<Rightarrow> None
      | Some t \<Rightarrow> Some (if starts_with t ''gid://'' then t else ''gid://shopify/Customer/'' @ t))"

definition is_trusted :: "dict \<Rightarrow> bool" where
  "is_trusted record' \<longleftrightarrow>
     py_strip (py_str (or_else (get record' ''status'') (JStr []))) \<in> set TRUSTED_STATUSES"

section \<open>Resolution\<close>

definition no_trusted_mapping :: exn where
  "no_trusted_mapping = ToolDriverError Configuration_missing
     ''No trusted qboCustomerMapping resolves a qboCustomerId.''"

definition ambiguous_mapping :: exn where
  "ambiguous_mapping = ToolDriverError Configuration_missing
     (''Ambiguous qboCustomerMapping: this Shopify customer has trusted mappings ''
      @ ''to more than one QBO customer id; failing closed (owner decision '' @ ''2026-07-23).'')"

text \<open>The set comprehension without \<open>None\<close>, as a list without repetitions.\<close>

definition distinct_ids :: "('r \<Rightarrow> string option) \<Rightarrow> 'r list \<Rightarrow> string list" where
  "distinct_ids f rows = remdups (List.map_filter f rows)"

definition resolve_forward_qbo_id :: "dict list \<Rightarrow> exn + string" where
  "resolve_forward_qbo_id records =
     (case distinct_ids (\<lambda>r. canonical_qbo_id (get r ''qboCustomerId'')) records of
        [] \<Rightarrow> Inl no_trusted_mapping
      | [x] \<Rightarrow> Inr x
      | _ \<Rightarrow> Inl ambiguous_mapping)"

definition collision :: exn where
  "collision = ToolDriverError Configuration_missing
     (''qboCustomerId maps to more than one trusted Shopify customer; ''
      @ ''refusing to disclose to avoid cross-customer disclosure.'')"

definition assert_sole_trusted_owner :: "dict list \<Rightarrow> string \<Rightarrow> exn + unit" where
  "assert_sole_trusted_owner reverse_rows verified_gid =
     (let trusted_gids = distinct_ids (\<lambda>r. normalize_gid (get r ''shopifyGid''))
            (filter is_trusted reverse_rows) in
      guard (case normalize_gid (JStr verified_gid) of
               None \<Rightarrow> False | Some g \<Rightarrow> trusted_gids = [g]) collision)"

definition resolve_mapping :: "json list \<Rightarrow> (string \<times> json) list \<Rightarrow> string \<Rightarrow> exn + string" where
  "resolve_mapping forward by_qbo verified_gid =
     ebind (map_exn need_obj forward) (\<lambda>rows.
     ebind (resolve_forward_qbo_id (filter is_trusted rows)) (\<lambda>qbo_id.
     ebind (py_iter (get_or by_qbo qbo_id (JList []))) (\<lambda>back.
     ebind (map_exn need_obj back) (\<lambda>reverse_rows.
     ebind (assert_sole_trusted_owner reverse_rows verified_gid) (\<lambda>_.
     Inr qbo_id)))))"

section \<open>The primitive\<close>

text \<open>
  \<^verbatim>\<open>QboAttribution\<close>: the client (absent when no key is set) and the error of a missing configuration.
  A client call that outlives the budget, whose text in milliseconds is \<open>qa_deadline\<close>, gives \<open>None\<close>.
\<close>

record 's attribution =
  qa_client :: "(string \<Rightarrow> 's \<Rightarrow> (exn + mapping_response) option \<times> 's) option"
  qa_config_error :: "exn option"
  qa_deadline :: string

definition fetch_mapping :: "'s attribution \<Rightarrow> string \<Rightarrow> 's \<Rightarrow> (exn + mapping_response) \<times> 's" where
  "fetch_mapping att verified_gid s =
     (case (qa_config_error att, qa_client att) of
        (Some e, _) \<Rightarrow> (Inl e, s)
      | (None, None) \<Rightarrow>
          (Inl (ToolDriverError Configuration_missing ''Gadget attribution is not configured.''), s)
      | (None, Some client) \<Rightarrow>
          under_deadline (''Gadget attribution exceeded the '' @ qa_deadline att @ ''ms deadline.'')
            (\<lambda>m. ''Gadget attribution call failed: '' @ m) (client verified_gid s))"

definition qbo_customer_id_for :: "'s attribution \<Rightarrow> string \<Rightarrow> 's \<Rightarrow> (exn + string) \<times> 's" where
  "qbo_customer_id_for att verified_gid s =
     (case fetch_mapping att verified_gid s of
        (Inl e, s') \<Rightarrow> (Inl e, s')
      | (Inr (forward, by_qbo), s') \<Rightarrow> (resolve_mapping forward by_qbo verified_gid, s'))"

definition invoice_owned_by ::
  "'s attribution \<Rightarrow> string \<Rightarrow> string \<Rightarrow> 's \<Rightarrow> (exn + bool) \<times> 's" where
  "invoice_owned_by att qbo_customer_id verified_gid s =
     (case qbo_customer_id_for att verified_gid s of
        (Inl e, s') \<Rightarrow> (Inl e, s')
      | (Inr resolved, s') \<Rightarrow> (Inr (Some resolved = canonical_qbo_id (JStr qbo_customer_id)), s'))"

definition attribution_health :: "'s attribution \<Rightarrow> 's \<Rightarrow> (exn + unit) \<times> 's" where
  "attribution_health att s =
     (case fetch_mapping att ''gid://shopify/Customer/__healthcheck__'' s of
        (Inl e, s') \<Rightarrow> (Inl e, s') | (Inr _, s') \<Rightarrow> (Inr (), s'))"

section \<open>The live client\<close>

definition mappings_and_reverse :: "json \<Rightarrow> exn + mapping_response" where
  "mappings_and_reverse parsed =
     (case parsed of
        JObj d \<Rightarrow>
          (if truthy (get d ''error'')
           then Inl (ToolDriverError Configuration_missing ''Gadget returned an unexpected shape.'')
           else case (get d ''mappings'', get d ''reverse'') of
             (JList mappings, JObj by_qbo) \<Rightarrow> Inr (mappings, by_qbo)
           | _ \<Rightarrow> Inl (ToolDriverError Configuration_missing
                     ''Gadget response shape not recognized as a mapping result.''))
      | _ \<Rightarrow> Inl (ToolDriverError Configuration_missing ''Gadget returned an unexpected shape.''))"

definition API_KEY_ENV :: string where "API_KEY_ENV = ''GADGET_API_KEY''"
definition API_URL_ENV :: string where "API_URL_ENV = ''GADGET_API_URL''"
definition DEFAULT_API_URL :: string where "DEFAULT_API_URL = ''https://paymentstatussync.gadget.app''"
definition ENDPOINT_PATH :: string where "ENDPOINT_PATH = ''/internal/hermes/qbo-customer-mapping''"

text \<open>\<^verbatim>\<open>_HttpGadgetClient\<close>; \<open>loads\<close> is \<^verbatim>\<open>json.loads\<close>, \<open>None\<close> when it raises.\<close>

definition gadget_request :: "string \<Rightarrow> string \<Rightarrow> string \<Rightarrow> http_request" where
  "gadget_request base_url api_key shopify_gid =
     \<lparr>hr_method = ''POST'', hr_url = rstrip_by (\<lambda>c. c = CHR ''/'') base_url @ ENDPOINT_PATH,
      hr_body = Some (JObj [(''shopifyGid'', JStr shopify_gid)]),
      hr_headers = [(''Authorization'', ''Bearer '' @ api_key), (''Content-Type'', ''application/json''),
        (''Accept'', ''application/json''), (''User-Agent'', ''toee-hermes/0.0.4 (+gadget-attribution)'')]\<rparr>"

definition http_fetch_mapping ::
  "http \<Rightarrow> (string \<Rightarrow> json option) \<Rightarrow> string \<Rightarrow> string \<Rightarrow> string \<Rightarrow> exn + mapping_response" where
  "http_fetch_mapping http loads base_url api_key shopify_gid =
     (let req = gadget_request base_url api_key shopify_gid in
      case http req of
        Http_error code' \<Rightarrow> Inl (ToolDriverError
          (if code' \<in> {401, 403} then Auth_expired else Configuration_missing)
          (''Gadget HTTP '' @ show_nat code' @ '' for '' @ hr_url req @ ''.''))
      | Url_error reason \<Rightarrow> Inl (ToolDriverError Vendor_timeout
          (''Gadget request failed: '' @ reason @ ''.''))
      | Http_body body \<Rightarrow> (case loads body of
          None \<Rightarrow> Inl (ToolDriverError Configuration_missing ''Gadget returned an unparseable body.'')
        | Some parsed \<Rightarrow> mappings_and_reverse parsed))"

definition gadget_configured :: "environ \<Rightarrow> bool" where
  "gadget_configured env \<longleftrightarrow> \<not> falsy (env API_KEY_ENV)"

text \<open>
  \<^verbatim>\<open>build_qbo_attribution\<close>: total, a missing key makes an attributor that refuses each call.  \<open>timed\<close> runs
  a client call against the world and says whether it was over in time.
\<close>

definition env_or :: "environ \<Rightarrow> string \<Rightarrow> string \<Rightarrow> string" where
  "env_or env k dflt = (if falsy (env k) then dflt else the (env k))"

definition build_qbo_attribution ::
  "environ \<Rightarrow> http \<Rightarrow> (string \<Rightarrow> json option) \<Rightarrow> string
     \<Rightarrow> ((exn + mapping_response) \<Rightarrow> 's \<Rightarrow> (exn + mapping_response) option \<times> 's) \<Rightarrow> 's attribution" where
  "build_qbo_attribution env http loads deadline timed =
     (if falsy (env API_KEY_ENV)
      then \<lparr>qa_client = None,
            qa_config_error = Some (ToolDriverError Configuration_missing
              (''Gadget attribution is not configured; set '' @ API_KEY_ENV @ '' ''
               @ ''(and optionally '' @ API_URL_ENV @ '') in the deployment env.'')),
            qa_deadline = deadline\<rparr>
      else \<lparr>qa_client = Some (\<lambda>gid. timed (http_fetch_mapping http loads
              (py_strip (env_or env API_URL_ENV DEFAULT_API_URL)) (the (env API_KEY_ENV)) gid)),
            qa_config_error = None, qa_deadline = deadline\<rparr>)"

section \<open>Receivables\<close>

text \<open>
  Python's floats as \<^verbatim>\<open>qbo_ar.py\<close> uses them: \<^verbatim>\<open>float(n)\<close>, \<^verbatim>\<open>float(text)\<close> (\<open>None\<close> when it raises), \<^verbatim>\<open>x > 0\<close>
  and \<^verbatim>\<open>x + y\<close>.
\<close>

record 'f floats =
  fl_int :: "int \<Rightarrow> 'f"
  fl_parse :: "string \<Rightarrow> 'f option"
  fl_pos :: "'f \<Rightarrow> bool"
  fl_add :: "'f \<Rightarrow> 'f \<Rightarrow> 'f"
  fl_json :: "'f \<Rightarrow> json"

definition balance_of :: "'f floats \<Rightarrow> dict \<Rightarrow> exn + 'f" where
  "balance_of fl invoice =
     (case get invoice ''balance'' of
        JNull \<Rightarrow> Inr (fl_int fl 0)
      | JInt n \<Rightarrow> Inr (fl_int fl n)
      | v \<Rightarrow> (case fl_parse fl (py_strip (py_str v)) of
          Some x \<Rightarrow> Inr x
        | None \<Rightarrow> Inl (ToolDriverError Unexpected_error
            (''Invoice balance is not a number: '' @ py_repr v @ ''.''))))"

definition ar_summary :: "'f floats \<Rightarrow> json \<Rightarrow> dict list \<Rightarrow> exn + json" where
  "ar_summary fl shopify_customer_id owned_invoices =
     ebind (map_exn (balance_of fl) owned_invoices) (\<lambda>balances.
     let open' = filter (fl_pos fl) balances in
     Inr (JObj [(''shopify_customer_id'', shopify_customer_id),
       (''open_invoice_count'', JInt (int (length open'))),
       (''total_balance'', case open' of [] \<Rightarrow> JInt 0 | x # xs \<Rightarrow> fl_json fl (foldl (fl_add fl) x xs))]))"

section \<open>Lemmas\<close>

lemma set_distinct_ids: "set (distinct_ids f rows) = {x. \<exists>r \<in> set rows. f r = Some x}"
  by (force simp: distinct_ids_def List.map_filter_def)

lemma distinct_ids_single:
  assumes "distinct_ids f (filter P rows) = [x]"
  shows "(\<exists>r \<in> set rows. P r \<and> f r = Some x) \<and> (\<forall>r \<in> set rows. P r \<longrightarrow> f r \<in> {None, Some x})"
proof -
  from assms have s: "{y. \<exists>r \<in> set (filter P rows). f r = Some y} = {x}"
    by (metis set_distinct_ids list.set(1,2))
  then obtain r where "r \<in> set rows" "P r" "f r = Some x" by auto
  moreover have "f r' \<in> {None, Some x}" if "r' \<in> set rows" "P r'" for r'
    using s that by (cases "f r'") auto
  ultimately show ?thesis by blast
qed

lemma resolve_forward_Inr:
  "resolve_forward_qbo_id records = Inr q \<longleftrightarrow>
     distinct_ids (\<lambda>r. canonical_qbo_id (get r ''qboCustomerId'')) records = [q]"
  by (auto simp: resolve_forward_qbo_id_def split: list.splits)

lemma sole_owner_Inr:
  "assert_sole_trusted_owner rows g = Inr u \<longleftrightarrow>
     (\<exists>n. normalize_gid (JStr g) = Some n
        \<and> distinct_ids (\<lambda>r. normalize_gid (get r ''shopifyGid'')) (filter is_trusted rows) = [n])"
  by (auto simp: assert_sole_trusted_owner_def Let_def guard_def split: option.splits)

lemma map_exn_need_obj: "map_exn need_obj xs = Inr ds \<longleftrightarrow> xs = map JObj ds"
proof (induction xs arbitrary: ds)
  case Nil
  then show ?case by auto
next
  case (Cons x xs)
  then show ?case by (cases ds) (auto simp: exn_simps)
qed

text \<open>
  What the mapping endpoint must have answered for \<open>q\<close> to be the QuickBooks id of the customer \<open>g\<close>: a
  confirmed or automatically matched row says so, no such row says another id, and no such row gives \<open>q\<close> to
  another customer.
\<close>

definition trusted_row :: "dict \<Rightarrow> bool" where
  "trusted_row r \<longleftrightarrow> py_strip (py_str (get r ''status'')) \<in> {''CONFIRMED'', ''AUTO_MATCHED''}"

definition maps_to :: "mapping_response \<Rightarrow> string \<Rightarrow> string \<Rightarrow> bool" where
  "maps_to response g q \<longleftrightarrow>
     (\<exists>rows back n. fst response = map JObj rows
        \<and> py_iter (get_or (snd response) q (JList [])) = Inr (map JObj back)
        \<and> (\<exists>r \<in> set rows. trusted_row r \<and> canonical_qbo_id (get r ''qboCustomerId'') = Some q)
        \<and> (\<forall>r \<in> set rows. trusted_row r \<longrightarrow> canonical_qbo_id (get r ''qboCustomerId'') \<in> {None, Some q})
        \<and> normalize_gid (JStr g) = Some n
        \<and> (\<exists>r \<in> set back. trusted_row r \<and> normalize_gid (get r ''shopifyGid'') = Some n)
        \<and> (\<forall>r \<in> set back. trusted_row r \<longrightarrow> normalize_gid (get r ''shopifyGid'') \<in> {None, Some n}))"

lemma is_trusted_iff: "is_trusted r \<longleftrightarrow> trusted_row r"
proof (cases "truthy (get r ''status'')")
  case True
  then show ?thesis by (simp add: is_trusted_def trusted_row_def or_else_def TRUSTED_STATUSES_def)
next
  case False
  then have "get r ''status'' \<in> {JNull, JBool False, JInt 0, JStr [], JList [], JObj []}"
    by (cases "get r ''status''") auto
  moreover have "py_strip (py_str v) \<notin> {''CONFIRMED'', ''AUTO_MATCHED''}"
    if "v \<in> {JNull, JBool False, JInt 0, JStr [], JList [], JObj []}" for v
    using that by (elim insertE emptyE) (hypsubst, code_simp)+
  ultimately have "\<not> trusted_row r" unfolding trusted_row_def by blast
  moreover have "py_strip (py_str (JStr [])) \<notin> set TRUSTED_STATUSES" by code_simp
  then have "\<not> is_trusted r" unfolding is_trusted_def or_else_def if_not_P [OF False] .
  ultimately show ?thesis by blast
qed

lemma distinct_ids_single_iff:
  "distinct_ids f (filter is_trusted rows) = [x] \<longleftrightarrow>
     (\<exists>r \<in> set rows. trusted_row r \<and> f r = Some x) \<and> (\<forall>r \<in> set rows. trusted_row r \<longrightarrow> f r \<in> {None, Some x})"
  (is "?l \<longleftrightarrow> ?r")
proof
  show "?l \<Longrightarrow> ?r" unfolding is_trusted_iff [abs_def] by (rule distinct_ids_single)
next
  assume r: ?r
  then have "set (distinct_ids f (filter is_trusted rows)) = {x}"
    unfolding set_distinct_ids by (auto simp: is_trusted_iff)
  moreover have "distinct (distinct_ids f (filter is_trusted rows))" by (simp add: distinct_ids_def)
  ultimately show ?l by (cases "distinct_ids f (filter is_trusted rows)") (auto simp: subset_singleton_iff)
qed

lemma map_exn_objs: "map_exn need_obj (map JObj ds) = Inr ds"
  by (simp add: map_exn_need_obj)

lemma resolve_mapping_iff: "resolve_mapping forward by_qbo g = Inr q \<longleftrightarrow> maps_to (forward, by_qbo) g q"
proof -
  have "resolve_mapping forward by_qbo g = Inr q \<longleftrightarrow>
      (\<exists>rows back. forward = map JObj rows \<and> resolve_forward_qbo_id (filter is_trusted rows) = Inr q
         \<and> py_iter (get_or by_qbo q (JList [])) = Inr (map JObj back) \<and> assert_sole_trusted_owner back g = Inr ())"
    (is "?l \<longleftrightarrow> ?r")
  proof
    show "?l \<Longrightarrow> ?r" by (auto simp: resolve_mapping_def exn_simps map_exn_need_obj)
    show "?r \<Longrightarrow> ?l" by (auto simp: resolve_mapping_def exn_simps map_exn_objs)
  qed
  then show ?thesis unfolding resolve_forward_Inr sole_owner_Inr distinct_ids_single_iff maps_to_def fst_conv snd_conv by blast
qed

lemma qbo_customer_id_for_iff:
  "qbo_customer_id_for att g s = (Inr q, s') \<longleftrightarrow> qa_config_error att = None
     \<and> (\<exists>client response. qa_client att = Some client \<and> client g s = (Some (Inr response), s') \<and> maps_to response g q)"
  by (cases "qa_config_error att"; cases "qa_client att")
    (auto simp: qbo_customer_id_for_def fetch_mapping_def under_deadline_def governed_def exn_simps
        resolve_mapping_iff split: prod.splits sum.splits option.splits exn.splits)

section \<open>Decimal texts\<close>

definition digits_value :: "nat \<Rightarrow> string \<Rightarrow> nat" where
  "digits_value acc ds = foldl (\<lambda>a c. a * 10 + (code c - 48)) acc ds"

lemma int_digits_plain:
  "list_all py_isdigit ds \<Longrightarrow> prev \<or> ds \<noteq> [] \<Longrightarrow> int_digits acc prev ds = Some (digits_value acc ds)"
  by (induction ds arbitrary: acc prev) (auto simp: digits_value_def)

lemma show_nat_isdigit: "list_all py_isdigit (show_nat n)"
  by (auto simp: list_all_iff py_isdigit_def dest: show_nat_digits)

lemma digits_value_show_nat: "digits_value 0 (show_nat n) = n"
proof (induction n rule: show_nat.induct)
  case (1 n)
  have c: "code (char_of (48 + n mod 10)) = 48 + n mod 10" by (simp add: code_def)
  show ?case
  proof (cases "n < 10")
    case True
    then show ?thesis using c by (subst show_nat.simps) (simp add: digits_value_def)
  next
    case False
    with 1 have "digits_value 0 (show_nat (n div 10)) = n div 10" by blast
    with False c show ?thesis by (subst show_nat.simps) (simp add: digits_value_def)
  qed
qed

lemma digits_value_zeros: "digits_value 0 (replicate k CHR ''0'' @ ds) = digits_value 0 ds"
  by (induction k) (auto simp: digits_value_def code_def)

lemma py_int_digits:
  assumes "list_all py_isdigit ds" and "ds \<noteq> []"
  shows "py_int ds = (if length ds > 4300 then None else Some (int (digits_value 0 ds)))"
    and "py_int (CHR ''-'' # ds) = (if length ds > 4300 then None else Some (- int (digits_value 0 ds)))"
proof -
  from assms obtain c cs where c: "ds = c # cs" by (cases ds) auto
  with assms(1) have "c \<noteq> CHR ''-''" "c \<noteq> CHR ''+''" by (auto simp: py_isdigit_def code_def)
  moreover have "int_digits 0 False ds = Some (digits_value 0 ds)"
    using assms by (intro int_digits_plain) simp_all
  moreover have "filter py_isdigit ds = ds" using assms(1) by (simp add: list_all_iff)
  ultimately show "py_int ds = (if length ds > 4300 then None else Some (int (digits_value 0 ds)))"
    and "py_int (CHR ''-'' # ds) = (if length ds > 4300 then None else Some (- int (digits_value 0 ds)))"
    unfolding c by (simp_all add: py_int_def del: int_digits.simps filter.simps)
qed

lemma py_int_padded:
  "k + length (show_nat n) \<le> 4300 \<Longrightarrow> py_int (replicate k CHR ''0'' @ show_nat n) = Some (int n)"
proof -
  assume k: "k + length (show_nat n) \<le> 4300"
  have "py_isdigit CHR ''0''" by (simp add: py_isdigit_def code_def)
  then have "list_all py_isdigit (replicate k CHR ''0'' @ show_nat n)"
    using show_nat_isdigit [of n] by (auto simp: list_all_iff)
  from py_int_digits(1) [OF this] k show ?thesis by (simp add: digits_value_zeros digits_value_show_nat)
qed

lemma py_int_show_int: "py_int (show_int n) \<in> {None, Some n}"
  using py_int_digits [OF show_nat_isdigit] by (auto simp: show_int_def digits_value_show_nat)

lemma py_strip_plain: "(\<And>c. c \<in> set s \<Longrightarrow> \<not> py_isspace c) \<Longrightarrow> py_strip s = s"
proof -
  have d: "dropWhile py_isspace xs = xs" if "\<And>c. c \<in> set xs \<Longrightarrow> \<not> py_isspace c" for xs
    using that by (cases xs) auto
  assume "\<And>c. c \<in> set s \<Longrightarrow> \<not> py_isspace c"
  then show ?thesis using d [of s] d [of "rev s"] by (simp add: py_strip_def lstrip_by_def rstrip_by_def)
qed

lemma digit_no_space:
  assumes "py_isdigit c"
  shows "\<not> py_isspace c"
proof -
  from assms have "48 \<le> code c \<and> code c \<le> 57" by (simp only: py_isdigit_def Let_def)
  then show ?thesis by (auto simp only: py_isspace_def Let_def)
qed

lemma strip_show_int: "py_strip (show_int n) = show_int n"
proof (rule py_strip_plain)
  fix c
  assume "c \<in> set (show_int n)"
  then have "c = CHR ''-'' \<or> py_isdigit c"
    using show_nat_isdigit by (auto simp: show_int_def list_all_iff split: if_splits)
  moreover have "\<not> py_isspace CHR ''-''" by (simp add: py_isspace_def code_def)
  ultimately show "\<not> py_isspace c" using digit_no_space by blast
qed

lemma show_int_nonempty: "show_int n \<noteq> []"
  by (simp add: show_int_def)

lemma clean_text: "clean (JStr s) = (if py_strip s = [] then None else Some (py_strip s))"
  by (simp add: clean_def)

lemma clean_stripped: "clean v = Some t \<Longrightarrow> py_strip t = t \<and> t \<noteq> []"
  by (auto simp: clean_def Let_def py_strip_idem split: json.splits if_splits)

lemma canonical_of_show_int: "canonical_qbo_id (JStr (show_int n)) = Some (show_int n)"
  using py_int_show_int [of n]
  by (auto simp: canonical_qbo_id_def clean_text strip_show_int show_int_nonempty split: option.splits)

text \<open>A canonical id is its own canonical form.\<close>

lemma canonical_idem: "canonical_qbo_id v = Some q \<Longrightarrow> canonical_qbo_id (JStr q) = Some q"
proof -
  assume q: "canonical_qbo_id v = Some q"
  have "(\<exists>n. q = show_int n) \<or> (clean v = Some q \<and> py_int q = None)"
  proof (cases "\<exists>n. v = JInt n")
    case True
    with q show ?thesis by (auto simp: canonical_qbo_id_def)
  next
    case False
    moreover have "v \<noteq> JBool b" for b using q by (auto simp: canonical_qbo_id_def)
    ultimately have "canonical_qbo_id v = (case clean v of None \<Rightarrow> None
        | Some t \<Rightarrow> Some (case py_int t of Some n \<Rightarrow> show_int n | None \<Rightarrow> t))"
      by (cases v) (auto simp: canonical_qbo_id_def)
    with q show ?thesis by (auto split: option.splits)
  qed
  then consider n where "q = show_int n" | "clean v = Some q" "py_int q = None"
    by (elim disjE exE conjE)
  then show ?thesis
  proof cases
    case 1
    then show ?thesis by (simp add: canonical_of_show_int)
  next
    case 2
    with clean_stripped [OF 2(1)] show ?thesis by (simp add: canonical_qbo_id_def clean_text)
  qed
qed

lemma invoice_owned_by_sound:
  assumes "invoice_owned_by att q g s = (Inr True, s')" and "canonical_qbo_id v = Some q"
  shows "qbo_customer_id_for att g s = (Inr q, s')"
  using assms(1) canonical_idem [OF assms(2)]
  by (auto simp: invoice_owned_by_def split: prod.splits sum.splits)

end
