(* ===== verification/VendorShapes.thy ===== *)
theory VendorShapes
  imports Attribution
begin

text \<open>
  The mappers of \<^verbatim>\<open>drivers/composio/driver.py\<close>: what a v1 action asks of the vendor and how a raw
  Shopify or QuickBooks payload, of whose shape nothing is assumed, becomes the public contract
  shape.  A payload that breaks an attribute access or an iteration of the source is an error here.
\<close>

section \<open>Customers\<close>

definition GID_CUSTOMER :: string where
  "GID_CUSTOMER = ''gid://shopify/Customer/''"

definition shopify_numeric_customer_id :: "string option \<Rightarrow> string option" where
  "shopify_numeric_customer_id cid =
     (if falsy cid then None
      else Some (if starts_with (the cid) GID_CUSTOMER then drop (length GID_CUSTOMER) (the cid) else the cid))"

definition to_customer_gid :: "string option \<Rightarrow> string option" where
  "to_customer_gid cid =
     (if falsy cid then None
      else Some (if starts_with (the cid) ''gid://'' then the cid else GID_CUSTOMER @ the cid))"

text \<open>\<^verbatim>\<open>x if isinstance(x, str) and x.startswith("gid://") else f"gid://shopify/Customer/{x}"\<close>\<close>

definition gid_of_value :: "json \<Rightarrow> string" where
  "gid_of_value v =
     (case v of
        JStr s \<Rightarrow> (if starts_with s ''gid://'' then s else GID_CUSTOMER @ s)
      | _ \<Rightarrow> GID_CUSTOMER @ py_str v)"

definition order_customer_gid :: "dict \<Rightarrow> string option" where
  "order_customer_gid order =
     (if get order ''customer_id'' \<noteq> JNull then Some (gid_of_value (get order ''customer_id''))
      else case get order ''customer'' of
        JObj customer \<Rightarrow>
          (if get customer ''id'' \<noteq> JNull then Some (gid_of_value (get customer ''id'')) else None)
      | _ \<Rightarrow> None)"

definition is_verified :: "ctx \<Rightarrow> bool" where
  "is_verified context \<longleftrightarrow> verified_customer_id (identity context) \<noteq> None"

section \<open>Orders\<close>

fun first_text :: "json list \<Rightarrow> string option" where
  "first_text [] = None"
| "first_text (x # xs) = opt_or (text_or_none x) (first_text xs)"

definition first_str :: "json \<Rightarrow> string option" where
  "first_str v = (case v of JList xs \<Rightarrow> first_text xs | _ \<Rightarrow> text_or_none v)"

definition shape_tracking :: "dict \<Rightarrow> json" where
  "shape_tracking f =
     (let number = opt_or (first_str (get f ''tracking_number'')) (first_str (get f ''tracking_numbers''));
          url = opt_or (first_str (get f ''tracking_url'')) (first_str (get f ''tracking_urls''));
          company = text_or_none (get f ''tracking_company'') in
      if number = None \<and> url = None \<and> company = None then JNull
      else JObj [(''number'', opt_str number), (''url'', opt_str url), (''company'', opt_str company)])"

definition shape_fulfillment :: "dict \<Rightarrow> json" where
  "shape_fulfillment order =
     (let fulfillments = (case get order ''fulfillments'' of JList xs \<Rightarrow> xs | _ \<Rightarrow> []);
          status = text_or_none (get order ''fulfillment_status'') in
      if fulfillments = [] \<and> status = None
      then JObj [(''state'', JStr ''unfulfilled''), (''shipment_status'', JNull), (''tracking'', JNull)]
      else
        let latest = (if fulfillments \<noteq> [] then (case last fulfillments of JObj d \<Rightarrow> d | _ \<Rightarrow> []) else []);
            shipment = text_or_none (get latest ''shipment_status'') in
        JObj [(''state'', opt_str (opt_or shipment (opt_or status (Some ''fulfilled'')))),
          (''shipment_status'', opt_str shipment), (''tracking'', shape_tracking latest)])"

definition shape_line_item :: "json \<Rightarrow> exn + json" where
  "shape_line_item item = ebind (need_obj item) (\<lambda>i.
     Inr (JObj [(''sku'', get i ''sku''), (''title'', get i ''title'')]))"

definition shape_order :: "json \<Rightarrow> exn + dict" where
  "shape_order order =
     ebind (need_obj order) (\<lambda>d.
     ebind (py_iter (or_else (get d ''line_items'') (JList []))) (\<lambda>items.
     ebind (map_exn shape_line_item items) (\<lambda>line_items.
     Inr [(''order_number'', str_or_none (or_else (get d ''order_number'') (get d ''name''))),
          (''customer_id'', opt_str (order_customer_gid d)),
          (''line_items'', JList line_items),
          (''fulfillment'', shape_fulfillment d)])))"

definition unwrap_composio_payload :: "dict \<Rightarrow> dict" where
  "unwrap_composio_payload raw = (case get raw ''response_data'' of JObj inner \<Rightarrow> inner | _ \<Rightarrow> raw)"

type_synonym request_mapper = "dict \<Rightarrow> ctx \<Rightarrow> dict"
type_synonym response_mapper = "dict \<Rightarrow> ctx \<Rightarrow> exn + json"

definition shopify_get_order_request :: request_mapper where
  "shopify_get_order_request params context =
     [(''order_id'', opt_str (read_string params [''order_id'', ''orderId'', ''order_number'', ''orderNumber'']))]"

definition order_needs_verified :: exn where
  "order_needs_verified = ToolDriverError Policy_blocked ''get_order requires a verified customer.''"

definition order_not_owned :: exn where
  "order_not_owned = ToolDriverError Policy_blocked ''No order owned by the verified customer.''"

definition shopify_get_order_response :: response_mapper where
  "shopify_get_order_response raw context =
     ebind (shape_order (get_or (unwrap_composio_payload raw) ''order'' (get_or raw ''order'' (JObj raw))))
       (\<lambda>shaped.
     case to_customer_gid (verified_customer_id (identity context)) of
       None \<Rightarrow> Inl order_needs_verified
     | Some verified \<Rightarrow>
         (if get shaped ''customer_id'' \<noteq> JStr verified then Inl order_not_owned
          else Inr (JObj shaped)))"

definition shopify_list_orders_request :: request_mapper where
  "shopify_list_orders_request params context =
     [(''customer_id'', opt_str (shopify_numeric_customer_id (verified_customer_id (identity context)))),
      (''status'', JStr ''any'')]"

definition shopify_list_orders_response :: response_mapper where
  "shopify_list_orders_response raw context =
     ebind (py_iter (or_else (get (unwrap_composio_payload raw) ''orders'')
              (or_else (get raw ''orders'') (JList [])))) (\<lambda>orders.
     ebind (map_exn shape_order orders) (\<lambda>shaped. Inr (JList (map JObj shaped))))"

section \<open>Products\<close>

fun variant_list :: "json list \<Rightarrow> json list" where
  "variant_list [] = []"
| "variant_list (v # vs) =
     (case v of
        JObj d \<Rightarrow>
          (let vsku = get d ''sku'';
               opt = or_else (get d ''option'') (or_else (get d ''title'') (get d ''option1'')) in
           if truthy vsku \<or> truthy opt
           then JObj [(''sku'', vsku), (''option'', opt)] # variant_list vs
           else variant_list vs)
      | _ \<Rightarrow> variant_list vs)"

definition public_variants :: "dict \<Rightarrow> json \<Rightarrow> json \<Rightarrow> json" where
  "public_variants product sku title =
     (let out = (case get product ''variants'' of JList raw \<Rightarrow> variant_list raw | _ \<Rightarrow> []) in
      if out \<noteq> [] then JList out
      else if truthy sku then JList [JObj [(''sku'', sku), (''option'', title)]]
      else JList [])"

text \<open>\<^verbatim>\<open>variants[0].get(key) if variants else default\<close>, where \<^verbatim>\<open>variants = product.get("variants") or []\<close>.\<close>

definition first_variant :: "dict \<Rightarrow> string \<Rightarrow> json \<Rightarrow> exn + json" where
  "first_variant product key dflt =
     (let variants = or_else (get product ''variants'') (JList []) in
      if truthy variants then ebind (py_first variants) (\<lambda>v. obj_get v key) else Inr dflt)"

definition shape_public_product :: "json \<Rightarrow> exn + dict" where
  "shape_public_product product =
     ebind (need_obj product) (\<lambda>p.
     if is_str (get p ''product_id'') \<and> truthy (get p ''product_url'')
     then Inr [(''product_id'', get p ''product_id''), (''sku'', get p ''sku''), (''title'', get p ''title''),
            (''product_url'', get p ''product_url''), (''media_url'', get p ''media_url''),
            (''variants'', public_variants p (get p ''sku'') (get p ''title''))]
     else
       ebind (first_variant p ''sku'' (get p ''sku'')) (\<lambda>sku.
       let handle = get p ''handle'';
           image = or_else (get p ''image'') (JObj []);
           media_url = (case image of JObj i \<Rightarrow> get i ''src'' | _ \<Rightarrow> get p ''media_url'');
           url0 = get p ''product_url'';
           product_url = (if \<not> truthy url0 \<and> truthy handle
             then JStr (''https://toee-tire.myshopify.com/products/'' @ py_str handle) else url0) in
       Inr [(''product_id'', str_or_none (or_else (get p ''product_id'') (get p ''id''))), (''sku'', sku),
            (''title'', get p ''title''), (''product_url'', product_url), (''media_url'', media_url),
            (''variants'', public_variants p sku (get p ''title''))]))"

definition shopify_search_request :: request_mapper where
  "shopify_search_request params context = []"

definition shopify_search_response :: response_mapper where
  "shopify_search_response raw context =
     ebind (py_iter (or_else (get (unwrap_composio_payload raw) ''products'')
              (or_else (get raw ''products'') (JList [])))) (\<lambda>products.
     ebind (map_exn shape_public_product products) (\<lambda>shaped. Inr (JList (map JObj shaped))))"

definition shopify_get_product_request :: request_mapper where
  "shopify_get_product_request params context =
     [(''product_id'', opt_str (read_string params [''product_id'', ''productId''])),
      (''sku'', opt_str (read_string params [''sku'']))]"

text \<open>\<^verbatim>\<open>product.get(key) or (variants[0].get(vkey) if variants else None)\<close>\<close>

definition or_first_variant :: "dict \<Rightarrow> string \<Rightarrow> string \<Rightarrow> exn + json" where
  "or_first_variant p key vkey =
     (if truthy (get p key) then Inr (get p key) else first_variant p vkey JNull)"

definition shopify_get_product_response :: response_mapper where
  "shopify_get_product_response raw context =
     (let payload = unwrap_composio_payload raw;
          product = get_or payload ''product'' (get_or raw ''product'' (JObj payload)) in
      ebind (shape_public_product product) (\<lambda>shaped.
      if is_verified context
      then ebind (need_obj product) (\<lambda>p.
           ebind (or_first_variant p ''price'' ''price'') (\<lambda>price.
           ebind (or_first_variant p ''inventory'' ''inventory_quantity'') (\<lambda>inventory.
           Inr (JObj (shaped @ [(''price'', price), (''inventory'', inventory)])))))
      else Inr (JObj shaped)))"

section \<open>Invoices\<close>

definition PUBLIC_INVOICE_KEYS :: "string list" where
  "PUBLIC_INVOICE_KEYS = [''invoice_number'', ''shopify_customer_id'', ''customer_email'', ''balance'']"

definition public_invoice :: "dict \<Rightarrow> dict" where
  "public_invoice invoice = map (\<lambda>k. (k, get invoice k)) PUBLIC_INVOICE_KEYS"

fun first_ref :: "dict \<Rightarrow> string list \<Rightarrow> string option" where
  "first_ref invoice [] = None"
| "first_ref invoice (k # ks) =
     (case get invoice k of
        JStr s \<Rightarrow> (if s \<noteq> [] then Some s else first_ref invoice ks)
      | JInt n \<Rightarrow> Some (show_int n)
      | JBool b \<Rightarrow> Some (py_repr (JBool b))
      | _ \<Rightarrow> first_ref invoice ks)"

definition qbo_customer_id_of :: "dict \<Rightarrow> string option" where
  "qbo_customer_id_of invoice =
     (case get invoice ''CustomerRef'' of
        JObj r \<Rightarrow> (if truthy (get r ''value'') then Some (py_str (get r ''value''))
                   else first_ref invoice [''qbo_customer_id'', ''customer_ref_value''])
      | _ \<Rightarrow> first_ref invoice [''qbo_customer_id'', ''customer_ref_value''])"

definition direct_owner_gid :: "dict \<Rightarrow> string option" where
  "direct_owner_gid invoice = to_customer_gid (text_or_none (get invoice ''shopify_customer_id''))"

definition shape_invoice :: "json \<Rightarrow> exn + dict" where
  "shape_invoice invoice =
     ebind (need_obj invoice) (\<lambda>i.
     Inr [(''invoice_number'', get i ''invoice_number''),
          (''shopify_customer_id'', get i ''shopify_customer_id''),
          (''customer_email'', get i ''customer_email''), (''balance'', get i ''balance''),
          (''qbo_customer_id'', opt_str (qbo_customer_id_of i))])"

definition qbo_invoice_from_raw :: "json \<Rightarrow> exn + dict" where
  "qbo_invoice_from_raw invoice =
     ebind (need_obj invoice) (\<lambda>i.
     Inr [(''invoice_number'', or_else (get i ''DocNumber'') (get i ''invoice_number'')),
          (''shopify_customer_id'', get i ''shopify_customer_id''),
          (''customer_email'', case get i ''BillEmail'' of JObj b \<Rightarrow> get b ''Address'' | _ \<Rightarrow> get i ''customer_email''),
          (''balance'', get_or i ''Balance'' (get i ''balance'')),
          (''qbo_customer_id'', opt_str (qbo_customer_id_of i))])"

definition qbo_invoices_from_raw :: "dict \<Rightarrow> exn + dict list" where
  "qbo_invoices_from_raw raw =
     ebind (if get raw ''invoices'' = JNull
            then ebind (obj_get (or_else (get raw ''QueryResponse'') (JObj [])) ''Invoice'') (\<lambda>q.
                 Inr (or_else q (or_else (get raw ''Invoice'') (JList []))))
            else Inr (get raw ''invoices'')) (\<lambda>invoices.
     ebind (case invoices of JObj d \<Rightarrow> Inr [JObj d] | v \<Rightarrow> py_iter v) (\<lambda>xs.
     map_exn qbo_invoice_from_raw xs))"

definition doc_number_safe :: "char \<Rightarrow> bool" where
  "doc_number_safe c = (let n = code c in
     (65 \<le> n \<and> n \<le> 90) \<or> (97 \<le> n \<and> n \<le> 122) \<or> (48 \<le> n \<and> n \<le> 57) \<or> n = 95 \<or> n = 46 \<or> n = 45)"

definition qbo_get_invoice_request :: request_mapper where
  "qbo_get_invoice_request params context =
     (let safe = filter doc_number_safe
            (case read_string params [''invoice_number'', ''invoiceNumber''] of None \<Rightarrow> [] | Some s \<Rightarrow> s);
          quote = [char_of (39 :: nat)] in
      (''max_results'', JInt 1)
      # (if safe = [] then []
         else [(''query'', JStr (''WHERE DocNumber = '' @ quote @ safe @ quote))]))"

definition has_key :: "dict \<Rightarrow> string \<Rightarrow> bool" where
  "has_key d k \<longleftrightarrow> map_of d k \<noteq> None"

definition qbo_get_invoice_response :: response_mapper where
  "qbo_get_invoice_response raw context =
     map_sum id JObj
      (if has_key raw ''invoice'' then shape_invoice (get raw ''invoice'')
       else ebind (qbo_invoices_from_raw raw) (\<lambda>invoices.
         case invoices of
           i # _ \<Rightarrow> Inr i
         | [] \<Rightarrow> (if truthy (get raw ''DocNumber'') \<or> truthy (get raw ''invoice_number'')
                  then qbo_invoice_from_raw (JObj raw) else shape_invoice (JObj raw))))"

definition qbo_list_invoices_request :: request_mapper where
  "qbo_list_invoices_request params context = [(''max_results'', JInt 50)]"

definition has_invoice_number :: "json \<Rightarrow> bool" where
  "has_invoice_number j = (case j of JObj d \<Rightarrow> has_key d ''invoice_number'' | _ \<Rightarrow> False)"

definition qbo_list_invoices_response :: response_mapper where
  "qbo_list_invoices_response raw context =
     map_sum id (JList \<circ> map JObj)
      (if has_key raw ''invoices''
       then ebind (py_iter (get raw ''invoices'')) (\<lambda>xs.
         if list_all has_invoice_number xs then map_exn shape_invoice xs else qbo_invoices_from_raw raw)
       else qbo_invoices_from_raw raw)"

end
