(* ===== verification/VendorReads.thy ===== *)
theory VendorReads
  imports VendorShapes
begin

text \<open>
  The Composio driver, \<^verbatim>\<open>drivers/composio/driver.py\<close>: one vendor action per v1 action, ownership of
  invoices decided through the attribution of \<open>Attribution\<close>, the SDK adapter that turns every vendor
  failure into a governed one, and the configuration gates.  The vendor is a parameter.
\<close>

section \<open>Ownership of invoices\<close>

definition invoices_need_verified :: exn where
  "invoices_need_verified = ToolDriverError Policy_blocked
     ''QuickBooks invoice reads require a verified customer.''"

definition composio_verified_gid :: "ctx \<Rightarrow> exn + string" where
  "composio_verified_gid context =
     (case to_customer_gid (verified_customer_id (identity context)) of
        None \<Rightarrow> Inl invoices_need_verified | Some g \<Rightarrow> Inr g)"

definition no_matching_invoice :: exn where
  "no_matching_invoice = ToolDriverError Not_found ''No matching invoice for this customer.''"

definition unverifiable_invoice :: exn where
  "unverifiable_invoice = ToolDriverError Not_found ''Invoice ownership could not be verified.''"

definition qbo_owned_invoice ::
  "dict \<Rightarrow> ctx \<Rightarrow> 's attribution \<Rightarrow> 's \<Rightarrow> (exn + json) \<times> 's" where
  "qbo_owned_invoice invoice context att s =
     (case composio_verified_gid context of
        Inl e \<Rightarrow> (Inl e, s)
      | Inr verified \<Rightarrow>
          (case direct_owner_gid invoice of
             Some direct \<Rightarrow>
               (if direct = verified then Inr (JObj (public_invoice invoice)) else Inl no_matching_invoice, s)
           | None \<Rightarrow>
               (case canonical_qbo_id (get invoice ''qbo_customer_id'') of
                  None \<Rightarrow> (Inl unverifiable_invoice, s)
                | Some qbo_id \<Rightarrow>
                    (case invoice_owned_by att qbo_id verified s of
                       (Inl e, s') \<Rightarrow> (Inl e, s')
                     | (Inr owned, s') \<Rightarrow>
                         (if owned then Inr (JObj (public_invoice invoice)) else Inl no_matching_invoice, s')))))"

definition scoped_by_id :: "string \<Rightarrow> string \<Rightarrow> dict \<Rightarrow> bool" where
  "scoped_by_id verified qbo_id i \<longleftrightarrow>
     (case direct_owner_gid i of
        Some direct \<Rightarrow> direct = verified
      | None \<Rightarrow> canonical_qbo_id (get i ''qbo_customer_id'') = Some qbo_id)"

definition qbo_owned_invoices ::
  "dict list \<Rightarrow> ctx \<Rightarrow> 's attribution \<Rightarrow> 's \<Rightarrow> (exn + dict list) \<times> 's" where
  "qbo_owned_invoices invoices context att s =
     (case composio_verified_gid context of
        Inl e \<Rightarrow> (Inl e, s)
      | Inr verified \<Rightarrow>
          (if invoices \<noteq> [] \<and> list_all (\<lambda>i. direct_owner_gid i \<noteq> None) invoices
           then (Inr (map public_invoice (filter (\<lambda>i. direct_owner_gid i = Some verified) invoices)), s)
           else case qbo_customer_id_for att verified s of
             (Inl e, s') \<Rightarrow> (Inl e, s')
           | (Inr qbo_id, s') \<Rightarrow>
               (Inr (map public_invoice (filter (scoped_by_id verified qbo_id) invoices)), s')))"

section \<open>The mapping table\<close>

datatype ownership = Single | Listed | Ar_summary

record action_spec =
  sp_app :: string
  sp_slug :: string
  sp_request :: "request_mapper option"
  sp_response :: "response_mapper option"
  sp_ownership :: "ownership option"
  sp_unavailable :: "exn option"

definition SHOPIFY :: string where "SHOPIFY = ''shopify''"
definition QBO :: string where "QBO = ''qbo''"
definition SQUARE :: string where "SQUARE = ''square''"

definition SQUARE_PAYMENT_LINK_UNAVAILABLE :: exn where
  "SQUARE_PAYMENT_LINK_UNAVAILABLE = ToolDriverError Configuration_missing
     (''Square payment links are unavailable on the live backend: the pre-created ''
      @ ''link to retrieve is not identified by anything this system knows.'')"

definition ACTION_MAPPING :: "((string \<times> string) \<times> action_spec) list" where
  "ACTION_MAPPING =
     [((''toee_shopify_read'', ''get_order''),
       \<lparr>sp_app = SHOPIFY, sp_slug = ''SHOPIFY_GET_ORDERSBY_ID'', sp_request = Some shopify_get_order_request,
        sp_response = Some shopify_get_order_response, sp_ownership = None, sp_unavailable = None\<rparr>),
      ((''toee_shopify_read'', ''list_customer_orders''),
       \<lparr>sp_app = SHOPIFY, sp_slug = ''SHOPIFY_GET_CUSTOMER_ORDERS'',
        sp_request = Some shopify_list_orders_request, sp_response = Some shopify_list_orders_response,
        sp_ownership = None, sp_unavailable = None\<rparr>),
      ((''toee_shopify_read'', ''search_products''),
       \<lparr>sp_app = SHOPIFY, sp_slug = ''SHOPIFY_GET_PRODUCTS'', sp_request = Some shopify_search_request,
        sp_response = Some shopify_search_response, sp_ownership = None, sp_unavailable = None\<rparr>),
      ((''toee_shopify_read'', ''get_product''),
       \<lparr>sp_app = SHOPIFY, sp_slug = ''SHOPIFY_GET_PRODUCT'', sp_request = Some shopify_get_product_request,
        sp_response = Some shopify_get_product_response, sp_ownership = None, sp_unavailable = None\<rparr>),
      ((''toee_qbo_read'', ''get_invoice''),
       \<lparr>sp_app = QBO, sp_slug = ''QUICKBOOKS_QUERY_INVOICES'', sp_request = Some qbo_get_invoice_request,
        sp_response = Some qbo_get_invoice_response, sp_ownership = Some Single, sp_unavailable = None\<rparr>),
      ((''toee_qbo_read'', ''list_customer_invoices''),
       \<lparr>sp_app = QBO, sp_slug = ''QUICKBOOKS_LIST_INVOICES'', sp_request = Some qbo_list_invoices_request,
        sp_response = Some qbo_list_invoices_response, sp_ownership = Some Listed, sp_unavailable = None\<rparr>),
      ((''toee_qbo_read'', ''get_ar_summary''),
       \<lparr>sp_app = QBO, sp_slug = ''QUICKBOOKS_LIST_INVOICES'', sp_request = Some qbo_list_invoices_request,
        sp_response = Some qbo_list_invoices_response, sp_ownership = Some Ar_summary, sp_unavailable = None\<rparr>),
      ((''toee_square_payment_link'', ''send_payment_link''),
       \<lparr>sp_app = SQUARE, sp_slug = ''SQUARE_RETRIEVE_PAYMENT_LINK'', sp_request = None, sp_response = None,
        sp_ownership = None, sp_unavailable = Some SQUARE_PAYMENT_LINK_UNAVAILABLE\<rparr>)]"

section \<open>The driver\<close>

text \<open>
  \<open>cd_client\<close>: action, parameters, connected account and user give the raw data or an exception.
\<close>

record ('s, 'f) composio =
  cd_client :: "string \<Rightarrow> dict \<Rightarrow> string \<Rightarrow> string option \<Rightarrow> 's \<Rightarrow> (exn + dict) \<times> 's"
  cd_user_id :: "string option"
  cd_accounts :: "(string \<times> string) list"
  cd_attributor :: "'s attribution"
  cd_floats :: "'f floats"

text \<open>The list an invoice mapper shaped, as the ownership step iterates it.\<close>

definition invoice_dicts :: "json \<Rightarrow> exn + dict list" where
  "invoice_dicts shaped = ebind (py_iter shaped) (map_exn need_obj)"

definition apply_ownership ::
  "('s, 'f) composio \<Rightarrow> ownership option \<Rightarrow> json \<Rightarrow> ctx \<Rightarrow> 's \<Rightarrow> (exn + json) \<times> 's" where
  "apply_ownership cd own shaped context s =
     (case own of
        None \<Rightarrow> (Inr shaped, s)
      | Some Single \<Rightarrow>
          (case need_obj shaped of
             Inl e \<Rightarrow> (Inl e, s) | Inr i \<Rightarrow> qbo_owned_invoice i context (cd_attributor cd) s)
      | Some Listed \<Rightarrow>
          (case invoice_dicts shaped of
             Inl e \<Rightarrow> (Inl e, s)
           | Inr is' \<Rightarrow>
               (case qbo_owned_invoices is' context (cd_attributor cd) s of
                  (Inl e, s') \<Rightarrow> (Inl e, s') | (Inr owned, s') \<Rightarrow> (Inr (JList (map JObj owned)), s')))
      | Some Ar_summary \<Rightarrow>
          (case invoice_dicts shaped of
             Inl e \<Rightarrow> (Inl e, s)
           | Inr is' \<Rightarrow>
               (case composio_verified_gid context of
                  Inl e \<Rightarrow> (Inl e, s)
                | Inr verified \<Rightarrow>
                    (case qbo_owned_invoices is' context (cd_attributor cd) s of
                       (Inl e, s') \<Rightarrow> (Inl e, s')
                     | (Inr owned, s') \<Rightarrow>
                         (ar_summary (cd_floats cd) (JStr verified) owned, s')))))"

definition no_layer1_mapping :: "request \<Rightarrow> exn" where
  "no_layer1_mapping request = ToolDriverError Configuration_missing
     (''No Composio Layer 1 mapping for '' @ [char_of (39 :: nat)] @ rq_tool request @ ''.''
      @ rq_action request @ [char_of (39 :: nat), CHR ''.''])"

definition no_connected_account :: "string \<Rightarrow> exn" where
  "no_connected_account app = ToolDriverError Configuration_missing
     (''No Composio connected account configured for toolkit '' @ [char_of (39 :: nat)] @ app
      @ [char_of (39 :: nat), CHR ''.''])"

definition composio_execute ::
  "('s, 'f) composio \<Rightarrow> request \<Rightarrow> ctx \<Rightarrow> 's \<Rightarrow> (exn + json) \<times> 's" where
  "composio_execute cd request context s =
     (case map_of ACTION_MAPPING (rq_tool request, rq_action request) of
        None \<Rightarrow> (Inl (no_layer1_mapping request), s)
      | Some spec \<Rightarrow>
          (case (sp_unavailable spec, sp_request spec, sp_response spec) of
             (Some e, _, _) \<Rightarrow> (Inl e, s)
           | (None, Some to_vendor, Some shape) \<Rightarrow>
               (if falsy (map_of (cd_accounts cd) (sp_app spec))
                then (Inl (no_connected_account (sp_app spec)), s)
                else case cd_client cd (sp_slug spec) (to_vendor (rq_params request) context)
                       (the (map_of (cd_accounts cd) (sp_app spec))) (cd_user_id cd) s of
                  (Inl e, s1) \<Rightarrow>
                    (governed Composio_api_error (\<lambda>m. ''Composio action '' @ [char_of (39 :: nat)]
                       @ sp_slug spec @ [char_of (39 :: nat)] @ '' failed: '' @ m) (Inl e), s1)
                | (Inr raw, s1) \<Rightarrow>
                    (case shape raw context of
                       Inl e \<Rightarrow> (Inl e, s1)
                     | Inr shaped \<Rightarrow> apply_ownership cd (sp_ownership spec) shaped context s1))
           | _ \<Rightarrow> (Inl (PyError ''TypeError'' ''object is not callable''), s)))"

definition composio_driver :: "('s, 'f) composio \<Rightarrow> 's driver" where
  "composio_driver cd = \<lparr>kind = ''composio'', exec = composio_execute cd\<rparr>"

section \<open>The SDK adapter\<close>

definition nested_get :: "dict \<Rightarrow> string \<Rightarrow> string \<Rightarrow> json" where
  "nested_get d k k' = (case get d k of JObj inner \<Rightarrow> get inner k' | _ \<Rightarrow> JNull)"

fun first_vendor_error :: "dict list \<Rightarrow> json option" where
  "first_vendor_error [] = None"
| "first_vendor_error (c # cs) =
     (if truthy (get c ''errors'') then Some (get c ''errors'')
      else if truthy (get c ''error'') then Some (get c ''error'')
      else if truthy (get c ''Fault'') then Some (get c ''Fault'')
      else first_vendor_error cs)"

definition vendor_error_in_payload :: "dict \<Rightarrow> json option" where
  "vendor_error_in_payload d =
     first_vendor_error (d # (case get d ''response_data'' of JObj nested \<Rightarrow> [nested] | _ \<Rightarrow> []))"

definition sdk_failed :: "string \<Rightarrow> json \<Rightarrow> exn" where
  "sdk_failed act err = ToolDriverError Composio_api_error
     (''Composio reported failure for '' @ [char_of (39 :: nat)] @ act @ [char_of (39 :: nat)] @ '': '' @ py_str err)"

definition sdk_execute_action :: "string \<Rightarrow> exn + dict \<Rightarrow> exn + dict" where
  "sdk_execute_action act response =
     ebind response (\<lambda>result.
     if \<not> truthy (get_or result ''successful'' (JBool False))
     then Inl (sdk_failed act (get result ''error''))
     else case get result ''data'' of
       JObj d \<Rightarrow>
         (case vendor_error_in_payload d of
            Some err \<Rightarrow> Inl (ToolDriverError Composio_api_error
              (''Composio reported a vendor error for '' @ [char_of (39 :: nat)] @ act
               @ [char_of (39 :: nat)] @ '': '' @ py_str err))
          | None \<Rightarrow> Inr d)
     | _ \<Rightarrow> Inl (ToolDriverError Composio_api_error
              (''Composio returned no data object for '' @ [char_of (39 :: nat)] @ act @ [char_of (39 :: nat), CHR ''.''])))"

section \<open>Configuration\<close>

definition CONNECTED_ACCOUNT_ENV :: "(string \<times> string) list" where
  "CONNECTED_ACCOUNT_ENV =
     [(SHOPIFY, ''COMPOSIO_SHOPIFY_CONNECTED_ACCOUNT_ID''), (QBO, ''COMPOSIO_QBO_CONNECTED_ACCOUNT_ID''),
      (SQUARE, ''COMPOSIO_SQUARE_CONNECTED_ACCOUNT_ID'')]"

definition TOOLKIT_SLUG :: "(string \<times> string) list" where
  "TOOLKIT_SLUG = [(SHOPIFY, ''shopify''), (QBO, ''quickbooks''), (SQUARE, ''square'')]"

definition TOOLKIT_VERSION_ENV :: "(string \<times> string) list" where
  "TOOLKIT_VERSION_ENV =
     [(SHOPIFY, ''COMPOSIO_TOOLKIT_VERSION_SHOPIFY''), (QBO, ''COMPOSIO_TOOLKIT_VERSION_QUICKBOOKS''),
      (SQUARE, ''COMPOSIO_TOOLKIT_VERSION_SQUARE'')]"

definition version_pin :: "environ \<Rightarrow> string \<Rightarrow> string" where
  "version_pin env toolkit =
     py_strip (case env (the (map_of TOOLKIT_VERSION_ENV toolkit)) of None \<Rightarrow> [] | Some v \<Rightarrow> v)"

definition pinned :: "environ \<Rightarrow> string \<Rightarrow> bool" where
  "pinned env toolkit \<longleftrightarrow> version_pin env toolkit \<noteq> [] \<and> version_pin env toolkit \<noteq> ''latest''"

text \<open>The text of the missing pins is sorted in the source; the sort is a parameter of the message only.\<close>

definition pinned_toolkit_versions ::
  "environ \<Rightarrow> (string list \<Rightarrow> string list) \<Rightarrow> (string \<times> string) list \<Rightarrow> exn + (string \<times> string) list" where
  "pinned_toolkit_versions env sorted' accounts =
     (let toolkits = map fst accounts; missing = filter (\<lambda>t. \<not> pinned env t) toolkits in
      if missing \<noteq> []
      then Inl (ToolDriverError Configuration_missing
        (''Composio toolkit version pin missing or '' @ repr_str ''latest'' @ '': ''
         @ join_with '', '' (sorted' (map (\<lambda>t. the (map_of TOOLKIT_VERSION_ENV t)) missing))
         @ ''. Pin each configured toolkit to an '' @ ''exact version from the Composio dashboard.''))
      else Inr (map (\<lambda>t. (the (map_of TOOLKIT_SLUG t), version_pin env t)) toolkits))"

definition configured_accounts :: "environ \<Rightarrow> (string \<times> string) list" where
  "configured_accounts env =
     List.map_filter (\<lambda>(toolkit, var). if falsy (env var) then None else Some (toolkit, the (env var)))
       CONNECTED_ACCOUNT_ENV"

text \<open>
  \<^verbatim>\<open>build_composio_driver\<close>: \<open>sdk\<close> is the SDK client built from the key and the pins, absent when the SDK
  is not installed.
\<close>

definition build_composio_driver ::
  "environ \<Rightarrow> (string list \<Rightarrow> string list)
     \<Rightarrow> (string \<Rightarrow> (string \<times> string) list
          \<Rightarrow> exn + (string \<Rightarrow> dict \<Rightarrow> string \<Rightarrow> string option \<Rightarrow> 's \<Rightarrow> (exn + dict) \<times> 's))
     \<Rightarrow> 's attribution \<Rightarrow> 'f floats \<Rightarrow> exn + ('s, 'f) composio" where
  "build_composio_driver env sorted' sdk att fl =
     (if falsy (env ''COMPOSIO_API_KEY'')
      then Inl (ToolDriverError Configuration_missing
        ''COMPOSIO_API_KEY is not set; cannot build the Composio driver.'')
      else if configured_accounts env = []
      then Inl (ToolDriverError Configuration_missing
        (''INTEGRATION_DRIVER=composio but no Composio connected account is ''
         @ ''configured; set at least one of: '' @ join_with '', '' (sorted' (map snd CONNECTED_ACCOUNT_ENV)) @ ''.''))
      else
        ebind (pinned_toolkit_versions env sorted' (configured_accounts env)) (\<lambda>versions.
        ebind (sdk (the (env ''COMPOSIO_API_KEY'')) versions) (\<lambda>client.
        Inr \<lparr>cd_client = client, cd_user_id = env ''COMPOSIO_USER_ID'',
             cd_accounts = configured_accounts env, cd_attributor = att, cd_floats = fl\<rparr>)))"

definition require_composio_configuration ::
  "environ \<Rightarrow> exn + ('s, 'f) composio \<Rightarrow> exn + unit" where
  "require_composio_configuration env built =
     ebind (resolve_integration_driver (env ''INTEGRATION_DRIVER'')) (\<lambda>backend.
     if backend = Composio then map_sum id (\<lambda>_. ()) built else Inr ())"

record toolkit_status =
  ts_configured :: bool
  ts_pinned_version :: "string option"
  ts_connected :: bool
  ts_api_key_present :: bool
  ts_account_env :: string
  ts_version_env :: string

definition composio_config_status :: "environ \<Rightarrow> (string \<times> toolkit_status) list" where
  "composio_config_status env =
     map (\<lambda>(toolkit, _).
       let account_env = the (map_of CONNECTED_ACCOUNT_ENV toolkit);
           connected = (\<not> falsy (env account_env)); key = (\<not> falsy (env ''COMPOSIO_API_KEY'')) in
       (toolkit, \<lparr>ts_configured = (key \<and> connected \<and> pinned env toolkit),
          ts_pinned_version = (if pinned env toolkit then Some (version_pin env toolkit) else None),
          ts_connected = connected, ts_api_key_present = key, ts_account_env = account_env,
          ts_version_env = the (map_of TOOLKIT_VERSION_ENV toolkit)\<rparr>)) TOOLKIT_SLUG"

section \<open>Lemmas\<close>

text \<open>
  Whom a context verifies, and which invoices are that customer's own: an invoice that names a customer is that
  customer's, one that names none carries the QuickBooks id to which the answer of the mapping endpoint maps the customer.
\<close>

definition customer_gid :: "string \<Rightarrow> string" where
  "customer_gid c = (if starts_with c ''gid://'' then c else ''gid://shopify/Customer/'' @ c)"

definition verified_as :: "ctx \<Rightarrow> string \<Rightarrow> bool" where
  "verified_as context g \<longleftrightarrow> (\<exists>d c. identity context = JObj d \<and> get d ''outcome'' = JStr ''verified_customer''
     \<and> get d ''shopify_customer_id'' = JStr c \<and> c \<noteq> [] \<and> g = customer_gid c)"

definition attributed :: "'s attribution \<Rightarrow> string \<Rightarrow> 's \<Rightarrow> dict \<Rightarrow> bool" where
  "attributed att g s i \<longleftrightarrow>
     (if \<exists>c. get i ''shopify_customer_id'' = JStr c \<and> c \<noteq> []
      then \<exists>c. get i ''shopify_customer_id'' = JStr c \<and> customer_gid c = g
      else \<exists>client response s' q. qa_client att = Some client \<and> client g s = (Some (Inr response), s')
        \<and> maps_to response g q \<and> canonical_qbo_id (get i ''qbo_customer_id'') = Some q)"

definition disclosed_fields :: "dict \<Rightarrow> dict" where
  "disclosed_fields i = [(''invoice_number'', get i ''invoice_number''), (''shopify_customer_id'', get i ''shopify_customer_id''),
     (''customer_email'', get i ''customer_email''), (''balance'', get i ''balance'')]"

lemma public_invoice_fields: "public_invoice = disclosed_fields"
  by (simp add: fun_eq_iff public_invoice_def PUBLIC_INVOICE_KEYS_def disclosed_fields_def)

lemma verified_gid_iff: "composio_verified_gid context = Inr g \<longleftrightarrow> verified_as context g"
  by (auto simp: composio_verified_gid_def verified_customer_id_def to_customer_gid_def falsy_def GID_CUSTOMER_def
      customer_gid_def verified_as_def split: json.splits if_splits option.splits)

lemma direct_owner_iff: "direct_owner_gid i = Some g \<longleftrightarrow>
    (\<exists>c. get i ''shopify_customer_id'' = JStr c \<and> c \<noteq> [] \<and> customer_gid c = g)"
  by (auto simp: direct_owner_gid_def text_or_none_def to_customer_gid_def falsy_def GID_CUSTOMER_def customer_gid_def
      split: json.splits)

lemma attributed_iff:
  assumes "qa_config_error att = None \<or> direct_owner_gid i \<noteq> None"
  shows "attributed att g s i \<longleftrightarrow>
     (case direct_owner_gid i of
        Some direct \<Rightarrow> direct = g
      | None \<Rightarrow> \<exists>q s'. qbo_customer_id_for att g s = (Inr q, s')
          \<and> canonical_qbo_id (get i ''qbo_customer_id'') = Some q)"
proof (cases "direct_owner_gid i")
  case None
  then have "\<not> (\<exists>c. get i ''shopify_customer_id'' = JStr c \<and> c \<noteq> [])" using direct_owner_iff [of i] by auto
  with None assms show ?thesis by (auto simp: attributed_def qbo_customer_id_for_iff)
next
  case (Some direct)
  then show ?thesis using direct_owner_iff [of i direct] by (auto simp: attributed_def)
qed

lemma owned_invoice_Inr:
  assumes "qbo_owned_invoice i context att s = (Inr j, s')"
  shows "\<exists>g. composio_verified_gid context = Inr g \<and> attributed att g s i \<and> j = JObj (public_invoice i)"
proof -
  from assms obtain g where g: "composio_verified_gid context = Inr g" "j = JObj (public_invoice i)"
    and o: "case direct_owner_gid i of Some direct \<Rightarrow> direct = g
      | None \<Rightarrow> \<exists>q. qbo_customer_id_for att g s = (Inr q, s') \<and> canonical_qbo_id (get i ''qbo_customer_id'') = Some q"
    by (auto simp: qbo_owned_invoice_def split: sum.splits option.splits if_splits prod.splits dest: invoice_owned_by_sound)
  then have "qa_config_error att = None \<or> direct_owner_gid i \<noteq> None"
    by (auto simp: qbo_customer_id_for_iff split: option.splits)
  from attributed_iff [OF this] o g show ?thesis by (fastforce split: option.splits)
qed

lemma owned_invoices_Inr:
  assumes "qbo_owned_invoices is' context att s = (Inr ds, s')"
  shows "\<exists>g. composio_verified_gid context = Inr g \<and> ds = map public_invoice (filter (attributed att g s) is')"
proof -
  from assms obtain g where g: "composio_verified_gid context = Inr g"
    by (auto simp: qbo_owned_invoices_def split: sum.splits)
  show ?thesis
  proof (cases "is' \<noteq> [] \<and> list_all (\<lambda>i. direct_owner_gid i \<noteq> None) is'")
    case True
    then have "filter (\<lambda>i. direct_owner_gid i = Some g) is' = filter (attributed att g s) is'"
      by (intro filter_cong) (auto simp: attributed_iff list_all_iff split: option.splits)
    with True assms g show ?thesis by (auto simp: qbo_owned_invoices_def)
  next
    case False
    with assms g obtain q where q: "qbo_customer_id_for att g s = (Inr q, s')"
      "ds = map public_invoice (filter (scoped_by_id g q) is')"
      by (auto simp: qbo_owned_invoices_def simp del: not_None_eq split: prod.splits sum.splits)
    then have "qa_config_error att = None" by (simp add: qbo_customer_id_for_iff)
    with q(1) have "scoped_by_id g q = attributed att g s"
      by (auto simp: fun_eq_iff scoped_by_id_def attributed_iff split: option.splits)
    with q(2) g show ?thesis by auto
  qed
qed

lemma invoice_dicts_JList: "invoice_dicts (JList (map JObj ds)) = Inr ds"
  using map_exn_need_obj [of "map JObj ds" ds] by (simp add: invoice_dicts_def py_iter_def exn_simps)

text \<open>The calls of the driver that answer: the vendor was asked once, and its answer was shaped.\<close>

lemma composio_execute_Inr:
  assumes "composio_execute cd request context s = (Inr j, s')"
  shows "\<exists>spec to_vendor shape acct raw s1 shaped.
      map_of ACTION_MAPPING (rq_tool request, rq_action request) = Some spec
    \<and> sp_request spec = Some to_vendor \<and> sp_response spec = Some shape
    \<and> cd_client cd (sp_slug spec) (to_vendor (rq_params request) context) acct (cd_user_id cd) s = (Inr raw, s1)
    \<and> shape raw context = Inr shaped \<and> apply_ownership cd (sp_ownership spec) shaped context s1 = (Inr j, s')"
  using assms
  by (auto simp: composio_execute_def governed_def
      split: option.splits prod.splits sum.splits if_splits)

lemma qbo_actions:
  assumes "map_of ACTION_MAPPING (''toee_qbo_read'', a) = Some spec"
  shows "(a = ''get_invoice'' \<and> sp_response spec = Some qbo_get_invoice_response \<and> sp_ownership spec = Some Single)
    \<or> (a = ''list_customer_invoices'' \<and> sp_response spec = Some qbo_list_invoices_response \<and> sp_ownership spec = Some Listed)
    \<or> (a = ''get_ar_summary'' \<and> sp_response spec = Some qbo_list_invoices_response \<and> sp_ownership spec = Some Ar_summary)"
  using assms by (auto simp: ACTION_MAPPING_def split: if_splits)

lemma get_invoice_response_obj:
  "qbo_get_invoice_response raw context = Inr shaped \<Longrightarrow> \<exists>i. shaped = JObj i"
  unfolding qbo_get_invoice_response_def map_sum_Inr by blast

lemma list_invoices_response_list:
  "qbo_list_invoices_response raw context = Inr shaped \<Longrightarrow> \<exists>is'. shaped = JList (map JObj is')"
  unfolding qbo_list_invoices_response_def map_sum_Inr comp_def by blast

section \<open>Properties\<close>

text \<open>C10.  Whatever the vendor returns, an invoice read discloses to a verified customer
  exactly the customer's own invoices among the returned ones, in the four public fields, and sums
  receivables over exactly those; nobody else is disclosed anything.  An invoice without a customer is own only when a
  confirmed or automatically matched row of the mapping answer names its QuickBooks id, no such row names another id
  and no such row gives that id to another customer.\<close>

theorem invoices_are_own:
  assumes "rq_tool request = ''toee_qbo_read''" and "composio_execute cd request context s = (Inr j, s')"
  shows "\<exists>g slug params acct raw s1. verified_as context g
    \<and> cd_client cd slug params acct (cd_user_id cd) s = (Inr raw, s1)
    \<and> (let own = attributed (cd_attributor cd) g s1 in
       (rq_action request = ''get_invoice'' \<and> (\<exists>i. qbo_get_invoice_response raw context = Inr (JObj i)
          \<and> own i \<and> j = JObj (disclosed_fields i)))
     \<or> (\<exists>is'. qbo_list_invoices_response raw context = Inr (JList (map JObj is'))
          \<and> (rq_action request = ''list_customer_invoices'' \<and> j = JList (map (JObj \<circ> disclosed_fields) (filter own is'))
           \<or> rq_action request = ''get_ar_summary''
               \<and> ar_summary (cd_floats cd) (JStr g) (map disclosed_fields (filter own is')) = Inr j)))"
proof -
  from composio_execute_Inr [OF assms(2)] assms(1) obtain spec to_vendor shape acct raw s1 shaped where
    m: "map_of ACTION_MAPPING (''toee_qbo_read'', rq_action request) = Some spec"
      "sp_response spec = Some shape"
    and c: "cd_client cd (sp_slug spec) (to_vendor (rq_params request) context) acct (cd_user_id cd) s = (Inr raw, s1)"
    and o: "shape raw context = Inr shaped" "apply_ownership cd (sp_ownership spec) shaped context s1 = (Inr j, s')"
    by auto
  from qbo_actions [OF m(1)] consider
      (get) "rq_action request = ''get_invoice''" "shape = qbo_get_invoice_response" "sp_ownership spec = Some Single"
    | (list) "rq_action request = ''list_customer_invoices''" "shape = qbo_list_invoices_response" "sp_ownership spec = Some Listed"
    | (ar) "rq_action request = ''get_ar_summary''" "shape = qbo_list_invoices_response" "sp_ownership spec = Some Ar_summary"
    using m(2) by auto
  then show ?thesis
  proof cases
    case get
    with o get_invoice_response_obj obtain i where i: "shaped = JObj i" by blast
    with o(2) get have "qbo_owned_invoice i context (cd_attributor cd) s1 = (Inr j, s')"
      by (simp add: apply_ownership_def need_obj_def)
    from owned_invoice_Inr [OF this] i get o(1) c show ?thesis 
      unfolding Let_def verified_gid_iff [symmetric] public_invoice_fields [symmetric] by blast
  next
    case list
    with o list_invoices_response_list obtain is' where i: "shaped = JList (map JObj is')" by blast
    with o(2) list obtain ds where "qbo_owned_invoices is' context (cd_attributor cd) s1 = (Inr ds, s')"
      "j = JList (map JObj ds)"
      by (auto simp: apply_ownership_def invoice_dicts_JList split: prod.splits sum.splits)
    moreover from owned_invoices_Inr [OF this(1)] obtain g where "composio_verified_gid context = Inr g"
      "ds = map public_invoice (filter (attributed (cd_attributor cd) g s1) is')" by blast
    ultimately have "composio_verified_gid context = Inr g"
      "j = JList (map (JObj \<circ> public_invoice) (filter (attributed (cd_attributor cd) g s1) is'))" by simp_all
    with i list o(1) c show ?thesis 
      unfolding Let_def verified_gid_iff [symmetric] public_invoice_fields [symmetric] by blast
  next
    case ar
    with o list_invoices_response_list obtain is' where i: "shaped = JList (map JObj is')" by blast
    with o(2) ar obtain g ds where "composio_verified_gid context = Inr g"
      "qbo_owned_invoices is' context (cd_attributor cd) s1 = (Inr ds, s')"
      "ar_summary (cd_floats cd) (JStr g) ds = Inr j"
      by (auto simp: apply_ownership_def invoice_dicts_JList split: prod.splits sum.splits)
    moreover from owned_invoices_Inr [OF this(2)] this(1) have
      "ds = map public_invoice (filter (attributed (cd_attributor cd) g s1) is')" by auto
    ultimately show ?thesis using i ar o(1) c 
      unfolding Let_def verified_gid_iff [symmetric] public_invoice_fields [symmetric] by blast
  qed
qed

text \<open>A live answer without any Shopify id: two invoices, one of the mapped QuickBooks customer.\<close>

definition sample_att :: "unit attribution" where
  "sample_att = \<lparr>qa_client = Some (\<lambda>gid s. (Some (Inr
       ([JObj [(''qboCustomerId'', JStr ''0042''), (''status'', JStr ''CONFIRMED'')]],
        [(''42'', JList [JObj [(''shopifyGid'', JStr ''1001''), (''status'', JStr ''CONFIRMED'')]])])), s)),
     qa_config_error = None, qa_deadline = ''8000''\<rparr>"

definition int_floats :: "int floats" where
  "int_floats = \<lparr>fl_int = (\<lambda>n. n), fl_parse = py_int, fl_pos = (\<lambda>n. n > 0), fl_add = (+), fl_json = JInt\<rparr>"

definition live_invoice :: "string \<Rightarrow> int \<Rightarrow> json" where
  "live_invoice customer due = JObj [(''DocNumber'', JStr ''INV-1''), (''Balance'', JInt due),
     (''CustomerRef'', JObj [(''value'', JStr customer)])]"

definition sample_vendor :: "(unit, int) composio" where
  "sample_vendor = \<lparr>cd_client = (\<lambda>act params acct uid s.
       (Inr [(''QueryResponse'', JObj [(''Invoice'', JList [live_invoice ''42'' 10, live_invoice ''77'' 99])])], s)),
     cd_user_id = None, cd_accounts = [(''qbo'', ''acc_1'')], cd_attributor = sample_att, cd_floats = int_floats\<rparr>"

definition customer_ctx :: ctx where
  "customer_ctx = \<lparr>profile = ''external_customer'',
     identity = JObj [(''outcome'', JStr ''verified_customer''), (''shopify_customer_id'', JStr ''1001'')],
     user_id = None, connected_account_id = None, ctx_conversation_id = None, ctx_sms_session_id = None\<rparr>"

definition list_invoices :: request where
  "list_invoices = \<lparr>rq_tool = ''toee_qbo_read'', rq_action = ''list_customer_invoices'', rq_params = []\<rparr>"

lemma sample_invoices_read: "composio_execute sample_vendor list_invoices customer_ctx () =
    (Inr (JList [JObj [(''invoice_number'', JStr ''INV-1''), (''shopify_customer_id'', JNull),
       (''customer_email'', JNull), (''balance'', JInt 10)]]), ())"
  by code_simp

theorem invoices_are_own_witness:
  "\<exists>g is' s1. verified_as customer_ctx g
     \<and> JList (map (JObj \<circ> disclosed_fields) (filter (attributed sample_att g s1) is'))
       = JList [JObj [(''invoice_number'', JStr ''INV-1''), (''shopify_customer_id'', JNull),
           (''customer_email'', JNull), (''balance'', JInt 10)]]"
proof -
  have t: "rq_tool list_invoices = ''toee_qbo_read''" by (simp add: list_invoices_def)
  have n: "rq_action list_invoices \<noteq> ''get_invoice''" "rq_action list_invoices \<noteq> ''get_ar_summary''"
    by (simp_all add: list_invoices_def)
  have a: "cd_attributor sample_vendor = sample_att" by (simp add: sample_vendor_def)
  obtain g s1 is' where
    "verified_as customer_ctx g"
    "JList [JObj [(''invoice_number'', JStr ''INV-1''), (''shopify_customer_id'', JNull),
       (''customer_email'', JNull), (''balance'', JInt 10)]]
     = JList (map (JObj \<circ> disclosed_fields) (filter (attributed sample_att g s1) is'))"
    using invoices_are_own [OF t sample_invoices_read, unfolded Let_def a]
    by (elim exE conjE disjE) ((rule that; assumption) | (simp only: n))+
  then show ?thesis by (intro exI conjI) (assumption, rule sym)
qed

text \<open>An order looked up by its number is disclosed to its verified owner only.\<close>

theorem order_only_to_owner:
  assumes "rq_tool request = ''toee_shopify_read''" and "rq_action request = ''get_order''"
    and "composio_execute cd request context s = (Inr j, s')"
  shows "\<exists>g d. to_customer_gid (verified_customer_id (identity context)) = Some g
    \<and> j = JObj d \<and> get d ''customer_id'' = JStr g"
proof -
  from composio_execute_Inr [OF assms(3)] assms(1,2) obtain raw s1 where
    "shopify_get_order_response raw context = Inr j"
    by (auto simp: ACTION_MAPPING_def apply_ownership_def)
  then show ?thesis
    by (auto simp: shopify_get_order_response_def exn_simps split: option.splits if_splits)
qed

definition order_vendor :: "(unit, int) composio" where
  "order_vendor = \<lparr>cd_client = (\<lambda>act params acct uid s.
       (Inr [(''order'', JObj [(''name'', JStr ''#1042''), (''customer'', JObj [(''id'', JInt 1001)])])], s)),
     cd_user_id = None, cd_accounts = [(''shopify'', ''acc_1'')], cd_attributor = sample_att,
     cd_floats = int_floats\<rparr>"

definition get_order_1042 :: request where
  "get_order_1042 = \<lparr>rq_tool = ''toee_shopify_read'', rq_action = ''get_order'',
     rq_params = [(''order_number'', JStr ''1042'')]\<rparr>"

theorem order_only_to_owner_witness:
  "\<exists>g d. to_customer_gid (verified_customer_id (identity customer_ctx)) = Some g
    \<and> composio_execute order_vendor get_order_1042 customer_ctx () = (Inr (JObj d), ())
    \<and> get d ''customer_id'' = JStr g"
proof -
  have "\<exists>j. composio_execute order_vendor get_order_1042 customer_ctx () = (Inr j, ())"
    by (rule exI [of _ "JObj [(''order_number'', JStr ''#1042''), (''customer_id'', JStr ''gid://shopify/Customer/1001''),
        (''line_items'', JList []), (''fulfillment'', JObj [(''state'', JStr ''unfulfilled''),
          (''shipment_status'', JNull), (''tracking'', JNull)])]"]) code_simp
  then obtain j where j: "composio_execute order_vendor get_order_1042 customer_ctx () = (Inr j, ())" by blast
  have "rq_tool get_order_1042 = ''toee_shopify_read''" "rq_action get_order_1042 = ''get_order''"
    by (simp_all add: get_order_1042_def)
  with order_only_to_owner [OF _ _ j] j show ?thesis by blast
qed

text \<open>The order list has no such check.  For a caller who is nobody's verified
  customer the external gate lets the call through, the vendor is asked with a null customer, and
  every order it returns is disclosed.\<close>

theorem unverified_lists_orders:
  assumes "verified_customer_id (identity context) = None"
    and "map_of (cd_accounts cd) SHOPIFY = Some acct" and "acct \<noteq> []"
    and "cd_client cd ''SHOPIFY_GET_CUSTOMER_ORDERS'' [(''customer_id'', JNull), (''status'', JStr ''any'')]
      acct (cd_user_id cd) s = (Inr [(''orders'', JList orders)], s1)"
    and "map_exn shape_order orders = Inr shaped"
  shows "\<exists>r sink'. execute_tool ''toee_shopify_read'' ''list_customer_orders'' context (composio_driver cd) params
      (Some (create_external_profile_gate links)) sink s = (r, sink', s1)
    \<and> tr_ok r \<and> tr_data r = JList (map JObj shaped)"
proof -
  let ?q = "\<lparr>rq_tool = ''toee_shopify_read'', rq_action = ''list_customer_orders'', rq_params = params\<rparr>"
  have "orders = [] \<longrightarrow> shaped = []" using assms(5) by auto
  then have "shopify_list_orders_response [(''orders'', JList orders)] context = Inr (JList (map JObj shaped))"
    using assms(5) by (cases "orders = []")
      (simp_all add: shopify_list_orders_response_def unwrap_composio_payload_def dict_simps or_else_def
        py_iter_def exn_simps)
  then have e: "composio_execute cd ?q context s = (Inr (JList (map JObj shaped)), s1)"
    using assms by (simp add: composio_execute_def ACTION_MAPPING_def shopify_list_orders_request_def
        shopify_numeric_customer_id_def opt_str_def apply_ownership_def not_falsy_iff)
  have a: "is_tool_action ''toee_shopify_read'' ''list_customer_orders''"
    by (simp add: is_tool_action_def TOOL_CATALOG_def)
  then have "admitted ''toee_shopify_read'' ''list_customer_orders'' context params
      (Some (create_external_profile_gate links))"
    using is_tool_action_name [OF a]
    by (simp add: admitted_def gate_of_def external_gate_allow_iff QBO_READ_TOOL_def)
  from execute_tool_admitted [OF this, of "composio_driver cd" sink s] e show ?thesis
    by (auto simp: composio_driver_def Let_def)
qed

theorem unverified_lists_orders_witness:
  "\<exists>r sink'. execute_tool ''toee_shopify_read'' ''list_customer_orders'' (customer_ctx\<lparr>identity := JNull\<rparr>)
      (composio_driver (order_vendor\<lparr>cd_client := (\<lambda>act params acct uid s.
         (Inr [(''orders'', JList [JObj [(''name'', JStr ''#1042'')]])], s))\<rparr>)) []
      (Some (create_external_profile_gate [])) [] () = (r, sink', ())
    \<and> tr_data r = JList [JObj [(''order_number'', JStr ''#1042''), (''customer_id'', JNull), (''line_items'', JList []),
        (''fulfillment'', JObj [(''state'', JStr ''unfulfilled''), (''shipment_status'', JNull), (''tracking'', JNull)])]]"
proof -
  let ?cd = "order_vendor\<lparr>cd_client := (\<lambda>act params acct uid s.
      (Inr [(''orders'', JList [JObj [(''name'', JStr ''#1042'')]])], s))\<rparr>"
  have "map_exn shape_order [JObj [(''name'', JStr ''#1042'')]]
      = Inr [[(''order_number'', JStr ''#1042''), (''customer_id'', JNull), (''line_items'', JList []),
        (''fulfillment'', JObj [(''state'', JStr ''unfulfilled''), (''shipment_status'', JNull), (''tracking'', JNull)])]]"
    by code_simp
  note m = this
  have a: "map_of (cd_accounts ?cd) SHOPIFY = Some ''acc_1''" by (simp add: order_vendor_def SHOPIFY_def)
  have v: "verified_customer_id (identity (customer_ctx\<lparr>identity := JNull\<rparr>)) = None"
    by (simp add: verified_customer_id_def)
  have c: "cd_client ?cd ''SHOPIFY_GET_CUSTOMER_ORDERS'' [(''customer_id'', JNull), (''status'', JStr ''any'')]
      ''acc_1'' (cd_user_id ?cd) () = (Inr [(''orders'', JList [JObj [(''name'', JStr ''#1042'')]])], ())"
    by simp
  show ?thesis
    using unverified_lists_orders [OF v a _ c m, of "[]" "[]" "[]"] by auto
qed

text \<open>The SDK adapter hands on only an object of a call that succeeded and
  carries no vendor error, at the top or under \<^verbatim>\<open>response_data\<close>.\<close>

theorem vendor_errors_are_not_data:
  "sdk_execute_action act response = Inr d \<longleftrightarrow>
     (\<exists>result. response = Inr result \<and> truthy (get result ''successful'') \<and> get result ''data'' = JObj d)
     \<and> list_all (\<lambda>k. \<not> truthy (get d k) \<and> \<not> truthy (nested_get d ''response_data'' k)) [''errors'', ''error'', ''Fault'']"
proof -
  have v: "vendor_error_in_payload d = None \<longleftrightarrow>
      list_all (\<lambda>k. \<not> truthy (get d k) \<and> \<not> truthy (nested_get d ''response_data'' k)) [''errors'', ''error'', ''Fault'']"
    by (cases "get d ''response_data''") (auto simp: vendor_error_in_payload_def nested_get_def)
  have t: "truthy (get_or result ''successful'' (JBool False)) = truthy (get result ''successful'')" for result
    by (simp add: get_def get_or_def split: option.splits)
  show ?thesis
    unfolding v [symmetric]
    by (cases response) (auto simp: sdk_execute_action_def exn_simps t split: json.splits option.splits)
qed

lemma toolkits_differ: "SHOPIFY \<noteq> QBO" "SHOPIFY \<noteq> SQUARE" "QBO \<noteq> SQUARE"
  by (simp_all add: SHOPIFY_def QBO_def SQUARE_def)

lemma map_of_configured:
  "map_of (configured_accounts env) t = (case map_of CONNECTED_ACCOUNT_ENV t of
     None \<Rightarrow> None | Some var \<Rightarrow> (if falsy (env var) then None else env var))"
  using toolkits_differ
  by (simp add: configured_accounts_def CONNECTED_ACCOUNT_ENV_def List.map_filter_simps falsy_def split: option.splits)

text \<open>Once the driver is built, the status page shows a toolkit configured
  exactly when the driver has an account to serve it with.\<close>

theorem status_tells_what_serves:
  assumes "build_composio_driver env sorted' sdk att fl = Inr cd"
  shows "map (\<lambda>(t, st). (t, ts_configured st)) (composio_config_status env)
    = map (\<lambda>(t, _). (t, map_of (cd_accounts cd) t \<noteq> None)) TOOLKIT_SLUG"
proof -
  from assms have key: "\<not> falsy (env ''COMPOSIO_API_KEY'')"
    and acc: "cd_accounts cd = configured_accounts env"
    and pins: "\<And>t. t \<in> fst ` set (configured_accounts env) \<Longrightarrow> pinned env t"
    by (auto simp: build_composio_driver_def pinned_toolkit_versions_def Let_def exn_simps filter_empty_conv
        split: if_splits)
  have "pinned env t" if "map_of (configured_accounts env) t \<noteq> None" for t
    using pins that by (metis map_of_eq_None_iff)
  then have "(\<not> falsy (env (the (map_of CONNECTED_ACCOUNT_ENV t))) \<and> pinned env t)
      \<longleftrightarrow> map_of (configured_accounts env) t \<noteq> None" if "map_of CONNECTED_ACCOUNT_ENV t = Some var" for t var
    using that by (cases "env var") (auto simp: map_of_configured falsy_def)
  moreover have "\<exists>var. map_of CONNECTED_ACCOUNT_ENV t = Some var" if "t \<in> {SHOPIFY, QBO, SQUARE}" for t
    using that by (auto simp: CONNECTED_ACCOUNT_ENV_def)
  ultimately have "(\<not> falsy (env (the (map_of CONNECTED_ACCOUNT_ENV t))) \<and> pinned env t)
      \<longleftrightarrow> map_of (configured_accounts env) t \<noteq> None" if "t \<in> {SHOPIFY, QBO, SQUARE}" for t
    using that by blast
  then show ?thesis
    using key by (simp add: composio_config_status_def TOOLKIT_SLUG_def acc Let_def del: not_None_eq)
qed

definition qbo_env :: environ where
  "qbo_env = map_of [(''COMPOSIO_API_KEY'', ''k''), (''COMPOSIO_QBO_CONNECTED_ACCOUNT_ID'', ''acc_1''),
     (''COMPOSIO_TOOLKIT_VERSION_QUICKBOOKS'', ''20260616_00'')]"

theorem status_tells_what_serves_witness:
  "map (\<lambda>(t, st). (t, ts_configured st)) (composio_config_status qbo_env)
    = [(''shopify'', False), (''qbo'', True), (''square'', False)]"
proof -
  let ?sdk = "\<lambda>key versions. Inr (cd_client sample_vendor)"
  have "\<exists>cd. build_composio_driver qbo_env id ?sdk sample_att int_floats = Inr cd
      \<and> cd_accounts cd = [(''qbo'', ''acc_1'')]"
    by (simp add: build_composio_driver_def qbo_env_def configured_accounts_def CONNECTED_ACCOUNT_ENV_def
        pinned_toolkit_versions_def pinned_def version_pin_def TOOLKIT_VERSION_ENV_def List.map_filter_simps
        SHOPIFY_def QBO_def SQUARE_def exn_simps Let_def) code_simp
  then obtain cd where b: "build_composio_driver qbo_env id ?sdk sample_att int_floats = Inr cd"
    and a: "cd_accounts cd = [(''qbo'', ''acc_1'')]" by blast
  from status_tells_what_serves [OF b] show ?thesis
    unfolding a by (simp add: TOOLKIT_SLUG_def SHOPIFY_def QBO_def SQUARE_def)
qed

end
