(* ===== verification/Deliveries.thy ===== *)
theory Deliveries
  imports VendorShapes IdentitySummary
begin

text \<open>
  Delivery answers: the EasyRoutes driver \<^verbatim>\<open>drivers/easyroutes/driver.py\<close>, its mock twin
  \<^verbatim>\<open>drivers/mock/easyroutes.py\<close>, and the delivery-promise driver \<^verbatim>\<open>drivers/delivery/driver.py\<close>.  The
  vendor clients are parameters; a call that outlives its budget gives no answer.
\<close>

section \<open>Deliveries\<close>

record delivery =
  dl_order_number :: string
  dl_shopify_customer_id :: string
  dl_status :: string
  dl_stop_sequence :: json
  dl_eta_window :: string
  dl_route_name :: string

fun nested :: "json \<Rightarrow> string list \<Rightarrow> json" where
  "nested node [] = node"
| "nested node (key # path) = (case node of JObj d \<Rightarrow> nested (get d key) path | _ \<Rightarrow> JNull)"

definition er_customer_gid :: "dict \<Rightarrow> string" where
  "er_customer_gid raw =
     (let candidate =
        or_else (get raw ''shopify_customer_id'')
        (or_else (get raw ''shopifyCustomerId'')
        (or_else (nested (JObj raw) [''customer'', ''shopify_customer_id''])
        (or_else (nested (JObj raw) [''customer'', ''id''])
        (or_else (nested (JObj raw) [''shopifyOrder'', ''customer'', ''id''])
        (or_else (nested (JObj raw) [''order'', ''customer_id''])
          (nested (JObj raw) [''order'', ''customer'', ''id'']))))));
        as_gid = (\<lambda>t. if starts_with t ''gid://'' then t else GID_CUSTOMER @ t) in
      case candidate of
        JStr s \<Rightarrow> (if s = [] then [] else as_gid s)
      | JInt n \<Rightarrow> as_gid (show_int n)
      | JBool b \<Rightarrow> as_gid (py_repr (JBool b))
      | _ \<Rightarrow> [])"

definition int_str :: "dict \<Rightarrow> string \<Rightarrow> string option" where
  "int_str raw key =
     (case get raw key of
        JInt n \<Rightarrow> (if n \<noteq> 0 then Some (show_int n) else None)
      | JBool b \<Rightarrow> (if b then Some (py_repr (JBool b)) else None)
      | JStr s \<Rightarrow> (if s \<notin> {[], ''0''} then Some s else None)
      | _ \<Rightarrow> None)"

text \<open>\<^verbatim>\<open>int(value)\<close> behind \<^verbatim>\<open>value.isdigit()\<close>, which also holds of superscripts; those raise.\<close>

definition int_of_digits :: "string \<Rightarrow> exn + int" where
  "int_of_digits s = (case py_int s of
      Some n \<Rightarrow> Inr n
    | None \<Rightarrow> Inl (PyError ''ValueError'' (''invalid literal for int() with base 10: '' @ repr_str s)))"

fun first_int :: "dict \<Rightarrow> string list \<Rightarrow> exn + json" where
  "first_int raw [] = Inr (JInt 0)"
| "first_int raw (k # ks) =
     (case get raw k of
        JInt n \<Rightarrow> Inr (JInt n)
      | JBool b \<Rightarrow> Inr (JBool b)
      | JStr s \<Rightarrow> (if str_isdigit s then map_sum id JInt (int_of_digits s) else first_int raw ks)
      | _ \<Rightarrow> first_int raw ks)"

definition opt_text :: "string option \<Rightarrow> string" where
  "opt_text s = (case s of None \<Rightarrow> [] | Some x \<Rightarrow> x)"

definition delivery_from_raw :: "json \<Rightarrow> exn + delivery" where
  "delivery_from_raw record' =
     ebind (need_obj record') (\<lambda>raw.
     ebind (first_int raw [''stop_sequence'', ''stopSequence'', ''stop_number'']) (\<lambda>stop.
     Inr \<lparr>dl_order_number = opt_text (opt_or
            (read_string raw [''order_number'', ''orderNumber'', ''orderName'', ''order_name'', ''name''])
            (int_str raw ''shopifyOrderId'')),
          dl_shopify_customer_id = er_customer_gid raw,
          dl_status = opt_text (read_string raw [''status'', ''delivery_status'', ''deliveryStatus'']),
          dl_stop_sequence = stop,
          dl_eta_window = opt_text (read_string raw
            [''eta_window'', ''etaWindow'', ''eta'', ''updatedArrival'', ''plannedArrival'']),
          dl_route_name = opt_text (read_string raw [''route_name'', ''routeName'', ''name''])\<rparr>))"

section \<open>Ownership\<close>

definition er_needs_verified :: exn where
  "er_needs_verified = ToolDriverError Policy_blocked ''EasyRoutes read requires a verified customer.''"

definition er_verified_customer_id :: "ctx \<Rightarrow> exn + string" where
  "er_verified_customer_id context =
     (case verified_customer_id (identity context) of None \<Rightarrow> Inl er_needs_verified | Some c \<Rightarrow> Inr c)"

definition no_delivery :: "string option \<Rightarrow> exn" where
  "no_delivery order_number = ToolDriverError Policy_blocked
     (''No delivery for order '' @ (case order_number of None \<Rightarrow> ''<missing>'' | Some n \<Rightarrow> n)
      @ '' owned by the verified customer.'')"

fun find_owned_delivery :: "json list \<Rightarrow> string \<Rightarrow> string option \<Rightarrow> exn + delivery" where
  "find_owned_delivery [] customer_id order_number = Inl (no_delivery order_number)"
| "find_owned_delivery (r # rs) customer_id order_number =
     ebind (delivery_from_raw r) (\<lambda>d.
     if Some (dl_order_number d) = order_number \<and> dl_shopify_customer_id d = customer_id then Inr d
     else find_owned_delivery rs customer_id order_number)"

section \<open>The EasyRoutes driver\<close>

definition EASYROUTES_READ_TOOL :: string where
  "EASYROUTES_READ_TOOL = ''toee_easyroutes_read''"

record 's easyroutes =
  er_client :: "(string option \<Rightarrow> 's \<Rightarrow> (exn + json list) option \<times> 's) option"
  er_config_error :: "exn option"
  er_deadline :: string

definition delivery_status_json :: "delivery \<Rightarrow> json" where
  "delivery_status_json d =
     JObj [(''order_number'', JStr (dl_order_number d)), (''status'', JStr (dl_status d))]"

definition route_details_json :: "delivery \<Rightarrow> json" where
  "route_details_json d =
     JObj [(''order_number'', JStr (dl_order_number d)), (''stop_sequence'', dl_stop_sequence d),
       (''eta_window'', JStr (dl_eta_window d)), (''route_name'', JStr (dl_route_name d))]"

definition er_fetch_bounded :: "'s easyroutes \<Rightarrow> string option \<Rightarrow> 's \<Rightarrow> (exn + json list) \<times> 's" where
  "er_fetch_bounded er order_number s =
     under_deadline (''EasyRoutes fetch exceeded the '' @ er_deadline er @ ''ms deadline.'')
       (\<lambda>m. ''EasyRoutes call failed: '' @ m) (the (er_client er) order_number s)"

definition easyroutes_execute :: "'s easyroutes \<Rightarrow> request \<Rightarrow> ctx \<Rightarrow> 's \<Rightarrow> (exn + json) \<times> 's" where
  "easyroutes_execute er request context s =
     (case (er_config_error er, er_client er) of
        (Some e, _) \<Rightarrow> (Inl e, s)
      | (None, None) \<Rightarrow>
          (Inl (ToolDriverError Configuration_missing ''EasyRoutes driver is not configured.''), s)
      | (None, Some _) \<Rightarrow>
          (if rq_tool request \<noteq> EASYROUTES_READ_TOOL
           then (Inl (ToolDriverError Configuration_missing
             (''EasyRoutes driver does not serve '' @ repr_str (rq_tool request) @ ''.'')), s)
           else case er_verified_customer_id context of
             Inl e \<Rightarrow> (Inl e, s)
           | Inr customer_id \<Rightarrow>
               (let order_number = read_string (rq_params request) [''order_number'', ''orderNumber''] in
                case er_fetch_bounded er order_number s of
                  (Inl e, s') \<Rightarrow> (Inl e, s')
                | (Inr records, s') \<Rightarrow>
                    (ebind (find_owned_delivery records customer_id order_number) (\<lambda>d.
                     if rq_action request = ''get_delivery_status'' then Inr (delivery_status_json d)
                     else if rq_action request = ''get_route_details'' then Inr (route_details_json d)
                     else Inl (ToolDriverError Configuration_missing
                       (''No EasyRoutes mapping for action '' @ repr_str (rq_action request) @ ''.''))), s'))))"

definition er_secret :: "environ \<Rightarrow> string option" where
  "er_secret env = (if falsy (env ''EASYROUTES_SECRET'') then env ''EASYROUTES_API_TOKEN'' else env ''EASYROUTES_SECRET'')"

definition easyroutes_configured :: "environ \<Rightarrow> bool" where
  "easyroutes_configured env \<longleftrightarrow> \<not> falsy (er_secret env) \<and> \<not> falsy (env ''EASYROUTES_CLIENT_ID'')"

text \<open>\<^verbatim>\<open>_HttpEasyroutesClient.fetch_deliveries\<close>: not wired, it always fails closed.\<close>

definition http_fetch_deliveries :: "string option \<Rightarrow> 's \<Rightarrow> (exn + json list) option \<times> 's" where
  "http_fetch_deliveries order_number s =
     (Some (Inl (ToolDriverError Configuration_missing
       (''EasyRoutes order->delivery lookup is not wired: the API is ''
        @ ''route-centric (no per-order query) and a stop carries no customer ''
        @ ''link. Owner design decision pending (S29).''))), s)"

definition build_easyroutes_driver :: "environ \<Rightarrow> string \<Rightarrow> 's easyroutes" where
  "build_easyroutes_driver env deadline =
     (if falsy (er_secret env) \<or> falsy (env ''EASYROUTES_CLIENT_ID'')
      then \<lparr>er_client = None,
            er_config_error = Some (ToolDriverError Configuration_missing
              (''EasyRoutes credentials are not set; '' @ ''set EASYROUTES_SECRET (or EASYROUTES_API_TOKEN) and ''
               @ ''EASYROUTES_CLIENT_ID '' @ ''in the deployment env.'')),
            er_deadline = deadline\<rparr>
      else \<lparr>er_client = Some http_fetch_deliveries, er_config_error = None, er_deadline = deadline\<rparr>)"

section \<open>The mock twin\<close>

fun mock_find_owned :: "delivery list \<Rightarrow> string \<Rightarrow> string option \<Rightarrow> exn + delivery" where
  "mock_find_owned [] customer_id order_number = Inl (no_delivery order_number)"
| "mock_find_owned (d # ds) customer_id order_number =
     (if Some (dl_order_number d) = order_number \<and> dl_shopify_customer_id d = customer_id then Inr d
      else mock_find_owned ds customer_id order_number)"

text \<open>The identity is a dict or \<^verbatim>\<open>None\<close>; \<^verbatim>\<open>.get\<close> on anything else raises.\<close>

definition mock_er_customer_id :: "ctx \<Rightarrow> exn + string" where
  "mock_er_customer_id context =
     (case identity context of
        JNull \<Rightarrow> Inl er_needs_verified
      | ident \<Rightarrow> ebind (need_obj ident) (\<lambda>d.
          if get d ''outcome'' \<noteq> JStr ''verified_customer'' then Inl er_needs_verified
          else case get d ''shopify_customer_id'' of
            JStr c \<Rightarrow> (if c = [] then Inl er_needs_verified else Inr c)
          | _ \<Rightarrow> Inl er_needs_verified))"

definition mock_delivery_lookup ::
  "delivery list \<Rightarrow> (delivery \<Rightarrow> json) \<Rightarrow> dict \<Rightarrow> ctx \<Rightarrow> 's \<Rightarrow> (exn + json) \<times> 's" where
  "mock_delivery_lookup data shape params context s =
     (ebind (mock_er_customer_id context) (\<lambda>customer_id.
      ebind (mock_find_owned data customer_id (read_string params [''order_number'', ''orderNumber''])) (\<lambda>d.
      Inr (shape d))), s)"

definition easyroutes_mock_handlers :: "delivery list \<Rightarrow> 's handler_registry" where
  "easyroutes_mock_handlers data =
     [(EASYROUTES_READ_TOOL,
       [(''get_delivery_status'', mock_delivery_lookup data delivery_status_json),
        (''get_route_details'', mock_delivery_lookup data route_details_json)])]"

section \<open>The delivery-promise driver\<close>

definition DELIVERY_PROMISE_TOOL :: string where
  "DELIVERY_PROMISE_TOOL = ''toee_delivery_promise''"

fun read_text :: "dict \<Rightarrow> string list \<Rightarrow> string option" where
  "read_text params [] = None"
| "read_text params (k # ks) =
     (case get params k of
        JStr s \<Rightarrow> (if s \<noteq> [] then Some s else read_text params ks)
      | JInt n \<Rightarrow> Some (show_int n)
      | _ \<Rightarrow> read_text params ks)"

definition dp_needs_verified :: exn where
  "dp_needs_verified = ToolDriverError Policy_blocked ''Delivery read requires a verified customer.''"

definition verified_numeric_id :: "ctx \<Rightarrow> exn + string" where
  "verified_numeric_id context =
     (case shopify_numeric_customer_id (verified_customer_id (identity context)) of
        None \<Rightarrow> Inl dp_needs_verified | Some c \<Rightarrow> Inr c)"

definition quantity_of :: "dict \<Rightarrow> exn + int option" where
  "quantity_of params =
     (case get params ''quantity'' of
        JInt n \<Rightarrow> Inr (if n > 0 then Some n else None)
      | JStr s \<Rightarrow>
          (if str_isdigit (py_strip s)
           then ebind (int_of_digits (py_strip s)) (\<lambda>n. Inr (if n > 0 then Some n else None))
           else Inr None)
      | _ \<Rightarrow> Inr None)"

definition unexpected_shape :: "string \<Rightarrow> exn" where
  "unexpected_shape tier = ToolDriverError Configuration_missing
     (''Delivery-promise returned an unexpected Tier '' @ tier @ '' shape.'')"

text \<open>The block under \<open>key\<close> of a body without a truthy \<^verbatim>\<open>error\<close>.\<close>

definition tier_block :: "string \<Rightarrow> string \<Rightarrow> json \<Rightarrow> exn + dict \<times> dict" where
  "tier_block tier key body =
     (case body of
        JObj b \<Rightarrow>
          (case get b key of
             JObj block \<Rightarrow> (if truthy (get b ''error'') then Inl (unexpected_shape tier) else Inr (b, block))
           | _ \<Rightarrow> Inl (unexpected_shape tier))
      | _ \<Rightarrow> Inl (unexpected_shape tier))"

definition shape_order_delivery :: "json \<Rightarrow> string \<Rightarrow> exn + json" where
  "shape_order_delivery body order_ref =
     ebind (tier_block ''2'' ''delivery'' body) (\<lambda>(b, delivery).
     Inr (JObj [(''order_id'', get b ''orderId''),
       (''order_name'', or_else (get b ''orderName'') (JStr order_ref)), (''delivery'', JObj delivery)]))"

definition shape_product_promise :: "json \<Rightarrow> json \<Rightarrow> exn + json" where
  "shape_product_promise body product_ref =
     ebind (tier_block ''3a'' ''productDeliveryPromise'' body) (\<lambda>(b, promise).
     Inr (JObj [(''variant_id'', or_else (get b ''variantId'') product_ref), (''sku'', get b ''sku''),
       (''quantity'', get b ''quantity''), (''business_date'', get b ''businessDate''),
       (''timezone'', get b ''timezone''), (''product_delivery_promise'', JObj promise)]))"

definition shape_delivery_quote :: "json \<Rightarrow> string \<Rightarrow> json \<Rightarrow> exn + json" where
  "shape_delivery_quote body postal_code product_ref =
     ebind (tier_block ''3b'' ''productDeliveryPromise'' body) (\<lambda>(b, promise).
     Inr (JObj [(''postal_code'', or_else (get b ''postalCode'') (JStr postal_code)), (''fsa'', get b ''fsa''),
       (''variant_id'', or_else (get b ''variantId'') product_ref), (''sku'', get b ''sku''),
       (''quantity'', get b ''quantity''), (''product_delivery_promise'', JObj promise)]))"

record 's delivery_promise =
  dp_client :: "(dict \<Rightarrow> 's \<Rightarrow> (exn + json) option \<times> 's) option"
  dp_config_error :: "exn option"
  dp_deadline :: string

definition dp_fetch :: "'s delivery_promise \<Rightarrow> dict \<Rightarrow> 's \<Rightarrow> (exn + json) \<times> 's" where
  "dp_fetch dp payload s =
     under_deadline (''Delivery-promise call exceeded the '' @ dp_deadline dp @ ''ms deadline.'')
       (\<lambda>m. ''Delivery-promise call failed: '' @ m) (the (dp_client dp) payload s)"

text \<open>The product of a request, and the payload entries that name it with its quantity.\<close>

definition product_entries :: "dict \<Rightarrow> exn \<Rightarrow> exn + dict" where
  "product_entries params missing =
     (let sku = read_text params [''sku'']; variant_id = read_text params [''variant_id'', ''variantId''] in
      ebind (case (sku, variant_id) of
               (Some x, _) \<Rightarrow> Inr [(''sku'', JStr x)]
             | (None, Some v) \<Rightarrow> Inr [(''variantId'', JStr v)]
             | (None, None) \<Rightarrow> Inl missing) (\<lambda>entry.
      ebind (quantity_of params) (\<lambda>quantity.
      Inr (entry @ (case quantity of None \<Rightarrow> [] | Some n \<Rightarrow> [(''quantity'', JInt n)])))))"

definition product_ref :: "dict \<Rightarrow> json" where
  "product_ref params =
     opt_str (opt_or (read_text params [''variant_id'', ''variantId'']) (read_text params [''sku'']))"

definition requires :: "string \<Rightarrow> exn" where
  "requires what = ToolDriverError Policy_blocked (what @ ''.'')"

text \<open>The payload of an action and what becomes of the body, or the refusal before any call.\<close>

definition dp_plan :: "request \<Rightarrow> ctx \<Rightarrow> exn + dict \<times> (json \<Rightarrow> exn + json)" where
  "dp_plan request context =
     (let params = rq_params request in
      if rq_action request = ''get_delivery_quote''
      then (case read_text params [''postal_code'', ''postalCode''] of
              None \<Rightarrow> Inl (requires ''get_delivery_quote requires a postal code'')
            | Some postal_code \<Rightarrow>
                ebind (product_entries params (requires ''get_delivery_quote requires a sku'')) (\<lambda>entries.
                Inr ((''postalCode'', JStr postal_code) # entries,
                     \<lambda>body. shape_delivery_quote body postal_code (product_ref params))))
      else
        ebind (verified_numeric_id context) (\<lambda>cid.
        if rq_action request = ''get_order_delivery''
        then (case read_text params [''order_name'', ''order_number'', ''orderName'', ''orderNumber''] of
                None \<Rightarrow> Inl (requires ''get_order_delivery requires an order name'')
              | Some order_name \<Rightarrow>
                  Inr ([(''orderName'', JStr order_name), (''shopifyCustomerId'', JStr cid)],
                       \<lambda>body. shape_order_delivery body order_name))
        else if rq_action request = ''get_product_promise''
        then ebind (product_entries params (requires ''get_product_promise requires a sku'')) (\<lambda>entries.
             Inr ((''shopifyCustomerId'', JStr cid) # entries,
                  \<lambda>body. shape_product_promise body (product_ref params)))
        else Inl (ToolDriverError Configuration_missing
          (''No delivery-promise mapping for action '' @ repr_str (rq_action request) @ ''.''))))"

definition delivery_execute :: "'s delivery_promise \<Rightarrow> request \<Rightarrow> ctx \<Rightarrow> 's \<Rightarrow> (exn + json) \<times> 's" where
  "delivery_execute dp request context s =
     (case (dp_config_error dp, dp_client dp) of
        (Some e, _) \<Rightarrow> (Inl e, s)
      | (None, None) \<Rightarrow>
          (Inl (ToolDriverError Configuration_missing ''Delivery-promise driver is not configured.''), s)
      | (None, Some _) \<Rightarrow>
          (if rq_tool request \<noteq> DELIVERY_PROMISE_TOOL
           then (Inl (ToolDriverError Configuration_missing
             (''Delivery-promise driver does not serve '' @ repr_str (rq_tool request) @ ''.'')), s)
           else case dp_plan request context of
             Inl e \<Rightarrow> (Inl e, s)
           | Inr (payload, shape) \<Rightarrow>
               (case dp_fetch dp payload s of
                  (Inl e, s') \<Rightarrow> (Inl e, s') | (Inr body, s') \<Rightarrow> (shape body, s'))))"

section \<open>Its HTTP client\<close>

definition http_error_class :: "nat \<Rightarrow> error_class" where
  "http_error_class c =
     (if c \<in> {401, 403} then Auth_expired else if c = 404 then Not_found
      else if c = 503 then Vendor_timeout else Configuration_missing)"

definition dp_request :: "string \<Rightarrow> string \<Rightarrow> dict \<Rightarrow> http_request" where
  "dp_request base_url api_key payload =
     \<lparr>hr_method = ''POST'',
      hr_url = rstrip_by (\<lambda>c. c = CHR ''/'') base_url @ ''/internal/hermes/delivery-promise'',
      hr_body = Some (JObj payload),
      hr_headers = [(''Authorization'', ''Bearer '' @ api_key), (''Content-Type'', ''application/json''),
        (''Accept'', ''application/json''), (''User-Agent'', ''toee-hermes/0.0.4 (+delivery-promise)'')]\<rparr>"

definition http_fetch_promise ::
  "http \<Rightarrow> (string \<Rightarrow> json option) \<Rightarrow> string \<Rightarrow> string \<Rightarrow> dict \<Rightarrow> exn + json" where
  "http_fetch_promise http loads base_url api_key payload =
     (case http (dp_request base_url api_key payload) of
        Http_error c \<Rightarrow> Inl (ToolDriverError (http_error_class c) (''Delivery HTTP '' @ show_nat c @ ''.''))
      | Url_error reason \<Rightarrow> Inl (ToolDriverError Vendor_timeout
          (''Delivery request failed: '' @ reason @ ''.''))
      | Http_body body \<Rightarrow> (case loads body of
          None \<Rightarrow> Inl (ToolDriverError Configuration_missing ''Delivery-promise returned an unparseable body.'')
        | Some (JObj d) \<Rightarrow> Inr (JObj d)
        | Some _ \<Rightarrow> Inl (ToolDriverError Configuration_missing ''Delivery-promise returned a non-object body.'')))"

definition delivery_promise_configured :: "environ \<Rightarrow> bool" where
  "delivery_promise_configured env \<longleftrightarrow> \<not> falsy (env API_KEY_ENV)"

definition build_delivery_promise_driver ::
  "environ \<Rightarrow> http \<Rightarrow> (string \<Rightarrow> json option) \<Rightarrow> string
     \<Rightarrow> ((exn + json) \<Rightarrow> 's \<Rightarrow> (exn + json) option \<times> 's) \<Rightarrow> 's delivery_promise" where
  "build_delivery_promise_driver env http loads deadline timed =
     (if falsy (env API_KEY_ENV)
      then \<lparr>dp_client = None,
            dp_config_error = Some (ToolDriverError Configuration_missing
              (''Delivery-promise endpoint is not configured; set '' @ API_KEY_ENV @ '' ''
               @ ''(and optionally '' @ API_URL_ENV @ '') in the deployment env.'')),
            dp_deadline = deadline\<rparr>
      else \<lparr>dp_client = Some (\<lambda>payload. timed (http_fetch_promise http loads
              (py_strip (env_or env API_URL_ENV DEFAULT_API_URL)) (the (env API_KEY_ENV)) payload)),
            dp_config_error = None, dp_deadline = deadline\<rparr>)"

section \<open>Lemmas\<close>

lemma find_owned_deliveryD:
  "find_owned_delivery rs cid order_number = Inr d \<Longrightarrow>
     Some (dl_order_number d) = order_number \<and> dl_shopify_customer_id d = cid
     \<and> (\<exists>r \<in> set rs. delivery_from_raw r = Inr d)"
  by (induction rs) (auto simp: exn_simps split: if_splits)

lemma find_owned_delivery_mock:
  "map_exn delivery_from_raw rs = Inr data \<Longrightarrow>
     find_owned_delivery rs cid order_number = mock_find_owned data cid order_number"
  by (induction rs arbitrary: data) (auto simp: exn_simps)

lemma product_entries_keys:
  assumes "product_entries params e = Inr entries"
  shows "get entries ''shopifyCustomerId'' = JNull"
proof -
  from assms obtain k v quantity where "k = ''sku'' \<or> k = ''variantId''"
    and e: "entries = (k, v) # (case quantity of None \<Rightarrow> [] | Some n \<Rightarrow> [(''quantity'', JInt n)])"
    by (cases "read_text params [''sku'']"; cases "read_text params [''variant_id'', ''variantId'']")
      (auto simp only: product_entries_def Let_def exn_simps prod.case option.case append.simps sum.simps)
  then have "''shopifyCustomerId'' \<notin> fst ` set entries" by (cases quantity) auto
  then have "map_of entries ''shopifyCustomerId'' = None" by (simp only: map_of_eq_None_iff not_False_eq_True)
  then show ?thesis by (simp add: get_def get_or_def)
qed

lemma dp_plan_scoped:
  assumes "dp_plan request context = Inr (payload, shape)"
  shows "if rq_action request = ''get_delivery_quote'' then get payload ''shopifyCustomerId'' = JNull
    else \<exists>cid. shopify_numeric_customer_id (verified_customer_id (identity context)) = Some cid
      \<and> get payload ''shopifyCustomerId'' = JStr cid"
proof (cases "rq_action request = ''get_delivery_quote''")
  case True
  with assms show ?thesis
    by (auto simp: dp_plan_def Let_def exn_simps dict_simps dest: product_entries_keys split: option.splits)
next
  case False
  with assms obtain cid where "verified_numeric_id context = Inr cid"
    "get payload ''shopifyCustomerId'' = JStr cid"
    by (auto simp: dp_plan_def Let_def exn_simps dict_simps split: option.splits if_splits)
  with False show ?thesis by (auto simp: verified_numeric_id_def split: option.splits)
qed

lemma snd_under_deadline: "snd (under_deadline t msg p) = snd p"
  by (auto simp: under_deadline_def split: prod.splits option.splits)

section \<open>Properties\<close>

text \<open>A delivery question that reaches the vendor carries the id of the verified
  customer, unless it is the public quote, which carries no customer; an unverified caller's other
  questions are refused and leave the world as it was.\<close>

theorem delivery_calls_scoped:
  assumes "delivery_execute dp request context s = (res, s')"
  shows "(s' = s \<and> (\<exists>e. res = Inl e))
    \<or> (\<exists>client payload. dp_client dp = Some client \<and> s' = snd (client payload s)
        \<and> (if rq_action request = ''get_delivery_quote'' then get payload ''shopifyCustomerId'' = JNull
           else \<exists>cid. shopify_numeric_customer_id (verified_customer_id (identity context)) = Some cid
             \<and> get payload ''shopifyCustomerId'' = JStr cid))"
proof (cases "\<exists>client. dp_config_error dp = None \<and> dp_client dp = Some client
    \<and> rq_tool request = DELIVERY_PROMISE_TOOL \<and> (\<exists>p. dp_plan request context = Inr p)")
  case True
  then obtain client payload shape where c: "dp_config_error dp = None" "dp_client dp = Some client"
    "rq_tool request = DELIVERY_PROMISE_TOOL" "dp_plan request context = Inr (payload, shape)" by force
  have "s' = snd (dp_fetch dp payload s)"
    using assms c by (auto simp: delivery_execute_def split: prod.splits sum.splits)
  then have "s' = snd (client payload s)" using c(2) by (simp add: dp_fetch_def snd_under_deadline)
  with c(2) dp_plan_scoped [OF c(4)] show ?thesis by blast
next
  case False
  have "s' = s \<and> (\<exists>e. res = Inl e)"
  proof (cases "dp_plan request context")
    case (Inl e)
    with assms show ?thesis by (auto simp: delivery_execute_def split: option.splits if_splits)
  next
    case (Inr p)
    with assms False show ?thesis by (auto simp: delivery_execute_def split: option.splits if_splits)
  qed
  then show ?thesis by blast
qed

definition silent_vendor :: "dict list delivery_promise" where
  "silent_vendor = \<lparr>dp_client = Some (\<lambda>payload s. (None, s @ [payload])), dp_config_error = None, dp_deadline = ''8000''\<rparr>"

definition order_question :: request where
  "order_question = \<lparr>rq_tool = ''toee_delivery_promise'', rq_action = ''get_order_delivery'',
     rq_params = [(''order_name'', JStr ''OL1''), (''shopifyCustomerId'', JStr ''2002'')]\<rparr>"

definition buyer_ctx :: ctx where
  "buyer_ctx = \<lparr>profile = ''external_customer'',
     identity = JObj [(''outcome'', JStr ''verified_customer''),
       (''shopify_customer_id'', JStr ''gid://shopify/Customer/1001'')],
     user_id = None, connected_account_id = None, ctx_conversation_id = None, ctx_sms_session_id = None\<rparr>"

theorem delivery_calls_scoped_witness:
  "\<exists>payload. delivery_execute silent_vendor order_question buyer_ctx []
      = (Inl (ToolDriverError Vendor_timeout ''Delivery-promise call exceeded the 8000ms deadline.''), [payload])
    \<and> get payload ''shopifyCustomerId'' = JStr ''1001''"
proof -
  have e: "delivery_execute silent_vendor order_question buyer_ctx []
      = (Inl (ToolDriverError Vendor_timeout ''Delivery-promise call exceeded the 8000ms deadline.''),
         [[(''orderName'', JStr ''OL1''), (''shopifyCustomerId'', JStr ''1001'')]])"
    by code_simp
  have v: "shopify_numeric_customer_id (verified_customer_id (identity buyer_ctx)) = Some ''1001''"
    by code_simp
  have "rq_action order_question \<noteq> ''get_delivery_quote''" by (simp add: order_question_def)
  with delivery_calls_scoped [OF e] v obtain client payload where
    "dp_client silent_vendor = Some client"
    "[[(''orderName'', JStr ''OL1''), (''shopifyCustomerId'', JStr ''1001'')]] = snd (client payload [])"
    "get payload ''shopifyCustomerId'' = JStr ''1001''" by auto
  moreover from this have "[[(''orderName'', JStr ''OL1''), (''shopifyCustomerId'', JStr ''1001'')]] = [payload]"
    by (auto simp: silent_vendor_def)
  ultimately show ?thesis using e by metis
qed

text \<open>Fed the deliveries its vendor returns, the mock answers every EasyRoutes
  request as the live driver does, refusals included.\<close>

theorem easyroutes_is_its_mock:
  assumes "er_config_error er = None" and "er_client er = Some client"
    and "\<And>order_number. client order_number s = (Some (Inr records), s')"
    and "map_exn delivery_from_raw records = Inr data"
    and "identity context = JNull \<or> is_obj (identity context)"
    and "rq_tool request = ''toee_easyroutes_read''"
    and "rq_action request \<in> {''get_delivery_status'', ''get_route_details''}"
  shows "fst (easyroutes_execute er request context s)
    = fst (mock_driver_execute (easyroutes_mock_handlers data) request context s)"
proof -
  have v: "mock_er_customer_id context = er_verified_customer_id context"
    using assms(5) by (auto simp: mock_er_customer_id_def er_verified_customer_id_def verified_customer_id_def
        is_obj_def need_obj_def exn_simps split: json.splits)
  have f: "er_fetch_bounded er o' s = (Inr records, s')" for o'
    using assms(2,3) by (simp add: er_fetch_bounded_def under_deadline_def governed_def)
  let ?o = "read_string (rq_params request) [''order_number'', ''orderNumber'']"
  have live: "fst (easyroutes_execute er request context s) =
      ebind (er_verified_customer_id context) (\<lambda>cid. ebind (mock_find_owned data cid ?o) (\<lambda>d.
        Inr ((if rq_action request = ''get_delivery_status'' then delivery_status_json else route_details_json) d)))"
    using assms(1,2,6,7) f find_owned_delivery_mock [OF assms(4)]
    by (cases "er_verified_customer_id context")
      (auto simp: easyroutes_execute_def EASYROUTES_READ_TOOL_def exn_simps Let_def)
  show ?thesis
    using assms(6,7) unfolding live
    by (auto simp: mock_driver_execute_def easyroutes_mock_handlers_def EASYROUTES_READ_TOOL_def
        mock_delivery_lookup_def v)
qed

definition stop_1042 :: json where
  "stop_1042 = JObj [(''orderName'', JStr ''1042''), (''deliveryStatus'', JStr ''in_transit''),
     (''order'', JObj [(''customer_id'', JInt 1001)])]"

definition one_stop_vendor :: "unit easyroutes" where
  "one_stop_vendor = \<lparr>er_client = Some (\<lambda>n s. (Some (Inr [stop_1042]), s)), er_config_error = None,
     er_deadline = ''8000''\<rparr>"

definition status_question :: request where
  "status_question = \<lparr>rq_tool = ''toee_easyroutes_read'', rq_action = ''get_delivery_status'',
     rq_params = [(''order_number'', JStr ''1042'')]\<rparr>"

theorem easyroutes_is_its_mock_witness:
  "\<exists>data. fst (mock_driver_execute (easyroutes_mock_handlers data) status_question buyer_ctx ())
     = Inr (JObj [(''order_number'', JStr ''1042''), (''status'', JStr ''in_transit'')])"
proof -
  have "\<exists>d. map_exn delivery_from_raw [stop_1042] = Inr [d]"
    by (simp add: stop_1042_def delivery_from_raw_def need_obj_def exn_simps dict_simps)
  then obtain d where d: "map_exn delivery_from_raw [stop_1042] = Inr [d]" by blast
  have "fst (easyroutes_execute one_stop_vendor status_question buyer_ctx ())
      = fst (mock_driver_execute (easyroutes_mock_handlers [d]) status_question buyer_ctx ())"
    by (rule easyroutes_is_its_mock [OF _ _ _ d])
      (simp_all add: one_stop_vendor_def status_question_def buyer_ctx_def is_obj_def)
  moreover have "easyroutes_execute one_stop_vendor status_question buyer_ctx ()
      = (Inr (JObj [(''order_number'', JStr ''1042''), (''status'', JStr ''in_transit'')]), ())"
    by code_simp
  ultimately show ?thesis by (metis fst_conv)
qed

end
