(* ===== verification/IdentityLookup.thy ===== *)
theory IdentityLookup
  imports Cases PyObjects "HOL-Library.List_Lexorder" "HOL-Library.Char_ord"
begin

text \<open>
  Who a caller is: \<^verbatim>\<open>datastore/handlers/identity.py\<close> over the \<^verbatim>\<open>identity_link\<close> table, the Shopify fallback
  \<^verbatim>\<open>datastore/shopify_identity.py\<close> with its time budget, and the phone matching of
  \<^verbatim>\<open>identity/shopify_phone.py\<close>.  The vendor and the monotonic clock are parameters on a world of their own;
  times are microseconds.
\<close>

section \<open>Customers of the vendor\<close>

text \<open>A non-blank text, stripped.\<close>

definition stripped_text :: "json \<Rightarrow> string option" where
  "stripped_text j = (case j of JStr s \<Rightarrow> (if py_strip s \<noteq> [] then Some (py_strip s) else None) | _ \<Rightarrow> None)"

definition customer_display_name :: "dict \<Rightarrow> string" where
  "customer_display_name customer =
     (case stripped_text (get customer ''company'') of
        Some c \<Rightarrow> c
      | None \<Rightarrow>
          (case (case get customer ''default_address'' of
                   JObj a \<Rightarrow> stripped_text (get a ''company'') | _ \<Rightarrow> None) of
             Some c \<Rightarrow> c
           | None \<Rightarrow>
               (let name = py_strip (py_str (or_else (get customer ''first_name'') (JStr [])) @ '' ''
                                     @ py_str (or_else (get customer ''last_name'') (JStr []))) in
                if name \<noteq> [] then name
                else case shopify_customer_gid (get customer ''id'') of
                  Some gid \<Rightarrow> rsplit_last CHR ''/'' gid
                | None \<Rightarrow> ''Shopify customer'')))"

text \<open>\<^verbatim>\<open>normalize_e164\<close> raises nothing, so the \<^verbatim>\<open>except\<close> branch is never taken.\<close>

definition normalize_phone :: "json \<Rightarrow> string option" where
  "normalize_phone v =
     (case v of JStr s \<Rightarrow> (if py_strip s = [] then None else Some (normalize_e164 s)) | _ \<Rightarrow> None)"

definition filter_customers_by_phone :: "dict list \<Rightarrow> string \<Rightarrow> dict list" where
  "filter_customers_by_phone customers phone =
     (case normalize_phone (JStr phone) of
        None \<Rightarrow> []
      | Some target \<Rightarrow> filter (\<lambda>c. normalize_phone (get c ''phone'') = Some target) customers)"

record phone_match =
  pm_customer_id :: string
  pm_display_name :: string

definition unwrap_customers :: "dict \<Rightarrow> dict list" where
  "unwrap_customers raw =
     (let payload = (case get raw ''response_data'' of JObj inner \<Rightarrow> inner | _ \<Rightarrow> raw) in
      case get payload ''customers'' of
        JList rows \<Rightarrow> List.map_filter as_obj rows
      | _ \<Rightarrow> [])"

definition shape_matches :: "dict list \<Rightarrow> string \<Rightarrow> phone_match list" where
  "shape_matches customers phone =
     List.map_filter (\<lambda>c. map_option (\<lambda>gid. \<lparr>pm_customer_id = gid, pm_display_name = customer_display_name c\<rparr>)
        (shopify_customer_gid (get c ''id'')))
       (filter_customers_by_phone customers phone)"

section \<open>The bounded lookup\<close>

definition SEARCH_ACTION :: string where "SEARCH_ACTION = ''SHOPIFY_GET_CUSTOMERS_SEARCH''"
definition LIST_ACTION :: string where "LIST_ACTION = ''SHOPIFY_LIST_CUSTOMERS''"
definition PAGE_SIZE :: nat where "PAGE_SIZE = 250"
definition MAX_SCAN_PAGES :: nat where "MAX_SCAN_PAGES = 40"

text \<open>
  The Composio client of the environment (absent when not configured), the clock, and the budget of
  one call (\<^verbatim>\<open>deadline_seconds()\<close>).
\<close>

record 's shop_api =
  sa_call :: "(string \<Rightarrow> dict \<Rightarrow> 's \<Rightarrow> (exn + dict) \<times> 's) option"
  sa_clock :: "'s \<Rightarrow> int \<times> 's"
  sa_call_budget :: int

definition lookup_budget :: "'s shop_api \<Rightarrow> int" where
  "lookup_budget api = 2 * sa_call_budget api"

definition execute_shopify :: "'s shop_api \<Rightarrow> string \<Rightarrow> dict \<Rightarrow> 's \<Rightarrow> (exn + dict) \<times> 's" where
  "execute_shopify api act params s =
     (case sa_call api of
        None \<Rightarrow> (Inl (ToolDriverError Configuration_missing ''Shopify identity fallback is not configured.''), s)
      | Some call \<Rightarrow>
          (case call act params s of
             (r, s') \<Rightarrow> (governed Composio_api_error
               (\<lambda>m. ''Shopify action '' @ [char_of (39 :: nat)] @ act @ [char_of (39 :: nat)]
                    @ '' failed during identity lookup: '' @ m) r, s')))"

definition search_queries :: "string \<Rightarrow> string list" where
  "search_queries phone =
     (let e164 = normalize_e164 phone;
          digits = lstrip_by (\<lambda>c. c = CHR ''+'') e164;
          more = (if starts_with digits ''1'' \<and> length digits = 11
                  then [''phone:'' @ tl digits, ''phone:'' @ digits] else []) in
      rev (remdups (rev ((''phone:'' @ e164) # more))))"

definition MISSING_TOOL_MARKERS :: "string list" where
  "MISSING_TOOL_MARKERS = [''not found'', ''does not exist'', ''no such'', ''unknown action'',
     ''not available'', ''unrecognized'', ''no tool'', ''invalid action'']"

definition is_missing_search_tool :: "exn \<Rightarrow> bool" where
  "is_missing_search_tool err =
     (let message = py_lower (exn_message err) in
      if \<not> occurs_in (py_lower SEARCH_ACTION) message then False
      else list_ex (\<lambda>m. occurs_in m message) MISSING_TOOL_MARKERS)"

fun search_loop ::
  "'s shop_api \<Rightarrow> string \<Rightarrow> int \<Rightarrow> bool \<Rightarrow> string list \<Rightarrow> 's \<Rightarrow> (exn + phone_match list option) \<times> 's" where
  "search_loop api phone deadline available [] s = (Inr (if available then Some [] else None), s)"
| "search_loop api phone deadline available (q # qs) s =
     (let (t, s1) = sa_clock api s in
      if t \<ge> deadline - sa_call_budget api then (Inr (if available then Some [] else None), s1)
      else case execute_shopify api SEARCH_ACTION [(''query'', JStr q), (''limit'', JInt 10)] s1 of
        (Inl err, s2) \<Rightarrow> (if is_missing_search_tool err then Inr None else Inl err, s2)
      | (Inr raw, s2) \<Rightarrow>
          (let matches = shape_matches (unwrap_customers raw) phone in
           if matches \<noteq> [] then (Inr (Some matches), s2)
           else search_loop api phone deadline True qs s2))"

definition lookup_via_search ::
  "'s shop_api \<Rightarrow> string \<Rightarrow> int \<Rightarrow> 's \<Rightarrow> (exn + phone_match list option) \<times> 's" where
  "lookup_via_search api phone deadline s = search_loop api phone deadline False (search_queries phone) s"

definition scan_params :: "string \<Rightarrow> dict" where
  "scan_params since_id =
     [(''limit'', JInt (int PAGE_SIZE)),
      (''fields'', JStr ''id,phone,first_name,last_name,company,default_address'')]
     @ (if since_id = [] then [] else [(''since_id'', JStr since_id)])"

fun scan_pages ::
  "'s shop_api \<Rightarrow> string \<Rightarrow> int \<Rightarrow> nat \<Rightarrow> string \<Rightarrow> 's \<Rightarrow> (exn + phone_match list) \<times> 's" where
  "scan_pages api phone deadline 0 since_id s = (Inr [], s)"
| "scan_pages api phone deadline (Suc pages) since_id s =
     (let (t, s1) = sa_clock api s in
      if t \<ge> deadline - sa_call_budget api then (Inr [], s1)
      else case execute_shopify api LIST_ACTION (scan_params since_id) s1 of
        (Inl err, s2) \<Rightarrow> (Inl err, s2)
      | (Inr raw, s2) \<Rightarrow>
          (let customers = unwrap_customers raw; matches = shape_matches customers phone in
           if customers = [] then (Inr [], s2)
           else if matches \<noteq> [] then (Inr matches, s2)
           else
             let next = py_str (or_else (get (last customers) ''id'') (JStr [])) in
             if next = [] \<or> length customers < PAGE_SIZE then (Inr [], s2)
             else scan_pages api phone deadline pages next s2))"

definition lookup_via_pagination :: "'s shop_api \<Rightarrow> string \<Rightarrow> int \<Rightarrow> 's \<Rightarrow> (exn + phone_match list) \<times> 's" where
  "lookup_via_pagination api phone deadline s = scan_pages api phone deadline MAX_SCAN_PAGES [] s"

definition lookup_shopify_customers_by_phone ::
  "'s shop_api \<Rightarrow> string \<Rightarrow> 's \<Rightarrow> (exn + phone_match list option) \<times> 's" where
  "lookup_shopify_customers_by_phone api phone s =
     (if sa_call api = None then (Inr None, s)
      else
        let (t, s1) = sa_clock api s; deadline = t + lookup_budget api in
        case lookup_via_search api phone deadline s1 of
          (Inl err, s2) \<Rightarrow> (Inl err, s2)
        | (Inr (Some matches), s2) \<Rightarrow> (Inr (Some matches), s2)
        | (Inr None, s2) \<Rightarrow>
            (case lookup_via_pagination api phone deadline s2 of
               (Inl err, s3) \<Rightarrow> (Inl err, s3) | (Inr matches, s3) \<Rightarrow> (Inr (Some matches), s3)))"

section \<open>Handlers\<close>

text \<open>
  A handler asks the vendor at most once, always for the identity it is called with: \<open>lk\<close> is what that
  lookup gives in this call.
\<close>

type_synonym phone_lookup = "string \<Rightarrow> exn + phone_match list option"

definition with_resolved_at :: "dict \<Rightarrow> dict \<Rightarrow> json" where
  "with_resolved_at result params =
     JObj (result @ (case read_string params [''resolved_at'', ''resolvedAt''] of
       None \<Rightarrow> [] | Some t \<Rightarrow> [(''resolved_at'', JStr t)]))"

definition upsert_identity_link ::
  "exec_env \<Rightarrow> string \<Rightarrow> string \<Rightarrow> string \<Rightarrow> db \<Rightarrow> exn + db" where
  "upsert_identity_link ex channel channel_identity cid d =
     (let hit = (\<lambda>r. l_channel r = channel \<and> l_channel_identity r = channel_identity
                   \<and> l_shopify_customer_id r = Some cid) in
      if list_ex hit (db_links d)
      then Inr (d\<lparr>db_links := update_where hit (\<lambda>r. r\<lparr>l_match_status := ''verified''\<rparr>) (db_links d)\<rparr>)
      else ebind (pk_insert l_id \<lparr>l_id = new_id ''idl'' ex 0, l_channel = channel,
               l_channel_identity = channel_identity, l_shopify_customer_id = Some cid,
               l_match_status = ''verified''\<rparr> (db_links d)) (\<lambda>rows.
           Inr (d\<lparr>db_links := rows\<rparr>)))"

definition unmatched :: dict where
  "unmatched = [(''outcome'', JStr ''unmatched_caller'')]"

definition ambiguous :: "string list \<Rightarrow> dict" where
  "ambiguous ids = [(''outcome'', JStr ''ambiguous_phone_match''), (''shopify_customer_ids'', JList (map JStr ids))]"

definition verified_result :: "phone_match \<Rightarrow> dict \<Rightarrow> json" where
  "verified_result m params = with_resolved_at
     [(''outcome'', JStr ''verified_customer''), (''shopify_customer_id'', JStr (pm_customer_id m)),
      (''company_name'', JStr (pm_display_name m))] params"

definition shopify_phone_fallback ::
  "phone_lookup \<Rightarrow> exec_env \<Rightarrow> string \<Rightarrow> string \<Rightarrow> dict \<Rightarrow> db \<Rightarrow> exn + json option \<times> db" where
  "shopify_phone_fallback lk ex channel channel_identity params d =
     (if channel \<noteq> ''sms'' then Inr (None, d)
      else ebind (lk channel_identity) (\<lambda>found.
        case found of
          None \<Rightarrow> Inr (None, d)
        | Some [] \<Rightarrow> Inr (Some (with_resolved_at unmatched params), d)
        | Some [m] \<Rightarrow>
            ebind (upsert_identity_link ex channel channel_identity (pm_customer_id m) d) (\<lambda>d'.
            Inr (Some (verified_result m params), d'))
        | Some ms \<Rightarrow> Inr (Some (with_resolved_at (ambiguous (map pm_customer_id ms)) params), d)))"

definition display_name_from_snapshots :: "string \<Rightarrow> string \<Rightarrow> db \<Rightarrow> string option" where
  "display_name_from_snapshots channel channel_identity d =
     (case order_desc n_captured_at (filter (\<lambda>r. n_channel r = channel \<and> n_channel_identity r = channel_identity
           \<and> outcome_text (n_match_result r) = Some ''verified_customer'') (db_snapshots d)) of
        [] \<Rightarrow> None
      | row # _ \<Rightarrow> display_name_from_match_result (n_match_result row))"

definition enrich_company_name ::
  "phone_lookup \<Rightarrow> string \<Rightarrow> string \<Rightarrow> string \<Rightarrow> dict \<Rightarrow> exn + dict" where
  "enrich_company_name lk channel channel_identity cid result =
     (if truthy (get result ''company_name'') \<or> channel \<noteq> ''sms'' then Inr result
      else ebind (lk channel_identity) (\<lambda>found.
        Inr (case List.find (\<lambda>m. pm_customer_id m = cid) (case found of None \<Rightarrow> [] | Some ms \<Rightarrow> ms) of
          None \<Rightarrow> result
        | Some m \<Rightarrow> result @ [(''company_name'', JStr (pm_display_name m))])))"

definition verified_from_link ::
  "phone_lookup \<Rightarrow> string \<Rightarrow> string \<Rightarrow> string \<Rightarrow> dict \<Rightarrow> db \<Rightarrow> exn + json" where
  "verified_from_link lk channel channel_identity cid params d =
     (let company = display_name_from_snapshots channel channel_identity d in
      ebind (enrich_company_name lk channel channel_identity cid
        ([(''outcome'', JStr ''verified_customer''), (''shopify_customer_id'', JStr cid)]
         @ (if falsy company then [] else [(''company_name'', JStr (the company))])))
        (\<lambda>result. Inr (with_resolved_at result params)))"

definition linked_ids :: "string \<Rightarrow> string \<Rightarrow> db \<Rightarrow> string list" where
  "linked_ids channel channel_identity d =
     sort (remdups (List.map_filter (\<lambda>r. if l_channel r = channel \<and> l_channel_identity r = channel_identity
        then l_shopify_customer_id r else None) (db_links d)))"

definition match_identity ::
  "phone_lookup \<Rightarrow> exec_env \<Rightarrow> string \<Rightarrow> string option \<Rightarrow> dict \<Rightarrow> db \<Rightarrow> exn + json \<times> db" where
  "match_identity lk ex channel channel_identity params d =
     (case channel_identity of
        None \<Rightarrow> Inr (with_resolved_at unmatched params, d)
      | Some ci \<Rightarrow>
          (case linked_ids channel ci d of
             [] \<Rightarrow>
               ebind (shopify_phone_fallback lk ex channel ci params d) (\<lambda>(fallback, d').
               Inr (case fallback of Some r \<Rightarrow> r | None \<Rightarrow> with_resolved_at unmatched params, d'))
           | [cid] \<Rightarrow> ebind (verified_from_link lk channel ci cid params d) (\<lambda>r. Inr (r, d))
           | ids \<Rightarrow> Inr (with_resolved_at (ambiguous ids) params, d)))"

definition channel_param :: "dict \<Rightarrow> string" where
  "channel_param params = (case read_string params [''channel''] of None \<Rightarrow> ''sms'' | Some c \<Rightarrow> c)"

definition match_phone :: "phone_lookup \<Rightarrow> exec_env \<Rightarrow> dict \<Rightarrow> ctx \<Rightarrow> db \<Rightarrow> (exn + json) \<times> db" where
  "match_phone lk ex params context d =
     as_handler d (match_identity lk ex (channel_param params)
       (read_string params [''phone'', ''from_phone'', ''fromPhone'']) params d)"

definition match_email_sender :: "phone_lookup \<Rightarrow> exec_env \<Rightarrow> dict \<Rightarrow> ctx \<Rightarrow> db \<Rightarrow> (exn + json) \<times> db" where
  "match_email_sender lk ex params context d =
     as_handler d (match_identity lk ex ''email'' (read_string params [''from_address'', ''fromAddress'']) params d)"

definition link_identity :: "exec_env \<Rightarrow> dict \<Rightarrow> ctx \<Rightarrow> db \<Rightarrow> (exn + json) \<times> db" where
  "link_identity ex params context d =
     (let channel = channel_param params in
      case (read_string params [''channel_identity'', ''phone'', ''from_phone'', ''fromPhone''],
            read_string params [''shopify_customer_id'', ''shopifyCustomerId'']) of
        (None, _) \<Rightarrow> (Inl (ToolDriverError Unexpected_error ''channel_identity is required.''), d)
      | (Some _, None) \<Rightarrow> (Inl (ToolDriverError Unexpected_error ''shopify_customer_id is required.''), d)
      | (Some ci, Some cid) \<Rightarrow> as_handler d
          (ebind (upsert_identity_link ex channel ci cid d) (\<lambda>d'.
           Inr (JObj [(''outcome'', JStr ''linked''), (''channel'', JStr channel),
             (''channel_identity'', JStr ci), (''shopify_customer_id'', JStr cid)], d'))))"

definition get_email_link_status :: "exec_env \<Rightarrow> dict \<Rightarrow> ctx \<Rightarrow> db \<Rightarrow> (exn + json) \<times> db" where
  "get_email_link_status ex params context d =
     (let status = (\<lambda>b. JObj [(''status'', JStr (if b then ''linked'' else ''unlinked''))]) in
      (Inr (case (read_string params [''shopify_customer_id'', ''shopifyCustomerId''], read_string params [''email'']) of
         (Some cid, _) \<Rightarrow> status (list_ex (\<lambda>r. l_channel r = ''email'' \<and> l_shopify_customer_id r = Some cid) (db_links d))
       | (None, Some email) \<Rightarrow> status (list_ex (\<lambda>r. l_channel r = ''email'' \<and> l_channel_identity r = email) (db_links d))
       | (None, None) \<Rightarrow> status False), d))"

definition identity_handlers :: "phone_lookup \<Rightarrow> datastore_registry" where
  "identity_handlers lk =
     [(''toee_identity_lookup'',
       [(''match_phone'', on_work (match_phone lk)), (''match_email_sender'', on_work (match_email_sender lk)),
        (''get_email_link_status'', on_work get_email_link_status), (''link_identity'', on_work link_identity)])]"

section \<open>The time and the calls of a lookup\<close>

text \<open>
  A vendor whose calls last at most the call budget, over a clock that only they move; \<open>n\<close> counts them.
\<close>

definition paced :: "'s shop_api \<Rightarrow> ('s \<Rightarrow> int) \<Rightarrow> ('s \<Rightarrow> nat) \<Rightarrow> bool" where
  "paced api now n \<longleftrightarrow> 0 \<le> sa_call_budget api \<and> (\<forall>s. sa_clock api s = (now s, s)) \<and>
     (\<forall>c act params s. sa_call api = Some c \<longrightarrow>
        now s \<le> now (snd (c act params s)) \<and> now (snd (c act params s)) \<le> now s + sa_call_budget api
        \<and> n (snd (c act params s)) = Suc (n s))"

lemma paced_execute:
  assumes "paced api now n" and "sa_call api \<noteq> None"
    and "execute_shopify api act params s = (r, s')"
  shows "now s' \<le> now s + sa_call_budget api" and "n s' = Suc (n s)"
proof -
  from assms(2) obtain c where c: "sa_call api = Some c" by blast
  with assms(3) have s': "s' = snd (c act params s)"
    by (auto simp: execute_shopify_def split: prod.splits)
  from assms(1) c show "now s' \<le> now s + sa_call_budget api" "n s' = Suc (n s)"
    unfolding paced_def s' by blast+
qed

lemma search_loop_paced:
  assumes p: "paced api now n" and a: "sa_call api \<noteq> None"
  shows "search_loop api phone deadline available qs s = (r, s') \<Longrightarrow>
    now s' \<le> max (now s) deadline \<and> n s' \<le> n s + length qs"
proof (induction qs arbitrary: available s)
  case Nil
  then show ?case by auto
next
  case (Cons q qs)
  from p have ck: "sa_clock api s = (now s, s)" by (simp add: paced_def)
  show ?case
  proof (cases "now s \<ge> deadline - sa_call_budget api")
    case True
    with Cons.prems ck show ?thesis by auto
  next
    case False
    obtain x s2 where e: "execute_shopify api SEARCH_ACTION [(''query'', JStr q), (''limit'', JInt 10)] s = (x, s2)"
      by (cases "execute_shopify api SEARCH_ACTION [(''query'', JStr q), (''limit'', JInt 10)] s")
    note step = paced_execute [OF p a e]
    have d: "now s2 \<le> deadline" using False step(1) by linarith
    show ?thesis
    proof (cases x)
      case (Inl err)
      then have "s' = s2" using Cons.prems ck False e by (auto split: if_splits)
      with d step(2) show ?thesis by auto
    next
      case (Inr raw)
      show ?thesis
      proof (cases "shape_matches (unwrap_customers raw) phone = []")
        case True
        with Inr have "search_loop api phone deadline True qs s2 = (r, s')"
          using Cons.prems ck False e by simp
        from Cons.IH [OF this] d step(2) show ?thesis by auto
      next
        case f: False
        with Inr have "s' = s2" using Cons.prems ck False e by simp
        with d step(2) show ?thesis by auto
      qed
    qed
  qed
qed

lemma scan_pages_paced:
  assumes p: "paced api now n" and a: "sa_call api \<noteq> None"
  shows "scan_pages api phone deadline pages since s = (r, s') \<Longrightarrow>
    now s' \<le> max (now s) deadline \<and> n s' \<le> n s + pages"
proof (induction pages arbitrary: since s)
  case 0
  then show ?case by auto
next
  case (Suc pages)
  from p have ck: "sa_clock api s = (now s, s)" by (simp add: paced_def)
  show ?case
  proof (cases "now s \<ge> deadline - sa_call_budget api")
    case True
    with Suc.prems ck show ?thesis by auto
  next
    case False
    obtain x s2 where e: "execute_shopify api LIST_ACTION (scan_params since) s = (x, s2)"
      by (cases "execute_shopify api LIST_ACTION (scan_params since) s")
    note step = paced_execute [OF p a e]
    have d: "now s2 \<le> deadline" using False step(1) by linarith
    from Suc.prems ck False e have
      "s' = s2 \<or> (\<exists>since'. scan_pages api phone deadline pages since' s2 = (r, s'))"
      by (auto simp: Let_def split: sum.splits if_splits)
    then show ?thesis
    proof
      assume "s' = s2"
      with d step(2) show ?thesis by auto
    next
      assume "\<exists>since'. scan_pages api phone deadline pages since' s2 = (r, s')"
      with Suc.IH d step(2) show ?thesis by fastforce
    qed
  qed
qed

lemma length_search_queries: "length (search_queries phone) \<le> 3"
proof -
  have "length (rev (remdups (rev qs))) \<le> length qs" for qs :: "string list"
    using length_remdups_leq [of "rev qs"] by simp
  then show ?thesis
    unfolding search_queries_def Let_def
    by (rule order_trans) simp
qed

text \<open>One identity lookup runs on the path that acknowledges a webhook: when no vendor
  call overruns its own deadline, the whole lookup, search and catalog scan together, ends within two
  call budgets of its start and starts at most 43 calls, and it starts none without a configured vendor.\<close>

theorem lookup_within_budget:
  assumes "paced api now n" and "lookup_shopify_customers_by_phone api phone s = (r, s')"
  shows "now s' \<le> now s + 2 * sa_call_budget api \<and> n s' \<le> n s + 43
    \<and> (sa_call api = None \<longrightarrow> s' = s \<and> r = Inr None)"
proof -
  let ?d = "now s + lookup_budget api"
  from assms(1) have ck: "sa_clock api s = (now s, s)" and b: "0 \<le> sa_call_budget api"
    by (simp_all add: paced_def)
  show ?thesis
  proof (cases "sa_call api = None")
    case True
    with assms(2) b show ?thesis by (simp add: lookup_shopify_customers_by_phone_def)
  next
    case a: False
    obtain x s2 where e: "lookup_via_search api phone ?d s = (x, s2)"
      by (cases "lookup_via_search api phone ?d s")
    from search_loop_paced [OF assms(1) a e [unfolded lookup_via_search_def]] b
    have s2: "now s2 \<le> ?d" "n s2 \<le> n s + 3"
      using length_search_queries [of phone] by (auto simp: lookup_budget_def)
    show ?thesis
    proof (cases "x = Inr None")
      case False
      with assms(2) a ck e have "s' = s2"
        by (auto simp: lookup_shopify_customers_by_phone_def Let_def split: sum.splits option.splits)
      with s2 a show ?thesis by (auto simp: lookup_budget_def)
    next
      case True
      obtain y s3 where p: "scan_pages api phone ?d MAX_SCAN_PAGES [] s2 = (y, s3)"
        by (cases "scan_pages api phone ?d MAX_SCAN_PAGES [] s2")
      from scan_pages_paced [OF assms(1) a p] s2
      have "now s3 \<le> ?d" "n s3 \<le> n s + 43" by (auto simp: MAX_SCAN_PAGES_def)
      moreover from assms(2) a ck e True p have "s' = s3"
        by (auto simp: lookup_shopify_customers_by_phone_def lookup_via_pagination_def Let_def
            split: sum.splits)
      ultimately show ?thesis using a by (auto simp: lookup_budget_def)
    qed
  qed
qed

text \<open>A vendor that answers nothing useful and takes eight seconds for it.\<close>

definition slow_shop :: "(int \<times> nat) shop_api" where
  "slow_shop = \<lparr>sa_call = Some (\<lambda>act params (t, k). (Inr [], (t + 8000000, Suc k))),
     sa_clock = (\<lambda>s. (fst s, s)), sa_call_budget = 8000000\<rparr>"

theorem lookup_within_budget_witness:
  "fst (snd (lookup_shopify_customers_by_phone slow_shop ''4165550101'' (0, 0))) \<le> 16000000
   \<and> snd (snd (lookup_shopify_customers_by_phone slow_shop ''4165550101'' (0, 0))) \<le> 43"
proof -
  have p: "paced slow_shop fst snd" by (simp add: paced_def slow_shop_def split: prod.splits)
  show ?thesis
    using lookup_within_budget [OF p prod.collapse [symmetric], of "''4165550101''" "(0, 0)"]
    by (simp add: slow_shop_def)
qed

section \<open>Who is verified\<close>

definition outcome_of :: "json \<Rightarrow> json" where
  "outcome_of j = (case j of JObj d \<Rightarrow> get d ''outcome'' | _ \<Rightarrow> JNull)"

definition customer_of :: "json \<Rightarrow> json" where
  "customer_of j = (case j of JObj d \<Rightarrow> get d ''shopify_customer_id'' | _ \<Rightarrow> JNull)"

lemma of_with_resolved_at [simp]:
  "''outcome'' \<in> fst ` set result \<Longrightarrow> outcome_of (with_resolved_at result params) = get result ''outcome''"
  "''shopify_customer_id'' \<in> fst ` set result \<Longrightarrow>
    customer_of (with_resolved_at result params) = get result ''shopify_customer_id''"
  by (simp_all add: outcome_of_def customer_of_def with_resolved_at_def get_append_left)

lemma of_unmatched [simp]: "outcome_of (with_resolved_at unmatched params) = JStr ''unmatched_caller''"
  and of_ambiguous [simp]: "outcome_of (with_resolved_at (ambiguous ids) params) = JStr ''ambiguous_phone_match''"
  by (simp_all add: unmatched_def ambiguous_def dict_simps)

lemma verified_from_link_Inr:
  assumes "verified_from_link lk ch ci cid params d = Inr j"
  shows "outcome_of j = JStr ''verified_customer'' \<and> customer_of j = JStr cid"
proof -
  let ?base = "[(''outcome'', JStr ''verified_customer''), (''shopify_customer_id'', JStr cid)]"
  have e: "\<exists>m. r = ?base @ m" if "enrich_company_name lk ch ci cid (?base @ more) = Inr r" for r more
    using that by (auto simp: enrich_company_name_def exn_simps split: if_splits option.splits)
  from assms obtain more r where "enrich_company_name lk ch ci cid (?base @ more) = Inr r"
    and j: "j = with_resolved_at r params"
    by (auto simp: verified_from_link_def Let_def exn_simps)
  from e [OF this(1)] obtain m where "r = ?base @ m" by blast
  then show ?thesis unfolding j by (simp add: dict_simps)
qed

lemma verified_from_link_total:
  assumes "lk ci = Inr found"
  shows "\<exists>j. verified_from_link lk ch ci cid params d = Inr j"
proof -
  have "\<exists>r. enrich_company_name lk ch ci cid x = Inr r" for x
    using assms by (auto simp: enrich_company_name_def exn_simps)
  then show ?thesis by (auto simp: verified_from_link_def Let_def exn_simps)
qed

text \<open>What the links of a channel identity are after an upsert.\<close>

definition link_key :: "link_row \<Rightarrow> string \<times> string \<times> string option" where
  "link_key r = (l_channel r, l_channel_identity r, l_shopify_customer_id r)"

lemma set_map_filter: "y \<in> set (List.map_filter f xs) \<longleftrightarrow> (\<exists>x \<in> set xs. f x = Some y)"
  by (induction xs) (auto simp: List.map_filter_simps split: option.splits)

lemma set_linked_ids: "cid \<in> set (linked_ids ch ci d) \<longleftrightarrow> (ch, ci, Some cid) \<in> set (map link_key (db_links d))"
proof -
  have "cid \<in> set (linked_ids ch ci d) \<longleftrightarrow>
    (\<exists>r \<in> set (db_links d). l_channel r = ch \<and> l_channel_identity r = ci \<and> l_shopify_customer_id r = Some cid)"
    by (auto simp: linked_ids_def set_map_filter split: if_splits)
  also have "\<dots> \<longleftrightarrow> (\<exists>r \<in> set (db_links d). link_key r = (ch, ci, Some cid))"
    by (simp add: link_key_def)
  also have "\<dots> \<longleftrightarrow> (ch, ci, Some cid) \<in> set (map link_key (db_links d))"
    by (simp add: image_iff eq_commute)
  finally show ?thesis .
qed

lemma linked_ids_singleton: "linked_ids ch ci d = [cid] \<longleftrightarrow> set (linked_ids ch ci d) = {cid}"
proof
  assume s: "set (linked_ids ch ci d) = {cid}"
  have "distinct (linked_ids ch ci d)" by (simp add: linked_ids_def)
  with s show "linked_ids ch ci d = [cid]"
    by (cases "linked_ids ch ci d"; cases "tl (linked_ids ch ci d)") auto
qed simp

lemma linked_ids_Nil: "linked_ids ch ci d = [] \<longleftrightarrow> set (linked_ids ch ci d) = {}"
  by simp

lemma upsert_links:
  assumes "upsert_identity_link ex ch ci cid d = Inr d'"
  shows "set (linked_ids ch2 ci2 d') = set (linked_ids ch2 ci2 d) \<union> (if ch2 = ch \<and> ci2 = ci then {cid} else {})"
proof -
  let ?hit = "\<lambda>r. l_channel r = ch \<and> l_channel_identity r = ci \<and> l_shopify_customer_id r = Some cid"
  have "set (map link_key (db_links d')) = set (map link_key (db_links d)) \<union> {(ch, ci, Some cid)}"
  proof (cases "list_ex ?hit (db_links d)")
    case True
    with assms have "db_links d' = update_where ?hit (\<lambda>r. r\<lparr>l_match_status := ''verified''\<rparr>) (db_links d)"
      by (auto simp: upsert_identity_link_def)
    then have "map link_key (db_links d') = map link_key (db_links d)"
      by (simp add: update_where_keys link_key_def)
    moreover have "(ch, ci, Some cid) \<in> set (map link_key (db_links d))"
      using True by (force simp: link_key_def list_ex_iff)
    ultimately show ?thesis by auto
  next
    case False
    with assms show ?thesis
      by (auto simp: upsert_identity_link_def Let_def exn_simps pk_insert_Inr link_key_def)
  qed
  then show ?thesis by (auto simp: set_linked_ids set_eq_iff simp del: set_map split: if_splits)
qed

lemma upsert_links_total:
  assumes "new_id ''idl'' ex 0 \<notin> l_id ` set (db_links d)"
  shows "\<exists>d'. upsert_identity_link ex ch ci cid d = Inr d'"
  using assms by (auto simp: upsert_identity_link_def Let_def exn_simps pk_insert_Inr)

text \<open>C12.  A caller is taken for a verified customer only when that one customer is
  linked to the channel identity after the call: the link was there and the database is unchanged, or
  there was no link, the message came by text, and the vendor knows exactly one customer with the phone,
  who is now linked.\<close>

theorem verified_only_when_unique:
  assumes "match_phone lk ex params context d = (Inr j, d')" and "outcome_of j = JStr ''verified_customer''"
  shows "\<exists>ci cid. read_string params [''phone'', ''from_phone'', ''fromPhone''] = Some ci
    \<and> customer_of j = JStr cid \<and> linked_ids (channel_param params) ci d' = [cid]
    \<and> (d' = d \<or> linked_ids (channel_param params) ci d = [] \<and> channel_param params = ''sms''
        \<and> (\<exists>m. lk ci = Inr (Some [m]) \<and> pm_customer_id m = cid))"
proof -
  let ?ch = "channel_param params"
  from assms(1) have m: "match_identity lk ex ?ch (read_string params [''phone'', ''from_phone'', ''fromPhone'']) params d
      = Inr (j, d')"
    by (auto simp: match_phone_def as_handler_def split: sum.splits)
  with assms(2) obtain ci where ci: "read_string params [''phone'', ''from_phone'', ''fromPhone''] = Some ci"
    by (auto simp: match_identity_def split: option.splits)
  consider "linked_ids ?ch ci d = []" | cid where "linked_ids ?ch ci d = [cid]"
    | a b cs where "linked_ids ?ch ci d = a # b # cs"
    by (metis list.exhaust)
  then show ?thesis
  proof cases
    case 1
    from m 1 ci obtain f where f: "shopify_phone_fallback lk ex ?ch ci params d = Inr (f, d')"
      and j: "j = (case f of Some r \<Rightarrow> r | None \<Rightarrow> with_resolved_at unmatched params)"
      by (auto simp: match_identity_def exn_simps)
    with assms(2) obtain r where r: "f = Some r" "j = r" by (cases f) auto
    with f obtain ms where ms: "?ch = ''sms''" "lk ci = Inr (Some ms)"
      by (auto simp: shopify_phone_fallback_def exn_simps split: if_splits option.splits)
    obtain c where c: "ms = [c]" "upsert_identity_link ex ?ch ci (pm_customer_id c) d = Inr d'"
        "j = verified_result c params"
    proof (cases ms)
      case Nil
      with f r ms assms(2) show ?thesis by (auto simp: shopify_phone_fallback_def exn_simps)
    next
      case (Cons c cs)
      with f r ms assms(2) that show ?thesis
        by (cases cs) (auto simp: shopify_phone_fallback_def exn_simps)
    qed
    from upsert_links [OF c(2), of ?ch ci] 1 have "linked_ids ?ch ci d' = [pm_customer_id c]"
      by (simp add: linked_ids_singleton)
    moreover have "customer_of j = JStr (pm_customer_id c)"
      using c(3) by (simp add: verified_result_def dict_simps)
    ultimately show ?thesis using ci 1 c(1) ms by blast
  next
    case (2 cid)
    with m ci have "d' = d" and v: "verified_from_link lk ?ch ci cid params d = Inr j"
      by (auto simp: match_identity_def exn_simps)
    with 2 ci verified_from_link_Inr [OF v] show ?thesis by blast
  next
    case 3
    with m ci assms(2) show ?thesis by (auto simp: match_identity_def)
  qed
qed

definition wholesale_match :: phone_match where
  "wholesale_match = \<lparr>pm_customer_id = ''gid://shopify/Customer/7'', pm_display_name = ''Acme''\<rparr>"

theorem verified_only_when_unique_witness:
  "\<exists>j d'. match_phone (\<lambda>_. Inr (Some [wholesale_match])) (\<lparr>ee_now = 0, ee_hex = \<lambda>n. replicate n CHR ''0''\<rparr>)
      [(''phone'', JStr ''+14165550101'')] (rep_ctx ''acct_1'') empty_db = (Inr j, d')
    \<and> linked_ids ''sms'' ''+14165550101'' d' = [''gid://shopify/Customer/7'']"
proof -
  let ?ex = "\<lparr>ee_now = 0, ee_hex = \<lambda>n. replicate n CHR ''0''\<rparr>"
  let ?p = "[(''phone'', JStr ''+14165550101'')]"
  have ch: "channel_param ?p = ''sms''" by (simp add: channel_param_def dict_simps)
  have l0: "linked_ids ch ci empty_db = []" for ch ci by (simp add: set_linked_ids linked_ids_def empty_db_def List.map_filter_simps)
  have "new_id ''idl'' ?ex 0 \<notin> l_id ` set (db_links empty_db)" by (simp add: empty_db_def)
  from upsert_links_total [OF this] obtain d'
    where u: "upsert_identity_link ?ex ''sms'' ''+14165550101'' (pm_customer_id wholesale_match) empty_db = Inr d'"
    by blast
  then have r: "match_phone (\<lambda>_. Inr (Some [wholesale_match])) ?ex ?p (rep_ctx ''acct_1'') empty_db
      = (Inr (verified_result wholesale_match ?p), d')"
    by (simp add: match_phone_def ch as_handler_def match_identity_def dict_simps l0 shopify_phone_fallback_def exn_simps)
  from verified_only_when_unique [OF r] r ch show ?thesis
    by (auto simp: verified_result_def dict_simps wholesale_match_def)
qed

text \<open>A link given by hand is what the next match of that channel identity finds: the caller is
  verified as that customer when no other customer was linked, and ambiguous otherwise, with nothing
  written, whenever the vendor answers.\<close>

theorem link_then_match:
  assumes "link_identity ex params context d = (Inr r, d1)"
    and "read_string params [''channel_identity'', ''phone'', ''from_phone'', ''fromPhone''] = Some ci"
    and "read_string params [''shopify_customer_id'', ''shopifyCustomerId''] = Some cid"
    and "channel_param params2 = channel_param params"
    and "read_string params2 [''phone'', ''from_phone'', ''fromPhone''] = Some ci"
    and "lk ci = Inr found"
  shows "\<exists>j. match_phone lk ex2 params2 context2 d1 = (Inr j, d1)
    \<and> (if set (linked_ids (channel_param params) ci d) \<subseteq> {cid}
       then outcome_of j = JStr ''verified_customer'' \<and> customer_of j = JStr cid
       else outcome_of j = JStr ''ambiguous_phone_match'')"
proof -
  let ?ch = "channel_param params"
  from assms(1-3) have u: "upsert_identity_link ex ?ch ci cid d = Inr d1"
    by (auto simp: link_identity_def as_handler_def exn_simps Let_def split: sum.splits)
  from upsert_links [OF u, of ?ch ci]
  have l: "set (linked_ids ?ch ci d1) = insert cid (set (linked_ids ?ch ci d))" by simp
  show ?thesis
  proof (cases "set (linked_ids ?ch ci d) \<subseteq> {cid}")
    case True
    with l have l1: "linked_ids ?ch ci d1 = [cid]" by (auto simp: linked_ids_singleton)
    from verified_from_link_total [of lk ci, OF assms(6)]
    obtain j where v: "verified_from_link lk ?ch ci cid params2 d1 = Inr j" by blast
    with l1 assms(4,5) have "match_phone lk ex2 params2 context2 d1 = (Inr j, d1)"
      by (simp add: match_phone_def as_handler_def match_identity_def exn_simps)
    with verified_from_link_Inr [OF v] True show ?thesis by simp
  next
    case False
    with l have "\<not> (\<exists>c. linked_ids ?ch ci d1 = [c]) \<and> linked_ids ?ch ci d1 \<noteq> []"
      by (auto simp: linked_ids_singleton)
    then obtain a b cs where "linked_ids ?ch ci d1 = a # b # cs" by (metis list.exhaust)
    with assms(4,5) have "match_phone lk ex2 params2 context2 d1
        = (Inr (with_resolved_at (ambiguous (a # b # cs)) params2), d1)"
      by (simp add: match_phone_def as_handler_def match_identity_def)
    with False show ?thesis by simp
  qed
qed

theorem link_then_match_witness:
  "\<exists>d1 j. match_phone (\<lambda>_. Inr None) (\<lparr>ee_now = 0, ee_hex = \<lambda>n. replicate n CHR ''0''\<rparr>)
      [(''phone'', JStr ''+1''), (''channel'', JStr ''sms'')] (rep_ctx ''acct_1'') d1 = (Inr j, d1)
    \<and> customer_of j = JStr ''gid://shopify/Customer/7''"
proof -
  let ?ex = "\<lparr>ee_now = 0, ee_hex = \<lambda>n. replicate n CHR ''0''\<rparr>"
  let ?p = "[(''phone'', JStr ''+1''), (''shopify_customer_id'', JStr ''gid://shopify/Customer/7'')]"
  let ?p2 = "[(''phone'', JStr ''+1''), (''channel'', JStr ''sms'')]"
  have "new_id ''idl'' ?ex 0 \<notin> l_id ` set (db_links empty_db)" by (simp add: empty_db_def)
  from upsert_links_total [OF this] obtain d1
    where u: "upsert_identity_link ?ex ''sms'' ''+1'' ''gid://shopify/Customer/7'' empty_db = Inr d1" by blast
  then have "\<exists>r. link_identity ?ex ?p (rep_ctx ''acct_1'') empty_db = (Inr r, d1)"
    by (simp add: link_identity_def channel_param_def dict_simps as_handler_def exn_simps)
  then obtain r where r: "link_identity ?ex ?p (rep_ctx ''acct_1'') empty_db = (Inr r, d1)" by blast
  have l0: "linked_ids ch ci empty_db = []" for ch ci
    by (simp add: linked_ids_def empty_db_def List.map_filter_simps)
  have e: "read_string ?p [''channel_identity'', ''phone'', ''from_phone'', ''fromPhone''] = Some ''+1''"
    "read_string ?p [''shopify_customer_id'', ''shopifyCustomerId''] = Some ''gid://shopify/Customer/7''"
    "channel_param ?p2 = channel_param ?p"
    "read_string ?p2 [''phone'', ''from_phone'', ''fromPhone''] = Some ''+1''"
    by (simp_all add: dict_simps channel_param_def)
  from link_then_match [OF r e, of "\<lambda>_. Inr None" None ?ex "rep_ctx ''acct_1''"] l0 show ?thesis by auto
qed

text \<open>When a text's identity lookup raises, it is the vendor's error, and a customer who is
  linked is not exempt: the vendor is asked for the name of the one linked customer whenever no snapshot
  names them, and its failure fails the match.\<close>

theorem identity_error_iff:
  assumes "read_string params [''phone'', ''from_phone'', ''fromPhone''] = Some ci"
    and "channel_param params = ''sms''" and "new_id ''idl'' ex 0 \<notin> l_id ` set (db_links d)"
  shows "fst (match_phone lk ex params context d) = Inl e \<longleftrightarrow>
    lk ci = Inl e \<and> (linked_ids ''sms'' ci d = []
      \<or> (\<exists>cid. linked_ids ''sms'' ci d = [cid]) \<and> falsy (display_name_from_snapshots ''sms'' ci d))"
proof -
  have up: "\<exists>d'. upsert_identity_link ex ''sms'' ci cid d = Inr d'" for cid
    by (rule upsert_links_total [OF assms(3)])
  have m: "fst (match_phone lk ex params context d) = Inl e \<longleftrightarrow>
      match_identity lk ex ''sms'' (Some ci) params d = Inl e"
    using assms(1,2) by (auto simp: match_phone_def as_handler_def split: sum.splits)
  consider "linked_ids ''sms'' ci d = []" | cid where "linked_ids ''sms'' ci d = [cid]"
    | a b cs where "linked_ids ''sms'' ci d = a # b # cs"
    by (metis list.exhaust)
  then show ?thesis
  proof cases
    case 1
    have "shopify_phone_fallback lk ex ''sms'' ci params d = Inl e \<longleftrightarrow> lk ci = Inl e"
    proof (cases "lk ci")
      case (Inr found)
      have "upsert_identity_link ex ''sms'' ci (pm_customer_id x) d \<noteq> Inl e" for x
        using up [of "pm_customer_id x"] by auto
      then show ?thesis using Inr
        by (cases found rule: option.exhaust; cases "the found" rule: list.exhaust)
          (auto simp: shopify_phone_fallback_def exn_simps split: list.splits)
    qed (simp add: shopify_phone_fallback_def exn_simps)
    with 1 show ?thesis unfolding m by (auto simp: match_identity_def exn_simps)
  next
    case (2 cid)
    then show ?thesis unfolding m
      by (auto simp: match_identity_def exn_simps verified_from_link_def enrich_company_name_def
          dict_simps Let_def not_falsy_iff)
  next
    case 3
    then show ?thesis unfolding m by (simp add: match_identity_def)
  qed
qed

theorem identity_error_iff_witness:
  "fst (match_phone (\<lambda>_. Inl (ToolDriverError Vendor_timeout ''slow'')) (\<lparr>ee_now = 0, ee_hex = \<lambda>n. replicate n CHR ''0''\<rparr>)
     [(''phone'', JStr ''+1'')] (rep_ctx ''acct_1'')
     (empty_db\<lparr>db_links := [\<lparr>l_id = ''idl_1'', l_channel = ''sms'', l_channel_identity = ''+1'',
        l_shopify_customer_id = Some ''gid://shopify/Customer/7'', l_match_status = ''verified''\<rparr>]\<rparr>))
   = Inl (ToolDriverError Vendor_timeout ''slow'')"
proof -
  let ?ex = "\<lparr>ee_now = 0, ee_hex = \<lambda>n. replicate n CHR ''0''\<rparr>"
  let ?d = "empty_db\<lparr>db_links := [\<lparr>l_id = ''idl_1'', l_channel = ''sms'', l_channel_identity = ''+1'',
        l_shopify_customer_id = Some ''gid://shopify/Customer/7'', l_match_status = ''verified''\<rparr>]\<rparr>"
  have "linked_ids ''sms'' ''+1'' ?d = [''gid://shopify/Customer/7'']"
    by (simp add: linked_ids_def List.map_filter_simps)
  moreover have "display_name_from_snapshots ''sms'' ''+1'' ?d = None"
    by (simp add: display_name_from_snapshots_def empty_db_def order_desc_def)
  moreover have "new_id ''idl'' ?ex 0 \<notin> l_id ` set (db_links ?d)"
    by (simp add: new_id_def)
  ultimately show ?thesis
    using identity_error_iff [of "[(''phone'', JStr ''+1'')]" "''+1''" ?ex ?d
        "\<lambda>_. Inl (ToolDriverError Vendor_timeout ''slow'')" "rep_ctx ''acct_1''" "ToolDriverError Vendor_timeout ''slow''"]
    by (simp add: dict_simps channel_param_def)
qed

end
