(* ===== verification/PolicyGovernance.thy ===== *)
theory PolicyGovernance
  imports Datastore PyObjects "HOL-Library.List_Lexorder" "HOL-Library.Char_ord"
begin

text \<open>
  How policy text is published: the authoring slots of \<^verbatim>\<open>datastore/handlers/knowledge.py\<close>, the
  evaluation runs of \<^verbatim>\<open>datastore/handlers/eval_review.py\<close> whose promotion publishes a slot, and the slot
  registry of \<^verbatim>\<open>operational_policy.py\<close>.  The columns \<^verbatim>\<open>suite\<close> and \<^verbatim>\<open>status\<close> of \<^verbatim>\<open>eval_run\<close> are read by no
  handler and left out; a report is the JSON object every writer stores.
\<close>

section \<open>The slot registry\<close>

definition REQUIRED_POLICY_SLOTS :: "string list" where
  "REQUIRED_POLICY_SLOTS =
     [''business_hours_service_boundaries'', ''payment_payment_link_rules'', ''order_delivery_guidance'',
      ''accounting_inquiry_guidance'', ''returns_exchanges_stockout'', ''standard_exception_scripts'']"

definition POLICY_SLOT_ID_BY_KEY :: "(string \<times> string) list" where
  "POLICY_SLOT_ID_BY_KEY =
     [(''business_hours_service_boundaries'', ''business-hours''),
      (''payment_payment_link_rules'', ''payment-methods''),
      (''order_delivery_guidance'', ''order-delivery''),
      (''accounting_inquiry_guidance'', ''accounting-inquiry''),
      (''returns_exchanges_stockout'', ''returns-exchanges''),
      (''standard_exception_scripts'', ''exception-scripts'')]"

definition authoring_slot_id_for :: "string \<Rightarrow> string option" where
  "authoring_slot_id_for slot_key = map_of POLICY_SLOT_ID_BY_KEY slot_key"

section \<open>Casts of JSON values in SQL\<close>

text \<open>\<^verbatim>\<open>(report #>> path)::int\<close> and \<^verbatim>\<open>(report ->> key)::boolean\<close>; \<open>None\<close> is NULL.\<close>

definition bad_cast :: exn where
  "bad_cast = PyError ''InvalidTextRepresentation'' ''invalid input syntax''"

definition int4 :: "int \<Rightarrow> exn + int option" where
  "int4 n = (if - (2 ^ 31) \<le> n \<and> n < 2 ^ 31 then Inr (Some n)
             else Inl (PyError ''NumericValueOutOfRange'' ''value is out of range for type integer''))"

definition pg_int_text :: "string \<Rightarrow> int option" where
  "pg_int_text s = (if CHR ''_'' \<in> set s then None else py_int (py_strip s))"

definition pg_int :: "json \<Rightarrow> exn + int option" where
  "pg_int j = (case j of
      JNull \<Rightarrow> Inr None
    | JInt n \<Rightarrow> int4 n
    | JStr s \<Rightarrow> (case pg_int_text s of None \<Rightarrow> Inl bad_cast | Some n \<Rightarrow> int4 n)
    | _ \<Rightarrow> Inl bad_cast)"

definition pg_bool_text :: "string \<Rightarrow> bool option" where
  "pg_bool_text s =
     (let t = py_lower (py_strip s) in
      if t \<in> {''t'', ''tr'', ''tru'', ''true'', ''y'', ''ye'', ''yes'', ''on'', ''1''} then Some True
      else if t \<in> {''f'', ''fa'', ''fal'', ''fals'', ''false'', ''n'', ''no'', ''of'', ''off'', ''0''} then Some False
      else None)"

definition pg_bool :: "json \<Rightarrow> exn + bool option" where
  "pg_bool j = (case j of
      JNull \<Rightarrow> Inr None
    | JBool b \<Rightarrow> Inr (Some b)
    | JInt n \<Rightarrow> (if n = 1 then Inr (Some True) else if n = 0 then Inr (Some False) else Inl bad_cast)
    | JStr s \<Rightarrow> (case pg_bool_text s of None \<Rightarrow> Inl bad_cast | Some b \<Rightarrow> Inr (Some b))
    | _ \<Rightarrow> Inl bad_cast)"

definition coalesce :: "'a option \<Rightarrow> 'a \<Rightarrow> 'a" where
  "coalesce x y = (case x of None \<Rightarrow> y | Some v \<Rightarrow> v)"

definition failed_high_sql :: "dict \<Rightarrow> exn + int" where
  "failed_high_sql report =
     ebind (pg_int (case get report ''summary'' of JObj sm \<Rightarrow> get sm ''failed_high'' | _ \<Rightarrow> JNull)) (\<lambda>n.
     Inr (coalesce n 0))"

definition signoff_required_sql :: "dict \<Rightarrow> exn + bool" where
  "signoff_required_sql report =
     ebind (pg_bool (get report ''signoff_required'')) (\<lambda>b. Inr (coalesce b False))"

section \<open>Actors\<close>

definition governed_actor :: "string \<Rightarrow> ctx \<Rightarrow> exn + string" where
  "governed_actor what context =
     (if falsy (user_id context)
      then Inl (ToolDriverError Policy_blocked (''A governed '' @ what @ '' write requires an attributed actor.''))
      else Inr (the (user_id context)))"

definition require_text_id :: "string \<Rightarrow> dict \<Rightarrow> string list \<Rightarrow> exn + string" where
  "require_text_id what params keys =
     (case read_string params keys of
        None \<Rightarrow> Inl (ToolDriverError Unexpected_error (what @ '' is required.''))
      | Some s \<Rightarrow> Inr s)"

section \<open>Authoring slots\<close>

definition slot_json :: "policy_slot_row \<Rightarrow> json" where
  "slot_json r = JObj [(''slot_id'', JStr (y_slot_id r)), (''title'', JStr (y_title r)),
     (''status'', JStr (y_status r)), (''draft_text'', opt_str (y_draft_text r)),
     (''published_text'', opt_str (y_published_text r)), (''owner'', opt_str (y_owner r)),
     (''review_date'', opt_str (y_review_date r)), (''has_gap_prompt'', JBool (y_has_gap_prompt r))]"

fun optional_str :: "dict \<Rightarrow> string list \<Rightarrow> string option" where
  "optional_str params [] = None"
| "optional_str params (k # ks) = (case get params k of JStr s \<Rightarrow> Some s | _ \<Rightarrow> optional_str params ks)"

definition policy_slot_of :: "string \<Rightarrow> db \<Rightarrow> policy_slot_row option" where
  "policy_slot_of slot_id d = List.find (\<lambda>r. y_slot_id r = slot_id) (db_policy_slots d)"

definition SLOT_KEYS :: "string list" where
  "SLOT_KEYS = [''slot_id'', ''slotId'', ''slot'']"

definition slot_not_found :: exn where
  "slot_not_found = ToolDriverError Not_found ''slot not found''"

definition get_policy_slots :: "exec_env \<Rightarrow> dict \<Rightarrow> ctx \<Rightarrow> db \<Rightarrow> (exn + json) \<times> db" where
  "get_policy_slots ex params context d =
     (Inr (JObj [(''slots'', JList (map slot_json (order_asc y_sort_order (db_policy_slots d))))]), d)"

definition draft_patched :: "exec_env \<Rightarrow> dict \<Rightarrow> policy_slot_row \<Rightarrow> policy_slot_row" where
  "draft_patched ex params r =
     (let draft = opt_or (optional_str params [''draft_text'', ''draftText'']) (y_draft_text r) in
      r\<lparr>y_draft_text := draft,
        y_owner := opt_or (optional_str params [''owner'']) (y_owner r),
        y_review_date := opt_or (optional_str params [''review_date'', ''reviewDate'']) (y_review_date r),
        y_status := (if \<not> falsy draft \<and> y_status r \<in> {''empty'', ''gap''} then ''draft'' else y_status r),
        y_updated_at := ee_now ex\<rparr>)"

text \<open>\<^verbatim>\<open>UPDATE .. WHERE slot_id = .. RETURNING\<close> of a row that is known to be there.\<close>

definition set_slot :: "string \<Rightarrow> (policy_slot_row \<Rightarrow> policy_slot_row) \<Rightarrow> db \<Rightarrow> db" where
  "set_slot slot_id f d =
     d\<lparr>db_policy_slots := update_where (\<lambda>r. y_slot_id r = slot_id) f (db_policy_slots d)\<rparr>"

definition update_policy_slot :: "exec_env \<Rightarrow> dict \<Rightarrow> ctx \<Rightarrow> db \<Rightarrow> (exn + json) \<times> db" where
  "update_policy_slot ex params context d =
     as_handler d
      (ebind (governed_actor ''knowledge'' context) (\<lambda>actor.
       ebind (require_text_id ''slot_id'' params SLOT_KEYS) (\<lambda>slot_id.
       case policy_slot_of slot_id d of
         None \<Rightarrow> Inl slot_not_found
       | Some r \<Rightarrow>
           (let r' = draft_patched ex params r in
            ebind (insert_audit ex 0 (profile context) (Some actor) ''update_policy_slot'' (Some ''policy_slot'')
              (Some slot_id) [(''status'', JStr (y_status r'))]
              (set_slot slot_id (draft_patched ex params) d)) (\<lambda>d'.
            Inr (JObj [(''slot'', slot_json r')], d'))))))"

definition submitted :: "exec_env \<Rightarrow> policy_slot_row \<Rightarrow> policy_slot_row" where
  "submitted ex r = r\<lparr>y_status := ''pending_eval'', y_updated_at := ee_now ex\<rparr>"

definition submit_for_eval :: "exec_env \<Rightarrow> dict \<Rightarrow> ctx \<Rightarrow> db \<Rightarrow> (exn + json) \<times> db" where
  "submit_for_eval ex params context d =
     as_handler d
      (ebind (governed_actor ''knowledge'' context) (\<lambda>actor.
       ebind (require_text_id ''slot_id'' params SLOT_KEYS) (\<lambda>slot_id.
       case policy_slot_of slot_id d of
         None \<Rightarrow> Inl slot_not_found
       | Some r \<Rightarrow>
           (if falsy (y_draft_text r) then Inl (ToolDriverError Conflict ''slot has no draft to submit'')
            else ebind (insert_audit ex 0 (profile context) (Some actor) ''submit_for_eval'' (Some ''policy_slot'')
                   (Some slot_id) [] (set_slot slot_id (submitted ex) d)) (\<lambda>d'.
                 Inr (JObj [(''slot'', slot_json (submitted ex r))], d'))))))"

text \<open>\<^verbatim>\<open>ORDER BY archived_at DESC, id DESC LIMIT 1\<close>\<close>

definition archived_before :: "policy_history_row \<Rightarrow> policy_history_row \<Rightarrow> bool" where
  "archived_before a b \<longleftrightarrow> h_archived_at a < h_archived_at b
     \<or> h_archived_at a = h_archived_at b \<and> h_id a < h_id b"

fun latest_archived :: "policy_history_row list \<Rightarrow> policy_history_row option" where
  "latest_archived [] = None"
| "latest_archived (h # hs) =
     (case latest_archived hs of
        None \<Rightarrow> Some h | Some g \<Rightarrow> Some (if archived_before h g then g else h))"

definition published_as :: "exec_env \<Rightarrow> string option \<Rightarrow> policy_slot_row \<Rightarrow> policy_slot_row" where
  "published_as ex text r = r\<lparr>y_published_text := text, y_status := ''published'', y_updated_at := ee_now ex\<rparr>"

definition rollback_published_policy :: "exec_env \<Rightarrow> dict \<Rightarrow> ctx \<Rightarrow> db \<Rightarrow> (exn + json) \<times> db" where
  "rollback_published_policy ex params context d =
     as_handler d
      (ebind (governed_actor ''knowledge'' context) (\<lambda>actor.
       ebind (require_text_id ''slot_id'' params SLOT_KEYS) (\<lambda>slot_id.
       case policy_slot_of slot_id d of
         None \<Rightarrow> Inl slot_not_found
       | Some r \<Rightarrow>
           (case latest_archived (filter (\<lambda>h. h_slot_id h = slot_id) (db_policy_history d)) of
              None \<Rightarrow> Inl (ToolDriverError Conflict ''slot has no previous published version'')
            | Some h \<Rightarrow>
                (let d1 = d\<lparr>db_policy_history := filter (\<lambda>g. h_id g \<noteq> h_id h) (db_policy_history d)\<rparr>;
                     publish = published_as ex (Some (h_published_text h)) in
                 ebind (insert_audit ex 0 (profile context) (Some actor) ''rollback_published_policy''
                   (Some ''policy_slot'') (Some slot_id) [] (set_slot slot_id publish d1)) (\<lambda>d'.
                 Inr (JObj [(''slot'', slot_json (publish r))], d')))))))"

section \<open>The corpus\<close>

text \<open>The columns of \<^verbatim>\<open>knowledge_chunk\<close>, a table of another database, that the status read needs.\<close>

record chunk_row =
  kc_page_id :: string
  kc_page_type :: string
  kc_created_at :: int

definition corpus_status_from_conn :: "chunk_row list \<Rightarrow> dict" where
  "corpus_status_from_conn chunks =
     [(''doc_count'', JInt (int (length (remdups (map kc_page_id chunks))))),
      (''chunk_count'', JInt (int (length chunks))),
      (''last_ingest_at'', if chunks = [] then JNull else time_json (Max (kc_created_at ` set chunks))),
      (''by_type'', JList (map (\<lambda>pt. JObj [(''page_type'', JStr pt),
          (''count'', JInt (int (length (filter (\<lambda>c. kc_page_type c = pt) chunks))))])
        (sort (remdups (map kc_page_type chunks)))))]"

fun job_status_text :: "job_status \<Rightarrow> string" where
  "job_status_text Queued = ''queued''"
| "job_status_text Running = ''running''"
| "job_status_text Succeeded = ''succeeded''"
| "job_status_text Failed = ''failed''"
| "job_status_text Dead = ''dead''"

definition last_ingest_job :: "db \<Rightarrow> json" where
  "last_ingest_job d =
     (case order_desc j_created_at (filter (\<lambda>r. j_type r = INGEST_JOB_TYPE) (db_jobs d)) of
        [] \<Rightarrow> JNull
      | r # _ \<Rightarrow> JObj [(''job_id'', JStr (j_id r)), (''status'', JStr (job_status_text (j_status r))),
          (''attempts'', JInt (j_attempts r)), (''last_error'', opt_str (j_last_error r)),
          (''queued_at'', time_json (j_created_at r)), (''updated_at'', time_json (j_updated_at r))])"

definition get_corpus_status ::
  "chunk_row list \<Rightarrow> exec_env \<Rightarrow> dict \<Rightarrow> ctx \<Rightarrow> db \<Rightarrow> (exn + json) \<times> db" where
  "get_corpus_status kdb ex params context d =
     (Inr (JObj (corpus_status_from_conn kdb @ [(''last_ingest_job'', last_ingest_job d)])), d)"

definition enqueue_corpus_reingest :: "exec_env \<Rightarrow> dict \<Rightarrow> ctx \<Rightarrow> db \<Rightarrow> (exn + json) \<times> db" where
  "enqueue_corpus_reingest ex params context d =
     as_handler d
      (ebind (governed_actor ''knowledge'' context) (\<lambda>_.
       queue_with_audit ex context INGEST_JOB_TYPE 1 ''corpus_reingest_queued'' ''knowledge_chunk'' d))"

definition knowledge_handlers :: "chunk_row list \<Rightarrow> datastore_registry" where
  "knowledge_handlers kdb =
     [(''toee_knowledge_ops'',
       [(''get_policy_slots'', on_work get_policy_slots),
        (''update_policy_slot'', on_work update_policy_slot),
        (''submit_for_eval'', on_work submit_for_eval),
        (''rollback_published_policy'', on_work rollback_published_policy),
        (''get_corpus_status'', on_work (get_corpus_status kdb)),
        (''enqueue_corpus_reingest'', on_work enqueue_corpus_reingest)])]"

section \<open>Evaluation runs\<close>

text \<open>\<^verbatim>\<open>int(x or 0)\<close>, and \<^verbatim>\<open>report.get(..) or {}\<close> read as a dict.\<close>

definition py_int_or_0 :: "json \<Rightarrow> exn + int" where
  "py_int_or_0 j =
     (if \<not> truthy j then Inr 0
      else case j of
        JInt n \<Rightarrow> Inr n
      | JBool b \<Rightarrow> Inr 1
      | JStr s \<Rightarrow> (case py_int (py_strip s) of
            None \<Rightarrow> Inl (PyError ''ValueError'' (''invalid literal for int() with base 10: '' @ repr_str s))
          | Some n \<Rightarrow> Inr n)
      | _ \<Rightarrow> Inl (PyError ''TypeError'' ''int() argument must be a string, a bytes-like object or a real number''))"

definition summary_of :: "dict \<Rightarrow> exn + dict" where
  "summary_of report = need_obj (or_else (get report ''summary'') (JObj []))"

definition eval_run_report :: "eval_run_row \<Rightarrow> json" where
  "eval_run_report r = JObj (set_keys (v_report r) [(''run_id'', JStr (v_id r)),
     (''signed_off'', JBool (v_signed_off r)), (''promoted'', JBool (v_promoted r))])"

definition eval_run_summary :: "eval_run_row \<Rightarrow> exn + json" where
  "eval_run_summary r =
     ebind (summary_of (v_report r)) (\<lambda>sm.
     ebind (py_int_or_0 (get sm ''failed_high'')) (\<lambda>failed_high.
     ebind (py_int_or_0 (get sm ''failed_medium'')) (\<lambda>failed_medium.
     Inr (JObj [(''run_id'', JStr (v_id r)), (''suite'', get (v_report r) ''suite''),
       (''timestamp'', get (v_report r) ''timestamp''),
       (''passed'', JBool (failed_high = 0 \<and> failed_medium = 0)),
       (''failed_high'', JInt failed_high), (''failed_medium'', JInt failed_medium),
       (''knowledge_version'', get (v_report r) ''knowledge_version''),
       (''prompt_version'', get (v_report r) ''prompt_version'')]))))"

definition run_row :: "string \<Rightarrow> db \<Rightarrow> eval_run_row option" where
  "run_row run_id d = List.find (\<lambda>r. v_id r = run_id) (db_eval_runs d)"

text \<open>
  \<^verbatim>\<open>ORDER BY (report ->> 'timestamp') DESC NULLS LAST, id DESC\<close>; a time stamp that is no text sorts as none.
\<close>

definition run_after :: "eval_run_row \<Rightarrow> eval_run_row \<Rightarrow> bool" where
  "run_after a b \<longleftrightarrow>
     (case (as_str (get (v_report a) ''timestamp''), as_str (get (v_report b) ''timestamp'')) of
        (Some s, Some t) \<Rightarrow> t < s \<or> s = t \<and> v_id b \<le> v_id a
      | (Some s, None) \<Rightarrow> True
      | (None, Some t) \<Rightarrow> False
      | (None, None) \<Rightarrow> v_id b \<le> v_id a)"

fun insort_run :: "eval_run_row \<Rightarrow> eval_run_row list \<Rightarrow> eval_run_row list" where
  "insort_run x [] = [x]"
| "insort_run x (y # ys) = (if run_after x y then x # y # ys else y # insort_run x ys)"

definition list_eval_runs :: "exec_env \<Rightarrow> dict \<Rightarrow> ctx \<Rightarrow> db \<Rightarrow> (exn + json) \<times> db" where
  "list_eval_runs ex params context d =
     (ebind (map_exn eval_run_summary (foldr insort_run (db_eval_runs d) [])) (\<lambda>rs.
      Inr (JObj [(''runs'', JList rs)])), d)"

definition RUN_KEYS :: "string list" where "RUN_KEYS = [''run_id'', ''runId'']"

definition run_not_found :: exn where
  "run_not_found = ToolDriverError Not_found ''run not found''"

definition get_eval_run :: "exec_env \<Rightarrow> dict \<Rightarrow> ctx \<Rightarrow> db \<Rightarrow> (exn + json) \<times> db" where
  "get_eval_run ex params context d =
     (ebind (require_text_id ''run_id'' params RUN_KEYS) (\<lambda>run_id.
      case run_row run_id d of
        None \<Rightarrow> Inl run_not_found
      | Some r \<Rightarrow> Inr (JObj [(''run'', eval_run_report r)])), d)"

definition set_run :: "string \<Rightarrow> (eval_run_row \<Rightarrow> eval_run_row) \<Rightarrow> db \<Rightarrow> db" where
  "set_run run_id f d = d\<lparr>db_eval_runs := update_where (\<lambda>r. v_id r = run_id) f (db_eval_runs d)\<rparr>"

definition raise_sign_off_block :: "dict \<Rightarrow> exn + 'a" where
  "raise_sign_off_block report =
     ebind (summary_of report) (\<lambda>sm. ebind (py_int_or_0 (get sm ''failed_high'')) (\<lambda>failed_high.
     Inl (ToolDriverError Conflict (if failed_high > 0 then ''high-severity failures block sign-off''
                                    else ''no medium sign-off required''))))"

definition sign_off_allowed :: "eval_run_row \<Rightarrow> exn + bool" where
  "sign_off_allowed r =
     ebind (failed_high_sql (v_report r)) (\<lambda>fh.
     if fh \<noteq> 0 then Inr False else signoff_required_sql (v_report r))"

definition sign_off_medium_failure :: "exec_env \<Rightarrow> dict \<Rightarrow> ctx \<Rightarrow> db \<Rightarrow> (exn + json) \<times> db" where
  "sign_off_medium_failure ex params context d =
     as_handler d
      (ebind (governed_actor ''eval'' context) (\<lambda>actor.
       ebind (require_text_id ''run_id'' params RUN_KEYS) (\<lambda>run_id.
       case run_row run_id d of
         None \<Rightarrow> Inl run_not_found
       | Some r \<Rightarrow>
           ebind (sign_off_allowed r) (\<lambda>ok.
           if \<not> ok then raise_sign_off_block (v_report r)
           else
             let sign = (\<lambda>r. r\<lparr>v_signed_off := True\<rparr>) in
             ebind (insert_audit ex 0 (profile context) (Some actor) ''sign_off_medium_failure''
               (Some ''eval_run'') (Some run_id) [] (set_run run_id sign d)) (\<lambda>d'.
             Inr (JObj [(''run'', eval_run_report (sign r))], d'))))))"

definition promotable :: "eval_run_row \<Rightarrow> exn + bool" where
  "promotable r =
     (if get (v_report r) ''suite'' \<noteq> JStr ''policy_publish'' then Inr False
      else ebind (failed_high_sql (v_report r)) (\<lambda>fh.
        if fh \<noteq> 0 then Inr False
        else ebind (signoff_required_sql (v_report r)) (\<lambda>required.
          Inr ((\<not> required \<or> v_signed_off r) \<and> \<not> v_promoted r))))"

definition promote_already_or_block :: "eval_run_row \<Rightarrow> exn + json" where
  "promote_already_or_block r =
     (if v_promoted r then Inr (JObj [(''run'', eval_run_report r)])
      else if get (v_report r) ''suite'' \<noteq> JStr ''policy_publish''
      then Inl (ToolDriverError Conflict ''run is not a promotable policy_publish run'')
      else ebind (summary_of (v_report r)) (\<lambda>sm. ebind (py_int_or_0 (get sm ''failed_high'')) (\<lambda>failed_high.
        Inl (ToolDriverError Conflict (if failed_high > 0 then ''high-severity failures block promotion''
                                       else ''medium failures must be signed off first'')))))"

text \<open>Publishing draws an id only when there is a text to archive; the second result is the number of draws.\<close>

definition publish_authoring_slot ::
  "exec_env \<Rightarrow> string option \<Rightarrow> db \<Rightarrow> exn + (string option \<times> nat) \<times> db" where
  "publish_authoring_slot ex slot_key d =
     (if falsy slot_key then Inr ((None, 0), d)
      else case authoring_slot_id_for (the slot_key) of
        None \<Rightarrow> Inl (ToolDriverError Unexpected_error
          (''no authoring slot for policy key \"'' @ the slot_key @ ''\" (ADR-0146).''))
      | Some slot_id \<Rightarrow>
          (case policy_slot_of slot_id d of
             None \<Rightarrow> Inl (ToolDriverError Conflict ''the authoring slot this run publishes no longer exists'')
           | Some r \<Rightarrow>
               ebind (case y_published_text r of
                        None \<Rightarrow> Inr (0, d)
                      | Some old \<Rightarrow> ebind (pk_insert h_id \<lparr>h_id = new_id ''pshist'' ex 0, h_slot_id = slot_id,
                            h_published_text = old, h_archived_at = ee_now ex\<rparr> (db_policy_history d)) (\<lambda>hs.
                          Inr (1, d\<lparr>db_policy_history := hs\<rparr>))) (\<lambda>(n, d1).
               Inr ((Some slot_id, n), set_slot slot_id (published_as ex (y_draft_text r)) d1))))"

definition promote_pending_policy :: "exec_env \<Rightarrow> dict \<Rightarrow> ctx \<Rightarrow> db \<Rightarrow> (exn + json) \<times> db" where
  "promote_pending_policy ex params context d =
     as_handler d
      (ebind (governed_actor ''eval'' context) (\<lambda>actor.
       ebind (require_text_id ''run_id'' params RUN_KEYS) (\<lambda>run_id.
       case run_row run_id d of
         None \<Rightarrow> Inl run_not_found
       | Some r \<Rightarrow>
           ebind (promotable r) (\<lambda>ok.
           if \<not> ok then ebind (promote_already_or_block r) (\<lambda>j. Inr (j, d))
           else
             let mark = (\<lambda>r. r\<lparr>v_promoted := True\<rparr>) in
             ebind (publish_authoring_slot ex (v_slot_key r) (set_run run_id mark d)) (\<lambda>((slot, n), d1).
             ebind (insert_audit ex n (profile context) (Some actor) ''promote_pending_policy''
               (Some ''eval_run'') (Some run_id)
               [(''slot_key'', opt_str (v_slot_key r)), (''published_slot'', opt_str slot)] d1) (\<lambda>d'.
             Inr (JObj [(''run'', eval_run_report (mark r))], d')))))))"

definition eval_review_handlers :: datastore_registry where
  "eval_review_handlers =
     [(''toee_eval_review'',
       [(''list_eval_runs'', on_work list_eval_runs), (''get_eval_run'', on_work get_eval_run),
        (''sign_off_medium_failure'', on_work sign_off_medium_failure),
        (''promote_pending_policy'', on_work promote_pending_policy)])]"

section \<open>What each write does\<close>

definition POLICY_KEY :: "policy_slot_row \<Rightarrow> string" where "POLICY_KEY = y_slot_id"

lemma governed_actor_Inr [exn_simps]: "governed_actor w context = Inr a \<longleftrightarrow> user_id context = Some a \<and> a \<noteq> []"
  by (auto simp: governed_actor_def falsy_def split: option.splits)

lemma require_text_id_Inr [exn_simps]: "require_text_id w params ks = Inr s \<longleftrightarrow> read_string params ks = Some s"
  by (auto simp: require_text_id_def split: option.splits)

lemma keeps_slot_id [simp]:
  "y_slot_id (draft_patched ex params r) = y_slot_id r" "y_slot_id (submitted ex r) = y_slot_id r"
  "y_slot_id (published_as ex t r) = y_slot_id r"
  by (simp_all add: draft_patched_def submitted_def published_as_def Let_def)

lemma published_text_of [simp]:
  "y_published_text (draft_patched ex params r) = y_published_text r"
  "y_published_text (submitted ex r) = y_published_text r"
  "y_published_text (published_as ex t r) = t"
  by (simp_all add: draft_patched_def submitted_def published_as_def Let_def)

lemma find_update_where:
  assumes "\<And>r. key (f r) = key r"
  shows "List.find (\<lambda>r. key r = k) (update_where (\<lambda>r. key r = k') f rows)
    = map_option (if k = k' then f else id) (List.find (\<lambda>r. key r = k) rows)"
  using assms by (induction rows) (auto simp: table_simps)

lemma policy_slot_of_set_slot:
  assumes "\<And>r. y_slot_id (f r) = y_slot_id r"
  shows "policy_slot_of sid (set_slot k f d) = map_option (if sid = k then f else id) (policy_slot_of sid d)"
  using assms by (simp add: policy_slot_of_def set_slot_def find_update_where)

lemma policy_slot_of_other [simp]:
  "policy_slot_of sid (d\<lparr>db_audit := a\<rparr>) = policy_slot_of sid d"
  "policy_slot_of sid (d\<lparr>db_policy_history := hs\<rparr>) = policy_slot_of sid d"
  "policy_slot_of sid (d\<lparr>db_jobs := js\<rparr>) = policy_slot_of sid d"
  "policy_slot_of sid (set_run i f d) = policy_slot_of sid d"
  by (simp_all add: policy_slot_of_def set_run_def)

lemma run_row_of_set_run:
  assumes "\<And>r. v_id (f r) = v_id r"
  shows "run_row i (set_run k f d) = map_option (if i = k then f else id) (run_row i d)"
  using assms by (simp add: run_row_def set_run_def find_update_where)

lemma run_row_other [simp]:
  "run_row i (d\<lparr>db_audit := a\<rparr>) = run_row i d" "run_row i (set_slot k f d) = run_row i d"
  "run_row i (d\<lparr>db_policy_history := hs\<rparr>) = run_row i d"
  by (simp_all add: run_row_def set_slot_def)

lemma set_slot_fields [simp]:
  "db_audit (set_slot k f d) = db_audit d" "db_policy_history (set_slot k f d) = db_policy_history d"
  "db_eval_runs (set_slot k f d) = db_eval_runs d"
  "db_audit (set_run k g d) = db_audit d" "db_policy_history (set_run k g d) = db_policy_history d"
  by (simp_all add: set_slot_def set_run_def)

text \<open>One row of the audit log, and nothing of it before, is what a governed write adds.\<close>

definition audited_by :: "string \<Rightarrow> string \<Rightarrow> string \<Rightarrow> db \<Rightarrow> db \<Rightarrow> bool" where
  "audited_by actor act target d d' \<longleftrightarrow>
     (\<exists>a. db_audit d' = db_audit d @ [a] \<and> a_account_id a = Some actor \<and> a_action a = act \<and> a_target_id a = Some target)"

lemma insert_audit_audited:
  "insert_audit ex i p (Some actor) act tt (Some target) details d = Inr d' \<Longrightarrow>
   audited_by actor act target d d' \<and> (\<exists>a. d' = d\<lparr>db_audit := a\<rparr>)"
  by (auto simp: insert_audit_Inr audited_by_def)

lemma update_policy_slot_Inr:
  assumes "update_policy_slot ex params context d = (Inr j, d')"
  obtains actor sid r where "user_id context = Some actor" "actor \<noteq> []" "read_string params SLOT_KEYS = Some sid"
    "policy_slot_of sid d = Some r" "audited_by actor ''update_policy_slot'' sid d d'"
    "\<exists>a. d' = (set_slot sid (draft_patched ex params) d)\<lparr>db_audit := a\<rparr>"
    "j = JObj [(''slot'', slot_json (draft_patched ex params r))]"
proof -
  from assms obtain actor sid r where a: "user_id context = Some actor" "actor \<noteq> []"
      "read_string params SLOT_KEYS = Some sid" "policy_slot_of sid d = Some r"
    and i: "insert_audit ex 0 (profile context) (Some actor) ''update_policy_slot'' (Some ''policy_slot'')
      (Some sid) [(''status'', JStr (y_status (draft_patched ex params r)))]
      (set_slot sid (draft_patched ex params) d) = Inr d'"
    and j: "j = JObj [(''slot'', slot_json (draft_patched ex params r))]"
    by (auto simp: update_policy_slot_def as_handler_Inr exn_simps Let_def split: option.splits)
  from insert_audit_audited [OF i] have "audited_by actor ''update_policy_slot'' sid d d'"
    "\<exists>a. d' = (set_slot sid (draft_patched ex params) d)\<lparr>db_audit := a\<rparr>"
    by (simp_all add: audited_by_def)
  with a j that show thesis by blast
qed

lemma submit_for_eval_Inr:
  assumes "submit_for_eval ex params context d = (Inr j, d')"
  obtains actor sid r where "user_id context = Some actor" "actor \<noteq> []" "read_string params SLOT_KEYS = Some sid"
    "policy_slot_of sid d = Some r" "\<not> falsy (y_draft_text r)" "audited_by actor ''submit_for_eval'' sid d d'"
    "\<exists>a. d' = (set_slot sid (submitted ex) d)\<lparr>db_audit := a\<rparr>"
proof -
  from assms obtain actor sid r where a: "user_id context = Some actor" "actor \<noteq> []"
      "read_string params SLOT_KEYS = Some sid" "policy_slot_of sid d = Some r" "\<not> falsy (y_draft_text r)"
    and i: "insert_audit ex 0 (profile context) (Some actor) ''submit_for_eval'' (Some ''policy_slot'')
      (Some sid) [] (set_slot sid (submitted ex) d) = Inr d'"
    by (auto simp: submit_for_eval_def as_handler_Inr exn_simps split: option.splits if_splits)
  from insert_audit_audited [OF i] have "audited_by actor ''submit_for_eval'' sid d d'"
    "\<exists>a. d' = (set_slot sid (submitted ex) d)\<lparr>db_audit := a\<rparr>"
    by (simp_all add: audited_by_def)
  with a that show thesis by blast
qed

lemma rollback_Inr:
  assumes "rollback_published_policy ex params context d = (Inr j, d')"
  obtains actor sid r h where "user_id context = Some actor" "actor \<noteq> []" "read_string params SLOT_KEYS = Some sid"
    "policy_slot_of sid d = Some r"
    "latest_archived (filter (\<lambda>h. h_slot_id h = sid) (db_policy_history d)) = Some h"
    "audited_by actor ''rollback_published_policy'' sid d d'"
    "\<exists>a. d' = (set_slot sid (published_as ex (Some (h_published_text h)))
       (d\<lparr>db_policy_history := filter (\<lambda>g. h_id g \<noteq> h_id h) (db_policy_history d)\<rparr>))\<lparr>db_audit := a\<rparr>"
proof -
  from assms obtain actor sid r h where a: "user_id context = Some actor" "actor \<noteq> []"
      "read_string params SLOT_KEYS = Some sid" "policy_slot_of sid d = Some r"
      "latest_archived (filter (\<lambda>h. h_slot_id h = sid) (db_policy_history d)) = Some h"
    and i: "insert_audit ex 0 (profile context) (Some actor) ''rollback_published_policy'' (Some ''policy_slot'')
      (Some sid) [] (set_slot sid (published_as ex (Some (h_published_text h)))
       (d\<lparr>db_policy_history := filter (\<lambda>g. h_id g \<noteq> h_id h) (db_policy_history d)\<rparr>)) = Inr d'"
    by (auto simp: rollback_published_policy_def as_handler_Inr exn_simps Let_def split: option.splits)
  from insert_audit_audited [OF i] have "audited_by actor ''rollback_published_policy'' sid d d'"
    "\<exists>a. d' = (set_slot sid (published_as ex (Some (h_published_text h)))
       (d\<lparr>db_policy_history := filter (\<lambda>g. h_id g \<noteq> h_id h) (db_policy_history d)\<rparr>))\<lparr>db_audit := a\<rparr>"
    by (simp_all add: audited_by_def)
  with a that show thesis by blast
qed

lemma sign_off_Inr:
  assumes "sign_off_medium_failure ex params context d = (Inr j, d')"
  obtains actor i r where "user_id context = Some actor" "actor \<noteq> []" "read_string params RUN_KEYS = Some i"
    "run_row i d = Some r" "sign_off_allowed r = Inr True" "audited_by actor ''sign_off_medium_failure'' i d d'"
    "\<exists>a. d' = (set_run i (\<lambda>r. r\<lparr>v_signed_off := True\<rparr>) d)\<lparr>db_audit := a\<rparr>"
proof -
  have nb: "raise_sign_off_block report \<noteq> Inr x" for report and x :: "json \<times> db"
    by (simp add: raise_sign_off_block_def exn_simps)
  from assms nb obtain actor i r where a: "user_id context = Some actor" "actor \<noteq> []"
      "read_string params RUN_KEYS = Some i" "run_row i d = Some r" "sign_off_allowed r = Inr True"
    and i: "insert_audit ex 0 (profile context) (Some actor) ''sign_off_medium_failure'' (Some ''eval_run'')
      (Some i) [] (set_run i (\<lambda>r. r\<lparr>v_signed_off := True\<rparr>) d) = Inr d'"
    by (auto simp: sign_off_medium_failure_def as_handler_Inr exn_simps Let_def split: option.splits if_splits)
  from insert_audit_audited [OF i] have "audited_by actor ''sign_off_medium_failure'' i d d'"
    "\<exists>a. d' = (set_run i (\<lambda>r. r\<lparr>v_signed_off := True\<rparr>) d)\<lparr>db_audit := a\<rparr>"
    by (simp_all add: audited_by_def)
  with a that show thesis by blast
qed

lemma publish_authoring_slot_Inr:
  assumes "publish_authoring_slot ex slot_key d = Inr ((slot, n), d')"
  shows "slot = None \<and> falsy slot_key \<and> d' = d \<or>
    (\<exists>sid r hs. slot = Some sid \<and> (\<exists>k. slot_key = Some k \<and> authoring_slot_id_for k = Some sid)
      \<and> policy_slot_of sid d = Some r
      \<and> d' = set_slot sid (published_as ex (y_draft_text r)) (d\<lparr>db_policy_history := hs\<rparr>)
      \<and> hs = db_policy_history d @ (case y_published_text r of None \<Rightarrow> []
          | Some old \<Rightarrow> [\<lparr>h_id = new_id ''pshist'' ex 0, h_slot_id = sid, h_published_text = old,
                          h_archived_at = ee_now ex\<rparr>]))"
  using assms
  by (auto simp: publish_authoring_slot_def exn_simps pk_insert_Inr not_falsy_iff split: if_splits option.splits)

lemma promote_Inr:
  assumes "promote_pending_policy ex params context d = (Inr j, d')"
  obtains (settled) i r where "read_string params RUN_KEYS = Some i" "run_row i d = Some r" "v_promoted r" "d' = d"
  | (promoted) actor i r slot n d1 where "user_id context = Some actor" "actor \<noteq> []"
    "read_string params RUN_KEYS = Some i" "run_row i d = Some r" "promotable r = Inr True"
    "publish_authoring_slot ex (v_slot_key r) (set_run i (\<lambda>r. r\<lparr>v_promoted := True\<rparr>) d) = Inr ((slot, n), d1)"
    "audited_by actor ''promote_pending_policy'' i d1 d'" "\<exists>a. d' = d1\<lparr>db_audit := a\<rparr>"
    "j = JObj [(''run'', eval_run_report (r\<lparr>v_promoted := True\<rparr>))]"
proof -
  from assms obtain actor i r ok where a: "user_id context = Some actor" "actor \<noteq> []"
      "read_string params RUN_KEYS = Some i" "run_row i d = Some r" "promotable r = Inr ok"
    by (auto simp: promote_pending_policy_def as_handler_Inr exn_simps split: option.splits)
  show thesis
  proof (cases ok)
    case False
    with a assms have "d' = d" "promote_already_or_block r = Inr j"
      by (auto simp: promote_pending_policy_def as_handler_Inr exn_simps)
    moreover from this have "v_promoted r"
      by (auto simp: promote_already_or_block_def exn_simps split: if_splits)
    ultimately show thesis using a settled by blast
  next
    case True
    with a assms obtain slot n d1 where p:
        "publish_authoring_slot ex (v_slot_key r) (set_run i (\<lambda>r. r\<lparr>v_promoted := True\<rparr>) d) = Inr ((slot, n), d1)"
      and i: "insert_audit ex n (profile context) (Some actor) ''promote_pending_policy'' (Some ''eval_run'') (Some i)
        [(''slot_key'', opt_str (v_slot_key r)), (''published_slot'', opt_str slot)] d1 = Inr d'"
      and j: "j = JObj [(''run'', eval_run_report (r\<lparr>v_promoted := True\<rparr>))]"
      by (auto simp: promote_pending_policy_def as_handler_Inr exn_simps Let_def)
    from insert_audit_audited [OF i] a True p j show thesis by (intro promoted) auto
  qed
qed

section \<open>Publishing\<close>

definition governance_registry :: "chunk_row list \<Rightarrow> datastore_registry" where
  "governance_registry kdb = knowledge_handlers kdb @ eval_review_handlers"

text \<open>A run that passed: of the publishing suite, no high failure, medium failures signed off.\<close>

definition passed_gate :: "eval_run_row \<Rightarrow> bool" where
  "passed_gate r \<longleftrightarrow> get (v_report r) ''suite'' = JStr ''policy_publish''
     \<and> failed_high_sql (v_report r) = Inr 0 \<and> \<not> v_promoted r
     \<and> (v_signed_off r \<or> signoff_required_sql (v_report r) = Inr False)"

lemma promotable_passed: "promotable r = Inr True \<Longrightarrow> passed_gate r"
  by (auto simp: promotable_def passed_gate_def exn_simps split: if_splits)

lemma governance_handler_cases:
  "handler_of (governance_registry kdb) q = Some g \<Longrightarrow>
   (rq_action q, g) \<in> {(''get_policy_slots'', on_work get_policy_slots),
     (''update_policy_slot'', on_work update_policy_slot), (''submit_for_eval'', on_work submit_for_eval),
     (''rollback_published_policy'', on_work rollback_published_policy),
     (''get_corpus_status'', on_work (get_corpus_status kdb)),
     (''enqueue_corpus_reingest'', on_work enqueue_corpus_reingest),
     (''list_eval_runs'', on_work list_eval_runs), (''get_eval_run'', on_work get_eval_run),
     (''sign_off_medium_failure'', on_work sign_off_medium_failure),
     (''promote_pending_policy'', on_work promote_pending_policy)}"
  by (auto simp: governance_registry_def knowledge_handlers_def eval_review_handlers_def handler_of_def
      split: if_splits)

lemma execute_changed:
  assumes "handler_of registry q = Some (on_work h)" and "postgres_execute registry ex q context d = (r, d')"
    and "d' \<noteq> d"
  shows "\<exists>j. h ex (rq_params q) context d = (Inr j, d')"
  using assms(2,3) unfolding postgres_execute_on_work [OF assms(1)] by (auto split: sum.splits prod.splits)

lemma governance_execute_changed:
  assumes "postgres_execute (governance_registry kdb) ex q context d = (r, d')" and "d' \<noteq> d"
  shows "\<exists>j. (rq_action q = ''update_policy_slot'' \<and> update_policy_slot ex (rq_params q) context d = (Inr j, d'))
    \<or> (rq_action q = ''submit_for_eval'' \<and> submit_for_eval ex (rq_params q) context d = (Inr j, d'))
    \<or> (rq_action q = ''rollback_published_policy'' \<and> rollback_published_policy ex (rq_params q) context d = (Inr j, d'))
    \<or> (rq_action q = ''enqueue_corpus_reingest'' \<and> enqueue_corpus_reingest ex (rq_params q) context d = (Inr j, d'))
    \<or> (rq_action q = ''sign_off_medium_failure'' \<and> sign_off_medium_failure ex (rq_params q) context d = (Inr j, d'))
    \<or> (rq_action q = ''promote_pending_policy'' \<and> promote_pending_policy ex (rq_params q) context d = (Inr j, d'))"
proof -
  obtain g where g: "handler_of (governance_registry kdb) q = Some g"
    using assms postgres_execute_missing by (metis option.exhaust prod.inject)
  have same: "g = on_work h \<Longrightarrow> \<exists>j. h ex (rq_params q) context d = (Inr j, d')" for h
    using execute_changed [OF _ assms] g by simp
  have read: "\<not> (\<exists>j. h ex (rq_params q) context d = (Inr j, d'))"
    if "\<And>e ps c w. snd (h e ps c w) = w" for h :: "exec_env \<Rightarrow> dict \<Rightarrow> ctx \<Rightarrow> db \<Rightarrow> (exn + json) \<times> db"
    using that [of ex "rq_params q" "context" d] assms(2) by auto
  have reads: "snd (get_policy_slots e ps c w) = w" "snd (get_corpus_status kdb e ps c w) = w"
    "snd (list_eval_runs e ps c w) = w" "snd (get_eval_run e ps c w) = w" for e ps c w
    by (simp_all add: get_policy_slots_def get_corpus_status_def list_eval_runs_def get_eval_run_def)
  from governance_handler_cases [OF g] show ?thesis
    unfolding insert_iff empty_iff prod.inject
    by (elim disjE conjE FalseE) (drule same, use read reads in blast)+
qed

definition publishes_run :: "string \<Rightarrow> eval_run_row \<Rightarrow> bool" where
  "publishes_run sid run \<longleftrightarrow> passed_gate run \<and> (\<exists>k. v_slot_key run = Some k \<and> authoring_slot_id_for k = Some sid)"

lemma promote_publishes:
  assumes "promote_pending_policy ex params context d = (Inr j, d')"
    and "policy_slot_of sid d = Some y" and "policy_slot_of sid d' \<noteq> Some y"
  shows "\<exists>actor i run. user_id context = Some actor \<and> actor \<noteq> [] \<and> run_row i d = Some run
    \<and> publishes_run sid run \<and> audited_by actor ''promote_pending_policy'' i d d'
    \<and> policy_slot_of sid d' = Some (published_as ex (y_draft_text y) y)"
  using assms(1)
proof (cases rule: promote_Inr)
  case settled
  with assms show ?thesis by simp
next
  case (promoted actor i r slot n d1)
  from publish_authoring_slot_Inr [OF promoted(6)] show ?thesis
  proof (elim disjE exE conjE)
    assume "d1 = set_run i (\<lambda>r. r\<lparr>v_promoted := True\<rparr>) d"
    with promoted(8) assms(2,3) show ?thesis by auto
  next
    fix sid' r' hs k
    assume k: "v_slot_key r = Some k" "authoring_slot_id_for k = Some sid'"
      and r': "policy_slot_of sid' (set_run i (\<lambda>r. r\<lparr>v_promoted := True\<rparr>) d) = Some r'"
      and d1: "d1 = set_slot sid' (published_as ex (y_draft_text r'))
        ((set_run i (\<lambda>r. r\<lparr>v_promoted := True\<rparr>) d)\<lparr>db_policy_history := hs\<rparr>)"
    from promoted(8) d1 have s: "policy_slot_of sid d'
        = map_option (if sid = sid' then published_as ex (y_draft_text r') else id) (policy_slot_of sid d)"
      by (auto simp: policy_slot_of_set_slot)
    with assms(2,3) have "sid' = sid" by (auto split: if_splits)
    moreover from this s r' assms(2) have "policy_slot_of sid d' = Some (published_as ex (y_draft_text y) y)" by auto
    moreover from promoted(7) d1 have "audited_by actor ''promote_pending_policy'' i d d'"
      by (simp add: audited_by_def)
    ultimately show ?thesis
      using promoted(1,2,4) k promotable_passed [OF promoted(5)] unfolding publishes_run_def by blast
  qed
qed

text \<open>C13.  Whatever a client asks of the knowledge and review tools, the published text of a
  slot changes only in two ways, each by an attributed actor and with one audit row: a run that passed its
  gate and was not promoted before publishes the slot's draft, or a rollback restores the text that was
  archived last.\<close>

theorem publishing_is_governed:
  assumes "postgres_execute (governance_registry kdb) ex q context d = (r, d')"
    and "policy_slot_of sid d = Some y" and "policy_slot_of sid d' = Some y'"
    and "y_published_text y' \<noteq> y_published_text y"
  shows "\<exists>actor target. user_id context = Some actor \<and> actor \<noteq> [] \<and> audited_by actor (rq_action q) target d d' \<and>
    ((\<exists>run. run_row target d = Some run \<and> publishes_run sid run \<and> y' = published_as ex (y_draft_text y) y)
     \<or> (\<exists>h. latest_archived (filter (\<lambda>h. h_slot_id h = sid) (db_policy_history d)) = Some h
          \<and> y' = published_as ex (Some (h_published_text h)) y))"
proof -
  have "d' \<noteq> d" using assms by auto
  with governance_execute_changed [OF assms(1)] obtain j where j:
    "(rq_action q = ''update_policy_slot'' \<and> update_policy_slot ex (rq_params q) context d = (Inr j, d'))
    \<or> (rq_action q = ''submit_for_eval'' \<and> submit_for_eval ex (rq_params q) context d = (Inr j, d'))
    \<or> (rq_action q = ''rollback_published_policy'' \<and> rollback_published_policy ex (rq_params q) context d = (Inr j, d'))
    \<or> (rq_action q = ''enqueue_corpus_reingest'' \<and> enqueue_corpus_reingest ex (rq_params q) context d = (Inr j, d'))
    \<or> (rq_action q = ''sign_off_medium_failure'' \<and> sign_off_medium_failure ex (rq_params q) context d = (Inr j, d'))
    \<or> (rq_action q = ''promote_pending_policy'' \<and> promote_pending_policy ex (rq_params q) context d = (Inr j, d'))"
    by blast
  then consider (upd) "update_policy_slot ex (rq_params q) context d = (Inr j, d')"
    | (sub) "submit_for_eval ex (rq_params q) context d = (Inr j, d')"
    | (rb) "rq_action q = ''rollback_published_policy''" "rollback_published_policy ex (rq_params q) context d = (Inr j, d')"
    | (enq) "enqueue_corpus_reingest ex (rq_params q) context d = (Inr j, d')"
    | (sign) "sign_off_medium_failure ex (rq_params q) context d = (Inr j, d')"
    | (pro) "rq_action q = ''promote_pending_policy''" "promote_pending_policy ex (rq_params q) context d = (Inr j, d')"
    by blast
  then show ?thesis
  proof cases
    case upd
    then show ?thesis using assms(2-4)
      by (elim update_policy_slot_Inr) (auto simp: policy_slot_of_set_slot split: if_splits)
  next
    case sub
    then show ?thesis using assms(2-4)
      by (elim submit_for_eval_Inr) (auto simp: policy_slot_of_set_slot split: if_splits)
  next
    case rb
    from rb(2) show ?thesis
    proof (rule rollback_Inr)
      fix actor sid' r0 h
      assume a: "user_id context = Some actor" "actor \<noteq> []"
        and l: "latest_archived (filter (\<lambda>h. h_slot_id h = sid') (db_policy_history d)) = Some h"
        and au: "audited_by actor ''rollback_published_policy'' sid' d d'"
        and d': "\<exists>a. d' = (set_slot sid' (published_as ex (Some (h_published_text h)))
          (d\<lparr>db_policy_history := filter (\<lambda>g. h_id g \<noteq> h_id h) (db_policy_history d)\<rparr>))\<lparr>db_audit := a\<rparr>"
      from d' have "policy_slot_of sid d' = map_option (if sid = sid' then published_as ex (Some (h_published_text h)) else id)
          (policy_slot_of sid d)"
        by (auto simp: policy_slot_of_set_slot)
      with assms(2-4) have "sid = sid'" "y' = published_as ex (Some (h_published_text h)) y"
        by (auto split: if_splits)
      with a l au rb(1) show ?thesis by metis
    qed
  next
    case enq
    then have "db_policy_slots d' = db_policy_slots d"
      by (auto simp: enqueue_corpus_reingest_def as_handler_Inr exn_simps queue_with_audit_def insert_audit_Inr)
    with assms(2-4) show ?thesis by (simp add: policy_slot_of_def)
  next
    case sign
    then show ?thesis using assms(2-4) by (elim sign_off_Inr) auto
  next
    case pro
    from assms have "policy_slot_of sid d' \<noteq> Some y" by auto
    from promote_publishes [OF pro(2) assms(2) this] assms(3) pro(1) show ?thesis by auto
  qed
qed

lemma latest_archived_last:
  "list_all (\<lambda>h. archived_before h x) hs \<Longrightarrow> latest_archived (hs @ [x]) = Some x"
  by (induction hs) auto

lemma promote_slot:
  assumes "promote_pending_policy ex params context d = (Inr j, d')"
    and "read_string params RUN_KEYS = Some i" and "run_row i d = Some run" and "\<not> v_promoted run"
    and "v_slot_key run = Some k" and "authoring_slot_id_for k = Some sid" and "policy_slot_of sid d = Some y"
  shows "policy_slot_of sid d' = Some (published_as ex (y_draft_text y) y)"
    and "db_policy_history d' = db_policy_history d @ (case y_published_text y of None \<Rightarrow> []
          | Some old \<Rightarrow> [\<lparr>h_id = new_id ''pshist'' ex 0, h_slot_id = sid, h_published_text = old,
                          h_archived_at = ee_now ex\<rparr>])"
proof -
  have k: "k \<noteq> []" using assms(6) by (auto simp: authoring_slot_id_for_def POLICY_SLOT_ID_BY_KEY_def)
  have "policy_slot_of sid d' = Some (published_as ex (y_draft_text y) y) \<and>
    db_policy_history d' = db_policy_history d @ (case y_published_text y of None \<Rightarrow> []
          | Some old \<Rightarrow> [\<lparr>h_id = new_id ''pshist'' ex 0, h_slot_id = sid, h_published_text = old,
                          h_archived_at = ee_now ex\<rparr>])"
    using assms(1)
  proof (cases rule: promote_Inr)
    case settled
    with assms show ?thesis by simp
  next
    case (promoted actor i' r slot n d1)
    with assms(2,3) have r: "r = run" "i' = i" by auto
    from publish_authoring_slot_Inr [OF promoted(6)] r assms(5,6,7) k obtain hs where
      "d1 = set_slot sid (published_as ex (y_draft_text y))
        ((set_run i (\<lambda>r. r\<lparr>v_promoted := True\<rparr>) d)\<lparr>db_policy_history := hs\<rparr>)"
      "hs = db_policy_history d @ (case y_published_text y of None \<Rightarrow> []
          | Some old \<Rightarrow> [\<lparr>h_id = new_id ''pshist'' ex 0, h_slot_id = sid, h_published_text = old,
                          h_archived_at = ee_now ex\<rparr>])"
      by (auto simp: falsy_def)
    with promoted(8) assms(7) show ?thesis by (auto simp: policy_slot_of_set_slot)
  qed
  then show "policy_slot_of sid d' = Some (published_as ex (y_draft_text y) y)"
    "db_policy_history d' = db_policy_history d @ (case y_published_text y of None \<Rightarrow> []
          | Some old \<Rightarrow> [\<lparr>h_id = new_id ''pshist'' ex 0, h_slot_id = sid, h_published_text = old,
                          h_archived_at = ee_now ex\<rparr>])"
    by blast+
qed

lemma promote_fresh_history:
  assumes "promote_pending_policy ex params context d = (Inr j, d')"
    and "db_policy_history d' = db_policy_history d @ [h]" and "h_id h = new_id ''pshist'' ex 0"
    and "read_string params RUN_KEYS = Some i" and "run_row i d = Some run" and "\<not> v_promoted run"
  shows "h_id h \<notin> h_id ` set (db_policy_history d)"
  using assms(1)
proof (cases rule: promote_Inr)
  case settled
  with assms show ?thesis by simp
next
  case (promoted actor i' r slot n d1)
  then have "db_policy_history d1 = db_policy_history d @ [h]" using assms(2) by auto
  with promoted(6) assms(3) show ?thesis
    by (auto simp: publish_authoring_slot_def exn_simps pk_insert_Inr split: if_splits option.splits)
qed

text \<open>C20.  Rolling a slot back undoes the promotion that published it: the text that was
  published before is published again and the archive is what it was.\<close>

theorem promote_then_rollback:
  assumes "promote_pending_policy ex params context d = (Inr j, d1)"
    and "read_string params RUN_KEYS = Some i" and "run_row i d = Some run" and "\<not> v_promoted run"
    and "v_slot_key run = Some k" and "authoring_slot_id_for k = Some sid" and "policy_slot_of sid d = Some y"
    and "y_published_text y = Some old"
    and "list_all (\<lambda>h. h_archived_at h < ee_now ex) (db_policy_history d)"
    and "rollback_published_policy ex2 params2 context2 d1 = (Inr j2, d2)"
    and "read_string params2 SLOT_KEYS = Some sid"
  shows "map_option y_published_text (policy_slot_of sid d2) = Some (Some old)
    \<and> db_policy_history d2 = db_policy_history d"
proof -
  let ?h = "\<lparr>h_id = new_id ''pshist'' ex 0, h_slot_id = sid, h_published_text = old, h_archived_at = ee_now ex\<rparr>"
  note p = promote_slot [OF assms(1-7)]
  from p(2) assms(8) have h: "db_policy_history d1 = db_policy_history d @ [?h]" by simp
  from promote_fresh_history [OF assms(1) this _ assms(2-4)]
  have fresh: "h_id ?h \<notin> h_id ` set (db_policy_history d)" by simp
  have "list_all (\<lambda>h. archived_before h ?h) (filter (\<lambda>h. h_slot_id h = sid) (db_policy_history d))"
    using assms(9) by (auto simp: list_all_iff archived_before_def)
  then have l: "latest_archived (filter (\<lambda>h. h_slot_id h = sid) (db_policy_history d1)) = Some ?h"
    unfolding h by (simp add: latest_archived_last)
  from assms(10) show ?thesis
  proof (rule rollback_Inr)
    fix actor sid' r g
    assume "read_string params2 SLOT_KEYS = Some sid'"
      and g: "latest_archived (filter (\<lambda>h. h_slot_id h = sid') (db_policy_history d1)) = Some g"
      and d2: "\<exists>a. d2 = (set_slot sid' (published_as ex2 (Some (h_published_text g)))
        (d1\<lparr>db_policy_history := filter (\<lambda>x. h_id x \<noteq> h_id g) (db_policy_history d1)\<rparr>))\<lparr>db_audit := a\<rparr>"
    with assms(11) have sid: "sid' = sid" by simp
    with g l have "g = ?h" by simp
    with d2 sid p(1) h have "map_option y_published_text (policy_slot_of sid d2) = Some (Some old)"
      and "db_policy_history d2 = filter (\<lambda>x. h_id x \<noteq> h_id ?h) (db_policy_history d @ [?h])"
      by (auto simp: policy_slot_of_set_slot)
    moreover have "filter (\<lambda>x. h_id x \<noteq> h_id ?h) (db_policy_history d) = db_policy_history d"
      using fresh by (force simp: filter_id_conv)
    ultimately show ?thesis by simp
  qed
qed

text \<open>Promoting a run again, by whomever, gives the same answer and changes nothing:
  the slot is not published and nothing is archived a second time.\<close>

theorem promotion_is_idempotent:
  assumes "promote_pending_policy ex params context d = (Inr j, d1)"
    and "user_id context2 = Some actor2" and "actor2 \<noteq> []"
  shows "promote_pending_policy ex2 params context2 d1 = (Inr j, d1)"
proof -
  let ?mark = "\<lambda>r. r\<lparr>v_promoted := True\<rparr>"
  have again: "promote_pending_policy ex2 params context2 d1 = (Inr (JObj [(''run'', eval_run_report r)]), d1)"
    if "read_string params RUN_KEYS = Some i" "run_row i d1 = Some r" "promotable r = Inr False" "v_promoted r"
    for i r
    using that assms(2,3)
    by (simp add: promote_pending_policy_def as_handler_def governed_actor_def falsy_def require_text_id_def exn_simps
        promote_already_or_block_def)
  show ?thesis using assms(1)
  proof (cases rule: promote_Inr)
    case (settled i r)
    then have "promotable r = Inr False \<and> j = JObj [(''run'', eval_run_report r)]"
      using assms(1) by (auto simp: promote_pending_policy_def as_handler_Inr exn_simps promotable_def
          promote_already_or_block_def Let_def split: if_splits)
    with again [of i r] settled show ?thesis by simp
  next
    case (promoted actor i r slot n d0)
    have "run_row i d1 = Some (?mark r)"
      using publish_authoring_slot_Inr [OF promoted(6)] promoted(4,8)
      by (elim disjE exE conjE) (auto simp: run_row_of_set_run)
    moreover have "promotable (?mark r) = Inr False"
      using promoted(5) by (auto simp: promotable_def exn_simps split: if_splits)
    ultimately show ?thesis using again [of i "?mark r"] promoted(3,9) by simp
  qed
qed

text \<open>The gate judges a run, not a text: a draft that is edited after its slot was
  submitted, even to nothing, leaves the slot pending and is what the promotion publishes.\<close>

theorem unevaluated_draft_published:
  assumes "submit_for_eval ex params context d = (Inr j, d1)"
    and "read_string params SLOT_KEYS = Some sid"
    and "update_policy_slot ex2 params2 context2 d1 = (Inr j2, d2)"
    and "read_string params2 SLOT_KEYS = Some sid"
    and "optional_str params2 [''draft_text'', ''draftText''] = Some text'"
    and "promote_pending_policy ex3 params3 context3 d2 = (Inr j3, d3)"
    and "read_string params3 RUN_KEYS = Some i" and "run_row i d2 = Some run" and "\<not> v_promoted run"
    and "v_slot_key run = Some k" and "authoring_slot_id_for k = Some sid"
  shows "map_option y_status (policy_slot_of sid d2) = Some ''pending_eval''
    \<and> map_option y_published_text (policy_slot_of sid d3) = Some (Some text')"
proof -
  obtain y where y: "policy_slot_of sid d1 = Some (submitted ex y)"
    using assms(1,2) by (elim submit_for_eval_Inr) (auto simp: policy_slot_of_set_slot)
  have d2: "policy_slot_of sid d2 = Some (draft_patched ex2 params2 (submitted ex y))"
    using assms(3,4) y by (elim update_policy_slot_Inr) (auto simp: policy_slot_of_set_slot)
  have t: "y_draft_text (draft_patched ex2 params2 r) = Some text'" for r
    using assms(5) by (simp add: draft_patched_def Let_def opt_or_def)
  from promote_slot(1) [OF assms(6-11) d2] t
  show ?thesis unfolding d2 by (simp add: draft_patched_def submitted_def Let_def)
qed

section \<open>A slot on its way\<close>

definition hours_slot :: policy_slot_row where
  "hours_slot = \<lparr>y_slot_id = ''business-hours'', y_title = ''Business hours'', y_status = ''published'',
     y_draft_text = Some ''Open 9-5'', y_published_text = Some ''Open 8-4'', y_owner = None, y_review_date = None,
     y_has_gap_prompt = False, y_sort_order = 1, y_updated_at = 0\<rparr>"

definition passed_run :: eval_run_row where
  "passed_run = \<lparr>v_id = ''run_1'',
     v_report = [(''suite'', JStr ''policy_publish''), (''summary'', JObj [(''failed_high'', JInt 0)]),
       (''signoff_required'', JBool False)],
     v_signed_off = False, v_promoted = False, v_slot_key = Some ''business_hours_service_boundaries''\<rparr>"

definition policy_db :: db where
  "policy_db = empty_db\<lparr>db_policy_slots := [hours_slot], db_eval_runs := [passed_run]\<rparr>"

definition call_env :: "int \<Rightarrow> exec_env" where
  "call_env t = \<lparr>ee_now = t, ee_hex = \<lambda>i. show_int t\<rparr>"

definition admin_ctx :: ctx where
  "admin_ctx = context_provider SUPERVISOR None None None [(''user_id'', JStr ''acct_9'')]"

definition run_1_params :: dict where "run_1_params = [(''run_id'', JStr ''run_1'')]"
definition hours_params :: dict where "hours_params = [(''slot_id'', JStr ''business-hours'')]"

definition succeeded :: "(exn + json) \<times> db \<Rightarrow> bool" where
  "succeeded r = (case r of (Inr _, _) \<Rightarrow> True | _ \<Rightarrow> False)"

lemma succeededE: "succeeded r \<Longrightarrow> \<exists>j. r = (Inr j, snd r)"
  by (cases r) (auto simp: succeeded_def split: sum.splits)

lemma promoted_hours: "succeeded (promote_pending_policy (call_env 1) run_1_params admin_ctx policy_db)"
  by code_simp

lemma hours_facts:
  "read_string run_1_params RUN_KEYS = Some ''run_1''" "run_row ''run_1'' policy_db = Some passed_run"
  "\<not> v_promoted passed_run" "v_slot_key passed_run = Some ''business_hours_service_boundaries''"
  "authoring_slot_id_for ''business_hours_service_boundaries'' = Some ''business-hours''"
  "policy_slot_of ''business-hours'' policy_db = Some hours_slot"
  "read_string hours_params SLOT_KEYS = Some ''business-hours''"
  by code_simp+

theorem publishing_is_governed_witness:
  "\<exists>d'. postgres_execute (governance_registry []) (call_env 1)
      \<lparr>rq_tool = ''toee_eval_review'', rq_action = ''promote_pending_policy'', rq_params = run_1_params\<rparr> admin_ctx
      policy_db = (Inr (JObj [(''run'', eval_run_report (passed_run\<lparr>v_promoted := True\<rparr>))]), d')
    \<and> (\<exists>target. audited_by ''acct_9'' ''promote_pending_policy'' target policy_db d')"
proof -
  let ?q = "\<lparr>rq_tool = ''toee_eval_review'', rq_action = ''promote_pending_policy'', rq_params = run_1_params\<rparr>"
  let ?r = "postgres_execute (governance_registry []) (call_env 1) ?q admin_ctx policy_db"
  have f: "fst ?r = Inr (JObj [(''run'', eval_run_report (passed_run\<lparr>v_promoted := True\<rparr>))])" by code_simp
  have s: "policy_slot_of ''business-hours'' (snd ?r) = Some (published_as (call_env 1) (Some ''Open 9-5'') hours_slot)"
    by code_simp
  have n: "y_published_text (published_as (call_env 1) (Some ''Open 9-5'') hours_slot) \<noteq> y_published_text hours_slot"
    by code_simp
  have u: "user_id admin_ctx = Some ''acct_9''" by code_simp
  from publishing_is_governed [OF prod.collapse [symmetric] hours_facts(6) s n] u f
  show ?thesis by (intro exI [of _ "snd ?r"] conjI) (auto simp: prod_eq_iff)
qed

theorem promote_then_rollback_witness:
  "map_option y_published_text (policy_slot_of ''business-hours''
     (snd (rollback_published_policy (call_env 2) hours_params admin_ctx
       (snd (promote_pending_policy (call_env 1) run_1_params admin_ctx policy_db))))) = Some (Some ''Open 8-4'')"
proof -
  have rb: "succeeded (rollback_published_policy (call_env 2) hours_params admin_ctx
      (snd (promote_pending_policy (call_env 1) run_1_params admin_ctx policy_db)))" by code_simp
  have old: "y_published_text hours_slot = Some ''Open 8-4''" by code_simp
  have h: "list_all (\<lambda>h. h_archived_at h < ee_now (call_env 1)) (db_policy_history policy_db)" by code_simp
  from succeededE [OF promoted_hours] obtain j where
    p: "promote_pending_policy (call_env 1) run_1_params admin_ctx policy_db
      = (Inr j, snd (promote_pending_policy (call_env 1) run_1_params admin_ctx policy_db))" by blast
  from succeededE [OF rb] obtain j2 where
    r: "rollback_published_policy (call_env 2) hours_params admin_ctx
      (snd (promote_pending_policy (call_env 1) run_1_params admin_ctx policy_db)) = (Inr j2,
       snd (rollback_published_policy (call_env 2) hours_params admin_ctx
        (snd (promote_pending_policy (call_env 1) run_1_params admin_ctx policy_db))))" by blast
  show ?thesis
    using promote_then_rollback [OF p hours_facts(1-6) old h r hours_facts(7)] by blast
qed

theorem promotion_is_idempotent_witness:
  "promote_pending_policy (call_env 2) run_1_params admin_ctx
      (snd (promote_pending_policy (call_env 1) run_1_params admin_ctx policy_db))
    = promote_pending_policy (call_env 1) run_1_params admin_ctx policy_db"
proof -
  from succeededE [OF promoted_hours] obtain j where
    p: "promote_pending_policy (call_env 1) run_1_params admin_ctx policy_db
      = (Inr j, snd (promote_pending_policy (call_env 1) run_1_params admin_ctx policy_db))" by blast
  have u: "user_id admin_ctx = Some ''acct_9''" by code_simp
  from promotion_is_idempotent [OF p u, of "call_env 2"] p show ?thesis by simp
qed

theorem unevaluated_draft_published_witness:
  "\<exists>d3. map_option y_published_text (policy_slot_of ''business-hours'' d3) = Some (Some [])
    \<and> d3 = snd (promote_pending_policy (call_env 3) run_1_params admin_ctx
       (snd (update_policy_slot (call_env 2) (hours_params @ [(''draft_text'', JStr [])]) admin_ctx
         (snd (submit_for_eval (call_env 1) hours_params admin_ctx policy_db)))))"
proof -
  let ?d1 = "snd (submit_for_eval (call_env 1) hours_params admin_ctx policy_db)"
  let ?ps = "hours_params @ [(''draft_text'', JStr [])]"
  let ?d2 = "snd (update_policy_slot (call_env 2) ?ps admin_ctx ?d1)"
  have s: "succeeded (submit_for_eval (call_env 1) hours_params admin_ctx policy_db)" by code_simp
  have up: "succeeded (update_policy_slot (call_env 2) ?ps admin_ctx ?d1)" by code_simp
  have pr: "succeeded (promote_pending_policy (call_env 3) run_1_params admin_ctx ?d2)" by code_simp
  have k: "read_string ?ps SLOT_KEYS = Some ''business-hours''"
    "optional_str ?ps [''draft_text'', ''draftText''] = Some []" "run_row ''run_1'' ?d2 = Some passed_run"
    by code_simp+
  obtain j1 j2 j3 where
    "submit_for_eval (call_env 1) hours_params admin_ctx policy_db = (Inr j1, ?d1)"
    "update_policy_slot (call_env 2) ?ps admin_ctx ?d1 = (Inr j2, ?d2)"
    "promote_pending_policy (call_env 3) run_1_params admin_ctx ?d2
      = (Inr j3, snd (promote_pending_policy (call_env 3) run_1_params admin_ctx ?d2))"
    using succeededE [OF s] succeededE [OF up] succeededE [OF pr] by blast
  from unevaluated_draft_published [OF this(1) hours_facts(7) this(2) k(1,2) this(3) hours_facts(1) k(3)
      hours_facts(3-5)]
  show ?thesis by blast
qed

end
