(* ===== verification/Retention.thy ===== *)
theory Retention
  imports PolicyGovernance
begin

text \<open>
  Ageing out Customer Memory: the windows of \<^verbatim>\<open>drivers/mock/retention.py\<close> with its mock handlers, the handlers
  of \<^verbatim>\<open>datastore/handlers/retention.py\<close>, and the sweep as a job, \<^verbatim>\<open>retention_sweep.py\<close>.  The clock of the
  process (\<^verbatim>\<open>datetime.now(timezone.utc)\<close>) is a parameter beside the transaction's \<^verbatim>\<open>now()\<close>.
\<close>

section \<open>Windows\<close>

definition VERIFIED_RETENTION_DAYS :: int where "VERIFIED_RETENTION_DAYS = 730"
definition PROVISIONAL_RETENTION_DAYS :: int where "PROVISIONAL_RETENTION_DAYS = 90"

definition RETENTION_WINDOW_DAYS :: "(string \<times> int) list" where
  "RETENTION_WINDOW_DAYS = [(''verified'', VERIFIED_RETENTION_DAYS), (''provisional'', PROVISIONAL_RETENTION_DAYS)]"

definition day :: int where "day = 24 * 60 * 60 * 1000000"

definition retention_threshold :: "string \<Rightarrow> int \<Rightarrow> int" where
  "retention_threshold binding_kind now =
     now - (case map_of RETENTION_WINDOW_DAYS binding_kind of None \<Rightarrow> VERIFIED_RETENTION_DAYS | Some n \<Rightarrow> n) * day"

definition is_aged :: "string \<Rightarrow> int \<Rightarrow> int \<Rightarrow> bool" where
  "is_aged binding_kind last_interaction_at now \<longleftrightarrow> last_interaction_at < retention_threshold binding_kind now"

section \<open>The mock twin\<close>

definition windows_json :: json where
  "windows_json = JObj (map (\<lambda>(k, n). (k, JInt n)) RETENTION_WINDOW_DAYS)"

definition counts_json :: "int \<Rightarrow> int \<Rightarrow> json" where
  "counts_json verified provisional = JObj [(''verified'', JInt verified), (''provisional'', JInt provisional)]"

definition create_retention_mock_handlers :: "'s handler_registry" where
  "create_retention_mock_handlers =
     [(''toee_retention'',
       [(''trigger_retention_sweep'', \<lambda>params context s. (Inr (JObj
           [(''counts'', counts_json 0 0), (''total_deleted'', JInt 0), (''windows_days'', windows_json),
            (''run_at'', JNull)]), s)),
        (''enqueue_retention_sweep'', \<lambda>params context s. (Inr (JObj
           [(''job_id'', JNull), (''status'', JStr ''unavailable'')]), s)),
        (''get_retention_status'', \<lambda>params context s. (Inr (JObj
           [(''last_run_at'', JNull), (''counts'', counts_json 0 0), (''total_deleted'', JInt 0),
            (''windows_days'', windows_json)]), s))])]"

section \<open>Handlers\<close>

definition swept :: "int \<Rightarrow> slot_row \<Rightarrow> bool" where
  "swept clock r \<longleftrightarrow>
     (p_binding_kind r = ''verified'' \<and> p_last_interaction_at r < retention_threshold ''verified'' clock)
     \<or> (p_binding_kind r = ''provisional'' \<and> p_last_interaction_at r < retention_threshold ''provisional'' clock)"

definition count_kind :: "string \<Rightarrow> string list \<Rightarrow> int" where
  "count_kind k kinds = int (length (filter (\<lambda>x. x = k) kinds))"

definition sweep_result :: "string list \<Rightarrow> int \<Rightarrow> dict" where
  "sweep_result deleted_kinds clock =
     [(''counts'', counts_json (count_kind ''verified'' deleted_kinds) (count_kind ''provisional'' deleted_kinds)),
      (''total_deleted'', JInt (int (length deleted_kinds))), (''windows_days'', windows_json),
      (''run_at'', time_json clock)]"

definition trigger_retention_sweep :: "int \<Rightarrow> exec_env \<Rightarrow> dict \<Rightarrow> ctx \<Rightarrow> db \<Rightarrow> (exn + json) \<times> db" where
  "trigger_retention_sweep clock ex params context d =
     as_handler d
      (let deleted_kinds = map p_binding_kind (filter (swept clock) (db_slots d));
           details = sweep_result deleted_kinds clock in
       ebind (insert_audit ex 0 (profile context) (user_id context) ''retention_sweep''
         (Some ''customer_memory_slot'') None details
         (d\<lparr>db_slots := filter (\<lambda>r. \<not> swept clock r) (db_slots d)\<rparr>)) (\<lambda>d'.
       Inr (JObj details, d')))"

definition enqueue_retention_sweep :: "exec_env \<Rightarrow> dict \<Rightarrow> ctx \<Rightarrow> db \<Rightarrow> (exn + json) \<times> db" where
  "enqueue_retention_sweep ex params context d =
     as_handler d (queue_with_audit ex context RETENTION_JOB_TYPE DEFAULT_MAX_ATTEMPTS
       ''retention_sweep_queued'' ''customer_memory_slot'' d)"

text \<open>\<^verbatim>\<open>row["details"] or {}\<close>: the details are an object or null.\<close>

definition details_of :: "audit_row \<Rightarrow> dict" where
  "details_of r = (case a_details r of JObj d \<Rightarrow> d | _ \<Rightarrow> [])"

definition get_retention_status :: "exec_env \<Rightarrow> dict \<Rightarrow> ctx \<Rightarrow> db \<Rightarrow> (exn + json) \<times> db" where
  "get_retention_status ex params context d =
     (Inr (case order_desc a_created_at (filter (\<lambda>r. a_action r = ''retention_sweep'') (db_audit d)) of
        [] \<Rightarrow> JObj [(''last_run_at'', JNull), (''counts'', counts_json 0 0), (''total_deleted'', JInt 0),
            (''windows_days'', windows_json)]
      | r # _ \<Rightarrow> JObj
          [(''last_run_at'', or_else (get (details_of r) ''run_at'') (time_json (a_created_at r))),
           (''counts'', get_or (details_of r) ''counts'' (counts_json 0 0)),
           (''total_deleted'', get_or (details_of r) ''total_deleted'' (JInt 0)),
           (''windows_days'', get_or (details_of r) ''windows_days'' windows_json)]), d)"

definition retention_handlers :: "int \<Rightarrow> datastore_registry" where
  "retention_handlers clock =
     [(''toee_retention'',
       [(''trigger_retention_sweep'', on_work (trigger_retention_sweep clock)),
        (''enqueue_retention_sweep'', on_work enqueue_retention_sweep),
        (''get_retention_status'', on_work get_retention_status)])]"

section \<open>The job\<close>

definition run_sweep :: "int \<Rightarrow> exec_env \<Rightarrow> string \<Rightarrow> string option \<Rightarrow> db \<Rightarrow> (exn + json) \<times> db" where
  "run_sweep clock ex prof actor d =
     (case execute_tool ''toee_retention'' ''trigger_retention_sweep''
        \<lparr>profile = prof, identity = JNull, user_id = actor, connected_account_id = None,
         ctx_conversation_id = None, ctx_sms_session_id = None\<rparr>
        (postgres_driver (retention_handlers clock) ex) [] None [] d of
        (res, _, d') \<Rightarrow>
          (if tr_ok res then Inr (tr_data res)
           else Inl (PyError ''RuntimeError'' (''retention sweep failed: ''
             @ (case tr_error_class res of None \<Rightarrow> ''None'' | Some c \<Rightarrow> error_class_name c) @ '': ''
             @ (case tr_message res of None \<Rightarrow> ''None'' | Some m \<Rightarrow> m))), d'))"

text \<open>The payload's values are the texts the two enqueuers wrote, or absent.\<close>

definition run_retention_sweep_job :: "int \<Rightarrow> exec_env \<Rightarrow> dict \<Rightarrow> db \<Rightarrow> (exn + unit) \<times> db" where
  "run_retention_sweep_job clock ex payload d =
     (case run_sweep clock ex
        (if truthy (get payload ''profile'') then py_str (get payload ''profile'') else INTERNAL)
        (as_str (get payload ''actor_account_id'')) d of
        (Inl e, d') \<Rightarrow> (Inl e, d') | (Inr _, d') \<Rightarrow> (Inr (), d'))"

section \<open>Properties\<close>

lemma swept_iff: "swept clock r \<longleftrightarrow>
   p_binding_kind r \<in> {''verified'', ''provisional''} \<and> is_aged (p_binding_kind r) (p_last_interaction_at r) clock"
  by (auto simp: swept_def is_aged_def)

lemma trigger_Inr: "trigger_retention_sweep clock ex params context d = (Inr j, d') \<longleftrightarrow>
   j = JObj (sweep_result (map p_binding_kind (filter (swept clock) (db_slots d))) clock)
   \<and> new_id ''audit'' ex 0 \<notin> a_id ` set (db_audit d)
   \<and> d' = d\<lparr>db_slots := filter (\<lambda>r. \<not> swept clock r) (db_slots d),
       db_audit := db_audit d @ [\<lparr>a_id = new_id ''audit'' ex 0, a_account_id = user_id context,
         a_profile = profile context, a_action = ''retention_sweep'', a_target_type = Some ''customer_memory_slot'',
         a_target_id = None, a_details = j, a_created_at = ee_now ex\<rparr>]\<rparr>"
  by (auto simp: trigger_retention_sweep_def as_handler_Inr exn_simps insert_audit_Inr Let_def)

text \<open>What a sweep's answer says of the two classes.\<close>

definition reported :: "json \<Rightarrow> string \<Rightarrow> json" where
  "reported j k = (case j of JObj d \<Rightarrow> (case get d ''counts'' of JObj c \<Rightarrow> get c k | _ \<Rightarrow> JNull) | _ \<Rightarrow> JNull)"

lemma reported_sweep_result:
  assumes "k \<in> {''verified'', ''provisional''}"
  shows "reported (JObj (sweep_result kinds clock)) k = JInt (count_kind k kinds)"
  using assms by (auto simp: reported_def sweep_result_def counts_json_def dict_simps)

text \<open>C23.  A sweep deletes exactly the verified slots without interaction for two years
  and the provisional ones without interaction for ninety days, touches nothing else but for one audit row of
  its actor that holds its answer, and reports the right number for each class.\<close>

theorem sweep_deletes_exactly_aged:
  assumes "trigger_retention_sweep clock ex params context d = (Inr j, d')"
  shows "\<exists>a. d' = d\<lparr>db_slots := filter (\<lambda>r. \<not> ((p_binding_kind r = ''verified'' \<and> p_last_interaction_at r < clock - 730 * day)
        \<or> (p_binding_kind r = ''provisional'' \<and> p_last_interaction_at r < clock - 90 * day))) (db_slots d),
      db_audit := db_audit d @ [a]\<rparr>
    \<and> a_account_id a = user_id context \<and> a_action a = ''retention_sweep'' \<and> a_details a = j
    \<and> reported j k = (if k \<in> {''verified'', ''provisional''}
        then JInt (int (length (filter (\<lambda>r. p_binding_kind r = k) (db_slots d)))
          - int (length (filter (\<lambda>r. p_binding_kind r = k) (db_slots d')))) else JNull)"
proof -
  from assms have j: "j = JObj (sweep_result (map p_binding_kind (filter (swept clock) (db_slots d))) clock)"
    and d': "db_slots d' = filter (\<lambda>r. \<not> swept clock r) (db_slots d)"
    and e: "\<exists>a. d' = d\<lparr>db_slots := filter (\<lambda>r. \<not> swept clock r) (db_slots d), db_audit := db_audit d @ [a]\<rparr>
      \<and> a_account_id a = user_id context \<and> a_action a = ''retention_sweep'' \<and> a_details a = j"
    by (auto simp: trigger_Inr)
  have s: "swept clock = (\<lambda>r. (p_binding_kind r = ''verified'' \<and> p_last_interaction_at r < clock - 730 * day)
        \<or> (p_binding_kind r = ''provisional'' \<and> p_last_interaction_at r < clock - 90 * day))"
    by (auto simp: fun_eq_iff swept_def retention_threshold_def RETENTION_WINDOW_DAYS_def VERIFIED_RETENTION_DAYS_def
        PROVISIONAL_RETENTION_DAYS_def)
  have len: "length (filter P xs) = length (filter P (filter (\<lambda>x. \<not> Q x) xs)) + length (filter P (filter Q xs))"
    for P Q :: "slot_row \<Rightarrow> bool" and xs
    by (induction xs) auto
  have "count_kind k (map p_binding_kind (filter (swept clock) (db_slots d)))
      = int (length (filter (\<lambda>r. p_binding_kind r = k) (db_slots d)))
        - int (length (filter (\<lambda>r. p_binding_kind r = k) (db_slots d')))"
    unfolding d' using len [of "\<lambda>r. p_binding_kind r = k" "db_slots d" "swept clock"]
    by (simp add: count_kind_def filter_map comp_def)
  moreover have "reported j k = JNull" if "k \<notin> {''verified'', ''provisional''}"
    using that by (auto simp: j reported_def sweep_result_def counts_json_def dict_simps)
  ultimately have "reported j k = (if k \<in> {''verified'', ''provisional''}
        then JInt (int (length (filter (\<lambda>r. p_binding_kind r = k) (db_slots d)))
          - int (length (filter (\<lambda>r. p_binding_kind r = k) (db_slots d')))) else JNull)"
    unfolding j by (simp add: reported_sweep_result)
  with e show ?thesis unfolding s by blast
qed

lemma pad_nonempty [simp]: "pad n k \<noteq> []"
  by (simp add: pad_def show_int_def Let_def)

lemma truthy_time_json [simp]: "truthy (time_json t)"
  by (auto simp: time_json_def isoformat_def Let_def split: prod.splits)

lemma order_desc_newest:
  assumes "list_all (\<lambda>r. k r < k x) rs"
  shows "\<exists>rest. order_desc k (rs @ [x]) = x # rest"
proof -
  have "order_desc k (rs @ [x]) \<noteq> []"
    using set_order_desc [of k "rs @ [x]"] by (metis append_is_Nil_conv list.distinct(1) set_empty)
  then obtain y rest where y: "order_desc k (rs @ [x]) = y # rest" by (cases "order_desc k (rs @ [x])") auto
  from order_desc_hd [OF y] assms have "y = x" by (force simp: list_all_iff)
  with y show ?thesis by blast
qed

text \<open>The panel's status after a sweep that is the newest so far is that sweep's own
  answer, value for value, under the name of the last run.\<close>

theorem status_is_last_sweep:
  assumes "trigger_retention_sweep clock ex params context d = (Inr (JObj answer), d')"
    and "list_all (\<lambda>r. a_created_at r < ee_now ex) (db_audit d)"
  shows "get_retention_status ex2 params2 context2 d' = (Inr (JObj
     [(''last_run_at'', get answer ''run_at''), (''counts'', get answer ''counts''),
      (''total_deleted'', get answer ''total_deleted''), (''windows_days'', get answer ''windows_days'')]), d')"
proof -
  let ?kinds = "map p_binding_kind (filter (swept clock) (db_slots d))"
  from assms(1) have a: "answer = sweep_result ?kinds clock" and d': "\<exists>a. db_audit d' = db_audit d @ [a]
      \<and> a_action a = ''retention_sweep'' \<and> a_details a = JObj answer \<and> a_created_at a = ee_now ex"
    by (auto simp: trigger_Inr)
  from d' obtain a where a': "db_audit d' = db_audit d @ [a]" "a_action a = ''retention_sweep''"
    "a_details a = JObj answer" "a_created_at a = ee_now ex" by blast
  have "list_all (\<lambda>r. a_created_at r < a_created_at a) (filter (\<lambda>r. a_action r = ''retention_sweep'') (db_audit d))"
    using assms(2) a'(4) by (auto simp: list_all_iff)
  from order_desc_newest [OF this] obtain rest where
    "order_desc a_created_at (filter (\<lambda>r. a_action r = ''retention_sweep'') (db_audit d')) = a # rest"
    using a' by auto
  then show ?thesis
    using a'(3) by (simp add: get_retention_status_def details_of_def a sweep_result_def dict_simps or_else_def)
qed

text \<open>A sweep that runs from the queue is attributed to the supervisor who asked for
  it, whatever happened to the database in between: the job carries the actor, the click and the sweep leave
  one audit row each.\<close>

theorem queued_sweep_attributed:
  assumes "enqueue_retention_sweep ex params context d = (Inr j, d1)" and "profile context \<noteq> []"
    and "run_retention_sweep_job clock ex2 payload d2 = (Inr (), d3)"
    and "map_option j_payload (List.find (\<lambda>r. j_id r = new_id ''job'' ex 0) (db_jobs d1)) = Some (JObj payload)"
  shows "\<exists>a b. db_audit d1 = db_audit d @ [a] \<and> a_action a = ''retention_sweep_queued'' \<and> a_account_id a = user_id context
    \<and> db_audit d3 = db_audit d2 @ [b] \<and> a_action b = ''retention_sweep'' \<and> a_account_id b = user_id context
    \<and> a_profile b = profile context"
proof -
  let ?id = "new_id ''job'' ex 0"
  let ?p = "[(''profile'', JStr (profile context)), (''actor_account_id'', opt_str (user_id context))]"
  from assms(1) have q: "\<exists>a. db_audit d1 = db_audit d @ [a] \<and> a_action a = ''retention_sweep_queued''
      \<and> a_account_id a = user_id context"
    and f: "\<exists>r. db_jobs d1 = db_jobs d @ [r] \<and> j_id r = ?id \<and> j_payload r = JObj ?p"
    and fresh: "?id \<notin> j_id ` set (db_jobs d)"
    by (auto simp: enqueue_retention_sweep_def as_handler_Inr queue_with_audit_def exn_simps insert_audit_Inr
        insert_job_def as_payload_def split: if_splits)
  from f obtain r where r: "db_jobs d1 = db_jobs d @ [r]" "j_id r = ?id" "j_payload r = JObj ?p" by blast
  have "List.find (\<lambda>x. j_id x = ?id) (xs @ [r]) = Some r" if "?id \<notin> j_id ` set xs" for xs
    using that r(2) by (induction xs) auto
  with fresh r assms(4) have p: "payload = ?p" by simp
  let ?c = "\<lparr>profile = profile context, identity = JNull, user_id = user_id context, connected_account_id = None,
         ctx_conversation_id = None, ctx_sms_session_id = None\<rparr>"
  let ?q = "\<lparr>rq_tool = ''toee_retention'', rq_action = ''trigger_retention_sweep'', rq_params = []\<rparr>"
  have adm: "admitted ''toee_retention'' ''trigger_retention_sweep'' ?c [] None"
    by (simp add: admitted_def gate_of_def allow_all_gate_def gate_allow_def is_tool_action_def TOOL_CATALOG_def)
  have h: "handler_of (retention_handlers clock) ?q = Some (on_work (trigger_retention_sweep clock))"
    by (simp add: handler_of_def retention_handlers_def)
  obtain x d3' where t: "trigger_retention_sweep clock ex2 [] ?c d2 = (x, d3')" by (cases "trigger_retention_sweep clock ex2 [] ?c d2")
  have u: "as_str (opt_str u) = u" for u by (cases u) (simp_all add: opt_str_def)
  obtain y where y: "x = Inr y" "d3 = d3'"
    using assms(2,3) p t
    by (cases x) (auto simp: run_retention_sweep_job_def run_sweep_def dict_simps u execute_tool_admitted [OF adm]
        postgres_driver_def postgres_execute_on_work [OF h] tool_fail_def Let_def split: exn.splits)
  from t y have "\<exists>b. db_audit d3 = db_audit d2 @ [b] \<and> a_action b = ''retention_sweep''
      \<and> a_account_id b = user_id context \<and> a_profile b = profile context"
    by (auto simp: trigger_Inr)
  with q show ?thesis by blast
qed

definition slot_aged :: "string \<Rightarrow> string \<Rightarrow> int \<Rightarrow> slot_row" where
  "slot_aged i k t = \<lparr>p_id = i, p_binding_key = ''b'', p_binding_kind = k, p_slot_name = ''preferred_name'', p_slot_value = ''Bo'',
     p_source = ''customer_explicit'', p_evidence = None, p_actor_account_id = None, p_created_at = t,
     p_updated_at = t, p_last_interaction_at = t\<rparr>"

definition aged_db :: db where
  "aged_db = empty_db\<lparr>db_slots := [slot_aged ''s1'' ''verified'' 0, slot_aged ''s2'' ''provisional'' 0,
     slot_aged ''s3'' ''provisional'' (50 * day)]\<rparr>"

definition sweep_clock :: int where "sweep_clock = 100 * day"

theorem sweep_deletes_exactly_aged_witness:
  "map p_id (db_slots (snd (trigger_retention_sweep sweep_clock (call_env 1) [] admin_ctx aged_db))) = [''s1'', ''s3'']
   \<and> (\<exists>j. fst (trigger_retention_sweep sweep_clock (call_env 1) [] admin_ctx aged_db) = Inr j
       \<and> reported j ''provisional'' = JInt 1)"
proof -
  let ?r = "trigger_retention_sweep sweep_clock (call_env 1) [] admin_ctx aged_db"
  have "succeeded ?r" by code_simp
  from succeededE [OF this] obtain j where j: "?r = (Inr j, snd ?r)" by blast
  have ids: "map p_id (db_slots (snd ?r)) = [''s1'', ''s3'']"
    and n: "length (filter (\<lambda>r. p_binding_kind r = ''provisional'') (db_slots aged_db)) = 2"
      "length (filter (\<lambda>r. p_binding_kind r = ''provisional'') (db_slots (snd ?r))) = 1"
    by code_simp+
  from sweep_deletes_exactly_aged [OF j, of "''provisional''"] n have "reported j ''provisional'' = JInt 1" by auto
  with ids j show ?thesis by (metis fst_conv)
qed

theorem status_is_last_sweep_witness:
  "\<exists>d answer. get_retention_status (call_env 2) [] admin_ctx d = (Inr (JObj answer), d) \<and> db_slots d = [slot_aged ''s1'' ''verified'' 0, slot_aged ''s3'' ''provisional'' (50 * day)]"
proof -
  let ?r = "trigger_retention_sweep sweep_clock (call_env 1) [] admin_ctx aged_db"
  have "\<exists>answer. ?r = (Inr (JObj answer), snd ?r)"
    by (auto simp: trigger_retention_sweep_def as_handler_def exn_simps Let_def insert_audit_def pk_insert_def
        aged_db_def empty_db_def)
  then obtain answer where a: "?r = (Inr (JObj answer), snd ?r)" by blast
  have l: "list_all (\<lambda>r. a_created_at r < ee_now (call_env 1)) (db_audit aged_db)" by code_simp
  have s: "db_slots (snd ?r) = [slot_aged ''s1'' ''verified'' 0, slot_aged ''s3'' ''provisional'' (50 * day)]" by code_simp
  from status_is_last_sweep [OF a l] s show ?thesis by blast
qed

theorem queued_sweep_attributed_witness:
  "\<exists>d1 d3 b. d1 = snd (enqueue_retention_sweep (call_env 1) [] admin_ctx aged_db)
    \<and> d3 = snd (run_retention_sweep_job sweep_clock (call_env 2)
         [(''profile'', JStr SUPERVISOR), (''actor_account_id'', JStr ''acct_9'')] d1)
    \<and> db_audit d3 = db_audit d1 @ [b] \<and> a_account_id b = Some ''acct_9''"
proof -
  let ?e = "enqueue_retention_sweep (call_env 1) [] admin_ctx aged_db"
  let ?payload = "[(''profile'', JStr SUPERVISOR), (''actor_account_id'', JStr ''acct_9'')]"
  let ?j = "run_retention_sweep_job sweep_clock (call_env 2) ?payload (snd ?e)"
  have "succeeded ?e" by code_simp
  from succeededE [OF this] obtain j where e: "?e = (Inr j, snd ?e)" by blast
  have f: "fst ?j = Inr ()" by code_simp
  have j: "?j = (Inr (), snd ?j)" by (metis f prod.collapse)
  have p: "profile admin_ctx \<noteq> []" by code_simp
  have l: "map_option j_payload (List.find (\<lambda>r. j_id r = new_id ''job'' (call_env 1) 0) (db_jobs (snd ?e)))
      = Some (JObj ?payload)" by code_simp
  have u: "user_id admin_ctx = Some ''acct_9''" by code_simp
  from queued_sweep_attributed [OF e p j l] u show ?thesis by auto
qed

end
