(* ===== verification/Metrics.thy ===== *)
theory Metrics
  imports Retention Injection
begin

text \<open>
  The numbers of the admin panel: the scheduled judge run of \<^verbatim>\<open>honored_rate.py\<close> and the aggregate read of
  \<^verbatim>\<open>datastore/handlers/metrics.py\<close> with its mock.  A rounded quotient is a parameter \<open>rate\<close>; the rows of a join
  come in the order of the tables.
\<close>

section \<open>Transcripts\<close>

definition DEFAULT_WINDOW_SECONDS :: int where "DEFAULT_WINDOW_SECONDS = 7 * 24 * 60 * 60"
definition SAMPLE_CAP :: nat where "SAMPLE_CAP = 50"

record judged_turn =
  jt_reply :: string
  jt_memory :: "(string \<times> string) list"

record honored_aggregate =
  ha_honored_count :: int
  ha_sample_size :: int
  ha_undetermined_count :: int
  ha_candidate_total :: int
  ha_window_seconds :: int

definition memory_of_thread :: "thread_row \<Rightarrow> slot_row \<Rightarrow> bool" where
  "memory_of_thread ct cms \<longleftrightarrow>
     p_binding_key cms = ''provisional:'' @ t_channel ct @ '':'' @ t_channel_identity ct
     \<or> t_shopify_customer_id ct = Some (p_binding_key cms)"

definition eligible_turn :: "int \<Rightarrow> int \<Rightarrow> db \<Rightarrow> turn_row \<Rightarrow> bool" where
  "eligible_turn now window_seconds d mt \<longleftrightarrow>
     m_direction mt = ''outbound'' \<and> m_author mt = ''hermes'' \<and> m_body mt \<noteq> []
     \<and> m_created_at mt \<ge> now - window_seconds * 1000000
     \<and> list_ex (\<lambda>ct. t_id ct = m_customer_thread_id mt \<and> list_ex (memory_of_thread ct) (db_slots d)) (db_threads d)"

text \<open>\<^verbatim>\<open>memory.setdefault(turn_id, {})[slot_name] = slot_value\<close>, one turn at a time.\<close>

fun put :: "(string \<times> string) list \<Rightarrow> string \<Rightarrow> string \<Rightarrow> (string \<times> string) list" where
  "put [] k v = [(k, v)]"
| "put ((k', v') # d) k v = (if k' = k then (k, v) # d else (k', v') # put d k v)"

definition memory_rows :: "db \<Rightarrow> turn_row \<Rightarrow> slot_row list" where
  "memory_rows d mt =
     concat (map (\<lambda>ct. if t_id ct = m_customer_thread_id mt then filter (memory_of_thread ct) (db_slots d) else [])
       (db_threads d))"

definition judged_turns :: "db \<Rightarrow> string list \<Rightarrow> judged_turn list" where
  "judged_turns d sampled_ids =
     List.map_filter (\<lambda>tid.
       case List.find (\<lambda>mt. m_id mt = tid \<and> memory_rows d mt \<noteq> []) (db_turns d) of
         None \<Rightarrow> None
       | Some mt \<Rightarrow> Some \<lparr>jt_reply = m_body mt,
           jt_memory = fold (\<lambda>r m. put m (p_slot_name r) (p_slot_value r)) (memory_rows d mt) []\<rparr>) sampled_ids"

definition sample_transcripts :: "int \<Rightarrow> int \<Rightarrow> nat \<Rightarrow> db \<Rightarrow> judged_turn list \<times> int" where
  "sample_transcripts now window_seconds cap d =
     (let turn_ids = map m_id (order_desc m_created_at (filter (eligible_turn now window_seconds d) (db_turns d)))
      in (judged_turns d (take cap turn_ids), int (length turn_ids)))"

section \<open>The judge run\<close>

text \<open>\<open>judge\<close> is \<^verbatim>\<open>judge_reply\<close> on the honored leg with the client and the model of the run.\<close>

type_synonym 's honored_judge = "string \<Rightarrow> (string \<times> string) list option \<Rightarrow> 's \<Rightarrow> (exn + judge_verdict) \<times> 's"

fun measure_loop ::
  "'s honored_judge \<Rightarrow> judged_turn list \<Rightarrow> int \<times> int \<times> int \<Rightarrow> 's \<Rightarrow> (exn + int \<times> int \<times> int) \<times> 's" where
  "measure_loop judge [] counts s = (Inr counts, s)"
| "measure_loop judge (t # ts) (honored, determinate, undetermined) s =
     (case judge (jt_reply t) (if jt_memory t = [] then None else Some (jt_memory t)) s of
        (Inl e, s') \<Rightarrow> (Inl e, s')
      | (Inr v, s') \<Rightarrow> measure_loop judge ts
          (case jv_passed v of
             None \<Rightarrow> (honored, determinate, undetermined + 1)
           | Some b \<Rightarrow> (if b then honored + 1 else honored, determinate + 1, undetermined)) s')"

definition measure_honored_rate ::
  "'s honored_judge \<Rightarrow> judged_turn list \<Rightarrow> int \<Rightarrow> int \<Rightarrow> 's \<Rightarrow> (exn + honored_aggregate) \<times> 's" where
  "measure_honored_rate judge transcripts candidate_total window_seconds s =
     (case measure_loop judge transcripts (0, 0, 0) s of
        (Inl e, s') \<Rightarrow> (Inl e, s')
      | (Inr (honored, determinate, undetermined), s') \<Rightarrow>
          (Inr \<lparr>ha_honored_count = honored, ha_sample_size = determinate, ha_undetermined_count = undetermined,
             ha_candidate_total = candidate_total, ha_window_seconds = window_seconds\<rparr>, s'))"

text \<open>The insert, with the table's check constraint.\<close>

definition record_honored_rate_aggregate :: "int \<Rightarrow> honored_aggregate \<Rightarrow> db \<Rightarrow> exn + db" where
  "record_honored_rate_aggregate now agg d =
     (if 0 \<le> ha_honored_count agg \<and> ha_honored_count agg \<le> ha_sample_size agg
         \<and> 0 \<le> ha_undetermined_count agg \<and> 0 \<le> ha_candidate_total agg
      then Inr (d\<lparr>db_honored := db_honored d @ [\<lparr>o_honored_count = ha_honored_count agg,
             o_sample_size = ha_sample_size agg, o_undetermined_count = ha_undetermined_count agg,
             o_candidate_total = ha_candidate_total agg, o_window_seconds = ha_window_seconds agg,
             o_computed_at = now\<rparr>]\<rparr>)
      else Inl (PyError ''CheckViolation'' ''honored_rate_aggregate_counts_check''))"

definition sample_judge_persist ::
  "int \<Rightarrow> 's honored_judge \<Rightarrow> int \<Rightarrow> nat \<Rightarrow> db \<Rightarrow> 's \<Rightarrow> (exn + unit) \<times> db \<times> 's" where
  "sample_judge_persist now judge window_seconds cap d s =
     (let (transcripts, candidate_total) = sample_transcripts now window_seconds cap d in
      if transcripts = [] then (Inr (), d, s)
      else case measure_honored_rate judge transcripts candidate_total window_seconds s of
        (Inl e, s') \<Rightarrow> (Inl e, d, s')
      | (Inr agg, s') \<Rightarrow>
          (case record_honored_rate_aggregate now agg d of
             Inl e \<Rightarrow> (Inl e, d, s') | Inr d' \<Rightarrow> (Inr (), d', s')))"

text \<open>The job: an injected judge, or the live one when OpenRouter is configured.\<close>

definition run_honored_rate_job ::
  "int \<Rightarrow> 's honored_judge option \<Rightarrow> (exn + 's honored_judge) option \<Rightarrow> int \<Rightarrow> nat \<Rightarrow> db \<Rightarrow> 's
     \<Rightarrow> (exn + unit) \<times> db \<times> 's" where
  "run_honored_rate_job now client live window_seconds cap d s =
     (case client of
        Some judge \<Rightarrow> sample_judge_persist now judge window_seconds cap d s
      | None \<Rightarrow>
          (case live of
             None \<Rightarrow> (Inr (), d, s)
           | Some (Inl e) \<Rightarrow> (Inl e, d, s)
           | Some (Inr judge) \<Rightarrow> sample_judge_persist now judge window_seconds cap d s))"

section \<open>The tile\<close>

definition NOT_COMPUTED_LABEL :: string where
  "NOT_COMPUTED_LABEL = ''Honored rate is advisory and judge-sampled (S22/S27, C7 core question) -- ''
     @ ''never gating. Not yet computed: the scheduled honored_rate job has not ''
     @ ''persisted an aggregate (no OPENROUTER_API_KEY, or no eligible transcripts '' @ ''sampled yet).''"

definition not_computed :: "string \<Rightarrow> dict" where
  "not_computed label = [(''live'', JBool False), (''rate'', JNull), (''sample_size'', JNull),
     (''candidate_total'', JNull), (''undetermined_count'', JNull), (''window_seconds'', JNull), (''as_of'', JNull),
     (''label'', JStr label)]"

definition live_label :: "honored_row \<Rightarrow> string" where
  "live_label r = ''Advisory, judge-sampled honored leg over '' @ show_int (o_sample_size r) @ '' of ''
     @ show_int (o_candidate_total r) @ '' recent memory-injection turns (undetermined: ''
     @ show_int (o_undetermined_count r) @ ''); as of '' @ isoformat (o_computed_at r) @ ''.''"

definition rate_of :: "(int \<Rightarrow> int \<Rightarrow> json) \<Rightarrow> int \<Rightarrow> int \<Rightarrow> json" where
  "rate_of rate hits all = (if all = 0 then JNull else rate hits all)"

definition honored_rate_metric :: "(int \<Rightarrow> int \<Rightarrow> json) \<Rightarrow> db \<Rightarrow> dict" where
  "honored_rate_metric rate d =
     (case order_desc o_computed_at (db_honored d) of
        [] \<Rightarrow> not_computed NOT_COMPUTED_LABEL
      | r # _ \<Rightarrow>
          [(''live'', JBool True), (''rate'', rate_of rate (o_honored_count r) (o_sample_size r)),
           (''sample_size'', JInt (o_sample_size r)), (''candidate_total'', JInt (o_candidate_total r)),
           (''undetermined_count'', JInt (o_undetermined_count r)), (''window_seconds'', JInt (o_window_seconds r)),
           (''as_of'', time_json (o_computed_at r)), (''label'', JStr (live_label r))])"

section \<open>Aggregate metrics\<close>

definition counter :: "string \<Rightarrow> db \<Rightarrow> int \<times> int" where
  "counter metric d =
     (let rows = filter (\<lambda>r. me_metric r = metric) (db_metrics d) in
      (int (length (filter me_flag rows)), int (length rows)))"

definition populated_rows :: "db \<Rightarrow> (nat \<times> nat) list" where
  "populated_rows d =
     (let keys = map p_binding_key (db_slots d);
          populated = map (\<lambda>k. count_list keys k) (remdups keys) in
      map (\<lambda>n. (n, count_list populated n)) (remdups populated))"

definition distribution_dict :: "(nat \<times> nat) list \<Rightarrow> dict" where
  "distribution_dict rows =
     map (\<lambda>n. (show_nat n, JInt (case map_of rows n of None \<Rightarrow> 0 | Some c \<Rightarrow> int c))) [1, 2, 3, 4]"

definition correction_count :: "db \<Rightarrow> int" where
  "correction_count d = int (length (filter (\<lambda>r. p_source r = ''employee_confirmed'') (db_slots d)))"

definition dismissed_count :: "db \<Rightarrow> int" where
  "dismissed_count d = int (length (filter (\<lambda>r. a_action r = ''proposal_dismissed'') (db_audit d)))"

definition hits_json :: "(int \<Rightarrow> int \<Rightarrow> json) \<Rightarrow> string \<Rightarrow> int \<times> int \<Rightarrow> json" where
  "hits_json rate name c = JObj [(name, JInt (fst c)), (''total'', JInt (snd c)), (''rate'', rate_of rate (fst c) (snd c))]"

definition get_aggregate_metrics ::
  "(int \<Rightarrow> int \<Rightarrow> json) \<Rightarrow> exec_env \<Rightarrow> dict \<Rightarrow> ctx \<Rightarrow> db \<Rightarrow> (exn + json) \<times> db" where
  "get_aggregate_metrics rate ex params context d =
     (Inr (JObj
       [(''memory_injection'', hits_json rate ''injected'' (counter ''memory_injection'' d)),
        (''knowledge_search'', hits_json rate ''found'' (counter ''knowledge_search'' d)),
        (''slots_populated_distribution'', JObj (distribution_dict (populated_rows d))),
        (''honored_rate'', JObj (honored_rate_metric rate d)),
        (''merge_count'', JInt (int (length (db_merges d)))),
        (''correction_count'', JInt (correction_count d)),
        (''proposal_outcomes'', JObj [(''accepted'', JInt (correction_count d)), (''dismissed'', JInt (dismissed_count d)),
           (''rate'', rate_of rate (correction_count d) (correction_count d + dismissed_count d))]),
        (METRIC_SELF_SERVICE_USAGE, JInt (snd (counter METRIC_SELF_SERVICE_USAGE d))),
        (METRIC_L6_CONFIRMED, JInt (snd (counter METRIC_L6_CONFIRMED d)))]), d)"

definition metrics_handlers :: "(int \<Rightarrow> int \<Rightarrow> json) \<Rightarrow> datastore_registry" where
  "metrics_handlers rate = [(''toee_metrics'', [(''get_aggregate_metrics'', on_work (get_aggregate_metrics rate))])]"

definition MOCK_HONORED_RATE_LABEL :: string where
  "MOCK_HONORED_RATE_LABEL = ''Honored rate is advisory and judge-sampled (S22/S27, C7 core question) -- ''
     @ ''never gating. Not yet computed on this deployment (no persisted aggregate).''"

definition mock_metrics :: dict where
  "mock_metrics =
     [(''memory_injection'', JObj [(''injected'', JInt 0), (''total'', JInt 0), (''rate'', JNull)]),
      (''knowledge_search'', JObj [(''found'', JInt 0), (''total'', JInt 0), (''rate'', JNull)]),
      (''slots_populated_distribution'', JObj [(''1'', JInt 0), (''2'', JInt 0), (''3'', JInt 0), (''4'', JInt 0)]),
      (''honored_rate'', JObj (not_computed MOCK_HONORED_RATE_LABEL)), (''merge_count'', JInt 0),
      (''correction_count'', JInt 0),
      (''proposal_outcomes'', JObj [(''accepted'', JInt 0), (''dismissed'', JInt 0), (''rate'', JNull)]),
      (''self_service_usage'', JInt 0), (''l6_confirmed_entries'', JInt 0)]"

definition create_metrics_mock_handlers :: "'s handler_registry" where
  "create_metrics_mock_handlers =
     [(''toee_metrics'', [(''get_aggregate_metrics'', \<lambda>params context s. (Inr (JObj mock_metrics), s))])]"

section \<open>Properties\<close>

lemma put_set: "set (put m k v) \<subseteq> insert (k, v) (set m)"
  by (induction m k v rule: put.induct) auto

lemma memory_fold_set:
  "set (fold (\<lambda>r m. put m (p_slot_name r) (p_slot_value r)) rows m)
     \<subseteq> set m \<union> (\<lambda>r. (p_slot_name r, p_slot_value r)) ` set rows"
proof (induction rows arbitrary: m)
  case (Cons r rows)
  from Cons [of "put m (p_slot_name r) (p_slot_value r)"] put_set [of m "p_slot_name r" "p_slot_value r"]
  show ?case by auto
qed simp

lemma measure_loop_counts:
  assumes "measure_loop judge ts (h, n, u) s = (Inr (h', n', u'), s')" and "0 \<le> h" "h \<le> n" "0 \<le> u"
  shows "0 \<le> h' \<and> h' \<le> n' \<and> 0 \<le> u' \<and> n' + u' = n + u + int (length ts)"
  using assms
proof (induction ts arbitrary: h n u s)
  case (Cons t ts)
  obtain x s1 where j: "judge (jt_reply t) (if jt_memory t = [] then None else Some (jt_memory t)) s = (x, s1)"
    by (cases "judge (jt_reply t) (if jt_memory t = [] then None else Some (jt_memory t)) s")
  with Cons.prems(1) obtain v where x: "x = Inr v" by (cases x) auto
  show ?case
  proof (cases "jv_passed v")
    case None
    with Cons.prems(1) j x have "measure_loop judge ts (h, n, u + 1) s1 = (Inr (h', n', u'), s')" by simp
    from Cons.IH [OF this] Cons.prems(2-4) show ?thesis by simp
  next
    case (Some b)
    with Cons.prems(1) j x have "measure_loop judge ts (if b then h + 1 else h, n + 1, u) s1 = (Inr (h', n', u'), s')" by simp
    from Cons.IH [OF this] Cons.prems(2-4) show ?thesis by (auto split: if_splits)
  qed
qed simp

lemma length_judged_turns: "length (judged_turns d ids) \<le> length ids"
  by (induction ids) (auto simp: judged_turns_def List.map_filter_simps split: option.splits)

text \<open>A judge run that fails persists nothing.  One that ends persists nothing, or one row
  with honest counts: the judged turns are at most the cap and at most the candidates, each of them is either in the
  denominator or undetermined, and the honored ones are in the denominator.\<close>

theorem honored_run_is_honest:
  assumes "run_honored_rate_job now client live window_seconds cap d s = (r, d', s')"
  shows "d' = d \<or> r = Inr () \<and> (\<exists>row. d' = d\<lparr>db_honored := db_honored d @ [row]\<rparr> \<and> o_computed_at row = now
    \<and> 0 \<le> o_honored_count row \<and> o_honored_count row \<le> o_sample_size row
    \<and> 0 < o_sample_size row + o_undetermined_count row
    \<and> o_sample_size row + o_undetermined_count row \<le> min (int cap) (o_candidate_total row))"
proof (cases "d' = d")
  case False
  obtain judge where p: "sample_judge_persist now judge window_seconds cap d s = (r, d', s')"
    using assms False by (auto simp: run_honored_rate_job_def split: option.splits sum.splits)
  obtain ts n where st: "sample_transcripts now window_seconds cap d = (ts, n)" by (cases "sample_transcripts now window_seconds cap d")
  have len: "length ts \<le> cap" "int (length ts) \<le> n"
  proof -
    let ?ids = "map m_id (order_desc m_created_at (filter (eligible_turn now window_seconds d) (db_turns d)))"
    have "length (judged_turns d (take cap ?ids)) \<le> length (take cap ?ids)" by (rule length_judged_turns)
    with st show "length ts \<le> cap" "int (length ts) \<le> n"
      by (auto simp: sample_transcripts_def Let_def)
  qed
  from p False st obtain h k u where ts: "ts \<noteq> []"
    and m: "measure_loop judge ts (0, 0, 0) s = (Inr (h, k, u), s')"
    and r: "r = Inr ()" and d': "d' = d\<lparr>db_honored := db_honored d @ [\<lparr>o_honored_count = h, o_sample_size = k,
        o_undetermined_count = u, o_candidate_total = n, o_window_seconds = window_seconds, o_computed_at = now\<rparr>]\<rparr>"
    by (auto simp: sample_judge_persist_def measure_honored_rate_def record_honored_rate_aggregate_def
        split: if_splits prod.splits sum.splits)
  from measure_loop_counts [OF m] have "0 \<le> h \<and> h \<le> k \<and> 0 \<le> u \<and> k + u = int (length ts)" by simp
  with len ts r d' show ?thesis by (auto simp: length_greater_0_conv [symmetric] simp del: length_greater_0_conv)
qed simp

text \<open>A sampled turn is judged against memory of its own customer only: each pair the judge
  is given is a slot under the thread's provisional key or its verified customer.\<close>

theorem judge_sees_own_memory:
  assumes "sample_transcripts now window_seconds cap d = (ts, n)" and "t \<in> set ts"
  shows "\<exists>mt \<in> set (db_turns d). jt_reply t = m_body mt \<and>
    list_all (\<lambda>(k, v). \<exists>ct \<in> set (db_threads d). \<exists>r \<in> set (db_slots d). t_id ct = m_customer_thread_id mt
       \<and> memory_of_thread ct r \<and> (k, v) = (p_slot_name r, p_slot_value r)) (jt_memory t)"
proof -
  have mf: "y \<in> set (List.map_filter f xs) \<Longrightarrow> \<exists>x. f x = Some y" for f :: "string \<Rightarrow> judged_turn option" and xs y
    by (induction xs) (auto simp: List.map_filter_simps split: option.splits)
  from assms obtain ids where "t \<in> set (judged_turns d ids)"
    by (auto simp: sample_transcripts_def Let_def)
  then obtain tid mt where f: "List.find (\<lambda>mt. m_id mt = tid \<and> memory_rows d mt \<noteq> []) (db_turns d) = Some mt"
    and t: "t = \<lparr>jt_reply = m_body mt,
      jt_memory = fold (\<lambda>r m. put m (p_slot_name r) (p_slot_value r)) (memory_rows d mt) []\<rparr>"
    using mf unfolding judged_turns_def by (auto split: option.splits dest!: mf)
  have "set (jt_memory t) \<subseteq> (\<lambda>r. (p_slot_name r, p_slot_value r)) ` set (memory_rows d mt)"
    using memory_fold_set [of "memory_rows d mt" "[]"] by (simp add: t)
  moreover have "\<exists>ct \<in> set (db_threads d). t_id ct = m_customer_thread_id mt \<and> memory_of_thread ct r \<and> r \<in> set (db_slots d)"
    if "r \<in> set (memory_rows d mt)" for r
    using that by (auto simp: memory_rows_def split: if_splits)
  ultimately have "list_all (\<lambda>(k, v). \<exists>ct \<in> set (db_threads d). \<exists>r \<in> set (db_slots d). t_id ct = m_customer_thread_id mt
       \<and> memory_of_thread ct r \<and> (k, v) = (p_slot_name r, p_slot_value r)) (jt_memory t)"
    unfolding list_all_iff by fastforce
  with find_SomeD [OF f] t show ?thesis by auto
qed

text \<open>The panel reads back the newest row.\<close>

lemma tile_shows_last_run:
  assumes "record_honored_rate_aggregate now agg d = Inr d'" and "list_all (\<lambda>r. o_computed_at r < now) (db_honored d)"
  shows "map (get (honored_rate_metric rate d')) [''live'', ''rate'', ''sample_size'', ''candidate_total'', ''undetermined_count'', ''as_of'']
    = [JBool True, rate_of rate (ha_honored_count agg) (ha_sample_size agg), JInt (ha_sample_size agg),
       JInt (ha_candidate_total agg), JInt (ha_undetermined_count agg), time_json now]"
proof -
  let ?row = "\<lparr>o_honored_count = ha_honored_count agg, o_sample_size = ha_sample_size agg,
     o_undetermined_count = ha_undetermined_count agg, o_candidate_total = ha_candidate_total agg,
     o_window_seconds = ha_window_seconds agg, o_computed_at = now\<rparr>"
  from assms(1) have "db_honored d' = db_honored d @ [?row]"
    by (auto simp: record_honored_rate_aggregate_def split: if_splits)
  moreover obtain rest where "order_desc o_computed_at (db_honored d @ [?row]) = ?row # rest"
    using order_desc_newest [of o_computed_at ?row "db_honored d"] assms(2) by auto
  ultimately show ?thesis by (simp add: honored_rate_metric_def dict_simps)
qed

lemma show_nat_1_4: "show_nat (Suc 0) = ''1''" "show_nat 2 = ''2''" "show_nat 3 = ''3''" "show_nat 4 = ''4''"
  by code_simp+

text \<open>The mock's zeros are what the handler answers on an empty database, but for the label of the tile.\<close>

lemma mock_metrics_on_empty_db:
  "get_aggregate_metrics rate ex params context empty_db
    = (Inr (JObj (map (\<lambda>(k, v). (k, if k = ''honored_rate'' then JObj (not_computed NOT_COMPUTED_LABEL) else v)) mock_metrics)),
       empty_db)"
  by (simp add: get_aggregate_metrics_def mock_metrics_def empty_db_def counter_def hits_json_def rate_of_def
      distribution_dict_def populated_rows_def honored_rate_metric_def order_desc_def correction_count_def
      dismissed_count_def METRIC_SELF_SERVICE_USAGE_def METRIC_L6_CONFIRMED_def show_nat_1_4)

section \<open>One reply with memory\<close>

definition called_db :: db where
  "called_db = empty_db\<lparr>
     db_threads := [\<lparr>t_id = ''th_1'', t_channel = ''sms'', t_channel_identity = ''+14165550101'', t_shopify_customer_id = None,
       t_created_at = 0, t_updated_at = 0, t_last_interaction_at = 0\<rparr>],
     db_turns := [\<lparr>m_id = ''m_1'', m_sms_session_id = ''ss'', m_customer_thread_id = ''th_1'', m_direction = ''outbound'',
       m_author = ''hermes'', m_body = ''Will call at 3pm.'', m_auto_handled = False, m_created_at = 5\<rparr>],
     db_slots := [\<lparr>p_id = ''p_1'', p_binding_key = ''provisional:sms:+14165550101'', p_binding_kind = ''provisional'',
       p_slot_name = ''contact_time_preference'', p_slot_value = ''after 2pm'', p_source = ''customer_explicit'',
       p_evidence = None, p_actor_account_id = None, p_created_at = 0, p_updated_at = 0, p_last_interaction_at = 0\<rparr>]\<rparr>"

definition kind_judge :: "unit honored_judge" where
  "kind_judge reply memory s = (Inr \<lparr>jv_leg = ''honored'', jv_passed = Some True, jv_reason = []\<rparr>, s)"

theorem honored_run_is_honest_witness:
  "\<exists>r d' row. run_honored_rate_job 10 (Some kind_judge) None DEFAULT_WINDOW_SECONDS SAMPLE_CAP called_db () = (r, d', ())
    \<and> db_honored d' = [row] \<and> o_sample_size row + o_undetermined_count row \<le> 1 \<and> o_honored_count row = 1"
proof -
  let ?r = "run_honored_rate_job 10 (Some kind_judge) None DEFAULT_WINDOW_SECONDS SAMPLE_CAP called_db ()"
  have e: "?r = (fst ?r, fst (snd ?r), ())" by (simp add: prod_eq_iff)
  have n: "length (db_honored (fst (snd ?r))) = 1" by code_simp
  have h: "map (\<lambda>r. (o_honored_count r, o_candidate_total r)) (db_honored (fst (snd ?r))) = [(1, 1)]" by code_simp
  have "db_honored called_db = []" by code_simp
  with honored_run_is_honest [OF e] n h obtain row where
    "db_honored (fst (snd ?r)) = [row]"
    "o_sample_size row + o_undetermined_count row \<le> min (int SAMPLE_CAP) (o_candidate_total row)" by auto
  with h e show ?thesis by (intro exI [of _ "fst ?r"] exI [of _ "fst (snd ?r)"] exI [of _ row]) auto
qed

theorem judge_sees_own_memory_witness:
  "\<exists>t. fst (sample_transcripts 10 DEFAULT_WINDOW_SECONDS SAMPLE_CAP called_db) = [t]
    \<and> jt_memory t = [(''contact_time_preference'', ''after 2pm'')]
    \<and> (\<exists>mt \<in> set (db_turns called_db). jt_reply t = m_body mt)"
proof -
  let ?t = "\<lparr>jt_reply = ''Will call at 3pm.'', jt_memory = [(''contact_time_preference'', ''after 2pm'')]\<rparr>"
  have s: "sample_transcripts 10 DEFAULT_WINDOW_SECONDS SAMPLE_CAP called_db = ([?t], 1)" by code_simp
  from judge_sees_own_memory [OF this, of ?t] s show ?thesis by (intro exI [of _ ?t]) auto
qed

end
