(* ===== verification/Providers.thy ===== *)
theory Providers
  imports Cases PyObjects
begin

text \<open>
  The clients of the model provider and of the SMS vendor: connection settings, health probes, the fallback
  model and the reply sender of \<^verbatim>\<open>hermes_runtime/openrouter.py\<close> and \<^verbatim>\<open>hermes_runtime/simpletexting_reply.py\<close>.
  An HTTP exchange and the completion call of the vendor's library are parameters.
\<close>

section \<open>Settings\<close>

text \<open>\<^verbatim>\<open>(os.environ.get(k) or "").strip() or dflt\<close>\<close>

definition setting_or :: "environ \<Rightarrow> string \<Rightarrow> string \<Rightarrow> string" where
  "setting_or env k dflt = (let v = strip_or_empty (env k) in if v = [] then dflt else v)"

definition bearer :: "string \<Rightarrow> string" where
  "bearer token = ''Bearer '' @ token"

definition without_slashes :: "string \<Rightarrow> string" where
  "without_slashes url = rstrip_by (\<lambda>c. c = CHR ''/'') url"

section \<open>OpenRouter\<close>

definition OPENROUTER_PRIMARY_MODEL :: string where "OPENROUTER_PRIMARY_MODEL = ''deepseek/deepseek-v4-pro''"
definition OPENROUTER_FALLBACK_MODEL :: string where "OPENROUTER_FALLBACK_MODEL = ''qwen/qwen3.6-flash''"
definition OPENROUTER_DEFAULT_BASE_URL :: string where
  "OPENROUTER_DEFAULT_BASE_URL = ''https://openrouter.ai/api/v1''"
definition OPENROUTER_KEY_ENV :: string where "OPENROUTER_KEY_ENV = ''OPENROUTER_API_KEY''"

record openrouter_config =
  oc_base_url :: string
  oc_api_key :: string
  oc_model :: string
  oc_fallback_model :: string

definition openrouter_configured :: "environ \<Rightarrow> bool" where
  "openrouter_configured env \<longleftrightarrow> strip_or_empty (env OPENROUTER_KEY_ENV) \<noteq> []"

definition resolve_openrouter_config :: "environ \<Rightarrow> exn + openrouter_config" where
  "resolve_openrouter_config env =
     (let api_key = strip_or_empty (env OPENROUTER_KEY_ENV) in
      if api_key = []
      then Inl (PyError ''ValueError'' (OPENROUTER_KEY_ENV
             @ '' is required to route the agent turn through OpenRouter ''
             @ ''(ADR-0009); set it in the environment.''))
      else Inr \<lparr>oc_base_url = setting_or env ''OPENROUTER_BASE_URL'' OPENROUTER_DEFAULT_BASE_URL,
                oc_api_key = api_key,
                oc_model = setting_or env ''OPENROUTER_MODEL'' OPENROUTER_PRIMARY_MODEL,
                oc_fallback_model = setting_or env ''OPENROUTER_FALLBACK_MODEL'' OPENROUTER_FALLBACK_MODEL\<rparr>)"

definition key_probe_request :: "openrouter_config \<Rightarrow> http_request" where
  "key_probe_request config =
     \<lparr>hr_method = ''GET'', hr_url = without_slashes (oc_base_url config) @ ''/key'', hr_body = None,
      hr_headers = [(''Authorization'', bearer (oc_api_key config)), (''Accept'', ''application/json'')]\<rparr>"

definition runtime_error :: "string \<Rightarrow> exn" where
  "runtime_error m = PyError ''RuntimeError'' m"

definition probe_openrouter :: "environ \<Rightarrow> http \<Rightarrow> (string \<Rightarrow> json option) \<Rightarrow> exn + unit" where
  "probe_openrouter env http loads =
     ebind (resolve_openrouter_config env) (\<lambda>config.
     let req = key_probe_request config in
     case http req of
       Http_error code' \<Rightarrow> Inl (runtime_error (''OpenRouter HTTP '' @ show_nat code' @ '' for '' @ hr_url req))
     | Url_error reason \<Rightarrow> Inl (runtime_error (''OpenRouter request failed: '' @ reason))
     | Http_body body \<Rightarrow>
         (case loads body of
            None \<Rightarrow> Inl (runtime_error ''OpenRouter returned an unparseable body'')
          | Some parsed \<Rightarrow>
              (case parsed of
                 JObj d \<Rightarrow> (case get d ''data'' of
                     JObj _ \<Rightarrow> Inr ()
                   | _ \<Rightarrow> Inl (runtime_error ''OpenRouter key response shape not recognized''))
               | _ \<Rightarrow> Inl (runtime_error ''OpenRouter key response shape not recognized''))))"

section \<open>The fallback model\<close>

text \<open>An exception of the completion call: its class and its \<^verbatim>\<open>status_code\<close>, \<open>JNull\<close> when it has none.\<close>

record llm_error =
  le_class :: string
  le_status :: json

definition RETRYABLE_STATUS :: "int list" where
  "RETRYABLE_STATUS = [408, 409, 429, 500, 502, 503, 504]"

definition RETRYABLE_ERROR_NAMES :: "string list" where
  "RETRYABLE_ERROR_NAMES =
     [''RateLimitError'', ''APITimeoutError'', ''APIConnectionError'', ''InternalServerError'', ''APIError'']"

text \<open>A \<^verbatim>\<open>bool\<close> is an \<^verbatim>\<open>int\<close> of Python, and neither 0 nor 1 is in the set.\<close>

definition default_is_retryable :: "llm_error \<Rightarrow> bool" where
  "default_is_retryable exc =
     (case le_status exc of
        JInt status \<Rightarrow> status \<in> set RETRYABLE_STATUS
      | JBool _ \<Rightarrow> False
      | _ \<Rightarrow> le_class exc \<in> set RETRYABLE_ERROR_NAMES)"

type_synonym ('s, 'r) completion = "dict \<Rightarrow> 's \<Rightarrow> (llm_error + 'r) \<times> 's"

text \<open>\<^verbatim>\<open>_FallbackCompletions.create\<close>, the one method the wrapped client does not delegate.\<close>

definition fallback_create ::
  "(llm_error \<Rightarrow> bool) \<Rightarrow> string \<Rightarrow> ('s, 'r) completion \<Rightarrow> ('s, 'r) completion" where
  "fallback_create is_retryable fallback_model create kwargs s =
     (case create kwargs s of
        (Inr r, s') \<Rightarrow> (Inr r, s')
      | (Inl e, s') \<Rightarrow>
          (if \<not> is_retryable e then (Inl e, s')
           else create (set_keys kwargs [(''model'', JStr fallback_model)]) s'))"

section \<open>SimpleTexting\<close>

definition SIMPLETEXTING_DEFAULT_BASE_URL :: string where
  "SIMPLETEXTING_DEFAULT_BASE_URL = ''https://api-app2.simpletexting.com/v2/''"
definition MESSAGES_PATH :: string where "MESSAGES_PATH = ''api/messages''"
definition TOKEN_PROBE_PATH :: string where "TOKEN_PROBE_PATH = ''api/account''"
definition SIMPLETEXTING_TOKEN_ENV :: string where "SIMPLETEXTING_TOKEN_ENV = ''SIMPLETEXTING_API_TOKEN''"

record simpletexting_config =
  sc_base_url :: string
  sc_api_token :: string
  sc_account_phone :: string

definition simpletexting_configured :: "environ \<Rightarrow> bool" where
  "simpletexting_configured env \<longleftrightarrow> strip_or_empty (env SIMPLETEXTING_TOKEN_ENV) \<noteq> []"

definition resolve_simpletexting_config :: "environ \<Rightarrow> exn + simpletexting_config" where
  "resolve_simpletexting_config env =
     (let api_token = strip_or_empty (env SIMPLETEXTING_TOKEN_ENV) in
      if api_token = []
      then Inl (PyError ''ValueError'' (SIMPLETEXTING_TOKEN_ENV
             @ '' is required to send SimpleTexting replies '' @ ''(ADR-0083); set it in the environment.''))
      else Inr \<lparr>sc_base_url = setting_or env ''SIMPLETEXTING_API_BASE_URL'' SIMPLETEXTING_DEFAULT_BASE_URL,
                sc_api_token = api_token,
                sc_account_phone = strip_or_empty (env ''SIMPLETEXTING_ACCOUNT_PHONE'')\<rparr>)"

text \<open>
  An exchange that is read for its status only: \<^verbatim>\<open>response.status\<close>, an \<^verbatim>\<open>HTTPError\<close> with its code, or an error
  of the transport with its text.
\<close>

datatype status_outcome = Status nat | Status_error nat | Transport_error string

definition send_error :: "string \<Rightarrow> exn" where
  "send_error m = PyError ''SimpleTextingSendError'' m"

definition ok_status :: "nat \<Rightarrow> bool" where
  "ok_status status \<longleftrightarrow> 200 \<le> status \<and> status < 300"

definition token_probe_request :: "simpletexting_config \<Rightarrow> http_request" where
  "token_probe_request config =
     \<lparr>hr_method = ''GET'', hr_url = without_slashes (sc_base_url config) @ ''/'' @ TOKEN_PROBE_PATH, hr_body = None,
      hr_headers = [(''Authorization'', bearer (sc_api_token config)), (''Accept'', ''application/json'')]\<rparr>"

definition probe_simpletexting_token :: "environ \<Rightarrow> (http_request \<Rightarrow> status_outcome) \<Rightarrow> exn + unit" where
  "probe_simpletexting_token env urlopen =
     ebind (resolve_simpletexting_config env) (\<lambda>config.
     case urlopen (token_probe_request config) of
       Status_error code' \<Rightarrow> Inl (send_error (''SimpleTexting token check returned HTTP '' @ show_nat code'))
     | Transport_error text \<Rightarrow> Inl (send_error (''SimpleTexting token check failed: '' @ text))
     | Status status \<Rightarrow>
         (if ok_status status then Inr ()
          else Inl (send_error (''SimpleTexting token check returned HTTP '' @ show_nat status))))"

definition contact_phone :: "string \<Rightarrow> string" where
  "contact_phone conversation_id = filter py_isdigit conversation_id"

text \<open>The body before \<^verbatim>\<open>json.dumps\<close>.\<close>

definition build_payload :: "string \<Rightarrow> string \<Rightarrow> string \<Rightarrow> json" where
  "build_payload phone body account_phone =
     JObj ([(''contactPhone'', JStr phone), (''text'', JStr body), (''mode'', JStr ''AUTO'')]
       @ (if account_phone = [] then [] else [(''accountPhone'', JStr (filter py_isdigit account_phone))]))"

definition urllib_post :: "status_outcome \<Rightarrow> exn + nat" where
  "urllib_post outcome = (case outcome of
      Status status \<Rightarrow> Inr status
    | Status_error code' \<Rightarrow> Inr code'
    | Transport_error text \<Rightarrow> Inl (send_error (''SimpleTexting request failed: '' @ text)))"

definition message_request :: "simpletexting_config \<Rightarrow> string \<Rightarrow> string \<Rightarrow> http_request" where
  "message_request config conversation_id body =
     \<lparr>hr_method = ''POST'', hr_url = without_slashes (sc_base_url config) @ ''/'' @ MESSAGES_PATH,
      hr_body = Some (build_payload (contact_phone conversation_id) body (sc_account_phone config)),
      hr_headers = [(''Authorization'', bearer (sc_api_token config)), (''Content-Type'', ''application/json'')]\<rparr>"

text \<open>\<^verbatim>\<open>make_simpletexting_reply_sender\<close> with the settings of the environment and the default transport.\<close>

definition simpletexting_send :: "environ \<Rightarrow> (http_request \<Rightarrow> status_outcome) \<Rightarrow> sms_sender" where
  "simpletexting_send env urlopen conversation_id body =
     ebind (resolve_simpletexting_config env) (\<lambda>config.
     ebind (urllib_post (urlopen (message_request config conversation_id body))) (\<lambda>status.
     guard (ok_status status)
       (send_error (''SimpleTexting rejected the reply to '' @ conversation_id @ '' (HTTP '' @ show_nat status @ '').''))))"

section \<open>What a failing provider or vendor can cause\<close>

text \<open>A completion call that records the arguments it is called with.\<close>

lemma map_of_map_value: "map_of (map (\<lambda>(k, v). (k, f k v)) d) k' = map_option (f k') (map_of d k')"
  by (induction d) auto

lemma set_keys_single:
  "set_keys d [(k, v)] = map (\<lambda>(k', x). (k', if k' = k then v else x)) d @ (if map_of d k = None then [(k, v)] else [])"
  by (auto simp: set_keys_def get_or_def map_of_eq_None_iff)

lemma get_set_keys: "get (set_keys d [(k, v)]) k' = (if k' = k then v else get d k')"
  by (auto simp: set_keys_single get_def get_or_def map_of_map_value map_add_def split: option.splits)

definition recording :: "('s, 'r) completion \<Rightarrow> (dict list \<times> 's, 'r) completion" where
  "recording create kwargs st = (let (res, s') = create kwargs (snd st) in (res, fst st @ [kwargs], s'))"

text \<open>The wrapped client calls the provider once, and a second time exactly when the
  first call failed with a transient error; the second call differs in the model only, and its outcome, an error
  included, is the outcome.\<close>

theorem fallback_at_most_once:
  "fallback_create default_is_retryable fallback_model (recording create) kwargs ([], s) =
     (let (res, s') = create kwargs s; retried = set_keys kwargs [(''model'', JStr fallback_model)] in
      case res of
        Inr r \<Rightarrow> (Inr r, [kwargs], s')
      | Inl e \<Rightarrow> (if default_is_retryable e
          then (let (res2, s2) = create retried s' in (res2, [kwargs, retried], s2))
          else (Inl e, [kwargs], s')))
   \<and> get (set_keys kwargs [(''model'', JStr fallback_model)]) ''model'' = JStr fallback_model
   \<and> (\<forall>k. k \<noteq> ''model'' \<longrightarrow> get (set_keys kwargs [(''model'', JStr fallback_model)]) k = get kwargs k)"
  by (auto simp: fallback_create_def recording_def Let_def get_set_keys split: sum.splits prod.splits)

theorem fallback_at_most_once_witness:
  "\<exists>calls. snd (fallback_create default_is_retryable ''m2'' (recording (\<lambda>_ s. (Inl \<lparr>le_class = ''APIError'', le_status = JNull\<rparr> :: llm_error + unit, s)))
      [(''model'', JStr ''m1'')] ([], ())) = (calls, ()) \<and> map (\<lambda>d. get d ''model'') calls = [JStr ''m1'', JStr ''m2'']"
  unfolding conjunct1 [OF fallback_at_most_once]
  by (simp add: default_is_retryable_def RETRYABLE_ERROR_NAMES_def set_keys_def get_def get_or_def)

text \<open>A rep's text message goes to the vendor exactly when the token is configured,
  and then once; every way the vendor or the network can fail, a status that is not 2xx included, is the governed
  error \<^verbatim>\<open>vendor_timeout\<close>, so no other exception reaches the endpoint, and nothing but a failure does.\<close>

theorem text_failures_are_governed:
  assumes "sent = capture_sms_send (env SIMPLETEXTING_TOKEN_ENV) (simpletexting_send env urlopen) conv body media"
  shows "snd sent = (if simpletexting_configured env then [(conv, body)] else [])
   \<and> ((\<exists>e. fst sent = Inl e) \<longleftrightarrow> simpletexting_configured env
        \<and> (\<forall>config status. resolve_simpletexting_config env = Inr config
             \<and> urlopen (message_request config conv body) \<in> {Status status, Status_error status} \<longrightarrow> \<not> ok_status status))
   \<and> (\<forall>e. fst sent = Inl e \<longrightarrow> (\<exists>m. e = ToolDriverError Vendor_timeout m))"
proof (cases "resolve_simpletexting_config env")
  case (Inl e)
  then have "strip_or_empty (env SIMPLETEXTING_TOKEN_ENV) = []"
    by (simp add: resolve_simpletexting_config_def Let_def split: if_splits)
  then show ?thesis by (simp add: assms capture_sms_send_def simpletexting_configured_def Let_def)
next
  case (Inr config)
  then have "strip_or_empty (env SIMPLETEXTING_TOKEN_ENV) \<noteq> []"
    by (simp add: resolve_simpletexting_config_def Let_def split: if_splits)
  then show ?thesis
    by (cases "urlopen (message_request config conv body)")
      (auto simp: assms capture_sms_send_def simpletexting_configured_def simpletexting_send_def Inr urllib_post_def
        send_error_def exn_simps guard_def Let_def split: if_splits)
qed

theorem text_failures_are_governed_witness:
  "fst (capture_sms_send (map_of [(SIMPLETEXTING_TOKEN_ENV, ''t'')] SIMPLETEXTING_TOKEN_ENV)
       (simpletexting_send (map_of [(SIMPLETEXTING_TOKEN_ENV, ''t'')]) (\<lambda>_. Status 503)) ''+14165550101'' ''hi'' None)
     \<in> range (\<lambda>m. Inl (ToolDriverError Vendor_timeout m))"
proof -
  have "strip_or_empty (Some ''t'') \<noteq> []" by code_simp
  moreover have "\<not> ok_status 503" by (simp add: ok_status_def)
  ultimately show ?thesis
    using text_failures_are_governed [OF refl, of "map_of [(SIMPLETEXTING_TOKEN_ENV, ''t'')]" "\<lambda>_. Status 503"
      "''+14165550101''" "''hi''" None]
    by (auto simp: simpletexting_configured_def)
qed

end
