(* ===== verification/AgentTurn.thy ===== *)
theory AgentTurn
  imports StoreLaws TurnRunner Injection Providers
begin

text \<open>
  One model turn: which backend serves its tools (\<^verbatim>\<open>hermes_runtime/tool_backend.py\<close>, \<^verbatim>\<open>boot.py\<close>), what
  memory is merged, read and injected, and the turn of the External profile (\<^verbatim>\<open>openrouter.py\<close>) over \<^verbatim>\<open>live.py\<close>.
  The agent loop of the framework is a parameter: it gets the booted profile, whose tools it may call, and the
  settings of the run.
\<close>

section \<open>tool_backend.py: the switches\<close>

definition KNOWN_BACKENDS :: "string list" where
  "KNOWN_BACKENDS = [''mock'', ''datastore'']"

definition resolve_tool_backend :: "string option \<Rightarrow> exn + string" where
  "resolve_tool_backend value =
     (if falsy value then Inr ''mock''
      else if the value \<in> set KNOWN_BACKENDS then Inr (the value)
      else Inl (PyError ''ValueError'' (''Unknown TOOL_BACKEND \"'' @ the value @ ''\". ''
             @ ''Expected one of: mock, datastore.'')))"

definition memory_enabled :: "environ \<Rightarrow> exn + bool" where
  "memory_enabled env = ebind (resolve_tool_backend (env ''TOOL_BACKEND'')) (\<lambda>b. Inr (b = ''datastore''))"

definition simulated_mode_enabled :: "environ \<Rightarrow> bool" where
  "simulated_mode_enabled env \<longleftrightarrow> py_lower (strip_or_empty (env ''REPLY_SENDER'')) = ''simulated''"

definition AGENT_EXPERIENCE_ON_VALUES :: "string list" where
  "AGENT_EXPERIENCE_ON_VALUES = [''1'', ''on'', ''true'', ''enabled'', ''yes'']"

definition flag_on :: "environ \<Rightarrow> string \<Rightarrow> bool" where
  "flag_on env env_var \<longleftrightarrow> py_lower (strip_or_empty (env env_var)) \<in> set AGENT_EXPERIENCE_ON_VALUES"

definition agent_experience_enabled :: "environ \<Rightarrow> bool" where
  "agent_experience_enabled env = flag_on env ''AGENT_EXPERIENCE_LEARNING''"

definition agent_experience_injection_enabled :: "environ \<Rightarrow> bool" where
  "agent_experience_injection_enabled env = flag_on env ''AGENT_EXPERIENCE_INJECTION''"

definition agent_experience_external_injection_enabled :: "environ \<Rightarrow> bool" where
  "agent_experience_external_injection_enabled env = flag_on env ''AGENT_EXPERIENCE_EXTERNAL_INJECTION''"

definition knowledge_enabled :: "environ \<Rightarrow> bool" where
  "knowledge_enabled env \<longleftrightarrow> env ''KNOWLEDGE_BACKEND'' = Some ''retriever''"

section \<open>What a turn is given\<close>

text \<open>
  The store as a turn uses it; every operation may raise.  \<open>ts_linked\<close> and \<open>ts_experience\<close> are looked up with
  \<^verbatim>\<open>getattr\<close> and may be missing.
\<close>

record 'w turn_store =
  ts_memory :: "string \<Rightarrow> 'w \<Rightarrow> exn + (string \<times> string) list"
  ts_merge :: "string \<Rightarrow> string \<Rightarrow> 'w \<Rightarrow> (exn + (string list \<times> (string \<times> string) list) option) \<times> 'w"
  ts_linked :: "(string \<Rightarrow> 'w \<Rightarrow> exn + (string \<times> string) list) option"
  ts_case_identity :: "string \<Rightarrow> 'w \<Rightarrow> exn + json option"
  ts_experience :: "('w \<Rightarrow> exn + (string \<times> string) list) option"

text \<open>\<^verbatim>\<open>PostgresGatewayStore\<close>; \<open>down\<close> is what connecting raises, if it does, and \<open>ex\<close> the draws of the merge
  from a source key.\<close>

definition connected :: "exn option \<Rightarrow> 'a \<Rightarrow> exn + 'a" where
  "connected down x = (case down of Some e \<Rightarrow> Inl e | None \<Rightarrow> Inr x)"

definition pg_turn_store :: "exn option \<Rightarrow> (string \<Rightarrow> exec_env) \<Rightarrow> db turn_store" where
  "pg_turn_store down ex =
     \<lparr>ts_memory = (\<lambda>k d. connected down (load_customer_memory k d)),
      ts_merge = (\<lambda>src ver d. case down of Some e \<Rightarrow> (Inl e, d) | None \<Rightarrow> merge_provisional_memory (ex src) src ver d),
      ts_linked = Some (\<lambda>c d. connected down (list_channel_identities_for_customer c d)),
      ts_case_identity = (\<lambda>c d. connected down (load_case_identity c d)),
      ts_experience = Some (\<lambda>d. connected down (load_confirmed_experience d))\<rparr>"

text \<open>\<^verbatim>\<open>emit_metric_event\<close>: one row in a transaction of its own, every failure swallowed.\<close>

definition emit_metric_event :: "exn option \<Rightarrow> exec_env \<Rightarrow> string \<Rightarrow> bool \<Rightarrow> db \<Rightarrow> db" where
  "emit_metric_event down ex metric flag d =
     (case down of
        Some e \<Rightarrow> d
      | None \<Rightarrow> (case insert_metric_event ex 0 metric flag d of Inl e \<Rightarrow> d | Inr d' \<Rightarrow> d'))"

text \<open>
  A booted profile: the names registered with the agent, the driver behind each tool and the context of a call.
  A run of the agent: the connection, the names it may call and the two messages.
\<close>

record 'w booted =
  bp_tool_names :: "string list"
  bp_driver :: "string \<Rightarrow> 'w driver"
  bp_context :: "dict \<Rightarrow> ctx"

datatype provider = Scripted "json list" | Fallback_client string

record agent_run =
  an_base_url :: string
  an_api_key :: string
  an_model :: string
  an_max_iterations :: nat
  an_provider :: provider
  an_valid_tool_names :: "string set"
  an_system_message :: string
  an_user_message :: string

type_synonym 'w agent = "'w booted \<Rightarrow> agent_run \<Rightarrow> 'w \<Rightarrow> (exn + captured_turn) \<times> 'w"

record 'w deployment =
  dp_env :: environ
  dp_mock :: "'w driver"
  dp_composio :: "'w driver"
  dp_easyroutes :: "'w driver"
  dp_delivery :: "'w driver"
  dp_postgres :: "'w driver"
  dp_knowledge :: "'w driver"
  dp_gateway_store :: "'w turn_store"
  dp_emit :: "string \<Rightarrow> bool \<Rightarrow> 'w \<Rightarrow> 'w"
  dp_agent :: "'w agent"
  dp_builtins :: "string list"
  dp_dash :: string

definition resolved_store :: "'w deployment \<Rightarrow> 'w turn_store option \<Rightarrow> 'w turn_store" where
  "resolved_store dp store = (case store of Some s \<Rightarrow> s | None \<Rightarrow> dp_gateway_store dp)"

definition experience_for_turn :: "'w turn_store \<Rightarrow> 'w \<Rightarrow> (string \<times> string) list option" where
  "experience_for_turn store w =
     (case ts_experience store of
        None \<Rightarrow> None
      | Some reader \<Rightarrow> (case reader w of Inl e \<Rightarrow> None | Inr rows \<Rightarrow> Some rows))"

definition MEMORY_INJECTION :: string where "MEMORY_INJECTION = ''memory_injection''"

definition record_memory_injection_metric :: "'w deployment \<Rightarrow> bool \<Rightarrow> 'w \<Rightarrow> exn + 'w" where
  "record_memory_injection_metric dp flag w =
     ebind (memory_enabled (dp_env dp)) (\<lambda>on. Inr (if on then dp_emit dp MEMORY_INJECTION flag w else w))"

section \<open>tool_backend.py: the drivers\<close>

definition select_tool_driver :: "'w deployment \<Rightarrow> string option \<Rightarrow> exn + 'w driver" where
  "select_tool_driver dp backend =
     ebind (resolve_tool_backend (case backend of None \<Rightarrow> dp_env dp ''TOOL_BACKEND'' | b \<Rightarrow> b)) (\<lambda>b.
     Inr (if b = ''datastore'' then dp_postgres dp else dp_mock dp))"

definition customer_memory_extra_drivers :: "'w deployment \<Rightarrow> exn + (string \<times> 'w driver) list option" where
  "customer_memory_extra_drivers dp =
     ebind (memory_enabled (dp_env dp)) (\<lambda>on.
     if \<not> on then Inr None
     else ebind (select_tool_driver dp (Some ''datastore'')) (\<lambda>drv. Inr (Some [(''toee_customer_memory'', drv)])))"

definition knowledge_extra_drivers :: "'w deployment \<Rightarrow> (string \<times> 'w driver) list option" where
  "knowledge_extra_drivers dp =
     (if \<not> knowledge_enabled (dp_env dp) then None else Some [(''toee_knowledge_search'', dp_knowledge dp)])"

definition agent_experience_extra_drivers :: "'w deployment \<Rightarrow> exn + (string \<times> 'w driver) list option" where
  "agent_experience_extra_drivers dp =
     (if \<not> agent_experience_enabled (dp_env dp) then Inr None
      else ebind (select_tool_driver dp (Some ''datastore'')) (\<lambda>drv. Inr (Some [(''toee_agent_experience'', drv)])))"

definition or_nil :: "'a list option \<Rightarrow> 'a list" where
  "or_nil x = (case x of None \<Rightarrow> [] | Some xs \<Rightarrow> xs)"

definition turn_extra_drivers :: "'w deployment \<Rightarrow> bool \<Rightarrow> exn + (string \<times> 'w driver) list option" where
  "turn_extra_drivers dp include_memory_write =
     ebind (if include_memory_write then customer_memory_extra_drivers dp else Inr None) (\<lambda>mem.
     let kn = knowledge_extra_drivers dp in
     Inr (if mem = None \<and> kn = None then None else Some (or_nil mem @ or_nil kn)))"

section \<open>boot.py\<close>

text \<open>
  The registration in a fresh plugin context whose profile is set.  The drivers of the vendors are built
  eagerly; their own configuration errors are the vendors' business and are raised per call.
\<close>

definition boot_profile ::
  "'w deployment \<Rightarrow> string \<Rightarrow> string option \<Rightarrow> string option \<Rightarrow> json option
     \<Rightarrow> (string \<times> 'w driver) list option \<Rightarrow> exn + 'w booted" where
  "boot_profile dp prof conversation_id sms_session_id ident extra_drivers =
     ebind (registered_tools (Some prof) (dp_env dp ''TOEE_HERMES_PROFILE'')) (\<lambda>entries.
     ebind (build_driver_selector None (or_nil extra_drivers) (dp_env dp ''INTEGRATION_DRIVER'')
              (dp_mock dp) (dp_composio dp) (dp_easyroutes dp) (dp_delivery dp)) (\<lambda>select.
     Inr \<lparr>bp_tool_names = sort (map (\<lambda>e. se_name e) entries), bp_driver = select,
          bp_context = context_provider prof ident conversation_id sms_session_id\<rparr>))"

text \<open>\<^verbatim>\<open>BootedProfile.dispatch\<close> of a registered tool, up to the final \<^verbatim>\<open>json.dumps\<close>.\<close>

definition booted_dispatch ::
  "'w booted \<Rightarrow> string \<Rightarrow> string \<Rightarrow> dict \<Rightarrow> dict \<Rightarrow> audit_record list \<Rightarrow> 'w \<Rightarrow> json \<times> audit_record list \<times> 'w" where
  "booted_dispatch b tool action args kwargs sink w =
     tool_handler tool action (bp_driver b tool) (bp_context b) (Some create_turn_binding_gate) args kwargs sink w"

section \<open>live.py\<close>

definition valid_tool_names :: "string list \<Rightarrow> string list \<Rightarrow> bool \<Rightarrow> string set" where
  "valid_tool_names builtins names tools_exclusive =
     (if names = [] then set builtins
      else if tools_exclusive then set names
      else set builtins \<union> set names)"

definition run_agent_turn :: "'w deployment \<Rightarrow> 'w booted \<Rightarrow> agent_run \<Rightarrow> 'w \<Rightarrow> (exn + captured_turn) \<times> 'w" where
  "run_agent_turn dp b run w =
     (case dp_agent dp b run w of
        (Inl e, w') \<Rightarrow> (Inl e, w')
      | (Inr t, w') \<Rightarrow> (Inr \<lparr>ct_final_response = Some (case ct_final_response t of None \<Rightarrow> [] | Some r \<Rightarrow> r),
                            ct_messages = ct_messages t\<rparr>, w'))"

definition scripted_run :: "'w deployment \<Rightarrow> string \<Rightarrow> string \<Rightarrow> json list \<Rightarrow> string list \<Rightarrow> agent_run" where
  "scripted_run dp user_message system_message completions names =
     \<lparr>an_base_url = ''http://eval.invalid/v1'', an_api_key = ''sk-eval-fake'', an_model = ''eval-fake-model'',
      an_max_iterations = max 1 (length completions), an_provider = Scripted completions,
      an_valid_tool_names = valid_tool_names (dp_builtins dp) names False,
      an_system_message = system_message, an_user_message = user_message\<rparr>"

definition run_scripted_agent ::
  "'w deployment \<Rightarrow> 'w booted \<Rightarrow> string \<Rightarrow> string \<Rightarrow> json list \<Rightarrow> string list \<Rightarrow> 'w \<Rightarrow> (exn + captured_turn) \<times> 'w" where
  "run_scripted_agent dp b user_message system_message completions names w =
     run_agent_turn dp b (scripted_run dp user_message system_message completions names) w"

section \<open>openrouter.py: memory of the turn\<close>

definition with_channel_identity :: "dict option \<Rightarrow> string \<Rightarrow> string \<Rightarrow> dict" where
  "with_channel_identity ident from_identity channel =
     set_keys (or_nil ident)
       (if is_email_channel channel
        then [(''channel'', JStr ''email''), (''channel_identity'', JStr (canonicalize_email from_identity))]
        else [(''channel'', JStr ''sms''), (''channel_identity'', JStr (normalize_e164 from_identity))])"

definition load_turn_memory ::
  "environ \<Rightarrow> 'w turn_store \<Rightarrow> dict \<Rightarrow> 'w \<Rightarrow> exn + (string \<times> string) list option" where
  "load_turn_memory env store ident w =
     ebind (memory_enabled env) (\<lambda>on.
     if \<not> on then Inr None
     else case binding_key_from_identity (JObj ident) of
       None \<Rightarrow> Inr None
     | Some (binding_key, kind') \<Rightarrow>
         (case ts_memory store binding_key w of Inl e \<Rightarrow> Inr None | Inr slots \<Rightarrow> Inr (Some slots)))"

definition provisional_key_for :: "dict \<Rightarrow> string option" where
  "provisional_key_for ident =
     map_option fst (binding_key_from_identity (JObj
       [(''channel'', get ident ''channel''), (''channel_identity'', get ident ''channel_identity'')]))"

fun add_linked :: "(string \<times> string) list \<Rightarrow> string list \<Rightarrow> string list" where
  "add_linked [] keys = keys"
| "add_linked ((channel, channel_identity) # linked) keys =
     (case binding_key_from_identity (JObj
             [(''channel'', JStr channel), (''channel_identity'', JStr channel_identity)]) of
        None \<Rightarrow> add_linked linked keys
      | Some (k, kd) \<Rightarrow> add_linked linked (if k \<in> set keys then keys else keys @ [k]))"

definition linked_provisional_keys :: "dict \<Rightarrow> string \<Rightarrow> 'w turn_store \<Rightarrow> 'w \<Rightarrow> exn + string list" where
  "linked_provisional_keys ident verified_key store w =
     (let own = (case provisional_key_for ident of None \<Rightarrow> [] | Some k \<Rightarrow> [k]) in
      case ts_linked store of
        None \<Rightarrow> Inr own
      | Some list_linked \<Rightarrow> ebind (list_linked verified_key w) (\<lambda>linked. Inr (add_linked linked own)))"

fun merge_keys :: "'w turn_store \<Rightarrow> string \<Rightarrow> string list \<Rightarrow> bool \<Rightarrow> 'w \<Rightarrow> bool \<times> 'w" where
  "merge_keys store verified_key [] fired w = (fired, w)"
| "merge_keys store verified_key (k # ks) fired w =
     (case ts_merge store k verified_key w of
        (Inl e, w') \<Rightarrow> merge_keys store verified_key ks fired w'
      | (Inr merged, w') \<Rightarrow> merge_keys store verified_key ks (fired \<or> merged \<noteq> None) w')"

definition merge_turn_memory ::
  "environ \<Rightarrow> 'w turn_store \<Rightarrow> dict \<Rightarrow> 'w \<Rightarrow> (exn + bool) \<times> 'w" where
  "merge_turn_memory env store ident w =
     (case memory_enabled env of
        Inl e \<Rightarrow> (Inl e, w)
      | Inr on \<Rightarrow>
          (if \<not> on then (Inr False, w)
           else case binding_key_from_identity (JObj ident) of
             None \<Rightarrow> (Inr False, w)
           | Some (verified_key, kd) \<Rightarrow>
               (if kd \<noteq> ''verified'' then (Inr False, w)
                else case linked_provisional_keys ident verified_key store w of
                  Inl e \<Rightarrow> (Inl e, w)
                | Inr keys \<Rightarrow> (let (fired, w') = merge_keys store verified_key keys False w in (Inr fired, w')))))"

definition memory_dicts :: "(string \<times> string) list \<Rightarrow> dict list" where
  "memory_dicts slots = map (\<lambda>(name, value). [(''slot'', JStr name), (''value'', JStr value)]) slots"

definition experience_dicts :: "(string \<times> string) list \<Rightarrow> dict list" where
  "experience_dicts rows = map (\<lambda>(content, kind'). [(''content'', JStr content), (''kind'', JStr kind')]) rows"

text \<open>\<^verbatim>\<open>f"{injected}\n\n{body}" if injected else body\<close>\<close>

definition with_injection :: "string option \<Rightarrow> string \<Rightarrow> string" where
  "with_injection injected body = (if falsy injected then body else the injected @ nl @ nl @ body)"

section \<open>openrouter.py: the External turn\<close>

definition DEFAULT_MAX_ITERATIONS :: nat where "DEFAULT_MAX_ITERATIONS = 12"

definition turn_identity :: "turn_context \<Rightarrow> dict" where
  "turn_identity context =
     with_channel_identity
       (map_option (\<lambda>s. case snapshot_as_identity_dict s of JObj d \<Rightarrow> d | _ \<Rightarrow> []) (tc_snapshot context))
       (tc_from_phone context) (tc_channel context)"

definition external_user_message ::
  "'w deployment \<Rightarrow> dict \<Rightarrow> (string \<times> string) list option \<Rightarrow> (string \<times> string) list option \<Rightarrow> string \<Rightarrow> string" where
  "external_user_message dp ident memory experience inbound_body =
     with_injection (render_injection (dp_dash dp) (Some ident) (map_option memory_dicts memory)
       (map_option experience_dicts experience)) inbound_body"

definition external_run :: "'w deployment \<Rightarrow> openrouter_config \<Rightarrow> 'w booted \<Rightarrow> string \<Rightarrow> string \<Rightarrow> agent_run" where
  "external_run dp config b system_message user_message =
     \<lparr>an_base_url = oc_base_url config, an_api_key = oc_api_key config, an_model = oc_model config,
      an_max_iterations = DEFAULT_MAX_ITERATIONS, an_provider = Fallback_client (oc_fallback_model config),
      an_valid_tool_names = valid_tool_names (dp_builtins dp) (bp_tool_names b) True,
      an_system_message = system_message, an_user_message = user_message\<rparr>"

text \<open>
  \<^verbatim>\<open>make_openrouter_run_turn\<close> with its defaults: the settings of the environment, no injected client;
  \<open>persona\<close> is the system message.  First everything up to the run: the booted profile and its settings.
\<close>

definition external_turn_input ::
  "'w deployment \<Rightarrow> string \<Rightarrow> 'w turn_store option \<Rightarrow> turn_context \<Rightarrow> string \<Rightarrow> 'w
     \<Rightarrow> (exn + 'w booted \<times> agent_run) \<times> 'w" where
  "external_turn_input dp persona store context inbound_body w =
     (case resolve_openrouter_config (dp_env dp) of
        Inl e \<Rightarrow> (Inl e, w)
      | Inr config \<Rightarrow>
          let ident = turn_identity context; st = resolved_store dp store in
          (case merge_turn_memory (dp_env dp) st ident w of
             (Inl e, w1) \<Rightarrow> (Inl e, w1)
           | (Inr merge_fired, w1) \<Rightarrow>
               (case load_turn_memory (dp_env dp) st ident w1 of
                  Inl e \<Rightarrow> (Inl e, w1)
                | Inr memory \<Rightarrow>
                    (case record_memory_injection_metric dp (or_nil memory \<noteq> []) w1 of
                       Inl e \<Rightarrow> (Inl e, w1)
                     | Inr w2 \<Rightarrow>
                         (case ebind (turn_extra_drivers dp True)
                                 (boot_profile dp EXTERNAL (Some (tc_conversation_id context))
                                    (Some (tc_sms_session_id context)) (Some (JObj ident))) of
                            Inl e \<Rightarrow> (Inl e, w2)
                          | Inr b \<Rightarrow>
                              let experience = (if agent_experience_external_injection_enabled (dp_env dp)
                                                then experience_for_turn st w2 else None)
                              in (Inr (b, external_run dp config b persona
                                    (external_user_message dp ident memory experience inbound_body)), w2))))))"

definition openrouter_turn ::
  "'w deployment \<Rightarrow> string \<Rightarrow> 'w turn_store option \<Rightarrow> turn_context \<Rightarrow> string \<Rightarrow> 'w
     \<Rightarrow> (exn + captured_turn) \<times> 'w" where
  "openrouter_turn dp persona store context inbound_body w =
     (case external_turn_input dp persona store context inbound_body w of
        (Inl e, w') \<Rightarrow> (Inl e, w')
      | (Inr (b, run), w') \<Rightarrow> run_agent_turn dp b run w')"

section \<open>Lemmas\<close>

lemma memory_enabled_datastore: "memory_enabled env = Inr True \<longleftrightarrow> env ''TOOL_BACKEND'' = Some ''datastore''"
  by (auto simp: memory_enabled_def resolve_tool_backend_def KNOWN_BACKENDS_def exn_simps falsy_def
      split: option.splits if_splits)

lemma memory_enabled_Inr: "memory_enabled env = Inr on \<Longrightarrow> on \<longleftrightarrow> env ''TOOL_BACKEND'' = Some ''datastore''"
  using memory_enabled_datastore [of env] by (cases on) auto

lemma external_tools: "\<exists>entries. registered_tools (Some EXTERNAL) env = Inr entries"
  and internal_tools: "\<exists>entries. registered_tools (Some INTERNAL) env = Inr entries"
  by (simp_all add: registered_tools_def resolve_profile_def allowlisted_tools_def PROFILE_TOOL_ALLOWLIST_def
      EXTERNAL_def INTERNAL_def exn_simps falsy_def)

lemma boot_profile_Inr:
  assumes "boot_profile dp prof c ss ident extra = Inr b"
  obtains entries be where "registered_tools (Some prof) (dp_env dp ''TOEE_HERMES_PROFILE'') = Inr entries"
    "resolve_integration_driver (dp_env dp ''INTEGRATION_DRIVER'') = Inr be"
    "bp_tool_names b = sort (map se_name entries)"
    "bp_context b = context_provider prof ident c ss"
    "\<And>tool. bp_driver b tool = (case map_of (or_nil extra) tool of
       Some d \<Rightarrow> d
     | None \<Rightarrow> (if be = Composio \<and> tool = ''toee_easyroutes_read'' then dp_easyroutes dp
         else if be = Composio \<and> tool = ''toee_delivery_promise'' then dp_delivery dp
         else if be = Composio \<and> tool \<in> set COMPOSIO_LAYER1_TOOLS then dp_composio dp else dp_mock dp))"
proof -
  from assms obtain entries select where e: "registered_tools (Some prof) (dp_env dp ''TOEE_HERMES_PROFILE'') = Inr entries"
    and s: "build_driver_selector None (or_nil extra) (dp_env dp ''INTEGRATION_DRIVER'')
              (dp_mock dp) (dp_composio dp) (dp_easyroutes dp) (dp_delivery dp) = Inr select"
    and b: "b = \<lparr>bp_tool_names = sort (map (\<lambda>e. se_name e) entries), bp_driver = select,
          bp_context = context_provider prof ident c ss\<rparr>"
    unfolding boot_profile_def ebind_eq_Inr by blast
  from s obtain be where be: "resolve_integration_driver (dp_env dp ''INTEGRATION_DRIVER'') = Inr be"
    and sel: "select = (\<lambda>tool. case map_of (or_nil extra) tool of Some d \<Rightarrow> d
     | None \<Rightarrow> (if be = Composio \<and> tool = ''toee_easyroutes_read'' then dp_easyroutes dp
         else if be = Composio \<and> tool = ''toee_delivery_promise'' then dp_delivery dp
         else if be = Composio \<and> tool \<in> set COMPOSIO_LAYER1_TOOLS then dp_composio dp else dp_mock dp))"
    unfolding build_driver_selector_def option.case ebind_eq_Inr by blast
  show thesis by (rule that [OF e be]) (simp_all add: b sel)
qed

lemma boot_profile_names:
  assumes "boot_profile dp prof c ss ident extra = Inr b" and "map_of PROFILE_TOOL_ALLOWLIST prof = Some tools" and "prof \<noteq> []"
  shows "set (bp_tool_names b) = {hermes_tool_name t a | t a. is_tool_action t a
           \<and> t \<in> set tools \<and> (t, a) \<notin> set AGENT_EXCLUDED_ACTIONS}" (is "_ = ?names")
proof -
  from assms(1) obtain entries be where r: "registered_tools (Some prof) (dp_env dp ''TOEE_HERMES_PROFILE'') = Inr entries"
    and names: "bp_tool_names b = sort (map se_name entries)" by (rule boot_profile_Inr) blast
  from r obtain p tools' where p: "resolve_profile (Some prof) (dp_env dp ''TOEE_HERMES_PROFILE'') = Inr p"
    "allowlisted_tools p = Inr tools'"
    and e: "entries = filter (\<lambda>e. se_toolset e \<in> set tools'
        \<and> (se_tool e, se_action e) \<notin> set AGENT_EXCLUDED_ACTIONS) build_tool_schemas" by (rule registered_tools_iff)
  from p assms(2, 3) have tools: "tools' = tools"
    by (auto simp: resolve_profile_def falsy_def allowlisted_tools_def split: option.splits if_splits)
  show ?thesis
  proof (intro equalityI subsetI)
    fix n assume "n \<in> set (bp_tool_names b)"
    then obtain x where x: "n = se_name x" "x \<in> set entries" unfolding names set_sort set_map by blast
    from x(2) have y: "x \<in> set build_tool_schemas" "se_toolset x \<in> set tools"
      "(se_tool x, se_action x) \<notin> set AGENT_EXCLUDED_ACTIONS" by (simp_all add: e tools)
    from y(1) have "is_tool_action (se_tool x) (se_action x)" "se_toolset x = se_tool x"
      "n = hermes_tool_name (se_tool x) (se_action x)" by (simp_all add: set_build_tool_schemas x(1))
    with y show "n \<in> ?names" by auto
  next
    fix n assume "n \<in> ?names"
    then obtain t a where "n = hermes_tool_name t a" "is_tool_action t a" "t \<in> set tools" "(t, a) \<notin> set AGENT_EXCLUDED_ACTIONS"
      by blast
    then have "n = se_name \<lparr>se_tool = t, se_action = a, se_toolset = t, se_name = hermes_tool_name t a\<rparr>"
      "\<lparr>se_tool = t, se_action = a, se_toolset = t, se_name = hermes_tool_name t a\<rparr> \<in> set entries"
      by (simp_all add: e tools set_build_tool_schemas)
    then show "n \<in> set (bp_tool_names b)" unfolding names set_sort set_map by (rule image_eqI)
  qed
qed

text \<open>What a merge does to the slots: \<open>ks\<close> are the source keys, \<open>vk\<close> is the verified key.\<close>

definition merged_from :: "string set \<Rightarrow> string \<Rightarrow> slot_row list \<Rightarrow> slot_row list \<Rightarrow> bool" where
  "merged_from ks vk rows rows' \<longleftrightarrow>
     (\<forall>r \<in> set rows. p_binding_key r = vk \<longrightarrow> r \<in> set rows')
     \<and> (\<forall>q \<in> set rows'. p_binding_key q = vk \<longrightarrow>
          (\<exists>r \<in> set rows. p_binding_key r \<in> insert vk ks \<and> p_slot_name q = p_slot_name r \<and> p_slot_value q = p_slot_value r))
     \<and> (\<forall>q \<in> set rows'. p_binding_key q \<noteq> vk \<longrightarrow> q \<in> set rows)
     \<and> (\<forall>r \<in> set rows. p_binding_key r \<notin> ks \<longrightarrow> r \<in> set rows')
     \<and> (\<forall>r \<in> set rows. p_binding_key r \<in> ks \<longrightarrow>
          r \<in> set rows' \<or> (\<exists>q \<in> set rows'. p_binding_key q = vk \<and> p_slot_name q = p_slot_name r))"

lemma merged_from_refl: "merged_from ks vk rows rows"
  unfolding merged_from_def by blast

lemma merge_rows_names:
  assumes "merge_rows ex i vk rs slots = Inr (m, ov, slots')"
  shows "set slots \<subseteq> set slots' \<and> (\<forall>r \<in> set rs. \<exists>q \<in> set slots'. p_binding_key q = vk \<and> p_slot_name q = p_slot_name r)"
  using assms
proof (induction rs arbitrary: i slots m ov)
  case (Cons r rs)
  show ?case
  proof (cases "(vk, p_slot_name r) \<in> (\<lambda>q. (p_binding_key q, p_slot_name q)) ` set slots")
    case True
    then obtain q where q: "q \<in> set slots" "p_binding_key q = vk" "p_slot_name q = p_slot_name r" by auto
    from Cons.prems True obtain ov' where "merge_rows ex (Suc i) vk rs slots = Inr (m, ov', slots')"
      by (auto simp: exn_simps)
    note IH = Cons.IH [OF this]
    then have "q \<in> set slots'" using q(1) by (rule subsetD [OF conjunct1])
    with conjunct1 [OF IH] conjunct2 [OF IH] q show ?thesis by (metis set_ConsD)
  next
    case False
    define q where "q = \<lparr>p_id = new_id ''mem'' ex i, p_binding_key = vk, p_binding_kind = ''verified'',
           p_slot_name = p_slot_name r, p_slot_value = p_slot_value r,
           p_source = MEMORY_SOURCE_MERGED_PROVISIONAL, p_evidence = p_evidence r,
           p_actor_account_id = None, p_created_at = ee_now ex, p_updated_at = ee_now ex,
           p_last_interaction_at = ee_now ex\<rparr>"
    then have q: "p_binding_key q = vk" "p_slot_name q = p_slot_name r" by simp_all
    from Cons.prems False obtain m' where m: "merge_rows ex (Suc i) vk rs (slots @ [q]) = Inr (m', ov, slots')"
      by (auto simp: exn_simps pk_insert_Inr q_def)
    have "q \<in> set slots'" "set slots \<subseteq> set slots'" using Cons.IH [OF m] by auto
    moreover have "\<forall>r \<in> set rs. \<exists>q \<in> set slots'. p_binding_key q = vk \<and> p_slot_name q = p_slot_name r"
      using Cons.IH [OF m] by (rule conjunct2)
    ultimately show ?thesis using q by (metis set_ConsD)
  qed
qed simp

lemma merged_fromD:
  assumes "merged_from ks vk rows rows'"
  shows "\<forall>r \<in> set rows. p_binding_key r = vk \<longrightarrow> r \<in> set rows'"
    and "\<forall>q \<in> set rows'. p_binding_key q = vk \<longrightarrow>
          (\<exists>r \<in> set rows. p_binding_key r \<in> insert vk ks \<and> p_slot_name q = p_slot_name r \<and> p_slot_value q = p_slot_value r)"
    and "\<forall>q \<in> set rows'. p_binding_key q \<noteq> vk \<longrightarrow> q \<in> set rows"
    and "\<forall>r \<in> set rows. p_binding_key r \<notin> ks \<longrightarrow> r \<in> set rows'"
    and "\<forall>r \<in> set rows. p_binding_key r \<in> ks \<longrightarrow>
          r \<in> set rows' \<or> (\<exists>q \<in> set rows'. p_binding_key q = vk \<and> p_slot_name q = p_slot_name r)"
  using assms unfolding merged_from_def by - (elim conjE, assumption)+

lemma merged_keep: "merged_from A vk rs rs' \<Longrightarrow> r \<in> set rs \<Longrightarrow> p_binding_key r = vk \<Longrightarrow> r \<in> set rs'"
  by (drule merged_fromD(1)) blast

lemma merged_other: "merged_from A vk rs rs' \<Longrightarrow> r \<in> set rs \<Longrightarrow> p_binding_key r \<notin> A \<Longrightarrow> r \<in> set rs'"
  by (drule merged_fromD(4)) blast

lemma merged_old: "merged_from A vk rs rs' \<Longrightarrow> q \<in> set rs' \<Longrightarrow> p_binding_key q \<noteq> vk \<Longrightarrow> q \<in> set rs"
  by (drule merged_fromD(3)) blast

lemma merged_source:
  assumes "merged_from A vk rs rs'" and "q \<in> set rs'" and "p_binding_key q = vk"
  obtains r where "r \<in> set rs" "p_binding_key r \<in> insert vk A" "p_slot_name q = p_slot_name r" "p_slot_value q = p_slot_value r"
  using mp [OF bspec [OF merged_fromD(2) [OF assms(1)] assms(2)] assms(3)] by blast

lemma merged_named:
  assumes "merged_from A vk rs rs'" and "r \<in> set rs" and "p_binding_key r \<in> A"
  obtains "r \<in> set rs'" | q where "q \<in> set rs'" "p_binding_key q = vk" "p_slot_name q = p_slot_name r"
  using mp [OF bspec [OF merged_fromD(5) [OF assms(1)] assms(2)] assms(3)] by blast

lemma merged_from_trans:
  assumes a: "merged_from A vk r1 r2" and b: "merged_from B vk r2 r3"
  shows "merged_from (A \<union> B) vk r1 r3"
  unfolding merged_from_def
proof (intro conjI ballI impI)
  fix r
  assume r: "r \<in> set r1"
  show "r \<in> set r3" if "p_binding_key r = vk"
    by (rule merged_keep [OF b merged_keep [OF a r that] that])
  show "r \<in> set r3" if "p_binding_key r \<notin> A \<union> B"
    using merged_other [OF b merged_other [OF a r]] that by simp
  show "r \<in> set r3 \<or> (\<exists>q \<in> set r3. p_binding_key q = vk \<and> p_slot_name q = p_slot_name r)"
    if k: "p_binding_key r \<in> A \<union> B"
  proof -
    consider "r \<in> set r2" | q where "q \<in> set r2" "p_binding_key q = vk" "p_slot_name q = p_slot_name r"
      using merged_named [OF a r] merged_other [OF a r] by blast
    then show ?thesis
    proof cases
      case 1
      show ?thesis
      proof (cases "p_binding_key r \<in> B")
        case True
        show ?thesis by (rule merged_named [OF b 1 True]) blast+
      next
        case False
        then show ?thesis using merged_other [OF b 1] by simp
      qed
    next
      case 2
      then show ?thesis using merged_keep [OF b] by blast
    qed
  qed
next
  fix q assume q: "q \<in> set r3"
  show "q \<in> set r1" if "p_binding_key q \<noteq> vk" by (rule merged_old [OF a merged_old [OF b q that] that])
  assume v: "p_binding_key q = vk"
  from merged_source [OF b q v] obtain r where r: "r \<in> set r2" "p_binding_key r \<in> insert vk B"
    "p_slot_name q = p_slot_name r" "p_slot_value q = p_slot_value r" .
  show "\<exists>r \<in> set r1. p_binding_key r \<in> insert vk (A \<union> B) \<and> p_slot_name q = p_slot_name r \<and> p_slot_value q = p_slot_value r"
  proof (cases "p_binding_key r = vk")
    case True
    from merged_source [OF a r(1) True] obtain r0 where "r0 \<in> set r1" "p_binding_key r0 \<in> insert vk A"
      "p_slot_name r = p_slot_name r0" "p_slot_value r = p_slot_value r0" .
    with r show ?thesis by (intro bexI [of _ r0]) auto
  next
    case False
    from merged_old [OF a r(1) False] r False show ?thesis by (intro bexI [of _ r]) auto
  qed
qed

lemma merge_one:
  assumes "ts_merge (pg_turn_store down ex) k vk d = (res, d')" and "k \<noteq> vk"
  shows "merged_from {k} vk (db_slots d) (db_slots d')"
proof (cases "\<exists>m ov. res = Inr (Some (m, ov))")
  case False
  then have "d' = d"
    using assms(1) by (auto simp: pg_turn_store_def merge_provisional_memory_def Let_def
        split: option.splits if_splits sum.splits prod.splits)
  then show ?thesis by (simp add: merged_from_refl)
next
  case True
  then obtain m ov where merged: "merge_provisional_memory (ex k) k vk d = (Inr (Some (m, ov)), d')"
    using assms(1) by (auto simp: pg_turn_store_def split: option.splits)
  note D = merge_provisional_memoryD [OF merged assms(2)]
  from D(2) obtain new where n: "filter (\<lambda>r. p_binding_key r = vk) (db_slots d') = filter (\<lambda>r. p_binding_key r = vk) (db_slots d) @ new"
     "map p_slot_name new = m"
     "\<forall>q \<in> set new. \<exists>r \<in> set (db_slots d). p_binding_key r = k \<and> p_slot_name q = p_slot_name r \<and> p_slot_value q = p_slot_value r"
    by blast
  have other: "r \<in> set (db_slots d') \<longleftrightarrow> r \<in> set (db_slots d)" if "p_binding_key r \<noteq> k" "p_binding_key r \<noteq> vk" for r
  proof -
    have "r \<in> set (filter (\<lambda>q. p_binding_key q = p_binding_key r) (db_slots d'))
        \<longleftrightarrow> r \<in> set (filter (\<lambda>q. p_binding_key q = p_binding_key r) (db_slots d))" by (simp only: D(3) [OF that])
    then show ?thesis by simp
  qed
  have gone: "p_binding_key r \<noteq> k" if "r \<in> set (db_slots d')" for r
    using D(1) that by (auto simp: filter_empty_conv)
  have at_vk: "r \<in> set (db_slots d') \<and> p_binding_key r = vk \<longleftrightarrow> (r \<in> set (db_slots d) \<and> p_binding_key r = vk) \<or> r \<in> set new" for r
  proof -
    have "r \<in> set (filter (\<lambda>q. p_binding_key q = vk) (db_slots d')) \<longleftrightarrow>
      r \<in> set (filter (\<lambda>q. p_binding_key q = vk) (db_slots d)) \<or> r \<in> set new" by (simp only: n(1) set_append Un_iff)
    then show ?thesis by auto
  qed
  show ?thesis unfolding merged_from_def
  proof (intro conjI ballI impI)
    fix r assume r: "r \<in> set (db_slots d)"
    show "r \<in> set (db_slots d')" if "p_binding_key r = vk" using at_vk r that by blast
    show "r \<in> set (db_slots d')" if "p_binding_key r \<notin> {k}"
      using at_vk [of r] other [of r] r that by (cases "p_binding_key r = vk") auto
    assume "p_binding_key r \<in> {k}"
    with r have "r \<in> set (sort_key p_slot_name (filter (\<lambda>r. p_binding_key r = k) (db_slots d)))" by simp
    moreover from merged obtain slots where m: "merge_rows (ex k) 0 vk
        (sort_key p_slot_name (filter (\<lambda>r. p_binding_key r = k) (db_slots d))) (db_slots d) = Inr (m, ov, slots)"
      and d': "db_slots d' = filter (\<lambda>r. p_binding_key r \<noteq> k) slots"
      unfolding merge_provisional_memory_def Let_def
      by (auto simp: pk_insert_Inr split: if_splits sum.splits prod.splits)
    ultimately show "r \<in> set (db_slots d') \<or> (\<exists>q \<in> set (db_slots d'). p_binding_key q = vk \<and> p_slot_name q = p_slot_name r)"
      using merge_rows_names [OF m] assms(2) by fastforce
  next
    fix q assume q: "q \<in> set (db_slots d')"
    show "q \<in> set (db_slots d)" if "p_binding_key q \<noteq> vk" using other [of q] gone [OF q] q that by blast
    assume "p_binding_key q = vk"
    with at_vk q consider "q \<in> set (db_slots d)" | "q \<in> set new" by blast
    then show "\<exists>r \<in> set (db_slots d). p_binding_key r \<in> insert vk {k} \<and> p_slot_name q = p_slot_name r \<and> p_slot_value q = p_slot_value r"
      using n(3) \<open>p_binding_key q = vk\<close> by cases fastforce+
  qed
qed

lemma merge_keys_from:
  assumes "merge_keys (pg_turn_store down ex) vk ks fired d = (f, d')" and "vk \<notin> set ks"
  shows "merged_from (set ks) vk (db_slots d) (db_slots d')"
  using assms
proof (induction ks arbitrary: fired d)
  case Nil
  then show ?case by (simp add: merged_from_refl)
next
  case (Cons k ks)
  obtain res d1 where m: "ts_merge (pg_turn_store down ex) k vk d = (res, d1)" by fastforce
  from Cons.prems m obtain fired' where "merge_keys (pg_turn_store down ex) vk ks fired' d1 = (f, d')"
    by (auto split: sum.splits)
  with Cons have "merged_from (set ks) vk (db_slots d1) (db_slots d')" by simp
  with merge_one [OF m] Cons.prems(2) have "merged_from ({k} \<union> set ks) vk (db_slots d) (db_slots d')"
    by (intro merged_from_trans) auto
  then show ?case by simp
qed

section \<open>Properties\<close>

text \<open>The keys under which a turn may read memory: its own binding, and for a verified caller the linked channels.\<close>

definition turn_sources :: "dict \<Rightarrow> db \<Rightarrow> string set" where
  "turn_sources ident d =
     (case binding_key_from_identity (JObj ident) of
        None \<Rightarrow> {}
      | Some (k, kd) \<Rightarrow>
          (if kd = ''verified''
           then insert k (set (add_linked (list_channel_identities_for_customer k d)
                  (case provisional_key_for ident of None \<Rightarrow> [] | Some p \<Rightarrow> [p])))
           else {k}))"

lemma channel_binding_provisional:
  assumes "binding_key_from_identity (JObj [(''channel'', c), (''channel_identity'', i)]) = Some (k, kd)"
  shows "\<exists>ch n. k = provisional_key ch n"
proof -
  from assms have "provisional_binding [(''channel'', c), (''channel_identity'', i)] = Some (k, kd)"
    by (simp add: binding_key_from_identity_def is_verified_customer_identity_def dict_simps)
  then show ?thesis by (auto dest!: provisional_bindingD)
qed

lemma own_key_provisional: "provisional_key_for ident = Some k \<Longrightarrow> \<exists>ch n. k = provisional_key ch n"
  by (auto simp: provisional_key_for_def dest: channel_binding_provisional)

lemma add_linked_provisional:
  "k \<in> set (add_linked linked keys) \<Longrightarrow> k \<in> set keys \<or> (\<exists>ch n. k = provisional_key ch n)"
proof (induction linked keys rule: add_linked.induct)
  case (2 c i linked keys)
  show ?case
  proof (cases "binding_key_from_identity (JObj [(''channel'', JStr c), (''channel_identity'', JStr i)])")
    case None
    with 2 show ?thesis by simp
  next
    case (Some b)
    obtain k' kd where b: "b = (k', kd)" by fastforce
    with 2 Some have "k \<in> set (if k' \<in> set keys then keys else keys @ [k']) \<or> (\<exists>ch n. k = provisional_key ch n)" by simp
    with channel_binding_provisional [of "JStr c" "JStr i" k' kd] Some b show ?thesis by (auto split: if_splits)
  qed
qed simp

lemma merge_turn_memory_slots:
  assumes "merge_turn_memory env (pg_turn_store down ex) ident d = (Inr fired, d1)"
    and "\<And>k. binding_key_from_identity (JObj ident) = Some (k, ''verified'') \<Longrightarrow> \<forall>ch n. k \<noteq> provisional_key ch n"
  obtains "db_slots d1 = db_slots d"
  | vk where "binding_key_from_identity (JObj ident) = Some (vk, ''verified'')"
      "merged_from (turn_sources ident d - {vk}) vk (db_slots d) (db_slots d1)"
proof (cases "d1 = d")
  case True
  then show thesis by (intro that(1)) simp
next
  case False
  with assms(1) obtain vk keys where b: "binding_key_from_identity (JObj ident) = Some (vk, ''verified'')"
    and k: "linked_provisional_keys ident vk (pg_turn_store down ex) d = Inr keys"
    and m: "merge_keys (pg_turn_store down ex) vk keys False d = (fired, d1)"
    by (auto simp: merge_turn_memory_def split: sum.splits if_splits option.splits prod.splits)
  define own where "own = (case provisional_key_for ident of None \<Rightarrow> [] | Some p \<Rightarrow> [p])"
  from k have keys: "keys = add_linked (list_channel_identities_for_customer vk d) own"
    by (auto simp: linked_provisional_keys_def pg_turn_store_def connected_def exn_simps own_def split: option.splits)
  have "vk \<notin> set keys"
  proof
    assume "vk \<in> set keys"
    then have "vk \<in> set own \<or> (\<exists>ch n. vk = provisional_key ch n)" unfolding keys by (rule add_linked_provisional)
    then show False using assms(2) [OF b] own_key_provisional [of ident vk] by (auto simp: own_def split: option.splits)
  qed
  moreover from b have "turn_sources ident d - {vk} = set keys - {vk}" by (auto simp: turn_sources_def keys own_def)
  ultimately have "merged_from (turn_sources ident d - {vk}) vk (db_slots d) (db_slots d1)"
    using merge_keys_from [OF m] by simp
  with b show thesis by (rule that(2))
qed

lemma external_turn_input_Inr:
  assumes "external_turn_input dp persona store context body w = (Inr (b, run), w')"
  obtains config fired w1 memory extra experience where
    "resolve_openrouter_config (dp_env dp) = Inr config"
    "merge_turn_memory (dp_env dp) (resolved_store dp store) (turn_identity context) w = (Inr fired, w1)"
    "load_turn_memory (dp_env dp) (resolved_store dp store) (turn_identity context) w1 = Inr memory"
    "record_memory_injection_metric dp (or_nil memory \<noteq> []) w1 = Inr w'"
    "turn_extra_drivers dp True = Inr extra"
    "boot_profile dp EXTERNAL (Some (tc_conversation_id context)) (Some (tc_sms_session_id context))
       (Some (JObj (turn_identity context))) extra = Inr b"
    "run = external_run dp config b persona (external_user_message dp (turn_identity context) memory experience body)"
  using assms unfolding external_turn_input_def Let_def ebind_def
  by (auto split: sum.splits prod.splits)

text \<open>
  Whose memory a turn may show, from the message and the tables alone: the key of the phone or address the message
  came from; and when the ingress verified a customer, that customer's id and the keys of the channels linked to it.
  The turn writes and reads under one of them.
\<close>

definition contact_key :: "string \<Rightarrow> string \<Rightarrow> string" where
  "contact_key ch i = ''provisional:'' @ ch @ '':''
     @ (if ch \<in> {''email'', ''simulated_email''} then canonicalize_email i else normalize_e164 i)"

definition caller_key :: "turn_context \<Rightarrow> string" where
  "caller_key context =
     contact_key (if tc_channel context \<in> {''email'', ''simulated_email''} then ''email'' else ''sms'') (tc_from_phone context)"

definition verified_caller :: "turn_context \<Rightarrow> string \<Rightarrow> bool" where
  "verified_caller context g \<longleftrightarrow>
     (\<exists>snap. tc_snapshot context = Some snap \<and> snap_outcome snap = ''verified_customer'' \<and> snap_customer_id snap = JStr g \<and> g \<noteq> [])"

definition own_memory_key :: "turn_context \<Rightarrow> db \<Rightarrow> string \<Rightarrow> bool" where
  "own_memory_key context d k \<longleftrightarrow> k = caller_key context
     \<or> (\<exists>g. verified_caller context g \<and> (k = g
          \<or> (\<exists>l \<in> set (db_links d). l_shopify_customer_id l = Some g \<and> k = contact_key (l_channel l) (l_channel_identity l))))"

lemma binding_of_contact:
  "binding_key_from_identity (JObj [(''channel'', JStr ch), (''channel_identity'', JStr i)]) = Some (k, kd) \<Longrightarrow> k = contact_key ch i"
  by (auto simp: binding_key_from_identity_def is_verified_customer_identity_def provisional_binding_def provisional_key_def
      contact_key_def is_email_channel_def SIMULATED_EMAIL_def dict_simps Let_def split: if_splits)

lemma add_linked_keys:
  "k \<in> set (add_linked linked keys) \<Longrightarrow> k \<in> set keys \<or> (\<exists>(ch, i) \<in> set linked. k = contact_key ch i)"
proof (induction linked keys rule: add_linked.induct)
  case (2 c i linked keys)
  show ?case
  proof (cases "binding_key_from_identity (JObj [(''channel'', JStr c), (''channel_identity'', JStr i)])")
    case None
    with 2 show ?thesis by auto
  next
    case (Some b)
    obtain k' kd where b: "b = (k', kd)" by fastforce
    with 2 Some have "k \<in> set (if k' \<in> set keys then keys else keys @ [k']) \<or> (\<exists>(ch, i) \<in> set linked. k = contact_key ch i)" by simp
    with binding_of_contact [of c i k' kd] Some b show ?thesis by (auto split: if_splits)
  qed
qed simp

lemma linked_identities:
  "(ch, i) \<in> set (list_channel_identities_for_customer g d) \<Longrightarrow>
     \<exists>l \<in> set (db_links d). l_shopify_customer_id l = Some g \<and> ch = l_channel l \<and> i = l_channel_identity l"
  by (auto simp: list_channel_identities_for_customer_def)

lemma get_set_keys_or: "get (set_keys d upd) k = get_or upd k (get d k)"
proof -
  have old: "map_of (map (\<lambda>(k, v). (k, get_or upd k v)) d) k = map_option (get_or upd k) (map_of d k)"
    by (induction d) auto
  have new: "map_of (filter (\<lambda>(k, v). k \<notin> S) upd) k = (if k \<in> S then None else map_of upd k)" for S
    by (induction upd) auto
  have all: "map_of (set_keys d upd) k = (case map_of d k of None \<Rightarrow> map_of upd k | Some v \<Rightarrow> Some (get_or upd k v))"
    using map_of_eq_None_iff [of d k] by (auto simp: set_keys_def map_add_def old new split: option.splits)
  show ?thesis unfolding get_def get_or_def [of "set_keys d upd"] all by (simp add: get_or_def split: option.split)
qed

lemma snapshot_fields:
  "get (case snapshot_as_identity_dict snap of JObj d \<Rightarrow> d | _ \<Rightarrow> []) ''outcome'' = JStr (snap_outcome snap)"
  "get (case snapshot_as_identity_dict snap of JObj d \<Rightarrow> d | _ \<Rightarrow> []) ''shopify_customer_id''
     = (if truthy (snap_customer_id snap) then snap_customer_id snap else JNull)"
  by (auto simp: snapshot_as_identity_dict_def dict_simps split: option.split)

lemma turn_identity_fields:
  "get (turn_identity context) ''outcome'' = (case tc_snapshot context of None \<Rightarrow> JNull | Some snap \<Rightarrow> JStr (snap_outcome snap))"
  "get (turn_identity context) ''shopify_customer_id'' = (case tc_snapshot context of None \<Rightarrow> JNull
     | Some snap \<Rightarrow> if truthy (snap_customer_id snap) then snap_customer_id snap else JNull)"
  "get (turn_identity context) ''channel'' =
     JStr (if tc_channel context \<in> {''email'', ''simulated_email''} then ''email'' else ''sms'')"
  "get (turn_identity context) ''channel_identity'' =
     JStr (if tc_channel context \<in> {''email'', ''simulated_email''} then canonicalize_email (tc_from_phone context)
           else normalize_e164 (tc_from_phone context))"
  unfolding turn_identity_def with_channel_identity_def get_set_keys_or
  by (auto simp: or_nil_def snapshot_fields get_or_def is_email_channel_def SIMULATED_EMAIL_def dict_simps split: option.splits)

lemma lower_char_props: "py_isspace (py_lower_char c) = py_isspace c" "py_lower_char (py_lower_char c) = py_lower_char c"
proof -
  have b: "code c < 256" by (simp add: code_def)
  then have u: "code (char_of (code c + 32)) = code c + 32" if "code c + 32 < 256" using that by (simp add: code_def)
  show "py_isspace (py_lower_char c) = py_isspace c"
    using u by (auto simp: py_lower_char_def py_isspace_def Let_def)
  show "py_lower_char (py_lower_char c) = py_lower_char c"
    using u by (auto simp: py_lower_char_def Let_def)
qed

lemma lower_props: "py_strip (py_lower s) = py_lower (py_strip s)" "py_lower (py_lower s) = py_lower s"
  by (simp_all add: py_strip_def py_lower_def lstrip_by_def rstrip_by_def dropWhile_map rev_map comp_def lower_char_props)

lemma canonicalize_email_idem: "canonicalize_email (canonicalize_email s) = canonicalize_email s"
  by (simp add: canonicalize_email_def lower_props py_strip_idem)

lemma provisional_of_turn:
  "provisional_binding (turn_identity context) = Some (k, kd) \<Longrightarrow> k = caller_key context \<and> kd = ''provisional''"
  by (auto simp: provisional_binding_def turn_identity_fields is_email_channel_def SIMULATED_EMAIL_def caller_key_def contact_key_def
      provisional_key_def canonicalize_email_idem normalize_e164_idem Let_def split: if_splits)

text \<open>The turn's binding: the verified customer, else the contact the message came from.\<close>

lemma binding_of_turn:
  assumes "binding_key_from_identity (JObj (turn_identity context)) = Some (k, kd)"
  shows "kd = ''verified'' \<and> verified_caller context k
    \<or> kd = ''provisional'' \<and> k = caller_key context \<and> (\<forall>g. \<not> verified_caller context g)"
  using assms provisional_of_turn [of "context" k kd]
  by (auto simp: binding_key_from_identity_def is_verified_customer_identity_def turn_identity_fields verified_caller_def
      split: json.splits option.splits if_splits)

lemma binding_of_verified:
  "verified_caller context g \<Longrightarrow> binding_key_from_identity (JObj (turn_identity context)) = Some (g, ''verified'')"
  by (auto simp: binding_key_from_identity_def is_verified_customer_identity_def turn_identity_fields verified_caller_def)

lemma own_key_of_turn: "provisional_key_for (turn_identity context) = Some k \<Longrightarrow> k = caller_key context"
  by (auto simp: provisional_key_for_def turn_identity_fields caller_key_def contact_key_def canonicalize_email_idem
      normalize_e164_idem dest!: binding_of_contact split: if_splits)

lemma turn_sources_own: "k \<in> turn_sources (turn_identity context) d \<Longrightarrow> own_memory_key context d k"
  unfolding turn_sources_def
  by (auto simp: own_memory_key_def dest!: binding_of_turn add_linked_keys linked_identities own_key_of_turn
      split: option.splits if_splits) blast+


lemma metric_on: "memory_enabled (dp_env dp) = Inr on \<Longrightarrow> \<exists>w'. record_memory_injection_metric dp flag w = Inr w'"
  by (simp add: record_memory_injection_metric_def exn_simps)

lemma turn_drivers_on: "memory_enabled (dp_env dp) = Inr on \<Longrightarrow> \<exists>extra. turn_extra_drivers dp True = Inr extra"
  by (simp add: turn_extra_drivers_def customer_memory_extra_drivers_def select_tool_driver_def
      resolve_tool_backend_def KNOWN_BACKENDS_def falsy_def exn_simps Let_def)

lemma boot_external_on:
  assumes "resolve_integration_driver (dp_env dp ''INTEGRATION_DRIVER'') = Inr be"
  shows "\<exists>b. boot_profile dp EXTERNAL c ss ident extra = Inr b"
  using assms external_tools [of "dp_env dp ''TOEE_HERMES_PROFILE''"]
  by (auto simp: boot_profile_def build_driver_selector_def exn_simps)

lemma load_turn_memory_on: "memory_enabled env = Inr on \<Longrightarrow> \<exists>memory. load_turn_memory env store ident w = Inr memory"
  by (simp add: load_turn_memory_def exn_simps split: option.splits sum.splits)

text \<open>C28.  No failure of the memory store keeps a customer from an answer, but one: in a deployment
  whose settings are valid, a turn ends before the model runs exactly when memory is on, the caller is verified
  and the lookup of the channels linked to that customer raises.  Failing reads, merges and lookups of confirmed
  learnings are survived, whatever the store does; this one lookup stands outside the handler that the merge of
  each channel has.\<close>

theorem turn_blocked_iff:
  assumes "resolve_openrouter_config (dp_env dp) = Inr config" and "memory_enabled (dp_env dp) = Inr on"
    and "resolve_integration_driver (dp_env dp ''INTEGRATION_DRIVER'') = Inr be"
  shows "(\<exists>e. fst (external_turn_input dp persona store context body w) = Inl e) \<longleftrightarrow>
     on \<and> (\<exists>k list_linked e. binding_key_from_identity (JObj (turn_identity context)) = Some (k, ''verified'')
        \<and> ts_linked (resolved_store dp store) = Some list_linked \<and> list_linked k w = Inl e)"
proof -
  let ?id = "turn_identity context" and ?st = "resolved_store dp store"
  obtain res w1 where m: "merge_turn_memory (dp_env dp) ?st ?id w = (res, w1)" by fastforce
  have blocked: "(\<exists>e. res = Inl e) \<longleftrightarrow> on \<and> (\<exists>k list_linked e. binding_key_from_identity (JObj ?id) = Some (k, ''verified'')
        \<and> ts_linked ?st = Some list_linked \<and> list_linked k w = Inl e)"
    using m assms(2) by (auto simp: merge_turn_memory_def linked_provisional_keys_def ebind_def Let_def
        split: option.splits if_splits sum.splits prod.splits)
  have "(\<exists>e. fst (external_turn_input dp persona store context body w) = Inl e) \<longleftrightarrow> (\<exists>e. res = Inl e)"
  proof (cases res)
    case (Inl e)
    then show ?thesis by (simp add: external_turn_input_def assms(1) m)
  next
    case (Inr fired)
    obtain memory where l: "load_turn_memory (dp_env dp) ?st ?id w1 = Inr memory"
      using load_turn_memory_on [OF assms(2), of ?st ?id w1] by auto
    obtain w2 where w: "record_memory_injection_metric dp (or_nil memory \<noteq> []) w1 = Inr w2"
      using metric_on [OF assms(2)] by blast
    obtain extra where x: "turn_extra_drivers dp True = Inr extra" using turn_drivers_on [OF assms(2)] by blast
    obtain b where "boot_profile dp EXTERNAL (Some (tc_conversation_id context)) (Some (tc_sms_session_id context))
       (Some (JObj ?id)) extra = Inr b" using boot_external_on [OF assms(3)] by blast
    then show ?thesis by (simp add: external_turn_input_def assms(1) m Inr l w x exn_simps Let_def)
  qed
  with blocked show ?thesis by simp
qed

text \<open>C16.  A booted External turn may call the registered governed tools of its profile and
  nothing else, so no tool of the framework; its customer memory is served by the datastore exactly when that is
  the backend; and the conversation and the identity of every call are those of the turn, whatever the model or the
  call passes.\<close>

theorem external_turn_governed:
  assumes "external_turn_input dp persona store context body w = (Inr (b, run), w')"
  shows "an_valid_tool_names run = {hermes_tool_name t a | t a. is_tool_action t a
           \<and> t \<in> set (the (map_of PROFILE_TOOL_ALLOWLIST EXTERNAL)) \<and> (t, a) \<notin> set AGENT_EXCLUDED_ACTIONS}
     \<and> bp_driver b ''toee_customer_memory'' = (if dp_env dp ''TOOL_BACKEND'' = Some ''datastore'' then dp_postgres dp else dp_mock dp)
     \<and> (\<forall>kwargs. ctx_conversation_id (bp_context b kwargs) = Some (tc_conversation_id context)
          \<and> identity (bp_context b kwargs) = JObj (turn_identity context) \<and> profile (bp_context b kwargs) = EXTERNAL)"
proof -
  from assms obtain config memory extra experience where
      x: "turn_extra_drivers dp True = Inr extra"
    and boot: "boot_profile dp EXTERNAL (Some (tc_conversation_id context)) (Some (tc_sms_session_id context))
       (Some (JObj (turn_identity context))) extra = Inr b"
    and run: "run = external_run dp config b persona (external_user_message dp (turn_identity context) memory experience body)"
    by (rule external_turn_input_Inr) blast
  from boot obtain be where
      ctx: "bp_context b = context_provider EXTERNAL (Some (JObj (turn_identity context)))
       (Some (tc_conversation_id context)) (Some (tc_sms_session_id context))"
    and drv: "\<And>tool. bp_driver b tool = (case map_of (or_nil extra) tool of
       Some d \<Rightarrow> d
     | None \<Rightarrow> (if be = Composio \<and> tool = ''toee_easyroutes_read'' then dp_easyroutes dp
         else if be = Composio \<and> tool = ''toee_delivery_promise'' then dp_delivery dp
         else if be = Composio \<and> tool \<in> set COMPOSIO_LAYER1_TOOLS then dp_composio dp else dp_mock dp))"
    by (rule boot_profile_Inr) blast
  obtain tools where t: "map_of PROFILE_TOOL_ALLOWLIST EXTERNAL = Some tools"
    by (simp add: PROFILE_TOOL_ALLOWLIST_def)
  then have tools: "tools = the (map_of PROFILE_TOOL_ALLOWLIST EXTERNAL)" by simp
  have set_names: "set (bp_tool_names b) = {hermes_tool_name t a | t a. is_tool_action t a
           \<and> t \<in> set tools \<and> (t, a) \<notin> set AGENT_EXCLUDED_ACTIONS}"
    by (rule boot_profile_names [OF boot t]) (simp add: EXTERNAL_def)
  have "bp_tool_names b \<noteq> []"
  proof -
    have "hermes_tool_name ''toee_case'' ''create_case'' \<in> set (bp_tool_names b)"
      unfolding set_names tools by (intro CollectI exI conjI) (rule refl, code_simp+)
    then show ?thesis by auto
  qed
  then have "an_valid_tool_names run = set (bp_tool_names b)"
    by (simp add: run external_run_def valid_tool_names_def)
  moreover have "bp_driver b ''toee_customer_memory'' =
      (if dp_env dp ''TOOL_BACKEND'' = Some ''datastore'' then dp_postgres dp else dp_mock dp)"
    using x by (auto simp: drv turn_extra_drivers_def customer_memory_extra_drivers_def select_tool_driver_def
        knowledge_extra_drivers_def resolve_tool_backend_def KNOWN_BACKENDS_def or_nil_def COMPOSIO_LAYER1_TOOLS_def
        exn_simps falsy_def Let_def dest!: memory_enabled_Inr split: if_splits option.splits)
  ultimately show ?thesis using set_names by (simp add: tools ctx context_provider_def)
qed

section \<open>A sample deployment\<close>

text \<open>Memory on; a verified caller whose shop id carries one slot, one more on the phone linked to it.\<close>

definition sample_dp :: "db deployment" where
  "sample_dp =
     \<lparr>dp_env = map_of [(OPENROUTER_KEY_ENV, ''sk''), (''TOOL_BACKEND'', ''datastore'')],
      dp_mock = \<lparr>kind = ''mock'', exec = \<lambda>_ _ s. (Inr JNull, s)\<rparr>,
      dp_composio = \<lparr>kind = ''composio'', exec = \<lambda>_ _ s. (Inr JNull, s)\<rparr>,
      dp_easyroutes = \<lparr>kind = ''easyroutes'', exec = \<lambda>_ _ s. (Inr JNull, s)\<rparr>,
      dp_delivery = \<lparr>kind = ''delivery'', exec = \<lambda>_ _ s. (Inr JNull, s)\<rparr>,
      dp_postgres = \<lparr>kind = ''datastore'', exec = \<lambda>_ _ s. (Inr JNull, s)\<rparr>,
      dp_knowledge = \<lparr>kind = ''knowledge'', exec = \<lambda>_ _ s. (Inr JNull, s)\<rparr>,
      dp_gateway_store = pg_turn_store None (\<lambda>_. sample_env),
      dp_emit = emit_metric_event None sample_env,
      dp_agent = \<lambda>_ _ w. (Inr \<lparr>ct_final_response = None, ct_messages = []\<rparr>, w),
      dp_builtins = [''terminal''], dp_dash = ''-''\<rparr>"

definition sample_context :: turn_context where
  "sample_context =
     \<lparr>tc_event_id = ''e'', tc_conversation_id = ''c'', tc_sms_session_id = ''s'', tc_customer_thread_id = ''t'',
      tc_from_phone = ''+14165550101'',
      tc_snapshot = Some \<lparr>snap_outcome = ''verified_customer'', snap_resolved_at = JStr ''t'',
        snap_customer_id = JStr ''gid'', snap_customer_ids = None, snap_display_name = None\<rparr>,
      tc_inbound_body_ref = ''b'', tc_channel = ''simpletexting_sms''\<rparr>"

definition sample_slots :: db where
  "sample_slots = empty_db\<lparr>db_slots := [sample_slot ''a'' ''provisional:sms:+14165550101'' ''tone'' ''warm'',
     sample_slot ''b'' ''gid'' ''language'' ''fr'', sample_slot ''c'' ''other'' ''tone'' ''cold'']\<rparr>"

lemma sample_turn: "\<exists>b run d'. external_turn_input sample_dp ''p'' (Some (pg_turn_store None (\<lambda>_. sample_env)))
    sample_context ''hi'' sample_slots = (Inr (b, run), d')"
proof -
  have "\<not> isl (fst (external_turn_input sample_dp ''p'' (Some (pg_turn_store None (\<lambda>_. sample_env)))
    sample_context ''hi'' sample_slots))" by code_simp
  then show ?thesis by (metis prod.collapse sum.collapse(2))
qed

lemma sample_binding: "binding_key_from_identity (JObj (turn_identity sample_context)) = Some (''gid'', ''verified'')"
  by code_simp


theorem turn_blocked_iff_witness:
  "(\<exists>e. fst (external_turn_input sample_dp ''p'' (Some (pg_turn_store (Some (PyError ''OperationalError'' ''down'')) (\<lambda>_. sample_env)))
       sample_context ''hi'' sample_slots) = Inl e)
   \<and> \<not> (\<exists>e. fst (external_turn_input sample_dp ''p'' (Some (pg_turn_store (Some (PyError ''OperationalError'' ''down'')) (\<lambda>_. sample_env)))
       (sample_context\<lparr>tc_snapshot := None\<rparr>) ''hi'' sample_slots) = Inl e)"
proof -
  let ?st = "pg_turn_store (Some (PyError ''OperationalError'' ''down'')) (\<lambda>_. sample_env)"
  have c: "\<not> isl (resolve_openrouter_config (dp_env sample_dp))" "memory_enabled (dp_env sample_dp) = Inr True"
    "\<not> isl (resolve_integration_driver (dp_env sample_dp ''INTEGRATION_DRIVER''))" by code_simp+
  then obtain config be where "resolve_openrouter_config (dp_env sample_dp) = Inr config"
    "resolve_integration_driver (dp_env sample_dp ''INTEGRATION_DRIVER'') = Inr be" by (metis sum.collapse(2))
  note iff = turn_blocked_iff [OF this(1) c(2) this(2), of "''p''" "Some ?st" _ "''hi''" sample_slots]
  have "binding_key_from_identity (JObj (turn_identity (sample_context\<lparr>tc_snapshot := None\<rparr>)))
      = Some (''provisional:sms:+14165550101'', ''provisional'')" by code_simp
  then show ?thesis unfolding iff
    by (auto simp: sample_binding resolved_store_def pg_turn_store_def connected_def)
qed

theorem external_turn_governed_witness:
  "\<exists>b run d'. external_turn_input sample_dp ''p'' (Some (pg_turn_store None (\<lambda>_. sample_env)))
       sample_context ''hi'' sample_slots = (Inr (b, run), d')
     \<and> ''terminal'' \<notin> an_valid_tool_names run \<and> kind (bp_driver b ''toee_customer_memory'') = ''datastore''"
proof -
  obtain b run d' where t: "external_turn_input sample_dp ''p'' (Some (pg_turn_store None (\<lambda>_. sample_env)))
    sample_context ''hi'' sample_slots = (Inr (b, run), d')" using sample_turn by blast
  have "''terminal'' \<noteq> hermes_tool_name t a" for t a
    by (rule notI, drule arg_cong [of _ _ "\<lambda>n. CHR ''_'' \<in> set n"]) (simp add: hermes_tool_name_def)
  with external_turn_governed [OF t] t show ?thesis
    by (auto simp: sample_dp_def OPENROUTER_KEY_ENV_def)
qed

end
