(* ===== verification/CopilotTurn.thy ===== *)
theory CopilotTurn
  imports AgentTurn Worker DispatchApp
begin

text \<open>
  The turns of the internal copilot, \<^verbatim>\<open>hermes_runtime/copilot_turn.py\<close>: a draft for a rep, bound to a case, and
  the review pass over a finished draft, which a worker runs from the job the draft leaves behind.
\<close>

section \<open>Prompts\<close>

definition SCRIPTED_MODEL :: string where "SCRIPTED_MODEL = ''scripted''"

definition SUBJECT_LINE_PREFIX :: string where "SUBJECT_LINE_PREFIX = ''subject:''"

text \<open>\<open>dash\<close> is the character U+2014.\<close>

definition CHANNEL_MESSAGES :: "string \<Rightarrow> (string \<times> string) list" where
  "CHANNEL_MESSAGES dash =
     [(''sms'',
        ''You are a Toee Tire support copilot drafting a customer SMS reply for a ''
      @ ''staff member to review and send themselves. Write one short, plain, ''
      @ ''friendly message. Output only the suggested reply text; never send it.''),
      (''email'',
        ''You are a Toee Tire support copilot drafting a customer email reply for a ''
      @ ''staff member to review and send themselves. Put the subject on the first ''
      @ ''line as 'Subject: <subject>', then a clear, courteous email body with a ''
      @ ''greeting and sign-off. Output only the subject line and body; never send it.''),
      (''internal_note'',
        ''You are a Toee Tire support copilot drafting an internal case note for ''
      @ ''staff '' @ dash @ '' never shown to the customer. Summarize the situation and the ''
      @ ''suggested next step plainly for a colleague. Output only the note text.''),
      (''chat'',
        ''You are a Toee Tire support copilot helping a staff member work a customer ''
      @ ''support case. Answer their question about the case concisely and helpfully. ''
      @ ''If they ask you to draft a customer reply, provide the suggested reply text ''
      @ ''for them to review, edit, and send themselves. Never send anything yourself.'')]"

definition MEMORY_WRITE_DISCIPLINE :: "string \<Rightarrow> string" where
  "MEMORY_WRITE_DISCIPLINE dash =
     ''Only use toee_customer_memory to save a preference when the customer has ''
   @ ''explicitly stated a durable preference in this case's conversation '' @ dash @ '' never ''
   @ ''one merely inferred from tone, history, or a single order.''"

definition TOOL_PARAM_CONVENTIONS :: "string \<Rightarrow> string" where
  "TOOL_PARAM_CONVENTIONS dash =
     ''When you read case data, use the EXACT tool parameter names '' @ dash @ '' a wrong name is ''
   @ ''treated as a missing value and the lookup fails: toee_shopify_read get_order ''
   @ ''{order_number} (the bare order number, e.g. \"1042\"), list_customer_orders {}, ''
   @ ''get_product {sku|product_id}, search_products {query}; toee_easyroutes_read get_delivery_status ''
   @ ''{order_number}; toee_qbo_read is allowed ONLY for a verified customer whose ''
   @ ''email link is confirmed, so you MUST call toee_identity_lookup ''
   @ ''get_email_link_status {shopify_customer_id} FIRST and only call get_invoice ''
   @ ''{invoice_number} or get_ar_summary {customer_id} if the returned status is linked.''"

definition KNOWLEDGE_GROUNDING :: string where
  "KNOWLEDGE_GROUNDING =
     ''When you use toee_knowledge_search, answer only from the returned results and ''
   @ ''cite the source page title; if the results are empty, say plainly that you ''
   @ ''don't have that on hand rather than guessing.''"

definition REVIEW_SYSTEM_MESSAGE :: string where
  "REVIEW_SYSTEM_MESSAGE =
     ''You are a Toee Tire support quality reviewer reflecting on a support turn a ''
   @ ''copilot just drafted. Your ONLY job is to record durable OPERATIONAL learnings ''
   @ ''for the team -- procedures, conventions, tool quirks, or recurring patterns ''
   @ ''that would help handle similar cases better next time. Use the ''
   @ ''propose_experience tool to record at most one such learning; if the turn ''
   @ ''surfaced nothing durable, record nothing. NEVER record person-specific data or ''
   @ ''customer PII of any kind: no names, order numbers, email addresses, phone ''
   @ ''numbers, addresses, or any fact about a specific customer. A learning must be ''
   @ ''a general operational rule, never a note about one person. You cannot contact ''
   @ ''the customer and cannot change the draft; you only record learnings.''"

definition system_message :: "string \<Rightarrow> string \<Rightarrow> exn + string" where
  "system_message dash channel =
     (case map_of (CHANNEL_MESSAGES dash) channel of
        None \<Rightarrow> Inl (PyError ''KeyError'' (repr_str channel))
      | Some message \<Rightarrow> Inr (message @ '' '' @ TOOL_PARAM_CONVENTIONS dash @ '' '' @ MEMORY_WRITE_DISCIPLINE dash
          @ '' '' @ KNOWLEDGE_GROUNDING))"

text \<open>\<open>prompt\<close> is absent or a text; \<open>base\<close> is not empty.\<close>

definition copilot_user_message :: "string \<Rightarrow> string \<Rightarrow> string option \<Rightarrow> string" where
  "copilot_user_message channel case_id prompt =
     (if channel = ''chat''
      then (if falsy prompt then ''Help the staff member with case '' @ case_id @ ''.''
            else py_strip (''A staff member is working case '' @ case_id @ '' and asks: '' @ the prompt))
      else
        let base = ''Draft a '' @ channel @ '' reply for case '' @ case_id @ ''.'' in
        if falsy prompt then base else py_strip (base @ '' '' @ the prompt))"

definition stub_draft :: "string \<Rightarrow> string \<Rightarrow> string" where
  "stub_draft channel case_id =
     (if channel = ''chat'' then ''Looking at case '' @ case_id @ '' now - how can I help with it?''
      else ''[draft:'' @ channel @ ''] Thanks for reaching out about case '' @ case_id @ '' - we're on it.'')"

section \<open>The subject of an email draft\<close>

text \<open>\<^verbatim>\<open>str.splitlines\<close>: \<open>cur\<close> is the line so far, \<open>cr\<close> says that the last character was a carriage return.\<close>

definition line_break :: "char \<Rightarrow> bool" where
  "line_break c \<longleftrightarrow> (code c :: nat) \<in> {0x0A, 0x0B, 0x0C, 0x0D, 0x1C, 0x1D, 0x1E, 0x85}"

fun lines_from :: "string \<Rightarrow> bool \<Rightarrow> string \<Rightarrow> string list" where
  "lines_from cur cr [] = (if cur = [] then [] else [cur])"
| "lines_from cur cr (c # cs) =
     (if cr \<and> code c = 0x0A then lines_from [] False cs
      else if line_break c then cur # lines_from [] (code c = 0x0D) cs
      else lines_from (cur @ [c]) False cs)"

definition splitlines :: "string \<Rightarrow> string list" where
  "splitlines s = lines_from [] False s"

fun peel_subject :: "string \<Rightarrow> string \<Rightarrow> string list \<Rightarrow> string \<times> string" where
  "peel_subject fallback_subject text [] = (fallback_subject, py_strip text)"
| "peel_subject fallback_subject text (line # lines) =
     (let stripped = py_strip line in
      if stripped = [] then peel_subject fallback_subject text lines
      else if starts_with (py_lower stripped) SUBJECT_LINE_PREFIX
      then (let subject = py_strip (drop (length SUBJECT_LINE_PREFIX) stripped) in
            (if subject = [] then fallback_subject else subject, py_strip (join_with nl lines)))
      else (fallback_subject, py_strip text))"

definition derive_email_subject_and_body :: "string \<Rightarrow> string \<Rightarrow> string \<times> string" where
  "derive_email_subject_and_body final_response case_id =
     peel_subject (''Re: your Toee Tire case '' @ case_id) final_response (splitlines final_response)"

section \<open>The memory of a case\<close>

definition load_case_memory ::
  "'w deployment \<Rightarrow> string \<Rightarrow> 'w turn_store option \<Rightarrow> 'w
     \<Rightarrow> exn + json option \<times> (string \<times> string) list option" where
  "load_case_memory dp case_id store w =
     ebind (case store of
        Some s \<Rightarrow> Inr (Some s)
      | None \<Rightarrow> ebind (memory_enabled (dp_env dp)) (\<lambda>on. Inr (if on then Some (dp_gateway_store dp) else None)))
     (\<lambda>resolved.
     case resolved of
       None \<Rightarrow> Inr (None, None)
     | Some st \<Rightarrow>
         (case ts_case_identity st case_id w of
            Inl e \<Rightarrow> Inr (None, None)
          | Inr None \<Rightarrow> Inr (None, None)
          | Inr (Some ident) \<Rightarrow>
              ebind (memory_enabled (dp_env dp)) (\<lambda>on.
              if \<not> on then Inr (Some ident, None)
              else case binding_key_from_identity ident of
                None \<Rightarrow> Inr (Some ident, None)
              | Some (binding_key, kd) \<Rightarrow>
                  (case ts_memory st binding_key w of
                     Inl e \<Rightarrow> Inr (Some ident, None)
                   | Inr slots \<Rightarrow> Inr (Some ident, Some slots)))))"

section \<open>The draft turn\<close>

text \<open>A run against the provider; neither copilot run asks for its tools to be exclusive.\<close>

definition live_run :: "'w deployment \<Rightarrow> openrouter_config \<Rightarrow> string \<Rightarrow> string \<Rightarrow> string list \<Rightarrow> agent_run" where
  "live_run dp config user_message sys_message names =
     \<lparr>an_base_url = oc_base_url config, an_api_key = oc_api_key config, an_model = oc_model config,
      an_max_iterations = DEFAULT_MAX_ITERATIONS, an_provider = Fallback_client (oc_fallback_model config),
      an_valid_tool_names = valid_tool_names (dp_builtins dp) names False,
      an_system_message = sys_message, an_user_message = user_message\<rparr>"

text \<open>The run of a draft and the model it reports; \<open>scripted\<close> is \<^verbatim>\<open>scripted_completions\<close>.\<close>

definition draft_run ::
  "'w deployment \<Rightarrow> json list option \<Rightarrow> string \<Rightarrow> string \<Rightarrow> string \<Rightarrow> string list \<Rightarrow> agent_run \<times> string" where
  "draft_run dp scripted stub user_message sys_message names =
     (case scripted of
        Some completions \<Rightarrow> (scripted_run dp user_message sys_message completions names, SCRIPTED_MODEL)
      | None \<Rightarrow>
          (case resolve_openrouter_config (dp_env dp) of
             Inl e \<Rightarrow> (scripted_run dp user_message sys_message [JObj [(''content'', JStr stub)]] names, SCRIPTED_MODEL)
           | Inr config \<Rightarrow> (live_run dp config user_message sys_message names, oc_model config)))"

text \<open>Everything of a draft turn up to the run.\<close>

definition draft_turn_input ::
  "'w deployment \<Rightarrow> json list option \<Rightarrow> 'w turn_store option \<Rightarrow> string \<Rightarrow> string \<Rightarrow> string option \<Rightarrow> 'w
     \<Rightarrow> (exn + 'w booted \<times> agent_run \<times> string) \<times> 'w" where
  "draft_turn_input dp scripted store channel case_id prompt w =
     (case load_case_memory dp case_id store w of
        Inl e \<Rightarrow> (Inl e, w)
      | Inr (ident, memory) \<Rightarrow>
          (case record_memory_injection_metric dp (or_nil memory \<noteq> []) w of
             Inl e \<Rightarrow> (Inl e, w)
           | Inr w1 \<Rightarrow>
               (ebind (turn_extra_drivers dp False) (\<lambda>extra.
                ebind (boot_profile dp INTERNAL None None ident extra) (\<lambda>b.
                ebind (system_message (dp_dash dp) channel) (\<lambda>sys_message.
                let experience = (if agent_experience_injection_enabled (dp_env dp)
                                  then experience_for_turn (resolved_store dp store) w1 else None);
                    user_message = with_injection (render_injection (dp_dash dp) None (map_option memory_dicts memory)
                        (map_option experience_dicts experience)) (copilot_user_message channel case_id prompt)
                in Inr (b, draft_run dp scripted (stub_draft channel case_id) user_message sys_message (bp_tool_names b))))),
                w1)))"

definition proposal_dict :: "memory_proposal \<Rightarrow> json" where
  "proposal_dict p = JObj [(''slot'', JStr (mp_slot p)), (''value'', JStr (mp_value p)),
     (''evidence_turn'', opt_str (mp_evidence_turn p))]"

definition draft_result ::
  "string \<Rightarrow> string \<Rightarrow> string \<Rightarrow> string \<Rightarrow> dict list \<Rightarrow> memory_proposal list \<Rightarrow> dict" where
  "draft_result channel case_id draft model messages proposals =
     (let result = [(''draft'', JStr draft), (''model'', JStr model), (''profile'', JStr INTERNAL),
                    (''messages'', JList (map JObj messages)), (''proposals'', JList (map proposal_dict proposals))]
      in if channel = ''email''
         then (let (subject, body) = derive_email_subject_and_body draft case_id in
               set_keys result [(''subject'', JStr subject), (''draft'', JStr body)])
         else result)"

section \<open>The review job\<close>

definition tool_message_names :: "json list \<Rightarrow> json list" where
  "tool_message_names messages = List.map_filter (\<lambda>m. case m of
     JObj d \<Rightarrow> (if get d ''role'' = JStr ''tool'' \<and> truthy (get d ''name'') then Some (get d ''name'') else None)
   | _ \<Rightarrow> None) messages"

definition review_user_message :: "string \<Rightarrow> dict \<Rightarrow> exn + string" where
  "review_user_message case_id result =
     (let draft = py_str (or_else (get result ''draft'') (JStr [])) in
      ebind (py_iter (or_else (get result ''messages'') (JList []))) (\<lambda>messages.
      let actions = tool_message_names messages in
      ebind (if actions = [] then Inr ''The copilot used no tools.''
             else ebind (map_exn (\<lambda>a. case a of JStr s \<Rightarrow> Inr s
                      | _ \<Rightarrow> Inl (PyError ''TypeError'' ''expected str instance'')) actions) (\<lambda>names.
                  Inr (''Tools the copilot used: '' @ join_with '', '' names @ ''.''))) (\<lambda>tools_line.
      Inr (''Review the copilot turn for case '' @ case_id @ ''. '' @ tools_line @ nl @ nl
         @ ''The copilot's draft was:'' @ nl @ draft @ nl @ nl
         @ ''Record one durable operational learning if there is one, or nothing.''))))"

definition l6_review_payload :: "string \<Rightarrow> dict \<Rightarrow> exn + dict" where
  "l6_review_payload case_id result =
     ebind (review_user_message case_id result) (\<lambda>prompt.
     Inr [(''case_id'', JStr case_id), (''review_prompt'', JStr prompt)])"

text \<open>The queue as the draft uses it: a payload, the type of the job and its \<^verbatim>\<open>max_attempts\<close>.\<close>

type_synonym 'w enqueuer = "json \<Rightarrow> string \<Rightarrow> int \<Rightarrow> 'w \<Rightarrow> (exn + string) \<times> 'w"

definition pg_enqueuer :: "exn option \<Rightarrow> exec_env \<Rightarrow> db enqueuer" where
  "pg_enqueuer down ex payload jtype max_attempts d =
     (case down of
        Some e \<Rightarrow> (Inl e, d)
      | None \<Rightarrow> (let (res, jobs) = enqueue (new_id ''job'' ex 0) (ee_now ex) payload jtype None None max_attempts (db_jobs d)
                in (res, d\<lparr>db_jobs := jobs\<rparr>)))"

definition enqueue_review :: "'w enqueuer \<Rightarrow> string \<Rightarrow> dict \<Rightarrow> 'w \<Rightarrow> 'w" where
  "enqueue_review queue case_id result w =
     (case l6_review_payload case_id result of
        Inl e \<Rightarrow> w
      | Inr payload \<Rightarrow> snd (queue (JObj payload) L6_REVIEW_JOB_TYPE 1 w))"

text \<open>\<^verbatim>\<open>run_turn\<close> of \<^verbatim>\<open>make_copilot_run_turn\<close>, with no injected client.\<close>

definition copilot_run_turn ::
  "'w deployment \<Rightarrow> loads \<Rightarrow> 'w enqueuer \<Rightarrow> json list option \<Rightarrow> 'w turn_store option
     \<Rightarrow> string \<Rightarrow> string \<Rightarrow> string option \<Rightarrow> 'w \<Rightarrow> (exn + dict) \<times> 'w" where
  "copilot_run_turn dp loads queue scripted store channel case_id prompt w =
     (case draft_turn_input dp scripted store channel case_id prompt w of
        (Inl e, w1) \<Rightarrow> (Inl e, w1)
      | (Inr (b, run, model), w1) \<Rightarrow>
          (case run_agent_turn dp b run w1 of
             (Inl e, w2) \<Rightarrow> (Inl e, w2)
           | (Inr turn, w2) \<Rightarrow>
               (case memory_proposals_from_messages loads (ct_messages turn) of
                  Inl e \<Rightarrow> (Inl e, w2)
                | Inr proposals \<Rightarrow>
                    let result = draft_result channel case_id (or_nil (ct_final_response turn)) model
                                   (ct_messages turn) proposals in
                    (Inr result,
                     if agent_experience_enabled (dp_env dp) then enqueue_review queue case_id result w2 else w2))))"

section \<open>The review pass\<close>

definition experience_proposal_dict :: "experience_proposal \<Rightarrow> dict" where
  "experience_proposal_dict p = [(''kind'', JStr (xp_kind p)), (''content'', JStr (xp_content p)),
     (''status'', JStr (xp_status p))]"

definition review_boot :: "'w deployment \<Rightarrow> exn + 'w booted" where
  "review_boot dp = ebind (agent_experience_extra_drivers dp) (boot_profile dp INTERNAL None None None)"

definition review_tool_names :: "'w booted \<Rightarrow> string list" where
  "review_tool_names b = filter (\<lambda>n. starts_with n ''toee_agent_experience__'') (bp_tool_names b)"

definition review_run ::
  "'w deployment \<Rightarrow> json list option \<Rightarrow> string \<Rightarrow> 'w booted \<Rightarrow> agent_run option" where
  "review_run dp scripted user_message b =
     (case scripted of
        Some completions \<Rightarrow> Some (scripted_run dp user_message REVIEW_SYSTEM_MESSAGE completions (review_tool_names b))
      | None \<Rightarrow>
          (case resolve_openrouter_config (dp_env dp) of
             Inl e \<Rightarrow> None
           | Inr config \<Rightarrow> Some (live_run dp config user_message REVIEW_SYSTEM_MESSAGE (review_tool_names b))))"

definition run_review_pass ::
  "'w deployment \<Rightarrow> loads \<Rightarrow> json list option \<Rightarrow> string \<Rightarrow> 'w \<Rightarrow> (exn + dict list) \<times> 'w" where
  "run_review_pass dp loads scripted user_message w =
     (case review_boot dp of
        Inl e \<Rightarrow> (Inl e, w)
      | Inr b \<Rightarrow>
          (case review_run dp scripted user_message b of
             None \<Rightarrow> (Inr [], w)
           | Some run \<Rightarrow>
               (case run_agent_turn dp b run w of
                  (Inl e, w') \<Rightarrow> (Inl e, w')
                | (Inr turn, w') \<Rightarrow>
                    (ebind (experience_proposals_from_messages loads (ct_messages turn)) (\<lambda>ps.
                     Inr (map experience_proposal_dict ps)), w'))))"

text \<open>\<^verbatim>\<open>run_l6_review_job\<close> as the worker calls it; the worker drops what it returns.\<close>

definition run_l6_review_job :: "'w deployment \<Rightarrow> loads \<Rightarrow> dict \<Rightarrow> 'w \<Rightarrow> (exn + unit) \<times> 'w" where
  "run_l6_review_job dp loads payload w =
     (case map_of payload ''review_prompt'' of
        None \<Rightarrow> (Inl (PyError ''KeyError'' (repr_str ''review_prompt'')), w)
      | Some prompt \<Rightarrow>
          (case run_review_pass dp loads None (py_str prompt) w of
             (Inl e, w') \<Rightarrow> (Inl e, w')
           | (Inr proposals, w') \<Rightarrow> (Inr (), w')))"

section \<open>Lemmas\<close>

lemma draft_turn_input_Inr:
  assumes "draft_turn_input dp scripted store channel case_id prompt w = (Inr (b, run, model), w')"
  obtains ident memory extra sys_message where
    "load_case_memory dp case_id store w = Inr (ident, memory)"
    "record_memory_injection_metric dp (or_nil memory \<noteq> []) w = Inr w'"
    "turn_extra_drivers dp False = Inr extra"
    "boot_profile dp INTERNAL None None ident extra = Inr b"
    "system_message (dp_dash dp) channel = Inr sys_message"
    "draft_run dp scripted (stub_draft channel case_id)
       (with_injection (render_injection (dp_dash dp) None (map_option memory_dicts memory)
         (map_option experience_dicts (if agent_experience_injection_enabled (dp_env dp)
            then experience_for_turn (resolved_store dp store) w' else None))) (copilot_user_message channel case_id prompt))
       sys_message (bp_tool_names b) = (run, model)"
  using assms unfolding draft_turn_input_def Let_def ebind_def
  by (auto split: sum.splits prod.splits)

lemma load_case_memory_on: "memory_enabled (dp_env dp) = Inr on \<Longrightarrow> \<exists>r. load_case_memory dp case_id store w = Inr r"
  by (auto simp: load_case_memory_def exn_simps split: option.splits sum.splits)

lemma draft_drivers: "turn_extra_drivers dp False = Inr (knowledge_extra_drivers dp)"
  by (simp add: turn_extra_drivers_def knowledge_extra_drivers_def exn_simps or_nil_def Let_def)

lemma valid_tool_names_shared: "valid_tool_names builtins names False = set builtins \<union> set names"
  by (simp add: valid_tool_names_def)

lemma draft_run_names:
  "draft_run dp scripted stub user_message sys_message names = (run, model) \<Longrightarrow>
     an_valid_tool_names run = set (dp_builtins dp) \<union> set names"
  by (auto simp: draft_run_def scripted_run_def live_run_def valid_tool_names_shared split: option.splits sum.splits)

lemma draft_run_message:
  "draft_run dp scripted stub user_message sys_message names = (run, model) \<Longrightarrow> an_user_message run = user_message"
  by (auto simp: draft_run_def scripted_run_def live_run_def split: option.splits sum.splits)

lemma peel_subject_ok:
  "fallback \<noteq> [] \<Longrightarrow> fst (peel_subject fallback whole lines) \<noteq> [] \<and> py_strip (snd (peel_subject fallback whole lines)) = snd (peel_subject fallback whole lines)"
  by (induction fallback whole lines rule: peel_subject.induct) (auto simp: Let_def py_strip_idem)

lemma review_run_names:
  "review_run dp scripted user_message b = Some run \<Longrightarrow>
     an_valid_tool_names run = set (dp_builtins dp) \<union> set (review_tool_names b)"
  by (auto simp: review_run_def scripted_run_def live_run_def valid_tool_names_shared split: option.splits sum.splits)

lemma INTERNAL_nonempty: "INTERNAL \<noteq> []"
  by (simp add: INTERNAL_def)

lemma internal_allowlist: "\<exists>tools. map_of PROFILE_TOOL_ALLOWLIST INTERNAL = Some tools
    \<and> ''toee_case_manage'' \<in> set tools \<and> ''toee_agent_experience'' \<in> set tools
    \<and> (\<forall>t \<in> set tools. \<forall>x. starts_with (t @ x) ''toee_agent_experience__'' \<longrightarrow> t = ''toee_agent_experience'')"
  by (simp add: PROFILE_TOOL_ALLOWLIST_def EXTERNAL_def INTERNAL_def SUPERVISOR_def)

lemma experience_action:
  "is_tool_action ''toee_agent_experience'' a \<and> (''toee_agent_experience'', a) \<notin> set AGENT_EXCLUDED_ACTIONS
     \<longleftrightarrow> a = ''propose_experience''"
  by (auto simp: is_tool_action_def TOOL_CATALOG_def AGENT_EXCLUDED_ACTIONS_def)

lemma review_names:
  assumes "boot_profile dp INTERNAL c ss ident extra = Inr b"
  shows "set (review_tool_names b) = {hermes_tool_name ''toee_agent_experience'' ''propose_experience''}"
proof -
  obtain tools where t: "map_of PROFILE_TOOL_ALLOWLIST INTERNAL = Some tools" "''toee_agent_experience'' \<in> set tools"
    "\<forall>t \<in> set tools. \<forall>x. starts_with (t @ x) ''toee_agent_experience__'' \<longrightarrow> t = ''toee_agent_experience''"
    using internal_allowlist by blast
  have *: "starts_with (hermes_tool_name ''toee_agent_experience'' ''propose_experience'') ''toee_agent_experience__''"
    by code_simp
  have "n \<in> set (review_tool_names b) \<longleftrightarrow> n = hermes_tool_name ''toee_agent_experience'' ''propose_experience''" for n
  proof
    assume "n \<in> set (review_tool_names b)"
    then have "n \<in> set (bp_tool_names b)" "starts_with n ''toee_agent_experience__''" by (auto simp: review_tool_names_def)
    then obtain t a where n: "n = hermes_tool_name t a" "is_tool_action t a" "t \<in> set tools" "(t, a) \<notin> set AGENT_EXCLUDED_ACTIONS"
      "starts_with (t @ ''__'' @ a) ''toee_agent_experience__''"
      unfolding boot_profile_names [OF assms t(1) INTERNAL_nonempty] hermes_tool_name_def by blast
    with t(3) have "t = ''toee_agent_experience''" by blast
    with n experience_action [of a] show "n = hermes_tool_name ''toee_agent_experience'' ''propose_experience''" by simp
  next
    assume n: "n = hermes_tool_name ''toee_agent_experience'' ''propose_experience''"
    have "n \<in> set (bp_tool_names b)"
      unfolding boot_profile_names [OF assms t(1) INTERNAL_nonempty] n
      using t(2) experience_action [of "''propose_experience''"] by blast
    with n * show "n \<in> set (review_tool_names b)" by (simp add: review_tool_names_def)
  qed
  then show ?thesis by blast
qed

lemma boot_internal_on:
  assumes "resolve_integration_driver (dp_env dp ''INTEGRATION_DRIVER'') = Inr be"
  shows "\<exists>b. boot_profile dp INTERNAL c ss ident extra = Inr b"
  using assms internal_tools [of "dp_env dp ''TOEE_HERMES_PROFILE''"]
  by (auto simp: boot_profile_def build_driver_selector_def exn_simps)

lemma draft_starts:
  assumes "memory_enabled (dp_env dp) = Inr on" and "channel \<in> set VALID_CHANNELS"
    and "resolve_integration_driver (dp_env dp ''INTEGRATION_DRIVER'') = Inr be"
  shows "\<exists>b run model w'. draft_turn_input dp scripted store channel case_id prompt w = (Inr (b, run, model), w')
     \<and> (scripted = None \<and> \<not> openrouter_configured (dp_env dp) \<longrightarrow>
          model = SCRIPTED_MODEL \<and> an_provider run = Scripted [JObj [(''content'', JStr (stub_draft channel case_id))]])"
proof -
  obtain ident memory where l: "load_case_memory dp case_id store w = Inr (ident, memory)"
    using load_case_memory_on [OF assms(1), of case_id store w] by auto
  obtain w1 where m: "record_memory_injection_metric dp (or_nil memory \<noteq> []) w = Inr w1"
    using metric_on [OF assms(1), of "or_nil memory \<noteq> []" w] by auto
  obtain b where boot: "boot_profile dp INTERNAL None None ident (knowledge_extra_drivers dp) = Inr b"
    using boot_internal_on [OF assms(3)] by blast
  obtain s where s: "system_message (dp_dash dp) channel = Inr s"
    using assms(2) by (auto simp: system_message_def CHANNEL_MESSAGES_def VALID_CHANNELS_def)
  have "\<not> openrouter_configured (dp_env dp) \<Longrightarrow> \<exists>e. resolve_openrouter_config (dp_env dp) = Inl e"
    by (simp add: openrouter_configured_def resolve_openrouter_config_def)
  then show ?thesis
    by (cases "draft_run dp scripted (stub_draft channel case_id)
        (with_injection (render_injection (dp_dash dp) None (map_option memory_dicts memory)
          (map_option experience_dicts (if agent_experience_injection_enabled (dp_env dp)
             then experience_for_turn (resolved_store dp store) w1 else None)))
          (copilot_user_message channel case_id prompt)) s (bp_tool_names b)")
      (auto simp: draft_turn_input_def l m draft_drivers boot s exn_simps Let_def draft_run_def scripted_run_def
        split: option.splits sum.splits)
qed

text \<open>C18.  No store can stop a draft: in a deployment whose settings are valid a request for a
  known channel always reaches the model, whatever the lookups of the case, its memory and the learnings do; and
  without a provider key the run is the fixed one-answer stub, so the endpoint serves without a model.\<close>

theorem draft_always_starts:
  assumes "memory_enabled (dp_env dp) = Inr on" and "channel \<in> set VALID_CHANNELS"
    and "resolve_integration_driver (dp_env dp ''INTEGRATION_DRIVER'') = Inr be"
  shows "\<exists>b run model w'. draft_turn_input dp scripted store channel case_id prompt w = (Inr (b, run, model), w')
     \<and> (scripted = None \<and> \<not> openrouter_configured (dp_env dp) \<longrightarrow>
          model = SCRIPTED_MODEL \<and> an_provider run = Scripted [JObj [(''content'', JStr (stub_draft channel case_id))]])"
  by (rule draft_starts [OF assms])

text \<open>C17.  A draft turn of the copilot never holds the datastore: each of its tools is
  answered by the mock, a vendor or the retriever, so a preference it saves stays a proposal; the identity of every
  call is the one found for the case, with no conversation.  What keeps it from sending is the driver alone: the
  model may call the action that sends a text message, and the framework's own tools, and the mock answers the
  former.\<close>

theorem draft_has_no_datastore:
  assumes "draft_turn_input dp scripted store channel case_id prompt w = (Inr (b, run, model), w')"
  shows "(\<forall>tool. bp_driver b tool \<in> {dp_mock dp, dp_composio dp, dp_easyroutes dp, dp_delivery dp, dp_knowledge dp})
     \<and> (\<forall>tool \<in> {''toee_customer_memory'', ''toee_case_manage'', ''toee_workbench_read'', ''toee_agent_experience''}.
          bp_driver b tool = dp_mock dp)
     \<and> insert (hermes_tool_name ''toee_case_manage'' ''send_sms_message'') (set (dp_builtins dp)) \<subseteq> an_valid_tool_names run
     \<and> (\<exists>ident memory. load_case_memory dp case_id store w = Inr (ident, memory)
          \<and> (\<forall>kwargs. bp_context b kwargs = context_provider INTERNAL ident None None kwargs))"
proof -
  from assms obtain ident memory extra sys_message user where
      l: "load_case_memory dp case_id store w = Inr (ident, memory)"
    and x: "turn_extra_drivers dp False = Inr extra"
    and boot: "boot_profile dp INTERNAL None None ident extra = Inr b"
    and run: "draft_run dp scripted (stub_draft channel case_id) user sys_message (bp_tool_names b) = (run, model)"
    by (rule draft_turn_input_Inr) blast
  from boot obtain be where
      ctx: "bp_context b = context_provider INTERNAL ident None None"
    and drv: "\<And>tool. bp_driver b tool = (case map_of (or_nil extra) tool of
       Some d \<Rightarrow> d
     | None \<Rightarrow> (if be = Composio \<and> tool = ''toee_easyroutes_read'' then dp_easyroutes dp
         else if be = Composio \<and> tool = ''toee_delivery_promise'' then dp_delivery dp
         else if be = Composio \<and> tool \<in> set COMPOSIO_LAYER1_TOOLS then dp_composio dp else dp_mock dp))"
    by (rule boot_profile_Inr) blast
  have extra: "or_nil extra = (if knowledge_enabled (dp_env dp) then [(''toee_knowledge_search'', dp_knowledge dp)] else [])"
    using x by (auto simp: draft_drivers knowledge_extra_drivers_def or_nil_def)
  have "hermes_tool_name ''toee_case_manage'' ''send_sms_message'' \<in> set (bp_tool_names b)"
  proof -
    obtain tools where t: "map_of PROFILE_TOOL_ALLOWLIST INTERNAL = Some tools" "''toee_case_manage'' \<in> set tools"
      using internal_allowlist by blast
    have "is_tool_action ''toee_case_manage'' ''send_sms_message''"
      "(''toee_case_manage'', ''send_sms_message'') \<notin> set AGENT_EXCLUDED_ACTIONS" by code_simp+
    with t(2) show ?thesis unfolding boot_profile_names [OF boot t(1) INTERNAL_nonempty] by blast
  qed
  then have "insert (hermes_tool_name ''toee_case_manage'' ''send_sms_message'') (set (dp_builtins dp)) \<subseteq> an_valid_tool_names run"
    unfolding draft_run_names [OF run] by blast
  moreover have "bp_driver b tool \<in> {dp_mock dp, dp_composio dp, dp_easyroutes dp, dp_delivery dp, dp_knowledge dp}" for tool
    by (auto simp: drv extra)
  moreover have "bp_driver b tool = dp_mock dp"
    if "tool \<in> {''toee_customer_memory'', ''toee_case_manage'', ''toee_workbench_read'', ''toee_agent_experience''}" for tool
    using that by (auto simp: drv extra COMPOSIO_LAYER1_TOOLS_def)
  ultimately show ?thesis using l by (auto simp: ctx)
qed

text \<open>The review pass of a draft may call one governed action, which proposes a learning, and
  every tool of the framework's own: the filter narrows the governed tools only.  Its proposal goes to the
  datastore exactly when the learning flag is on, and no other tool of the pass holds the datastore.\<close>

theorem review_pass_scope:
  assumes "review_boot dp = Inr b" and "review_run dp scripted user_message b = Some run"
  shows "an_valid_tool_names run = insert (hermes_tool_name ''toee_agent_experience'' ''propose_experience'') (set (dp_builtins dp))
     \<and> bp_driver b ''toee_agent_experience'' = (if agent_experience_enabled (dp_env dp) then dp_postgres dp else dp_mock dp)
     \<and> (\<forall>tool. tool \<noteq> ''toee_agent_experience'' \<longrightarrow>
          bp_driver b tool \<in> {dp_mock dp, dp_composio dp, dp_easyroutes dp, dp_delivery dp})"
proof -
  from assms(1) obtain extra where x: "agent_experience_extra_drivers dp = Inr extra"
    and boot: "boot_profile dp INTERNAL None None None extra = Inr b"
    unfolding review_boot_def ebind_eq_Inr by blast
  from x have extra: "or_nil extra = (if agent_experience_enabled (dp_env dp)
      then [(''toee_agent_experience'', dp_postgres dp)] else [])"
    by (auto simp: agent_experience_extra_drivers_def select_tool_driver_def resolve_tool_backend_def
        KNOWN_BACKENDS_def falsy_def exn_simps or_nil_def Let_def)
  from boot obtain be where drv: "\<And>tool. bp_driver b tool = (case map_of (or_nil extra) tool of
       Some d \<Rightarrow> d
     | None \<Rightarrow> (if be = Composio \<and> tool = ''toee_easyroutes_read'' then dp_easyroutes dp
         else if be = Composio \<and> tool = ''toee_delivery_promise'' then dp_delivery dp
         else if be = Composio \<and> tool \<in> set COMPOSIO_LAYER1_TOOLS then dp_composio dp else dp_mock dp))"
    by (rule boot_profile_Inr) blast
  have "set (review_tool_names b) = {hermes_tool_name ''toee_agent_experience'' ''propose_experience''}"
    by (rule review_names [OF boot])
  then have "an_valid_tool_names run = insert (hermes_tool_name ''toee_agent_experience'' ''propose_experience'') (set (dp_builtins dp))"
    unfolding review_run_names [OF assms(2)] by blast
  moreover have "bp_driver b ''toee_agent_experience'' = (if agent_experience_enabled (dp_env dp) then dp_postgres dp else dp_mock dp)"
    by (simp add: drv extra COMPOSIO_LAYER1_TOOLS_def)
  moreover have "bp_driver b tool \<in> {dp_mock dp, dp_composio dp, dp_easyroutes dp, dp_delivery dp}"
    if "tool \<noteq> ''toee_agent_experience''" for tool
    using that by (simp add: drv extra)
  ultimately show ?thesis by blast
qed

text \<open>What the queue does never shows in a draft: the answer is the one a turn gives that
  queues nothing, and the store differs by one row at most, a review job of one attempt for this case, present
  exactly when the learning flag is on, the draft succeeded and the queue took it.\<close>

theorem draft_leaves_one_review:
  assumes "copilot_run_turn dp loads (\<lambda>payload jtype m w. (Inr [], w)) scripted store channel case_id prompt d = (res, d1)"
  shows "copilot_run_turn dp loads (pg_enqueuer down ex) scripted store channel case_id prompt d =
     (res, case (res, down) of
        (Inr result, None) \<Rightarrow>
          (if agent_experience_enabled (dp_env dp) \<and> new_id ''job'' ex 0 \<notin> j_id ` set (db_jobs d1)
           then (case review_user_message case_id result of
              Inl e \<Rightarrow> d1
            | Inr text \<Rightarrow> d1\<lparr>db_jobs := db_jobs d1 @
                [\<lparr>j_id = new_id ''job'' ex 0, j_type = L6_REVIEW_JOB_TYPE,
                  j_payload = JObj [(''case_id'', JStr case_id), (''review_prompt'', JStr text)],
                  j_status = Queued, j_attempts = 0, j_max_attempts = 1, j_run_at = ee_now ex, j_locked_at = None,
                  j_locked_by = None, j_last_error = None, j_dedupe_key = None, j_created_at = ee_now ex,
                  j_updated_at = ee_now ex\<rparr>]\<rparr>)
           else d1)
      | _ \<Rightarrow> d1)"
proof (cases res)
  case (Inl e)
  with assms show ?thesis
    by (auto simp: copilot_run_turn_def Let_def split: prod.splits sum.splits)
next
  case (Inr result)
  have "enqueue_review (\<lambda>payload jtype m w. (Inr [], w)) case_id result' w = w" for result' and w :: db
    by (simp add: enqueue_review_def split: sum.splits)
  with assms have "copilot_run_turn dp loads queue scripted store channel case_id prompt d
      = (Inr result, if agent_experience_enabled (dp_env dp) then enqueue_review queue case_id result d1 else d1)" for queue
    by (auto simp: copilot_run_turn_def Inr Let_def split: prod.splits sum.splits)
  moreover have "enqueue_review (pg_enqueuer down ex) case_id result d1 =
      (case (down, review_user_message case_id result) of
         (None, Inr text) \<Rightarrow> (if new_id ''job'' ex 0 \<in> j_id ` set (db_jobs d1) then d1
            else d1\<lparr>db_jobs := db_jobs d1 @
                [\<lparr>j_id = new_id ''job'' ex 0, j_type = L6_REVIEW_JOB_TYPE,
                  j_payload = JObj [(''case_id'', JStr case_id), (''review_prompt'', JStr text)],
                  j_status = Queued, j_attempts = 0, j_max_attempts = 1, j_run_at = ee_now ex, j_locked_at = None,
                  j_locked_by = None, j_last_error = None, j_dedupe_key = None, j_created_at = ee_now ex,
                  j_updated_at = ee_now ex\<rparr>]\<rparr>)
       | _ \<Rightarrow> d1)"
    by (simp add: enqueue_review_def pg_enqueuer_def l6_review_payload_def exn_simps enqueue_def insert_job_def
        as_payload_def ebind_def split: sum.splits option.splits)
  ultimately show ?thesis by (simp add: Inr split: sum.splits option.splits)
qed

section \<open>Email drafts\<close>

lemma lines_from_plain:
  "\<forall>c \<in> set s. \<not> line_break c \<Longrightarrow> s \<noteq> [] \<Longrightarrow> lines_from cur cr (s @ t) = lines_from (cur @ s) False t"
proof (induction s arbitrary: cur cr)
  case (Cons c s)
  then have "code c \<noteq> 0x0A" "\<not> line_break c" by (auto simp: line_break_def)
  then have "lines_from cur cr ((c # s) @ t) = lines_from (cur @ [c]) False (s @ t)" by simp
  also have "\<dots> = lines_from (cur @ c # s) False t"
    using Cons.IH [of "cur @ [c]" False] Cons.prems(1) by (cases "s = []") simp_all
  finally show ?case .
qed simp

lemma lines_from_nonempty: "cur \<noteq> [] \<or> s \<noteq> [] \<Longrightarrow> lines_from cur False s \<noteq> []"
  by (induction s arbitrary: cur) auto

lemma nl_hd: "line_break (hd nl)" "code (hd nl) = 10" "py_isspace (hd nl)" "nl = [hd nl]"
  by code_simp+

lemma lines_from_join:
  assumes "\<forall>c \<in> set s. line_break c \<longrightarrow> c = hd nl" and "s = [] \<or> last s \<noteq> hd nl"
  shows "join_with nl (lines_from cur False s) = cur @ s"
  using assms
proof (induction s arbitrary: cur)
  case (Cons c s)
  show ?case
  proof (cases "line_break c")
    case True
    with Cons.prems have c: "c = hd nl" and s: "s \<noteq> []" by (auto split: if_splits)
    then obtain l ls where l: "lines_from [] False s = l # ls"
      using lines_from_nonempty [of "[]" s] by (cases "lines_from [] False s") auto
    have "join_with nl (lines_from [] False s) = s"
      using Cons.IH [of "[]"] Cons.prems s by simp
    then show ?thesis using True l nl_hd(2, 4) by (simp add: c)
  next
    case False
    then show ?thesis using Cons.IH [of "cur @ [c]"] Cons.prems by (cases "s = []") simp_all
  qed
qed simp

lemma rstrip_keep: "s \<noteq> [] \<Longrightarrow> \<not> p (last s) \<Longrightarrow> rstrip_by p s = s"
  by (cases s rule: rev_cases) (simp_all add: rstrip_by_def)

lemma strip_last: "py_strip s = s \<Longrightarrow> s \<noteq> [] \<Longrightarrow> \<not> py_isspace (last s)"
proof -
  assume s: "py_strip s = s" "s \<noteq> []"
  have "\<not> p (last (rstrip_by p t))" if "rstrip_by p t \<noteq> []" for p and t :: string
    using that hd_dropWhile [of p "rev t"] by (simp add: rstrip_by_def last_rev)
  from this [of py_isspace "lstrip_by py_isspace s"] s show ?thesis by (simp add: py_strip_def)
qed

lemma strip_space: "py_isspace c \<Longrightarrow> py_strip (c # s) = py_strip s"
  by (simp add: py_strip_def lstrip_by_def)

lemma strip_prefix: "py_strip s = s \<Longrightarrow> s \<noteq> [] \<Longrightarrow> \<not> py_isspace c \<Longrightarrow> py_strip (c # t @ s) = c # t @ s"
  by (simp add: py_strip_def lstrip_by_def rstrip_keep strip_last)

text \<open>A model that follows the convention is read back exactly: the subject and the body of
  an answer that leads with a subject line are the ones it was written with, for every subject on one line and every
  body whose line breaks are plain newlines; the body a rep edits never carries the subject line.\<close>

theorem email_draft_round_trip:
  assumes "py_strip subject = subject" and "subject \<noteq> []" and "\<forall>c \<in> set subject. \<not> line_break c"
    and "py_strip body = body" and "\<forall>c \<in> set body. line_break c \<longrightarrow> c = hd nl"
  shows "derive_email_subject_and_body (''Subject: '' @ subject @ nl @ nl @ body) case_id = (subject, body)"
proof -
  let ?line = "''Subject: '' @ subject"
  have "\<forall>c \<in> set ''Subject: ''. \<not> line_break c" by code_simp
  with assms(3) have plain: "\<forall>c \<in> set ?line. \<not> line_break c" by auto
  have "splitlines (?line @ nl @ nl @ body) = lines_from ?line False (hd nl # hd nl # body)"
    unfolding splitlines_def using lines_from_plain [OF plain, of "[]" False] nl_hd(4) by (metis append_Cons append_Nil list.distinct(1))
  also have "\<dots> = ?line # [] # lines_from [] False body" using nl_hd(1, 2) by simp
  finally have lines: "splitlines (''Subject: '' @ subject @ nl @ nl @ body) = ?line # [] # lines_from [] False body"
    by simp
  have stripped: "py_strip ?line = ?line"
    using strip_prefix [OF assms(1, 2), of "CHR ''S''" "''ubject: ''"] by (simp add: py_isspace_def code_def)
  have "body = [] \<or> last body \<noteq> hd nl" using strip_last [OF assms(4)] nl_hd(3) by metis
  then have "join_with nl (lines_from [] False body) = body" using lines_from_join [OF assms(5)] by simp
  then have "join_with nl ([] # lines_from [] False body) = (if lines_from [] False body = [] then [] else nl @ body)"
    by (cases "lines_from [] False body") simp_all
  moreover have "lines_from [] False body = [] \<longleftrightarrow> body = []" using lines_from_nonempty [of "[]" body] by auto
  ultimately have rest: "py_strip (join_with nl ([] # lines_from [] False body)) = body"
    using assms(4) strip_space [OF nl_hd(3)] nl_hd(4) by (metis append_Cons append_Nil)
  have "py_lower ''Subject: '' = ''subject: ''" by code_simp
  then have "starts_with (py_lower ?line) SUBJECT_LINE_PREFIX" "drop (length SUBJECT_LINE_PREFIX) ?line = CHR '' '' # subject"
    by (simp_all add: py_lower_def SUBJECT_LINE_PREFIX_def)
  moreover have "py_strip (CHR '' '' # subject) = subject" using strip_space [of "CHR '' ''" subject] assms(1)
    by (simp add: py_isspace_def code_def)
  ultimately show ?thesis
    using stripped rest by (simp add: derive_email_subject_and_body_def lines assms(2) Let_def del: append_Cons)
qed

theorem email_draft_round_trip_witness:
  "derive_email_subject_and_body (''Subject: '' @ ''Your order'' @ nl @ nl @ (''Hi,'' @ nl @ ''Bye'')) ''c1'' = (''Your order'', ''Hi,'' @ nl @ ''Bye'')"
  by (rule email_draft_round_trip) code_simp+

section \<open>What a draft shows and answers\<close>

text \<open>A draft shows the model only memory of the customer of its case: every injected
  preference is a stored slot under the binding of the case's thread, none stored there is left out, and the
  learnings shown are the confirmed ones, and only when their flag is on.\<close>

theorem draft_memory_is_the_cases:
  assumes "draft_turn_input dp scripted (Some (pg_turn_store down ex)) channel case_id prompt d = (Inr (b, run, model), d')"
  shows "\<exists>memory experience.
     an_user_message run = with_injection (render_injection (dp_dash dp) None (map_option memory_dicts memory)
         (map_option experience_dicts experience)) (copilot_user_message channel case_id prompt)
     \<and> (memory \<noteq> None \<longrightarrow> (\<exists>ident k kd. load_case_identity case_id d = Some ident
          \<and> binding_key_from_identity ident = Some (k, kd)
          \<and> set (the memory) = {(p_slot_name r, p_slot_value r) | r. r \<in> set (db_slots d) \<and> p_binding_key r = k}))
     \<and> (experience \<noteq> None \<longrightarrow> agent_experience_injection_enabled (dp_env dp) \<and> the experience = load_confirmed_experience d')"
proof -
  from assms obtain ident memory extra sys_message where
      l: "load_case_memory dp case_id (Some (pg_turn_store down ex)) d = Inr (ident, memory)"
    and run: "draft_run dp scripted (stub_draft channel case_id)
       (with_injection (render_injection (dp_dash dp) None (map_option memory_dicts memory)
         (map_option experience_dicts (if agent_experience_injection_enabled (dp_env dp)
            then experience_for_turn (resolved_store dp (Some (pg_turn_store down ex))) d' else None)))
         (copilot_user_message channel case_id prompt)) sys_message (bp_tool_names b) = (run, model)"
    by (rule draft_turn_input_Inr) blast
  have "memory \<noteq> None \<Longrightarrow> \<exists>ident k kd. load_case_identity case_id d = Some ident
      \<and> binding_key_from_identity ident = Some (k, kd) \<and> memory = Some (load_customer_memory k d)"
    using l by (auto simp: load_case_memory_def exn_simps pg_turn_store_def connected_def
        split: option.splits sum.splits if_splits prod.splits)
  moreover have "set (load_customer_memory k d) = {(p_slot_name r, p_slot_value r) | r. r \<in> set (db_slots d) \<and> p_binding_key r = k}" for k
    by (auto simp: load_customer_memory_def)
  ultimately have mem: "memory \<noteq> None \<Longrightarrow> \<exists>ident k kd. load_case_identity case_id d = Some ident
      \<and> binding_key_from_identity ident = Some (k, kd)
      \<and> set (the memory) = {(p_slot_name r, p_slot_value r) | r. r \<in> set (db_slots d) \<and> p_binding_key r = k}"
    by (metis option.sel)
  define experience where "experience = (if agent_experience_injection_enabled (dp_env dp)
            then experience_for_turn (resolved_store dp (Some (pg_turn_store down ex))) d' else None)"
  have "experience \<noteq> None \<longrightarrow> agent_experience_injection_enabled (dp_env dp) \<and> the experience = load_confirmed_experience d'"
    by (simp add: experience_def resolved_store_def experience_for_turn_def pg_turn_store_def connected_def split: option.splits)
  with mem draft_run_message [OF run, folded experience_def] show ?thesis by (intro exI [of _ memory] exI [of _ experience]) simp
qed

text \<open>C19.  Whatever a copilot turn returns for a known channel, the endpoint can answer with: the
  draft or the reply is a text, an email has a subject and no loose space around its body, the model and the profile
  are named, each proposal is for a known slot and only drafts carry any; and the transcript of the turn never
  leaves the endpoint.\<close>

theorem draft_answer_typed:
  assumes "copilot_run_turn dp loads queue scripted store channel case_id prompt w = (Inr result, w')"
    and "channel \<in> set VALID_CHANNELS"
  shows "\<exists>data draft model. draft_envelope channel result = Inr data
     \<and> map_of data (if channel = ''chat'' then ''reply'' else ''draft'') = Some (JStr draft)
     \<and> map_of data ''provenance'' = Some (JObj [(''model'', JStr model), (''profile'', JStr INTERNAL)])
     \<and> (channel = ''email'' \<longrightarrow> py_strip draft = draft \<and> (\<exists>s. map_of data ''subject'' = Some (JStr s) \<and> s \<noteq> []))
     \<and> (\<forall>v. map_of data ''proposals'' = Some v \<longrightarrow> channel \<noteq> ''chat''
          \<and> (\<exists>ps. v = JList (map proposal_dict ps) \<and> ps \<noteq> [] \<and> (\<forall>p \<in> set ps. mp_slot p \<in> set MEMORY_PREFERENCE_SLOTS)))
     \<and> ''messages'' \<notin> fst ` set data"
proof -
  from assms(1) obtain draft model messages ps where
      result: "result = draft_result channel case_id draft model messages ps"
    and ps: "memory_proposals_from_messages loads messages = Inr ps"
    by (auto simp: copilot_run_turn_def Let_def split: prod.splits sum.splits)
  have slots: "\<forall>p \<in> set ps. mp_slot p \<in> set MEMORY_PREFERENCE_SLOTS"
    using ps memory_proposal_ofD by (fastforce simp: memory_proposals_from_messages_def ebind_eq_Inr map_filter_set)
  obtain subject body where e: "derive_email_subject_and_body draft case_id = (subject, body)" by fastforce
  have "subject \<noteq> [] \<and> py_strip body = body"
    using peel_subject_ok [of "''Re: your Toee Tire case '' @ case_id" draft "splitlines draft"] e
    by (simp add: derive_email_subject_and_body_def)
  moreover from assms(2) consider "channel = ''sms''" | "channel = ''email''" | "channel = ''internal_note''" | "channel = ''chat''"
    by (auto simp: VALID_CHANNELS_def)
  ultimately show ?thesis
    by cases (use slots in \<open>auto simp: result draft_result_def e draft_envelope_def item_def set_keys_def get_def get_or_def
        exn_simps Let_def\<close>)
qed

section \<open>Samples\<close>

text \<open>A verified customer's case with one slot of theirs and one of somebody else; no provider key.\<close>

definition draft_db :: db where
  "draft_db = empty_db\<lparr>
     db_threads := [\<lparr>t_id = ''t1'', t_channel = ''sms'', t_channel_identity = ''+14165550101'',
       t_shopify_customer_id = Some ''gid'', t_created_at = 0, t_updated_at = 0, t_last_interaction_at = 0\<rparr>],
     db_cases := [held_case None],
     db_slots := [sample_slot ''b'' ''gid'' ''language'' ''fr'', sample_slot ''c'' ''other'' ''tone'' ''cold'']\<rparr>"

definition keyless_dp :: "db deployment" where
  "keyless_dp = sample_dp\<lparr>dp_env := map_of [(''TOOL_BACKEND'', ''datastore''), (''AGENT_EXPERIENCE_LEARNING'', ''on'')],
     dp_agent := \<lambda>b run d. (Inr \<lparr>ct_final_response = Some ''Subject: Hello'', ct_messages = []\<rparr>, d)\<rparr>"

definition no_json :: loads where "no_json s = None"

lemma keyless_settings:
  "memory_enabled (dp_env keyless_dp) = Inr True" "''sms'' \<in> set VALID_CHANNELS" "''email'' \<in> set VALID_CHANNELS"
  "resolve_integration_driver (dp_env keyless_dp ''INTEGRATION_DRIVER'') = Inr Mock"
  "\<not> openrouter_configured (dp_env keyless_dp)" "agent_experience_enabled (dp_env keyless_dp)"
  by code_simp+

lemma keyless_parts:
  "''terminal'' \<in> set (dp_builtins keyless_dp)" "kind (dp_mock keyless_dp) = ''mock''"
  "kind (dp_postgres keyless_dp) = ''datastore''" "dp_dash keyless_dp = ''-''"
  by (simp_all add: keyless_dp_def sample_dp_def)

lemma sample_draft: "\<exists>b run model d'. draft_turn_input keyless_dp None (Some (pg_turn_store None (\<lambda>_. sample_env)))
    ''email'' ''case_1'' None draft_db = (Inr (b, run, model), d')"
  using draft_starts [OF keyless_settings(1, 3, 4)] by blast

lemma sample_draft_run: "\<exists>result d'. copilot_run_turn keyless_dp no_json queue None (Some (pg_turn_store None (\<lambda>_. sample_env)))
    ''email'' ''case_1'' None draft_db = (Inr result, d')"
proof -
  obtain b run model d' where t: "draft_turn_input keyless_dp None (Some (pg_turn_store None (\<lambda>_. sample_env)))
    ''email'' ''case_1'' None draft_db = (Inr (b, run, model), d')" using sample_draft by blast
  have a: "dp_agent keyless_dp = (\<lambda>b run d. (Inr \<lparr>ct_final_response = Some ''Subject: Hello'', ct_messages = []\<rparr>, d))"
    by (simp add: keyless_dp_def)
  show ?thesis
    by (simp add: copilot_run_turn_def t run_agent_turn_def a memory_proposals_from_messages_def
        parsed_calls_def exn_simps Let_def)
qed

theorem draft_always_starts_witness:
  "\<exists>b run model d'. draft_turn_input keyless_dp None (Some (pg_turn_store (Some (PyError ''OperationalError'' ''down'')) (\<lambda>_. sample_env)))
      ''sms'' ''case_1'' None draft_db = (Inr (b, run, model), d') \<and> model = SCRIPTED_MODEL"
  using draft_always_starts [OF keyless_settings(1, 2, 4), of None "Some (pg_turn_store (Some (PyError ''OperationalError'' ''down'')) (\<lambda>_. sample_env))"
      "''case_1''" None draft_db] keyless_settings(5) by blast

theorem draft_has_no_datastore_witness:
  "\<exists>b run model d'. draft_turn_input keyless_dp None (Some (pg_turn_store None (\<lambda>_. sample_env)))
    ''email'' ''case_1'' None draft_db = (Inr (b, run, model), d')
    \<and> kind (bp_driver b ''toee_customer_memory'') = ''mock'' \<and> ''terminal'' \<in> an_valid_tool_names run"
proof -
  obtain b run model d' where t: "draft_turn_input keyless_dp None (Some (pg_turn_store None (\<lambda>_. sample_env)))
    ''email'' ''case_1'' None draft_db = (Inr (b, run, model), d')" using sample_draft by blast
  note props = draft_has_no_datastore [OF t]
  from props have "bp_driver b ''toee_customer_memory'' = dp_mock keyless_dp" by simp
  moreover from props keyless_parts(1) have "''terminal'' \<in> an_valid_tool_names run" by blast
  ultimately show ?thesis using t keyless_parts(2) by auto
qed

theorem draft_memory_is_the_cases_witness:
  "\<exists>b run model d' memory experience. draft_turn_input keyless_dp None (Some (pg_turn_store None (\<lambda>_. sample_env)))
    ''email'' ''case_1'' None draft_db = (Inr (b, run, model), d')
    \<and> an_user_message run = with_injection (render_injection ''-'' None (map_option memory_dicts memory)
         (map_option experience_dicts experience)) ''Draft a email reply for case case_1.''
    \<and> (''tone'', ''cold'') \<notin> set (or_nil memory)"
proof -
  obtain b run model d' where t: "draft_turn_input keyless_dp None (Some (pg_turn_store None (\<lambda>_. sample_env)))
    ''email'' ''case_1'' None draft_db = (Inr (b, run, model), d')" using sample_draft by blast
  have "load_case_identity ''case_1'' draft_db = Some (JObj [(''outcome'', JStr ''verified_customer''),
     (''shopify_customer_id'', JStr ''gid''), (''channel'', JStr ''sms''), (''channel_identity'', JStr ''+14165550101'')])"
    by code_simp
  moreover have "binding_key_from_identity (JObj [(''outcome'', JStr ''verified_customer''),
     (''shopify_customer_id'', JStr ''gid''), (''channel'', JStr ''sms''), (''channel_identity'', JStr ''+14165550101'')])
     = Some (''gid'', ''verified'')" by code_simp
  ultimately have k: "\<forall>ident k kd. load_case_identity ''case_1'' draft_db = Some ident
      \<and> binding_key_from_identity ident = Some (k, kd) \<longrightarrow> k = ''gid''" by auto
  have u: "copilot_user_message ''email'' ''case_1'' None = ''Draft a email reply for case case_1.''" "dp_dash keyless_dp = ''-''"
    by (simp_all add: copilot_user_message_def keyless_parts(4) falsy_def)
  from draft_memory_is_the_cases [OF t, unfolded u] obtain memory experience where m: "an_user_message run
       = with_injection (render_injection ''-'' None (map_option memory_dicts memory)
         (map_option experience_dicts experience)) ''Draft a email reply for case case_1.''"
    "memory \<noteq> None \<longrightarrow> (\<exists>ident k kd. load_case_identity ''case_1'' draft_db = Some ident
          \<and> binding_key_from_identity ident = Some (k, kd)
          \<and> set (the memory) = {(p_slot_name r, p_slot_value r) | r. r \<in> set (db_slots draft_db) \<and> p_binding_key r = k})"
    by blast
  have "(''tone'', ''cold'') \<notin> set (or_nil memory)"
  proof (cases memory)
    case (Some slots)
    with m(2) k have "set slots = {(p_slot_name r, p_slot_value r) | r. r \<in> set (db_slots draft_db) \<and> p_binding_key r = ''gid''}"
      by auto
    moreover have "\<forall>r \<in> set (db_slots draft_db). p_binding_key r = ''gid'' \<longrightarrow> p_slot_name r = ''language''"
      by (simp add: draft_db_def sample_slot_def)
    ultimately show ?thesis using Some by (auto simp: or_nil_def)
  qed (simp add: or_nil_def)
  with t m(1) show ?thesis by blast
qed

theorem draft_answer_typed_witness:
  "\<exists>result d' data. copilot_run_turn keyless_dp no_json (pg_enqueuer None sample_env) None (Some (pg_turn_store None (\<lambda>_. sample_env)))
    ''email'' ''case_1'' None draft_db = (Inr result, d') \<and> draft_envelope ''email'' result = Inr data \<and> ''messages'' \<notin> fst ` set data"
proof -
  obtain result d' where t: "copilot_run_turn keyless_dp no_json (pg_enqueuer None sample_env) None (Some (pg_turn_store None (\<lambda>_. sample_env)))
    ''email'' ''case_1'' None draft_db = (Inr result, d')" using sample_draft_run by blast
  then show ?thesis using draft_answer_typed [OF t keyless_settings(3)] by blast
qed

theorem draft_leaves_one_review_witness:
  "\<exists>result d1. copilot_run_turn keyless_dp no_json (\<lambda>payload jtype m w. (Inr [], w)) None (Some (pg_turn_store None (\<lambda>_. sample_env)))
    ''email'' ''case_1'' None draft_db = (Inr result, d1)
    \<and> fst (copilot_run_turn keyless_dp no_json (pg_enqueuer None sample_env) None (Some (pg_turn_store None (\<lambda>_. sample_env)))
    ''email'' ''case_1'' None draft_db) = Inr result"
proof -
  obtain result d1 where t: "copilot_run_turn keyless_dp no_json (\<lambda>payload jtype m w. (Inr [], w)) None (Some (pg_turn_store None (\<lambda>_. sample_env)))
    ''email'' ''case_1'' None draft_db = (Inr result, d1)" using sample_draft_run by blast
  then show ?thesis using draft_leaves_one_review [OF t, of None sample_env] by simp
qed

theorem review_pass_scope_witness:
  "\<exists>b run. review_boot keyless_dp = Inr b \<and> review_run keyless_dp (Some []) ''p'' b = Some run
     \<and> ''terminal'' \<in> an_valid_tool_names run \<and> kind (bp_driver b ''toee_agent_experience'') = ''datastore''"
proof -
  obtain extra where "agent_experience_extra_drivers keyless_dp = Inr extra"
    by (simp add: agent_experience_extra_drivers_def select_tool_driver_def resolve_tool_backend_def KNOWN_BACKENDS_def
        falsy_def exn_simps keyless_settings(6))
  then obtain b where b: "review_boot keyless_dp = Inr b"
    using boot_internal_on [OF keyless_settings(4), of None None None extra] by (auto simp: review_boot_def exn_simps)
  obtain run where r: "review_run keyless_dp (Some []) ''p'' b = Some run" by (simp add: review_run_def)
  show ?thesis using review_pass_scope [OF b r] b r keyless_parts keyless_settings(6) by simp
qed

end
