(* ===== verification/Integrations.thy ===== *)
theory Integrations
  imports Deliveries VendorReads Providers Retention
begin

text \<open>
  The health of the external services: their authenticated reads (\<^verbatim>\<open>drivers/easyroutes/driver.py\<close>,
  \<^verbatim>\<open>drivers/composio/driver.py\<close>), the scheduled probes \<^verbatim>\<open>hermes_runtime/integration_probe.py\<close> and the handlers
  of the status page, \<^verbatim>\<open>datastore/handlers/integrations.py\<close>.
\<close>

text \<open>
  The outside world of one probe: an HTTP exchange with its body or with its status only, \<^verbatim>\<open>json.loads\<close>, the two
  calls of the Composio SDK (a key, then an account; an error is any exception), and which calls are over before
  the deadline of the driver and of the probe.  An SDK object is the dict of its attributes.
\<close>

record vendors =
  vd_http :: http
  vd_status :: "http_request \<Rightarrow> status_outcome"
  vd_loads :: "string \<Rightarrow> json option"
  vd_composio_installed :: bool
  vd_account :: "string \<Rightarrow> string \<Rightarrow> exn + json"
  vd_reauth :: "string \<Rightarrow> string \<Rightarrow> string \<Rightarrow> exn + json"
  vd_call_in_time :: "string \<Rightarrow> bool"
  vd_probe_in_time :: "string \<Rightarrow> bool"

text \<open>\<^verbatim>\<open>str.upper\<close>; two letters whose capitals are not Latin-1 stay as they are.\<close>

definition py_upper :: "string \<Rightarrow> string" where
  "py_upper s = concat (map (\<lambda>c. let n = code c in
     if n = 223 then ''SS''
     else if (97 \<le> n \<and> n \<le> 122) \<or> (224 \<le> n \<and> n \<le> 254 \<and> n \<noteq> 247) then [char_of (n - 32)] else [c]) s)"

section \<open>EasyRoutes: token exchange and ping\<close>

definition ER_USER_AGENT :: string where
  "ER_USER_AGENT = ''ToeeTireHermes/0.0.4 (+https://toeetire.com)''"

definition er_base :: "environ \<Rightarrow> string" where
  "er_base env = without_slashes (env_or env ''EASYROUTES_API_BASE'' ''https://easyroutes.roundtrip.ai/api/2024-07'')"

definition er_read :: "vendors \<Rightarrow> http_request \<Rightarrow> exn + json" where
  "er_read vd req =
     (case vd_http vd req of
        Http_error code' \<Rightarrow> Inl (ToolDriverError
          (if code' \<in> {401, 403} then Auth_expired else Configuration_missing)
          (''EasyRoutes HTTP '' @ show_nat code' @ '' for '' @ hr_url req @ ''.''))
      | Url_error reason \<Rightarrow> Inl (ToolDriverError Vendor_timeout (''EasyRoutes request failed: '' @ reason @ ''.''))
      | Http_body body \<Rightarrow>
          (case vd_loads vd body of
             None \<Rightarrow> Inl (ToolDriverError Configuration_missing ''EasyRoutes returned an unparseable body.'')
           | Some j \<Rightarrow> Inr j))"

definition er_auth_request :: "environ \<Rightarrow> http_request" where
  "er_auth_request env =
     \<lparr>hr_method = ''POST'', hr_url = er_base env @ ''/authenticate'',
      hr_body = Some (JObj [(''clientId'', opt_str (env ''EASYROUTES_CLIENT_ID'')),
                            (''clientSecret'', opt_str (er_secret env))]),
      hr_headers = [(''Content-Type'', ''application/json''), (''Accept'', ''application/json''),
                    (''User-Agent'', ER_USER_AGENT)]\<rparr>"

text \<open>
  A client is built per probe, so its token cache is empty; the lifetime only sets the cache, and \<^verbatim>\<open>float\<close> of an
  integer from \<open>2\<^sup>1\<^sup>0\<^sup>2\<^sup>4 - 2\<^sup>9\<^sup>7\<^sup>0\<close> on raises.
\<close>

definition er_access_token :: "environ \<Rightarrow> vendors \<Rightarrow> exn + string" where
  "er_access_token env vd =
     ebind (er_read vd (er_auth_request env)) (\<lambda>body.
     case (case body of JObj d \<Rightarrow> get d ''accessToken'' | _ \<Rightarrow> JNull) of
       JStr token \<Rightarrow>
         (if token = [] then Inl (ToolDriverError Auth_expired ''EasyRoutes auth returned no accessToken.'')
          else case (case body of JObj d \<Rightarrow> get d ''expiresInSeconds'' | _ \<Rightarrow> JNull) of
            JInt n \<Rightarrow> (if n \<ge> 2 ^ 1024 - 2 ^ 970
                      then Inl (PyError ''OverflowError'' ''int too large to convert to float'') else Inr token)
          | _ \<Rightarrow> Inr token)
     | _ \<Rightarrow> Inl (ToolDriverError Auth_expired ''EasyRoutes auth returned no accessToken.''))"

definition er_routes_request :: "environ \<Rightarrow> string \<Rightarrow> http_request" where
  "er_routes_request env token =
     \<lparr>hr_method = ''GET'', hr_url = er_base env @ ''/routes?query.limit=1&query.sortKey=UPDATED_AT'', hr_body = None,
      hr_headers = [(''Authorization'', bearer token), (''Accept'', ''application/json''), (''User-Agent'', ER_USER_AGENT)]\<rparr>"

definition er_ping :: "environ \<Rightarrow> vendors \<Rightarrow> exn + unit" where
  "er_ping env vd =
     ebind (er_access_token env vd) (\<lambda>token.
     ebind (er_read vd (er_routes_request env token)) (\<lambda>body.
     case (case body of JObj d \<Rightarrow> get d ''routes'' | _ \<Rightarrow> JNull) of
       JList _ \<Rightarrow> Inr ()
     | _ \<Rightarrow> Inl (ToolDriverError Configuration_missing ''EasyRoutes /routes returned an unrecognized shape.'')))"

definition easyroutes_health :: "environ \<Rightarrow> vendors \<Rightarrow> string \<Rightarrow> exn + unit" where
  "easyroutes_health env vd deadline =
     (case er_config_error (build_easyroutes_driver env deadline :: unit easyroutes) of
        Some e \<Rightarrow> Inl e
      | None \<Rightarrow> fst (under_deadline (''EasyRoutes health exceeded the '' @ deadline @ ''ms deadline.'')
          (\<lambda>m. ''EasyRoutes call failed: '' @ m)
          (if vd_call_in_time vd ''easyroutes'' then Some (er_ping env vd) else None, ())))"

section \<open>Composio: account status and re-authorisation\<close>

definition ACTIVE_ACCOUNT_STATUSES :: "string list" where "ACTIVE_ACCOUNT_STATUSES = [''ACTIVE'']"

definition connected_account_status :: "json \<Rightarrow> string" where
  "connected_account_status account =
     (case account of
        JObj d \<Rightarrow> py_upper (py_strip (py_str (or_else (get d ''status'') (JStr []))))
      | _ \<Rightarrow> [])"

definition assert_connected_account_active :: "json \<Rightarrow> string \<Rightarrow> exn + unit" where
  "assert_connected_account_active account toolkit_key =
     (if account = JNull
      then Inl (ToolDriverError Composio_api_error
        (''Composio returned no connected account for '' @ in_quotes toolkit_key @ ''.''))
      else let status = connected_account_status account in
        if status \<notin> set ACTIVE_ACCOUNT_STATUSES
        then Inl (ToolDriverError Composio_api_error
          (''Composio connected account for '' @ in_quotes toolkit_key @ '' is not active (status=''
           @ (if status = [] then ''unknown'' else status) @ '').''))
        else Inr ())"

text \<open>The account, the key and the SDK, in the order the source checks them.\<close>

definition composio_access :: "environ \<Rightarrow> vendors \<Rightarrow> string \<Rightarrow> exn + string \<times> string" where
  "composio_access env vd toolkit_key =
     (case map_of CONNECTED_ACCOUNT_ENV toolkit_key of
        None \<Rightarrow> Inl (PyError ''KeyError'' (repr_str toolkit_key))
      | Some account_env \<Rightarrow>
          (if falsy (env account_env)
           then Inl (ToolDriverError Configuration_missing
             (''No Composio connected account for '' @ in_quotes toolkit_key @ '': set '' @ account_env @ ''.''))
           else if falsy (env ''COMPOSIO_API_KEY'')
           then Inl (ToolDriverError Configuration_missing ''COMPOSIO_API_KEY is not set.'')
           else if \<not> vd_composio_installed vd
           then Inl (ToolDriverError Configuration_missing ''The composio SDK is not installed in this environment.'')
           else Inr (the (env ''COMPOSIO_API_KEY''), the (env account_env))))"

definition probe_composio_toolkit :: "environ \<Rightarrow> vendors \<Rightarrow> string \<Rightarrow> exn + unit" where
  "probe_composio_toolkit env vd toolkit_key =
     ebind (composio_access env vd toolkit_key) (\<lambda>(api_key, account_id).
     case vd_account vd api_key account_id of
       Inl e \<Rightarrow> Inl (ToolDriverError Composio_api_error
         (''Composio connected-account read failed for '' @ in_quotes toolkit_key @ '': '' @ exn_message e))
     | Inr account \<Rightarrow> assert_connected_account_active account toolkit_key)"

fun first_url :: "json \<Rightarrow> string list \<Rightarrow> string option" where
  "first_url request [] = None"
| "first_url request (attr # attrs) =
     (let value = (case request of JObj d \<Rightarrow> get d attr | _ \<Rightarrow> JNull) in
      if truthy value then Some (py_str value) else first_url request attrs)"

definition initiate_composio_reconnect :: "environ \<Rightarrow> vendors \<Rightarrow> string \<Rightarrow> string \<Rightarrow> exn + string" where
  "initiate_composio_reconnect env vd toolkit_key callback_url =
     (if map_of CONNECTED_ACCOUNT_ENV toolkit_key = None
      then Inl (ToolDriverError Unexpected_error (in_quotes toolkit_key @ '' is not a Composio-managed connection.''))
      else
        ebind (composio_access env vd toolkit_key) (\<lambda>(api_key, account_id).
        case vd_reauth vd api_key account_id callback_url of
          Inl e \<Rightarrow> Inl (ToolDriverError Composio_api_error
            (''Composio re-auth link generation failed for '' @ in_quotes toolkit_key @ '': '' @ exn_message e))
        | Inr request \<Rightarrow>
            (case first_url request [''redirect_url'', ''redirectUrl''] of
               Some url \<Rightarrow> (if url \<noteq> [] then Inr url else Inl (ToolDriverError Composio_api_error
                   (''Composio returned no re-auth redirect URL for '' @ in_quotes toolkit_key @ ''.'')))
             | None \<Rightarrow> Inl (ToolDriverError Composio_api_error
                   (''Composio returned no re-auth redirect URL for '' @ in_quotes toolkit_key @ ''.'')))))"

section \<open>integration_probe.py\<close>

definition PROBE_DEADLINE_MS :: string where "PROBE_DEADLINE_MS = ''8000''"
definition PROBE_RETENTION_DAYS :: int where "PROBE_RETENTION_DAYS = 30"

record probe_result =
  pr_key :: string
  pr_status :: string
  pr_reason :: "string option"

record probe =
  pb_key :: string
  pb_configured :: bool
  pb_check :: "exn + unit"
  pb_in_time :: bool
  pb_not_configured_reason :: string

definition toolkit_configured :: "environ \<Rightarrow> string \<Rightarrow> bool" where
  "toolkit_configured env toolkit_key = ts_configured (the (map_of (composio_config_status env) toolkit_key))"

definition gadget_health :: "environ \<Rightarrow> vendors \<Rightarrow> string \<Rightarrow> exn + unit" where
  "gadget_health env vd deadline =
     fst (attribution_health (build_qbo_attribution env (vd_http vd) (vd_loads vd) deadline
       (\<lambda>r s. (if vd_call_in_time vd ''gadget'' then Some r else None, s))) ())"

text \<open>\<open>deadline\<close> is the drivers' own budget as the message shows it.\<close>

definition PROBES :: "environ \<Rightarrow> vendors \<Rightarrow> string \<Rightarrow> probe list" where
  "PROBES env vd deadline = map (\<lambda>(key, configured, check, reason).
       \<lparr>pb_key = key, pb_configured = configured, pb_check = check, pb_in_time = vd_probe_in_time vd key,
        pb_not_configured_reason = reason\<rparr>)
     [(SHOPIFY, toolkit_configured env SHOPIFY, probe_composio_toolkit env vd SHOPIFY,
         ''not configured: Composio Shopify toolkit''),
      (QBO, toolkit_configured env QBO, probe_composio_toolkit env vd QBO,
         ''not configured: Composio QuickBooks toolkit''),
      (SQUARE, toolkit_configured env SQUARE, probe_composio_toolkit env vd SQUARE,
         ''not configured: Composio Square toolkit''),
      (''easyroutes'', easyroutes_configured env, easyroutes_health env vd deadline,
         ''not configured: EASYROUTES_SECRET + EASYROUTES_CLIENT_ID''),
      (''simpletexting'', simpletexting_configured env, probe_simpletexting_token env (vd_status vd),
         ''not configured: SIMPLETEXTING_API_TOKEN''),
      (''openrouter'', openrouter_configured env, probe_openrouter env (vd_http vd) (vd_loads vd),
         ''not configured: OPENROUTER_API_KEY''),
      (''gadget'', gadget_configured env, gadget_health env vd deadline, ''not configured: GADGET_API_KEY'')]"

definition fault_reason :: "exn \<Rightarrow> string" where
  "fault_reason e = (case e of
      ToolDriverError c m \<Rightarrow> error_class_name c @ '': '' @ m
    | PyError n m \<Rightarrow> n @ '': '' @ m)"

definition run_one :: "probe \<Rightarrow> probe_result" where
  "run_one p =
     (if \<not> pb_configured p
      then \<lparr>pr_key = pb_key p, pr_status = ''not_configured'', pr_reason = Some (pb_not_configured_reason p)\<rparr>
      else if \<not> pb_in_time p
      then \<lparr>pr_key = pb_key p, pr_status = ''failed'',
            pr_reason = Some (''exceeded the '' @ PROBE_DEADLINE_MS @ ''ms deadline'')\<rparr>
      else case pb_check p of
        Inl e \<Rightarrow> \<lparr>pr_key = pb_key p, pr_status = ''failed'', pr_reason = Some (fault_reason e)\<rparr>
      | Inr _ \<Rightarrow> \<lparr>pr_key = pb_key p, pr_status = ''ok'', pr_reason = None\<rparr>)"

definition run_probes :: "probe list \<Rightarrow> probe_result list" where
  "run_probes probes = map run_one probes"

definition probe_one :: "probe list \<Rightarrow> string \<Rightarrow> exn + probe_result" where
  "probe_one probes key =
     (case List.find (\<lambda>p. pb_key p = key) probes of
        Some p \<Rightarrow> Inr (run_one p)
      | None \<Rightarrow> Inl (PyError ''KeyError'' (repr_str (''no integration probe for '' @ in_quotes key))))"

definition write_probe_rows :: "exec_env \<Rightarrow> probe_result list \<Rightarrow> db \<Rightarrow> db" where
  "write_probe_rows ex results d =
     d\<lparr>db_probes := filter (\<lambda>r. \<not> q_checked_at r < ee_now ex - PROBE_RETENTION_DAYS * day)
         (db_probes d @ map (\<lambda>r. \<lparr>q_integration_key = pr_key r, q_status = pr_status r, q_reason = pr_reason r,
                                   q_checked_at = ee_now ex\<rparr>) results)\<rparr>"

text \<open>The job body; \<open>down\<close> is what the connection raises, if it does.\<close>

definition run_integration_probe_job ::
  "environ \<Rightarrow> vendors \<Rightarrow> string \<Rightarrow> exn option \<Rightarrow> exec_env \<Rightarrow> db \<Rightarrow> (exn + unit) \<times> db" where
  "run_integration_probe_job env vd deadline down ex d =
     (let results = run_probes (PROBES env vd deadline) in
      case down of Some e \<Rightarrow> (Inl e, d) | None \<Rightarrow> (Inr (), write_probe_rows ex results d))"

section \<open>handlers/integrations.py\<close>

definition COMPOSIO_LABELS :: "(string \<times> string) list" where
  "COMPOSIO_LABELS = [(SHOPIFY, ''Shopify (Composio)''), (QBO, ''QuickBooks (Composio)''), (SQUARE, ''Square (Composio)'')]"

definition integration_entry ::
  "string \<Rightarrow> string \<Rightarrow> string \<Rightarrow> bool \<Rightarrow> string \<Rightarrow> json \<Rightarrow> string option \<Rightarrow> json" where
  "integration_entry key label kind' configured detail last_probe pinned_version =
     JObj [(''key'', JStr key), (''label'', JStr label), (''kind'', JStr kind'), (''configured'', JBool configured),
       (''status'', JStr (if configured then ''configured'' else ''not_configured'')),
       (''pinned_version'', opt_str pinned_version), (''last_successful_call'', JNull),
       (''last_probe'', last_probe), (''detail'', JStr detail)]"

definition missing_env :: "string \<Rightarrow> string" where
  "missing_env env_name = ''Not configured: set '' @ env_name @ '' in the deployment env.''"

text \<open>\<^verbatim>\<open>DISTINCT ON (integration_key) .. ORDER BY integration_key, checked_at DESC\<close>, looked up at a key.\<close>

definition latest_probe :: "db \<Rightarrow> string \<Rightarrow> json" where
  "latest_probe d key =
     (case order_desc q_checked_at (filter (\<lambda>r. q_integration_key r = key) (db_probes d)) of
        [] \<Rightarrow> JNull
      | r # _ \<Rightarrow> JObj [(''status'', JStr (q_status r)), (''reason'', opt_str (q_reason r)),
                      (''checked_at'', time_json (q_checked_at r))])"

definition toolkit_detail :: "toolkit_status \<Rightarrow> string" where
  "toolkit_detail st =
     (if ts_configured st
      then ''Connected account present, pinned to '' @ the (ts_pinned_version st) @ ''.''
      else if \<not> ts_api_key_present st then missing_env ''COMPOSIO_API_KEY''
      else if \<not> ts_connected st then missing_env (ts_account_env st)
      else ''Connected but no version pin: set '' @ ts_version_env st @ '' to an ''
        @ ''exact toolkit version (not 'latest').'')"

definition static_entry :: "db \<Rightarrow> string \<Rightarrow> string \<Rightarrow> bool \<Rightarrow> string \<Rightarrow> string \<Rightarrow> json" where
  "static_entry d key label configured present env_name =
     integration_entry key label key configured (if configured then present else missing_env env_name)
       (latest_probe d key) None"

definition integration_entries :: "environ \<Rightarrow> db \<Rightarrow> json list" where
  "integration_entries env d =
     map (\<lambda>(key, label).
        let st = the (map_of (composio_config_status env) key) in
        integration_entry key label ''composio_toolkit'' (ts_configured st) (toolkit_detail st) (latest_probe d key)
          (ts_pinned_version st)) COMPOSIO_LABELS
     @ [static_entry d ''easyroutes'' ''EasyRoutes'' (easyroutes_configured env)
          ''Delivery m2m credentials present.'' ''EASYROUTES_API_TOKEN and EASYROUTES_CLIENT_ID'',
        static_entry d ''simpletexting'' ''SimpleTexting'' (simpletexting_configured env)
          ''Outbound SMS token present.'' ''SIMPLETEXTING_API_TOKEN'',
        static_entry d ''openrouter'' ''OpenRouter'' (openrouter_configured env)
          ''Model API key present.'' ''OPENROUTER_API_KEY'',
        static_entry d ''gadget'' ''Gadget mapping endpoint (paymentstatussync)'' (gadget_configured env)
          ''QBO<->Shopify mapping API key present.'' API_KEY_ENV]"

definition get_integrations_status :: "environ \<Rightarrow> exec_env \<Rightarrow> dict \<Rightarrow> ctx \<Rightarrow> db \<Rightarrow> (exn + json) \<times> db" where
  "get_integrations_status env ex params context d =
     (ebind (resolve_integration_driver (env ''INTEGRATION_DRIVER'')) (\<lambda>active.
      Inr (JObj [(''active_driver'', JStr (case active of Mock \<Rightarrow> ''mock'' | Composio \<Rightarrow> ''composio'')),
                 (''integrations'', JList (integration_entries env d))])), d)"

definition require_reconnect_actor :: "ctx \<Rightarrow> exn + string" where
  "require_reconnect_actor context =
     (if falsy (user_id context)
      then Inl (ToolDriverError Policy_blocked ''A governed reconnect requires an attributed actor.'')
      else Inr (the (user_id context)))"

definition require_integration_key :: "dict \<Rightarrow> exn + string" where
  "require_integration_key params =
     (case read_string params [''integration_key'', ''integrationKey''] of
        None \<Rightarrow> Inl (ToolDriverError Unexpected_error ''integration_key is required.'')
      | Some key \<Rightarrow> Inr key)"

definition initiate_reconnect ::
  "environ \<Rightarrow> vendors \<Rightarrow> exec_env \<Rightarrow> dict \<Rightarrow> ctx \<Rightarrow> db \<Rightarrow> (exn + json) \<times> db" where
  "initiate_reconnect env vd ex params context d =
     as_handler d
      (ebind (require_reconnect_actor context) (\<lambda>actor.
       ebind (require_integration_key params) (\<lambda>key.
       ebind (guard (key \<in> fst ` set COMPOSIO_LABELS) (ToolDriverError Unexpected_error
         (in_quotes key @ '' has no OAuth reconnect (static-token integrations rotate via env + re-probe).''))) (\<lambda>_.
       ebind (case read_string params [''callback_url'', ''callbackUrl''] of
           None \<Rightarrow> Inl (ToolDriverError Unexpected_error ''callback_url is required.'')
         | Some callback_url \<Rightarrow> Inr callback_url) (\<lambda>callback_url.
       ebind (initiate_composio_reconnect env vd key callback_url) (\<lambda>redirect_url.
       ebind (insert_audit ex 0 (profile context) (Some actor) ''integration_reconnect_initiated''
         (Some ''integration'') (Some key) [(''toolkit'', JStr key)] d) (\<lambda>d'.
       Inr (JObj [(''integration_key'', JStr key), (''redirect_url'', JStr redirect_url)], d'))))))))"

definition reprobe_now ::
  "environ \<Rightarrow> vendors \<Rightarrow> string \<Rightarrow> exec_env \<Rightarrow> dict \<Rightarrow> ctx \<Rightarrow> db \<Rightarrow> (exn + json) \<times> db" where
  "reprobe_now env vd deadline ex params context d =
     as_handler d
      (ebind (require_reconnect_actor context) (\<lambda>actor.
       ebind (require_integration_key params) (\<lambda>key.
       ebind (case probe_one (PROBES env vd deadline) key of
           Inr result \<Rightarrow> Inr result
         | Inl _ \<Rightarrow> Inl (ToolDriverError Unexpected_error (''unknown integration '' @ in_quotes key @ ''.''))) (\<lambda>result.
       ebind (insert_audit ex 0 (profile context) (Some actor) ''integration_reprobed''
         (Some ''integration'') (Some key) [(''status'', JStr (pr_status result))]
         (write_probe_rows ex [result] d)) (\<lambda>d'.
       Inr (JObj [(''integration_key'', JStr key), (''status'', JStr (pr_status result)),
                  (''reason'', opt_str (pr_reason result))], d'))))))"

definition integrations_handlers :: "environ \<Rightarrow> vendors \<Rightarrow> string \<Rightarrow> datastore_registry" where
  "integrations_handlers env vd deadline =
     [(''toee_integrations'',
       [(''get_integrations_status'', on_work (get_integrations_status env)),
        (''initiate_reconnect'', on_work (initiate_reconnect env vd)),
        (''reprobe_now'', on_work (reprobe_now env vd deadline))])]"

section \<open>Lemmas\<close>

lemma PROBES_keys: "map pb_key (PROBES env vd deadline) = [SHOPIFY, QBO, SQUARE, ''easyroutes'', ''simpletexting'', ''openrouter'', ''gadget'']"
  by (simp add: PROBES_def)

lemma run_one_key: "pr_key (run_one p) = pb_key p"
  by (simp add: run_one_def split: sum.splits)

text \<open>A probe reports \<^verbatim>\<open>ok\<close> exactly when the service is configured, the read returned in time and
  returned without a fault, \<^verbatim>\<open>not_configured\<close> exactly when no credential is set, and \<^verbatim>\<open>failed\<close> in every other case,
  with a reason exactly when it is not \<^verbatim>\<open>ok\<close>.\<close>

theorem probe_is_honest:
  "(pr_status (run_one p) = ''ok'' \<longleftrightarrow> pb_configured p \<and> pb_in_time p \<and> pb_check p = Inr ())
   \<and> (pr_status (run_one p) = ''not_configured'' \<longleftrightarrow> \<not> pb_configured p)
   \<and> (pr_status (run_one p) = ''failed'' \<longleftrightarrow> pb_configured p \<and> \<not> (pb_in_time p \<and> pb_check p = Inr ()))
   \<and> (pr_reason (run_one p) = None \<longleftrightarrow> pr_status (run_one p) = ''ok'')"
  by (simp add: run_one_def split: sum.splits)

text \<open>C29.  No credential can be read off the status page: two environments that have the
  same variables set, the same version pins and the same driver give the same page, whatever the values are.\<close>

theorem status_page_hides_secrets:
  assumes "env ''INTEGRATION_DRIVER'' = env' ''INTEGRATION_DRIVER''"
    and "\<forall>k \<in> snd ` set TOOLKIT_VERSION_ENV. env k = env' k"
    and "\<forall>k. falsy (env k) = falsy (env' k) \<and> (strip_or_empty (env k) = []) = (strip_or_empty (env' k) = [])"
  shows "get_integrations_status env ex params context d = get_integrations_status env' ex params context d"
proof -
  have pin: "version_pin env t = version_pin env' t" if "t \<in> {SHOPIFY, QBO, SQUARE}" for t
    using assms(2) that by (auto simp: version_pin_def TOOLKIT_VERSION_ENV_def SHOPIFY_def QBO_def SQUARE_def)
  have f: "falsy (env k) = falsy (env' k)" and g: "(strip_or_empty (env k) = []) = (strip_or_empty (env' k) = [])" for k
    using assms(3) by blast+
  have "composio_config_status env = composio_config_status env'"
    using pin by (simp add: composio_config_status_def TOOLKIT_SLUG_def pinned_def f Let_def)
  moreover have "easyroutes_configured env = easyroutes_configured env'"
    by (simp add: easyroutes_configured_def er_secret_def f)
  moreover have "simpletexting_configured env = simpletexting_configured env'" "openrouter_configured env = openrouter_configured env'"
    by (simp_all add: simpletexting_configured_def openrouter_configured_def g)
  moreover have "gadget_configured env = gadget_configured env'" by (simp add: gadget_configured_def f)
  ultimately show ?thesis by (simp add: get_integrations_status_def integration_entries_def assms(1))
qed

definition green_env :: environ where
  "green_env = map_of [(''EASYROUTES_SECRET'', ''s''), (''EASYROUTES_CLIENT_ID'', ''c'')]"

definition green_vendors :: vendors where
  "green_vendors = \<lparr>vd_http = \<lambda>req. Http_body (hr_method req), vd_status = \<lambda>_. Status 200,
     vd_loads = \<lambda>body. Some (if body = ''POST'' then JObj [(''accessToken'', JStr ''t'')] else JObj [(''routes'', JList [])]),
     vd_composio_installed = True, vd_account = \<lambda>_ _. Inr (JObj [(''status'', JStr ''ACTIVE'')]),
     vd_reauth = \<lambda>_ _ _. Inr (JObj [(''redirect_url'', JStr ''https://vendor'')]),
     vd_call_in_time = \<lambda>_. True, vd_probe_in_time = \<lambda>_. True\<rparr>"

text \<open>A green EasyRoutes entry promises nothing: the live driver refuses every request
  of every caller, also when it is configured and its probe reports \<^verbatim>\<open>ok\<close>.\<close>

theorem green_delivery_never_answers:
  "(\<exists>e. fst (easyroutes_execute (build_easyroutes_driver env deadline) request context s) = Inl e)
   \<and> (\<exists>env vd. probe_one (PROBES env vd deadline) ''easyroutes''
         = Inr \<lparr>pr_key = ''easyroutes'', pr_status = ''ok'', pr_reason = None\<rparr>)"
proof
  show "\<exists>e. fst (easyroutes_execute (build_easyroutes_driver env deadline) request context s) = Inl e"
    by (auto simp: easyroutes_execute_def build_easyroutes_driver_def er_fetch_bounded_def http_fetch_deliveries_def
        under_deadline_def governed_def Let_def split: sum.splits)
next
  show "\<exists>env vd. probe_one (PROBES env vd deadline) ''easyroutes'' = Inr \<lparr>pr_key = ''easyroutes'', pr_status = ''ok'', pr_reason = None\<rparr>"
    by (rule exI [of _ green_env], rule exI [of _ green_vendors])
      (simp add: probe_one_def PROBES_def SHOPIFY_def QBO_def SQUARE_def run_one_def easyroutes_configured_def er_secret_def
        easyroutes_health_def build_easyroutes_driver_def under_deadline_def governed_def er_ping_def er_access_token_def
        er_read_def er_auth_request_def er_routes_request_def green_env_def green_vendors_def falsy_def exn_simps dict_simps
        get_def get_or_def)
qed

definition probe_json :: "exec_env \<Rightarrow> probe_result \<Rightarrow> json" where
  "probe_json ex r = JObj [(''status'', JStr (pr_status r)), (''reason'', opt_str (pr_reason r)), (''checked_at'', time_json (ee_now ex))]"

lemma PROBES_distinct: "distinct (map pb_key (PROBES env vd deadline))"
  unfolding PROBES_keys by code_simp

lemma latest_after_write:
  assumes "\<forall>r \<in> set (db_probes d). q_checked_at r < ee_now ex" and "p \<in> set probes" and "distinct (map pb_key probes)"
  shows "latest_probe (write_probe_rows ex (map run_one probes) d) (pb_key p) = probe_json ex (run_one p)"
proof -
  let ?row = "\<lambda>p. \<lparr>q_integration_key = pr_key (run_one p), q_status = pr_status (run_one p), q_reason = pr_reason (run_one p),
      q_checked_at = ee_now ex\<rparr>"
  let ?rows = "filter (\<lambda>r. q_integration_key r = pb_key p) (db_probes (write_probe_rows ex (map run_one probes) d))"
  have "0 \<le> PROBE_RETENTION_DAYS * day" by (simp add: PROBE_RETENTION_DAYS_def day_def)
  then have "?row p \<in> set ?rows" using assms(2) by (auto simp: write_probe_rows_def run_one_key)
  then have new: "?row p \<in> set (order_desc q_checked_at ?rows)" unfolding set_order_desc .
  then obtain r rest where o: "order_desc q_checked_at ?rows = r # rest"
    by (cases "order_desc q_checked_at ?rows") auto
  have r: "r \<in> set ?rows" "ee_now ex \<le> q_checked_at r"
    using order_desc_hd [OF o] new unfolding set_order_desc by auto
  then obtain q where q: "q \<in> set probes" "r = ?row q" using assms(1) by (fastforce simp: write_probe_rows_def)
  with r(1) have "pb_key q = pb_key p" by (simp add: run_one_key)
  with q assms(2, 3) have "q = p" by (auto simp: distinct_map inj_on_def)
  with o q show ?thesis by (simp add: latest_probe_def probe_json_def)
qed

lemma ran: "(pr_status (run_one p) \<noteq> ''not_configured'') = pb_configured p"
  by (simp add: run_one_def split: sum.splits)

definition shows_probe :: "db \<Rightarrow> probe \<Rightarrow> json \<Rightarrow> bool" where
  "shows_probe d p e \<longleftrightarrow> (\<exists>label kind' detail pin.
     e = integration_entry (pb_key p) label kind' (pb_configured p) detail (latest_probe d (pb_key p)) pin)"

lemma shows_probeI:
  "shows_probe d \<lparr>pb_key = k, pb_configured = c, pb_check = chk, pb_in_time = t, pb_not_configured_reason = r\<rparr>
     (integration_entry k label kind' c detail (latest_probe d k) pin)"
  by (auto simp: shows_probe_def)

lemma entries_match: "list_all2 (shows_probe d) (PROBES env vd deadline) (integration_entries env d)"
  by (simp add: PROBES_def integration_entries_def COMPOSIO_LABELS_def static_entry_def toolkit_configured_def shows_probeI Let_def)

text \<open>What the probe job records is what the page shows: after a cycle each of the seven
  entries carries the result of its own probe, and an entry is shown as configured exactly when its probe was run.\<close>

theorem status_page_shows_probe:
  assumes "run_integration_probe_job env vd deadline None ex d = (Inr (), d')"
    and "\<forall>r \<in> set (db_probes d). q_checked_at r < ee_now ex"
  shows "length (integration_entries env d') = 7
     \<and> (\<forall>i < 7. \<exists>label kind' detail pin. let p = PROBES env vd deadline ! i; r = run_one p in
          integration_entries env d' ! i = integration_entry (pb_key p) label kind' (pr_status r \<noteq> ''not_configured'') detail
            (probe_json ex r) pin)"
proof -
  from assms(1) have d': "d' = write_probe_rows ex (run_probes (PROBES env vd deadline)) d"
    by (simp add: run_integration_probe_job_def Let_def)
  have latest: "latest_probe d' (pb_key p) = probe_json ex (run_one p)" if "p \<in> set (PROBES env vd deadline)" for p
    unfolding d' run_probes_def using assms(2) that PROBES_distinct by (rule latest_after_write)
  have key: "PROBES env vd deadline ! i \<in> set (PROBES env vd deadline)" if "i < 7" for i
    using that by (intro nth_mem) (simp add: PROBES_def)
  have "\<exists>label kind' detail pin. integration_entries env d' ! i
      = integration_entry (pb_key (PROBES env vd deadline ! i)) label kind' (pb_configured (PROBES env vd deadline ! i)) detail
          (latest_probe d' (pb_key (PROBES env vd deadline ! i))) pin" if "i < 7" for i
    using list_all2_nthD [OF entries_match, of i] that by (simp add: shows_probe_def PROBES_def)
  moreover have "length (integration_entries env d') = 7" by (simp add: integration_entries_def COMPOSIO_LABELS_def)
  ultimately show ?thesis by (simp add: latest [OF key] ran Let_def)
qed

lemma reconnect_url:
  assumes "initiate_composio_reconnect env vd key callback = Inr url"
  shows "url \<noteq> [] \<and> (\<exists>request.
     vd_reauth vd (the (env ''COMPOSIO_API_KEY'')) (the (env (the (map_of CONNECTED_ACCOUNT_ENV key)))) callback = Inr request
     \<and> (\<exists>attr \<in> {''redirect_url'', ''redirectUrl''}. \<exists>x. request = JObj x \<and> url = py_str (get x attr)))"
  using assms
  by (auto simp: initiate_composio_reconnect_def composio_access_def ebind_eq_Inr Let_def
      split: option.splits if_splits sum.splits json.splits)

text \<open>A reconnect changes nothing when it fails; when it succeeds, an attributed admin asked
  for a connection that Composio manages, the link is the vendor's own answer and never the callback, and one audit
  row of that admin is the only change.\<close>

theorem reconnect_accountable:
  assumes "initiate_reconnect env vd ex params context d = (res, d')"
  shows "case res of
       Inl e \<Rightarrow> d' = d
     | Inr j \<Rightarrow> \<exists>actor key url callback. user_id context = Some actor \<and> actor \<noteq> [] \<and> key \<in> {SHOPIFY, QBO, SQUARE}
         \<and> initiate_composio_reconnect env vd key callback = Inr url
         \<and> j = JObj [(''integration_key'', JStr key), (''redirect_url'', JStr url)]
         \<and> url \<noteq> [] \<and> (\<exists>request. vd_reauth vd (the (env ''COMPOSIO_API_KEY'')) (the (env (the (map_of CONNECTED_ACCOUNT_ENV key)))) callback = Inr request
              \<and> (\<exists>attr \<in> {''redirect_url'', ''redirectUrl''}. \<exists>x. request = JObj x \<and> url = py_str (get x attr)))
         \<and> d' = d\<lparr>db_audit := db_audit d @ [\<lparr>a_id = new_id ''audit'' ex 0, a_account_id = Some actor,
              a_profile = profile context, a_action = ''integration_reconnect_initiated'', a_target_type = Some ''integration'',
              a_target_id = Some key, a_details = JObj [(''toolkit'', JStr key)], a_created_at = ee_now ex\<rparr>]\<rparr>"
proof (cases res)
  case (Inl e)
  with assms show ?thesis by (simp add: initiate_reconnect_def as_handler_Inl)
next
  case (Inr j)
  from assms obtain actor key callback url where
      a: "require_reconnect_actor context = Inr actor" and k: "key \<in> fst ` set COMPOSIO_LABELS"
    and u: "initiate_composio_reconnect env vd key callback = Inr url"
    and d: "insert_audit ex 0 (profile context) (Some actor) ''integration_reconnect_initiated''
         (Some ''integration'') (Some key) [(''toolkit'', JStr key)] d = Inr d'"
    and j: "JObj [(''integration_key'', JStr key), (''redirect_url'', JStr url)] = j"
    unfolding Inr initiate_reconnect_def as_handler_Inr ebind_eq_Inr guard_eq_Inr
    by (elim exE conjE) (rule that; simp)
  from a have "user_id context = Some actor" "actor \<noteq> []"
    by (auto simp: require_reconnect_actor_def falsy_def split: if_splits option.splits)
  moreover from k have "key \<in> {SHOPIFY, QBO, SQUARE}" by (auto simp: COMPOSIO_LABELS_def)
  moreover note u reconnect_url [OF u] j [symmetric] conjunct2 [OF d [unfolded insert_audit_Inr]]
  ultimately show ?thesis unfolding Inr sum.case
    by (intro exI [of _ actor] exI [of _ key] exI [of _ url] exI [of _ callback] conjI) (elim conjE, assumption)+
qed

section \<open>Samples\<close>

definition admin_1 :: ctx where
  "admin_1 = context_provider SUPERVISOR None None None [(''user_id'', JStr ''acct_1'')]"

definition shop_env :: "string \<Rightarrow> environ" where
  "shop_env api_key = map_of [(''COMPOSIO_API_KEY'', api_key), (''COMPOSIO_SHOPIFY_CONNECTED_ACCOUNT_ID'', ''ca_1''),
     (''COMPOSIO_TOOLKIT_VERSION_SHOPIFY'', ''20250101_00'')]"

definition probe_env :: exec_env where
  "probe_env = \<lparr>ee_now = 5, ee_hex = \<lambda>n. replicate n CHR ''0''\<rparr>"

theorem status_page_hides_secrets_witness:
  "get_integrations_status (shop_env ''sk_1'') probe_env [] admin_1 empty_db
     = get_integrations_status (shop_env ''sk_2'') probe_env [] admin_1 empty_db"
proof (rule status_page_hides_secrets)
  have "strip_or_empty (Some ''sk_1'') \<noteq> []" "strip_or_empty (Some ''sk_2'') \<noteq> []" by code_simp+
  then show "\<forall>k. falsy (shop_env ''sk_1'' k) = falsy (shop_env ''sk_2'' k)
      \<and> (strip_or_empty (shop_env ''sk_1'' k) = []) = (strip_or_empty (shop_env ''sk_2'' k) = [])"
    by (simp add: shop_env_def falsy_def)
qed (simp_all add: shop_env_def TOOLKIT_VERSION_ENV_def)

theorem status_page_shows_probe_witness:
  "\<exists>d'. run_integration_probe_job (shop_env ''sk_1'') green_vendors ''8000'' None probe_env empty_db = (Inr (), d')
     \<and> length (integration_entries (shop_env ''sk_1'') d') = 7"
proof -
  obtain d' where r: "run_integration_probe_job (shop_env ''sk_1'') green_vendors ''8000'' None probe_env empty_db = (Inr (), d')"
    by (simp add: run_integration_probe_job_def Let_def)
  have "\<forall>r \<in> set (db_probes empty_db). q_checked_at r < ee_now probe_env" by (simp add: empty_db_def)
  from status_page_shows_probe [OF r this] r show ?thesis by blast
qed

theorem reconnect_accountable_witness:
  "\<exists>j d'. initiate_reconnect (shop_env ''sk_1'') green_vendors probe_env [(''integration_key'', JStr ''shopify''),
       (''callback_url'', JStr ''https://shop'')] admin_1 empty_db = (Inr j, d') \<and> length (db_audit d') = 1"
proof -
  let ?r = "initiate_reconnect (shop_env ''sk_1'') green_vendors probe_env [(''integration_key'', JStr ''shopify''),
       (''callback_url'', JStr ''https://shop'')] admin_1 empty_db"
  have "\<not> isl (fst ?r)" by code_simp
  then obtain j d' where r: "?r = (Inr j, d')" by (metis prod.collapse sum.collapse(2))
  from reconnect_accountable [OF r] have "length (db_audit d') = 1" by (auto simp: empty_db_def)
  with r show ?thesis by blast
qed

end
