(* ===== verification/MockDrivers.thy ===== *)
theory MockDrivers
  imports Deliveries Attribution PolicyGovernance Metrics Retention ExperienceHandlers MemoryPolicy "HOL-Library.AList" "HOL-Library.Multiset"
begin

text \<open>
  The mock backend that local development and the evaluation run on: the data mocks of
  \<^verbatim>\<open>drivers/mock\<close> (identity, shopify, qbo, square, delivery, knowledge, case, sms reply), the stubs of
  \<^verbatim>\<open>admin_stubs.py\<close> and the merged registry of \<^verbatim>\<open>__init__.py\<close>.  What a handler mutates is one record; the
  injected data it only reads is an argument.  Amounts are whole numbers here, as in the fixtures.
\<close>

section \<open>Registries\<close>

text \<open>\<^verbatim>\<open>d.update(upd)\<close>, and the merge of the fragments in their order.\<close>

definition update_all :: "('k \<times> 'v) list \<Rightarrow> ('k \<times> 'v) list \<Rightarrow> ('k \<times> 'v) list" where
  "update_all d upd = fold (\<lambda>(k, v). AList.update k v) upd d"

definition merge_fragment :: "'s handler_registry \<Rightarrow> 's handler_registry \<Rightarrow> 's handler_registry" where
  "merge_fragment fragment merged =
     fold (\<lambda>(tool, actions) m.
       AList.update tool (update_all (case map_of m tool of None \<Rightarrow> [] | Some known \<Rightarrow> known) actions) m) fragment merged"

definition merge_registries :: "'s handler_registry list \<Rightarrow> 's handler_registry" where
  "merge_registries fragments = fold merge_fragment fragments []"

text \<open>The handlers of a fragment on the part of the state they close over.\<close>

definition on_part ::
  "('w \<Rightarrow> 's) \<Rightarrow> ('s \<Rightarrow> 'w \<Rightarrow> 'w) \<Rightarrow> 's handler_registry \<Rightarrow> 'w handler_registry" where
  "on_part part with_part registry = map (\<lambda>(tool, actions). (tool, map (\<lambda>(action, handler).
     (action, \<lambda>params context w. case handler params context (part w) of (r, s) \<Rightarrow> (r, with_part s w))) actions)) registry"

definition reads :: "(dict \<Rightarrow> ctx \<Rightarrow> exn + json) \<Rightarrow> dict \<Rightarrow> ctx \<Rightarrow> 's \<Rightarrow> (exn + json) \<times> 's" where
  "reads f params context s = (f params context, s)"

section \<open>admin_stubs.py\<close>

text \<open>The first text among the keys, the empty one included.\<close>

fun param_or :: "dict \<Rightarrow> string list \<Rightarrow> string \<Rightarrow> string" where
  "param_or params [] d = d"
| "param_or params (k # ks) d = (case get params k of JStr s \<Rightarrow> s | _ \<Rightarrow> param_or params ks d)"

type_synonym stub_actions = "(string \<times> (dict \<Rightarrow> json)) list"

definition SLOT_TITLES :: "(string \<times> string) list" where
  "SLOT_TITLES =
     [(''business_hours_service_boundaries'', ''Business hours and service boundaries (including after-hours limits)''),
      (''payment_payment_link_rules'', ''Payment methods and Payment Link rules''),
      (''order_delivery_guidance'', ''Order and delivery inquiry guidance''),
      (''accounting_inquiry_guidance'', ''Accounting inquiry guidance (including email-link failure handling)''),
      (''returns_exchanges_stockout'',
       ''Returns, exchanges, and stockout policy (operational interpretation layer)''),
      (''standard_exception_scripts'',
       ''Standard exception scripts (unmatched caller, ambiguous match, email link failure, urgent cases, ''
       @ ''standard non-customer inbound intake, and email support signature text)'')]"

definition policy_slots_payload :: json where
  "policy_slots_payload = JObj [(''slots'', JList (map (\<lambda>key.
     JObj [(''key'', JStr key), (''title'', JStr (the (map_of SLOT_TITLES key))), (''status'', JStr ''empty''),
           (''owner'', JNull), (''review_date'', JNull), (''content'', JStr [])]) REQUIRED_POLICY_SLOTS))]"

definition stub_integrations :: "json list" where
  "stub_integrations = map (\<lambda>(key, label, kind').
     JObj [(''key'', JStr key), (''label'', JStr label), (''kind'', JStr kind'), (''configured'', JBool False),
       (''status'', JStr ''not_configured''), (''pinned_version'', JNull), (''last_successful_call'', JNull),
       (''last_probe'', JNull), (''detail'', JStr ''Mock backend: no live integration view.'')])
     [(''shopify'', ''Shopify (Composio)'', ''composio_toolkit''),
      (''qbo'', ''QuickBooks (Composio)'', ''composio_toolkit''),
      (''square'', ''Square (Composio)'', ''composio_toolkit''),
      (''easyroutes'', ''EasyRoutes'', ''easyroutes''),
      (''simpletexting'', ''SimpleTexting'', ''simpletexting''),
      (''openrouter'', ''OpenRouter'', ''openrouter''),
      (''gadget'', ''Gadget mapping endpoint (paymentstatussync)'', ''gadget'')]"

definition workbench_read_stubs :: "stub_actions" where
  "workbench_read_stubs =
     [(''get_case'', \<lambda>params. JObj [(''case_id'', JStr (param_or params [''case_id'', ''caseId''] ''case_stub'')), (''status'', JStr ''open'')]),
      (''list_cases'', \<lambda>params. JObj [(''cases'', JList [])]),
      (''get_audit_log'', \<lambda>params. JObj [(''case_id'', JStr (param_or params [''case_id'', ''caseId''] ''case_stub'')), (''entries'', JList [])]),
      (''get_thread'', \<lambda>params. JObj [(''case_id'', JStr (param_or params [''case_id'', ''caseId''] ''case_stub'')), (''messages'', JList [])]),
      (''get_thread_by_phone'', \<lambda>params. JObj [(''case'', JNull), (''messages'', JList [])]),
      (''get_thread_by_email'', \<lambda>params. JObj [(''case'', JNull), (''messages'', JList [])]),
      (''list_auto_handled'', \<lambda>params. JObj [(''records'', JList [])]),
      (''get_auto_handled'', \<lambda>params. JObj [(''record'', JNull)]),
      (''list_sales_outreach'', \<lambda>params. JObj [(''cases'', JList [])]),
      (''get_sales_outreach'', \<lambda>params. JObj [(''case'', JNull)])]"

definition case_manage_stubs :: "stub_actions" where
  "case_manage_stubs =
     [(''claim_case'', \<lambda>params. JObj [(''case_id'', JStr (param_or params [''case_id'', ''caseId''] ''case_stub'')), (''claimed'', JBool True)]),
      (''assign_case'', \<lambda>params. JObj [(''case_id'', JStr (param_or params [''case_id'', ''caseId''] ''case_stub'')), (''assignee_id'', JStr (param_or params [''assignee_id'', ''assigneeId''] ''account_stub'')), (''assigned'', JBool True)]),
      (''update_priority'', \<lambda>params. JObj [(''case_id'', JStr (param_or params [''case_id'', ''caseId''] ''case_stub'')), (''priority'', JStr (param_or params [''priority''] ''normal'')), (''updated'', JBool True)]),
      (''update_contact_reason'', \<lambda>params. JObj [(''case_id'', JStr (param_or params [''case_id'', ''caseId''] ''case_stub'')), (''contact_reason'', JStr (param_or params [''contact_reason'', ''contactReason''] ''general'')), (''updated'', JBool True)]),
      (''resolve_case'', \<lambda>params. JObj [(''case_id'', JStr (param_or params [''case_id'', ''caseId''] ''case_stub'')), (''status'', JStr ''resolved'')]),
      (''send_sms_message'', \<lambda>params. JObj [(''message'', JObj [(''message_id'', JStr ''msg_stub''), (''conversation_id'', JStr (param_or params [''case_id'', ''caseId''] ''thread_stub'')), (''body'', JStr (param_or params [''body''] ''''))])])]"

definition copilot_draft_stubs :: "stub_actions" where
  "copilot_draft_stubs =
     [(''draft_sms'', \<lambda>params. JObj [(''channel'', JStr ''sms''), (''draft'', JStr ''[stub SMS draft]'')]),
      (''draft_email'', \<lambda>params. JObj [(''channel'', JStr ''email''), (''subject'', JStr ''[stub subject]''), (''draft'', JStr ''[stub email draft]'')]),
      (''draft_internal_note'', \<lambda>params. JObj [(''kind'', JStr ''internal_note''), (''draft'', JStr ''[stub internal note]'')])]"

definition knowledge_ops_stubs :: "stub_actions" where
  "knowledge_ops_stubs =
     [(''get_policy_slots'', \<lambda>params. policy_slots_payload),
      (''update_policy_slot'', \<lambda>params. JObj [(''slot'', JStr (param_or params [''slot''] ''slot_stub'')), (''state'', JStr ''draft''), (''updated'', JBool True)]),
      (''submit_for_eval'', \<lambda>params. JObj [(''submitted'', JBool True), (''status'', JStr ''pending_eval'')]),
      (''rollback_published_policy'', \<lambda>params. JObj [(''slot'', JStr (param_or params [''slot''] ''slot_stub'')), (''rolled_back'', JBool True)]),
      (''get_corpus_status'', \<lambda>params. JObj [(''doc_count'', JInt 0), (''chunk_count'', JInt 0), (''last_ingest_at'', JNull), (''by_type'', JList []), (''last_ingest_job'', JNull)]),
      (''enqueue_corpus_reingest'', \<lambda>params. JObj [(''job_id'', JNull), (''status'', JStr ''unavailable'')])]"

definition job_queue_stubs :: "stub_actions" where
  "job_queue_stubs =
     [(''list_dead_letters'', \<lambda>params. JObj [(''jobs'', JList []), (''outbound'', JList []), (''recent_replays'', JList [])]),
      (''replay_job'', \<lambda>params. JObj [(''job_id'', JStr (param_or params [''job_id'', ''jobId''] '''')), (''type'', JNull), (''status'', JStr ''unavailable'')])]"

definition integrations_stubs :: "stub_actions" where
  "integrations_stubs =
     [(''get_integrations_status'', \<lambda>params. JObj [(''active_driver'', JStr ''mock''), (''integrations'', JList stub_integrations)]),
      (''initiate_reconnect'', \<lambda>params. JObj [(''integration_key'', JStr (param_or params [''integration_key'', ''integrationKey''] '''')), (''redirect_url'', JNull), (''status'', JStr ''unavailable'')]),
      (''reprobe_now'', \<lambda>params. JObj [(''integration_key'', JStr (param_or params [''integration_key'', ''integrationKey''] '''')), (''status'', JStr ''unavailable''), (''reason'', JStr ''Mock backend: no live probe.'')])]"

definition eval_review_stubs :: "stub_actions" where
  "eval_review_stubs =
     [(''list_eval_runs'', \<lambda>params. JObj [(''runs'', JList [])]),
      (''get_eval_run'', \<lambda>params. JObj [(''run_id'', JStr (param_or params [''run_id'', ''runId''] ''run_stub'')), (''status'', JStr ''passed'')]),
      (''sign_off_medium_failure'', \<lambda>params. JObj [(''run_id'', JStr (param_or params [''run_id'', ''runId''] ''run_stub'')), (''signed_off'', JBool True)]),
      (''promote_pending_policy'', \<lambda>params. JObj [(''slot'', JStr (param_or params [''slot''] ''slot_stub'')), (''promoted'', JBool True), (''status'', JStr ''published'')])]"

definition workbench_admin_stubs :: "stub_actions" where
  "workbench_admin_stubs =
     [(''list_accounts'', \<lambda>params. JObj [(''accounts'', JList [])]),
      (''create_account'', \<lambda>params. JObj [(''account_id'', JStr ''account_stub''), (''created'', JBool True)]),
      (''update_account_role'', \<lambda>params. JObj [(''account_id'', JStr (param_or params [''account_id'', ''accountId''] ''account_stub'')), (''role'', JStr (param_or params [''role''] ''customer_service_rep'')), (''updated'', JBool True)]),
      (''disable_account'', \<lambda>params. JObj [(''account_id'', JStr (param_or params [''account_id'', ''accountId''] ''account_stub'')), (''disabled'', JBool True)]),
      (''authenticate'', \<lambda>params. JObj [(''account'', JObj [(''account_id'', JStr (param_or params [''username''] ''account_stub'')), (''role'', JStr ''customer_service_rep''), (''status'', JStr ''active'')])])]"

definition admin_stubs :: "(string \<times> stub_actions) list" where
  "admin_stubs =
     [(''toee_workbench_read'', workbench_read_stubs),
      (''toee_case_manage'', case_manage_stubs),
      (''toee_copilot_draft'', copilot_draft_stubs),
      (''toee_knowledge_ops'', knowledge_ops_stubs),
      (''toee_job_queue'', job_queue_stubs),
      (''toee_integrations'', integrations_stubs),
      (''toee_eval_review'', eval_review_stubs),
      (''toee_workbench_admin'', workbench_admin_stubs)]"

definition create_admin_stub_mock_handlers :: "'s handler_registry" where
  "create_admin_stub_mock_handlers =
     map (\<lambda>(tool, actions). (tool, map (\<lambda>(action, f). (action, reads (\<lambda>params context. Inr (f params)))) actions)) admin_stubs"

section \<open>identity.py\<close>

record identity_mock =
  im_phone_matches :: "(string \<times> dict) list"
  im_email_matches :: "(string \<times> dict) list"

definition match_resolved_at :: "dict \<Rightarrow> dict \<Rightarrow> json" where
  "match_resolved_at result params =
     (case get params ''resolved_at'' of
        JStr at \<Rightarrow> JObj (if at \<noteq> [] then AList.update ''resolved_at'' (JStr at) result else result)
      | _ \<Rightarrow> JObj result)"

definition mock_resolve_match :: "dict option \<Rightarrow> dict \<Rightarrow> json" where
  "mock_resolve_match record' params =
     (case record' of
        None \<Rightarrow> match_resolved_at [(''outcome'', JStr ''unmatched_caller'')] params
      | Some m \<Rightarrow> match_resolved_at m params)"

definition mock_email_link_status :: "(string \<times> string) list \<Rightarrow> dict \<Rightarrow> json" where
  "mock_email_link_status links params =
     (let status_of = (\<lambda>key. Option.bind key (map_of links)) in
      JObj [(''status'', JStr (case status_of (read_string params [''shopify_customer_id'', ''shopifyCustomerId'']) of
          Some st \<Rightarrow> st
        | None \<Rightarrow> (case status_of (read_string params [''email'']) of Some st \<Rightarrow> st | None \<Rightarrow> ''unlinked'')))])"

definition mock_link_identity :: "dict \<Rightarrow> identity_mock \<Rightarrow> (exn + json) \<times> identity_mock" where
  "mock_link_identity params s =
     (let channel = (case read_string params [''channel''] of None \<Rightarrow> ''sms'' | Some c \<Rightarrow> c);
          who = read_string params [''channel_identity'', ''phone'', ''from_phone'', ''fromPhone''];
          cid = read_string params [''shopify_customer_id'', ''shopifyCustomerId''];
          company = read_string params [''company_name'', ''companyName''] in
      case (who, cid) of
        (None, _) \<Rightarrow> (Inl (ToolDriverError Unexpected_error ''channel_identity is required.''), s)
      | (Some _, None) \<Rightarrow> (Inl (ToolDriverError Unexpected_error ''shopify_customer_id is required.''), s)
      | (Some w, Some c) \<Rightarrow>
          (let m = [(''outcome'', JStr ''verified_customer''), (''shopify_customer_id'', JStr c)]
                 @ (case company of None \<Rightarrow> [] | Some n \<Rightarrow> [(''company_name'', JStr n)]) in
           (Inr (JObj [(''outcome'', JStr ''linked''), (''channel'', JStr channel), (''channel_identity'', JStr w),
                       (''shopify_customer_id'', JStr c)]),
            if channel = ''email'' then s\<lparr>im_email_matches := AList.update w m (im_email_matches s)\<rparr>
            else s\<lparr>im_phone_matches := AList.update w m (im_phone_matches s)\<rparr>)))"

definition mock_match_phone :: "dict \<Rightarrow> identity_mock \<Rightarrow> json" where
  "mock_match_phone params s = mock_resolve_match
     (map_of (im_phone_matches s) (or_empty (read_string params [''phone'', ''from_phone'', ''fromPhone'']))) params"

definition mock_match_email :: "dict \<Rightarrow> identity_mock \<Rightarrow> json" where
  "mock_match_email params s = mock_resolve_match
     (map_of (im_email_matches s) (or_empty (read_string params [''from_address'', ''fromAddress'']))) params"

definition create_identity_mock_handlers :: "(string \<times> string) list \<Rightarrow> identity_mock handler_registry" where
  "create_identity_mock_handlers links =
     [(''toee_identity_lookup'',
       [(''match_phone'', \<lambda>params context s. (Inr (mock_match_phone params s), s)),
        (''match_email_sender'', \<lambda>params context s. (Inr (mock_match_email params s), s)),
        (''get_email_link_status'', reads (\<lambda>params context. Inr (mock_email_link_status links params))),
        (''link_identity'', \<lambda>params context s. mock_link_identity params s)])]"

definition verified_match :: dict where
  "verified_match = [(''outcome'', JStr ''verified_customer''), (''shopify_customer_id'', JStr ''gid://shopify/Customer/1001''),
     (''company_name'', JStr ''Acme Fleet'')]"

definition ambiguous_match :: dict where
  "ambiguous_match = [(''outcome'', JStr ''ambiguous_phone_match''), (''shopify_customer_ids'',
     JList [JStr ''gid://shopify/Customer/2001'', JStr ''gid://shopify/Customer/2002''])]"

definition identity_baseline_data :: identity_mock where
  "identity_baseline_data =
     \<lparr>im_phone_matches = [(''+14165550101'', verified_match), (''+14165550222'', ambiguous_match)],
      im_email_matches = [(''accounts@acme-fleet.example'', verified_match),
                          (''shared-inbox@acme-fleet.example'', ambiguous_match)]\<rparr>"

definition identity_baseline_links :: "(string \<times> string) list" where
  "identity_baseline_links = [(''gid://shopify/Customer/1001'', ''linked''), (''accounts@acme-fleet.example'', ''linked'')]"

section \<open>shopify.py\<close>

record shopify_tracking =
  st_number :: "string option"
  st_url :: "string option"
  st_company :: "string option"

record shopify_fulfillment =
  sf_state :: string
  sf_shipment_status :: "string option"
  sf_tracking :: "shopify_tracking option"

record shopify_order =
  so_order_number :: string
  so_customer_id :: string
  so_line_items :: "(string \<times> string) list"
  so_fulfillment :: "shopify_fulfillment option"

record shopify_product =
  sp_product_id :: string
  sp_sku :: string
  sp_title :: string
  sp_product_url :: string
  sp_media_url :: string
  sp_price :: "string option"
  sp_inventory :: "int option"

record shopify_mock =
  sm_orders :: "shopify_order list"
  sm_products :: "shopify_product list"

definition session_verified :: "ctx \<Rightarrow> bool" where
  "session_verified context = (case identity context of JObj d \<Rightarrow> get d ''outcome'' = JStr ''verified_customer'' | _ \<Rightarrow> False)"

definition require_verified :: "string \<Rightarrow> ctx \<Rightarrow> exn + string" where
  "require_verified message context =
     (if \<not> session_verified context then Inl (ToolDriverError Policy_blocked message)
      else case verified_customer_id (identity context) of
        Some c \<Rightarrow> Inr c
      | None \<Rightarrow> Inl (ToolDriverError Policy_blocked ''Verified customer session is missing a Shopify customer id.''))"

definition shopify_verified_customer :: "ctx \<Rightarrow> exn + string" where
  "shopify_verified_customer = require_verified ''Account-scoped Shopify read requires a verified customer.''"

definition serialize_fulfillment :: "shopify_fulfillment option \<Rightarrow> json" where
  "serialize_fulfillment fulfillment =
     (case fulfillment of
        None \<Rightarrow> JObj [(''state'', JStr ''unfulfilled''), (''shipment_status'', JNull), (''tracking'', JNull)]
      | Some f \<Rightarrow> JObj [(''state'', JStr (sf_state f)), (''shipment_status'', opt_str (sf_shipment_status f)),
          (''tracking'', case sf_tracking f of
             None \<Rightarrow> JNull
           | Some t \<Rightarrow> JObj [(''number'', opt_str (st_number t)), (''url'', opt_str (st_url t)),
                            (''company'', opt_str (st_company t))])])"

definition serialize_order :: "shopify_order \<Rightarrow> json" where
  "serialize_order order =
     JObj [(''order_number'', JStr (so_order_number order)), (''customer_id'', JStr (so_customer_id order)),
       (''line_items'', JList (map (\<lambda>(sku, title). JObj [(''sku'', JStr sku), (''title'', JStr title)])
          (so_line_items order))),
       (''fulfillment'', serialize_fulfillment (so_fulfillment order))]"

definition public_product :: "shopify_product \<Rightarrow> dict" where
  "public_product p =
     [(''product_id'', JStr (sp_product_id p)), (''sku'', JStr (sp_sku p)), (''title'', JStr (sp_title p)),
      (''product_url'', JStr (sp_product_url p)), (''media_url'', JStr (sp_media_url p)),
      (''variants'', JList [JObj [(''sku'', JStr (sp_sku p)), (''option'', JStr (sp_title p))]])]"

definition verified_product :: "shopify_product \<Rightarrow> dict" where
  "verified_product p = public_product p
     @ [(''price'', opt_str (sp_price p)), (''inventory'', case sp_inventory p of None \<Rightarrow> JNull | Some n \<Rightarrow> JInt n)]"

text \<open>\<^verbatim>\<open>x or '<missing>'\<close> on what \<^verbatim>\<open>_read_string\<close> gave.\<close>

definition or_missing :: "string option \<Rightarrow> string" where
  "or_missing s = (case s of None \<Rightarrow> ''<missing>'' | Some x \<Rightarrow> x)"

definition mock_get_order :: "shopify_mock \<Rightarrow> dict \<Rightarrow> ctx \<Rightarrow> exn + json" where
  "mock_get_order data params context =
     ebind (shopify_verified_customer context) (\<lambda>customer_id.
     let order_number = read_string params [''order_number'', ''orderNumber''] in
     case List.find (\<lambda>o'. Some (so_order_number o') = order_number \<and> so_customer_id o' = customer_id) (sm_orders data) of
       Some order \<Rightarrow> Inr (serialize_order order)
     | None \<Rightarrow> Inl (ToolDriverError Policy_blocked
         (''No order '' @ or_missing order_number @ '' owned by the verified customer.'')))"

definition mock_list_orders :: "shopify_mock \<Rightarrow> ctx \<Rightarrow> exn + json" where
  "mock_list_orders data context =
     ebind (shopify_verified_customer context) (\<lambda>customer_id.
     Inr (JList (map serialize_order (filter (\<lambda>o'. so_customer_id o' = customer_id) (sm_orders data)))))"

definition mock_search_products :: "shopify_mock \<Rightarrow> dict \<Rightarrow> json" where
  "mock_search_products data params =
     (case read_string params [''query''] of
        None \<Rightarrow> JList (map (JObj \<circ> public_product) (sm_products data))
      | Some query \<Rightarrow> JList (map (JObj \<circ> public_product) (filter (\<lambda>p. occurs_in (py_lower query) (py_lower (sp_title p))
                         \<or> occurs_in (py_lower query) (py_lower (sp_sku p))) (sm_products data))))"

definition mock_get_product :: "shopify_mock \<Rightarrow> dict \<Rightarrow> ctx \<Rightarrow> exn + json" where
  "mock_get_product data params context =
     (let product_id = read_string params [''product_id'', ''productId'']; sku = read_string params [''sku''] in
      case List.find (\<lambda>p. Some (sp_product_id p) = product_id \<or> Some (sp_sku p) = sku) (sm_products data) of
        None \<Rightarrow> Inl (ToolDriverError Unexpected_error (''Product '' @ or_missing (opt_or product_id sku) @ '' not found.''))
      | Some p \<Rightarrow> Inr (JObj (if session_verified context then verified_product p else public_product p)))"

definition create_shopify_mock_handlers :: "shopify_mock \<Rightarrow> 's handler_registry" where
  "create_shopify_mock_handlers data =
     [(''toee_shopify_read'',
       [(''get_order'', reads (mock_get_order data)),
        (''list_customer_orders'', reads (\<lambda>params. mock_list_orders data)),
        (''search_products'', reads (\<lambda>params context. Inr (mock_search_products data params))),
        (''get_product'', reads (mock_get_product data))])]"

definition shopify_baseline_data :: shopify_mock where
  "shopify_baseline_data =
     \<lparr>sm_orders = [\<lparr>so_order_number = ''1042'', so_customer_id = ''gid://shopify/Customer/1001'',
        so_line_items = [(''TIRE-225-60R16'', ''All-Season 225/60R16'')],
        so_fulfillment = Some \<lparr>sf_state = ''in_transit'', sf_shipment_status = Some ''in_transit'',
          sf_tracking = Some \<lparr>st_number = Some ''ER-1042'',
            st_url = Some ''https://api.easyroutes.app/orders/status/route-7-stop-4'', st_company = Some ''EasyRoutes''\<rparr>\<rparr>\<rparr>],
      sm_products = [\<lparr>sp_product_id = ''gid://shopify/Product/7001'', sp_sku = ''TIRE-225-60R16'',
        sp_title = ''All-Season 225/60R16'', sp_product_url = ''https://shop.toee.example/products/all-season-225-60r16'',
        sp_media_url = ''https://cdn.toee.example/products/all-season-225-60r16.jpg'', sp_price = Some ''189.99'',
        sp_inventory = Some 24\<rparr>]\<rparr>"

section \<open>qbo.py and square.py\<close>

definition qbo_owned :: "dict list \<Rightarrow> ctx \<Rightarrow> dict list" where
  "qbo_owned invoices context =
     (case verified_customer_id (identity context) of
        None \<Rightarrow> []
      | Some c \<Rightarrow> filter (\<lambda>r. get r ''shopify_customer_id'' = JStr c) invoices)"

definition mock_get_invoice :: "dict list \<Rightarrow> dict \<Rightarrow> ctx \<Rightarrow> exn + json" where
  "mock_get_invoice invoices params context =
     (let invoice_number = read_string params [''invoice_number'', ''invoiceNumber''] in
      case List.find (\<lambda>r. get r ''invoice_number'' = opt_str invoice_number) (qbo_owned invoices context) of
        Some r \<Rightarrow> Inr (JObj r)
      | None \<Rightarrow> Inl (ToolDriverError Policy_blocked
          (''No invoice '' @ or_missing invoice_number @ '' owned by the verified customer.'')))"

definition mock_ar_summary :: "'f floats \<Rightarrow> dict list \<Rightarrow> ctx \<Rightarrow> exn + json" where
  "mock_ar_summary fl invoices context =
     ar_summary fl (opt_str (verified_customer_id (identity context))) (qbo_owned invoices context)"

definition create_qbo_mock_handlers :: "'f floats \<Rightarrow> dict list \<Rightarrow> 's handler_registry" where
  "create_qbo_mock_handlers fl invoices =
     [(''toee_qbo_read'',
       [(''get_invoice'', reads (mock_get_invoice invoices)),
        (''list_customer_invoices'', reads (\<lambda>params context. Inr (JList (map JObj (qbo_owned invoices context))))),
        (''get_ar_summary'', reads (\<lambda>params. mock_ar_summary fl invoices))])]"

definition qbo_baseline_invoices :: "dict list" where
  "qbo_baseline_invoices =
     [[(''invoice_number'', JStr ''INV-9001''), (''shopify_customer_id'', JStr ''gid://shopify/Customer/1001''),
       (''customer_email'', JStr ''accounts@acme-fleet.example''), (''balance'', JInt 1250)]]"

definition qbo_baseline_links :: "(string \<times> string) list" where
  "qbo_baseline_links = [(''gid://shopify/Customer/1001'', ''linked'')]"

record square_link =
  sq_invoice_number :: string
  sq_customer_id :: string
  sq_amount :: int
  sq_url :: string

definition mock_send_payment_link :: "square_link list \<Rightarrow> dict \<Rightarrow> ctx \<Rightarrow> exn + json" where
  "mock_send_payment_link links params context =
     ebind (require_verified ''Payment link requires a verified customer.'' context) (\<lambda>customer_id.
     case read_string params [''conversation_id'', ''conversationId''] of
       None \<Rightarrow> Inl (ToolDriverError Policy_blocked ''Payment link must be sent in the current verified SMS thread.'')
     | Some conversation_id \<Rightarrow>
         (if py_strip conversation_id = []
          then Inl (ToolDriverError Policy_blocked ''Payment link must be sent in the current verified SMS thread.'')
          else if (case read_string params [''recipient''] of None \<Rightarrow> False | Some r \<Rightarrow> py_strip r \<noteq> [])
          then Inl (ToolDriverError Policy_blocked
            (''Payment link cannot be redirected to an alternate recipient; '' @ ''create a follow-up case instead.''))
          else let invoice_number = read_string params [''invoice_number'', ''invoiceNumber''] in
            case List.find (\<lambda>l. Some (sq_invoice_number l) = invoice_number \<and> sq_customer_id l = customer_id) links of
              None \<Rightarrow> Inl (ToolDriverError Policy_blocked (''No pre-created payment link for '' @ or_missing invoice_number
                 @ '' owned by the verified customer.''))
            | Some l \<Rightarrow> Inr (JObj [(''payment_link_url'', JStr (sq_url l)), (''conversation_id'', JStr conversation_id),
                                  (''amount'', JInt (sq_amount l))])))"

definition create_square_mock_handlers :: "square_link list \<Rightarrow> 's handler_registry" where
  "create_square_mock_handlers links =
     [(''toee_square_payment_link'', [(''send_payment_link'', reads (mock_send_payment_link links))])]"

definition square_baseline_data :: "square_link list" where
  "square_baseline_data = [\<lparr>sq_invoice_number = ''INV-9001'', sq_customer_id = ''gid://shopify/Customer/1001'',
     sq_amount = 1250, sq_url = ''https://pay.toee.example/square/INV-9001''\<rparr>]"

section \<open>delivery.py\<close>

record delivery_order =
  do_order_id :: string
  do_order_name :: string
  do_owner :: string
  do_delivery :: dict

record delivery_mock =
  dm_orders :: "delivery_order list"
  dm_variant_by_sku :: "(string \<times> string) list"
  dm_product_promise :: dict
  dm_quote_promise :: dict
  dm_timezone :: string
  dm_business_date :: string

definition mock_numeric_id :: "ctx \<Rightarrow> exn + string" where
  "mock_numeric_id context =
     (case verified_customer_id (identity context) of
        None \<Rightarrow> Inl dp_needs_verified
      | Some c \<Rightarrow> Inr (the (shopify_numeric_customer_id (Some c))))"

definition no_order_found :: exn where
  "no_order_found = ToolDriverError Not_found ''No order found for this customer.''"

definition mock_order_delivery :: "delivery_mock \<Rightarrow> dict \<Rightarrow> ctx \<Rightarrow> exn + json" where
  "mock_order_delivery data params context =
     ebind (mock_numeric_id context) (\<lambda>numeric_id.
     let order_ref = read_text params [''order_name'', ''order_number'', ''orderName'', ''orderNumber'', ''order_id'', ''orderId''] in
     case List.find (\<lambda>r. order_ref \<in> {Some (do_order_name r), Some (do_order_id r)}) (dm_orders data) of
       None \<Rightarrow> Inl no_order_found
     | Some r \<Rightarrow>
         (if do_owner r \<noteq> numeric_id then Inl no_order_found
          else Inr (JObj [(''order_id'', JStr (do_order_id r)), (''order_name'', JStr (do_order_name r)),
                          (''delivery'', JObj (do_delivery r))])))"

text \<open>A sku or a raw variant id, resolved to a variant of the shop.\<close>

definition resolve_variant :: "string \<Rightarrow> delivery_mock \<Rightarrow> dict \<Rightarrow> exn + string" where
  "resolve_variant needed data params =
     (case (read_text params [''sku''], read_text params [''variant_id'', ''variantId'']) of
        (Some sku, _) \<Rightarrow> (case map_of (dm_variant_by_sku data) sku of
            None \<Rightarrow> Inl (ToolDriverError Not_found ''Unknown sku.'')
          | Some v \<Rightarrow> Inr v)
      | (None, Some v) \<Rightarrow> (if v \<in> snd ` set (dm_variant_by_sku data) then Inr v
          else Inl (ToolDriverError Not_found ''Unknown variant.''))
      | (None, None) \<Rightarrow> Inl (ToolDriverError Policy_blocked needed))"

definition mock_quantity :: "dict \<Rightarrow> json" where
  "mock_quantity params = (case get params ''quantity'' of JInt n \<Rightarrow> JInt n | _ \<Rightarrow> JNull)"

definition mock_product_promise :: "delivery_mock \<Rightarrow> dict \<Rightarrow> ctx \<Rightarrow> exn + json" where
  "mock_product_promise data params context =
     ebind (mock_numeric_id context) (\<lambda>_.
     ebind (resolve_variant ''get_product_promise requires a sku.'' data params) (\<lambda>variant.
     Inr (JObj [(''variant_id'', JStr variant), (''sku'', opt_str (read_text params [''sku''])),
       (''quantity'', mock_quantity params), (''business_date'', JStr (dm_business_date data)),
       (''timezone'', JStr (dm_timezone data)), (''product_delivery_promise'', JObj (dm_product_promise data))])))"

definition is_ascii_letter :: "char \<Rightarrow> bool" where
  "is_ascii_letter c \<longleftrightarrow> (65 \<le> code c \<and> code c \<le> 90) \<or> (97 \<le> code c \<and> code c \<le> 122)"

text \<open>\<^verbatim>\<open>_CA_POSTAL\<close>; \<^verbatim>\<open>$\<close> also holds before a final newline.\<close>

definition ca_postal :: "string \<Rightarrow> bool" where
  "ca_postal s =
     (let t = (if s \<noteq> [] \<and> last s = CHR 0x0A then butlast s else s);
          shape = (\<lambda>a b c d e f. is_ascii_letter a \<and> py_isdigit b \<and> is_ascii_letter c
             \<and> py_isdigit d \<and> is_ascii_letter e \<and> py_isdigit f) in
      case t of
        [a, b, c, d, e, f] \<Rightarrow> shape a b c d e f
      | [a, b, c, sp, d, e, f] \<Rightarrow> py_isspace sp \<and> shape a b c d e f
      | _ \<Rightarrow> False)"

definition mock_delivery_quote :: "delivery_mock \<Rightarrow> dict \<Rightarrow> exn + json" where
  "mock_delivery_quote data params =
     (case read_text params [''postal_code'', ''postalCode''] of
        None \<Rightarrow> Inl (ToolDriverError Policy_blocked ''get_delivery_quote requires a postal code.'')
      | Some postal \<Rightarrow>
          (if \<not> ca_postal postal then Inl (ToolDriverError Configuration_missing ''Malformed postal code.'')
           else ebind (resolve_variant ''get_delivery_quote requires a sku.'' data params) (\<lambda>variant.
             Inr (JObj [(''postal_code'', JStr postal),
               (''fsa'', JStr (map (\<lambda>c. if 97 \<le> code c \<and> code c \<le> 122 then char_of (code c - 32) else c)
                  (take 3 (filter (\<lambda>c. c \<noteq> CHR '' '') postal)))),
               (''variant_id'', JStr variant), (''sku'', opt_str (read_text params [''sku''])),
               (''quantity'', mock_quantity params), (''product_delivery_promise'', JObj (dm_quote_promise data))]))))"

definition create_delivery_mock_handlers :: "delivery_mock \<Rightarrow> 's handler_registry" where
  "create_delivery_mock_handlers data =
     [(DELIVERY_PROMISE_TOOL,
       [(''get_order_delivery'', reads (mock_order_delivery data)),
        (''get_product_promise'', reads (mock_product_promise data)),
        (''get_delivery_quote'', reads (\<lambda>params context. mock_delivery_quote data params))])]"

text \<open>The line of the quote holds a dash outside Latin-1, an argument here.\<close>

definition delivery_baseline_data :: "string \<Rightarrow> delivery_mock" where
  "delivery_baseline_data dash =
     \<lparr>dm_orders = [\<lparr>do_order_id = ''7189924970579'', do_order_name = ''OL49597'', do_owner = ''1019382595648'',
        do_delivery = [(''status'', JStr ''out_for_delivery''), (''statusHeadline'', JStr ''Out for delivery today''),
          (''statusDetail'', JStr ''On route Oakville Local #9813.''), (''deliveredAt'', JNull),
          (''routeLabel'', JStr ''Oakville Local #9813''), (''estimatedReturnAt'', JStr ''2026-07-24T21:00:00Z''),
          (''paymentMethodLabel'', JStr ''Paid online''), (''pod'', JObj [(''photoUrls'', JList []), (''note'', JNull)]),
          (''disclaimer'', JStr ''Delivery times are estimates and may change.'')]\<rparr>],
      dm_variant_by_sku = [(''TRIM00014'', ''39379581042771'')],
      dm_product_promise = [(''status'', JStr ''address_missing''), (''deliveryTiming'', JNull),
        (''displayLine'', JStr ''Add a delivery address to see when this arrives.''),
        (''disclaimer'', JStr ''Delivery estimates need a shipping address on file.''),
        (''marketingCutoffLocal'', JNull), (''countdownSeconds'', JNull), (''orderByDeadline'', JNull),
        (''inventoryStatus'', JStr ''in_stock''), (''servingWarehouseLabel'', JNull), (''serviceZoneLabel'', JNull),
        (''extraDayReason'', JNull), (''promiseWindow'', JNull), (''confidence'', JNull),
        (''learningPhase'', JStr ''cold_start''), (''matchMode'', JNull)],
      dm_quote_promise = [(''status'', JStr ''route_unavailable''), (''deliveryTiming'', JStr ''unknown''),
        (''displayLine'', JStr (''We don'' @ [char_of (39 :: nat)] @ ''t have a same-day route to that area yet '' @ dash
          @ '' standard shipping applies.'')),
        (''disclaimer'', JStr ''Delivery availability depends on your area.''), (''marketingCutoffLocal'', JNull),
        (''countdownSeconds'', JNull), (''orderByDeadline'', JNull), (''servingWarehouseLabel'', JNull),
        (''serviceZoneLabel'', JNull)],
      dm_timezone = ''America/Toronto'', dm_business_date = ''2026-07-24''\<rparr>"

section \<open>knowledge.py, case.py and sms_reply.py\<close>

record site_entry =
  se_title :: string
  se_url :: string
  se_snippet :: string

record knowledge_mock =
  km_operational_policy :: "(string \<times> string) list"
  km_public_site :: "site_entry list"

definition mock_search_policy :: "knowledge_mock \<Rightarrow> dict \<Rightarrow> json" where
  "mock_search_policy data params =
     (let slot = opt_or (as_str (get params ''slot'')) (as_str (get params ''query''));
          content = (case slot of None \<Rightarrow> []
             | Some s \<Rightarrow> (case map_of (km_operational_policy data) s of None \<Rightarrow> [] | Some c \<Rightarrow> c)) in
      JObj [(''slot'', opt_str slot), (''content'', JStr content), (''found'', JBool (content \<noteq> []))])"

definition mock_search_site :: "knowledge_mock \<Rightarrow> dict \<Rightarrow> json" where
  "mock_search_site data params =
     (let results = (case map_option (py_lower \<circ> py_strip) (as_str (get params ''query'')) of
          None \<Rightarrow> km_public_site data
        | Some q \<Rightarrow> (if q = [] then km_public_site data
            else filter (\<lambda>e. occurs_in q (py_lower (se_title e @ '' '' @ se_snippet e))) (km_public_site data))) in
      JObj [(''results'', JList (map (\<lambda>e. JObj [(''title'', JStr (se_title e)), (''url'', JStr (se_url e)),
        (''snippet'', JStr (se_snippet e))]) results))])"

definition create_knowledge_mock_handlers :: "knowledge_mock \<Rightarrow> 's handler_registry" where
  "create_knowledge_mock_handlers data =
     [(''toee_knowledge_search'',
       [(''search_public_site'', reads (\<lambda>params context. Inr (mock_search_site data params))),
        (''search_operational_policy'', reads (\<lambda>params context. Inr (mock_search_policy data params)))])]"

definition knowledge_baseline_data :: knowledge_mock where
  "knowledge_baseline_data = \<lparr>km_operational_policy = [], km_public_site =
     [\<lparr>se_title = ''Contact & Store Hours'', se_url = ''https://www.toeetire.com/pages/contact'',
       se_snippet = ''How to reach Toee Tire support and current service hours.''\<rparr>,
      \<lparr>se_title = ''Shipping & Delivery'', se_url = ''https://www.toeetire.com/pages/shipping'',
       se_snippet = ''Overview of order delivery options and timelines.''\<rparr>]\<rparr>"

record case_mock =
  cm_case_id_prefix :: string
  cm_default_status :: string
  cm_default_urgency :: "string option"

definition optional_field :: "string \<Rightarrow> string option \<Rightarrow> dict" where
  "optional_field k v = (case v of None \<Rightarrow> [] | Some x \<Rightarrow> [(k, JStr x)])"

definition mock_create_case :: "case_mock \<Rightarrow> dict \<Rightarrow> json" where
  "mock_create_case data params =
     (let contact_reason = read_string params [''contactReason'', ''contact_reason''];
          summary = read_string params [''summary''];
          thread = read_string params [''channelThreadId'', ''channel_thread_id''];
          urgency = opt_or (read_string params [''urgency'']) (cm_default_urgency data) in
      JObj ([(''case_id'', JStr (deterministic_id (cm_case_id_prefix data) [contact_reason, summary, thread])),
             (''status'', JStr (cm_default_status data))]
        @ optional_field ''contact_reason'' contact_reason @ optional_field ''urgency'' urgency
        @ optional_field ''summary'' summary @ optional_field ''channel_thread_id'' thread))"

definition mock_update_case :: "case_mock \<Rightarrow> dict \<Rightarrow> json" where
  "mock_update_case data params =
     (let contact_reason = read_string params [''contactReason'', ''contact_reason''];
          urgency = read_string params [''urgency''];
          case_id = (case read_string params [''caseId'', ''case_id''] of Some c \<Rightarrow> c
             | None \<Rightarrow> deterministic_id (cm_case_id_prefix data) [contact_reason, urgency]) in
      JObj ([(''case_id'', JStr case_id), (''status'', JStr (cm_default_status data))]
        @ optional_field ''contact_reason'' contact_reason @ optional_field ''urgency'' urgency))"

definition create_case_mock_handlers :: "case_mock \<Rightarrow> 's handler_registry" where
  "create_case_mock_handlers data =
     [(''toee_case'', [(''create_case'', reads (\<lambda>params context. Inr (mock_create_case data params))),
                      (''update_case'', reads (\<lambda>params context. Inr (mock_update_case data params)))])]"

definition case_baseline_data :: case_mock where
  "case_baseline_data = \<lparr>cm_case_id_prefix = ''case'', cm_default_status = ''open'', cm_default_urgency = None\<rparr>"

definition create_sms_reply_mock_handlers :: "string \<Rightarrow> json list handler_registry" where
  "create_sms_reply_mock_handlers prefix =
     [(''toee_sms_reply'', [(''send_message'', \<lambda>params context outbox.
        case send_message prefix params outbox of (message, outbox') \<Rightarrow> (Inr message, outbox'))])]"

section \<open>The merged registry\<close>

record mock_world =
  mw_identity :: identity_mock
  mw_outbox :: "json list"
  mw_memory :: mem_mock
  mw_experience :: "mock_experience list"

definition easyroutes_baseline_data :: "delivery list" where
  "easyroutes_baseline_data = [\<lparr>dl_order_number = ''1042'', dl_shopify_customer_id = ''gid://shopify/Customer/1001'',
     dl_status = ''in_transit'', dl_stop_sequence = JInt 4, dl_eta_window = ''2026-01-02T14:00:00Z/2026-01-02T16:00:00Z'',
     dl_route_name = ''Route 7 - GTA West''\<rparr>]"

definition create_all_mock_handlers :: "'f floats \<Rightarrow> string \<Rightarrow> exec_env \<Rightarrow> mock_world handler_registry" where
  "create_all_mock_handlers fl dash ex = merge_registries
     [on_part mw_identity (\<lambda>s w. w\<lparr>mw_identity := s\<rparr>) (create_identity_mock_handlers identity_baseline_links),
      create_shopify_mock_handlers shopify_baseline_data,
      create_qbo_mock_handlers fl qbo_baseline_invoices,
      easyroutes_mock_handlers easyroutes_baseline_data,
      create_delivery_mock_handlers (delivery_baseline_data dash),
      create_knowledge_mock_handlers knowledge_baseline_data,
      create_case_mock_handlers case_baseline_data,
      on_part mw_memory (\<lambda>s w. w\<lparr>mw_memory := s\<rparr>) (memory_mock_handlers []),
      on_part mw_outbox (\<lambda>s w. w\<lparr>mw_outbox := s\<rparr>) (create_sms_reply_mock_handlers ''msg''),
      create_square_mock_handlers square_baseline_data,
      create_admin_stub_mock_handlers,
      on_part mw_experience (\<lambda>s w. w\<lparr>mw_experience := s\<rparr>) (mock_experience_handlers ex),
      create_metrics_mock_handlers,
      create_retention_mock_handlers]"

section \<open>Lemmas\<close>

lemma map_of_update_all: "map_of (update_all d upd) = map_of d ++ map_of (List.rev upd)"
  unfolding update_all_def
  by (induction upd arbitrary: d) (auto simp: update_conv' map_add_def fun_eq_iff map_of_append split: option.splits)

text \<open>The action names of a registry, and the catalog's.\<close>

definition actions_of :: "'s handler_registry \<Rightarrow> (string \<times> string list) list" where
  "actions_of registry = map (\<lambda>(tool, actions). (tool, map fst actions)) registry"

definition merge_names :: "(string \<times> string list) list \<Rightarrow> (string \<times> string list) list \<Rightarrow> (string \<times> string list) list" where
  "merge_names fragment merged = fold (\<lambda>(tool, names) m.
     AList.update tool (let known = (case map_of m tool of None \<Rightarrow> [] | Some k \<Rightarrow> k)
       in fold (\<lambda>n ns. if n \<in> set ns then ns else ns @ [n]) names known) m) fragment merged"

lemma update_keys: "map fst (AList.update k v d) = (if k \<in> fst ` set d then map fst d else map fst d @ [k])"
  by (induction d) auto

lemma update_all_names:
  "map fst (update_all d upd) = fold (\<lambda>n ns. if n \<in> set ns then ns else ns @ [n]) (map fst upd) (map fst d)"
  unfolding update_all_def by (induction upd arbitrary: d) (simp_all add: update_keys case_prod_unfold)

lemma map_update: "map (\<lambda>(k, v). (k, f v)) (AList.update k v d) = AList.update k (f v) (map (\<lambda>(k, v). (k, f v)) d)"
  by (induction d) auto

lemma merge_fragment_names: "actions_of (merge_fragment fragment merged) = merge_names (actions_of fragment) (actions_of merged)"
proof (induction fragment arbitrary: merged)
  case (Cons x xs)
  obtain tool actions where x: "x = (tool, actions)" by (cases x)
  have "map_of (actions_of merged) tool = map_option (map fst) (map_of merged tool)"
    unfolding actions_of_def by (induction merged) auto
  then show ?case using Cons [unfolded merge_fragment_def merge_names_def]
    by (auto simp: x merge_fragment_def merge_names_def actions_of_def map_update update_all_names Let_def split: option.splits)
qed (simp add: merge_fragment_def merge_names_def actions_of_def)

lemma merge_registries_names:
  "actions_of (merge_registries fragments) = fold merge_names (map actions_of fragments) []"
proof -
  have "actions_of (fold merge_fragment fragments m) = fold merge_names (map actions_of fragments) (actions_of m)" for m
    by (induction fragments arbitrary: m) (simp_all add: merge_fragment_names)
  from this [of "[]"] show ?thesis by (simp add: merge_registries_def) (simp add: actions_of_def)
qed

lemma on_part_names: "actions_of (on_part p q r) = actions_of r"
  by (simp add: actions_of_def on_part_def case_prod_unfold comp_def)

lemma stub_names: "actions_of create_admin_stub_mock_handlers = map (\<lambda>(tool, actions). (tool, map fst actions)) admin_stubs"
  by (simp add: actions_of_def create_admin_stub_mock_handlers_def case_prod_unfold comp_def)

lemmas fragment_names = on_part_names stub_names
  create_identity_mock_handlers_def create_shopify_mock_handlers_def create_qbo_mock_handlers_def
  easyroutes_mock_handlers_def create_delivery_mock_handlers_def create_knowledge_mock_handlers_def
  create_case_mock_handlers_def memory_mock_handlers_def create_sms_reply_mock_handlers_def
  create_square_mock_handlers_def mock_experience_handlers_def mock_experience_actions_def
  create_metrics_mock_handlers_def create_retention_mock_handlers_def
  EASYROUTES_READ_TOOL_def DELIVERY_PROMISE_TOOL_def

lemma names_of_1: "actions_of (on_part p1 u1 (create_identity_mock_handlers a1)) = [(''toee_identity_lookup'', [''match_phone'', ''match_email_sender'', ''get_email_link_status'', ''link_identity''])]"
  by (simp add: fragment_names) (simp add: actions_of_def)

lemma names_of_2: "actions_of (create_shopify_mock_handlers a2) = [(''toee_shopify_read'', [''get_order'', ''list_customer_orders'', ''search_products'', ''get_product''])]"
  by (simp add: fragment_names) (simp add: actions_of_def)

lemma names_of_3: "actions_of (create_qbo_mock_handlers fl a3) = [(''toee_qbo_read'', [''get_invoice'', ''list_customer_invoices'', ''get_ar_summary''])]"
  by (simp add: fragment_names) (simp add: actions_of_def)

lemma names_of_4: "actions_of (easyroutes_mock_handlers a4) = [(''toee_easyroutes_read'', [''get_delivery_status'', ''get_route_details''])]"
  by (simp add: fragment_names) (simp add: actions_of_def)

lemma names_of_5: "actions_of (create_delivery_mock_handlers a5) = [(''toee_delivery_promise'', [''get_order_delivery'', ''get_product_promise'', ''get_delivery_quote''])]"
  by (simp add: fragment_names) (simp add: actions_of_def)

lemma names_of_6: "actions_of (create_knowledge_mock_handlers a6) = [(''toee_knowledge_search'', [''search_public_site'', ''search_operational_policy''])]"
  by (simp add: fragment_names) (simp add: actions_of_def)

lemma names_of_7: "actions_of (create_case_mock_handlers a7) = [(''toee_case'', [''create_case'', ''update_case''])]"
  by (simp add: fragment_names) (simp add: actions_of_def)

lemma names_of_8: "actions_of (on_part p8 u8 (memory_mock_handlers a8)) = [(''toee_customer_memory'', [''upsert_preference'', ''clear_preference'', ''get_preferences'', ''get_my_memory_summary'', ''dismiss_proposal'', ''get_memory_audit''])]"
  by (simp add: fragment_names) (simp add: actions_of_def)

lemma names_of_9: "actions_of (on_part p9 u9 (create_sms_reply_mock_handlers a9)) = [(''toee_sms_reply'', [''send_message''])]"
  by (simp add: fragment_names) (simp add: actions_of_def)

lemma names_of_10: "actions_of (create_square_mock_handlers a10) = [(''toee_square_payment_link'', [''send_payment_link''])]"
  by (simp add: fragment_names) (simp add: actions_of_def)

lemma names_of_11: "actions_of (on_part p11 u11 (mock_experience_handlers a11)) = [(''toee_agent_experience'', [''propose_experience'', ''list_agent_experience'', ''confirm_experience'', ''reject_experience''])]"
  by (simp add: fragment_names) (simp add: actions_of_def)

lemma names_of_12: "actions_of (create_metrics_mock_handlers) = [(''toee_metrics'', [''get_aggregate_metrics''])]"
  by (simp add: fragment_names) (simp add: actions_of_def)

lemma names_of_13: "actions_of (create_retention_mock_handlers) = [(''toee_retention'', [''trigger_retention_sweep'', ''enqueue_retention_sweep'', ''get_retention_status''])]"
  by (simp add: fragment_names) (simp add: actions_of_def)

lemmas names_of = names_of_1 names_of_2 names_of_3 names_of_4 names_of_5 names_of_6 names_of_7 names_of_8 names_of_9 names_of_10 names_of_11 names_of_12 names_of_13

text \<open>The names in the order of the merge.\<close>

definition names_merged :: "(string \<times> string list) list list" where
  "names_merged = [
     [(''toee_identity_lookup'', [''match_phone'', ''match_email_sender'', ''get_email_link_status'', ''link_identity''])],
     [(''toee_shopify_read'', [''get_order'', ''list_customer_orders'', ''search_products'', ''get_product''])],
     [(''toee_qbo_read'', [''get_invoice'', ''list_customer_invoices'', ''get_ar_summary''])],
     [(''toee_easyroutes_read'', [''get_delivery_status'', ''get_route_details''])],
     [(''toee_delivery_promise'', [''get_order_delivery'', ''get_product_promise'', ''get_delivery_quote''])],
     [(''toee_knowledge_search'', [''search_public_site'', ''search_operational_policy''])],
     [(''toee_case'', [''create_case'', ''update_case''])],
     [(''toee_customer_memory'', [''upsert_preference'', ''clear_preference'', ''get_preferences'', ''get_my_memory_summary'', ''dismiss_proposal'', ''get_memory_audit''])],
     [(''toee_sms_reply'', [''send_message''])],
     [(''toee_square_payment_link'', [''send_payment_link''])],
     map (\<lambda>(tool, actions). (tool, map fst actions)) admin_stubs,
     [(''toee_agent_experience'', [''propose_experience'', ''list_agent_experience'', ''confirm_experience'', ''reject_experience''])],
     [(''toee_metrics'', [''get_aggregate_metrics''])],
     [(''toee_retention'', [''trigger_retention_sweep'', ''enqueue_retention_sweep'', ''get_retention_status''])]]"

lemma all_names: "actions_of (create_all_mock_handlers fl dash ex) = fold merge_names names_merged []"
  by (simp only: create_all_mock_handlers_def names_merged_def) (simp only: merge_registries_names list.map names_of stub_names)

lemma merge_step: "tool \<notin> fst ` set m \<Longrightarrow> distinct names \<Longrightarrow> merge_names [(tool, names)] m = m @ [(tool, names)]"
proof -
  assume t: "tool \<notin> fst ` set m" and d: "distinct names"
  have "fold (\<lambda>n ns. if n \<in> set ns then ns else ns @ [n]) xs ys = ys @ xs" if "distinct (ys @ xs)" for xs ys :: "string list"
    using that by (induction xs arbitrary: ys) auto
  from this [of "[]" names] d
  have "fold (\<lambda>n ns. if n \<in> set ns then ns else ns @ [n]) names [] = names" by simp
  moreover from t have "map_of m tool = None" by (simp add: map_of_eq_None_iff)
  moreover from t have "AList.update tool names m = m @ [(tool, names)]" by (induction m) auto
  ultimately show ?thesis by (simp add: merge_names_def)
qed

lemma merge_names_append:
  "distinct (map fst (m @ fragment)) \<Longrightarrow> list_all (\<lambda>(t, ns). distinct ns) fragment \<Longrightarrow> merge_names fragment m = m @ fragment"
proof (induction fragment arbitrary: m)
  case (Cons x xs)
  obtain tool names where x: "x = (tool, names)" by (cases x)
  with Cons.prems have "merge_names [x] m = m @ [x]" by (auto simp: merge_step)
  moreover have "merge_names (x # xs) m = merge_names xs (merge_names [x] m)" by (simp add: merge_names_def)
  moreover from Cons have "merge_names xs (m @ [x]) = (m @ [x]) @ xs" by (auto simp: x)
  ultimately show ?case by simp
qed (simp add: merge_names_def)

lemma fold_merge_names:
  "distinct (map fst (m @ concat fragments)) \<Longrightarrow> list_all (\<lambda>(t, ns). distinct ns) (concat fragments)
   \<Longrightarrow> fold merge_names fragments m = m @ concat fragments"
proof (induction fragments arbitrary: m)
  case (Cons f fs)
  then have "merge_names f m = m @ f" by (intro merge_names_append) auto
  moreover from Cons have "fold merge_names fs (m @ f) = (m @ f) @ concat fs" by (intro Cons.IH) auto
  ultimately show ?case by simp
qed simp

lemma names_mset: "mset (concat names_merged) = mset TOOL_CATALOG"
  by (simp add: names_merged_def TOOL_CATALOG_def admin_stubs_def workbench_read_stubs_def case_manage_stubs_def
      copilot_draft_stubs_def knowledge_ops_stubs_def job_queue_stubs_def integrations_stubs_def eval_review_stubs_def
      workbench_admin_stubs_def)

lemma all_names_catalog: "map_of (actions_of (create_all_mock_handlers fl dash ex)) = map_of TOOL_CATALOG"
proof -
  have "mset (map fst (concat names_merged)) = mset (map fst TOOL_CATALOG)" using names_mset by (metis mset_map)
  then have d: "distinct (map fst (concat names_merged))" using catalog_distinct by (metis mset_eq_imp_distinct_iff)
  have s: "set (concat names_merged) = set TOOL_CATALOG" using names_mset by (metis set_mset_mset)
  then have "list_all (\<lambda>(t, ns). distinct ns) (concat names_merged)"
    using catalog_actions_distinct unfolding list_all_iff by simp
  with d fold_merge_names [of "[]" names_merged] have "fold merge_names names_merged [] = concat names_merged" by simp
  with d s show ?thesis by (simp add: all_names map_of_inject_set catalog_distinct)
qed

lemma registered_names: "map_of (actions_of registry) tool = map_option (map fst) (map_of registry tool)"
  unfolding actions_of_def by (induction registry) auto


section \<open>Properties\<close>

text \<open>The mock backend serves the catalog and nothing else: a tool and an action have a handler
  exactly when the catalog lists them, whatever data the mocks are built on.\<close>

theorem mock_serves_catalog:
  "(\<exists>actions handler. map_of (create_all_mock_handlers fl dash ex) tool = Some actions \<and> map_of actions action = Some handler)
     = is_tool_action tool action"
proof (cases "map_of (create_all_mock_handlers fl dash ex) tool")
  case None
  then have "map_of (actions_of (create_all_mock_handlers fl dash ex)) tool = None" by (simp add: registered_names)
  with None show ?thesis by (simp add: all_names_catalog is_tool_action_def)
next
  case (Some actions)
  then have "map_of TOOL_CATALOG tool = Some (map fst actions)"
    using registered_names [of "create_all_mock_handlers fl dash ex" tool] by (simp add: all_names_catalog)
  moreover have "(\<exists>handler. map_of actions action = Some handler) = (action \<in> fst ` set actions)"
    by (metis map_of_eq_None_iff not_None_eq)
  ultimately show ?thesis using Some by (simp add: is_tool_action_def)
qed

lemma find_Some_filter: "List.find P xs = Some x \<Longrightarrow> x \<in> set xs \<and> P x"
  by (induction xs) (auto split: if_splits)

lemma require_verified_cases:
  "require_verified m context = (case verified_customer_id (identity context) of
     Some c \<Rightarrow> Inr c
   | None \<Rightarrow> Inl (ToolDriverError Policy_blocked (if session_verified context
       then ''Verified customer session is missing a Shopify customer id.'' else m)))"
  by (auto simp: require_verified_def session_verified_def verified_customer_id_def split: json.splits if_splits option.splits)

text \<open>The answer of a call, refused by policy or about a record of its owner.\<close>

definition own_or_refused :: "'r set \<Rightarrow> ('r \<Rightarrow> json \<Rightarrow> bool) \<Rightarrow> exn + json \<Rightarrow> bool" where
  "own_or_refused own shows' answer \<longleftrightarrow> (case answer of Inl e \<Rightarrow> True | Inr j \<Rightarrow> (\<exists>r \<in> own. shows' r j))"

definition policy_refusal :: "exn + json \<Rightarrow> bool" where
  "policy_refusal answer \<longleftrightarrow> (\<exists>m. answer = Inl (ToolDriverError Policy_blocked m))"

text \<open>The customer a session identity verifies, and a record keyed by the number of a customer's gid.\<close>

definition session_customer :: "ctx \<Rightarrow> string option" where
  "session_customer context =
     (case identity context of
        JObj d \<Rightarrow> (case (get d ''outcome'', get d ''shopify_customer_id'') of
            (JStr kind', JStr c) \<Rightarrow> if kind' = ''verified_customer'' \<and> c \<noteq> [] then Some c else None
          | _ \<Rightarrow> None)
      | _ \<Rightarrow> None)"

lemma verified_is_session: "verified_customer_id (identity context) = session_customer context"
  by (auto simp: verified_customer_id_def session_customer_def split: json.splits)

lemma mock_er_session:
  "mock_er_customer_id context = (case session_customer context of
     Some c \<Rightarrow> Inr c
   | None \<Rightarrow> (case identity context of JNull \<Rightarrow> Inl er_needs_verified | JObj d \<Rightarrow> Inl er_needs_verified | ident \<Rightarrow> ebind (need_obj ident) (\<lambda>_. Inl er_needs_verified)))"
  by (auto simp: mock_er_customer_id_def session_customer_def need_obj_def exn_simps split: json.splits)

lemma mock_find_owned_Inr: "mock_find_owned ds c n = Inr d \<Longrightarrow> d \<in> set ds \<and> dl_shopify_customer_id d = c"
  by (induction ds) (auto split: if_splits)

lemma numeric_owner: "owner = the (shopify_numeric_customer_id (Some c)) \<Longrightarrow> c \<noteq> [] \<Longrightarrow> c \<in> {owner, ''gid://shopify/Customer/'' @ owner}"
  by (auto simp: shopify_numeric_customer_id_def falsy_def GID_CUSTOMER_def starts_with_iff split: if_splits)

text \<open>C32.  The account reads of the mocks (Shopify orders, QuickBooks invoices and their sum, Square links, the
  delivery-promise store and EasyRoutes) answer with records of the verified customer of the call and
  with no other's, on every data set, and refuse every caller without one by policy, or list and sum nothing; EasyRoutes
  raises on an identity that is no dict.\<close>

theorem mock_discloses_own:
  "case session_customer context of
     None \<Rightarrow> policy_refusal (mock_get_order data params context) \<and> policy_refusal (mock_list_orders data context)
       \<and> policy_refusal (mock_get_invoice invoices params context) \<and> qbo_owned invoices context = []
       \<and> mock_ar_summary fl invoices context = ar_summary fl JNull []
       \<and> policy_refusal (mock_send_payment_link links params context) \<and> policy_refusal (mock_order_delivery dm params context)
       \<and> (let answer = fst (mock_delivery_lookup deliveries shape params context s) in
          (case identity context of JNull \<Rightarrow> policy_refusal answer | JObj d \<Rightarrow> policy_refusal answer | _ \<Rightarrow> isl answer))
   | Some c \<Rightarrow> own_or_refused {r \<in> set (sm_orders data). so_customer_id r = c} (\<lambda>r j. j = serialize_order r)
         (mock_get_order data params context)
       \<and> mock_list_orders data context
           = Inr (JList (map serialize_order (filter (\<lambda>r. so_customer_id r = c) (sm_orders data))))
       \<and> own_or_refused {r \<in> set invoices. get r ''shopify_customer_id'' = JStr c} (\<lambda>r j. j = JObj r)
           (mock_get_invoice invoices params context)
       \<and> qbo_owned invoices context = filter (\<lambda>r. get r ''shopify_customer_id'' = JStr c) invoices
       \<and> mock_ar_summary fl invoices context
           = ar_summary fl (JStr c) (filter (\<lambda>r. get r ''shopify_customer_id'' = JStr c) invoices)
       \<and> own_or_refused {r \<in> set links. sq_customer_id r = c}
           (\<lambda>r j. \<exists>conv. j = JObj [(''payment_link_url'', JStr (sq_url r)), (''conversation_id'', JStr conv),
                                  (''amount'', JInt (sq_amount r))])
           (mock_send_payment_link links params context)
       \<and> own_or_refused {r \<in> set (dm_orders dm). c \<in> {do_owner r, ''gid://shopify/Customer/'' @ do_owner r}}
           (\<lambda>r j. j = JObj [(''order_id'', JStr (do_order_id r)), (''order_name'', JStr (do_order_name r)),
                           (''delivery'', JObj (do_delivery r))])
           (mock_order_delivery dm params context)
       \<and> own_or_refused {d \<in> set deliveries. dl_shopify_customer_id d = c} (\<lambda>d j. j = shape d)
           (fst (mock_delivery_lookup deliveries shape params context s))"
proof (cases "session_customer context")
  case None
  then have "let answer = fst (mock_delivery_lookup deliveries shape params context s) in
      (case identity context of JNull \<Rightarrow> policy_refusal answer | JObj d \<Rightarrow> policy_refusal answer | _ \<Rightarrow> isl answer)"
    by (auto simp: mock_delivery_lookup_def mock_er_session er_needs_verified_def policy_refusal_def need_obj_def exn_simps Let_def
        split: json.splits)
  with None show ?thesis
    by (simp add: policy_refusal_def mock_get_order_def mock_list_orders_def mock_get_invoice_def qbo_owned_def
        mock_send_payment_link_def mock_order_delivery_def mock_numeric_id_def dp_needs_verified_def mock_ar_summary_def
        shopify_verified_customer_def require_verified_cases verified_is_session opt_str_def exn_simps Let_def)
next
  case (Some c)
  note v = verified_is_session Some
  from Some have c: "c \<noteq> []" by (auto simp: session_customer_def split: json.splits if_splits)
  have o1: "own_or_refused {r \<in> set (sm_orders data). so_customer_id r = c} (\<lambda>r j. j = serialize_order r)
      (mock_get_order data params context)"
    by (auto simp: own_or_refused_def mock_get_order_def shopify_verified_customer_def require_verified_cases v
        exn_simps Let_def split: option.splits dest: find_Some_filter)
  have o2: "own_or_refused {r \<in> set invoices. get r ''shopify_customer_id'' = JStr c} (\<lambda>r j. j = JObj r)
      (mock_get_invoice invoices params context)"
    by (auto simp: own_or_refused_def mock_get_invoice_def qbo_owned_def v Let_def split: option.splits dest: find_Some_filter)
  have o3: "own_or_refused {r \<in> set links. sq_customer_id r = c}
      (\<lambda>r j. \<exists>conv. j = JObj [(''payment_link_url'', JStr (sq_url r)), (''conversation_id'', JStr conv),
         (''amount'', JInt (sq_amount r))]) (mock_send_payment_link links params context)"
    by (auto simp: own_or_refused_def mock_send_payment_link_def require_verified_cases v exn_simps Let_def
        split: option.splits dest: find_Some_filter)
  have o4: "own_or_refused {r \<in> set (dm_orders dm). c \<in> {do_owner r, ''gid://shopify/Customer/'' @ do_owner r}}
      (\<lambda>r j. j = JObj [(''order_id'', JStr (do_order_id r)), (''order_name'', JStr (do_order_name r)),
         (''delivery'', JObj (do_delivery r))]) (mock_order_delivery dm params context)"
    using numeric_owner [of _ c, OF _ c]
    by (fastforce simp: own_or_refused_def mock_order_delivery_def mock_numeric_id_def v exn_simps Let_def
        split: option.splits dest: find_Some_filter)
  have o5: "own_or_refused {d \<in> set deliveries. dl_shopify_customer_id d = c} (\<lambda>d j. j = shape d)
      (fst (mock_delivery_lookup deliveries shape params context s))"
    by (auto simp: own_or_refused_def mock_delivery_lookup_def mock_er_session Some ebind_def
        split: sum.splits dest: mock_find_owned_Inr)
  from o1 o2 o3 o4 o5 show ?thesis
    by (simp add: v mock_list_orders_def shopify_verified_customer_def require_verified_cases exn_simps qbo_owned_def
        mock_ar_summary_def opt_str_def)
qed

lemma price_shown_iff_verified:
  assumes "mock_get_product data params context = Inr (JObj d)"
  shows "''price'' \<in> fst ` set d \<longleftrightarrow> session_verified context"
  using assms by (auto simp: mock_get_product_def Let_def public_product_def verified_product_def split: option.splits if_splits)

lemma get_update: "get (AList.update k v d) k' = (if k = k' then v else get d k')"
  by (simp add: get_def get_or_def update_conv')

text \<open>On the mock a link is found by the next match and the last link wins, also over another
  customer linked to the same number before; on Postgres such a number is ambiguous.\<close>

theorem mock_link_then_match:
  assumes "mock_link_identity params s = (Inr j, s')" and "read_string params [''channel''] \<noteq> Some ''email''"
    and "read_string q [''phone'', ''from_phone'', ''fromPhone'']
       = read_string params [''channel_identity'', ''phone'', ''from_phone'', ''fromPhone'']"
  shows "\<exists>d c. mock_match_phone q s' = JObj d \<and> get d ''outcome'' = JStr ''verified_customer''
     \<and> read_string params [''shopify_customer_id'', ''shopifyCustomerId''] = Some c \<and> get d ''shopify_customer_id'' = JStr c
     \<and> im_email_matches s' = im_email_matches s"
proof -
  from assms(1) obtain w c where
      w: "read_string params [''channel_identity'', ''phone'', ''from_phone'', ''fromPhone''] = Some w"
    and c: "read_string params [''shopify_customer_id'', ''shopifyCustomerId''] = Some c"
    by (auto simp: mock_link_identity_def Let_def split: option.splits)
  define m where "m = [(''outcome'', JStr ''verified_customer''), (''shopify_customer_id'', JStr c)]
      @ (case read_string params [''company_name'', ''companyName''] of None \<Rightarrow> [] | Some n \<Rightarrow> [(''company_name'', JStr n)])"
  from assms(1, 2) have s': "s' = s\<lparr>im_phone_matches := AList.update w m (im_phone_matches s)\<rparr>"
    unfolding mock_link_identity_def Let_def w c option.case prod.case m_def
    by (auto split: option.splits if_splits)
  have m: "get m ''outcome'' = JStr ''verified_customer''" "get m ''shopify_customer_id'' = JStr c"
    by (simp_all add: m_def dict_simps)
  have "mock_match_phone q s' = match_resolved_at m q"
    using w assms(3) by (simp add: mock_match_phone_def mock_resolve_match_def s' or_empty_def update_conv')
  moreover have "\<exists>d. match_resolved_at m q = JObj d \<and> (d = m \<or> (\<exists>at. d = AList.update ''resolved_at'' at m))"
    by (cases "get q ''resolved_at''") (auto simp: match_resolved_at_def)
  then obtain d where "match_resolved_at m q = JObj d" "d = m \<or> (\<exists>at. d = AList.update ''resolved_at'' at m)" by blast
  ultimately show ?thesis using m c by (auto simp: s' get_update)
qed

theorem mock_link_then_match_witness:
  "\<exists>d c. mock_match_phone [(''phone'', JStr ''+14165550101'')]
       (snd (mock_link_identity [(''phone'', JStr ''+14165550101''), (''shopify_customer_id'', JStr ''c2'')] identity_baseline_data))
     = JObj d \<and> get d ''shopify_customer_id'' = JStr c"
proof -
  let ?p = "[(''phone'', JStr ''+14165550101''), (''shopify_customer_id'', JStr ''c2'')]"
  obtain j s' where r: "mock_link_identity ?p identity_baseline_data = (Inr j, s')"
    by (simp add: mock_link_identity_def dict_simps Let_def)
  from mock_link_then_match [OF r, of "[(''phone'', JStr ''+14165550101'')]"] show ?thesis
    by (auto simp: r dict_simps)
qed

lemma case_ids_collide:
  "deterministic_id prefix [Some ''a|b'', None, Some ''c''] = deterministic_id prefix [Some ''a'', Some ''b'', Some ''|c'']"
  by (simp add: deterministic_id_def)

end
