(* ===== verification/Fixtures.thy ===== *)
theory Fixtures
  imports MockDrivers Transcript "HOL-Library.List_Lexorder" "HOL-Library.Char_ord"
begin

text \<open>
  The fixtures of the launch evaluation, \<^verbatim>\<open>eval_runner/fixtures.py\<close> with the shapes of \<^verbatim>\<open>types.py\<close>: reading
  and validating a scenario file, merging the baseline with the identity preset and the overrides, and choosing the
  scenarios of a run.  \<open>yaml\<close> is \<^verbatim>\<open>yaml.safe_load\<close>, its error a text; the keys of a YAML mapping are texts and its
  numbers whole.  A directory is the list of its files, in the order it is read.
\<close>

section \<open>Shapes\<close>

type_synonym yaml = "string \<Rightarrow> string + json"

definition SUITE_VALUES :: "string list" where
  "SUITE_VALUES = [''text_first_launch'', ''email_go_live'', ''policy_publish'']"

datatype inbound = Sms string | Email string "string option"

record scenario_assertions =
  sa_max_severity :: string
  sa_behavioral :: json
  sa_tool :: json
  sa_disclosure :: json
  sa_text :: json
  sa_memory :: json

record scenario_fixture =
  fx_scenario_id :: string
  fx_title :: string
  fx_suite :: string
  fx_channel :: string
  fx_identity_preset :: string
  fx_turns :: "inbound list"
  fx_mock_overrides :: dict
  fx_assertions :: scenario_assertions
  fx_memory_preset :: "dict option"

record mock_context =
  mc_identity_links :: "(string \<times> string) list"
  mc_shopify :: shopify_mock
  mc_qbo_links :: "(string \<times> string) list"
  mc_policy :: "(string \<times> string) list"
  mc_preferences :: dict
  mc_domain_errors :: "(string \<times> string) list"

record scenario =
  sc_scenario_id :: string
  sc_title :: string
  sc_suite :: string
  sc_channel :: string
  sc_identity_preset :: string
  sc_session_identity :: dict
  sc_turns :: "inbound list"
  sc_assertions :: scenario_assertions
  sc_mock_context :: mock_context
  sc_source_file :: string
  sc_memory_preset :: "dict option"

record eval_dir =
  ed_path :: string
  ed_base :: "string option"
  ed_slot_map :: "string option"
  ed_scenarios :: "(string \<times> string) list option"
  ed_email :: "(string \<times> string) list option"

section \<open>Reading\<close>

definition value_error :: "string \<Rightarrow> exn" where
  "value_error message = PyError ''ValueError'' message"

definition scenario_fail :: "string \<Rightarrow> string \<Rightarrow> exn" where
  "scenario_fail label message = value_error (''Scenario '' @ label @ '': '' @ message)"

text \<open>\<^verbatim>\<open>int(s)\<close> of a text, which may have blanks around the digits.\<close>

definition text_number :: "string \<Rightarrow> int option" where
  "text_number s = py_int (py_strip s)"

definition need_number :: "string \<Rightarrow> exn + int" where
  "need_number s = (case text_number s of Some n \<Rightarrow> Inr n
    | None \<Rightarrow> Inl (value_error (''invalid literal for int() with base 10: '' @ repr_str s)))"

definition dquoted :: "string \<Rightarrow> string" where
  "dquoted s = [char_of (34 :: nat)] @ s @ [char_of (34 :: nat)]"

definition load_base_mocks :: "yaml \<Rightarrow> eval_dir \<Rightarrow> exn + dict" where
  "load_base_mocks yaml dir =
     (let path = ed_path dir @ ''/mocks/base.yaml'' in
      case ed_base dir of
        None \<Rightarrow> Inl (value_error (''Eval base mocks not found at '' @ path @ ''.''))
      | Some content \<Rightarrow>
          (case yaml content of
             Inl err \<Rightarrow> Inl (value_error (''Failed to parse '' @ path @ '': '' @ err))
           | Inr (JObj raw) \<Rightarrow>
               (case get raw ''identities'' of
                  JObj identities \<Rightarrow> Inr identities
                | _ \<Rightarrow> Inl (value_error (''Eval base mocks at '' @ path @ '' must define '' @ dquoted ''identities'' @ ''.'')))
           | Inr _ \<Rightarrow> Inl (value_error (''Eval base mocks at '' @ path @ '' must define '' @ dquoted ''identities'' @ ''.''))))"

definition last_segment :: "string \<Rightarrow> string" where
  "last_segment label = List.rev (takeWhile (\<lambda>c. c \<noteq> CHR ''/'' \<and> c \<noteq> char_of (92 :: nat)) (List.rev label))"

definition require_string :: "dict \<Rightarrow> string \<Rightarrow> string \<Rightarrow> exn + string" where
  "require_string raw field label =
     (case get raw field of
        JStr v \<Rightarrow> (if v = [] then Inl (scenario_fail label (''missing required '' @ dquoted field @ ''.'')) else Inr v)
      | _ \<Rightarrow> Inl (scenario_fail label (''missing required '' @ dquoted field @ ''.'')))"

definition validate_turn :: "string \<Rightarrow> nat \<times> json \<Rightarrow> exn + inbound" where
  "validate_turn label entry =
     (case entry of (index, turn) \<Rightarrow>
      let undefined' = scenario_fail label (''turn '' @ show_nat index @ '' must define '' @ dquoted ''inbound'' @ ''.'');
          malformed = scenario_fail label (''turn '' @ show_nat index @ '' '' @ dquoted ''inbound''
            @ '' must be a string or { body }.'') in
      case turn of
        JObj t \<Rightarrow>
          (if ''inbound'' \<notin> fst ` set t then Inl undefined'
           else case get t ''inbound'' of
             JStr s \<Rightarrow> Inr (Sms s)
           | JObj i \<Rightarrow> (case get i ''body'' of
                JStr body \<Rightarrow> Inr (Email body (as_str (get i ''subject'')))
              | _ \<Rightarrow> Inl malformed)
           | _ \<Rightarrow> Inl malformed)
      | _ \<Rightarrow> Inl undefined')"

definition validate_turns :: "json \<Rightarrow> string \<Rightarrow> exn + inbound list" where
  "validate_turns raw label =
     (case raw of
        JList (t # ts) \<Rightarrow> map_exn (validate_turn label) (enumerate 0 (t # ts))
      | _ \<Rightarrow> Inl (scenario_fail label (dquoted ''turns'' @ '' must be a non-empty list.'')))"

definition validate_assertions :: "json \<Rightarrow> string \<Rightarrow> exn + scenario_assertions" where
  "validate_assertions raw label =
     (case raw of
        JObj d \<Rightarrow>
          (case get d ''max_severity'' of
             JStr severity \<Rightarrow>
               (if severity \<in> {''high'', ''medium''}
                then Inr \<lparr>sa_max_severity = severity, sa_behavioral = get d ''behavioral'', sa_tool = get d ''tool'',
                  sa_disclosure = get d ''disclosure'', sa_text = get d ''text'', sa_memory = get d ''memory_assertions''\<rparr>
                else Inl (scenario_fail label (dquoted ''assertions.max_severity'' @ '' must be '' @ dquoted ''high''
                  @ '' or '' @ dquoted ''medium'' @ ''.'')))
           | _ \<Rightarrow> Inl (scenario_fail label (dquoted ''assertions.max_severity'' @ '' must be '' @ dquoted ''high''
                  @ '' or '' @ dquoted ''medium'' @ ''.'')))
      | _ \<Rightarrow> Inl (scenario_fail label (dquoted ''assertions'' @ '' must be an object.'')))"

text \<open>The numeric prefix of the file name must be the scenario id, as numbers.\<close>

definition check_prefix :: "string \<Rightarrow> string \<Rightarrow> exn + unit" where
  "check_prefix label scenario_id =
     (let prefix = takeWhile py_isdigit (last_segment label) in
      guard (prefix = [] \<or> (text_number scenario_id \<noteq> None \<and> text_number prefix = text_number scenario_id))
        (scenario_fail label (''scenario_id '' @ dquoted scenario_id @ '' does not match filename numeric prefix ''
          @ dquoted prefix @ ''.'')))"

definition parse_scenario_content :: "yaml \<Rightarrow> string \<Rightarrow> string \<Rightarrow> exn + scenario_fixture" where
  "parse_scenario_content yaml content label =
     (case yaml content of
        Inl err \<Rightarrow> Inl (value_error (''Failed to parse '' @ label @ '': '' @ err))
      | Inr (JObj raw) \<Rightarrow>
          ebind (require_string raw ''scenario_id'' label) (\<lambda>scenario_id.
          ebind (check_prefix label scenario_id) (\<lambda>_.
          ebind (require_string raw ''suite'' label) (\<lambda>suite.
          ebind (guard (suite \<in> set SUITE_VALUES) (scenario_fail label (''unknown suite '' @ dquoted suite @ ''.''))) (\<lambda>_.
          ebind (guard (get raw ''memory_preset'' = JNull \<or> is_obj (get raw ''memory_preset''))
            (scenario_fail label (dquoted ''memory_preset'' @ '' must be an object when present.''))) (\<lambda>_.
          ebind (case or_else (get raw ''mock_overrides'') (JObj []) of
              JObj overrides \<Rightarrow> Inr overrides
            | _ \<Rightarrow> Inl (scenario_fail label (dquoted ''mock_overrides'' @ '' must be an object.''))) (\<lambda>overrides.
          ebind (require_string raw ''title'' label) (\<lambda>title.
          ebind (require_string raw ''channel'' label) (\<lambda>channel.
          ebind (require_string raw ''identity_preset'' label) (\<lambda>preset.
          ebind (validate_turns (get raw ''turns'') label) (\<lambda>turns.
          ebind (validate_assertions (get raw ''assertions'') label) (\<lambda>assertions.
          Inr \<lparr>fx_scenario_id = scenario_id, fx_title = title, fx_suite = suite, fx_channel = channel,
               fx_identity_preset = preset, fx_turns = turns, fx_mock_overrides = overrides,
               fx_assertions = assertions, fx_memory_preset = as_obj (get raw ''memory_preset'')\<rparr>)))))))))))
      | Inr _ \<Rightarrow> Inl (scenario_fail label ''file is not a YAML mapping.''))"

section \<open>Merging\<close>

definition RESOLVED_AT :: string where "RESOLVED_AT = ''2026-01-01T00:00:00.000Z''"

definition build_session_identity :: "dict \<Rightarrow> dict" where
  "build_session_identity preset =
     (case get preset ''shopify_customer_id'' of
        JStr c \<Rightarrow> [(''outcome'', JStr ''verified_customer''), (''shopify_customer_id'', JStr c), (''resolved_at'', JStr RESOLVED_AT)]
      | _ \<Rightarrow>
          (case get preset ''shopify_customer_ids'' of
             JList (i # ids) \<Rightarrow> [(''outcome'', JStr ''ambiguous_phone_match''), (''shopify_customer_ids'', JList (i # ids)),
                                (''resolved_at'', JStr RESOLVED_AT)]
           | _ \<Rightarrow> [(''outcome'', JStr ''unmatched_caller''), (''resolved_at'', JStr RESOLVED_AT)]))"

definition normalize_email_link :: "json \<Rightarrow> string" where
  "normalize_email_link v = (if v = JStr ''linked'' then ''linked'' else ''unlinked'')"

text \<open>\<^verbatim>\<open>links[key] = status\<close>; a key that is no text is never looked up, and one without a hash raises.\<close>

definition set_link :: "json \<Rightarrow> string \<Rightarrow> (string \<times> string) list \<Rightarrow> exn + (string \<times> string) list" where
  "set_link key status links =
     (case key of
        JStr k \<Rightarrow> Inr (AList.update k status links)
      | JList _ \<Rightarrow> Inl (PyError ''TypeError'' (''unhashable type: '' @ in_quotes ''list''))
      | JObj _ \<Rightarrow> Inl (PyError ''TypeError'' (''unhashable type: '' @ in_quotes ''dict''))
      | _ \<Rightarrow> Inr links)"

fun apply_email_links ::
  "dict \<Rightarrow> dict \<Rightarrow> (string \<times> string) list \<times> (string \<times> string) list
     \<Rightarrow> exn + (string \<times> string) list \<times> (string \<times> string) list" where
  "apply_email_links identities [] links = Inr links"
| "apply_email_links identities ((preset_key, raw_status) # overrides) (qbo, ident) =
     (let preset = get identities preset_key in
      if \<not> truthy preset then apply_email_links identities overrides (qbo, ident)
      else ebind (need_obj preset) (\<lambda>p.
        if get p ''shopify_customer_id'' = JNull then apply_email_links identities overrides (qbo, ident)
        else let status = normalize_email_link raw_status in
          ebind (set_link (get p ''shopify_customer_id'') status qbo) (\<lambda>qbo'.
          ebind (set_link (get p ''shopify_customer_id'') status ident) (\<lambda>ident'.
          ebind (if get p ''email'' = JNull then Inr ident' else set_link (get p ''email'') status ident') (\<lambda>ident''.
          apply_email_links identities overrides (qbo', ident''))))))"

definition to_fulfillment :: "json \<Rightarrow> shopify_fulfillment option" where
  "to_fulfillment raw =
     (case raw of
        JObj f \<Rightarrow>
          (case get f ''state'' of
             JStr state \<Rightarrow> Some \<lparr>sf_state = state, sf_shipment_status = as_str (get f ''shipment_status''),
               sf_tracking = (case get f ''tracking'' of
                  JObj t \<Rightarrow> Some \<lparr>st_number = as_str (get t ''number''), st_url = as_str (get t ''url''),
                                  st_company = as_str (get t ''company'')\<rparr>
                | _ \<Rightarrow> None)\<rparr>
           | _ \<Rightarrow> None)
      | _ \<Rightarrow> None)"

definition to_shopify_order :: "dict \<Rightarrow> string option \<Rightarrow> shopify_order" where
  "to_shopify_order raw fallback_customer_id =
     \<lparr>so_order_number = py_str (get_or raw ''order_number'' (JStr [])),
      so_customer_id = py_str (or_else (get raw ''customer_id'') (or_else (opt_str fallback_customer_id) (JStr []))),
      so_line_items = (case get raw ''line_items'' of
          JList items \<Rightarrow> map (\<lambda>d. (py_str (get_or d ''sku'' (JStr [])), py_str (get_or d ''title'' (JStr []))))
            (List.map_filter as_obj items)
        | _ \<Rightarrow> []),
      so_fulfillment = to_fulfillment (get raw ''fulfillment'')\<rparr>"

fun upsert_by :: "('r \<Rightarrow> bool) \<Rightarrow> 'r \<Rightarrow> 'r list \<Rightarrow> 'r list" where
  "upsert_by same r [] = [r]"
| "upsert_by same r (e # es) = (if same e then r # es else e # upsert_by same r es)"

definition apply_orders :: "dict \<Rightarrow> string option \<Rightarrow> shopify_order list \<Rightarrow> shopify_order list" where
  "apply_orders raw_orders active orders =
     (let incoming = concat (map (\<lambda>(k, v). map (\<lambda>d. to_shopify_order d active)
            (List.map_filter as_obj (case v of JList es \<Rightarrow> es | _ \<Rightarrow> [v]))) raw_orders) in
      fold (\<lambda>order. upsert_by (\<lambda>e. so_order_number e = so_order_number order) order) incoming orders)"

definition or_keep :: "'a option \<Rightarrow> 'a \<Rightarrow> 'a" where
  "or_keep v old = (case v of Some x \<Rightarrow> x | None \<Rightarrow> old)"

definition apply_product :: "string \<times> json \<Rightarrow> shopify_product list \<Rightarrow> shopify_product list" where
  "apply_product entry products =
     (case entry of
        (key, JObj v) \<Rightarrow>
          (let sku = as_str (get v ''sku''); title = as_str (get v ''title'');
               product_url = as_str (get v ''product_url''); media_url = as_str (get v ''media_url'');
               price = (if get v ''price'' = JNull then None else Some (py_str (get v ''price'')));
               inventory = (case get v ''inventory'' of JInt n \<Rightarrow> Some n | _ \<Rightarrow> None);
               same = (\<lambda>p. Some (sp_sku p) = sku) in
           if list_ex same products
           then (let old = the (List.find same products) in
             upsert_by same (old\<lparr>sp_sku := or_keep sku (sp_sku old), sp_title := or_keep title (sp_title old),
               sp_product_url := or_keep product_url (sp_product_url old), sp_media_url := or_keep media_url (sp_media_url old),
               sp_price := opt_or price (sp_price old), sp_inventory := opt_or inventory (sp_inventory old)\<rparr>) products)
           else products @ [\<lparr>sp_product_id = ''gid://shopify/Product/mock-'' @ key, sp_sku = or_keep sku key,
               sp_title = or_keep title (or_keep sku key), sp_product_url = or_keep product_url [],
               sp_media_url = or_keep media_url [], sp_price = price, sp_inventory = inventory\<rparr>])
      | _ \<Rightarrow> products)"

definition apply_policy :: "string \<times> json \<Rightarrow> (string \<times> string) list \<Rightarrow> (string \<times> string) list" where
  "apply_policy entry policy =
     (case entry of (slot, v) \<Rightarrow>
      if v \<in> {JStr ''empty'', JStr [], JNull} then AList.delete slot policy else AList.update slot (py_str v) policy)"

text \<open>One override: a failure of its domain, and the parts of the data it replaces.\<close>

definition apply_override :: "dict \<Rightarrow> string option \<Rightarrow> string \<times> json \<Rightarrow> mock_context \<Rightarrow> exn + mock_context" where
  "apply_override identities active entry mc =
     (case entry of
        (domain, JObj raw) \<Rightarrow>
          (let mc1 = (case get raw ''error'' of
                 JStr e \<Rightarrow> mc\<lparr>mc_domain_errors := AList.update domain e (mc_domain_errors mc)\<rparr> | _ \<Rightarrow> mc) in
           ebind (case get raw ''email_links'' of
               JObj links \<Rightarrow> (if domain = ''qbo''
                 then map_sum id (\<lambda>(q, i). mc1\<lparr>mc_qbo_links := q, mc_identity_links := i\<rparr>)
                   (apply_email_links identities links (mc_qbo_links mc1, mc_identity_links mc1))
                 else Inr mc1)
             | _ \<Rightarrow> Inr mc1) (\<lambda>mc2.
           let shop = mc_shopify mc2;
               shop1 = (case get raw ''orders'' of
                  JObj os \<Rightarrow> (if domain = ''shopify'' then shop\<lparr>sm_orders := apply_orders os active (sm_orders shop)\<rparr> else shop)
                | _ \<Rightarrow> shop);
               shop2 = (case get raw ''products'' of
                  JObj ps \<Rightarrow> (if domain = ''shopify'' then shop1\<lparr>sm_products := fold apply_product ps (sm_products shop1)\<rparr>
                              else shop1)
                | _ \<Rightarrow> shop1);
               policy = (case get raw ''operational_policy'' of
                  JObj ps \<Rightarrow> (if domain = ''knowledge'' then fold apply_policy ps (mc_policy mc2) else mc_policy mc2)
                | _ \<Rightarrow> mc_policy mc2) in
           Inr (mc2\<lparr>mc_shopify := shop2, mc_policy := policy\<rparr>)))
      | _ \<Rightarrow> Inr mc)"

fun apply_mock_overrides :: "dict \<Rightarrow> string option \<Rightarrow> dict \<Rightarrow> mock_context \<Rightarrow> exn + mock_context" where
  "apply_mock_overrides identities active [] mc = Inr mc"
| "apply_mock_overrides identities active (entry # overrides) mc =
     ebind (apply_override identities active entry mc) (apply_mock_overrides identities active overrides)"

definition resolve_scenario :: "scenario_fixture \<Rightarrow> dict \<Rightarrow> string \<Rightarrow> exn + scenario" where
  "resolve_scenario fixture identities source_file =
     (if get identities (fx_identity_preset fixture) = JNull
      then Inl (scenario_fail source_file (''unknown identity_preset '' @ dquoted (fx_identity_preset fixture) @ ''.''))
      else
        ebind (need_obj (get identities (fx_identity_preset fixture))) (\<lambda>preset.
        let session = build_session_identity preset;
            active = (if get session ''outcome'' = JStr ''verified_customer''
                      then as_str (get session ''shopify_customer_id'') else None) in
        ebind (apply_mock_overrides identities active (fx_mock_overrides fixture)
          \<lparr>mc_identity_links = identity_baseline_links, mc_shopify = shopify_baseline_data, mc_qbo_links = qbo_baseline_links,
           mc_policy = km_operational_policy knowledge_baseline_data,
           mc_preferences = (case fx_memory_preset fixture of Some p \<Rightarrow> p | None \<Rightarrow> []), mc_domain_errors = []\<rparr>) (\<lambda>mc.
        Inr \<lparr>sc_scenario_id = fx_scenario_id fixture, sc_title = fx_title fixture, sc_suite = fx_suite fixture,
             sc_channel = fx_channel fixture, sc_identity_preset = fx_identity_preset fixture,
             sc_session_identity = session, sc_turns = fx_turns fixture, sc_assertions = fx_assertions fixture,
             sc_mock_context = mc, sc_source_file = source_file, sc_memory_preset = fx_memory_preset fixture\<rparr>)))"

section \<open>Choosing the scenarios\<close>

text \<open>\<^verbatim>\<open>p.suffix == ".yaml"\<close>: the name has more than its suffix.\<close>

definition is_yaml_file :: "string \<Rightarrow> bool" where
  "is_yaml_file name \<longleftrightarrow> 5 < length name \<and> drop (length name - 5) name = ''.yaml''"

definition scenario_files_for :: "eval_dir \<Rightarrow> string \<Rightarrow> exn + (string \<times> string) list" where
  "scenario_files_for dir suite =
     (let root = ed_path dir @ ''/scenarios'';
          listed = (\<lambda>at files. map (\<lambda>(name, content). (at @ ''/'' @ name, content)) (filter (is_yaml_file \<circ> fst) files)) in
      if suite = ''email_go_live''
      then Inr (case ed_email dir of None \<Rightarrow> [] | Some files \<Rightarrow> listed (root @ ''/email'') files)
      else case ed_scenarios dir of
        None \<Rightarrow> Inl (PyError ''FileNotFoundError'' (''[Errno 2] No such file or directory: '' @ in_quotes root))
      | Some files \<Rightarrow> Inr (listed root files))"

fun load_files :: "yaml \<Rightarrow> string \<Rightarrow> dict \<Rightarrow> (string \<times> string) list \<Rightarrow> exn + scenario list" where
  "load_files yaml suite identities [] = Inr []"
| "load_files yaml suite identities ((file, content) # files) =
     ebind (parse_scenario_content yaml content file) (\<lambda>fixture.
     if fx_suite fixture \<noteq> suite then load_files yaml suite identities files
     else ebind (resolve_scenario fixture identities file) (\<lambda>s.
          ebind (load_files yaml suite identities files) (\<lambda>ss. Inr (s # ss))))"

definition load_suite :: "yaml \<Rightarrow> string \<Rightarrow> eval_dir \<Rightarrow> exn + scenario list" where
  "load_suite yaml suite dir =
     ebind (load_base_mocks yaml dir) (\<lambda>identities.
     ebind (scenario_files_for dir suite) (\<lambda>files.
     ebind (load_files yaml suite identities files) (\<lambda>merged.
     Inr (sort_key sc_scenario_id merged))))"

fun find_scenario :: "int \<Rightarrow> scenario list \<Rightarrow> exn + scenario option" where
  "find_scenario target [] = Inr None"
| "find_scenario target (s # ss) =
     ebind (need_number (sc_scenario_id s)) (\<lambda>n. if n = target then Inr (Some s) else find_scenario target ss)"

definition load_scenario :: "yaml \<Rightarrow> string \<Rightarrow> string \<Rightarrow> eval_dir \<Rightarrow> exn + scenario" where
  "load_scenario yaml suite scenario_id dir =
     ebind (need_number scenario_id) (\<lambda>target.
     ebind (load_suite yaml suite dir) (\<lambda>scenarios.
     ebind (find_scenario target scenarios) (\<lambda>found.
     case found of Some s \<Rightarrow> Inr s
     | None \<Rightarrow> Inl (value_error (''Scenario '' @ dquoted scenario_id @ '' not found in suite '' @ dquoted suite @ ''.'')))))"

record policy_slot_map =
  ps_regression_subset :: "json list"
  ps_slots :: dict

definition load_policy_slot_map :: "yaml \<Rightarrow> eval_dir \<Rightarrow> exn + policy_slot_map" where
  "load_policy_slot_map yaml dir =
     (let path = ed_path dir @ ''/policy_slot_map.yaml'';
          malformed = value_error (''Policy slot map at '' @ path @ '' must define '' @ dquoted ''slots'' @ ''.'') in
      case ed_slot_map dir of
        None \<Rightarrow> Inl (value_error (''Policy slot map not found at '' @ path @ ''.''))
      | Some content \<Rightarrow>
          (case yaml content of
             Inl err \<Rightarrow> Inl (value_error (''Failed to parse '' @ path @ '': '' @ err))
           | Inr (JObj raw) \<Rightarrow>
               (case get raw ''slots'' of
                  JObj slots \<Rightarrow> Inr \<lparr>ps_regression_subset =
                      (case get raw ''regression_subset'' of JList ids \<Rightarrow> ids | _ \<Rightarrow> []), ps_slots = slots\<rparr>
                | _ \<Rightarrow> Inl malformed)
           | Inr _ \<Rightarrow> Inl malformed))"

text \<open>\<^verbatim>\<open>set(..)\<close> raises on an element without a hash; a number equals the truth value \<^verbatim>\<open>True\<close> or \<^verbatim>\<open>False\<close> of its size.\<close>

definition as_set :: "json list \<Rightarrow> exn + json list" where
  "as_set xs = map_exn (\<lambda>x. case x of
      JList _ \<Rightarrow> Inl (PyError ''TypeError'' (''unhashable type: '' @ in_quotes ''list''))
    | JObj _ \<Rightarrow> Inl (PyError ''TypeError'' (''unhashable type: '' @ in_quotes ''dict'')) | _ \<Rightarrow> Inr x) xs"

definition has_id :: "json list \<Rightarrow> int \<Rightarrow> bool" where
  "has_id ids n \<longleftrightarrow> list_ex (\<lambda>x. x = JInt n \<or> x = JBool True \<and> n = 1 \<or> x = JBool False \<and> n = 0) ids"

fun select_ids :: "json list \<Rightarrow> scenario list \<Rightarrow> exn + scenario list" where
  "select_ids ids [] = Inr []"
| "select_ids ids (s # ss) =
     ebind (need_number (sc_scenario_id s)) (\<lambda>n.
     ebind (select_ids ids ss) (\<lambda>rest. Inr (if has_id ids n then s # rest else rest)))"

definition load_policy_publish_suite :: "yaml \<Rightarrow> eval_dir \<Rightarrow> string \<Rightarrow> exn + scenario list" where
  "load_policy_publish_suite yaml dir slot =
     ebind (load_policy_slot_map yaml dir) (\<lambda>policy_map.
     if get (ps_slots policy_map) slot = JNull
     then Inl (value_error (''Unknown policy slot '' @ dquoted slot @ '' in '' @ ed_path dir @ ''/policy_slot_map.yaml.''))
     else
       ebind (need_obj (get (ps_slots policy_map) slot)) (\<lambda>slot_def.
       ebind (py_iter (or_else (get slot_def ''scenario_ids'') (JList []))) (\<lambda>scenario_ids.
       ebind (as_set scenario_ids) (\<lambda>ids.
       ebind (as_set (ps_regression_subset policy_map)) (\<lambda>subset.
       ebind (load_suite yaml ''text_first_launch'' dir) (select_ids (ids @ subset)))))))"

end
