(* ===== verification/EvalGate.thy ===== *)
theory EvalGate
  imports Fixtures
begin

text \<open>
  The launch evaluation, \<^verbatim>\<open>src/hermes/eval_runner\<close>: the mock backend of a scenario (\<^verbatim>\<open>harness.py\<close>), the result of a
  turn (\<^verbatim>\<open>turn_result.py\<close>, \<^verbatim>\<open>disclosures.py\<close>), the assertion package (\<^verbatim>\<open>assertions.py\<close>), the report
  (\<^verbatim>\<open>report.py\<close>), record and replay (\<^verbatim>\<open>recorder.py\<close>, \<^verbatim>\<open>replay.py\<close>), the run (\<^verbatim>\<open>run.py\<close>) and the command
  line whose exit code is the go-live gate (\<^verbatim>\<open>cli.py\<close>).  \<open>dumps\<close> and \<open>loads\<close> stand for the json module, the file
  system is the list of its files.
\<close>

text \<open>\<^verbatim>\<open>json.dumps\<close> with an indent or without.\<close>

type_synonym dumps = "nat option \<Rightarrow> json \<Rightarrow> string"

section \<open>The backend of a scenario\<close>

definition DOMAIN_TOOLS :: "(string \<times> string list) list" where
  "DOMAIN_TOOLS =
     [(''identity'', [''toee_identity_lookup'']), (''shopify'', [''toee_shopify_read'']), (''qbo'', [''toee_qbo_read'']),
      (''easyroutes'', [''toee_easyroutes_read'']), (''square'', [''toee_square_payment_link'']),
      (''knowledge'', [''toee_knowledge_search''])]"

type_synonym 's actions = "(string \<times> (dict \<Rightarrow> ctx \<Rightarrow> 's \<Rightarrow> (exn + json) \<times> 's)) list"

definition failing_handlers :: "string \<Rightarrow> string \<Rightarrow> 's actions \<Rightarrow> 's actions" where
  "failing_handlers domain reason handlers = map (\<lambda>(action, handler). (action, \<lambda>params context s.
     (Inl (ToolDriverError Vendor_timeout (domain @ '' is temporarily unavailable ('' @ reason @ '').'')), s))) handlers"

definition scenario_fragments :: "'f floats \<Rightarrow> exec_env \<Rightarrow> mock_context \<Rightarrow> mock_world handler_registry" where
  "scenario_fragments fl ex mc = merge_registries
     [on_part mw_identity (\<lambda>s w. w\<lparr>mw_identity := s\<rparr>) (create_identity_mock_handlers (mc_identity_links mc)),
      create_shopify_mock_handlers (mc_shopify mc),
      create_qbo_mock_handlers fl qbo_baseline_invoices,
      easyroutes_mock_handlers easyroutes_baseline_data,
      create_square_mock_handlers square_baseline_data,
      create_knowledge_mock_handlers (knowledge_baseline_data\<lparr>km_operational_policy := mc_policy mc\<rparr>),
      on_part mw_memory (\<lambda>s w. w\<lparr>mw_memory := s\<rparr>)
        (memory_mock_handlers (map (\<lambda>(k, v). (k, py_str v)) (mc_preferences mc))),
      create_case_mock_handlers case_baseline_data,
      on_part mw_outbox (\<lambda>s w. w\<lparr>mw_outbox := s\<rparr>) (create_sms_reply_mock_handlers ''msg''),
      create_admin_stub_mock_handlers,
      on_part mw_experience (\<lambda>s w. w\<lparr>mw_experience := s\<rparr>) (mock_experience_handlers ex)]"

definition force_tool :: "string \<Rightarrow> string \<Rightarrow> string \<Rightarrow> 's handler_registry \<Rightarrow> 's handler_registry" where
  "force_tool domain reason tool registry =
     (case map_of registry tool of
        None \<Rightarrow> registry
      | Some handlers \<Rightarrow> AList.update tool (failing_handlers domain reason handlers) registry)"

definition force_domain :: "string \<times> string \<Rightarrow> 's handler_registry \<Rightarrow> 's handler_registry" where
  "force_domain err registry =
     (case err of (domain, reason) \<Rightarrow>
      fold (force_tool domain reason) (case map_of DOMAIN_TOOLS domain of None \<Rightarrow> [] | Some ts \<Rightarrow> ts) registry)"

definition build_scenario_registry :: "'f floats \<Rightarrow> exec_env \<Rightarrow> mock_context \<Rightarrow> mock_world handler_registry" where
  "build_scenario_registry fl ex mc = fold force_domain (mc_domain_errors mc) (scenario_fragments fl ex mc)"

definition scenario_execution_context :: "scenario \<Rightarrow> ctx" where
  "scenario_execution_context s =
     \<lparr>profile = EXTERNAL, identity = JObj (sc_session_identity s), user_id = None, connected_account_id = None,
      ctx_conversation_id = None, ctx_sms_session_id = None\<rparr>"

definition scenario_tool_gate :: "scenario \<Rightarrow> gate" where
  "scenario_tool_gate s = create_external_profile_gate (mc_qbo_links (sc_mock_context s))"

section \<open>The result of a turn\<close>

record turn_view =
  tv_outbound_text :: string
  tv_tool_calls :: "(string \<times> string \<times> bool) list"
  tv_case_created :: bool
  tv_disclosures :: "(string \<times> bool) list"
  tv_memory_upserts :: "string list"
  tv_case_urgency :: "string option"
  tv_contact_reason :: "string option"
  tv_alternate_address_not_verified :: "bool option"

definition stub_turn :: turn_view where
  "stub_turn = \<lparr>tv_outbound_text = [], tv_tool_calls = [], tv_case_created = False, tv_disclosures = [],
     tv_memory_upserts = [], tv_case_urgency = None, tv_contact_reason = None, tv_alternate_address_not_verified = None\<rparr>"

definition derive_disclosures :: "string \<Rightarrow> (string \<times> bool) list" where
  "derive_disclosures channel =
     (if channel = ''email'' then [(''no_sms_session_opener'', True), (''requires_email_support_signature'', True)] else [])"

definition safety_disclosures :: "agent_turn_result \<Rightarrow> (string \<times> bool) list" where
  "safety_disclosures result =
     [(''no_account_disclosure'', \<not> list_ex (\<lambda>(tool, action, ok). tool = QBO_READ_TOOL \<and> ok) (at_tool_calls result)),
      (''no_registered_phone_script'', True), (''no_registered_email_recovery_script'', True),
      (''no_employee_directory_leak'', True)]"

text \<open>A result read off a transcript has no disclosures of its own.\<close>

definition build_scenario_turn_result :: "loads \<Rightarrow> scenario \<Rightarrow> string \<Rightarrow> dict list \<Rightarrow> exn + turn_view" where
  "build_scenario_turn_result loads s final_response messages =
     ebind (turn_result_from_transcript loads final_response messages) (\<lambda>r.
     Inr \<lparr>tv_outbound_text = at_outbound_text r, tv_tool_calls = at_tool_calls r, tv_case_created = at_case_created r,
          tv_disclosures = update_all (derive_disclosures (sc_channel s)) (safety_disclosures r),
          tv_memory_upserts = at_memory_upserts r, tv_case_urgency = at_case_urgency r,
          tv_contact_reason = at_contact_reason r,
          tv_alternate_address_not_verified = Some (at_alternate_address_not_verified r)\<rparr>)"

section \<open>assertions.py\<close>

record assertion_outcome =
  oc_type :: string
  oc_name :: string
  oc_passed :: bool
  oc_detail :: string

definition outcome :: "string \<Rightarrow> string \<Rightarrow> bool \<Rightarrow> string \<Rightarrow> assertion_outcome" where
  "outcome t n passed detail = \<lparr>oc_type = t, oc_name = n, oc_passed = passed, oc_detail = detail\<rparr>"

text \<open>\<^verbatim>\<open>==\<close> of a scalar with a value: \<^verbatim>\<open>True\<close> equals 1 and \<^verbatim>\<open>False\<close> equals 0.\<close>

fun py_equals :: "json \<Rightarrow> json \<Rightarrow> bool" where
  "py_equals (JBool b) (JInt n) = (n = (if b then 1 else 0))"
| "py_equals (JInt n) (JBool b) = (n = (if b then 1 else 0))"
| "py_equals a b = (a = b)"

definition call_matches :: "string \<times> string \<times> bool \<Rightarrow> dict \<Rightarrow> bool" where
  "call_matches call expected =
     (case call of (tool, action, ok) \<Rightarrow>
      JStr tool = get expected ''tool''
      \<and> (get expected ''action'' = JNull \<or> JStr action = get expected ''action''))"

definition describe_call :: "dict \<Rightarrow> string" where
  "describe_call expected =
     (if truthy (get expected ''action'')
      then py_str (get expected ''tool'') @ ''.'' @ py_str (get expected ''action'')
      else py_str (get expected ''tool''))"

definition behavioral_actual :: "string \<Rightarrow> turn_view \<Rightarrow> json" where
  "behavioral_actual name result =
     (if name = ''case_created'' then JBool (tv_case_created result)
      else if name = ''case_urgency'' then opt_str (tv_case_urgency result)
      else if name = ''contact_reason'' then opt_str (tv_contact_reason result)
      else if name = ''alternate_address_not_verified''
      then JBool (case tv_alternate_address_not_verified result of None \<Rightarrow> False | Some b \<Rightarrow> b)
      else JNull)"

definition eval_behavioral :: "(json \<Rightarrow> string) \<Rightarrow> json \<Rightarrow> turn_view \<Rightarrow> exn + assertion_outcome list" where
  "eval_behavioral dumps behavioral result =
     ebind (need_obj behavioral) (\<lambda>d. Inr (map (\<lambda>(name, expected).
       let actual = behavioral_actual name result in
       outcome ''behavioral'' name (py_equals actual expected)
         (''expected '' @ name @ ''='' @ dumps expected @ '', got '' @ dumps actual)) d))"

definition eval_tool :: "json \<Rightarrow> turn_view \<Rightarrow> exn + assertion_outcome list" where
  "eval_tool tool result =
     ebind (need_obj tool) (\<lambda>d.
     ebind (py_iter (or_else (get d ''expect_calls'') (JList []))) (\<lambda>expected.
     ebind (map_exn need_obj expected) (\<lambda>expected.
     ebind (py_iter (or_else (get d ''forbidden_tools'') (JList []))) (\<lambda>forbidden.
     ebind (map_exn need_obj forbidden) (\<lambda>forbidden.
     Inr (map (\<lambda>e. let found = list_ex (\<lambda>c. call_matches c e) (tv_tool_calls result) in
            outcome ''tool'' (''expect_call '' @ describe_call e) found
              (if found then ''called'' else ''expected tool call was not made'')) expected
        @ map (\<lambda>e. let called = list_ex (\<lambda>c. call_matches c e) (tv_tool_calls result) in
            outcome ''tool'' (''forbidden '' @ describe_call e) (\<not> called)
              (if called then ''forbidden tool call was made'' else ''not called'')) forbidden))))))"

definition eval_disclosure :: "(json \<Rightarrow> string) \<Rightarrow> json \<Rightarrow> turn_view \<Rightarrow> exn + assertion_outcome list" where
  "eval_disclosure dumps disclosure result =
     ebind (need_obj disclosure) (\<lambda>d. Inr (map (\<lambda>(name, expected).
       let actual = (case map_of (tv_disclosures result) name of None \<Rightarrow> JNull | Some b \<Rightarrow> JBool b) in
       outcome ''disclosure'' name (py_equals actual expected)
         (''expected '' @ name @ ''='' @ py_str expected @ '', got '' @ dumps actual)) d))"

definition need_text :: "json \<Rightarrow> exn + string" where
  "need_text j = (case j of JStr s \<Rightarrow> Inr s | _ \<Rightarrow> Inl attribute_error)"

definition eval_text :: "json \<Rightarrow> turn_view \<Rightarrow> exn + assertion_outcome list" where
  "eval_text text' result =
     ebind (need_obj text') (\<lambda>d.
     let haystack = py_lower (tv_outbound_text result) in
     ebind (py_iter (or_else (get d ''must_contain'') (JList []))) (\<lambda>wanted.
     ebind (map_exn need_text wanted) (\<lambda>wanted.
     ebind (py_iter (or_else (get d ''must_not_contain'') (JList []))) (\<lambda>banned.
     ebind (map_exn need_text banned) (\<lambda>banned.
     Inr (map (\<lambda>phrase. let passed = occurs_in (py_lower phrase) haystack in
            outcome ''text'' (''must_contain '' @ dquoted phrase) passed
              (if passed then ''present'' else ''missing from outbound text'')) wanted
        @ map (\<lambda>phrase. let passed = \<not> occurs_in (py_lower phrase) haystack in
            outcome ''text'' (''must_not_contain '' @ dquoted phrase) passed
              (if passed then ''absent'' else ''present in outbound text'')) banned))))))"

definition did_upsert :: "turn_view \<Rightarrow> bool" where
  "did_upsert result \<longleftrightarrow> tv_memory_upserts result \<noteq> []
     \<or> list_ex (\<lambda>(tool, action, ok). tool = ''toee_customer_memory'' \<and> action = ''upsert_preference'') (tv_tool_calls result)"

definition eval_memory :: "json \<Rightarrow> turn_view \<Rightarrow> exn + assertion_outcome list" where
  "eval_memory memory result =
     ebind (need_obj memory) (\<lambda>d.
     let upsert = did_upsert result; slot = get d ''expect_upsert_slot'';
         in_slots = (case slot of JStr s \<Rightarrow> s \<in> set (tv_memory_upserts result) | _ \<Rightarrow> False) in
     Inr ((if get d ''expect_upsert'' = JBool True
           then [outcome ''memory'' ''expect_upsert'' upsert
             (if upsert then ''upsert occurred'' else ''no preference upsert observed'')] else [])
        @ (if slot \<noteq> JNull
           then [outcome ''memory'' (''expect_upsert_slot '' @ py_str slot) in_slots
             (if in_slots then ''slot upserted'' else ''slot '' @ py_str slot @ '' was not upserted'')] else [])
        @ (if get d ''forbid_inferred_upsert'' = JBool True
           then [outcome ''memory'' ''forbid_inferred_upsert'' (\<not> upsert)
             (if upsert then ''an inferred upsert was made'' else ''no inferred upsert'')] else [])))"

definition when_present :: "json \<Rightarrow> exn + assertion_outcome list \<Rightarrow> exn + assertion_outcome list" where
  "when_present block outcomes = (if truthy block then outcomes else Inr [])"

definition evaluate_scenario :: "(json \<Rightarrow> string) \<Rightarrow> scenario \<Rightarrow> turn_view \<Rightarrow> exn + assertion_outcome list" where
  "evaluate_scenario dumps s result =
     (let a = sc_assertions s in
      ebind (when_present (sa_behavioral a) (eval_behavioral dumps (sa_behavioral a) result)) (\<lambda>b.
      ebind (when_present (sa_tool a) (eval_tool (sa_tool a) result)) (\<lambda>t.
      ebind (when_present (sa_disclosure a) (eval_disclosure dumps (sa_disclosure a) result)) (\<lambda>d.
      ebind (when_present (sa_text a) (eval_text (sa_text a) result)) (\<lambda>x.
      ebind (when_present (sa_memory a) (eval_memory (sa_memory a) result)) (\<lambda>m.
      Inr (b @ t @ d @ x @ m)))))))"

section \<open>report.py\<close>

record scenario_outcome =
  co_scenario_id :: string
  co_title :: string
  co_severity :: string
  co_outcomes :: "assertion_outcome list"

record scenario_report =
  rp_scenario_id :: string
  rp_title :: string
  rp_passed :: bool
  rp_severity :: string
  rp_failed_assertions :: "(string \<times> string \<times> string) list"

record eval_summary =
  sy_total :: nat
  sy_passed :: nat
  sy_failed_high :: nat
  sy_failed_medium :: nat

record eval_report =
  er_run_id :: string
  er_suite :: string
  er_model_slug :: string
  er_prompt_version :: string
  er_knowledge_version :: string
  er_scenarios :: "scenario_report list"
  er_summary :: eval_summary
  er_signoff_required :: bool

record report_meta =
  me_run_id :: "string option"
  me_model_slug :: "string option"
  me_prompt_version :: "string option"
  me_knowledge_version :: "string option"

definition or_text :: "string option \<Rightarrow> string \<Rightarrow> string" where
  "or_text v d = (if falsy v then d else the v)"

definition report_of :: "scenario_outcome \<Rightarrow> scenario_report" where
  "report_of s =
     (let failed = filter (\<lambda>oc. \<not> oc_passed oc) (co_outcomes s) in
      \<lparr>rp_scenario_id = co_scenario_id s, rp_title = co_title s, rp_passed = (failed = []), rp_severity = co_severity s,
       rp_failed_assertions = map (\<lambda>oc. (oc_type oc, oc_name oc, oc_detail oc)) failed\<rparr>)"

text \<open>\<open>now_ms\<close> is the clock in milliseconds.\<close>

definition build_report :: "int \<Rightarrow> string \<Rightarrow> scenario_outcome list \<Rightarrow> report_meta \<Rightarrow> eval_report" where
  "build_report now_ms suite scenario_outcomes meta =
     (let scenarios = map report_of scenario_outcomes;
          failed_scenarios = filter (\<lambda>s. \<not> rp_passed s) scenarios;
          summary = \<lparr>sy_total = length scenarios, sy_passed = length scenarios - length failed_scenarios,
            sy_failed_high = length (filter (\<lambda>s. rp_severity s = ''high'') failed_scenarios),
            sy_failed_medium = length (filter (\<lambda>s. rp_severity s = ''medium'') failed_scenarios)\<rparr> in
      \<lparr>er_run_id = or_text (me_run_id meta) (suite @ ''-'' @ show_int now_ms), er_suite = suite,
       er_model_slug = or_text (me_model_slug meta) ''stub'', er_prompt_version = or_text (me_prompt_version meta) ''v0'',
       er_knowledge_version = or_text (me_knowledge_version meta) ''v0'', er_scenarios = scenarios,
       er_summary = summary, er_signoff_required = (sy_failed_medium summary > 0)\<rparr>)"

definition report_dict :: "eval_report \<Rightarrow> dict" where
  "report_dict r =
     [(''run_id'', JStr (er_run_id r)), (''suite'', JStr (er_suite r)), (''model_slug'', JStr (er_model_slug r)),
      (''prompt_version'', JStr (er_prompt_version r)), (''knowledge_version'', JStr (er_knowledge_version r)),
      (''scenarios'', JList (map (\<lambda>s. JObj [(''scenario_id'', JStr (rp_scenario_id s)), (''title'', JStr (rp_title s)),
         (''passed'', JBool (rp_passed s)), (''severity'', JStr (rp_severity s)),
         (''failed_assertions'', JList (map (\<lambda>(t, n, d). JObj [(''type'', JStr t), (''name'', JStr n), (''detail'', JStr d)])
            (rp_failed_assertions s)))]) (er_scenarios r))),
      (''summary'', JObj [(''total'', JInt (int (sy_total (er_summary r)))), (''passed'', JInt (int (sy_passed (er_summary r)))),
         (''failed_high'', JInt (int (sy_failed_high (er_summary r)))),
         (''failed_medium'', JInt (int (sy_failed_medium (er_summary r))))]),
      (''signoff_required'', JBool (er_signoff_required r))]"

type_synonym files = "(string \<times> string) list"

definition write_report :: "dumps \<Rightarrow> string \<Rightarrow> eval_report \<Rightarrow> files \<Rightarrow> string \<times> files" where
  "write_report dumps root report fs =
     (let path = root @ ''/reports/'' @ er_run_id report @ ''.json'' in
      (path, AList.update path (dumps (Some 2) (JObj (report_dict report)) @ [CHR 0x0A]) fs))"

section \<open>Record and replay\<close>

definition transcript_path :: "string \<Rightarrow> scenario \<Rightarrow> string" where
  "transcript_path transcripts_dir s =
     transcripts_dir @ ''/'' @ sc_suite s @ ''/'' @ sc_scenario_id s @ ''.json''"

definition record_turn :: "dumps \<Rightarrow> dict \<Rightarrow> scenario \<Rightarrow> string \<Rightarrow> files \<Rightarrow> string \<times> files" where
  "record_turn dumps turn s transcripts_dir fs =
     (let path = transcript_path transcripts_dir s;
          doc = JObj [(''final_response'', or_else (get_or turn ''final_response'' (JStr [])) (JStr [])),
                      (''messages'', or_else (get_or turn ''messages'' (JList [])) (JList []))] in
      (path, AList.update path (dumps (Some 2) doc) fs))"

text \<open>A final response that is no text is refused here at once.\<close>

definition replay_turn :: "loads \<Rightarrow> string \<Rightarrow> files \<Rightarrow> scenario \<Rightarrow> exn + turn_view" where
  "replay_turn loads transcripts_dir fs s =
     (let path = transcript_path transcripts_dir s in
      case map_of fs path of
        None \<Rightarrow> Inl (PyError ''TranscriptNotFound'' (''No recorded transcript for scenario '' @ in_quotes (sc_scenario_id s)
          @ '' (suite '' @ in_quotes (sc_suite s) @ '') at '' @ path @ ''.''))
      | Some content \<Rightarrow>
          (case loads content of
             None \<Rightarrow> Inl (PyError ''JSONDecodeError'' ''the transcript is no JSON text'')
           | Some j \<Rightarrow>
               ebind (need_obj j) (\<lambda>doc.
               ebind (need_text (or_else (get_or doc ''final_response'' (JStr [])) (JStr []))) (\<lambda>final_response.
               ebind (py_iter (or_else (get_or doc ''messages'' (JList [])) (JList []))) (\<lambda>ms.
               ebind (map_exn need_obj ms) (\<lambda>messages.
               build_scenario_turn_result loads s final_response messages))))))"

section \<open>run.py\<close>

definition select_scenarios ::
  "yaml \<Rightarrow> string \<Rightarrow> eval_dir \<Rightarrow> string option \<Rightarrow> string option \<Rightarrow> exn + scenario list" where
  "select_scenarios yaml suite dir scenario_id slot =
     (if suite = ''policy_publish''
      then (case slot of
          None \<Rightarrow> Inl (value_error ''policy_publish runs require a --slot.'')
        | Some sl \<Rightarrow> load_policy_publish_suite yaml dir sl)
      else case scenario_id of
          Some i \<Rightarrow> ebind (load_scenario yaml suite i dir) (\<lambda>s. Inr [s])
        | None \<Rightarrow> load_suite yaml suite dir)"

type_synonym harness = "scenario \<Rightarrow> exn + turn_view"

definition run_scenario :: "dumps \<Rightarrow> harness \<Rightarrow> scenario \<Rightarrow> exn + scenario_outcome" where
  "run_scenario dumps agent s =
     ebind (agent s) (\<lambda>turn.
     ebind (evaluate_scenario (dumps None) s turn) (\<lambda>outcomes.
     Inr \<lparr>co_scenario_id = sc_scenario_id s, co_title = sc_title s, co_severity = sa_max_severity (sc_assertions s),
          co_outcomes = outcomes\<rparr>))"

definition no_meta :: report_meta where
  "no_meta = \<lparr>me_run_id = None, me_model_slug = None, me_prompt_version = None, me_knowledge_version = None\<rparr>"

record run_request =
  rr_suite :: string
  rr_scenario_id :: "string option"
  rr_slot :: "string option"
  rr_meta :: report_meta
  rr_write :: bool

definition run_suite ::
  "yaml \<Rightarrow> dumps \<Rightarrow> int \<Rightarrow> eval_dir \<Rightarrow> harness \<Rightarrow> run_request \<Rightarrow> files
     \<Rightarrow> (exn + eval_report \<times> string option) \<times> files" where
  "run_suite yaml dumps now_ms dir agent rr fs =
     (case ebind (select_scenarios yaml (rr_suite rr) dir (rr_scenario_id rr) (rr_slot rr)) (map_exn (run_scenario dumps agent)) of
        Inl e \<Rightarrow> (Inl e, fs)
      | Inr outcomes \<Rightarrow>
          (let report = build_report now_ms (rr_suite rr) outcomes (rr_meta rr) in
           if rr_write rr then (let (path, fs') = write_report dumps (ed_path dir) report fs in (Inr (report, Some path), fs'))
           else (Inr (report, None), fs)))"

section \<open>cli.py\<close>

record cli_args =
  ca_suite :: string
  ca_scenario_id :: "string option"
  ca_slot :: "string option"
  ca_harness :: string
  ca_transcripts_dir :: "string option"

definition HARNESS_VALUES :: "string list" where "HARNESS_VALUES = [''stub'', ''replay'']"

definition default_args :: cli_args where
  "default_args = \<lparr>ca_suite = ''text_first_launch'', ca_scenario_id = None, ca_slot = None, ca_harness = ''stub'',
     ca_transcripts_dir = None\<rparr>"

definition one_of :: "string \<Rightarrow> string list \<Rightarrow> exn" where
  "one_of flag vs = value_error (flag @ '' must be one of: '' @ join_with '', '' vs)"

fun parse_options :: "string list \<Rightarrow> cli_args \<Rightarrow> exn + cli_args" where
  "parse_options [] a = Inr a"
| "parse_options [arg] a =
     Inl (if arg = ''--suite'' then one_of arg SUITE_VALUES
          else if arg = ''--scenario'' then value_error ''--scenario requires a scenario id.''
          else if arg = ''--slot'' then value_error ''--slot requires a policy slot name.''
          else if arg = ''--harness'' then one_of arg HARNESS_VALUES
          else if arg = ''--transcripts-dir'' then value_error ''--transcripts-dir requires a path.''
          else value_error (''Unknown argument '' @ dquoted arg @ ''.''))"
| "parse_options (arg # nxt # argv) a =
     (if arg = ''--suite'' then
        (if nxt \<in> set SUITE_VALUES then parse_options argv (a\<lparr>ca_suite := nxt\<rparr>) else Inl (one_of arg SUITE_VALUES))
      else if arg = ''--scenario'' then parse_options argv (a\<lparr>ca_scenario_id := Some nxt\<rparr>)
      else if arg = ''--slot'' then parse_options argv (a\<lparr>ca_slot := Some nxt\<rparr>)
      else if arg = ''--harness'' then
        (if nxt \<in> set HARNESS_VALUES then parse_options argv (a\<lparr>ca_harness := nxt\<rparr>) else Inl (one_of arg HARNESS_VALUES))
      else if arg = ''--transcripts-dir'' then parse_options argv (a\<lparr>ca_transcripts_dir := Some nxt\<rparr>)
      else Inl (value_error (''Unknown argument '' @ dquoted arg @ ''.'')))"

definition parse_args :: "string list \<Rightarrow> exn + cli_args" where
  "parse_args argv =
     ebind (parse_options argv default_args) (\<lambda>a.
     if ca_harness a = ''replay'' \<and> ca_transcripts_dir a = None
     then Inl (value_error ''--harness replay requires --transcripts-dir.'') else Inr a)"

definition build_agent :: "loads \<Rightarrow> files \<Rightarrow> cli_args \<Rightarrow> exn + harness" where
  "build_agent loads fs a =
     (if ca_harness a = ''replay''
      then (case ca_transcripts_dir a of
          None \<Rightarrow> Inl (value_error ''--harness replay requires --transcripts-dir.'')
        | Some dir \<Rightarrow> Inr (replay_turn loads dir fs))
      else Inr (\<lambda>s. Inr stub_turn))"

definition printed_lines :: "eval_report \<Rightarrow> string option \<Rightarrow> string list" where
  "printed_lines report path =
     (let sy = er_summary report in
      concat (map (\<lambda>s.
        ((if rp_passed s then ''PASS'' else ''FAIL ['' @ rp_severity s @ '']'') @ ''  '' @ rp_scenario_id s @ ''  '' @ rp_title s)
        # map (\<lambda>(t, n, d). ''        - '' @ t @ ''/'' @ n @ '': '' @ d) (rp_failed_assertions s)) (er_scenarios report))
      @ [CHR 0x0A # er_suite report @ '': '' @ show_nat (sy_passed sy) @ ''/'' @ show_nat (sy_total sy) @ '' passed | failed_high=''
          @ show_nat (sy_failed_high sy) @ '' failed_medium='' @ show_nat (sy_failed_medium sy)]
      @ (case path of None \<Rightarrow> [] | Some p \<Rightarrow> [''Report: '' @ p])
      @ (if er_signoff_required report then [''Medium-severity failures require sign_off_medium_failure.''] else []))"

definition eval_main ::
  "yaml \<Rightarrow> dumps \<Rightarrow> loads \<Rightarrow> int \<Rightarrow> eval_dir \<Rightarrow> bool \<Rightarrow> string list \<Rightarrow> files
     \<Rightarrow> (exn + int \<times> string list) \<times> files" where
  "eval_main yaml dumps loads now_ms dir write argv fs =
     (case ebind (parse_args argv) (\<lambda>a. ebind (build_agent loads fs a) (\<lambda>agent. Inr (a, agent))) of
        Inl e \<Rightarrow> (Inl e, fs)
      | Inr (a, agent) \<Rightarrow>
          (case run_suite yaml dumps now_ms dir agent \<lparr>rr_suite = ca_suite a, rr_scenario_id = ca_scenario_id a,
               rr_slot = ca_slot a, rr_meta = no_meta, rr_write = write\<rparr> fs of
             (Inl e, fs') \<Rightarrow> (Inl e, fs')
           | (Inr (report, path), fs') \<Rightarrow>
               (Inr (if sy_failed_high (er_summary report) > 0 then 1 else 0, printed_lines report path), fs')))"

definition eval_entrypoint ::
  "yaml \<Rightarrow> dumps \<Rightarrow> loads \<Rightarrow> int \<Rightarrow> eval_dir \<Rightarrow> string list \<Rightarrow> files \<Rightarrow> int \<times> string list \<times> files" where
  "eval_entrypoint yaml dumps loads now_ms dir argv fs =
     (case eval_main yaml dumps loads now_ms dir True argv fs of
        (Inl e, fs') \<Rightarrow> (1, [exn_message e], fs')
      | (Inr (exit_code, printed), fs') \<Rightarrow> (exit_code, printed, fs'))"

section \<open>Lemmas: forced domains\<close>

lemma map_of_failing: "map_of (failing_handlers d r handlers) action = map_option (\<lambda>h params context s.
   (Inl (ToolDriverError Vendor_timeout (d @ '' is temporarily unavailable ('' @ r @ '').'')), s)) (map_of handlers action)"
  unfolding failing_handlers_def by (induction handlers) auto

lemma map_of_force_tool:
  "map_of (force_tool d r tool registry) t
     = (if t = tool then map_option (failing_handlers d r) (map_of registry tool) else map_of registry t)"
  by (auto simp: force_tool_def update_conv' split: option.splits)

definition tools_of_domain :: "string \<Rightarrow> string list" where
  "tools_of_domain d = (case map_of DOMAIN_TOOLS d of None \<Rightarrow> [] | Some ts \<Rightarrow> ts)"

text \<open>Every domain owns one tool, and no two the same.\<close>

lemma tools_of_domain_cases: "tools_of_domain d = [] \<or> (\<exists>t. tools_of_domain d = [t])"
  by (auto simp: tools_of_domain_def DOMAIN_TOOLS_def)

lemma tools_disjoint: "t \<in> set (tools_of_domain d) \<Longrightarrow> t \<in> set (tools_of_domain d') \<Longrightarrow> d = d'"
  by (auto simp: tools_of_domain_def DOMAIN_TOOLS_def split: if_splits)

lemma map_of_force_domain:
  "map_of (force_domain (d, r) registry) t
     = (if t \<in> set (tools_of_domain d) then map_option (failing_handlers d r) (map_of registry t) else map_of registry t)"
proof -
  have "force_domain (d, r) registry = fold (force_tool d r) (tools_of_domain d) registry"
    by (simp add: force_domain_def tools_of_domain_def)
  then show ?thesis using tools_of_domain_cases [of d] by (auto simp: map_of_force_tool)
qed

lemma forced_elsewhere:
  "\<forall>d. d \<in> fst ` set errs \<longrightarrow> t \<notin> set (tools_of_domain d) \<Longrightarrow> map_of (fold force_domain errs registry) t = map_of registry t"
proof (induction errs arbitrary: registry)
  case (Cons e errs)
  obtain d r where e: "e = (d, r)" by (cases e)
  from Cons show ?case by (simp add: e map_of_force_domain)
qed simp

lemma forced_once:
  assumes "distinct (map fst errs)" and "(d, r) \<in> set errs" and "t \<in> set (tools_of_domain d)"
  shows "map_of (fold force_domain errs registry) t = map_option (failing_handlers d r) (map_of registry t)"
  using assms
proof (induction errs arbitrary: registry)
  case (Cons e errs)
  obtain d' r' where e: "e = (d', r')" by (cases e)
  show ?case
  proof (cases "d' = d")
    case True
    with Cons.prems have r: "r' = r" and no: "d \<notin> fst ` set errs" by (auto simp: e rev_image_eqI)
    from no Cons.prems(3) have "\<forall>x. x \<in> fst ` set errs \<longrightarrow> t \<notin> set (tools_of_domain x)" using tools_disjoint by blast
    from forced_elsewhere [OF this, of "force_domain e registry"] show ?thesis
      using Cons.prems(3) by (simp add: e True r map_of_force_domain)
  next
    case False
    with Cons.prems have "t \<notin> set (tools_of_domain d')" using tools_disjoint by blast
    with Cons.IH [of "force_domain e registry"] Cons.prems False show ?thesis
      by (auto simp: e map_of_force_domain)
  qed
qed simp

text \<open>The names of the scenario registry: the catalog without the tools of the three fragments it leaves out.\<close>

definition left_out :: "string set" where
  "left_out = {''toee_delivery_promise'', ''toee_metrics'', ''toee_retention''}"

definition scenario_order :: "(string \<times> string list) list list" where
  "scenario_order = map (nth names_merged) [0, 1, 2, 3, 9, 5, 7, 6, 8, 10, 11]"

lemma scenario_names: "actions_of (scenario_fragments fl ex mc) = fold merge_names scenario_order []"
proof -
  have "scenario_order = [names_merged ! 0, names_merged ! 1, names_merged ! 2, names_merged ! 3, names_merged ! 9,
      names_merged ! 5, names_merged ! 7, names_merged ! 6, names_merged ! 8, names_merged ! 10, names_merged ! 11]"
    by (simp add: scenario_order_def)
  then show ?thesis
    by (simp only: scenario_fragments_def) (simp add: merge_registries_names names_of stub_names names_merged_def)
qed

lemma scenario_mset:
  "mset (concat scenario_order) + mset [(t, the (map_of TOOL_CATALOG t)). t \<leftarrow> [''toee_delivery_promise'', ''toee_metrics'', ''toee_retention'']]
     = mset TOOL_CATALOG"
proof -
  have "mset (concat scenario_order) + mset (names_merged ! 4) + mset (names_merged ! 12) + mset (names_merged ! 13)
      = mset (concat names_merged)"
    by (simp add: scenario_order_def) (simp add: names_merged_def)
  moreover have "names_merged ! 4 = [(''toee_delivery_promise'', the (map_of TOOL_CATALOG ''toee_delivery_promise''))]"
    "names_merged ! 12 = [(''toee_metrics'', the (map_of TOOL_CATALOG ''toee_metrics''))]"
    "names_merged ! 13 = [(''toee_retention'', the (map_of TOOL_CATALOG ''toee_retention''))]"
    by (simp_all add: names_merged_def TOOL_CATALOG_def)
  ultimately show ?thesis by (simp add: names_mset add_mset_commute)
qed

lemma map_of_left:
  "distinct (map fst (xs @ ys)) \<Longrightarrow> map_of xs t = (if t \<in> fst ` set ys then None else map_of (xs @ ys) t)"
proof (cases "t \<in> fst ` set ys")
  case True
  assume "distinct (map fst (xs @ ys))"
  with True have "t \<notin> fst ` set xs" by auto
  with True show ?thesis by (simp add: map_of_eq_None_iff)
next
  case False
  then have "map_of ys t = None" by (simp add: map_of_eq_None_iff)
  with False show ?thesis by (auto simp: map_of_append map_add_def split: option.splits)
qed

lemma scenario_catalog:
  "map_of (actions_of (scenario_fragments fl ex mc)) t = (if t \<in> left_out then None else map_of TOOL_CATALOG t)"
proof -
  define out where "out = [(t, the (map_of TOOL_CATALOG t)). t \<leftarrow> [''toee_delivery_promise'', ''toee_metrics'', ''toee_retention'']]"
  let ?all = "concat scenario_order @ out"
  have m: "mset ?all = mset TOOL_CATALOG" using scenario_mset unfolding out_def mset_append .
  then have "mset (map fst ?all) = mset (map fst TOOL_CATALOG)" by (metis mset_map)
  then have d: "distinct (map fst ?all)" using catalog_distinct by (metis mset_eq_imp_distinct_iff)
  have s: "set ?all = set TOOL_CATALOG" using m by (metis set_mset_mset)
  then have l: "list_all (\<lambda>(t, ns). distinct ns) (concat scenario_order)"
    using catalog_actions_distinct unfolding list_all_iff by auto
  have "distinct (map fst (concat scenario_order))" using d by simp
  with fold_merge_names [of "[]" scenario_order] l
  have a: "actions_of (scenario_fragments fl ex mc) = concat scenario_order" by (simp add: scenario_names)
  have o: "t \<in> fst ` set out \<longleftrightarrow> t \<in> left_out" by (auto simp: left_out_def out_def)
  have "map_of ?all = map_of TOOL_CATALOG" using d s catalog_distinct map_of_inject_set by blast
  with map_of_left [OF d, of t] show ?thesis unfolding a o by simp
qed

text \<open>A domain that a scenario marks with an error fails in every action of its tool, with the
  governed timeout and without touching the mock data; the tools of the other domains answer as without the mark.\<close>

theorem forced_domain_fails:
  assumes "distinct (map fst (mc_domain_errors mc))"
  shows "(\<forall>domain reason tool action params. (domain, reason) \<in> set (mc_domain_errors mc) \<longrightarrow> tool \<in> set (tools_of_domain domain)
       \<longrightarrow> is_tool_action tool action
       \<longrightarrow> mock_driver_execute (build_scenario_registry fl ex mc) \<lparr>rq_tool = tool, rq_action = action, rq_params = params\<rparr> context w
         = (Inl (ToolDriverError Vendor_timeout (domain @ '' is temporarily unavailable ('' @ reason @ '').'')), w))
     \<and> (\<forall>request. (\<forall>domain. domain \<in> fst ` set (mc_domain_errors mc) \<longrightarrow> rq_tool request \<notin> set (tools_of_domain domain))
       \<longrightarrow> mock_driver_execute (build_scenario_registry fl ex mc) request context w
         = mock_driver_execute (scenario_fragments fl ex mc) request context w)"
proof (intro conjI allI impI)
  fix domain reason tool action params
  assume f: "(domain, reason) \<in> set (mc_domain_errors mc)" "tool \<in> set (tools_of_domain domain)" and a: "is_tool_action tool action"
  from f(2) have "tool \<notin> left_out"
    by (auto simp: tools_of_domain_def DOMAIN_TOOLS_def left_out_def split: if_splits)
  with a obtain names where n: "map_of (actions_of (scenario_fragments fl ex mc)) tool = Some names" "action \<in> set names"
    by (auto simp: is_tool_action_def scenario_catalog split: option.splits)
  then obtain handlers where h: "map_of (scenario_fragments fl ex mc) tool = Some handlers" "names = map fst handlers"
    by (auto simp: registered_names)
  with n obtain handler where "map_of handlers action = Some handler"
    by (metis list.set_map map_of_eq_None_iff not_None_eq)
  with h forced_once [OF assms f, of "scenario_fragments fl ex mc"] show
    "mock_driver_execute (build_scenario_registry fl ex mc) \<lparr>rq_tool = tool, rq_action = action, rq_params = params\<rparr> context w
       = (Inl (ToolDriverError Vendor_timeout (domain @ '' is temporarily unavailable ('' @ reason @ '').'')), w)"
    by (simp add: mock_driver_execute_def build_scenario_registry_def map_of_failing)
next
  fix request :: request
  assume "\<forall>domain. domain \<in> fst ` set (mc_domain_errors mc) \<longrightarrow> rq_tool request \<notin> set (tools_of_domain domain)"
  from forced_elsewhere [OF this, of "scenario_fragments fl ex mc"] show "mock_driver_execute (build_scenario_registry fl ex mc) request context w
      = mock_driver_execute (scenario_fragments fl ex mc) request context w"
    by (simp add: mock_driver_execute_def build_scenario_registry_def)
qed

text \<open>Of the tools an External turn may call, an evaluation scenario serves all but the
  delivery promises: those catalogued calls end as a missing configuration in every scenario.\<close>

theorem scenario_lacks_delivery:
  "filter (\<lambda>tool. map_of (build_scenario_registry fl ex mc) tool = None) (the (map_of PROFILE_TOOL_ALLOWLIST EXTERNAL))
     = [''toee_delivery_promise'']"
proof -
  have "map_of (fold force_domain errs registry) t = None \<longleftrightarrow> map_of registry t = None" for errs t
      and registry :: "mock_world handler_registry"
  proof (induction errs arbitrary: registry)
    case (Cons e errs)
    then show ?case by (cases e) (simp add: map_of_force_domain)
  qed simp
  then have "map_of (build_scenario_registry fl ex mc) t = None \<longleftrightarrow> map_of (actions_of (scenario_fragments fl ex mc)) t = None" for t
    by (simp add: build_scenario_registry_def registered_names)
  then show ?thesis
    by (simp add: scenario_catalog left_out_def) (simp add: PROFILE_TOOL_ALLOWLIST_def TOOL_CATALOG_def)
qed

section \<open>Lemmas: the run\<close>

lemma run_suite_Inr:
  assumes "run_suite yaml dumps now_ms dir agent rr fs = (Inr (report, path), fs')"
  obtains scenarios outcomes where
    "select_scenarios yaml (rr_suite rr) dir (rr_scenario_id rr) (rr_slot rr) = Inr scenarios"
    "list_all2 (\<lambda>s oc. run_scenario dumps agent s = Inr oc) scenarios outcomes"
    "report = build_report now_ms (rr_suite rr) outcomes (rr_meta rr)"
  using assms by (auto simp: run_suite_def exn_simps map_exn_Inr write_report_def Let_def split: sum.splits if_splits)

lemma run_scenario_Inr:
  "run_scenario dumps agent s = Inr oc \<longleftrightarrow> (\<exists>turn outcomes. agent s = Inr turn
     \<and> evaluate_scenario (dumps None) s turn = Inr outcomes
     \<and> oc = \<lparr>co_scenario_id = sc_scenario_id s, co_title = sc_title s, co_severity = sa_max_severity (sc_assertions s),
            co_outcomes = outcomes\<rparr>)"
  by (auto simp: run_scenario_def exn_simps)

lemma report_summary:
  "sy_total (er_summary (build_report t suite outs meta)) = length outs"
  "sy_failed_high (er_summary (build_report t suite outs meta))
     = length (filter (\<lambda>oc. co_severity oc = ''high'' \<and> \<not> list_all oc_passed (co_outcomes oc)) outs)"
  "sy_failed_medium (er_summary (build_report t suite outs meta))
     = length (filter (\<lambda>oc. co_severity oc = ''medium'' \<and> \<not> list_all oc_passed (co_outcomes oc)) outs)"
proof -
  have f: "filter (\<lambda>oc. \<not> oc_passed oc) xs = [] \<longleftrightarrow> list_all oc_passed xs" for xs
    by (induction xs) auto
  show "sy_total (er_summary (build_report t suite outs meta)) = length outs" by (simp add: build_report_def Let_def)
  show "sy_failed_high (er_summary (build_report t suite outs meta))
     = length (filter (\<lambda>oc. co_severity oc = ''high'' \<and> \<not> list_all oc_passed (co_outcomes oc)) outs)"
    by (simp add: build_report_def Let_def filter_map comp_def report_of_def f conj_commute)
  show "sy_failed_medium (er_summary (build_report t suite outs meta))
     = length (filter (\<lambda>oc. co_severity oc = ''medium'' \<and> \<not> list_all oc_passed (co_outcomes oc)) outs)"
    by (simp add: build_report_def Let_def filter_map comp_def report_of_def f conj_commute)
qed

text \<open>A scenario counts as held when its turn was produced and every assertion of it passed.\<close>

definition scenario_holds :: "dumps \<Rightarrow> harness \<Rightarrow> scenario \<Rightarrow> bool" where
  "scenario_holds dumps agent s \<longleftrightarrow>
     (case run_scenario dumps agent s of Inl _ \<Rightarrow> False | Inr oc \<Rightarrow> list_all oc_passed (co_outcomes oc))"

lemma outcomes_hold:
  assumes "list_all2 (\<lambda>s oc. run_scenario dumps agent s = Inr oc) scenarios outcomes"
  shows "filter (\<lambda>oc. co_severity oc = v \<and> \<not> list_all oc_passed (co_outcomes oc)) outcomes = []
     \<longleftrightarrow> (\<forall>s \<in> set scenarios. sa_max_severity (sc_assertions s) = v \<longrightarrow> scenario_holds dumps agent s)"
  using assms
proof (induction rule: list_all2_induct)
  case (Cons s ss oc ocs)
  then have "co_severity oc = sa_max_severity (sc_assertions s)" by (auto simp: run_scenario_Inr)
  with Cons show ?case by (auto simp: scenario_holds_def)
qed simp

text \<open>C30.  When the gate returns a code, every selected scenario was run and evaluated, and the code is 0
  exactly when every high-severity scenario of the selection held.\<close>

theorem gate_exit_code:
  assumes "eval_main yaml dumps loads now_ms dir write argv fs = (Inr (exit_code, printed), fs')"
  shows "\<exists>a agent scenarios. parse_args argv = Inr a \<and> build_agent loads fs a = Inr agent
     \<and> select_scenarios yaml (ca_suite a) dir (ca_scenario_id a) (ca_slot a) = Inr scenarios
     \<and> (\<forall>s \<in> set scenarios. \<exists>oc. run_scenario dumps agent s = Inr oc) \<and> exit_code \<in> {0, 1}
     \<and> (exit_code = 0 \<longleftrightarrow> (\<forall>s \<in> set scenarios. sa_max_severity (sc_assertions s) = ''high''
           \<longrightarrow> scenario_holds dumps agent s))"
proof -
  from assms obtain a agent report path where a: "parse_args argv = Inr a" "build_agent loads fs a = Inr agent"
    and run: "run_suite yaml dumps now_ms dir agent \<lparr>rr_suite = ca_suite a, rr_scenario_id = ca_scenario_id a,
               rr_slot = ca_slot a, rr_meta = no_meta, rr_write = write\<rparr> fs = (Inr (report, path), fs')"
    and code: "exit_code = (if sy_failed_high (er_summary report) > 0 then 1 else 0)"
    by (auto simp: eval_main_def exn_simps split: sum.splits prod.splits)
  from run_suite_Inr [OF run] obtain scenarios outcomes where
      s: "select_scenarios yaml (ca_suite a) dir (ca_scenario_id a) (ca_slot a) = Inr scenarios"
    and all: "list_all2 (\<lambda>s oc. run_scenario dumps agent s = Inr oc) scenarios outcomes"
    and r: "report = build_report now_ms (ca_suite a) outcomes no_meta"
    by (metis run_request.select_convs(1,2,3,4))
  have "\<forall>s \<in> set scenarios. \<exists>oc. run_scenario dumps agent s = Inr oc"
    using all by (induction rule: list_all2_induct) auto
  with a s outcomes_hold [OF all, of "''high''"] show ?thesis
    by (intro exI [of _ a] exI [of _ agent] exI [of _ scenarios]) (simp add: code r report_summary)
qed

text \<open>The go-live gate of the email suite is green when there is nothing to check: without a
  directory of email scenarios the command exits with 0, whichever harness it is given.\<close>

theorem gate_passes_vacuously:
  assumes "load_base_mocks yaml dir = Inr identities" and "ed_email dir = None"
  shows "\<exists>printed. eval_main yaml dumps loads now_ms dir False [''--suite'', ''email_go_live''] fs = (Inr (0, printed), fs)"
  using assms
  by (simp add: eval_main_def parse_args_def SUITE_VALUES_def default_args_def build_agent_def run_suite_def
      select_scenarios_def load_suite_def scenario_files_for_def build_report_def exn_simps Let_def)

text \<open>A scenario that only forbids passes on the stub, which is meant to fail every scenario.\<close>

lemma stub_passes_prohibitions:
  assumes "sa_behavioral (sc_assertions s) = JNull" "sa_disclosure (sc_assertions s) = JNull"
    and "sa_memory (sc_assertions s) = JNull" "sa_text (sc_assertions s) = JNull"
    and "sa_tool (sc_assertions s) = JObj [(''forbidden_tools'', JList (map JObj forbidden))]"
  shows "scenario_holds dumps (\<lambda>s. Inr stub_turn) s"
proof -
  have "map_exn need_obj (map JObj forbidden) = Inr forbidden" by (simp add: map_exn_need_obj)
  with assms show ?thesis
    by (simp add: scenario_holds_def run_scenario_def evaluate_scenario_def when_present_def eval_tool_def need_obj_def
        py_iter_def or_else_def dict_simps exn_simps stub_turn_def outcome_def list_all_iff Let_def)
qed

text \<open>A recorded turn replays as the live one: the replay harness builds from the file the result that is
  built from the captured turn, and recording it leaves the other transcripts alone.\<close>

theorem replay_is_live:
  assumes "get_or turn ''final_response'' (JStr []) = JStr f" and "get_or turn ''messages'' (JList []) = JList (map JObj ms)"
    and "loads (dumps (Some 2) (JObj [(''final_response'', JStr f), (''messages'', JList (map JObj ms))]))
       = Some (JObj [(''final_response'', JStr f), (''messages'', JList (map JObj ms))])"
  shows "replay_turn loads dir (snd (record_turn dumps turn s dir fs)) s = build_scenario_turn_result loads s f ms
     \<and> (\<forall>s'. transcript_path dir s' \<noteq> transcript_path dir s
           \<longrightarrow> replay_turn loads dir (snd (record_turn dumps turn s dir fs)) s' = replay_turn loads dir fs s')"
proof -
  have o: "or_else (JStr f) (JStr []) = JStr f" "or_else (JList xs) (JList []) = JList xs" for xs
    by (simp_all add: or_else_def)
  have "map_exn need_obj (map JObj ms) = Inr ms" by (simp add: map_exn_need_obj)
  with assms show ?thesis
    by (simp add: record_turn_def replay_turn_def update_conv' o need_obj_def need_text_def py_iter_def
        dict_simps exn_simps Let_def)
qed

text \<open>C31.  The promotion gate of the datastore reads the report of the runner as it is meant: a run
  that carries it is promotable exactly when it is of the policy suite, no high-severity scenario failed, and the
  medium ones held or were signed off.\<close>

theorem report_gates_promotion:
  assumes "v_report r = report_dict (build_report now_ms suite outcomes meta)" and "length outcomes < 2 ^ 31"
  shows "promotable r = Inr (suite = ''policy_publish''
     \<and> (\<forall>oc \<in> set outcomes. co_severity oc = ''high'' \<longrightarrow> list_all oc_passed (co_outcomes oc))
     \<and> ((\<forall>oc \<in> set outcomes. co_severity oc = ''medium'' \<longrightarrow> list_all oc_passed (co_outcomes oc)) \<or> v_signed_off r)
     \<and> \<not> v_promoted r)"
proof -
  let ?r = "build_report now_ms suite outcomes meta"
  have suite: "er_suite ?r = suite" by (simp add: build_report_def Let_def)
  have signoff: "er_signoff_required (build_report now_ms u outcomes meta)
      \<longleftrightarrow> sy_failed_medium (er_summary (build_report now_ms u outcomes meta)) > 0" for u
    by (simp only: build_report_def Let_def eval_report.simps)
  have high: "sy_failed_high (er_summary ?r) = 0 \<longleftrightarrow>
      (\<forall>oc \<in> set outcomes. co_severity oc = ''high'' \<longrightarrow> list_all oc_passed (co_outcomes oc))"
    unfolding report_summary by (auto simp: filter_empty_conv)
  have medium: "sy_failed_medium (er_summary ?r) = 0 \<longleftrightarrow>
      (\<forall>oc \<in> set outcomes. co_severity oc = ''medium'' \<longrightarrow> list_all oc_passed (co_outcomes oc))"
    unfolding report_summary by (auto simp: filter_empty_conv)
  have "sy_failed_high (er_summary ?r) < 2 ^ 31"
    using assms(2) length_filter_le [of _ outcomes] unfolding report_summary by (rule order.strict_trans1 [rotated])
  then have "promotable r = Inr (suite = ''policy_publish'' \<and> sy_failed_high (er_summary ?r) = 0
      \<and> (sy_failed_medium (er_summary ?r) = 0 \<or> v_signed_off r) \<and> \<not> v_promoted r)"
    by (auto simp: promotable_def assms(1) report_dict_def failed_high_sql_def signoff_required_sql_def dict_simps exn_simps
        suite signoff pg_int_def pg_bool_def int4_def coalesce_def)
  then show ?thesis unfolding high medium .
qed

lemma single_override:
  assumes "apply_mock_overrides identities active [(''qbo'', JObj [(''email_links'', JObj [(k, st)])])] mc = Inr mc'"
    and "get identities k = JObj p" and "get p ''shopify_customer_id'' = JStr c"
  shows "mc_qbo_links mc' = AList.update c (normalize_email_link st) (mc_qbo_links mc)"
  using assms by (auto simp: apply_override_def need_obj_def set_link_def dict_simps exn_simps Let_def
      split: if_splits sum.splits json.splits)

text \<open>An override of the email link of the scenario's own customer reaches the gate of the
  accounting read: the read is allowed exactly when the override says \<^verbatim>\<open>linked\<close>.\<close>

theorem email_link_override_gates:
  assumes "resolve_scenario fixture identities file = Inr s"
    and "fx_mock_overrides fixture = [(''qbo'', JObj [(''email_links'', JObj [(fx_identity_preset fixture, st)])])]"
    and "get identities (fx_identity_preset fixture) = JObj p" and "get p ''shopify_customer_id'' = JStr c" and "c \<noteq> []"
    and "rq_tool request = QBO_READ_TOOL"
  shows "gd_allow (scenario_tool_gate s request (scenario_execution_context s)) \<longleftrightarrow> st = JStr ''linked''"
proof -
  have i: "build_session_identity p = [(''outcome'', JStr ''verified_customer''), (''shopify_customer_id'', JStr c),
      (''resolved_at'', JStr RESOLVED_AT)]"
    by (simp add: build_session_identity_def assms(4))
  from assms(1-3) i obtain active mc mc' where
      mc: "apply_mock_overrides identities active [(''qbo'', JObj [(''email_links'', JObj [(fx_identity_preset fixture, st)])])] mc = Inr mc'"
    and s: "sc_mock_context s = mc'" "sc_session_identity s = build_session_identity p"
    by (auto simp: resolve_scenario_def need_obj_def exn_simps Let_def simp del: apply_mock_overrides.simps)
  from single_override [OF mc assms(3,4)] have "map_of (mc_qbo_links mc') c = Some (normalize_email_link st)"
    by (simp add: update_conv')
  then show ?thesis using assms(5,6)
    by (simp add: scenario_tool_gate_def scenario_execution_context_def s i create_external_profile_gate_def
        verified_customer_id_def dict_simps gate_allow_def gate_deny_def normalize_email_link_def)
qed

section \<open>Samples\<close>

definition mark_shopify :: mock_context where
  "mark_shopify = \<lparr>mc_identity_links = [], mc_shopify = shopify_baseline_data, mc_qbo_links = [], mc_policy = [],
     mc_preferences = [], mc_domain_errors = [(''shopify'', ''unavailable'')]\<rparr>"

theorem forced_domain_fails_witness:
  "\<forall>fl ex c w. mock_driver_execute (build_scenario_registry fl ex mark_shopify)
       \<lparr>rq_tool = ''toee_shopify_read'', rq_action = ''get_order'', rq_params = []\<rparr> c w
     = (Inl (ToolDriverError Vendor_timeout ''shopify is temporarily unavailable (unavailable).''), w)"
proof (intro allI)
  fix fl ex c w
  have d: "distinct (map fst (mc_domain_errors mark_shopify))" by (simp add: mark_shopify_def)
  have i: "(''shopify'', ''unavailable'') \<in> set (mc_domain_errors mark_shopify)" by (simp add: mark_shopify_def)
  have t: "''toee_shopify_read'' \<in> set (tools_of_domain ''shopify'')" by (simp add: tools_of_domain_def DOMAIN_TOOLS_def)
  have a: "is_tool_action ''toee_shopify_read'' ''get_order''" by code_simp
  from conjunct1 [OF forced_domain_fails [OF d]] i t a
  show "mock_driver_execute (build_scenario_registry fl ex mark_shopify)
       \<lparr>rq_tool = ''toee_shopify_read'', rq_action = ''get_order'', rq_params = []\<rparr> c w
     = (Inl (ToolDriverError Vendor_timeout ''shopify is temporarily unavailable (unavailable).''), w)"
    by fastforce
qed

text \<open>An evaluation directory with one email scenario that expects a case.\<close>

definition sample_yaml :: yaml where
  "sample_yaml content =
     (if content = ''base'' then Inr (JObj [(''identities'', JObj [(''a'',
        JObj [(''shopify_customer_id'', JStr ''c1'')])])])
      else Inr (JObj [(''scenario_id'', JStr ''01''), (''title'', JStr ''t''), (''suite'', JStr ''email_go_live''),
        (''channel'', JStr ''email''), (''identity_preset'', JStr ''a''), (''turns'', JList [JObj [(''inbound'', JStr ''hi'')]]),
        (''mock_overrides'', JObj [(''qbo'', JObj [(''email_links'', JObj [(''a'', JStr ''failed'')])])]),
        (''assertions'', JObj [(''max_severity'', JStr ''high''), (''behavioral'', JObj [(''case_created'', JBool True)])])]))"

definition sample_dir :: eval_dir where
  "sample_dir = \<lparr>ed_path = ''/e'', ed_base = Some ''base'', ed_slot_map = None, ed_scenarios = Some [],
     ed_email = Some [(''01-case.yaml'', ''scenario'')]\<rparr>"

definition sample_run :: "(exn + int \<times> string list) \<times> files" where
  "sample_run = eval_main sample_yaml (\<lambda>_ _. []) (\<lambda>_. None) 0 sample_dir False [''--suite'', ''email_go_live''] []"

theorem gate_exit_code_witness:
  "\<exists>printed. sample_run = (Inr (1, printed), [])
     \<and> (\<exists>agent scenarios. select_scenarios sample_yaml ''email_go_live'' sample_dir None None = Inr scenarios
           \<and> (\<exists>s \<in> set scenarios. sa_max_severity (sc_assertions s) = ''high'' \<and> \<not> scenario_holds (\<lambda>_ _. []) agent s))"
proof -
  have c: "map_sum id fst (fst sample_run) = Inr 1" "snd sample_run = []" by code_simp+
  obtain res fs where e: "sample_run = (res, fs)" by fastforce
  have "map_sum id fst res = Inr 1" using c(1) unfolding e fst_conv .
  moreover have "fs = []" using c(2) unfolding e snd_conv .
  ultimately obtain printed where r: "sample_run = (Inr (1, printed), [])" using e by (cases res) auto
  from gate_exit_code [OF r [unfolded sample_run_def]] obtain a agent scenarios where
      a: "parse_args [''--suite'', ''email_go_live''] = Inr a"
    and s: "select_scenarios sample_yaml (ca_suite a) sample_dir (ca_scenario_id a) (ca_slot a) = Inr scenarios"
    and n: "\<not> (\<forall>s \<in> set scenarios. sa_max_severity (sc_assertions s) = ''high'' \<longrightarrow> scenario_holds (\<lambda>_ _. []) agent s)"
    by auto
  from a have "ca_suite a = ''email_go_live''" "ca_scenario_id a = None" "ca_slot a = None"
    by (auto simp: parse_args_def default_args_def SUITE_VALUES_def exn_simps split: if_splits)
  with s n r show ?thesis by auto
qed

theorem gate_passes_vacuously_witness:
  "\<exists>printed. eval_main sample_yaml (\<lambda>_ _. []) (\<lambda>_. None) 0 (sample_dir\<lparr>ed_email := None\<rparr>) False
     [''--suite'', ''email_go_live''] [] = (Inr (0, printed), [])"
proof (rule gate_passes_vacuously)
  show "load_base_mocks sample_yaml (sample_dir\<lparr>ed_email := None\<rparr>)
      = Inr [(''a'', JObj [(''shopify_customer_id'', JStr ''c1'')])]" by code_simp
qed simp

definition sample_scenario :: scenario where
  "sample_scenario = \<lparr>sc_scenario_id = ''01'', sc_title = ''t'', sc_suite = ''email_go_live'', sc_channel = ''email'',
     sc_identity_preset = ''a'', sc_session_identity = [], sc_turns = [], sc_assertions =
       \<lparr>sa_max_severity = ''high'', sa_behavioral = JNull, sa_tool = JNull, sa_disclosure = JNull, sa_text = JNull, sa_memory = JNull\<rparr>,
     sc_mock_context = mark_shopify, sc_source_file = ''f'', sc_memory_preset = None\<rparr>"

theorem replay_is_live_witness:
  "replay_turn (\<lambda>_. Some (JObj [(''final_response'', JStr ''Hi''), (''messages'', JList (map JObj []))])) ''/t''
       (snd (record_turn (\<lambda>_ _. ''doc'') [(''final_response'', JStr ''Hi''), (''messages'', JList (map JObj []))] sample_scenario ''/t'' []))
       sample_scenario
     = build_scenario_turn_result (\<lambda>_. Some (JObj [(''final_response'', JStr ''Hi''), (''messages'', JList (map JObj []))]))
         sample_scenario ''Hi'' []"
  by (rule conjunct1 [OF replay_is_live]) (simp_all add: dict_simps)

definition sample_row :: eval_run_row where
  "sample_row = \<lparr>v_id = ''run_1'', v_report = report_dict (build_report 0 ''policy_publish'' [] no_meta), v_signed_off = False,
     v_promoted = False, v_slot_key = None\<rparr>"

theorem report_gates_promotion_witness: "promotable sample_row = Inr True"
  using report_gates_promotion [of sample_row 0 "''policy_publish''" "[]" no_meta] by (simp add: sample_row_def)

theorem email_link_override_gates_witness:
  "\<exists>s. load_suite sample_yaml ''email_go_live'' sample_dir = Inr [s]
     \<and> \<not> gd_allow (scenario_tool_gate s \<lparr>rq_tool = QBO_READ_TOOL, rq_action = ''get_invoice'', rq_params = []\<rparr>
           (scenario_execution_context s))"
proof -
  let ?ids = "[(''a'', JObj [(''shopify_customer_id'', JStr ''c1'')])]" and ?file = "''/e/scenarios/email/01-case.yaml''"
  define fx where "fx = projr (parse_scenario_content sample_yaml ''scenario'' ?file)"
  have p: "resolve_scenario fx ?ids ?file = Inr (projr (resolve_scenario fx ?ids ?file))"
    unfolding fx_def by code_simp
  have o: "fx_mock_overrides fx = [(''qbo'', JObj [(''email_links'', JObj [(fx_identity_preset fx, JStr ''failed'')])])]"
      "fx_identity_preset fx = ''a''"
    unfolding fx_def by code_simp+
  have l: "load_suite sample_yaml ''email_go_live'' sample_dir = Inr [projr (resolve_scenario fx ?ids ?file)]"
    unfolding fx_def by code_simp
  have "\<not> gd_allow (scenario_tool_gate (projr (resolve_scenario fx ?ids ?file))
      \<lparr>rq_tool = QBO_READ_TOOL, rq_action = ''get_invoice'', rq_params = []\<rparr>
      (scenario_execution_context (projr (resolve_scenario fx ?ids ?file))))"
    using email_link_override_gates [OF p o(1), of "[(''shopify_customer_id'', JStr ''c1'')]" "''c1''"
        "\<lparr>rq_tool = QBO_READ_TOOL, rq_action = ''get_invoice'', rq_params = []\<rparr>"]
    by (simp add: o(2) dict_simps)
  with l show ?thesis by blast
qed

end
