(* ===== verification/Recording.thy ===== *)
theory Recording
  imports EvalGate CopilotTurn Composition
begin

text \<open>
  Recording of evaluation turns: the scripted provider of \<^verbatim>\<open>live.py\<close>, the table through which \<^verbatim>\<open>scripted_eval.py\<close>
  hands completions to the worker and the turn back, the boot of \<^verbatim>\<open>boot_profile_eval\<close>, \<^verbatim>\<open>eval_record.py\<close> and
  \<^verbatim>\<open>copilot_eval_record.py\<close>, and the env file of \<^verbatim>\<open>record_eval.py\<close>.  The agent loop is a parameter.
\<close>

section \<open>live.py: the scripted provider\<close>

record completion_call =
  cl_id :: string
  cl_name :: string
  cl_arguments :: string

text \<open>The message of a \<^verbatim>\<open>ChatCompletion\<close>: a final text or the calls it asks for.\<close>

datatype completion = Text_completion string | Tool_calls_completion "completion_call list"

definition call_from_spec :: "dumps \<Rightarrow> nat \<times> json \<Rightarrow> exn + completion_call" where
  "call_from_spec dumps entry =
     (case entry of (index, spec) \<Rightarrow>
      ebind (need_obj spec) (\<lambda>d. ebind (item d ''name'') (\<lambda>name.
      case or_else (get d ''id'') (JStr (''call_'' @ show_nat index)) of
        JStr call_id \<Rightarrow> Inr \<lparr>cl_id = call_id, cl_name = py_str name,
            cl_arguments = dumps None (or_else (get d ''arguments'') (JObj []))\<rparr>
      | _ \<Rightarrow> Inl (PyError ''ValidationError'' ''Input should be a valid string''))))"

definition tool_calls_completion :: "dumps \<Rightarrow> json \<Rightarrow> exn + completion" where
  "tool_calls_completion dumps tool_calls =
     ebind (py_iter tool_calls) (\<lambda>specs. ebind (map_exn (call_from_spec dumps) (enumerate 0 specs)) (\<lambda>calls.
     Inr (Tool_calls_completion calls)))"

definition completion_from_spec :: "dumps \<Rightarrow> json \<Rightarrow> exn + completion" where
  "completion_from_spec dumps spec =
     ebind (need_obj spec) (\<lambda>d.
     if get d ''tool_calls'' \<noteq> JNull then tool_calls_completion dumps (get d ''tool_calls'')
     else Inr (Text_completion (py_str (get_or d ''content'' (JStr [])))))"

definition scripted_queue :: "dumps \<Rightarrow> json list \<Rightarrow> exn + completion list" where
  "scripted_queue dumps completions = map_exn (completion_from_spec dumps) completions"

text \<open>\<^verbatim>\<open>chat.completions.create\<close> of every client over one queue.\<close>

fun scripted_create :: "completion list \<Rightarrow> (exn + completion) \<times> completion list" where
  "scripted_create [] = (Inl (PyError ''RuntimeError'' ''scripted completions exhausted''), [])"
| "scripted_create (c # queue) = (Inr c, queue)"

section \<open>scripted_eval.py: the completions of a transcript\<close>

definition spec_from_call :: "loads \<Rightarrow> json \<Rightarrow> exn + json" where
  "spec_from_call loads call =
     ebind (need_obj call) (\<lambda>tc. ebind (need_obj (or_else (get tc ''function'') (JObj []))) (\<lambda>fn.
     let args = (case get fn ''arguments'' of
           JStr raw \<Rightarrow> (case loads raw of Some v \<Rightarrow> v | None \<Rightarrow> JObj [])
         | raw \<Rightarrow> or_else raw (JObj [])) in
     Inr (JObj [(''name'', or_else (get fn ''name'') (JStr [])), (''arguments'', args)])))"

definition spec_from_message :: "loads \<Rightarrow> dict \<Rightarrow> exn + json" where
  "spec_from_message loads msg =
     (if truthy (get msg ''tool_calls'')
      then ebind (py_iter (get msg ''tool_calls'')) (\<lambda>calls. ebind (map_exn (spec_from_call loads) calls) (\<lambda>specs.
           Inr (JObj [(''tool_calls'', JList specs)])))
      else Inr (JObj [(''content'', or_else (get msg ''content'') (JStr []))]))"

definition scripted_completions_from_transcript :: "loads \<Rightarrow> dict list \<Rightarrow> exn + json list" where
  "scripted_completions_from_transcript loads messages =
     map_exn (spec_from_message loads) (filter (\<lambda>msg. get msg ''role'' = JStr ''assistant'') messages)"

section \<open>scripted_eval.py: the handshake table\<close>

record scripted_row =
  sr_event_id :: string
  sr_suite :: string
  sr_scenario_id :: string
  sr_completions :: "json list"
  sr_captured :: "json option"
  sr_created_at :: int
  sr_captured_at :: "int option"

definition seed_scripted_turn ::
  "int \<Rightarrow> string \<Rightarrow> string \<Rightarrow> string \<Rightarrow> json list \<Rightarrow> scripted_row list \<Rightarrow> scripted_row list" where
  "seed_scripted_turn clock event_id suite scenario_id completions rows =
     (let seeded = \<lparr>sr_event_id = event_id, sr_suite = suite, sr_scenario_id = scenario_id, sr_completions = completions,
                    sr_captured = None, sr_created_at = clock, sr_captured_at = None\<rparr> in
      if event_id \<in> sr_event_id ` set rows then map (\<lambda>r. if sr_event_id r = event_id then seeded else r) rows
      else rows @ [seeded])"

definition load_scripted_turn :: "string \<Rightarrow> scripted_row list \<Rightarrow> (string \<times> string \<times> json list) option" where
  "load_scripted_turn event_id rows =
     map_option (\<lambda>r. (sr_suite r, sr_scenario_id r, sr_completions r)) (List.find (\<lambda>r. sr_event_id r = event_id) rows)"

definition save_captured_turn :: "int \<Rightarrow> string \<Rightarrow> dict \<Rightarrow> scripted_row list \<Rightarrow> scripted_row list" where
  "save_captured_turn clock event_id captured rows =
     map (\<lambda>r. if sr_event_id r = event_id then r\<lparr>sr_captured := Some (JObj captured), sr_captured_at := Some clock\<rparr> else r) rows"

definition load_captured_turn :: "string \<Rightarrow> scripted_row list \<Rightarrow> json option" where
  "load_captured_turn event_id rows =
     (case List.find (\<lambda>r. sr_event_id r = event_id \<and> sr_captured r \<noteq> None) rows of None \<Rightarrow> None | Some r \<Rightarrow> sr_captured r)"

section \<open>boot.py: the boot of an evaluation turn\<close>

text \<open>\<^verbatim>\<open>register_eval\<close> in a fresh plugin context; \<open>eb_hook\<close> is the \<^verbatim>\<open>pre_llm_call\<close> hook it registers.\<close>

record eval_boot =
  eb_tool_names :: "string list"
  eb_driver :: "mock_world driver"
  eb_gate :: gate
  eb_context :: "dict \<Rightarrow> ctx"
  eb_hook :: "string option \<Rightarrow> dict option"

definition boot_profile_eval ::
  "string \<Rightarrow> string option \<Rightarrow> string \<Rightarrow> mock_world driver \<Rightarrow> gate \<Rightarrow> dict option \<Rightarrow> exn + eval_boot" where
  "boot_profile_eval dash env_profile prof drv gt ident =
     ebind (registered_tools (Some prof) env_profile) (\<lambda>entries.
     Inr \<lparr>eb_tool_names = sort (map (\<lambda>e. se_name e) entries), eb_driver = drv, eb_gate = gt,
          eb_context = context_provider prof (map_option JObj ident) None None,
          eb_hook = pre_llm_call_hook dash (map_option (\<lambda>snapshot session_id. Inr (Some snapshot)) ident) None\<rparr>)"

definition create_scenario_driver :: "'f floats \<Rightarrow> exec_env \<Rightarrow> mock_context \<Rightarrow> mock_world driver" where
  "create_scenario_driver fl ex mc = \<lparr>kind = ''mock'', exec = mock_driver_execute (build_scenario_registry fl ex mc)\<rparr>"

text \<open>What the recorders are given: the files of the evaluation, the codecs, the clock, the framework's agent and its tools.\<close>

record ('f, 'w) recorder =
  rc_env :: environ
  rc_dash :: string
  rc_yaml :: yaml
  rc_dir :: eval_dir
  rc_loads :: loads
  rc_dumps :: dumps
  rc_floats :: "'f floats"
  rc_exec :: exec_env
  rc_clock :: int
  rc_builtins :: "string list"
  rc_agent :: "eval_boot \<Rightarrow> agent_run \<Rightarrow> 'w \<Rightarrow> (exn + captured_turn) \<times> 'w"

definition boot_scenario :: "('f, 'w) recorder \<Rightarrow> scenario \<Rightarrow> exn + eval_boot" where
  "boot_scenario rc s = boot_profile_eval (rc_dash rc) (rc_env rc ''TOEE_HERMES_PROFILE'') EXTERNAL
     (create_scenario_driver (rc_floats rc) (rc_exec rc) (sc_mock_context s)) (scenario_tool_gate s) (Some (sc_session_identity s))"

section \<open>eval_record.py: the message of a scenario\<close>

fun turn_text :: "inbound \<Rightarrow> string" where
  "turn_text (Sms s) = s"
| "turn_text (Email body subj) = (if falsy subj then body else ''Subject: '' @ the subj @ nl @ nl @ body)"

definition injected_context :: "string \<Rightarrow> scenario \<Rightarrow> string option" where
  "injected_context dash s = render_injection dash (Some (sc_session_identity s))
     (Some (map (\<lambda>(slot, v). [(''slot'', JStr slot), (''value'', v)]) (or_nil (sc_memory_preset s)))) None"

definition joined_turns :: "scenario \<Rightarrow> string" where
  "joined_turns s = join_with (nl @ nl) (map turn_text (sc_turns s))"

definition scenario_user_message :: "string \<Rightarrow> scenario \<Rightarrow> string" where
  "scenario_user_message dash s = with_injection (injected_context dash s) (joined_turns s)"

section \<open>The runs\<close>

definition turn_dict :: "captured_turn \<Rightarrow> dict" where
  "turn_dict t = [(''final_response'', JStr (or_nil (ct_final_response t))), (''messages'', JList (map JObj (ct_messages t)))]"

text \<open>The tools of the framework stay callable; no system message is the empty text.\<close>

definition eval_agent_run :: "('f, 'w) recorder \<Rightarrow> eval_boot \<Rightarrow> string \<Rightarrow> string \<Rightarrow> string \<Rightarrow> nat \<Rightarrow> provider
     \<Rightarrow> string option \<Rightarrow> string \<Rightarrow> agent_run" where
  "eval_agent_run rc b base_url api_key model max_iterations provider sys_message user_message =
     \<lparr>an_base_url = base_url, an_api_key = api_key, an_model = model, an_max_iterations = max_iterations,
      an_provider = provider, an_valid_tool_names = valid_tool_names (rc_builtins rc) (eb_tool_names b) False,
      an_system_message = or_nil sys_message, an_user_message = user_message\<rparr>"

definition run_eval_agent ::
  "('f, 'w) recorder \<Rightarrow> eval_boot \<Rightarrow> agent_run \<Rightarrow> 'w \<Rightarrow> (exn + captured_turn) \<times> 'w" where
  "run_eval_agent rc b run w =
     (case rc_agent rc b run w of
        (Inl e, w') \<Rightarrow> (Inl e, w')
      | (Inr t, w') \<Rightarrow> (Inr (t\<lparr>ct_final_response := Some (or_nil (ct_final_response t))\<rparr>), w'))"

text \<open>\<^verbatim>\<open>run_scripted_agent\<close>: the queue of completions is built before the agent starts.\<close>

definition run_scripted_eval ::
  "('f, 'w) recorder \<Rightarrow> eval_boot \<Rightarrow> string \<Rightarrow> json list \<Rightarrow> 'w \<Rightarrow> (exn + captured_turn) \<times> 'w" where
  "run_scripted_eval rc b user_message completions w =
     (case scripted_queue (rc_dumps rc) completions of
        Inl e \<Rightarrow> (Inl e, w)
      | Inr _ \<Rightarrow> run_eval_agent rc b (eval_agent_run rc b ''http://eval.invalid/v1'' ''sk-eval-fake'' ''eval-fake-model''
            (max 1 (length completions)) (Scripted completions) None user_message) w)"

record 'w recording =
  rg_rows :: "scripted_row list"
  rg_files :: files
  rg_world :: 'w

definition load_and_boot :: "('f, 'w) recorder \<Rightarrow> string \<Rightarrow> string \<Rightarrow> exn + scenario \<times> eval_boot" where
  "load_and_boot rc suite scenario_id =
     ebind (load_scenario (rc_yaml rc) suite scenario_id (rc_dir rc)) (\<lambda>s. ebind (boot_scenario rc s) (\<lambda>b. Inr (s, b)))"

definition scripted_eval_run_turn ::
  "('f, 'w) recorder \<Rightarrow> string option \<Rightarrow> string \<Rightarrow> 'w recording \<Rightarrow> (exn + captured_turn) \<times> 'w recording" where
  "scripted_eval_run_turn rc record_dir event_id g =
     (case load_scripted_turn event_id (rg_rows g) of
        None \<Rightarrow> (Inl (PyError ''ScriptedTurnNotSeeded'' (''no scripted_eval_turn row for event_id='' @ repr_str event_id
            @ ''; the harness must seed completions before POSTing the inbound.'')), g)
      | Some (suite, scenario_id, completions) \<Rightarrow>
          (case load_and_boot rc suite scenario_id of
             Inl e \<Rightarrow> (Inl e, g)
           | Inr (s, b) \<Rightarrow>
               (case run_scripted_eval rc b (scenario_user_message (rc_dash rc) s) completions (rg_world g) of
                  (Inl e, w') \<Rightarrow> (Inl e, g\<lparr>rg_world := w'\<rparr>)
                | (Inr t, w') \<Rightarrow>
                    (Inr t, \<lparr>rg_rows = save_captured_turn (rc_clock rc) event_id (turn_dict t) (rg_rows g),
                       rg_files = (case record_dir of None \<Rightarrow> rg_files g
                         | Some dir \<Rightarrow> snd (record_turn (rc_dumps rc) (turn_dict t) s dir (rg_files g))),
                       rg_world = w'\<rparr>))))"

section \<open>eval_record.py: recording a suite\<close>

text \<open>The model boundary: the user message, the system message and the booted profile.\<close>

type_synonym 'w run_turn = "string \<Rightarrow> string option \<Rightarrow> eval_boot \<Rightarrow> 'w \<Rightarrow> (exn + captured_turn) \<times> 'w"

definition record_scenario_turn ::
  "('f, 'w) recorder \<Rightarrow> 'w run_turn \<Rightarrow> string \<Rightarrow> string option \<Rightarrow> scenario \<Rightarrow> files \<Rightarrow> 'w
     \<Rightarrow> (exn + string \<times> turn_view) \<times> files \<times> 'w" where
  "record_scenario_turn rc run_turn transcripts_dir sys_message s fs w =
     (case boot_scenario rc s of
        Inl e \<Rightarrow> (Inl e, fs, w)
      | Inr b \<Rightarrow>
          (case run_turn (scenario_user_message (rc_dash rc) s) sys_message b w of
             (Inl e, w') \<Rightarrow> (Inl e, fs, w')
           | (Inr t, w') \<Rightarrow>
               (case record_turn (rc_dumps rc) (turn_dict t) s transcripts_dir fs of (path, fs') \<Rightarrow>
                  (ebind (build_scenario_turn_result (rc_loads rc) s (or_nil (ct_final_response t)) (ct_messages t))
                     (\<lambda>result. Inr (path, result)), fs', w'))))"

record recorded_scenario =
  rs_scenario_id :: string
  rs_path :: string
  rs_result :: turn_view

text \<open>\<^verbatim>\<open>sid.zfill(2)\<close>\<close>

definition zfill2 :: "string \<Rightarrow> string" where
  "zfill2 s = (case s of
      [] \<Rightarrow> ''00''
    | [c] \<Rightarrow> (if c = CHR ''+'' \<or> c = CHR ''-'' then [c, CHR ''0''] else [CHR ''0'', c])
    | _ \<Rightarrow> s)"

definition wanted :: "string list option \<Rightarrow> scenario \<Rightarrow> bool" where
  "wanted scenario_ids s = (case scenario_ids of None \<Rightarrow> True
     | Some ids \<Rightarrow> zfill2 (sc_scenario_id s) \<in> zfill2 ` set ids)"

fun record_scenarios ::
  "('f, 'w) recorder \<Rightarrow> 'w run_turn \<Rightarrow> string \<Rightarrow> string option \<Rightarrow> scenario list \<Rightarrow> files \<Rightarrow> 'w
     \<Rightarrow> (exn + recorded_scenario list) \<times> files \<times> 'w" where
  "record_scenarios rc run_turn dir sys_message [] fs w = (Inr [], fs, w)"
| "record_scenarios rc run_turn dir sys_message (s # ss) fs w =
     (case record_scenario_turn rc run_turn dir sys_message s fs w of
        (Inl e, fs', w') \<Rightarrow> (Inl e, fs', w')
      | (Inr (path, result), fs', w') \<Rightarrow>
          (case record_scenarios rc run_turn dir sys_message ss fs' w' of
             (Inl e, fs2, w2) \<Rightarrow> (Inl e, fs2, w2)
           | (Inr rs, fs2, w2) \<Rightarrow>
               (Inr (\<lparr>rs_scenario_id = sc_scenario_id s, rs_path = path, rs_result = result\<rparr> # rs), fs2, w2)))"

definition record_suite ::
  "('f, 'w) recorder \<Rightarrow> string \<Rightarrow> 'w run_turn \<Rightarrow> string \<Rightarrow> string option \<Rightarrow> string list option \<Rightarrow> files \<Rightarrow> 'w
     \<Rightarrow> (exn + recorded_scenario list) \<times> files \<times> 'w" where
  "record_suite rc suite run_turn dir sys_message scenario_ids fs w =
     (case load_suite (rc_yaml rc) suite (rc_dir rc) of
        Inl e \<Rightarrow> (Inl e, fs, w)
      | Inr ss \<Rightarrow> record_scenarios rc run_turn dir sys_message (filter (wanted scenario_ids) ss) fs w)"

definition openrouter_record_run :: "('f, 'w) recorder \<Rightarrow> nat \<Rightarrow> 'w run_turn" where
  "openrouter_record_run rc max_iterations user_message sys_message b w =
     (case resolve_openrouter_config (rc_env rc) of
        Inl e \<Rightarrow> (Inl e, w)
      | Inr config \<Rightarrow> run_eval_agent rc b (eval_agent_run rc b (oc_base_url config) (oc_api_key config) (oc_model config)
            max_iterations (Fallback_client (oc_fallback_model config)) sys_message user_message) w)"

section \<open>copilot_eval_record.py\<close>

text \<open>The values of the preset are printed by the draft turn; the missing operations are those the turn does not call.\<close>

definition scenario_case_store :: "scenario \<Rightarrow> 'w turn_store" where
  "scenario_case_store s =
     \<lparr>ts_memory = (\<lambda>binding_key w. Inr (map (\<lambda>(slot, v). (slot, py_str v)) (or_nil (sc_memory_preset s)))),
      ts_merge = (\<lambda>source_key verified_key w. (Inl attribute_error, w)), ts_linked = None,
      ts_case_identity = (\<lambda>case_id w. Inr (Some (JObj (sc_session_identity s)))), ts_experience = None\<rparr>"

definition record_copilot_scenario_turn ::
  "'w deployment \<Rightarrow> loads \<Rightarrow> dumps \<Rightarrow> 'w enqueuer \<Rightarrow> string \<Rightarrow> string \<Rightarrow> json list option \<Rightarrow> scenario \<Rightarrow> files \<Rightarrow> 'w
     \<Rightarrow> (exn + string \<times> turn_view) \<times> files \<times> 'w" where
  "record_copilot_scenario_turn dp loads dumps queue transcripts_dir channel scripted s fs w =
     (case copilot_run_turn dp loads queue scripted (Some (scenario_case_store s)) channel (''eval-'' @ sc_scenario_id s)
             (Some (joined_turns s)) w of
        (Inl e, w') \<Rightarrow> (Inl e, fs, w')
      | (Inr turn, w') \<Rightarrow>
          (let draft = get_or turn ''draft'' (JStr []); ms = get_or turn ''messages'' (JList []) in
           case record_turn dumps [(''final_response'', draft), (''messages'', ms)] s transcripts_dir fs of (path, fs') \<Rightarrow>
             (ebind (need_text (or_else draft (JStr []))) (\<lambda>final_response.
              ebind (py_iter (or_else ms (JList []))) (\<lambda>entries. ebind (map_exn need_obj entries) (\<lambda>messages.
              ebind (build_scenario_turn_result loads s final_response messages) (\<lambda>result. Inr (path, result))))), fs', w')))"

section \<open>record_eval.py: the env file\<close>

definition unquoted :: "char \<Rightarrow> string \<Rightarrow> string" where
  "unquoted c s = rstrip_by (\<lambda>x. x = c) (lstrip_by (\<lambda>x. x = c) s)"

definition env_line :: "string \<Rightarrow> (string \<times> string) option" where
  "env_line raw =
     (let line = py_strip raw in
      if line = [] \<or> starts_with line ''#'' \<or> CHR ''='' \<notin> set line then None
      else (let key = py_strip (takeWhile (\<lambda>c. c \<noteq> CHR ''='') line);
                v = unquoted (CHR 0x27) (unquoted (CHR 0x22) (py_strip (drop 1 (dropWhile (\<lambda>c. c \<noteq> CHR ''='') line)))) in
            if key = [] then None else Some (key, v)))"

text \<open>\<open>content\<close> is the text of the file, when there is one; the second result is the environment after it.\<close>

definition load_env_file :: "string option \<Rightarrow> environ \<Rightarrow> (string \<times> string) list \<times> environ" where
  "load_env_file content env =
     (case content of
        None \<Rightarrow> ([], env)
      | Some t \<Rightarrow> (let entries = List.map_filter env_line (splitlines t) in
          (fold (\<lambda>(k, v). AList.update k v) entries [], fold (\<lambda>(k, v) e. setdefault e k v) entries env)))"

section \<open>advisory.py and judge_eval.py\<close>

definition judge_scenario_leg ::
  "string \<Rightarrow> loads \<Rightarrow> environ \<Rightarrow> 's judge_client \<Rightarrow> scenario \<Rightarrow> turn_view \<Rightarrow> string \<Rightarrow> string option \<Rightarrow> 's
     \<Rightarrow> (exn + judge_verdict) \<times> 's" where
  "judge_scenario_leg dash ld env client s result leg model w =
     judge_reply dash ld env client (tv_outbound_text result) leg
       (map_option (map (\<lambda>(slot, v). (slot, py_str v))) (sc_memory_preset s)) model w"

text \<open>One completion without tools; \<open>call\<close> is the exchange with the provider.\<close>

definition openrouter_judge_client :: "(string \<Rightarrow> string \<Rightarrow> 's \<Rightarrow> (exn + string option) \<times> 's) \<Rightarrow> 's judge_client" where
  "openrouter_judge_client call = \<lparr>jc_complete = (\<lambda>prompt model w.
     case call prompt model w of (r, w') \<Rightarrow> (map_sum id or_nil r, w'))\<rparr>"

text \<open>The loop of \<^verbatim>\<open>judge_eval.main\<close>: the verdicts it prints, and how it ends.\<close>

fun judge_scenarios ::
  "('f, 'w) recorder \<Rightarrow> 's judge_client \<Rightarrow> string \<Rightarrow> string \<Rightarrow> string \<Rightarrow> string \<Rightarrow> string list \<Rightarrow> files \<Rightarrow> 's
     \<Rightarrow> (string \<times> judge_verdict) list \<times> exn option \<times> 's" where
  "judge_scenarios rc client suite leg model dir [] fs w = ([], None, w)"
| "judge_scenarios rc client suite leg model dir (scenario_id # ids) fs w =
     (case ebind (load_scenario (rc_yaml rc) suite scenario_id (rc_dir rc)) (\<lambda>s.
           ebind (replay_turn (rc_loads rc) dir fs s) (\<lambda>result. Inr (s, result))) of
        Inl e \<Rightarrow> ([], Some e, w)
      | Inr (s, result) \<Rightarrow>
          (case judge_scenario_leg (rc_dash rc) (rc_loads rc) (rc_env rc) client s result leg (Some model) w of
             (Inl e, w') \<Rightarrow> ([], Some e, w')
           | (Inr verdict, w') \<Rightarrow>
               (case judge_scenarios rc client suite leg model dir ids fs w' of
                  (printed, e, w2) \<Rightarrow> ((sc_scenario_id s, verdict) # printed, e, w2))))"

section \<open>Completions of a transcript\<close>

text \<open>
  An assistant message as the agent records it: a text, or calls of named functions whose arguments are a text, perhaps
  with a text beside them; its other fields do not matter.
\<close>

definition recorded_call :: "json \<Rightarrow> bool" where
  "recorded_call j \<longleftrightarrow> (\<exists>tc f name args. j = JObj tc \<and> get tc ''function'' = JObj f
     \<and> get f ''name'' = JStr name \<and> get f ''arguments'' = JStr args)"

definition recorded_message :: "dict \<Rightarrow> bool" where
  "recorded_message m \<longleftrightarrow>
     (\<exists>calls. get m ''tool_calls'' = JList calls \<and> calls \<noteq> [] \<and> list_all recorded_call calls)
     \<or> get m ''tool_calls'' \<in> {JNull, JList []} \<and> (get m ''content'' = JNull \<or> (\<exists>t. get m ''content'' = JStr t))"

text \<open>
  What a message stands for: its calls in order, numbered afresh, each with the name and the value of its arguments (an
  empty object for a text that is no JSON or an empty value), or else its text.
\<close>

definition argument_value :: "loads \<Rightarrow> string \<Rightarrow> json" where
  "argument_value loads args = (case loads args of None \<Rightarrow> JObj [] | Some v \<Rightarrow> if truthy v then v else JObj [])"

definition same_call :: "loads \<Rightarrow> dumps \<Rightarrow> nat \<times> json \<Rightarrow> completion_call \<Rightarrow> bool" where
  "same_call loads dumps entry cl \<longleftrightarrow> cl_id cl = ''call_'' @ show_nat (fst entry)
     \<and> (\<exists>tc f args. snd entry = JObj tc \<and> get tc ''function'' = JObj f \<and> get f ''name'' = JStr (cl_name cl)
          \<and> get f ''arguments'' = JStr args \<and> cl_arguments cl = dumps None (argument_value loads args))"

definition stands_for :: "loads \<Rightarrow> dumps \<Rightarrow> dict \<Rightarrow> completion \<Rightarrow> bool" where
  "stands_for loads dumps m c \<longleftrightarrow>
     (case get m ''tool_calls'' of
        JList (x # xs) \<Rightarrow> (\<exists>cs. c = Tool_calls_completion cs \<and> list_all2 (same_call loads dumps) (enumerate 0 (x # xs)) cs)
      | _ \<Rightarrow> c = Text_completion (case get m ''content'' of JStr t \<Rightarrow> t | _ \<Rightarrow> []))"

lemma spec_from_recorded_call:
  assumes "recorded_call j"
  shows "\<exists>spec. spec_from_call loads j = Inr spec
     \<and> (\<forall>n. \<exists>cl. call_from_spec dumps (n, spec) = Inr cl \<and> same_call loads dumps (n, j) cl)"
proof -
  from assms obtain tc f name args where j: "j = JObj tc" "get tc ''function'' = JObj f" "get f ''name'' = JStr name"
    "get f ''arguments'' = JStr args" by (auto simp: recorded_call_def)
  from j(3) have "f \<noteq> []" by (auto simp: dict_simps)
  let ?v = "case loads args of Some v \<Rightarrow> v | None \<Rightarrow> JObj []"
  let ?spec = "JObj [(''name'', JStr name), (''arguments'', ?v)]"
  have "spec_from_call loads j = Inr ?spec"
    using \<open>f \<noteq> []\<close> by (simp add: spec_from_call_def need_obj_def or_else_def j exn_simps Let_def)
  moreover have "call_from_spec dumps (n, ?spec)
      = Inr \<lparr>cl_id = ''call_'' @ show_nat n, cl_name = name, cl_arguments = dumps None (argument_value loads args)\<rparr>" for n
    by (simp add: call_from_spec_def need_obj_def item_def dict_simps or_else_def exn_simps argument_value_def split: option.split)
  ultimately show ?thesis by (auto simp: same_call_def j)
qed

lemma specs_from_recorded_calls:
  assumes "list_all recorded_call calls"
  shows "\<exists>specs. map_exn (spec_from_call loads) calls = Inr specs
     \<and> (\<forall>n. \<exists>cls. map_exn (call_from_spec dumps) (enumerate n specs) = Inr cls
           \<and> list_all2 (same_call loads dumps) (enumerate n calls) cls)"
  using assms
proof (induction calls)
  case (Cons j calls)
  then obtain specs where rest: "map_exn (spec_from_call loads) calls = Inr specs"
    "\<And>n. \<exists>cls. map_exn (call_from_spec dumps) (enumerate n specs) = Inr cls
        \<and> list_all2 (same_call loads dumps) (enumerate n calls) cls" by auto
  from Cons.prems spec_from_recorded_call obtain spec where s: "spec_from_call loads j = Inr spec"
    "\<And>n. \<exists>cl. call_from_spec dumps (n, spec) = Inr cl \<and> same_call loads dumps (n, j) cl" by (metis list.pred_inject(2))
  show ?case
  proof (intro exI [of _ "spec # specs"] conjI allI)
    show "map_exn (spec_from_call loads) (j # calls) = Inr (spec # specs)" by (simp add: s(1) rest(1) exn_simps)
    fix n
    from s(2) [of n] rest(2) [of "Suc n"] show "\<exists>cls. map_exn (call_from_spec dumps) (enumerate n (spec # specs)) = Inr cls
        \<and> list_all2 (same_call loads dumps) (enumerate n (j # calls)) cls" by (auto simp: exn_simps)
  qed
qed simp

lemma spec_from_recorded_message:
  assumes "recorded_message m"
  shows "\<exists>spec c. spec_from_message loads m = Inr spec \<and> completion_from_spec dumps spec = Inr c \<and> stands_for loads dumps m c"
  using assms unfolding recorded_message_def
proof (elim disjE exE conjE)
  fix calls
  assume c: "get m ''tool_calls'' = JList calls" "calls \<noteq> []" "list_all recorded_call calls"
  from specs_from_recorded_calls [OF c(3)] obtain specs cls where s: "map_exn (spec_from_call loads) calls = Inr specs"
    "map_exn (call_from_spec dumps) (enumerate 0 specs) = Inr cls" "list_all2 (same_call loads dumps) (enumerate 0 calls) cls" by blast
  have "spec_from_message loads m = Inr (JObj [(''tool_calls'', JList specs)])"
    using c(2) s(1) by (simp add: spec_from_message_def c(1) py_iter_def exn_simps)
  moreover have "completion_from_spec dumps (JObj [(''tool_calls'', JList specs)]) = Inr (Tool_calls_completion cls)"
    using s(2) by (simp add: completion_from_spec_def tool_calls_completion_def need_obj_def dict_simps py_iter_def exn_simps)
  moreover have "stands_for loads dumps m (Tool_calls_completion cls)"
    using c(1,2) s(3) by (cases calls) (simp_all add: stands_for_def)
  ultimately show ?thesis by blast
next
  assume c: "get m ''tool_calls'' \<in> {JNull, JList []}" "get m ''content'' = JNull"
  then have "spec_from_message loads m = Inr (JObj [(''content'', JStr [])])"
    by (auto simp: spec_from_message_def or_else_def)
  moreover have "completion_from_spec dumps (JObj [(''content'', JStr [])]) = Inr (Text_completion [])"
    by (simp add: completion_from_spec_def need_obj_def dict_simps get_or_def exn_simps)
  moreover have "stands_for loads dumps m (Text_completion [])" using c by (auto simp: stands_for_def)
  ultimately show ?thesis by blast
next
  fix t
  assume c: "get m ''tool_calls'' \<in> {JNull, JList []}" "get m ''content'' = JStr t"
  then have "spec_from_message loads m = Inr (JObj [(''content'', JStr t)])"
    by (auto simp: spec_from_message_def or_else_def)
  moreover have "completion_from_spec dumps (JObj [(''content'', JStr t)]) = Inr (Text_completion t)"
    by (simp add: completion_from_spec_def need_obj_def dict_simps get_or_def exn_simps)
  moreover have "stands_for loads dumps m (Text_completion t)" using c by (auto simp: stands_for_def)
  ultimately show ?thesis by blast
qed

lemma completions_reseed:
  assumes "list_all recorded_message ms"
  shows "\<exists>specs cs. map_exn (spec_from_message loads) ms = Inr specs
     \<and> scripted_queue dumps specs = Inr cs \<and> list_all2 (stands_for loads dumps) ms cs"
  using assms
proof (induction ms)
  case (Cons m ms)
  then obtain specs cs where "map_exn (spec_from_message loads) ms = Inr specs" "scripted_queue dumps specs = Inr cs"
    "list_all2 (stands_for loads dumps) ms cs" by auto
  moreover from Cons.prems spec_from_recorded_message obtain spec c where "spec_from_message loads m = Inr spec"
    "completion_from_spec dumps spec = Inr c" "stands_for loads dumps m c" by (metis list.pred_inject(2))
  ultimately show ?case by (intro exI [of _ "spec # specs"] exI [of _ "c # cs"]) (simp add: scripted_queue_def exn_simps)
qed (simp add: scripted_queue_def)

text \<open>C39.  The completions derived from a recorded transcript are those that its assistant messages stand for,
  one each and in order: the calls of a message by name and value of their arguments, numbered afresh, or its text;
  whatever the user, the system and the tools said in between.  The assistant messages hold texts, or calls whose names
  and arguments are texts.\<close>

theorem transcript_reseeds:
  assumes "list_all recorded_message (filter (\<lambda>m. get m ''role'' = JStr ''assistant'') messages)"
  shows "\<exists>specs cs. scripted_completions_from_transcript loads messages = Inr specs \<and> scripted_queue dumps specs = Inr cs
     \<and> list_all2 (stands_for loads dumps) (filter (\<lambda>m. get m ''role'' = JStr ''assistant'') messages) cs"
  unfolding scripted_completions_from_transcript_def by (rule completions_reseed [OF assms])

text \<open>The messages of a recorded turn: a call with a text beside it, the tool's answer and the reply.\<close>

definition recorded_turn :: "dict list" where
  "recorded_turn =
     [[(''role'', JStr ''user''), (''content'', JStr ''hi'')],
      [(''role'', JStr ''assistant''), (''content'', JStr ''One moment.''), (''reasoning'', JNull), (''finish_reason'', JStr ''tool_calls''),
       (''tool_calls'', JList [JObj [(''id'', JStr ''x''), (''call_id'', JStr ''x''), (''response_item_id'', JNull),
          (''type'', JStr ''function''), (''function'', JObj [(''name'', JStr ''t''), (''arguments'', JStr ''{ }'')])]])],
      [(''role'', JStr ''tool''), (''content'', JStr ''{}'')],
      [(''role'', JStr ''assistant''), (''content'', JStr ''Hi''), (''reasoning'', JNull), (''finish_reason'', JStr ''stop'')]]"

text \<open>What the model said beside its calls is not said again when the turn is replayed.\<close>

lemma text_beside_calls_is_lost:
  "get m ''tool_calls'' = JList (x # xs) \<Longrightarrow> stands_for loads dumps m c \<Longrightarrow> \<exists>cs. c = Tool_calls_completion cs"
  by (auto simp: stands_for_def)

theorem transcript_reseeds_witness:
  "\<exists>specs. scripted_completions_from_transcript (\<lambda>s. Some (JObj [])) recorded_turn = Inr specs
     \<and> scripted_queue (\<lambda>_ _. ''{}'') specs
       = Inr [Tool_calls_completion [\<lparr>cl_id = ''call_0'', cl_name = ''t'', cl_arguments = ''{}''\<rparr>], Text_completion ''Hi'']"
proof -
  have f: "filter (\<lambda>m. get m ''role'' = JStr ''assistant'') recorded_turn = [recorded_turn ! 1, recorded_turn ! 3]"
    by (simp add: recorded_turn_def dict_simps)
  have "list_all recorded_message (filter (\<lambda>m. get m ''role'' = JStr ''assistant'') recorded_turn)"
    unfolding f by (simp add: recorded_turn_def recorded_message_def recorded_call_def dict_simps)
  from transcript_reseeds [OF this, of "\<lambda>s. Some (JObj [])" "\<lambda>_ _. ''{}''"] obtain specs cs where
    r: "scripted_completions_from_transcript (\<lambda>s. Some (JObj [])) recorded_turn = Inr specs" "scripted_queue (\<lambda>_ _. ''{}'') specs = Inr cs"
      "list_all2 (stands_for (\<lambda>s. Some (JObj [])) (\<lambda>_ _. ''{}'')) [recorded_turn ! 1, recorded_turn ! 3] cs"
    unfolding f by blast
  have "show_nat 0 = ''0''" by code_simp
  with r(3) have "cs = [Tool_calls_completion [\<lparr>cl_id = ''call_0'', cl_name = ''t'', cl_arguments = ''{}''\<rparr>], Text_completion ''Hi'']"
    by (auto simp: recorded_turn_def stands_for_def same_call_def argument_value_def dict_simps list_all2_Cons1)
  with r show ?thesis by blast
qed

section \<open>The handshake\<close>

lemma find_map_same:
  assumes "\<And>r. P (f r) = P r"
  shows "List.find P (map f rows) = map_option f (List.find P rows)"
  by (induction rows) (simp_all add: assms)

lemma find_map_off:
  assumes "\<And>r. Q r \<Longrightarrow> \<not> P r" and "\<And>r. Q r \<Longrightarrow> \<not> P (f r)"
  shows "List.find P (map (\<lambda>r. if Q r then f r else r) rows) = List.find P rows"
  by (induction rows) (auto simp: assms)

lemma find_in_append: "List.find P (xs @ ys) = (case List.find P xs of None \<Rightarrow> List.find P ys | r \<Rightarrow> r)"
  by (induction xs) auto

lemma find_map_to:
  assumes "key x = a" and "a \<in> key ` set rows"
  shows "List.find (\<lambda>r. key r = a) (map (\<lambda>r. if key r = a then x else r) rows) = Some x"
  using assms(2) by (induction rows) (auto simp: assms(1))

lemma seed_loaded:
  "load_scripted_turn event_id (seed_scripted_turn clock event_id suite scenario_id completions rows)
     = Some (suite, scenario_id, completions)"
  "load_captured_turn event_id (seed_scripted_turn clock event_id suite scenario_id completions rows) = None"
proof -
  let ?rows = "seed_scripted_turn clock event_id suite scenario_id completions rows"
  show "load_scripted_turn event_id ?rows = Some (suite, scenario_id, completions)"
  proof (cases "event_id \<in> sr_event_id ` set rows")
    case True
    then show ?thesis by (simp add: load_scripted_turn_def seed_scripted_turn_def Let_def find_map_to)
  next
    case False
    then have "List.find (\<lambda>r. sr_event_id r = event_id) rows = None" by (auto simp: find_None_iff)
    with False show ?thesis by (simp add: load_scripted_turn_def seed_scripted_turn_def Let_def find_in_append)
  qed
  have "List.find (\<lambda>r. sr_event_id r = event_id \<and> sr_captured r \<noteq> None) ?rows = None"
    by (auto simp: seed_scripted_turn_def Let_def find_None_iff)
  then show "load_captured_turn event_id ?rows = None" by (simp add: load_captured_turn_def)
qed

lemma captured_map_off:
  assumes "other \<noteq> event_id" and "\<And>r. sr_event_id r = event_id \<Longrightarrow> sr_event_id (f r) = event_id"
  shows "load_captured_turn other (map (\<lambda>r. if sr_event_id r = event_id then f r else r) rows) = load_captured_turn other rows"
proof -
  have "List.find (\<lambda>r. sr_event_id r = other \<and> sr_captured r \<noteq> None) (map (\<lambda>r. if sr_event_id r = event_id then f r else r) rows)
      = List.find (\<lambda>r. sr_event_id r = other \<and> sr_captured r \<noteq> None) rows"
    by (rule find_map_off) (use assms in auto)
  then show ?thesis unfolding load_captured_turn_def by (rule arg_cong)
qed

lemma seed_other:
  assumes "other \<noteq> event_id"
  shows "load_captured_turn other (seed_scripted_turn clock event_id suite scenario_id completions rows) = load_captured_turn other rows"
proof (cases "event_id \<in> sr_event_id ` set rows")
  case True
  then show ?thesis
    using captured_map_off [OF assms, of "\<lambda>_. \<lparr>sr_event_id = event_id, sr_suite = suite, sr_scenario_id = scenario_id,
        sr_completions = completions, sr_captured = None, sr_created_at = clock, sr_captured_at = None\<rparr>" rows]
    by (simp add: seed_scripted_turn_def)
next
  case False
  then show ?thesis by (simp add: seed_scripted_turn_def load_captured_turn_def Let_def find_in_append split: option.splits)
qed

lemma save_loaded:
  assumes "load_scripted_turn event_id rows \<noteq> None"
  shows "load_captured_turn event_id (save_captured_turn clock event_id captured rows) = Some (JObj captured)"
  using assms
  by (induction rows) (auto simp: save_captured_turn_def load_scripted_turn_def load_captured_turn_def split: if_splits)

lemma save_other:
  assumes "other \<noteq> event_id"
  shows "load_captured_turn other (save_captured_turn clock event_id captured rows) = load_captured_turn other rows"
  unfolding save_captured_turn_def by (rule captured_map_off [OF assms]) simp

text \<open>A turn that was not seeded fails before the agent is asked.\<close>

lemma unseeded_turn_fails:
  assumes "event_id \<notin> sr_event_id ` set (rg_rows g)"
  shows "\<exists>m. scripted_eval_run_turn rc record_dir event_id g = (Inl (PyError ''ScriptedTurnNotSeeded'' m), g)"
proof -
  have "load_scripted_turn event_id (rg_rows g) = None" using assms by (auto simp: load_scripted_turn_def find_None_iff)
  then show ?thesis by (simp add: scripted_eval_run_turn_def)
qed

text \<open>A seeded event waits without a captured turn; a run that returns used the seeded scenario and
  completions, and its turn is what the harness reads then; a run that fails captures and records nothing; the turns of other events stay.\<close>

theorem scripted_handshake:
  assumes "rg_rows g = seed_scripted_turn clock event_id suite scenario_id completions rows"
    and "scripted_eval_run_turn rc record_dir event_id g = (r, g')"
  shows "load_captured_turn event_id (rg_rows g) = None
     \<and> (case r of Inl e \<Rightarrow> rg_rows g' = rg_rows g \<and> rg_files g' = rg_files g
        | Inr t \<Rightarrow> load_captured_turn event_id (rg_rows g') = Some (JObj (turn_dict t))
            \<and> (\<exists>s b. load_and_boot rc suite scenario_id = Inr (s, b)
                 \<and> run_scripted_eval rc b (scenario_user_message (rc_dash rc) s) completions (rg_world g) = (Inr t, rg_world g')))
     \<and> (\<forall>other. other = event_id \<or> load_captured_turn other (rg_rows g') = load_captured_turn other rows)"
proof -
  have loaded: "load_scripted_turn event_id (rg_rows g) = Some (suite, scenario_id, completions)"
    "load_captured_turn event_id (rg_rows g) = None" unfolding assms(1) by (rule seed_loaded)+
  have other: "\<forall>x. x = event_id \<or> load_captured_turn x (rg_rows g) = load_captured_turn x rows"
    unfolding assms(1) using seed_other by blast
  have saved: "\<forall>x. x = event_id \<or> load_captured_turn x (save_captured_turn clock' event_id captured (rg_rows g)) = load_captured_turn x rows"
    for clock' captured using other save_other by metis
  show ?thesis
  proof (cases "load_and_boot rc suite scenario_id")
    case (Inl e)
    with assms(2) loaded other show ?thesis by (auto simp: scripted_eval_run_turn_def)
  next
    case (Inr p)
    obtain s b where p: "p = (s, b)" by (cases p)
    obtain res w' where run: "run_scripted_eval rc b (scenario_user_message (rc_dash rc) s) completions (rg_world g) = (res, w')"
      by (cases "run_scripted_eval rc b (scenario_user_message (rc_dash rc) s) completions (rg_world g)")
    show ?thesis
    proof (cases res)
      case (Inl e)
      with assms(2) loaded other Inr p run show ?thesis by (auto simp: scripted_eval_run_turn_def)
    next
      case r: (Inr t)
      with assms(2) loaded(1) Inr p run have "r = Inr t" and g': "rg_world g' = w'"
          "rg_rows g' = save_captured_turn (rc_clock rc) event_id (turn_dict t) (rg_rows g)"
        by (auto simp: scripted_eval_run_turn_def)
      then show ?thesis
        using loaded saved Inr p run r save_loaded [of event_id "rg_rows g"] by simp
    qed
  qed
qed

section \<open>Recorded suites\<close>

lemma record_scenario_turn_Inr:
  assumes "record_scenario_turn rc run_turn dir sys_message s fs w = (Inr (path, result), fs', w')"
  obtains b t where "run_turn (scenario_user_message (rc_dash rc) s) sys_message b w = (Inr t, w')"
    "fs' = snd (record_turn (rc_dumps rc) (turn_dict t) s dir fs)"
    "build_scenario_turn_result (rc_loads rc) s (or_nil (ct_final_response t)) (ct_messages t) = Inr result"
  using assms
  by (auto simp: record_scenario_turn_def exn_simps split: sum.splits prod.splits)

definition documents_read_back :: "('f, 'w) recorder \<Rightarrow> 'w run_turn \<Rightarrow> bool" where
  "documents_read_back rc run_turn \<longleftrightarrow> (\<forall>message sys_message b w t w'. run_turn message sys_message b w = (Inr t, w')
     \<longrightarrow> rc_loads rc (rc_dumps rc (Some 2) (JObj (turn_dict t))) = Some (JObj (turn_dict t)))"

lemma replay_recorded:
  assumes "rc_loads rc (rc_dumps rc (Some 2) (JObj (turn_dict t))) = Some (JObj (turn_dict t))"
  shows "replay_turn (rc_loads rc) dir (snd (record_turn (rc_dumps rc) (turn_dict t) s dir fs)) s
       = build_scenario_turn_result (rc_loads rc) s (or_nil (ct_final_response t)) (ct_messages t)"
    and "transcript_path dir s' \<noteq> transcript_path dir s
     \<Longrightarrow> replay_turn (rc_loads rc) dir (snd (record_turn (rc_dumps rc) (turn_dict t) s dir fs)) s' = replay_turn (rc_loads rc) dir fs s'"
  using replay_is_live [of "turn_dict t" "or_nil (ct_final_response t)" "ct_messages t" "rc_loads rc" "rc_dumps rc" dir s fs] assms
  by (auto simp: turn_dict_def dict_simps)

lemma record_scenarios_keeps:
  assumes "record_scenarios rc run_turn dir sys_message ss fs w = (Inr rs, fs', w')"
    and "documents_read_back rc run_turn" and "transcript_path dir s \<notin> transcript_path dir ` set ss"
  shows "replay_turn (rc_loads rc) dir fs' s = replay_turn (rc_loads rc) dir fs s"
  using assms(1,3)
proof (induction ss arbitrary: rs fs w)
  case (Cons x ss)
  from Cons.prems(1) obtain path result fs1 w1 rs1 where x: "record_scenario_turn rc run_turn dir sys_message x fs w = (Inr (path, result), fs1, w1)"
      and rest: "record_scenarios rc run_turn dir sys_message ss fs1 w1 = (Inr rs1, fs', w')"
    by (auto split: prod.splits sum.splits)
  from x obtain b t where t: "run_turn (scenario_user_message (rc_dash rc) x) sys_message b w = (Inr t, w1)"
      "fs1 = snd (record_turn (rc_dumps rc) (turn_dict t) x dir fs)" by (rule record_scenario_turn_Inr)
  from t(1) assms(2) have "rc_loads rc (rc_dumps rc (Some 2) (JObj (turn_dict t))) = Some (JObj (turn_dict t))"
    unfolding documents_read_back_def by blast
  from replay_recorded(2) [OF this, of dir s x fs] Cons.prems(2) t(2)
  have "replay_turn (rc_loads rc) dir fs1 s = replay_turn (rc_loads rc) dir fs s" by simp
  with Cons.IH [OF rest] Cons.prems(2) show ?case by simp
qed simp

lemma record_scenarios_replay:
  assumes "record_scenarios rc run_turn dir sys_message ss fs w = (Inr rs, fs', w')"
    and "documents_read_back rc run_turn" and "distinct (map (transcript_path dir) ss)"
  shows "list_all2 (\<lambda>s r. rs_scenario_id r = sc_scenario_id s \<and> replay_turn (rc_loads rc) dir fs' s = Inr (rs_result r)) ss rs"
  using assms(1,3)
proof (induction ss arbitrary: rs fs w)
  case (Cons x ss)
  from Cons.prems(1) obtain path result fs1 w1 rs1 where x: "record_scenario_turn rc run_turn dir sys_message x fs w = (Inr (path, result), fs1, w1)"
      and rest: "record_scenarios rc run_turn dir sys_message ss fs1 w1 = (Inr rs1, fs', w')"
      and rs: "rs = \<lparr>rs_scenario_id = sc_scenario_id x, rs_path = path, rs_result = result\<rparr> # rs1"
    by (auto split: prod.splits sum.splits)
  from x obtain b t where t: "run_turn (scenario_user_message (rc_dash rc) x) sys_message b w = (Inr t, w1)"
      "fs1 = snd (record_turn (rc_dumps rc) (turn_dict t) x dir fs)"
      "build_scenario_turn_result (rc_loads rc) x (or_nil (ct_final_response t)) (ct_messages t) = Inr result"
    by (rule record_scenario_turn_Inr)
  from t(1) assms(2) have "rc_loads rc (rc_dumps rc (Some 2) (JObj (turn_dict t))) = Some (JObj (turn_dict t))"
    unfolding documents_read_back_def by blast
  from replay_recorded(1) [OF this, of dir x fs] t(2,3) have "replay_turn (rc_loads rc) dir fs1 x = Inr result" by simp
  with record_scenarios_keeps [OF rest assms(2), of x] Cons.prems(2)
  have "replay_turn (rc_loads rc) dir fs' x = Inr result" by simp
  with Cons.IH [OF rest] Cons.prems(2) show ?case by (simp add: rs)
qed simp

text \<open>A recording that returns lists the selected scenarios in order, and the replay harness reads
  from its files for each of them the result the recorder reports.\<close>

theorem recorded_suite_replays:
  assumes "record_suite rc suite run_turn dir sys_message scenario_ids fs w = (Inr rs, fs', w')"
    and "load_suite (rc_yaml rc) suite (rc_dir rc) = Inr ss" and "distinct (map (transcript_path dir) ss)"
    and "documents_read_back rc run_turn"
  shows "list_all2 (\<lambda>s r. rs_scenario_id r = sc_scenario_id s \<and> replay_turn (rc_loads rc) dir fs' s = Inr (rs_result r))
     (filter (wanted scenario_ids) ss) rs"
proof (rule record_scenarios_replay)
  show "record_scenarios rc run_turn dir sys_message (filter (wanted scenario_ids) ss) fs w = (Inr rs, fs', w')"
    using assms(1,2) by (simp add: record_suite_def)
  show "distinct (map (transcript_path dir) (filter (wanted scenario_ids) ss))" using assms(3) by (rule distinct_map_filter)
qed (rule assms(4))

definition sample_recorder :: "(int, unit) recorder" where
  "sample_recorder = \<lparr>rc_env = Map.empty, rc_dash = ''-'', rc_yaml = sample_yaml, rc_dir = sample_dir,
     rc_loads = (\<lambda>_. Some (JObj (turn_dict \<lparr>ct_final_response = Some ''Hi'', ct_messages = []\<rparr>))), rc_dumps = (\<lambda>_ _. ''doc''),
     rc_floats = int_floats, rc_exec = sample_env, rc_clock = 0, rc_builtins = [],
     rc_agent = (\<lambda>b run w. (Inr \<lparr>ct_final_response = Some ''Hi'', ct_messages = []\<rparr>, w))\<rparr>"

theorem recorded_suite_replays_witness:
  "\<exists>s rs fs'. load_suite sample_yaml ''email_go_live'' sample_dir = Inr [s] \<and> length rs = 1
     \<and> replay_turn (rc_loads sample_recorder) ''/t'' fs' s = Inr (rs_result (hd rs))
     \<and> record_suite sample_recorder ''email_go_live'' (\<lambda>_ _ _ w. (Inr \<lparr>ct_final_response = Some ''Hi'', ct_messages = []\<rparr>, w)) ''/t'' None None [] ()
         = (Inr rs, fs', ())"
proof -
  let ?rc = sample_recorder and ?t = "\<lparr>ct_final_response = Some ''Hi'', ct_messages = []\<rparr>"
  let ?run = "\<lambda>_ _ _ w. (Inr ?t, w)"
  have "case load_suite sample_yaml ''email_go_live'' sample_dir of Inr [s] \<Rightarrow> True | _ \<Rightarrow> False" by code_simp
  then obtain s where s: "load_suite sample_yaml ''email_go_live'' sample_dir = Inr [s]" by (auto split: sum.splits list.splits)
  have "\<not> isl (registered_tools (Some EXTERNAL) None)" by code_simp
  then obtain b where b: "boot_scenario ?rc s = Inr b"
    by (cases "registered_tools (Some EXTERNAL) None") (auto simp: boot_scenario_def boot_profile_eval_def exn_simps sample_recorder_def)
  have "\<not> isl (turn_result_from_transcript (rc_loads ?rc) ''Hi'' [])" by code_simp
  then obtain v where v: "build_scenario_turn_result (rc_loads ?rc) s ''Hi'' [] = Inr v"
    by (cases "turn_result_from_transcript (rc_loads ?rc) ''Hi'' []") (auto simp: build_scenario_turn_result_def exn_simps)
  obtain path fs' where rec: "record_turn (rc_dumps ?rc) (turn_dict ?t) s ''/t'' [] = (path, fs')" by fastforce
  have l: "load_suite (rc_yaml ?rc) ''email_go_live'' (rc_dir ?rc) = Inr [s]" using s by (simp add: sample_recorder_def)
  have run: "record_suite ?rc ''email_go_live'' ?run ''/t'' None None [] ()
      = (Inr [\<lparr>rs_scenario_id = sc_scenario_id s, rs_path = path, rs_result = v\<rparr>], fs', ())"
    by (simp add: record_suite_def wanted_def record_scenario_turn_def l b rec or_nil_def v exn_simps)
  have docs: "documents_read_back ?rc ?run" by (simp add: documents_read_back_def sample_recorder_def)
  have "distinct (map (transcript_path ''/t'') [s])" by simp
  from recorded_suite_replays [OF run l this docs] have "replay_turn (rc_loads ?rc) ''/t'' fs' s = Inr v" by (simp add: wanted_def)
  with s run show ?thesis
    by (intro exI [of _ s] exI [of _ "[\<lparr>rs_scenario_id = sc_scenario_id s, rs_path = path, rs_result = v\<rparr>]"] exI [of _ fs']) simp
qed

section \<open>The env file\<close>

text \<open>The environment after an env file: a variable that was set keeps its value, another one has
  the value of its first line in the file, or none.\<close>

theorem env_file_never_overrides:
  "snd (load_env_file (Some content) env) name = (case env name of Some v \<Rightarrow> Some v
     | None \<Rightarrow> map_of (List.map_filter env_line (splitlines content)) name)"
proof -
  have "fold (\<lambda>(k, v) e. setdefault e k v) entries env name = (case env name of Some v \<Rightarrow> Some v | None \<Rightarrow> map_of entries name)"
    for entries :: "(string \<times> string) list"
  proof (induction entries arbitrary: env)
    case (Cons entry entries)
    obtain k v where entry: "entry = (k, v)" by (cases entry)
    have "setdefault env k v name = (case env name of Some v \<Rightarrow> Some v | None \<Rightarrow> (if name = k then Some v else None))"
      by (auto simp: setdefault_def split: option.splits)
    then show ?case using Cons.IH [of "setdefault env k v"] by (auto simp: entry split: option.splits)
  qed (simp split: option.splits)
  then show ?thesis by (simp add: load_env_file_def Let_def)
qed

section \<open>Where the documents differ\<close>

text \<open>The booted evaluation turn has the snapshot in its hook, and the message of the scenario has it, too.\<close>

lemma snapshot_injected_twice:
  assumes "boot_scenario rc s = Inr b" and "sc_session_identity s \<noteq> []"
  shows "\<exists>t. render_snapshot (Some (sc_session_identity s)) = Some t
     \<and> eb_hook b (Some session_id) = Some [(''context'', JStr t)]
     \<and> (\<exists>more. injected_context (rc_dash rc) s = Some (t @ more))"
proof -
  obtain t where t: "render_snapshot (Some (sc_session_identity s)) = Some t" using assms(2) by (simp add: render_snapshot_def)
  have "eb_hook b = pre_llm_call_hook (rc_dash rc) (Some (\<lambda>session_id. Inr (Some (sc_session_identity s)))) None"
    using assms(1) by (auto simp: boot_scenario_def boot_profile_eval_def exn_simps)
  then have "eb_hook b (Some session_id) = Some [(''context'', JStr t)]"
    by (simp add: pre_llm_call_hook_def provided_def render_injection_def t render_memory_def render_experience_def memory_lines_def
        map_filter_def)
  moreover have "\<exists>more. injected_context (rc_dash rc) s = Some (t @ more)"
    by (auto simp: injected_context_def render_injection_def t map_filter_def Let_def split: option.splits)
  ultimately show ?thesis using t by blast
qed

text \<open>A judge that is given its model does not read the setting that names another one.\<close>

lemma judge_setting_ignored:
  "judge_scenario_leg dash ld env client s result leg (Some model) w = judge_scenario_leg dash ld env' client s result leg (Some model) w"
  unfolding judge_scenario_leg_def judge_reply_def option.case by (rule refl)

end
