(* ===== verification/GatewayHarness.thy ===== *)
theory GatewayHarness
  imports Recording
begin

text \<open>
  \<^verbatim>\<open>scripted_gateway_harness.py\<close>: the harness that drives each scenario of a suite through a running gateway and
  worker.  What runs on the other side is the argument \<open>pl\<close>: the webhook's answer, the two tables the harness reads, the
  clock in milliseconds and the sleep.  A poll loop takes the number of its polls as fuel.
\<close>

section \<open>The scenario as a webhook\<close>

definition GATEWAY_CHANNELS :: "string list" where
  "GATEWAY_CHANNELS = [''simpletexting'', ''email'', ''simulated_email'']"

definition is_gateway_scenario :: "scenario \<Rightarrow> bool" where
  "is_gateway_scenario s \<longleftrightarrow> sc_channel s \<in> set GATEWAY_CHANNELS"

definition harness_error :: "string \<Rightarrow> exn" where
  "harness_error m = PyError ''HarnessError'' m"

definition inbound_text :: "scenario \<Rightarrow> string" where
  "inbound_text s =
     (let parts = filter (\<lambda>p. p \<noteq> []) (map (\<lambda>t. case t of Sms body \<Rightarrow> body | Email body _ \<Rightarrow> body) (sc_turns s));
          joined = join_with (nl @ nl) parts in
      if joined = [] then ''eval scripted turn'' else joined)"

text \<open>\<open>sha1\<close> is the digest of a text as a number.\<close>

definition scenario_phone :: "(string \<Rightarrow> int) \<Rightarrow> scenario \<Rightarrow> string" where
  "scenario_phone sha1 s =
     (let n = (case text_number (sc_scenario_id s) of Some k \<Rightarrow> k | None \<Rightarrow> sha1 (sc_scenario_id s));
          digits = show_nat (nat (n mod 10000)) in
      ''+1416555'' @ replicate (4 - length digits) (CHR ''0'') @ digits)"

record 'w pipeline =
  pl_rows :: "'w \<Rightarrow> scripted_row list"
  pl_set_rows :: "scripted_row list \<Rightarrow> 'w \<Rightarrow> 'w"
  pl_turns :: "'w \<Rightarrow> turn_row list"
  pl_post :: "string \<Rightarrow> json \<Rightarrow> 'w \<Rightarrow> (exn + nat) \<times> 'w"
  pl_clock :: "'w \<Rightarrow> int"
  pl_stamp :: "'w \<Rightarrow> string"
  pl_sleep :: "int \<Rightarrow> 'w \<Rightarrow> 'w"
  pl_uuid8 :: "'w \<Rightarrow> string \<times> 'w"

text \<open>The time-out in milliseconds, and the float as it is printed.\<close>

record gateway_harness =
  gh_gateway_url :: string
  gh_webhook_token :: string
  gh_transcripts_dir :: string
  gh_record_dir :: "string option"
  gh_poll_timeout :: int
  gh_timeout_text :: string

definition completions_for :: "loads \<Rightarrow> gateway_harness \<Rightarrow> files \<Rightarrow> scenario \<Rightarrow> exn + json list" where
  "completions_for loads h fs s =
     (let path = transcript_path (gh_transcripts_dir h) s in
      case map_of fs path of
        None \<Rightarrow> Inl (harness_error (''no recorded transcript to script scenario '' @ in_quotes (sc_scenario_id s) @ '' at '' @ path))
      | Some content \<Rightarrow>
          (case loads content of
             None \<Rightarrow> Inl (PyError ''JSONDecodeError'' ''the transcript is no JSON text'')
           | Some j \<Rightarrow> ebind (need_obj j) (\<lambda>doc. ebind (py_iter (or_else (get doc ''messages'') (JList []))) (\<lambda>ms.
               ebind (map_exn need_obj ms) (scripted_completions_from_transcript loads)))))"

definition inbound_body :: "(string \<Rightarrow> int) \<Rightarrow> scenario \<Rightarrow> string \<Rightarrow> string \<Rightarrow> json" where
  "inbound_body sha1 s event_id stamp =
     JObj [(''type'', JStr ''INCOMING_MESSAGE''), (''reportId'', JStr event_id), (''webhookId'', JStr ''scripted-gateway-harness''),
       (''values'', JObj [(''messageId'', JStr event_id), (''text'', JStr (inbound_text s)), (''accountPhone'', JStr ''+15005550000''),
          (''contactPhone'', JStr (scenario_phone sha1 s)), (''timestamp'', JStr stamp)])]"

definition post_inbound ::
  "'w pipeline \<Rightarrow> (string \<Rightarrow> int) \<Rightarrow> gateway_harness \<Rightarrow> scenario \<Rightarrow> string \<Rightarrow> 'w \<Rightarrow> (exn + unit) \<times> 'w" where
  "post_inbound pl sha1 h s event_id w =
     (case pl_post pl (gh_gateway_url h @ ''/webhooks/simpletexting?token='' @ gh_webhook_token h)
             (inbound_body sha1 s event_id (pl_stamp pl w)) w of
        (r, w') \<Rightarrow> (ebind r (\<lambda>status. guard (status = 200)
          (harness_error (''gateway webhook returned '' @ show_nat status @ '' (expected 200 fast-ack)''))), w'))"

section \<open>Polling\<close>

fun poll_until :: "nat \<Rightarrow> 'w pipeline \<Rightarrow> ('w \<Rightarrow> 'a option) \<Rightarrow> exn \<Rightarrow> int \<Rightarrow> 'w \<Rightarrow> ((exn + 'a) \<times> 'w) option" where
  "poll_until 0 pl probe late deadline w = None"
| "poll_until (Suc fuel) pl probe late deadline w =
     (case probe w of
        Some x \<Rightarrow> Some (Inr x, w)
      | None \<Rightarrow> (if pl_clock pl w > deadline then Some (Inl late, w)
                else poll_until fuel pl probe late deadline (pl_sleep pl 500 w)))"

definition poll_captured :: "nat \<Rightarrow> 'w pipeline \<Rightarrow> gateway_harness \<Rightarrow> string \<Rightarrow> 'w \<Rightarrow> ((exn + json) \<times> 'w) option" where
  "poll_captured fuel pl h event_id w =
     poll_until fuel pl (\<lambda>w. load_captured_turn event_id (pl_rows pl w))
       (harness_error (''turn for event '' @ event_id @ '' never captured within '' @ gh_timeout_text h
         @ ''s (turn-worker armed with EVAL_SCRIPTED_MODE and claiming jobs?)'')) (pl_clock pl w + gh_poll_timeout h) w"

text \<open>\<^verbatim>\<open>LIKE\<close>\<close>

fun like :: "string \<Rightarrow> string \<Rightarrow> bool" where
  "like [] s = (s = [])"
| "like (c # p) [] = (c = CHR ''%'' \<and> like p [])"
| "like (c # p) (x # s) =
     (if c = CHR ''%'' then like p (x # s) \<or> like (c # p) s
      else if c = CHR 0x5C then p \<noteq> [] \<and> hd p = x \<and> like (tl p) s
      else (c = CHR ''_'' \<or> c = x) \<and> like p s)"

definition reply_mirrored :: "string \<Rightarrow> turn_row list \<Rightarrow> bool" where
  "reply_mirrored event_id turns =
     (case List.find (\<lambda>m. like (''%:'' @ event_id @ '':out'') (m_id m) \<and> m_direction m = ''outbound'' \<and> m_author m = ''hermes'') turns of
        None \<Rightarrow> False | Some m \<Rightarrow> py_strip (m_body m) \<noteq> [])"

definition wait_for_reply :: "nat \<Rightarrow> 'w pipeline \<Rightarrow> gateway_harness \<Rightarrow> string \<Rightarrow> 'w \<Rightarrow> ((exn + unit) \<times> 'w) option" where
  "wait_for_reply fuel pl h event_id w =
     poll_until fuel pl (\<lambda>w. if reply_mirrored event_id (pl_turns pl w) then Some () else None)
       (harness_error (''turn for event '' @ event_id @ '' captured a transcript but no reply landed in message_turn within ''
         @ gh_timeout_text h @ ''s (delivery/mirror path broken).''))
       (pl_clock pl w + gh_poll_timeout h) w"

section \<open>The turn of a scenario\<close>

definition captured_view :: "loads \<Rightarrow> scenario \<Rightarrow> json \<Rightarrow> exn + turn_view" where
  "captured_view loads s captured =
     ebind (need_obj captured) (\<lambda>doc.
     ebind (need_text (or_else (get_or doc ''final_response'' (JStr [])) (JStr []))) (\<lambda>final_response.
     ebind (py_iter (or_else (get_or doc ''messages'' (JList [])) (JList []))) (\<lambda>ms.
     ebind (map_exn need_obj ms) (\<lambda>messages. build_scenario_turn_result loads s final_response messages))))"

definition event_id_of :: "scenario \<Rightarrow> string \<Rightarrow> string" where
  "event_id_of s uuid8 = ''eval-'' @ sc_suite s @ ''-'' @ sc_scenario_id s @ ''-'' @ uuid8"

definition recorded_files :: "dumps \<Rightarrow> gateway_harness \<Rightarrow> scenario \<Rightarrow> json \<Rightarrow> files \<Rightarrow> files" where
  "recorded_files dumps h s captured fs =
     (case gh_record_dir h of
        None \<Rightarrow> fs
      | Some dir \<Rightarrow> snd (record_turn dumps (case captured of JObj d \<Rightarrow> d | _ \<Rightarrow> []) s dir fs))"

definition gateway_run_turn ::
  "nat \<Rightarrow> 'w pipeline \<Rightarrow> loads \<Rightarrow> dumps \<Rightarrow> (string \<Rightarrow> int) \<Rightarrow> gateway_harness \<Rightarrow> scenario \<Rightarrow> files \<times> 'w
     \<Rightarrow> ((exn + turn_view) \<times> files \<times> 'w) option" where
  "gateway_run_turn fuel pl loads dumps sha1 h s = (\<lambda>(fs, w).
     case completions_for loads h fs s of
       Inl e \<Rightarrow> Some (Inl e, fs, w)
     | Inr completions \<Rightarrow>
         (case pl_uuid8 pl w of (uuid8, w0) \<Rightarrow>
          (let event_id = event_id_of s uuid8;
               w1 = pl_set_rows pl (seed_scripted_turn (pl_clock pl w0) event_id (sc_suite s) (sc_scenario_id s) completions (pl_rows pl w0)) w0 in
           case post_inbound pl sha1 h s event_id w1 of
             (Inl e, w2) \<Rightarrow> Some (Inl e, fs, w2)
           | (Inr _, w2) \<Rightarrow>
               (case poll_captured fuel pl h event_id w2 of
                  None \<Rightarrow> None
                | Some (Inl e, w3) \<Rightarrow> Some (Inl e, fs, w3)
                | Some (Inr captured, w3) \<Rightarrow>
                    (case captured_view loads s captured of
                       Inl e \<Rightarrow> Some (Inl e, fs, w3)
                     | Inr result \<Rightarrow>
                         (case (if py_strip (tv_outbound_text result) = [] then Some (Inr (), w3) else wait_for_reply fuel pl h event_id w3) of
                            None \<Rightarrow> None
                          | Some (Inl e, w4) \<Rightarrow> Some (Inl e, fs, w4)
                          | Some (Inr _, w4) \<Rightarrow> Some (Inr result, recorded_files dumps h s captured fs, w4)))))))"

section \<open>The runs\<close>

definition assertion_signature :: "eval_report \<Rightarrow> json" where
  "assertion_signature report = JList (map (\<lambda>s.
     JObj [(''scenario_id'', JStr (rp_scenario_id s)), (''passed'', JBool (rp_passed s)),
       (''failed'', JList (map (\<lambda>(type, name, detail). JList [JStr type, JStr name, JStr detail])
          (sort_key fst (sort_key (fst \<circ> snd) (sort_key (snd \<circ> snd) (rp_failed_assertions s))))))]) (er_scenarios report))"

fun gateway_outcomes ::
  "(scenario \<Rightarrow> 'g \<Rightarrow> ((exn + turn_view) \<times> 'g) option) \<Rightarrow> dumps \<Rightarrow> scenario list \<Rightarrow> 'g
     \<Rightarrow> ((exn + scenario_outcome list) \<times> 'g) option" where
  "gateway_outcomes run_turn dumps [] g = Some (Inr [], g)"
| "gateway_outcomes run_turn dumps (s # ss) g =
     (case run_turn s g of
        None \<Rightarrow> None
      | Some (turn, g1) \<Rightarrow>
          (case run_scenario dumps (\<lambda>_. turn) s of
             Inl e \<Rightarrow> Some (Inl e, g1)
           | Inr o1 \<Rightarrow>
               (case gateway_outcomes run_turn dumps ss g1 of
                  None \<Rightarrow> None
                | Some (r, g2) \<Rightarrow> Some (ebind r (\<lambda>outcomes. Inr (o1 # outcomes)), g2))))"

definition run_suite_over_gateway ::
  "(scenario \<Rightarrow> 'g \<Rightarrow> ((exn + turn_view) \<times> 'g) option) \<Rightarrow> dumps \<Rightarrow> yaml \<Rightarrow> eval_dir \<Rightarrow> int \<Rightarrow> string \<Rightarrow> 'g
     \<Rightarrow> ((exn + eval_report \<times> nat) \<times> 'g) option" where
  "run_suite_over_gateway run_turn dumps yaml dir now_ms suite g =
     (case load_suite yaml suite dir of
        Inl e \<Rightarrow> Some (Inl e, g)
      | Inr loaded \<Rightarrow>
          (let ss = filter is_gateway_scenario loaded in
           map_option (\<lambda>(r, g'). (ebind r (\<lambda>outcomes. Inr (build_report now_ms suite outcomes no_meta, length ss)), g'))
             (gateway_outcomes run_turn dumps ss g)))"

fun suite_runs :: "('g \<Rightarrow> ((exn + eval_report \<times> nat) \<times> 'g) option) \<Rightarrow> nat \<Rightarrow> 'g \<Rightarrow> ((exn + eval_report list) \<times> 'g) option" where
  "suite_runs suite_run 0 g = Some (Inr [], g)"
| "suite_runs suite_run (Suc n) g =
     (case suite_run g of
        None \<Rightarrow> None
      | Some (Inl e, g1) \<Rightarrow> Some (Inl e, g1)
      | Some (Inr (report, _), g1) \<Rightarrow>
          map_option (\<lambda>(r, g2). (ebind r (\<lambda>reports. Inr (report # reports)), g2)) (suite_runs suite_run n g1))"

text \<open>The exit code from the reports of the runs; \<open>sorted_dumps\<close> is \<^verbatim>\<open>json.dumps(\<dots>, sort_keys=True)\<close>.\<close>

definition harness_verdict :: "(json \<Rightarrow> string) \<Rightarrow> eval_report list \<Rightarrow> exn + int" where
  "harness_verdict sorted_dumps reports =
     (case map assertion_signature reports of
        [] \<Rightarrow> Inl (PyError ''IndexError'' ''list index out of range'')
      | first # others \<Rightarrow>
          (if list_ex (\<lambda>sig. sorted_dumps sig \<noteq> sorted_dumps first) others then Inr 1
           else if Max (set (map (sy_failed_high \<circ> er_summary) reports)) > 0 then Inr 1 else Inr 0))"

definition harness_main ::
  "(json \<Rightarrow> string) \<Rightarrow> ('g \<Rightarrow> ((exn + eval_report \<times> nat) \<times> 'g) option) \<Rightarrow> int \<Rightarrow> 'g \<Rightarrow> ((exn + int) \<times> 'g) option" where
  "harness_main sorted_dumps suite_run runs g =
     map_option (\<lambda>(r, g'). (ebind r (harness_verdict sorted_dumps), g')) (suite_runs suite_run (nat runs) g)"

text \<open>The entry point turns the failures it names into the exit code 1.\<close>

definition harness_entry :: "exn + int \<Rightarrow> exn + int" where
  "harness_entry r =
     (case r of
        Inl (PyError c m) \<Rightarrow> (if c \<in> {''HarnessError'', ''ValueError'', ''JSONDecodeError'', ''UnicodeDecodeError''} then Inr 1 else r)
      | _ \<Rightarrow> r)"

section \<open>The options\<close>

record harness_args =
  ha_suite :: string
  ha_gateway_url :: string
  ha_webhook_token :: string
  ha_eval_dir :: string
  ha_transcripts_dir :: string
  ha_record_dir :: "string option"
  ha_runs :: int
  ha_poll_timeout :: int

definition default_harness_args :: "string \<Rightarrow> harness_args" where
  "default_harness_args eval_dir = \<lparr>ha_suite = ''text_first_launch'', ha_gateway_url = ''http://127.0.0.1:8080'',
     ha_webhook_token = ''dev-webhook-token'', ha_eval_dir = eval_dir, ha_transcripts_dir = eval_dir @ ''/transcripts'',
     ha_record_dir = None, ha_runs = 2, ha_poll_timeout = 60000\<rparr>"

text \<open>The harness that \<^verbatim>\<open>main\<close> builds; \<open>show_float\<close> prints the time-out.\<close>

definition harness_of :: "(int \<Rightarrow> string) \<Rightarrow> harness_args \<Rightarrow> gateway_harness" where
  "harness_of show_float a = \<lparr>gh_gateway_url = without_slashes (ha_gateway_url a), gh_webhook_token = ha_webhook_token a,
     gh_transcripts_dir = ha_transcripts_dir a, gh_record_dir = ha_record_dir a, gh_poll_timeout = ha_poll_timeout a,
     gh_timeout_text = show_float (ha_poll_timeout a)\<rparr>"

definition HARNESS_FLAGS :: "string list" where
  "HARNESS_FLAGS = [''--suite'', ''--gateway-url'', ''--token'', ''--eval-dir'', ''--transcripts-dir'', ''--record-dir'', ''--runs'', ''--poll-timeout'']"

text \<open>\<open>parse_float\<close> reads a float in milliseconds.\<close>

definition set_option :: "(string \<Rightarrow> exn + int) \<Rightarrow> string \<Rightarrow> string \<Rightarrow> harness_args \<Rightarrow> exn + harness_args" where
  "set_option parse_float arg nxt a =
     (if arg = ''--suite'' then Inr (a\<lparr>ha_suite := nxt\<rparr>)
      else if arg = ''--gateway-url'' then Inr (a\<lparr>ha_gateway_url := nxt\<rparr>)
      else if arg = ''--token'' then Inr (a\<lparr>ha_webhook_token := nxt\<rparr>)
      else if arg = ''--eval-dir'' then Inr (a\<lparr>ha_eval_dir := nxt\<rparr>)
      else if arg = ''--transcripts-dir'' then Inr (a\<lparr>ha_transcripts_dir := nxt\<rparr>)
      else if arg = ''--record-dir'' then Inr (a\<lparr>ha_record_dir := Some nxt\<rparr>)
      else if arg = ''--runs'' then ebind (need_number nxt) (\<lambda>n. Inr (a\<lparr>ha_runs := n\<rparr>))
      else ebind (parse_float nxt) (\<lambda>t. Inr (a\<lparr>ha_poll_timeout := t\<rparr>)))"

fun parse_harness_args :: "(string \<Rightarrow> exn + int) \<Rightarrow> string list \<Rightarrow> harness_args \<Rightarrow> exn + harness_args" where
  "parse_harness_args parse_float [] a = Inr a"
| "parse_harness_args parse_float [arg] a =
     Inl (if arg \<in> set HARNESS_FLAGS then PyError ''ValueError'' (arg @ '' requires a value.'')
          else PyError ''ValueError'' (''Unknown argument '' @ dquoted arg @ ''.''))"
| "parse_harness_args parse_float (arg # nxt # argv) a =
     (if arg \<in> set HARNESS_FLAGS then ebind (set_option parse_float arg nxt a) (parse_harness_args parse_float argv)
      else Inl (PyError ''ValueError'' (''Unknown argument '' @ dquoted arg @ ''.'')))"

section \<open>The loops end\<close>

lemma poll_until_returns:
  assumes "\<And>w. pl_clock pl w + 500 \<le> pl_clock pl (pl_sleep pl 500 w)" and "deadline < pl_clock pl w + 500 * int fuel"
  shows "poll_until (Suc fuel) pl probe late deadline w \<noteq> None"
  using assms(2)
proof (induction fuel arbitrary: w)
  case 0
  then show ?case by (simp split: option.splits)
next
  case (Suc fuel)
  have "deadline < pl_clock pl (pl_sleep pl 500 w) + 500 * int fuel"
    using Suc.prems assms(1) [of w] by (simp add: algebra_simps)
  from Suc.IH [OF this] have "poll_until (Suc fuel) pl probe late deadline (pl_sleep pl 500 w) \<noteq> None" .
  then show ?case
    by (subst poll_until.simps(2)) (simp del: poll_until.simps split: option.split)
qed

text \<open>A turn of the harness returns, whatever the gateway does, when the clock advances with each sleep and the
  fuel covers the time-out: no poll loop waits longer than the time-out and one interval.\<close>

theorem harness_polls_end:
  assumes "\<And>w. pl_clock pl w + 500 \<le> pl_clock pl (pl_sleep pl 500 w)" and "gh_poll_timeout h < 500 * int fuel"
  shows "gateway_run_turn (Suc fuel) pl loads dumps sha1 h s (fs, w) \<noteq> None"
proof -
  have late: "pl_clock pl w + gh_poll_timeout h < pl_clock pl w + 500 * int fuel" for w using assms(2) by simp
  have ends: "poll_captured (Suc fuel) pl h event_id w \<noteq> None" "wait_for_reply (Suc fuel) pl h event_id w \<noteq> None" for event_id w
    unfolding poll_captured_def wait_for_reply_def by (rule poll_until_returns [OF assms(1) late])+
  then show ?thesis
    unfolding gateway_run_turn_def Let_def by (auto simp: ends split: sum.splits prod.splits option.splits)
qed

theorem harness_polls_end_witness:
  "gateway_run_turn (Suc 1) \<lparr>pl_rows = (\<lambda>w :: int. []), pl_set_rows = (\<lambda>_ w. w), pl_turns = (\<lambda>_. []), pl_post = (\<lambda>_ _ w. (Inr 200, w)),
       pl_clock = id, pl_stamp = (\<lambda>_. []), pl_sleep = (\<lambda>ms w. w + ms), pl_uuid8 = (\<lambda>w. ([], w))\<rparr> (\<lambda>_. None) (\<lambda>_ _. []) (\<lambda>_. 0)
     \<lparr>gh_gateway_url = [], gh_webhook_token = [], gh_transcripts_dir = ''/t'', gh_record_dir = None, gh_poll_timeout = 400, gh_timeout_text = ''0.4''\<rparr>
     sample_scenario ([], 0) \<noteq> None"
  by (rule harness_polls_end) simp_all

section \<open>The gate of the harness\<close>

text \<open>The harness passes exactly when it ran at least once, every run has the assertion outcomes of the first,
  and no run has a failed high-severity scenario.\<close>

theorem harness_verdict_iff:
  "harness_verdict sorted_dumps reports = Inr 0 \<longleftrightarrow> reports \<noteq> []
     \<and> list_all (\<lambda>r. sorted_dumps (assertion_signature r) = sorted_dumps (assertion_signature (hd reports))) reports
     \<and> list_all (\<lambda>r. sy_failed_high (er_summary r) = 0) reports"
proof (cases reports)
  case (Cons r rs)
  have "Max (set (map (sy_failed_high \<circ> er_summary) reports)) > 0 \<longleftrightarrow> \<not> list_all (\<lambda>r. sy_failed_high (er_summary r) = 0) reports"
    by (subst Max_gr_iff) (auto simp: Cons list_all_iff)
  then show ?thesis by (auto simp: harness_verdict_def Cons list_all_iff list_ex_iff)
qed (simp add: harness_verdict_def)

text \<open>Without runs the harness ends with an error that its entry point does not name.\<close>

lemma no_runs_crash:
  assumes "runs \<le> 0"
  shows "\<exists>m. harness_main sorted_dumps suite_run runs g = Some (Inl (PyError ''IndexError'' m), g)
     \<and> harness_entry (Inl (PyError ''IndexError'' m)) = Inl (PyError ''IndexError'' m)"
  using assms by (simp add: harness_main_def harness_verdict_def harness_entry_def exn_simps)

text \<open>A turn that returns a result read it from the captured turn of its event; a reply it reports was mirrored.\<close>

lemma poll_until_found: "poll_until fuel pl probe late deadline w = Some (Inr x, w') \<Longrightarrow> probe w' = Some x"
  by (induction fuel arbitrary: w) (auto split: option.splits if_splits)

lemma gateway_turn_proof:
  assumes "gateway_run_turn fuel pl loads dumps sha1 h s (fs, w) = Some (Inr result, fs', w')"
  shows "\<exists>event_id captured w3. load_captured_turn event_id (pl_rows pl w3) = Some captured \<and> captured_view loads s captured = Inr result
     \<and> fs' = recorded_files dumps h s captured fs
     \<and> (py_strip (tv_outbound_text result) = [] \<or> reply_mirrored event_id (pl_turns pl w'))"
proof -
  from assms obtain event_id captured w2 w3 where
      c: "poll_captured fuel pl h event_id w2 = Some (Inr captured, w3)" and v: "captured_view loads s captured = Inr result"
    and f: "fs' = recorded_files dumps h s captured fs"
    and m: "(if py_strip (tv_outbound_text result) = [] then Some (Inr (), w3) else wait_for_reply fuel pl h event_id w3) = Some (Inr (), w')"
    unfolding gateway_run_turn_def Let_def
    by (auto split: sum.splits prod.splits option.splits if_splits)
  from c have "load_captured_turn event_id (pl_rows pl w3) = Some captured" unfolding poll_captured_def by (rule poll_until_found)
  moreover have "py_strip (tv_outbound_text result) = [] \<or> reply_mirrored event_id (pl_turns pl w')"
    using m poll_until_found unfolding wait_for_reply_def by (fastforce split: if_splits)
  ultimately show ?thesis using v f by blast
qed

end
