(* ===== verification/Smoke.thy ===== *)
theory Smoke
  imports Composition MockDrivers IdentityLookup
begin

text \<open>
  \<^verbatim>\<open>composio_smoke.py\<close>: the check of a deployment against its live vendors.  The parameter \<open>w\<close> is what the program
  meets: the SDK, whose client depends on the environment (the fail-closed phase points it at a backend that hangs),
  the look-up of a slug, the clock and the deadline in microseconds.  Texts with a time are rounded to a tenth of a
  second, ties to even.
\<close>

section \<open>Checks\<close>

record smoke_check =
  ck_name :: string
  ck_ok :: "bool option"
  ck_detail :: string

abbreviation smoke_check_of :: "string \<Rightarrow> bool option \<Rightarrow> string \<Rightarrow> smoke_check" where
  "smoke_check_of name verdict detail \<equiv> \<lparr>ck_name = name, ck_ok = verdict, ck_detail = detail\<rparr>"

definition ck_label :: "smoke_check \<Rightarrow> string" where
  "ck_label c = (case ck_ok c of None \<Rightarrow> ''SKIP'' | Some b \<Rightarrow> if b then ''PASS'' else ''FAIL'')"

definition env_customer_id :: "environ \<Rightarrow> string" where
  "env_customer_id env = setting env ''SMOKE_SHOPIFY_CUSTOMER_ID''"

definition smoke_context :: "environ \<Rightarrow> string \<Rightarrow> ctx" where
  "smoke_context env customer_id =
     \<lparr>profile = EXTERNAL,
      identity = JObj [(''outcome'', JStr ''verified_customer''), (''shopify_customer_id'', JStr customer_id)],
      user_id = env ''COMPOSIO_USER_ID'', connected_account_id = None, ctx_conversation_id = None,
      ctx_sms_session_id = None\<rparr>"

section \<open>Phase 1: configuration\<close>

definition check_config :: "environ \<Rightarrow> smoke_check list" where
  "check_config env =
     (let driver_kind = (if falsy (env ''INTEGRATION_DRIVER'') then ''(unset -> mock)'' else the (env ''INTEGRATION_DRIVER''));
          cid = env_customer_id env in
      [smoke_check_of ''INTEGRATION_DRIVER=composio'' (Some (driver_kind = ''composio'')) driver_kind,
       smoke_check_of ''COMPOSIO_API_KEY present'' (Some (\<not> falsy (env ''COMPOSIO_API_KEY''))) []]
      @ map (\<lambda>(toolkit, var). smoke_check_of (toolkit @ '': '' @ var) (Some (\<not> falsy (env var))) []) CONNECTED_ACCOUNT_ENV
      @ map (\<lambda>(toolkit, var). let pin = setting env var in
          smoke_check_of (toolkit @ '': '' @ var) (Some (pin \<noteq> [] \<and> pin \<noteq> ''latest''))
            (if pin = [] then ''(unset)'' else pin)) TOOLKIT_VERSION_ENV
      @ [smoke_check_of ''SMOKE_SHOPIFY_CUSTOMER_ID (PAC-6 test customer)'' (Some (cid \<noteq> []))
          (if cid = [] then ''(unset -- happy paths will SKIP)'' else cid)])"

section \<open>Phase 2: the slugs\<close>

record ('s, 'f) smoke =
  sk_sdk :: "environ \<Rightarrow> string \<Rightarrow> (string \<times> string) list
    \<Rightarrow> exn + (string \<Rightarrow> dict \<Rightarrow> string \<Rightarrow> string option \<Rightarrow> 's \<Rightarrow> (exn + dict) \<times> 's)"
  sk_resolve :: "(string \<Rightarrow> 's \<Rightarrow> (exn + string option) \<times> 's) option"
  sk_sorted :: "string list \<Rightarrow> string list"
  sk_attribution :: "'s attribution"
  sk_floats :: "'f floats"
  sk_clock :: "'s \<Rightarrow> int"
  sk_deadline :: int
  sk_hanging_url :: string
  sk_dash :: string
  sk_exec_env :: exec_env
  sk_mock_world :: mock_world

definition build_smoke_driver :: "('s, 'f) smoke \<Rightarrow> environ \<Rightarrow> exn + ('s, 'f) composio" where
  "build_smoke_driver w env =
     build_composio_driver env (sk_sorted w) (sk_sdk w env) (sk_attribution w) (sk_floats w)"

text \<open>A loop over \<open>xs\<close> that appends one check per element; an exception ends it.\<close>

fun checks_over :: "('a \<Rightarrow> 's \<Rightarrow> (exn + smoke_check) \<times> 's) \<Rightarrow> 'a list \<Rightarrow> 's \<Rightarrow> (exn + smoke_check list) \<times> 's" where
  "checks_over f [] s = (Inr [], s)"
| "checks_over f (x # xs) s =
     (case f x s of
        (Inl e, s') \<Rightarrow> (Inl e, s')
      | (Inr c, s') \<Rightarrow> (case checks_over f xs s' of
            (Inl e, s'') \<Rightarrow> (Inl e, s'')
          | (Inr cs, s'') \<Rightarrow> (Inr (c # cs), s'')))"

text \<open>\<^verbatim>\<open>except ToolDriverError\<close> around the construction of the driver.\<close>

definition with_driver ::
  "string \<Rightarrow> exn + 'd \<Rightarrow> ('d \<Rightarrow> 's \<Rightarrow> (exn + smoke_check list) \<times> 's) \<Rightarrow> 's \<Rightarrow> (exn + smoke_check list) \<times> 's" where
  "with_driver name built body s =
     (case built of
        Inl (ToolDriverError c m) \<Rightarrow> (Inr [smoke_check_of name (Some False) m], s)
      | Inl e \<Rightarrow> (Inl e, s)
      | Inr d \<Rightarrow> body d s)"

definition INGRESS_SLUGS :: "(string \<times> string) list" where
  "INGRESS_SLUGS = [(''ingress phone match (search)'', SEARCH_ACTION), (''ingress phone match (scan fallback)'', LIST_ACTION)]"

definition resolve_slug ::
  "(string \<Rightarrow> 's \<Rightarrow> (exn + string option) \<times> 's) \<Rightarrow> string \<times> string \<Rightarrow> 's \<Rightarrow> (exn + smoke_check) \<times> 's" where
  "resolve_slug resolve probe s =
     (case resolve (snd probe) s of
        (Inr toolkit, s') \<Rightarrow> (Inr (smoke_check_of (fst probe) (Some True)
           (''toolkit='' @ (case toolkit of None \<Rightarrow> ''?'' | Some t \<Rightarrow> t))), s')
      | (Inl e, s') \<Rightarrow> (Inr (smoke_check_of (fst probe) (Some False) (exn_text e)), s'))"

definition surface_probes :: "(string \<times> string) list" where
  "surface_probes =
     map (\<lambda>((tool, action), spec). (tool @ ''.'' @ action @ '' -> '' @ sp_slug spec
            @ (if sp_unavailable spec \<noteq> None then '' (gated off in the driver)'' else []), sp_slug spec))
       (sort_key fst ACTION_MAPPING)
     @ map (\<lambda>(name, slug). (name @ '' -> '' @ slug, slug)) INGRESS_SLUGS"

definition check_surface :: "('s, 'f) smoke \<Rightarrow> environ \<Rightarrow> 's \<Rightarrow> (exn + smoke_check list) \<times> 's" where
  "check_surface w env = with_driver ''build driver'' (build_smoke_driver w env) (\<lambda>_ s.
     case sk_resolve w of
       None \<Rightarrow> (Inr [smoke_check_of ''sdk client'' (Some False) ''driver is not backed by the Composio SDK''], s)
     | Some resolve \<Rightarrow> checks_over (resolve_slug resolve) surface_probes s)"

section \<open>Phase 3: the calls\<close>

record smoke_call =
  sm_tool :: string
  sm_action :: string
  sm_params :: dict
  sm_shape_ok :: "json \<Rightarrow> bool"

definition gated_off :: "smoke_call \<Rightarrow> bool" where
  "gated_off call \<longleftrightarrow> sp_unavailable (the (map_of ACTION_MAPPING (sm_tool call, sm_action call))) \<noteq> None"

text \<open>\<^verbatim>\<open>isinstance(data, list)\<close> and every row a dict that has both keys.\<close>

definition rows_with :: "string \<Rightarrow> string \<Rightarrow> json \<Rightarrow> bool" where
  "rows_with k l data = (case data of
     JList rows \<Rightarrow> list_all (\<lambda>row. case row of JObj d \<Rightarrow> map_of d k \<noteq> None \<and> map_of d l \<noteq> None | _ \<Rightarrow> False) rows
   | _ \<Rightarrow> False)"

definition shopify_orders_shape :: "json \<Rightarrow> bool" where
  "shopify_orders_shape = rows_with ''order_number'' ''line_items''"

definition qbo_invoices_shape :: "json \<Rightarrow> bool" where
  "qbo_invoices_shape = rows_with ''invoice_number'' ''balance''"

definition SMOKE_CALLS :: "smoke_call list" where
  "SMOKE_CALLS =
     [\<lparr>sm_tool = ''toee_shopify_read'', sm_action = ''list_customer_orders'', sm_params = [], sm_shape_ok = shopify_orders_shape\<rparr>,
      \<lparr>sm_tool = ''toee_qbo_read'', sm_action = ''list_customer_invoices'', sm_params = [], sm_shape_ok = qbo_invoices_shape\<rparr>,
      \<lparr>sm_tool = ''toee_square_payment_link'', sm_action = ''send_payment_link'',
       sm_params = [(''invoice_number'', JStr ''SMOKE-1''), (''amount'', JInt 1)], sm_shape_ok = (\<lambda>_. False)\<rparr>]"

definition run_governed :: "environ \<Rightarrow> 's driver \<Rightarrow> smoke_call \<Rightarrow> string \<Rightarrow> 's \<Rightarrow> (exn + tool_result) \<times> 's" where
  "run_governed env drv call customer_id s =
     (case profile_allowlist_gate EXTERNAL of
        Inl e \<Rightarrow> (Inl e, s)
      | Inr g \<Rightarrow> (case execute_tool (sm_tool call) (sm_action call) (smoke_context env customer_id) drv
                      (sm_params call) (Some g) [] s of (r, _, s') \<Rightarrow> (Inr r, s')))"

definition class_text :: "tool_result \<Rightarrow> string" where
  "class_text r = (case tr_error_class r of None \<Rightarrow> ''None'' | Some c \<Rightarrow> error_class_name c)"

definition message_text :: "tool_result \<Rightarrow> string" where
  "message_text r = (case tr_message r of None \<Rightarrow> ''None'' | Some m \<Rightarrow> m)"

definition call_name :: "smoke_call \<Rightarrow> string" where
  "call_name call = sm_tool call @ ''.'' @ sm_action call"

definition FALLBACK_GID :: string where "FALLBACK_GID = ''gid://shopify/Customer/0''"

definition happy_check ::
  "environ \<Rightarrow> 's driver \<Rightarrow> string \<Rightarrow> smoke_call \<Rightarrow> 's \<Rightarrow> (exn + smoke_check) \<times> 's" where
  "happy_check env drv cid call s =
     (let name = call_name call @ '' happy path'' in
      if gated_off call then
        (case run_governed env drv call (if cid = [] then FALLBACK_GID else cid) s of
           (Inl e, s') \<Rightarrow> (Inl e, s')
         | (Inr r, s') \<Rightarrow> (Inr (smoke_check_of (call_name call @ '' refused (gated off)'')
             (Some (\<not> tr_ok r \<and> tr_error_class r = Some Configuration_missing)) (class_text r @ '': '' @ message_text r)), s'))
      else if cid = [] then (Inr (smoke_check_of name None ''SMOKE_SHOPIFY_CUSTOMER_ID unset''), s)
      else (case run_governed env drv call cid s of
           (Inl e, s') \<Rightarrow> (Inl e, s')
         | (Inr r, s') \<Rightarrow> (Inr (if \<not> tr_ok r then smoke_check_of name (Some False) (class_text r @ '': '' @ message_text r)
             else smoke_check_of name (Some (sm_shape_ok call (tr_data r)))
               ((case tr_data r of JList rows \<Rightarrow> show_nat (length rows) | _ \<Rightarrow> ''1'') @ '' row(s)'')), s')))"

definition check_happy_paths :: "('s, 'f) smoke \<Rightarrow> environ \<Rightarrow> 's \<Rightarrow> (exn + smoke_check list) \<times> 's" where
  "check_happy_paths w env = with_driver ''build driver'' (build_smoke_driver w env) (\<lambda>cd s.
     checks_over (happy_check env (composio_driver cd) (env_customer_id env)) SMOKE_CALLS s)"

section \<open>Phase 3b: the backend that hangs\<close>

definition DEADLINE_SLACK :: int where "DEADLINE_SLACK = 2000000"

definition tenths :: "int \<Rightarrow> string" where
  "tenths us =
     (let q = us div 100000; r = us mod 100000;
          t = (if r > 50000 \<or> r = 50000 \<and> odd q then q + 1 else q) in
      show_int (t div 10) @ ''.'' @ show_int (t mod 10) @ ''s'')"

definition smoke_mock :: "('s, 'f) smoke \<Rightarrow> mock_world driver" where
  "smoke_mock w = \<lparr>kind = ''mock'',
     exec = mock_driver_execute (create_all_mock_handlers (sk_floats w) (sk_dash w) (sk_exec_env w))\<rparr>"

definition hang_check ::
  "('s, 'f) smoke \<Rightarrow> environ \<Rightarrow> 's driver \<Rightarrow> string \<Rightarrow> smoke_call \<Rightarrow> 's \<times> mock_world
     \<Rightarrow> (exn + smoke_check) \<times> ('s \<times> mock_world)" where
  "hang_check w env drv cid call sm =
     (let (s, m) = sm; name = call_name call @ '' fail-closed'' in
      if gated_off call then (Inr (smoke_check_of name None ''gated off in the driver''), sm)
      else case run_governed env drv call cid s of
        (Inl e, s') \<Rightarrow> (Inl e, (s', m))
      | (Inr r, s') \<Rightarrow>
          (let elapsed = sk_clock w s' - sk_clock w s in
           if tr_ok r then
             (case run_governed env (smoke_mock w) call cid m of
                (Inl e, m') \<Rightarrow> (Inl e, (s', m'))
              | (Inr mock_result, m') \<Rightarrow> (Inr (smoke_check_of name (Some False)
                  (if tr_ok mock_result \<and> tr_data r = tr_data mock_result
                   then ''returned the MOCK payload (FR-21 violation) after '' @ tenths elapsed
                   else ''backend hung but result ok=True after '' @ tenths elapsed)), (s', m')))
           else if elapsed > sk_deadline w + DEADLINE_SLACK then
             (Inr (smoke_check_of name (Some False) (''governed '' @ class_text r @ '' but took '' @ tenths elapsed
                @ '' (deadline '' @ tenths (sk_deadline w) @ '' + 2s slack)'')), (s', m))
           else (Inr (smoke_check_of name (Some True) (class_text r @ '' in '' @ tenths elapsed
                @ '' (deadline '' @ tenths (sk_deadline w) @ '')'')), (s', m))))"

text \<open>The environment is a state of its own here: the phase sets \<^verbatim>\<open>COMPOSIO_BASE_URL\<close> and puts back what was there.\<close>

definition check_fail_closed ::
  "('s, 'f) smoke \<Rightarrow> environ \<Rightarrow> 's \<Rightarrow> (exn + smoke_check list) \<times> 's \<times> environ" where
  "check_fail_closed w env s =
     (let cid = (if env_customer_id env = [] then FALLBACK_GID else env_customer_id env);
          previous = env ''COMPOSIO_BASE_URL'';
          hung = env(''COMPOSIO_BASE_URL'' \<mapsto> sk_hanging_url w);
          (r, s', _) = with_driver ''build driver (hung backend)'' (build_smoke_driver w hung) (\<lambda>cd sm.
            checks_over (hang_check w hung (composio_driver cd) cid) SMOKE_CALLS sm) (s, sk_mock_world w) in
      (r, s', case previous of None \<Rightarrow> hung(''COMPOSIO_BASE_URL'' := None) | Some u \<Rightarrow> hung(''COMPOSIO_BASE_URL'' \<mapsto> u)))"

section \<open>The program\<close>

definition check_line :: "smoke_check \<Rightarrow> string" where
  "check_line c = ''  ['' @ ck_label c @ ''] '' @ ck_name c @ (if ck_detail c = [] then [] else ''  -- '' @ ck_detail c)"

definition print_checks :: "string \<Rightarrow> smoke_check list \<Rightarrow> string list" where
  "print_checks title checks = (nl @ title) # map check_line checks"

definition phase_passed :: "smoke_check list \<Rightarrow> bool" where
  "phase_passed checks = list_all (\<lambda>c. ck_ok c \<noteq> Some False) checks"

definition smoke_verdict :: "bool \<Rightarrow> string" where
  "smoke_verdict passed = nl @ ''smoke: '' @ (if passed then ''PASS'' else ''FAIL'')"

definition smoke_main :: "('s, 'f) smoke \<Rightarrow> environ \<Rightarrow> 's \<Rightarrow> (exn + int) \<times> string list \<times> 's \<times> environ" where
  "smoke_main w env s =
     (let c1 = check_config env;
          out1 = ''Composio production smoke (0.0.4 S12) -- live backend, no mock fallback'' # print_checks ''1. config'' c1 in
      case check_surface w env s of
        (Inl e, s1) \<Rightarrow> (Inl e, out1, s1, env)
      | (Inr c2, s1) \<Rightarrow>
          (let out2 = out1 @ print_checks ''2. surface (slugs resolve at the pinned toolkit version)'' c2 in
           case check_happy_paths w env s1 of
             (Inl e, s2) \<Rightarrow> (Inl e, out2, s2, env)
           | (Inr c3, s2) \<Rightarrow>
               (let out3 = out2 @ print_checks ''3a. happy path'' c3 in
                case check_fail_closed w env s2 of
                  (Inl e, s3, env') \<Rightarrow> (Inl e, out3, s3, env')
                | (Inr c4, s3, env') \<Rightarrow>
                    (let passed = (phase_passed c1 \<and> phase_passed c2 \<and> phase_passed c3 \<and> phase_passed c4) in
                     (Inr (if passed then 0 else 1),
                      out3 @ print_checks ''3b. fail-closed (backend hung -- accepts, never answers)'' c4
                        @ [smoke_verdict passed], s3, env')))))"

section \<open>Lemmas\<close>

lemma checks_over_passed:
  assumes "checks_over f xs s = (Inr cs, s')" and "phase_passed cs" and "x \<in> set xs"
  shows "\<exists>s1 c s2. f x s1 = (Inr c, s2) \<and> c \<in> set cs \<and> ck_ok c \<noteq> Some False"
  using assms
proof (induction xs arbitrary: s cs)
  case (Cons y ys)
  from Cons.prems(1) obtain c s1 cs' where c: "f y s = (Inr c, s1)" "checks_over f ys s1 = (Inr cs', s')" "cs = c # cs'"
    by (auto split: prod.splits sum.splits)
  with Cons.prems(2) have p: "ck_ok c \<noteq> Some False" "phase_passed cs'" by (simp_all add: phase_passed_def)
  show ?case
  proof (cases "x = y")
    case True
    with c p show ?thesis by (intro exI [of _ s] exI [of _ c] exI [of _ s1]) simp
  next
    case False
    with Cons.IH [OF c(2) p(2)] Cons.prems(3) c(3) show ?thesis by fastforce
  qed
qed simp

lemma with_driver_passed:
  assumes "with_driver name built body s = (Inr cs, s')" and "phase_passed cs"
  shows "\<exists>d. built = Inr d \<and> body d s = (Inr cs, s')"
  using assms by (auto simp: with_driver_def phase_passed_def split: sum.splits exn.splits)

lemma smoke_main_zero:
  assumes "smoke_main w env s = (Inr 0, out, s', env')"
  obtains c2 s1 c3 s2 c4 where "check_surface w env s = (Inr c2, s1)" "check_happy_paths w env s1 = (Inr c3, s2)"
    "check_fail_closed w env s2 = (Inr c4, s', env')" "phase_passed (check_config env)" "phase_passed c2" "phase_passed c3"
    "phase_passed c4" "set (map check_line c4) \<subseteq> set out"
proof -
  from assms obtain c2 s1 c3 s2 c4 where r: "check_surface w env s = (Inr c2, s1)" "check_happy_paths w env s1 = (Inr c3, s2)"
    "check_fail_closed w env s2 = (Inr c4, s', env')"
    by (auto simp: smoke_main_def Let_def split: prod.splits sum.splits)
  with assms have p: "phase_passed (check_config env) \<and> phase_passed c2 \<and> phase_passed c3 \<and> phase_passed c4"
    by (auto simp: smoke_main_def Let_def split: if_splits)
  from r assms have "set (map check_line c4) \<subseteq> set out"
    by (auto simp: smoke_main_def Let_def print_checks_def)
  with r p show thesis by (intro that) auto
qed

lemma pins_distinct: "distinct (map fst TOOLKIT_VERSION_ENV)"
  by code_simp

lemma config_passed:
  assumes "phase_passed (check_config env)"
  shows "env ''INTEGRATION_DRIVER'' = Some ''composio''" "env_customer_id env \<noteq> []"
    "(t, v) \<in> set CONNECTED_ACCOUNT_ENV \<Longrightarrow> \<not> falsy (env v)"
    "(t, v) \<in> set TOOLKIT_VERSION_ENV \<Longrightarrow> pinned env t"
proof -
  from assms show "env ''INTEGRATION_DRIVER'' = Some ''composio''"
    by (auto simp: phase_passed_def check_config_def Let_def falsy_def split: option.splits if_splits)
  from assms show "env_customer_id env \<noteq> []" by (simp add: phase_passed_def check_config_def Let_def)
  from assms have parts: "list_all (\<lambda>x. \<not> falsy (env (snd x))) CONNECTED_ACCOUNT_ENV"
      "list_all (\<lambda>x. setting env (snd x) \<noteq> [] \<and> setting env (snd x) \<noteq> ''latest'') TOOLKIT_VERSION_ENV"
    by (simp_all add: phase_passed_def check_config_def Let_def list.pred_map comp_def case_prod_unfold)
  from parts(1) show "(t, v) \<in> set CONNECTED_ACCOUNT_ENV \<Longrightarrow> \<not> falsy (env v)" by (force simp: list_all_iff)
  assume t: "(t, v) \<in> set TOOLKIT_VERSION_ENV"
  with parts(2) have "setting env v \<noteq> [] \<and> setting env v \<noteq> ''latest''" by (force simp: list_all_iff)
  moreover have "setting env v = version_pin env t"
    by (simp add: setting_def strip_or_empty_def version_pin_def map_of_is_SomeI [OF pins_distinct t] split: option.split)
  ultimately show "pinned env t" by (simp add: pinned_def)
qed

lemma surface_passed:
  assumes "check_surface w env s = (Inr cs, s')" and "phase_passed cs" and "slug \<in> snd ` set surface_probes"
  shows "\<exists>resolve toolkit s1 s2. sk_resolve w = Some resolve \<and> resolve slug s1 = (Inr toolkit, s2)"
proof -
  from with_driver_passed [OF assms(1)[unfolded check_surface_def] assms(2)] assms(2) obtain resolve where
    r: "sk_resolve w = Some resolve" "checks_over (resolve_slug resolve) surface_probes s = (Inr cs, s')"
    by (auto simp: phase_passed_def split: option.splits)
  from assms(3) obtain name where "(name, slug) \<in> set surface_probes" by auto
  from checks_over_passed [OF r(2) assms(2) this] obtain s1 c s2 where
    c: "resolve_slug resolve (name, slug) s1 = (Inr c, s2)" "ck_ok c \<noteq> Some False" by blast
  obtain x s3 where x: "resolve slug s1 = (x, s3)" by fastforce
  with c have "\<exists>toolkit. x = Inr toolkit" by (cases x) (auto simp: resolve_slug_def)
  with r(1) x show ?thesis by blast
qed

lemma probed_slugs: "snd ` set surface_probes = sp_slug ` snd ` set ACTION_MAPPING \<union> {SEARCH_ACTION, LIST_ACTION}"
  by (force simp: surface_probes_def INGRESS_SLUGS_def)

lemma happy_passed:
  assumes "check_happy_paths w env s = (Inr cs, s')" and "phase_passed cs" and "env_customer_id env \<noteq> []"
    and "call \<in> set SMOKE_CALLS" and "\<not> gated_off call"
  shows "\<exists>cd s1 r s2. build_smoke_driver w env = Inr cd
    \<and> run_governed env (composio_driver cd) call (env_customer_id env) s1 = (Inr r, s2) \<and> tr_ok r \<and> sm_shape_ok call (tr_data r)"
proof -
  from with_driver_passed [OF assms(1)[unfolded check_happy_paths_def] assms(2)] obtain cd where
    d: "build_smoke_driver w env = Inr cd"
    "checks_over (happy_check env (composio_driver cd) (env_customer_id env)) SMOKE_CALLS s = (Inr cs, s')" by blast
  from checks_over_passed [OF d(2) assms(2,4)] d(1) assms(3,5) show ?thesis
    by (fastforce simp: happy_check_def Let_def split: prod.splits sum.splits if_splits)
qed

lemma restored: "snd (snd (check_fail_closed w env s)) = env"
  by (auto simp: check_fail_closed_def Let_def fun_upd_idem split: option.splits prod.splits)

lemma hang_run:
  assumes "check_fail_closed w env s = (Inr cs, s', env')" and "phase_passed cs" and "env_customer_id env \<noteq> []"
  obtains cd m where "build_smoke_driver w (env(''COMPOSIO_BASE_URL'' \<mapsto> sk_hanging_url w)) = Inr cd"
    "checks_over (hang_check w (env(''COMPOSIO_BASE_URL'' \<mapsto> sk_hanging_url w)) (composio_driver cd) (env_customer_id env))
       SMOKE_CALLS (s, sk_mock_world w) = (Inr cs, s', m)"
proof -
  let ?hung = "env(''COMPOSIO_BASE_URL'' \<mapsto> sk_hanging_url w)"
  from assms(1,3) obtain m where
    "with_driver ''build driver (hung backend)'' (build_smoke_driver w ?hung) (\<lambda>cd sm.
       checks_over (hang_check w ?hung (composio_driver cd) (env_customer_id env)) SMOKE_CALLS sm) (s, sk_mock_world w) = (Inr cs, s', m)"
    by (auto simp: check_fail_closed_def Let_def split: prod.splits)
  from with_driver_passed [OF this assms(2)] that show thesis by blast
qed

lemma hang_passed:
  assumes "check_fail_closed w env s = (Inr cs, s', env')" and "phase_passed cs" and "env_customer_id env \<noteq> []"
    and "call \<in> set SMOKE_CALLS" and "\<not> gated_off call"
  shows "\<exists>cd s1 r s2. build_smoke_driver w (env(''COMPOSIO_BASE_URL'' \<mapsto> sk_hanging_url w)) = Inr cd
    \<and> run_governed (env(''COMPOSIO_BASE_URL'' \<mapsto> sk_hanging_url w)) (composio_driver cd) call (env_customer_id env) s1 = (Inr r, s2)
    \<and> \<not> tr_ok r \<and> sk_clock w s2 - sk_clock w s1 \<le> sk_deadline w + DEADLINE_SLACK"
proof -
  let ?hung = "env(''COMPOSIO_BASE_URL'' \<mapsto> sk_hanging_url w)"
  from assms(1-3) obtain cd m where
    d: "build_smoke_driver w ?hung = Inr cd"
    "checks_over (hang_check w ?hung (composio_driver cd) (env_customer_id env)) SMOKE_CALLS (s, sk_mock_world w) = (Inr cs, s', m)"
    by (rule hang_run)
  from checks_over_passed [OF d(2) assms(2,4)] obtain s1 m1 c s2 m2 where
    h: "hang_check w ?hung (composio_driver cd) (env_customer_id env) call (s1, m1) = (Inr c, (s2, m2))" "ck_ok c \<noteq> Some False"
    by auto
  obtain x s3 where g: "run_governed ?hung (composio_driver cd) call (env_customer_id env) s1 = (x, s3)" by fastforce
  with h assms(5) obtain r where x: "x = Inr r" by (cases x) (simp_all add: hang_check_def)
  with h g assms(5) have "\<not> tr_ok r \<and> \<not> sk_clock w s3 - sk_clock w s1 > sk_deadline w + DEADLINE_SLACK"
    by (auto simp: hang_check_def Let_def split: prod.splits sum.splits if_splits)
  with d(1) g x show ?thesis by (intro exI [of _ cd] exI [of _ s1] exI [of _ r] exI [of _ s3]) simp
qed

section \<open>Properties\<close>

text \<open>The smoke test exits with 0 only when the deployment selects the Composio driver, names the test
  customer, has all three accounts and pins, every slug the driver or the ingress calls resolves, each read that is
  not gated off really answered with rows of its shape, and the same read of a backend that hangs was refused within
  the deadline.  It leaves the environment as it was.\<close>

theorem smoke_passes_only_live:
  assumes "smoke_main w env s = (Inr 0, out, s', env')"
  shows "env ''INTEGRATION_DRIVER'' = Some ''composio''
    \<and> (\<forall>t v. (t, v) \<in> set CONNECTED_ACCOUNT_ENV \<longrightarrow> \<not> falsy (env v) \<and> pinned env t)
    \<and> (\<forall>slug. slug \<in> sp_slug ` snd ` set ACTION_MAPPING \<union> {SEARCH_ACTION, LIST_ACTION} \<longrightarrow>
      (\<exists>resolve toolkit s1 s2. sk_resolve w = Some resolve \<and> resolve slug s1 = (Inr toolkit, s2)))
    \<and> (\<forall>call. call \<in> set SMOKE_CALLS \<and> \<not> gated_off call \<longrightarrow>
      (\<exists>cd s1 r s2. build_smoke_driver w env = Inr cd
         \<and> run_governed env (composio_driver cd) call (env_customer_id env) s1 = (Inr r, s2) \<and> tr_ok r \<and> sm_shape_ok call (tr_data r))
      \<and> (\<exists>cd s1 r s2. build_smoke_driver w (env(''COMPOSIO_BASE_URL'' \<mapsto> sk_hanging_url w)) = Inr cd
         \<and> run_governed (env(''COMPOSIO_BASE_URL'' \<mapsto> sk_hanging_url w)) (composio_driver cd) call (env_customer_id env) s1 = (Inr r, s2)
         \<and> \<not> tr_ok r \<and> sk_clock w s2 - sk_clock w s1 \<le> sk_deadline w + DEADLINE_SLACK))
    \<and> env' = env"
proof -
  from assms obtain c2 s1 c3 s2 c4 where r: "check_surface w env s = (Inr c2, s1)" "check_happy_paths w env s1 = (Inr c3, s2)"
    "check_fail_closed w env s2 = (Inr c4, s', env')"
    and p: "phase_passed (check_config env)" "phase_passed c2" "phase_passed c3" "phase_passed c4"
    by (rule smoke_main_zero)
  note config = config_passed [OF p(1)]
  have "\<exists>u. (t, u) \<in> set TOOLKIT_VERSION_ENV" if "(t, v) \<in> set CONNECTED_ACCOUNT_ENV" for t v
    using that by (auto simp: CONNECTED_ACCOUNT_ENV_def TOOLKIT_VERSION_ENV_def)
  with config(3,4) have accounts: "\<not> falsy (env v) \<and> pinned env t" if "(t, v) \<in> set CONNECTED_ACCOUNT_ENV" for t v
    using that by blast
  have "env' = env" using restored [of w env s2] r(3) by simp
  with config(1) accounts surface_passed [OF r(1) p(2), unfolded probed_slugs] happy_passed [OF r(2) p(3) config(2)]
    hang_passed [OF r(3) p(4) config(2)] show ?thesis by (intro conjI allI impI) blast+
qed

text \<open>A deployment that passes: the vendor answers empty lists, and on the base URL of the hanging backend only a time-out.\<close>

definition smoke_env :: environ where
  "smoke_env = map_of
     [(''INTEGRATION_DRIVER'', ''composio''), (''COMPOSIO_API_KEY'', ''k''),
      (''COMPOSIO_SHOPIFY_CONNECTED_ACCOUNT_ID'', ''a1''), (''COMPOSIO_QBO_CONNECTED_ACCOUNT_ID'', ''a2''),
      (''COMPOSIO_SQUARE_CONNECTED_ACCOUNT_ID'', ''a3''), (''COMPOSIO_TOOLKIT_VERSION_SHOPIFY'', ''20260506_00''),
      (''COMPOSIO_TOOLKIT_VERSION_QUICKBOOKS'', ''20260616_00''), (''COMPOSIO_TOOLKIT_VERSION_SQUARE'', ''20260506_00''),
      (''SMOKE_SHOPIFY_CUSTOMER_ID'', ''gid://shopify/Customer/1001'')]"

definition smoke_world :: "string \<Rightarrow> exec_env \<Rightarrow> mock_world \<Rightarrow> (int, int) smoke" where
  "smoke_world dash ex m =
     \<lparr>sk_sdk = (\<lambda>env key versions. Inr (\<lambda>act params acct uid now.
        if env ''COMPOSIO_BASE_URL'' \<noteq> None then (Inl (PyError ''APITimeoutError'' ''timed out''), now + 15000000)
        else (Inr (if act = ''SHOPIFY_GET_CUSTOMER_ORDERS'' then [(''orders'', JList [])]
                   else [(''QueryResponse'', JObj [(''Invoice'', JList [])])]), now + 1))),
      sk_resolve = Some (\<lambda>slug now. (Inr None, now)), sk_sorted = id,
      sk_attribution = \<lparr>qa_client = Some (\<lambda>gid s. (Some (Inr
         ([JObj [(''qboCustomerId'', JStr ''0042''), (''status'', JStr ''CONFIRMED'')]],
          [(''42'', JList [JObj [(''shopifyGid'', JStr ''1001''), (''status'', JStr ''CONFIRMED'')]])])), s)),
        qa_config_error = None, qa_deadline = ''8000''\<rparr>,
      sk_floats = int_floats, sk_clock = id, sk_deadline = 15000000, sk_hanging_url = ''http://127.0.0.1:4711'',
      sk_dash = dash, sk_exec_env = ex, sk_mock_world = m\<rparr>"

theorem smoke_passes_only_live_witness:
  "\<forall>dash ex m. \<exists>cd s1 r s2. build_smoke_driver (smoke_world dash ex m) smoke_env = Inr cd
     \<and> run_governed smoke_env (composio_driver cd) (hd SMOKE_CALLS) (env_customer_id smoke_env) s1 = (Inr r, s2) \<and> tr_ok r"
proof (intro allI)
  fix dash ex m
  have "fst (smoke_main (smoke_world dash ex m) smoke_env 0) = Inr 0" by code_simp
  then obtain out s' env' where z: "smoke_main (smoke_world dash ex m) smoke_env 0 = (Inr 0, out, s', env')"
    by (metis prod.collapse)
  have h: "hd SMOKE_CALLS \<in> set SMOKE_CALLS" by (simp add: SMOKE_CALLS_def)
  have g: "\<not> gated_off (hd SMOKE_CALLS)" by code_simp
  show "\<exists>cd s1 r s2. build_smoke_driver (smoke_world dash ex m) smoke_env = Inr cd
     \<and> run_governed smoke_env (composio_driver cd) (hd SMOKE_CALLS) (env_customer_id smoke_env) s1 = (Inr r, s2) \<and> tr_ok r"
    using smoke_passes_only_live [OF z, THEN conjunct2, THEN conjunct2, THEN conjunct2, THEN conjunct1,
        THEN spec [of _ "hd SMOKE_CALLS"], THEN mp, OF conjI [OF h g], THEN conjunct1]
    by (elim exE conjE) (intro exI conjI)
qed

text \<open>Every run that passes has skipped a check: the payment link is never called on the backend that hangs.\<close>

theorem passing_smoke_skips:
  assumes "smoke_main w env s = (Inr 0, out, s', env')"
  shows "''  [SKIP] toee_square_payment_link.send_payment_link fail-closed  -- gated off in the driver'' \<in> set out"
proof -
  from assms obtain c2 s1 c3 s2 c4 where r: "check_fail_closed w env s2 = (Inr c4, s', env')"
    and p: "phase_passed (check_config env)" "phase_passed c4" and out: "set (map check_line c4) \<subseteq> set out"
    by (rule smoke_main_zero) blast
  obtain cd m where "build_smoke_driver w (env(''COMPOSIO_BASE_URL'' \<mapsto> sk_hanging_url w)) = Inr cd"
    and d: "checks_over (hang_check w (env(''COMPOSIO_BASE_URL'' \<mapsto> sk_hanging_url w)) (composio_driver cd) (env_customer_id env))
       SMOKE_CALLS (s2, sk_mock_world w) = (Inr c4, s', m)"
    by (rule hang_run [OF r p(2) config_passed(2) [OF p(1)]])
  let ?call = "last SMOKE_CALLS"
  have "?call \<in> set SMOKE_CALLS" by (simp add: SMOKE_CALLS_def)
  from checks_over_passed [OF d p(2) this] obtain sm c sm' where
    c: "hang_check w (env(''COMPOSIO_BASE_URL'' \<mapsto> sk_hanging_url w)) (composio_driver cd) (env_customer_id env) ?call sm = (Inr c, sm')"
      "c \<in> set c4" by blast
  have "gated_off ?call" by code_simp
  with c(1) have "c = smoke_check_of (call_name ?call @ '' fail-closed'') None ''gated off in the driver''"
    by (auto simp: hang_check_def split: prod.splits)
  moreover have "check_line (smoke_check_of (call_name ?call @ '' fail-closed'') None ''gated off in the driver'')
      = ''  [SKIP] toee_square_payment_link.send_payment_link fail-closed  -- gated off in the driver''" by code_simp
  ultimately have "''  [SKIP] toee_square_payment_link.send_payment_link fail-closed  -- gated off in the driver'' \<in> set (map check_line c4)"
    using c(2) by (metis image_eqI list.set_map)
  with out show ?thesis by blast
qed

text \<open>The payment link is refused whatever the vendors would say, and no vendor is asked.\<close>

lemma gated_call_refused:
  assumes "map_of ACTION_MAPPING (rq_tool request, rq_action request) = Some spec" and "sp_unavailable spec = Some e"
  shows "composio_execute cd request context s = (Inl e, s)"
  using assms by (simp add: composio_execute_def)

theorem payment_link_refused:
  "\<exists>r. run_governed env (composio_driver cd) (last SMOKE_CALLS) customer_id s = (Inr r, s)
     \<and> \<not> tr_ok r \<and> tr_error_class r = Some Configuration_missing"
proof -
  let ?call = "last SMOKE_CALLS" and ?c = "smoke_context env customer_id"
  obtain g where g: "profile_allowlist_gate EXTERNAL = Inr g" "gd_allow (g \<lparr>rq_tool = sm_tool ?call, rq_action = sm_action ?call, rq_params = sm_params ?call\<rparr> ?c)"
    by (simp add: profile_allowlist_gate_def allowlisted_tools_def PROFILE_TOOL_ALLOWLIST_def SMOKE_CALLS_def exn_simps gate_allow_def)
  have "composio_execute cd \<lparr>rq_tool = sm_tool ?call, rq_action = sm_action ?call, rq_params = sm_params ?call\<rparr> ?c s
      = (Inl SQUARE_PAYMENT_LINK_UNAVAILABLE, s)"
    by (simp add: composio_execute_def ACTION_MAPPING_def SMOKE_CALLS_def)
  moreover have "is_tool_name (sm_tool ?call)" "is_tool_action (sm_tool ?call) (sm_action ?call)" by code_simp+
  ultimately show ?thesis
    using g by (simp add: run_governed_def execute_tool_def composio_driver_def Let_def tool_fail_def SQUARE_PAYMENT_LINK_UNAVAILABLE_def)
qed

end
