(* ===== verification/ToolSchemas.thy ===== *)
theory ToolSchemas
  imports Catalog Transcript
begin

text \<open>
  \<^verbatim>\<open>plugin/schemas.py\<close>: the JSON schemas of the tools as the model sees them, and that the flat name of a tool leads
  back to its tool and action.
\<close>

section \<open>The schemas\<close>

definition PARAM_SCHEMAS :: "((string \<times> string) \<times> dict) list" where
  "PARAM_SCHEMAS =
    [((''toee_knowledge_search'', ''search_public_site''),
      [(''properties'', JObj [(''query'', JObj [(''type'', JStr ''string''),
          (''description'', JStr (''The customer's question or topic to search the public knowledge corpus for.''))])]),
       (''required'', JList [JStr ''query''])]),
     ((''toee_knowledge_search'', ''search_operational_policy''),
      [(''properties'', JObj [(''query'', JObj [(''type'', JStr ''string''),
          (''description'', JStr (''Policy topic or question.''))]),
         (''slot'', JObj [(''type'', JStr ''string''),
          (''description'', JStr (''Operational policy slot identifier, when known.''))])])]),
     ((''toee_delivery_promise'', ''get_order_delivery''),
      [(''properties'', JObj [(''order_name'', JObj [(''type'', JStr ''string''),
          (''description'', JStr (''The order name/number of the verified customer's own order (e.g. \"OL49597\"), as returned by ''
            @ ''toee_shopify_read.get_order / list_customer_orders in their order_number field, or as the ''
            @ ''customer stated it. Never fabricate an order name or id.''))])]),
       (''required'', JList [JStr ''order_name''])]),
     ((''toee_delivery_promise'', ''get_product_promise''),
      [(''properties'', JObj [(''sku'', JObj [(''type'', JStr ''string''),
          (''description'', JStr (''The SKU of the specific product variant (size) to get a delivery promise for, taken from the ''
            @ ''variants list of toee_shopify_read.get_product / search_products. Never fabricate a sku.''))]),
         (''quantity'', JObj [(''type'', JStr ''integer''),
          (''description'', JStr (''Optional quantity being considered (defaults to 1).''))])]),
       (''required'', JList [JStr ''sku''])]),
     ((''toee_delivery_promise'', ''get_delivery_quote''),
      [(''properties'', JObj [(''sku'', JObj [(''type'', JStr ''string''),
          (''description'', JStr (''The SKU of the specific product variant (size), taken from the variants list of ''
            @ ''toee_shopify_read.get_product / search_products. Never fabricate a sku.''))]),
         (''postal_code'', JObj [(''type'', JStr ''string''),
          (''description'', JStr (''The Canadian postal code to quote delivery to (e.g. \"M3J 1P3\"), as the customer gave it. Ask ''
            @ ''the customer for it if not provided; never fabricate one.''))]),
         (''quantity'', JObj [(''type'', JStr ''integer''),
          (''description'', JStr (''Optional quantity being considered (defaults to 1).''))])]),
       (''required'', JList [JStr ''sku'', JStr ''postal_code''])]),
     ((''toee_agent_experience'', ''propose_experience''),
      [(''properties'', JObj [(''kind'', JObj [(''type'', JStr ''string''),
          (''enum'', JList [JStr ''note'', JStr ''procedure'']),
          (''description'', JStr (''Whether this is an operational note or a procedure.''))]),
         (''content'', JObj [(''type'', JStr ''string''),
          (''description'', JStr (''The operational learning to propose. Operational-only -- no customer PII.''))]),
         (''proposer_context'', JObj [(''type'', JStr ''object''),
          (''description'', JStr (''Optional redacted operational context the proposal was drawn from.''))])]),
       (''required'', JList [JStr ''kind'', JStr ''content''])]),
     ((''toee_agent_experience'', ''confirm_experience''),
      [(''properties'', JObj [(''id'', JObj [(''type'', JStr ''string''),
          (''description'', JStr (''The agent_experience entry id to confirm.''))])]),
       (''required'', JList [JStr ''id''])]),
     ((''toee_agent_experience'', ''reject_experience''),
      [(''properties'', JObj [(''id'', JObj [(''type'', JStr ''string''),
          (''description'', JStr (''The agent_experience entry id to reject.''))])]),
       (''required'', JList [JStr ''id''])]),
     ((''toee_integrations'', ''initiate_reconnect''),
      [(''properties'', JObj [(''integration_key'', JObj [(''type'', JStr ''string''),
          (''enum'', JList [JStr ''shopify'', JStr ''qbo'', JStr ''square'']),
          (''description'', JStr (''The Composio-managed connection to reconnect.''))]),
         (''callback_url'', JObj [(''type'', JStr ''string''),
          (''description'', JStr (''Workbench callback URL (carries the session-bound state) the provider returns to after ''
            @ ''re-auth. Built server-side, never client-supplied.''))])]),
       (''required'', JList [JStr ''integration_key'', JStr ''callback_url''])]),
     ((''toee_integrations'', ''reprobe_now''),
      [(''properties'', JObj [(''integration_key'', JObj [(''type'', JStr ''string''),
          (''description'', JStr (''The integration to run an on-demand health probe for.''))])]),
       (''required'', JList [JStr ''integration_key''])])]"

definition schema_description :: "string \<Rightarrow> string \<Rightarrow> string" where
  "schema_description tool action =
     ''Toee Domain Adapter Tool \"'' @ tool @ ''\", action \"'' @ action @ ''\". Pass the action's parameters as top-level fields. ''
     @ ''Returns governed JSON; on failure an object with an \"error\" message and \"error_class\" ''
     @ ''(never raw vendor errors, never fabricated data).''"

definition build_tool_schema :: "string \<Rightarrow> string \<Rightarrow> dict" where
  "build_tool_schema tool action =
     (let layered = (case map_of PARAM_SCHEMAS (tool, action) of None \<Rightarrow> [] | Some d \<Rightarrow> d);
          parameters = [(''type'', JStr ''object''), (''properties'', get_or layered ''properties'' (JObj [])),
              (''additionalProperties'', JBool True)]
            @ (if truthy (get layered ''required'') then [(''required'', get layered ''required'')] else []) in
      [(''name'', JStr (hermes_tool_name tool action)), (''description'', JStr (schema_description tool action)),
       (''parameters'', JObj parameters)])"

text \<open>The entries of \<^verbatim>\<open>build_tool_schemas\<close> with their schemas.\<close>

definition tool_schemas :: "(schema_entry \<times> dict) list" where
  "tool_schemas = map (\<lambda>e. (e, build_tool_schema (se_tool e) (se_action e))) build_tool_schemas"

section \<open>Well-formed schemas\<close>

definition required_declared :: "dict \<Rightarrow> bool" where
  "required_declared d \<longleftrightarrow> (case (get d ''properties'', get d ''required'') of
     (JObj props, JList names) \<Rightarrow> names \<noteq> [] \<and> list_all (\<lambda>n. case n of JStr s \<Rightarrow> s \<in> fst ` set props | _ \<Rightarrow> False) names
   | (JObj props, JNull) \<Rightarrow> True
   | _ \<Rightarrow> False)"

lemma param_schemas_declared: "list_all (\<lambda>(key, d). is_tool_action (fst key) (snd key) \<and> required_declared d) PARAM_SCHEMAS"
  by code_simp

lemma required_names:
  assumes "required_declared d"
  obtains props names where "get d ''properties'' = JObj props"
    "get d ''required'' = JNull \<and> names = [] \<or> get d ''required'' = JList (map JStr names) \<and> names \<noteq> []" "set names \<subseteq> fst ` set props"
proof -
  from assms obtain props where p: "get d ''properties'' = JObj props"
    by (auto simp: required_declared_def split: json.splits)
  show thesis
  proof (cases "get d ''required'' = JNull")
    case True
    with p show ?thesis by (intro that [of props "[]"]) auto
  next
    case False
    with assms p obtain js where js: "get d ''required'' = JList js" "js \<noteq> []"
        "list_all (\<lambda>n. case n of JStr s \<Rightarrow> s \<in> fst ` set props | _ \<Rightarrow> False) js"
      by (auto simp: required_declared_def split: json.splits)
    from js(3) have "\<exists>names. js = map JStr names \<and> set names \<subseteq> fst ` set props"
    proof (induction js)
      case (Cons j js)
      from Cons.prems obtain s where j: "j = JStr s" "s \<in> fst ` set props" by (cases j) auto
      from Cons obtain names where "js = map JStr names" "set names \<subseteq> fst ` set props" by auto
      with j show ?case by (intro exI [of _ "s # names"]) auto
    qed simp
    then obtain names where "js = map JStr names" "set names \<subseteq> fst ` set props" by blast
    with p js show ?thesis by (intro that [of props names]) auto
  qed
qed

text \<open>The schema of a tool names the parameters it requires among the properties it declares, and
  leaves the object open; an action without declared parameters requires none.\<close>

theorem schema_requires_declared:
  "\<exists>props names. build_tool_schema tool action =
     [(''name'', JStr (hermes_tool_name tool action)), (''description'', JStr (schema_description tool action)),
      (''parameters'', JObj ([(''type'', JStr ''object''), (''properties'', JObj props), (''additionalProperties'', JBool True)]
         @ (if names = [] then [] else [(''required'', JList (map JStr names))])))]
     \<and> set names \<subseteq> fst ` set props"
proof (cases "map_of PARAM_SCHEMAS (tool, action)")
  case None
  then show ?thesis by (intro exI [of _ "[]"]) (simp add: build_tool_schema_def Let_def get_def get_or_def)
next
  case (Some d)
  then have "required_declared d" using param_schemas_declared by (auto simp: list_all_iff dest!: map_of_SomeD)
  then obtain props names where d: "get d ''properties'' = JObj props"
      "get d ''required'' = JNull \<and> names = [] \<or> get d ''required'' = JList (map JStr names) \<and> names \<noteq> []" "set names \<subseteq> fst ` set props"
    by (rule required_names)
  from d(1) have "get_or d ''properties'' (JObj []) = JObj props" by (auto simp: get_def get_or_def split: option.splits)
  with d Some show ?thesis by (intro exI [of _ props] exI [of _ names]) (auto simp: build_tool_schema_def Let_def)
qed

section \<open>Names\<close>

fun no_dunder :: "string \<Rightarrow> bool" where
  "no_dunder [] = True"
| "no_dunder [c] = (c \<noteq> CHR ''_'')"
| "no_dunder (c # d # s) = ((c \<noteq> CHR ''_'' \<or> d \<noteq> CHR ''_'') \<and> no_dunder (d # s))"

lemma partition_dunder_append: "no_dunder tool \<Longrightarrow> partition_dunder (tool @ ''__'' @ action) = (tool, action)"
  by (induction tool rule: no_dunder.induct) auto

lemma catalog_no_dunder: "list_all (\<lambda>(tool, actions). no_dunder tool) TOOL_CATALOG"
  by code_simp

text \<open>The name under which an action of the catalog is offered leads the reader of transcripts back to
  that tool and action, so no two actions share a name.\<close>

theorem tool_name_parses_back:
  assumes "is_tool_action tool action"
  shows "partition_dunder (hermes_tool_name tool action) = (tool, action)"
proof -
  from assms obtain actions where "map_of TOOL_CATALOG tool = Some actions" by (auto simp: is_tool_action_def split: option.splits)
  then have "no_dunder tool" using catalog_no_dunder by (auto simp: list_all_iff dest!: map_of_SomeD)
  then show ?thesis unfolding hermes_tool_name_def by (rule partition_dunder_append)
qed

theorem tool_name_parses_back_witness:
  "partition_dunder ''toee_case__create_case'' = (''toee_case'', ''create_case'')"
proof -
  have "is_tool_action ''toee_case'' ''create_case''" by code_simp
  from tool_name_parses_back [OF this] show ?thesis by (simp add: hermes_tool_name_def)
qed

end
