(* ===== verification/Spec2Isabelle.thy ===== *)
theory Spec2Isabelle
  imports Worker Transcript Accounts DeadLetter MemoryHandlers ExperienceHandlers DispatchApp GatewayApp VendorReads Deliveries IdentityLookup Metrics CopilotTurn Integrations EvalGate Composition GatewayHarness Smoke ToolSchemas
begin

text \<open>
\<^bold>\<open>The program.\<close>  A virtual assistant for a B2B shop.  Customers text (or, simulated, mail) the shop; a
  gateway accepts the message, stores it and queues one turn; a worker runs the model for the turn
  with a small set of governed tools and delivers one reply; employees work the resulting cases in a
  Workbench that calls the same governed tools over HTTP.  The python sources are
  \<^verbatim>\<open>src/hermes/toee_hermes\<close> (the plugin: catalog, gates, gateway pipeline, mock drivers),
  \<^verbatim>\<open>src/hermes-runtime/hermes_runtime\<close> (the services and their Postgres store) and
  \<^verbatim>\<open>src/hermes/eval_runner\<close>.  Below, H, R and D stand for the first, the second and
  \<^verbatim>\<open>R/datastore/handlers\<close>.

  \<^bold>\<open>How the parts interact.\<close>
  \<^verbatim>\<open>R/gateway_app.py\<close> receives a webhook and runs \<^verbatim>\<open>H/gateway/pipeline.py\<close>: normalise, rate limit,
  duplicate check, opt-out, identity, session, persist.  Persisting
  (\<^verbatim>\<open>R/postgres_gateway_store.py\<close>) writes thread, session, message, case, snapshot, turn context and
  one row of the job queue (\<^verbatim>\<open>R/job_queue.py\<close>) in a transaction.  \<^verbatim>\<open>R/turn_worker.py\<close> claims the job,
  reloads the context, and \<^verbatim>\<open>R/turn_runner.py\<close> runs the model and delivers through the send log of
  \<^verbatim>\<open>R/outbound_send.py\<close>, which owns the question whether an event was answered.  The model's tools go
  through \<^verbatim>\<open>H/execute.py\<close>: catalog, gates, driver, one audit record.  The driver is the mock or
  \<^verbatim>\<open>R/datastore/driver.py\<close>, whose handlers run in one transaction with the audit log.

  \<^bold>\<open>Theories.\<close>
  \<^item> \<open>Prelude\<close>: texts, \<^verbatim>\<open>str.strip\<close>, json values, python errors as \<open>exn + 'a\<close>, association lists, the
    \<^verbatim>\<open>named_theorems\<close> collections and the table lemmas all components share.
  \<^item> \<open>Catalog\<close>: \<^verbatim>\<open>H/tool_catalog.py\<close>, \<^verbatim>\<open>H/plugin/profiles.py\<close> and the registration loop of
    \<^verbatim>\<open>H/plugin/__init__.py\<close>.
  \<^item> \<open>Dispatch\<close>: \<^verbatim>\<open>H/execute.py\<close>, \<^verbatim>\<open>H/tool_gate.py\<close>, \<^verbatim>\<open>H/gates\<close>, \<^verbatim>\<open>H/plugin/tools.py\<close>; a gate and a driver are
    functions, as in the source.
  \<^item> \<open>Normalize\<close>, \<open>Pipeline\<close>: \<^verbatim>\<open>H/gateway\<close>.
  \<^item> \<open>JobQueue\<close>, \<open>JobLifecycle\<close>: the queue's table and statements; the step relation of all callers and
    its invariants by rule induction.
  \<^item> \<open>Outbound\<close>: the send logs of \<^verbatim>\<open>R/outbound_send.py\<close>, in memory and on Postgres, behind one locale.
  \<^item> \<open>TurnRunner\<close>, \<open>Worker\<close>: \<^verbatim>\<open>R/turn_runner.py\<close>, \<^verbatim>\<open>R/agent_turn_job.py\<close>, \<^verbatim>\<open>R/turn_worker.py\<close>,
    \<^verbatim>\<open>R/background_worker.py\<close>.
  \<^item> \<open>Datastore\<close>: the tables of the migrations as lists of records, the connection of the driver with commit
    and rollback.
  \<^item> \<open>Store\<close>, \<open>StoreLaws\<close>: \<^verbatim>\<open>R/postgres_gateway_store.py\<close> and \<^verbatim>\<open>R/gateway_store.py\<close>; the laws both keep.
  \<^item> \<open>Cases\<close>, \<open>Accounts\<close>, \<open>DeadLetter\<close>, \<open>MemoryHandlers\<close>, \<open>ExperienceHandlers\<close>: the handler modules of D
    with the policies \<open>MemoryPolicy\<close> and \<open>ExperiencePolicy\<close> of \<^verbatim>\<open>H/drivers/mock\<close>.
  \<^item> \<open>IdentitySummary\<close>: \<^verbatim>\<open>H/identity/summary.py\<close> and the message id of \<^verbatim>\<open>H/drivers/mock/sms_reply.py\<close>.
  \<^item> \<open>GatewayApp\<close>, \<open>DispatchApp\<close>: the HTTP routes of \<^verbatim>\<open>R/gateway_app.py\<close>, \<^verbatim>\<open>R/tool_dispatch_app.py\<close>,
    \<^verbatim>\<open>R/agent_turn_app.py\<close>.
  \<^item> \<open>PyObjects\<close>: reads of unchecked values, and the deadline and error translation of vendor clients.
  \<^item> \<open>Attribution\<close>, \<open>VendorShapes\<close>, \<open>VendorReads\<close>: \<^verbatim>\<open>H/drivers/gadget.py\<close>, \<^verbatim>\<open>H/drivers/qbo_ar.py\<close> and
    \<^verbatim>\<open>H/drivers/composio/driver.py\<close>: who owns an invoice, the payload mappers, the driver.
  \<^item> \<open>Deliveries\<close>: \<^verbatim>\<open>H/drivers/easyroutes\<close> with its mock, \<^verbatim>\<open>H/drivers/delivery\<close>.
  \<^item> \<open>IdentityLookup\<close>: \<^verbatim>\<open>D/identity.py\<close> and the bounded lookup of \<^verbatim>\<open>datastore/shopify_identity.py\<close>.
  \<^item> \<open>Transcript\<close>: \<^verbatim>\<open>eval_runner/transcript.py\<close>.
  \<^item> \<open>PolicyGovernance\<close>: \<^verbatim>\<open>D/knowledge.py\<close>, \<^verbatim>\<open>D/eval_review.py\<close>, \<^verbatim>\<open>H/operational_policy.py\<close>.
  \<^item> \<open>Retention\<close>: \<^verbatim>\<open>D/retention.py\<close>, \<^verbatim>\<open>R/retention_sweep.py\<close> and the windows of \<^verbatim>\<open>H/drivers/mock/retention.py\<close>.
  \<^item> \<open>Injection\<close>: \<^verbatim>\<open>H/plugin/hooks.py\<close>, \<^verbatim>\<open>eval_runner/judge.py\<close>, \<^verbatim>\<open>eval_runner/judge_measure.py\<close>.
  \<^item> \<open>Metrics\<close>: \<^verbatim>\<open>R/honored_rate.py\<close>, \<^verbatim>\<open>D/metrics.py\<close>, \<^verbatim>\<open>H/drivers/mock/metrics.py\<close>.
  \<^item> \<open>Providers\<close>: the clients of \<^verbatim>\<open>R/openrouter.py\<close> and \<^verbatim>\<open>R/simpletexting_reply.py\<close>.
  \<^item> \<open>AgentTurn\<close>: \<^verbatim>\<open>R/tool_backend.py\<close>, \<^verbatim>\<open>R/boot.py\<close>, \<^verbatim>\<open>R/live.py\<close> and the External turn of \<^verbatim>\<open>R/openrouter.py\<close>.
  \<^item> \<open>CopilotTurn\<close>: \<^verbatim>\<open>R/copilot_turn.py\<close>, the draft turn and the review pass behind it.
  \<^item> \<open>Integrations\<close>: \<^verbatim>\<open>R/integration_probe.py\<close>, \<^verbatim>\<open>D/integrations.py\<close> and the authenticated reads they use.
  \<^item> \<open>MockDrivers\<close>: the rest of \<^verbatim>\<open>H/drivers/mock\<close> and the registry that merges all mock handlers.
  \<^item> \<open>Fixtures\<close>, \<open>EvalGate\<close>: \<^verbatim>\<open>eval_runner/fixtures.py\<close>; assertions, scenario registry, recording and replay, report
    and command of the other files of \<^verbatim>\<open>eval_runner\<close>.
  \<^item> \<open>Knowledge\<close>: \<^verbatim>\<open>R/knowledge\<close>: ingestion, the hybrid search, its driver and the gates over them.
  \<^item> \<open>Composition\<close>: \<^verbatim>\<open>R/gateway_composition.py\<close>, \<^verbatim>\<open>R/tool_dispatch_composition.py\<close>, \<^verbatim>\<open>R/home.py\<close>, the shells of the
    workers, the switch of \<^verbatim>\<open>R/scripted_eval.py\<close>, \<^verbatim>\<open>R/access_log.py\<close>, pools, settings and migrations.
  \<^item> \<open>Recording\<close>: the scripted provider of \<^verbatim>\<open>R/live.py\<close>, the table and run of \<^verbatim>\<open>R/scripted_eval.py\<close>,
    \<^verbatim>\<open>R/eval_record.py\<close>, \<^verbatim>\<open>R/copilot_eval_record.py\<close>, \<^verbatim>\<open>R/record_eval.py\<close> and \<^verbatim>\<open>R/judge_eval.py\<close>.
  \<^item> \<open>ToolSchemas\<close>: \<^verbatim>\<open>H/plugin/schemas.py\<close>, the parameter schemas under which a tool is offered.
  \<^item> \<open>Smoke\<close>: \<^verbatim>\<open>R/composio_smoke.py\<close>, the smoke test of the vendors' toolkits.
  \<^item> \<open>GatewayHarness\<close>: \<^verbatim>\<open>R/scripted_gateway_harness.py\<close>, the same turns through a running gateway; its poll loops
    take their number of polls as fuel and return when it covers the time-out.

  \<^bold>\<open>Correspondence.\<close>  A dataclass or table row is a \<open>record\<close>, an enum a \<open>datatype\<close>, a raise an \<open>Inl\<close> of \<open>exn\<close>
  that carries the class and the message, a dict an association list in insertion order.  A function that reads
  or writes state takes the state and returns it.  An SQL table is the list of its rows in physical order:
  \<^verbatim>\<open>ON CONFLICT DO NOTHING\<close> is \<open>insert_or_ignore\<close>, a primary key clash is the error of \<open>pk_insert\<close>,
  \<^verbatim>\<open>ORDER BY\<close> is a stable sort whose ties keep the table's order.  Definitions bear the source's names, with a
  prefix where two modules share one.

  \<^bold>\<open>What the lemmas show.\<close>  Delivery and queue: no event is delivered twice, a superseded worker
  cannot settle a job, claims are bounded, ids stay unique, each poll settles its row.  Ingress: an acknowledged
  message is stored with exactly one job, thread and case invariants hold, what is stored is read back.
  Governance: each call is audited once, a driver runs only behind its gates, a reply goes only to the
  turn's conversation.  Workbench: every write is attributed to one case and one actor, locks and replays follow
  their rules, the queue is a sorted permutation of its cases.  Memory and experience: read-your-write,
  isolation between customers, review of every entry, agreement of mock and Postgres.  Policy text: what is published passed its gate or was
  published before, and a rollback undoes a promotion.  Vendors: what a driver discloses belongs to the verified
  customer; a probe is green only for a read that came back, and the status page hides every credential.  Turns: the
  memory a turn shows is the caller's own, the tools it may call and the drivers behind them are fixed by its profile
  and the switches, a draft always starts, is typed for its endpoint and leaves at most one review.  Some theorems state where
  the code does not do what it is meant to (a lookup outside the handler that keeps memory from blocking a turn, the tools a draft and a review keep, poll loops after 1024 failures, conversation ids with a colon,
  auto-handled views, the order list of an unverified caller, the unescaped memory fence, drafts changed after
  their evaluation).  Evaluation: the mock backend serves the catalog and discloses only what is the caller's, the exit
  code of the gate says which scenarios held, a replay is the recorded turn, and the promotion gate reads the
  report as the runner means it.  Knowledge: an ingestion keeps governed texts out of the search, a search answers with ranked
  rows of the table or the governed miss; the search for a published policy finds nothing in any turn.  Processes: which
  settings boot the gateway, that the scripted model and the linking of identities stay off elsewhere, that the access
  log hides the token, that a failed migration run is resumed, what a passed smoke test proves of a deployment.  Recording: a scripted turn is handed over and back once, the
  completions of a transcript are those it was made from, a recorded suite replays with the results that were reported.

  \<^bold>\<open>Bounds and fuel.\<close>  The poll loops take a number of polls as fuel; 1024 is enough since a loop that fails in
  every poll ends by itself there (\<open>outage_bound\<close>), and the fuelled loop is shown to return.  The scan for a
  pattern inside a text recurses on the text.  All integers of python are \<open>int\<close>; the 32-bit hash is
  compared with \<open>32 word\<close> arithmetic.

  \<^bold>\<open>Modelling assumptions.\<close>  Texts are Latin-1 without NUL; the one code point above that the code adds itself
  (the ellipsis) is a parameter.  Clocks, \<^verbatim>\<open>uuid4\<close> draws, \<^verbatim>\<open>scrypt\<close>, \<^verbatim>\<open>json.loads\<close> of a body, the SMS
  vendor and the model run are parameters; their properties, where used, are named hypotheses.  Times are
  microseconds, the session's time zone is UTC.  A transaction is atomic and handlers of one connection do not
  interleave inside it; interleavings of several workers are sequences of transactions.  The key order that
  \<^verbatim>\<open>JSONB\<close> imposes is not modelled.  The two reads of a knowledge search see the table in one state.

  A text is ordered by code point.  An SQL join lists its rows in table order, and the casts of a \<^verbatim>\<open>WHERE\<close> clause are
  evaluated from left to right.

  \<^bold>\<open>Not modelled.\<close>  The agent loop of the framework, which is a parameter of a turn, the
  embedding model and the full-text match of the knowledge search (parameters of \<open>Knowledge\<close>), the persona text, logging and
  signal handlers, the argument parsing and most printed reports of the command-line
  tools, and the Workbench's TypeScript.
\<close>

lemma persist_inbound_turn:
  assumes "persist_inbound_rows ex ev snap d = Inr ((tid, sid, turn, created), d')"
  shows "db_turns d' = insert_or_ignore m_id
     \<lparr>m_id = turn, m_sms_session_id = sid, m_customer_thread_id = tid, m_direction = ''inbound'',
      m_author = ''customer'', m_body = ev_body ev, m_auto_handled = False, m_created_at = ee_now ex\<rparr> (db_turns d)
    \<and> db_audit d' = db_audit d"
proof -
  have e: "db_turns d3 = db_turns d2 \<and> db_audit d3 = db_audit d2"
    if "ensure_open_case ex i t s p c d2 = Inr d3" for i t s p c d2 d3
    using ensure_open_case_frame [OF that] by auto
  have j: "db_turns d3 = db_turns d2 \<and> db_audit d3 = db_audit d2"
    if "insert_context_and_job ex ev t s u d2 = Inr (cr, d3)" for t s u cr d2 d3
    using insert_context_and_jobD [OF that] by (auto split: if_splits)
  from assms show ?thesis
    unfolding persist_inbound_rows_def Let_def
    by (auto simp: exn_simps dest!: e j)
qed

lemma sms_thread_id_of_event: "customer_thread_id (channel_column (ev_channel (to_inbound_channel_event f)))
     (ev_from_phone (to_inbound_channel_event f)) = sms_thread_id (fld_from_phone f)"
  by (simp add: sms_thread_id_def to_inbound_channel_event_def Let_def channel_column_def is_email_channel_def
      SIMPLETEXTING_SMS_def SIMULATED_EMAIL_def)

text \<open>Every case id is used once, and every thread has the id its channel and address give.\<close>

definition lookup_inv :: "db \<Rightarrow> bool" where
  "lookup_inv d \<longleftrightarrow> distinct (map c_id (db_cases d)) \<and> [] \<notin> c_id ` set (db_cases d)
     \<and> (\<forall>t \<in> set (db_threads d). t_id t = customer_thread_id (t_channel t) (t_channel_identity t))"

lemma lookup_inv_empty: "lookup_inv empty_db"
  by (simp add: lookup_inv_def empty_db_def)

lemma customer_thread_id_column: "customer_thread_id (channel_column ch) x = customer_thread_id ch x"
  by (simp add: customer_thread_id_def channel_column_def EMAIL_CHANNELS_def is_email_channel_def SIMULATED_EMAIL_def)

lemma ensure_open_case_distinct:
  "ensure_open_case ex i tid sid p ch d = Inr d' \<Longrightarrow> distinct (map c_id (db_cases d)) \<Longrightarrow>
   [] \<notin> c_id ` set (db_cases d) \<Longrightarrow> distinct (map c_id (db_cases d')) \<and> [] \<notin> c_id ` set (db_cases d')"
  by (auto simp: ensure_open_case_def exn_simps pk_insert_Inr update_where_keys new_id_def set_update_where
      split: option.splits dest!: find_SomeD)

lemma persist_rows_lookup:
  assumes p: "persist_inbound_rows ex ev snap d = Inr ((tid, sid, turn, created), d')" and "lookup_inv d"
  shows "lookup_inv d' \<and> tid = customer_thread_id (ev_channel ev) (ev_from_phone ev)"
proof -
  from persist_inbound_rowsD [OF p] obtain cust threads d2 where
    up: "upsert_thread (ee_now ex) (customer_thread_id (ev_channel ev) (ev_from_phone ev))
        (channel_column (ev_channel ev)) (ev_from_phone ev) cust (db_threads d) = Inr (tid, threads)"
    and t: "db_threads d' = threads" and c: "db_cases d2 = db_cases d"
      "ensure_open_case ex 2 tid sid (ev_body ev) (channel_column (ev_channel ev)) d2 = Inr d'" by blast
  have ids: "\<forall>t \<in> set (db_threads d). t_id t = customer_thread_id (t_channel t) (t_channel_identity t)"
    and "distinct (map c_id (db_cases d))" "[] \<notin> c_id ` set (db_cases d)" using assms(2) by (simp_all add: lookup_inv_def)
  with ensure_open_case_distinct [OF c(2)] c(1) have dc: "distinct (map c_id (db_cases d'))" "[] \<notin> c_id ` set (db_cases d')" by simp_all
  from up have "(\<forall>t \<in> set threads. t_id t = customer_thread_id (t_channel t) (t_channel_identity t))
    \<and> tid = customer_thread_id (ev_channel ev) (ev_from_phone ev)"
  proof (cases rule: upsert_thread_cases)
    case (upd r)
    have "t_id t = customer_thread_id (t_channel t) (t_channel_identity t)" if "t \<in> set threads" for t
    proof -
      from that obtain i where i: "i < length threads" "t = threads ! i" by (auto simp: in_set_conv_nth)
      have l: "length threads = length (db_threads d)" using upd(5) by (metis length_map)
      have "t_id t = t_id (db_threads d ! i)" "t_channel t = t_channel (db_threads d ! i)"
        "t_channel_identity t = t_channel_identity (db_threads d ! i)"
        using upd(5-7) i l by (metis nth_map)+
      with ids i l show ?thesis by simp
    qed
    moreover have "tid = customer_thread_id (ev_channel ev) (ev_from_phone ev)"
      using ids upd(1-4) by (simp add: customer_thread_id_column)
    ultimately show ?thesis by blast
  next
    case (ins r)
    with ids show ?thesis by (auto simp: customer_thread_id_column)
  qed
  with dc t show ?thesis by (simp add: lookup_inv_def)
qed

lemma run_persists_lookup: "lookup_inv d \<Longrightarrow> lookup_inv (run_persists (\<lambda>n. pg_gateway_store (ex n)) dcs d)"
proof (induction dcs arbitrary: ex d)
  case (Cons dc dcs)
  obtain res d1 where p: "persist_accepted_inbound (ex 0) dc d = (res, d1)" by force
  then have "lookup_inv d1"
  proof (cases rule: persist_accepted_inbound_cases)
    case (refused e)
    with Cons.prems show ?thesis by simp
  next
    case (stored ev tid sid turn created d3)
    with persist_rows_lookup [OF stored(3) Cons.prems] show ?thesis by simp
  qed
  from Cons.IH [OF this, of "ex \<circ> Suc"] p show ?case by (simp add: pg_gateway_store_def comp_def)
qed simp

section \<open>Properties across components\<close>

text \<open>The simulator's read-back finds what the gateway stored: looking up the thread of the
  sender's number, in any spelling that normalises alike, after any history of the gateway's writes, returns the case with the thread's
  messages in time order, the stored text among them, and audits the view.\<close>

theorem persisted_sms_is_found:
  assumes d: "d = run_persists (\<lambda>n. pg_gateway_store (exs n)) dcs empty_db"
    and p: "persist_inbound_rows ex (to_inbound_channel_event f) snap d = Inr ((tid, sid, turn, created), d')"
    and "turn \<notin> m_id ` set (db_turns d)" and "new_id ''audit'' ex2 0 \<notin> a_id ` set (db_audit d)"
    and "read_string params [''from_phone'', ''fromPhone''] = Some phone"
    and "normalize_e164 phone = normalize_e164 (fld_from_phone f)"
  shows "\<exists>shown d'' ch turns. get_thread_by_phone ex2 params c d'
      = (Inr (JObj [(''case'', shown), (''messages'', JList (map (message_json ch) turns))]), d'')
    \<and> (\<exists>m \<in> set turns. m_id m = turn \<and> m_body m = fld_body f)
    \<and> sorted (map m_created_at turns)
    \<and> (\<exists>a. db_audit d'' = db_audit d' @ [a] \<and> a_action a = ''case_view'')"
proof -
  let ?ev = "to_inbound_channel_event f"
  have "lookup_inv d" unfolding d by (rule run_persists_lookup [OF lookup_inv_empty])
  from persist_rows_lookup [OF p this] have inv: "distinct (map c_id (db_cases d'))" "[] \<notin> c_id ` set (db_cases d')"
    and tid: "tid = customer_thread_id (ev_channel ?ev) (ev_from_phone ?ev)" by (simp_all add: lookup_inv_def)
  have tid': "sms_thread_id phone = tid"
    using sms_thread_id_of_event [of f] assms(6) by (simp add: tid customer_thread_id_column sms_thread_id_def)
  have "filter (\<lambda>r. c_customer_thread_id r = Some tid) (db_cases d') \<noteq> []"
  proof -
    have "0 < open_cases d' tid" using persist_open_cases [OF p, of tid] by simp
    then have "filter (\<lambda>r. c_customer_thread_id r = Some tid \<and> case_is_open r) (db_cases d') \<noteq> []"
      by (simp add: open_cases_def)
    then show ?thesis by (auto simp: filter_empty_conv)
  qed
  then have "order_desc c_opened_at (filter (\<lambda>r. c_customer_thread_id r = Some tid) (db_cases d')) \<noteq> []"
    by (metis set_order_desc set_empty)
  then obtain row rest where row: "order_desc c_opened_at (filter (\<lambda>r. c_customer_thread_id r = Some tid) (db_cases d')) = row # rest"
    by (meson list.exhaust)
  then have r: "row \<in> set (db_cases d')" "c_customer_thread_id row = Some tid"
    using order_desc_hd [OF row] by auto
  have f: "find_case (c_id row) d' = Some row" by (rule find_case_unique [OF inv(1) r(1)])
  define ch where "ch = (if c_channel row = [] then ''sms'' else c_channel row)"
  define turns where "turns = order_asc m_created_at (thread_turns (Some tid) d')"
  have ne: "tid \<noteq> []" by (simp add: tid customer_thread_id_def)
  note new = persist_inbound_turn [OF p]
  obtain d'' a where au: "audit_case ex2 0 c (user_id c) ''case_view'' (c_id row) [(''customer_thread_id'', JStr tid)] d' = Inr d''"
    "db_audit d'' = db_audit d' @ [a]" "a_action a = ''case_view''"
    using assms(4) new by (auto simp: audit_case_def insert_audit_Inr)
  have id: "require_case_id [(''case_id'', JStr (c_id row))] = Inr (c_id row)"
    using r(1) inv(2) by (force simp: require_case_id_def dict_simps)
  have "get_thread_by_phone ex2 params c d' = (Inr (JObj [(''case'', JObj (read_model (ee_now ex2) d' row)),
      (''messages'', JList (map (message_json ch) turns))]), d'')"
    using assms(5) row f id au(1) ne r(2)
    by (simp add: get_thread_by_phone_def get_thread_of_def tid' latest_case_id_for_thread_def get_thread_def
        exn_simps unit_of_work_def Let_def thread_messages_def ch_def turns_def or_empty_def falsy_def)
  moreover have "\<exists>m \<in> set turns. m_id m = turn \<and> m_body m = fld_body f"
    using new assms(3) by (auto simp: turns_def order_asc_def thread_turns_def insert_or_ignore_def
        to_inbound_channel_event_def Let_def)
  moreover have "sorted (map m_created_at turns)" by (simp add: turns_def order_asc_def)
  ultimately show ?thesis using au(2,3) by blast
qed

definition sample_fields :: sms_fields where
  "sample_fields = \<lparr>fld_event_id = ''evt_1'', fld_conversation_id = ''+14165550101'', fld_from_phone = ''4165550101'',
     fld_body = ''hello'', fld_received_at = ''now'', fld_raw_event_type = ''INCOMING_MESSAGE'', fld_media_urls = None\<rparr>"

theorem persisted_sms_is_found_witness:
  "\<exists>d' shown d'' ch turns m. get_thread_by_phone sample_env [(''from_phone'', JStr ''(416) 555-0101'')] (rep_ctx ''acct_1'') d'
      = (Inr (JObj [(''case'', shown), (''messages'', JList (map (message_json ch) turns))]), d'')
    \<and> m \<in> set turns \<and> m_body m = ''hello''"
proof -
  obtain tid sid turn created d' where p: "persist_inbound_rows sample_env (to_inbound_channel_event sample_fields) None empty_db
       = Inr ((tid, sid, turn, created), d')"
    by (simp add: persist_inbound_rows_def Let_def upsert_thread_def text_or_null_def exn_simps empty_db_def
        pk_insert_def insert_context_and_job_def insert_job_def as_payload_def payload_json_def ensure_open_case_def)
  have r: "read_string [(''from_phone'', JStr ''(416) 555-0101'')] [''from_phone'', ''fromPhone''] = Some ''(416) 555-0101''"
    "normalize_e164 ''(416) 555-0101'' = normalize_e164 ''4165550101''" by code_simp+
  have e: "turn \<notin> m_id ` set (db_turns empty_db)" "new_id ''audit'' sample_env 0 \<notin> a_id ` set (db_audit empty_db)"
    "empty_db = run_persists (\<lambda>n. pg_gateway_store (undefined n)) [] empty_db"
    by (simp_all add: empty_db_def)
  from persisted_sms_is_found [OF e(3) p e(1,2) r(1), of "rep_ctx ''acct_1''"] r(2) show ?thesis
    by (fastforce simp: sample_fields_def)
qed

end
